(* ===== verification/Aurexis_Prelude.thy ===== *)
theory Aurexis_Prelude
  imports Complex_Main
begin

section \<open>Prelude: shared vocabulary and generic lemmas\<close>

text \<open>
  What the component theories share.  Python exceptions are values of \<open>pyexc\<close>; a fallible
  operation returns \<open>pyexc + 'a\<close>, and \<open>bind_res\<close> stops at the first error as an exception
  does.  \<open>last_n\<close> is Python's \<open>xs[-k:]\<close>.  Collections: \<open>dec_simps\<close> evaluates decimal
  arithmetic on concrete inputs, \<open>dec_bounds\<close> holds the sign and bound facts of the rounded
  operations, \<open>inv_intros\<close> the invariant-preservation facts of the stateful components.
\<close>

named_theorems dec_simps "evaluation of rounded arithmetic on concrete inputs"
named_theorems dec_bounds "signs and bounds of rounded arithmetic"
named_theorems inv_intros "preservation of component invariants"

datatype pyexc =
    ValueError string
  | ZeroDivision
  | IndexError
  | InvalidOperation

type_synonym 'a res = "pyexc + 'a"

fun bind_res :: "'e + 'a \<Rightarrow> ('a \<Rightarrow> 'e + 'b) \<Rightarrow> 'e + 'b" where
  "bind_res (Inl e) f = Inl e"
| "bind_res (Inr x) f = f x"

lemma bind_res_InrE:
  assumes "bind_res m f = Inr y"
  obtains x where "m = Inr x" "f x = Inr y"
  using assms by (cases m) auto

lemma bind_res_total:
  assumes "\<exists>x. m = Inr x" "\<And>x. \<exists>y. f x = Inr y"
  shows "\<exists>y. bind_res m f = Inr y"
  using assms by auto

lemma if_res_total:
  "\<exists>y. m = Inr y \<Longrightarrow> \<exists>y. m' = Inr y \<Longrightarrow> \<exists>y. (if b then m else m') = Inr y"
  by simp

text \<open>Python's \<open>x or d\<close> for an optional value whose falsy values are \<open>None\<close> and \<open>0\<close>.\<close>

definition or_default :: "('a::zero) option \<Rightarrow> 'a \<Rightarrow> 'a" where
  "or_default v d = (case v of None \<Rightarrow> d | Some x \<Rightarrow> if x = 0 then d else x)"

lemma or_default_nonzero: "d \<noteq> 0 \<Longrightarrow> or_default v d \<noteq> 0"
  by (simp add: or_default_def split: option.splits)

text \<open>\<open>correlation_id or str(uuid.uuid4())\<close>: an empty id counts as missing; \<open>fresh\<close> is the uuid.\<close>

definition choose_correlation_id :: "string option \<Rightarrow> string \<Rightarrow> string" where
  "choose_correlation_id given fresh =
     (case given of Some i \<Rightarrow> if i = [] then fresh else i | None \<Rightarrow> fresh)"

definition orelse :: "'a option \<Rightarrow> 'a option \<Rightarrow> 'a option" where
  "orelse a b = (case a of None \<Rightarrow> b | Some x \<Rightarrow> Some x)"

lemma orelse_Some: "orelse a b = Some x \<longleftrightarrow> a = Some x \<or> a = None \<and> b = Some x"
  by (auto simp: orelse_def split: option.splits)

text \<open>The first check that blocks.\<close>

fun first_some :: "'a option list \<Rightarrow> 'a option" where
  "first_some [] = None"
| "first_some (None # xs) = first_some xs"
| "first_some (Some x # xs) = Some x"

lemma first_some_None [simp]: "first_some xs = None \<longleftrightarrow> list_all (\<lambda>x. x = None) xs"
  by (induction xs rule: first_some.induct) auto

lemma first_some_skip: "x \<in> set xs \<Longrightarrow> x \<noteq> None \<Longrightarrow> \<exists>y. first_some xs = Some y"
  by (induction xs rule: first_some.induct) auto

lemma first_some_mem: "first_some xs = Some x \<Longrightarrow> Some x \<in> set xs"
  by (induction xs rule: first_some.induct) auto

text \<open>A list of results: all of them, or the first error.\<close>

fun all_res :: "('e + 'a) list \<Rightarrow> 'e + 'a list" where
  "all_res [] = Inr []"
| "all_res (Inl e # rs) = Inl e"
| "all_res (Inr x # rs) = bind_res (all_res rs) (\<lambda>xs. Inr (x # xs))"

lemma all_res_Inr: "all_res rs = Inr xs \<longleftrightarrow> rs = map Inr xs"
proof (induction rs arbitrary: xs rule: all_res.induct)
  case (3 x rs)
  show ?case
  proof (cases "all_res rs")
    case (Inl e)
    with 3 have "rs \<noteq> map Inr ys" for ys by auto
    with Inl show ?thesis by (auto simp: map_eq_Cons_conv)
  next
    case (Inr ys)
    with 3 have "rs = map Inr ys" by blast
    with Inr show ?thesis by (auto simp: inj_map_eq_map inj_def)
  qed
qed (auto simp: Cons_eq_map_conv)

text \<open>Python's \<open>str.strip()\<close> and \<open>str.upper()\<close>; characters are code points below 256.\<close>

definition py_space :: "char \<Rightarrow> bool" where
  "py_space ch \<longleftrightarrow> (let n = (of_char ch :: nat) in 9 \<le> n \<and> n \<le> 13 \<or> 28 \<le> n \<and> n \<le> 32 \<or> n = 133 \<or> n = 160)"

definition py_strip :: "string \<Rightarrow> string" where
  "py_strip s = rev (dropWhile py_space (rev (dropWhile py_space s)))"

lemma length_py_strip: "length (py_strip s) \<le> length s"
proof -
  have "length (dropWhile P xs) \<le> length xs" for P and xs :: string
    by (induction xs) auto
  then show ?thesis unfolding py_strip_def by (metis length_rev order_trans)
qed

text \<open>Python's slice \<open>xs[-k:]\<close> for \<open>k > 0\<close>.\<close>

definition last_n :: "nat \<Rightarrow> 'a list \<Rightarrow> 'a list" where
  "last_n k xs = drop (length xs - k) xs"

lemma length_last_n [simp]: "length (last_n k xs) = min k (length xs)"
  by (simp add: last_n_def)

lemma set_last_n_subset: "set (last_n k xs) \<subseteq> set xs"
  by (simp add: last_n_def set_drop_subset)

lemma last_n_all: "length xs \<le> k \<Longrightarrow> last_n k xs = xs"
  by (simp add: last_n_def)

lemma sorted_wrt_last_n: "sorted_wrt P xs \<Longrightarrow> sorted_wrt P (last_n k xs)"
  by (simp add: last_n_def)

lemma last_last_n: "xs \<noteq> [] \<Longrightarrow> 0 < k \<Longrightarrow> last (last_n k xs) = last xs"
  by (simp add: last_n_def)

text \<open>Folds that keep an invariant.\<close>

lemma foldl_invariant:
  assumes "I s" and "\<And>s x. x \<in> set xs \<Longrightarrow> I s \<Longrightarrow> I (f s x)"
  shows "I (foldl f s xs)"
  using assms by (induction xs arbitrary: s) auto

lemma sorted_wrt_snoc:
  "sorted_wrt P xs \<Longrightarrow> (\<And>x. x \<in> set xs \<Longrightarrow> P x y) \<Longrightarrow> sorted_wrt P (xs @ [y])"
  by (simp add: sorted_wrt_append)

text \<open>Python's \<open>int(x)\<close> truncates towards zero.\<close>

definition py_int :: "rat \<Rightarrow> int" where
  "py_int x = (if 0 \<le> x then \<lfloor>x\<rfloor> else - \<lfloor>- x\<rfloor>)"

lemma py_int_mono:
  assumes "x \<le> y"
  shows "py_int x \<le> py_int y"
proof (cases "0 \<le> x")
  case True
  with assms show ?thesis by (simp add: py_int_def floor_mono)
next
  case False
  then have nx: "- \<lfloor>- x\<rfloor> \<le> 0" by (simp add: le_floor_iff)
  show ?thesis
  proof (cases "0 \<le> y")
    case True
    then have "0 \<le> \<lfloor>y\<rfloor>" by simp
    moreover have "py_int x = - \<lfloor>- x\<rfloor>" using False by (simp add: py_int_def)
    moreover have "py_int y = \<lfloor>y\<rfloor>" using True by (simp add: py_int_def)
    ultimately show ?thesis using nx by linarith
  next
    case yneg: False
    have "\<lfloor>- y\<rfloor> \<le> \<lfloor>- x\<rfloor>" using assms by (intro floor_mono) simp
    then show ?thesis using False yneg by (simp add: py_int_def)
  qed
qed

lemma py_int_of_int [simp]: "py_int (of_int n) = n"
  by (simp add: py_int_def)

lemma py_int_nonneg: "0 \<le> x \<Longrightarrow> 0 \<le> py_int x"
  by (simp add: py_int_def)

end
