(* ===== verification/Rounding.thy ===== *)
theory Rounding
  imports Aurexis_Prelude
begin

section \<open>Rounded arithmetic: Python's \<open>Decimal\<close> and \<open>float\<close> as rationals\<close>

text \<open>
  A finite \<open>Decimal\<close> or \<open>float\<close> is the rational number it denotes; every arithmetic operation
  is the exact operation followed by the rounding of its number format.  \<open>rnd b p x\<close> rounds \<open>x\<close>
  to \<open>p\<close> significant digits in base \<open>b\<close>, ties to even: \<open>rnd 10 28\<close> is the default \<open>decimal\<close>
  context (28 digits, \<open>ROUND_HALF_EVEN\<close>), \<open>rnd 2 53\<close> is binary64.  Left out are the values and
  limits the program never reaches: NaN, infinities, signed zero, and exponents beyond the
  formats' ranges (\<open>Emax = 999999\<close>, \<open>2^1024\<close>, subnormals).  Two decimals that differ only in
  trailing zeros are the same value here, as they are for Python's comparisons.
\<close>

subsection \<open>Round half to even on integers\<close>

definition rhe :: "rat \<Rightarrow> int" where
  "rhe x = (let f = \<lfloor>x\<rfloor>; d = x - of_int f
            in if d < 1 / 2 then f else if 1 / 2 < d then f + 1
               else if even f then f else f + 1)"

lemma rhe_of_int [simp]: "rhe (of_int n) = n"
  by (simp add: rhe_def)

lemma rhe_zero [simp]: "rhe 0 = 0"
  by (simp add: rhe_def)

lemma rhe_bounds: "\<lfloor>x\<rfloor> \<le> rhe x" "rhe x \<le> \<lfloor>x\<rfloor> + 1"
  by (simp_all add: rhe_def Let_def)

lemma rhe_mono:
  assumes "x \<le> y"
  shows "rhe x \<le> rhe y"
proof (cases "\<lfloor>x\<rfloor> = \<lfloor>y\<rfloor>")
  case True
  with assms show ?thesis by (auto simp: rhe_def Let_def)
next
  case False
  with assms floor_mono [OF assms] have "\<lfloor>x\<rfloor> + 1 \<le> \<lfloor>y\<rfloor>" by linarith
  with rhe_bounds(2) [of x] rhe_bounds(1) [of y] show ?thesis by linarith
qed

lemma rhe_close: "\<bar>of_int (rhe x) - x\<bar> \<le> 1 / 2"
proof -
  have "0 \<le> x - of_int \<lfloor>x\<rfloor>" "x - of_int \<lfloor>x\<rfloor> < 1" by linarith+
  then show ?thesis by (auto simp: rhe_def Let_def abs_le_iff)
qed

lemma rhe_le_int: "x \<le> of_int n \<Longrightarrow> rhe x \<le> n"
  using rhe_mono [of x "of_int n"] by simp

lemma rhe_ge_int: "of_int n \<le> x \<Longrightarrow> n \<le> rhe x"
  using rhe_mono [of "of_int n" x] by simp

subsection \<open>The magnitude of a positive number\<close>

lemma mag_term_up:
  fixes x :: rat
  assumes "2 \<le> b" "of_int b \<le> x"
  shows "nat \<lfloor>x / of_int b\<rfloor> < nat \<lfloor>x\<rfloor>" "1 \<le> x / of_int b"
proof -
  have b: "(2::rat) \<le> of_int b" using assms(1) by simp
  show one: "1 \<le> x / of_int b" using assms b by simp
  have "x / of_int b \<le> x / 2"
    using b assms(2) by (intro divide_left_mono) auto
  moreover have "x / 2 + 1 \<le> x" using b assms(2) by linarith
  ultimately have "\<lfloor>x / of_int b + 1\<rfloor> \<le> \<lfloor>x\<rfloor>" by (intro floor_mono) linarith
  then have "\<lfloor>x / of_int b\<rfloor> < \<lfloor>x\<rfloor>" by simp
  moreover have "0 \<le> \<lfloor>x / of_int b\<rfloor>" using one by simp
  ultimately show "nat \<lfloor>x / of_int b\<rfloor> < nat \<lfloor>x\<rfloor>" by linarith
qed

lemma mag_term_down:
  fixes x :: rat
  assumes "2 \<le> b" "0 < x" "x * of_int b < 1"
  shows "nat \<lfloor>1 / (x * of_int b)\<rfloor> < nat \<lfloor>1 / x\<rfloor>"
proof -
  have b: "(2::rat) \<le> of_int b" using assms(1) by simp
  define z where "z = 1 / (x * of_int b)"
  have z1: "1 \<le> z" using assms b by (simp add: z_def)
  have "1 / x = of_int b * z" using assms(2) b by (simp add: z_def)
  moreover have "z + 1 \<le> 2 * z" using z1 by simp
  moreover have "2 * z \<le> of_int b * z" using b z1 by (intro mult_right_mono) auto
  ultimately have "z + 1 \<le> 1 / x" by linarith
  then have "\<lfloor>z + 1\<rfloor> \<le> \<lfloor>1 / x\<rfloor>" by (rule floor_mono)
  then have "\<lfloor>z\<rfloor> < \<lfloor>1 / x\<rfloor>" by simp
  moreover have "0 \<le> \<lfloor>z\<rfloor>" using z1 by simp
  ultimately show ?thesis unfolding z_def by linarith
qed

text \<open>
  \<open>mag b x\<close> is the exponent of the leading digit: \<open>b ^ mag \<le> x < b ^ (mag + 1)\<close>.  Python's
  \<open>Decimal.adjusted()\<close> for \<open>b = 10\<close>, \<open>math.frexp\<close>'s exponent less one for \<open>b = 2\<close>.
\<close>

function mag :: "int \<Rightarrow> rat \<Rightarrow> int" where
  "mag b x =
     (if b < 2 \<or> x \<le> 0 then 0
      else if of_int b \<le> x then mag b (x / of_int b) + 1
      else if x < 1 then mag b (x * of_int b) - 1
      else 0)"
  by pat_completeness auto

termination
proof (relation "measure (\<lambda>(b, x). if x < 1 then nat \<lfloor>1 / x\<rfloor> + nat b else nat \<lfloor>x\<rfloor>)", goal_cases)
  case 1
  show ?case by simp
next
  case (2 b x)
  then have "2 \<le> b" "of_int b \<le> x" by auto
  from mag_term_up [OF this] \<open>of_int b \<le> x\<close> \<open>2 \<le> b\<close> show ?case by auto
next
  case (3 b x)
  then have b: "2 \<le> b" and x: "0 < x" "x < 1" by auto
  show ?case
  proof (cases "x * of_int b < 1")
    case True
    with mag_term_down [OF b x(1) True] x show ?thesis by simp
  next
    case False
    have "x * of_int b \<le> of_int b" using x b by (simp add: mult_left_le_one_le)
    then have "\<lfloor>x * of_int b\<rfloor> \<le> \<lfloor>of_int b :: rat\<rfloor>" by (rule floor_mono)
    then have "\<lfloor>x * of_int b\<rfloor> \<le> b" by simp
    moreover have "1 \<le> \<lfloor>1 / x\<rfloor>" using x by simp
    ultimately have "nat \<lfloor>x * of_int b\<rfloor> < nat \<lfloor>1 / x\<rfloor> + nat b" by linarith
    then show ?thesis using False x b by simp
  qed
qed

declare mag.simps [simp del]

lemma mag_spec:
  assumes "2 \<le> b" "0 < x"
  shows "of_int b powi mag b x \<le> x \<and> x < of_int b powi (mag b x + 1)"
  using assms
proof (induction b x rule: mag.induct)
  case (1 b x)
  have b0: "(of_int b :: rat) > 0" using "1.prems"(1) by simp
  show ?case
  proof (cases "of_int b \<le> x")
    case True
    with 1 have IH: "of_int b powi mag b (x / of_int b) \<le> x / of_int b"
      "x / of_int b < of_int b powi (mag b (x / of_int b) + 1)" using b0 by auto
    have m: "mag b x = mag b (x / of_int b) + 1"
      using True "1.prems" by (subst mag.simps) simp
    show ?thesis using IH b0 unfolding m
      by (simp add: power_int_add field_simps power2_eq_square)
  next
    case big: False
    show ?thesis
    proof (cases "x < 1")
      case True
      with 1 big have IH: "of_int b powi mag b (x * of_int b) \<le> x * of_int b"
        "x * of_int b < of_int b powi (mag b (x * of_int b) + 1)" using b0 by auto
      have m: "mag b x = mag b (x * of_int b) - 1"
        using True big "1.prems" by (subst mag.simps) simp
      show ?thesis using IH b0 unfolding m
        by (simp add: power_int_diff power_int_add field_simps)
    next
      case False
      with big "1.prems" have "mag b x = 0" by (subst mag.simps) simp
      with False big show ?thesis by simp
    qed
  qed
qed

lemma powi_less_exp:
  "1 < (a :: rat) \<Longrightarrow> a powi m < a powi n \<Longrightarrow> m < n"
  using power_int_increasing [of n m a] by (cases "m < n") auto

lemma mag_unique:
  assumes "2 \<le> b" "of_int b powi e \<le> x" "x < of_int b powi (e + 1)"
  shows "mag b x = e"
proof -
  have b1: "(1::rat) < of_int b" using assms(1) by simp
  have "0 < (of_int b :: rat) powi e" using b1 by simp
  with assms(2) have x: "0 < x" by linarith
  from mag_spec [OF assms(1) x] have m: "of_int b powi mag b x \<le> x"
    "x < of_int b powi (mag b x + 1)" by auto
  have "(of_int b :: rat) powi e < of_int b powi (mag b x + 1)" using assms(2) m(2) by linarith
  then have "e < mag b x + 1" by (rule powi_less_exp [OF b1])
  moreover have "(of_int b :: rat) powi mag b x < of_int b powi (e + 1)" using assms(3) m(1)
    by linarith
  then have "mag b x < e + 1" by (rule powi_less_exp [OF b1])
  ultimately show ?thesis by linarith
qed

lemma mag_mono:
  assumes "2 \<le> b" "0 < x" "x \<le> y"
  shows "mag b x \<le> mag b y"
proof -
  have b1: "(1::rat) < of_int b" using assms(1) by simp
  from mag_spec [OF assms(1,2)] mag_spec [of b y] assms
  have "(of_int b :: rat) powi mag b x < of_int b powi (mag b y + 1)" by auto
  then have "mag b x < mag b y + 1" by (rule powi_less_exp [OF b1])
  then show ?thesis by simp
qed

subsection \<open>Rounding to \<open>p\<close> significant digits\<close>

definition rnd :: "int \<Rightarrow> nat \<Rightarrow> rat \<Rightarrow> rat" where
  "rnd b p x =
     (if x = 0 then 0
      else let u = of_int b powi (mag b \<bar>x\<bar> - int p + 1)
           in sgn x * of_int (rhe (\<bar>x\<bar> / u)) * u)"

text \<open>
  What the program relies on is a small contract: rounding is monotone, symmetric about zero,
  and does nothing to the numbers that fit the format.  Sign and bound facts follow from it.
\<close>

locale rounding =
  fixes rd :: "rat \<Rightarrow> rat" and fits :: "rat \<Rightarrow> bool"
  assumes rd_mono: "x \<le> y \<Longrightarrow> rd x \<le> rd y"
    and rd_minus: "rd (- x) = - rd x"
    and rd_fits: "fits c \<Longrightarrow> rd c = c"
    and fits_0: "fits 0"
    and fits_1: "fits 1"
    and fits_rd: "fits (rd x)"
begin

lemma rd_idem [simp]: "rd (rd x) = rd x"
  by (rule rd_fits) (rule fits_rd)

lemma rd_0 [simp]: "rd 0 = 0"
  by (rule rd_fits) (rule fits_0)

lemma rd_1 [simp]: "rd 1 = 1"
  by (rule rd_fits) (rule fits_1)

lemma rd_nonneg: "0 \<le> x \<Longrightarrow> 0 \<le> rd x"
  using rd_mono [of 0 x] by simp

lemma rd_nonpos: "x \<le> 0 \<Longrightarrow> rd x \<le> 0"
  using rd_mono [of x 0] by simp

lemma rd_pos_iff_arg: "0 < rd x \<Longrightarrow> 0 < x"
  using rd_nonpos [of x] by linarith

lemma rd_le_fits: "fits c \<Longrightarrow> x \<le> c \<Longrightarrow> rd x \<le> c"
  using rd_mono [of x c] rd_fits [of c] by simp

lemma rd_ge_fits: "fits c \<Longrightarrow> c \<le> x \<Longrightarrow> c \<le> rd x"
  using rd_mono [of c x] rd_fits [of c] by simp

lemma rd_abs: "rd \<bar>x\<bar> = \<bar>rd x\<bar>"
  using rd_nonneg [of x] rd_nonpos [of x] by (cases "0 \<le> x") (simp_all add: rd_minus)

lemma rd_le_1: "x \<le> 1 \<Longrightarrow> rd x \<le> 1"
  by (rule rd_le_fits [OF fits_1])

end

text \<open>The numbers that fit a radix format: an integer of at most \<open>p\<close> digits, scaled.\<close>

definition radix_fits :: "int \<Rightarrow> nat \<Rightarrow> rat \<Rightarrow> bool" where
  "radix_fits b p x \<longleftrightarrow> (\<exists>n e. x = of_int n * of_int b powi e \<and> \<bar>n\<bar> \<le> b ^ p)"

locale radix =
  fixes b :: int and p :: nat
  assumes base: "2 \<le> b" and digits: "1 \<le> p"
begin

lemma base_pos: "(0::rat) < of_int b" "(1::rat) < of_int b"
  using base by simp_all

lemma powi_pos: "(0::rat) < of_int b powi e"
  using base_pos by simp

definition ulp :: "rat \<Rightarrow> rat" where
  "ulp x = of_int b powi (mag b x - int p + 1)"

lemma ulp_pos: "0 < ulp x"
  by (simp add: ulp_def powi_pos)

lemma rnd_pos: "0 < x \<Longrightarrow> rnd b p x = of_int (rhe (x / ulp x)) * ulp x"
  by (simp add: rnd_def ulp_def Let_def)

lemma scaled_upper:
  assumes "0 < x" shows "x / ulp x < of_int (b ^ p)"
proof -
  have "x < of_int b powi (mag b x + 1)" using mag_spec [OF base assms] by simp
  also have "\<dots> = of_int (b ^ p) * ulp x"
    using base_pos by (simp add: ulp_def power_int_add power_int_diff)
  finally show ?thesis using ulp_pos [of x] by (simp add: pos_divide_less_eq)
qed

lemma scaled_lower:
  assumes "0 < x" shows "of_int (b ^ (p - 1)) \<le> x / ulp x"
proof -
  have "of_int (b ^ (p - 1)) * ulp x = of_int b powi (int (p - 1) + (mag b x - int p + 1))"
    using base_pos by (simp add: ulp_def power_int_add)
  also have "int (p - 1) + (mag b x - int p + 1) = mag b x" using digits by simp
  also have "of_int b powi mag b x \<le> x" using mag_spec [OF base assms] by simp
  finally show ?thesis using ulp_pos [of x] by (simp add: pos_le_divide_eq)
qed

text \<open>The rounded value stays in the decade of its argument (its upper end included).\<close>

lemma rnd_decade:
  assumes "0 < x"
  shows "of_int b powi mag b x \<le> rnd b p x" "rnd b p x \<le> of_int b powi (mag b x + 1)"
proof -
  have up: "rhe (x / ulp x) \<le> b ^ p"
    using scaled_upper [OF assms] by (intro rhe_le_int) simp
  have lo: "b ^ (p - 1) \<le> rhe (x / ulp x)"
    using scaled_lower [OF assms] by (intro rhe_ge_int) simp
  have "rnd b p x \<le> of_int (b ^ p) * ulp x"
    using up ulp_pos [of x] unfolding rnd_pos [OF assms]
    by (intro mult_right_mono) (simp_all only: of_int_le_iff less_imp_le)
  also have "\<dots> = of_int b powi (mag b x + 1)"
    using base_pos by (simp add: ulp_def power_int_add power_int_diff)
  finally show "rnd b p x \<le> of_int b powi (mag b x + 1)" .
  have "of_int b powi mag b x = of_int b powi (int (p - 1) + (mag b x - int p + 1))"
    using digits by simp
  also have "\<dots> = of_int (b ^ (p - 1)) * ulp x"
    using base_pos by (simp add: ulp_def power_int_add)
  also have "\<dots> \<le> rnd b p x"
    using lo ulp_pos [of x] unfolding rnd_pos [OF assms]
    by (intro mult_right_mono) (simp_all only: of_int_le_iff less_imp_le)
  finally show "of_int b powi mag b x \<le> rnd b p x" .
qed

lemma rnd_mono_pos:
  assumes "0 < x" "x \<le> y"
  shows "rnd b p x \<le> rnd b p y"
proof (cases "mag b x = mag b y")
  case True
  then have u: "ulp x = ulp y" by (simp add: ulp_def)
  have "rhe (x / ulp y) \<le> rhe (y / ulp y)"
    using assms ulp_pos [of y] by (intro rhe_mono divide_right_mono) auto
  then show ?thesis using assms ulp_pos [of y] by (simp add: rnd_pos u)
next
  case False
  with mag_mono [OF base assms] have "mag b x + 1 \<le> mag b y" by linarith
  then have "(of_int b :: rat) powi (mag b x + 1) \<le> of_int b powi mag b y"
    using base_pos by (intro power_int_increasing) auto
  with rnd_decade(2) [OF assms(1)] rnd_decade(1) [of y] assms show ?thesis by linarith
qed

lemma rnd_neg: "rnd b p (- x) = - rnd b p x"
  by (simp add: rnd_def sgn_minus Let_def)

lemma rnd_nonneg: "0 \<le> x \<Longrightarrow> 0 \<le> rnd b p x"
  using rnd_decade(1) [of x] powi_pos [of "mag b x"] by (cases "x = 0") (auto simp: rnd_def)

lemma rnd_gt_0: "0 < x \<Longrightarrow> 0 < rnd b p x"
  using rnd_decade(1) [of x] powi_pos [of "mag b x"] by linarith

lemma rnd_mono:
  assumes "x \<le> y" shows "rnd b p x \<le> rnd b p y"
proof -
  consider "0 < x" | "x \<le> 0" "0 \<le> y" | "y < 0" by linarith
  then show ?thesis
  proof cases
    case 1
    then show ?thesis using assms by (rule rnd_mono_pos)
  next
    case 2
    then show ?thesis using rnd_nonneg [of "- x"] rnd_nonneg [of y] by (simp add: rnd_neg)
  next
    case 3
    then show ?thesis using rnd_mono_pos [of "- y" "- x"] assms by (simp add: rnd_neg)
  qed
qed

text \<open>Integers of at most \<open>p\<close> digits, and their scalings, are fixed points.\<close>

lemma rnd_scaled_int:
  assumes n: "0 < n" "n \<le> b ^ p"
  shows "rnd b p (of_int n * of_int b powi e) = of_int n * of_int b powi e"
proof -
  define x where "x = (of_int n * of_int b powi e :: rat)"
  have x0: "0 < x" using n powi_pos by (simp add: x_def)
  show ?thesis
  proof (cases "mag b x - int p + 1 \<le> e")
    case True
    define k where "k = nat (e - (mag b x - int p + 1))"
    have e: "e = int k + (mag b x - int p + 1)" using True by (simp add: k_def)
    have "(of_int b :: rat) powi e = of_int (b ^ k) * of_int b powi (mag b x - int p + 1)"
      using base_pos by (subst e) (simp add: power_int_add)
    then have "x = of_int n * (of_int (b ^ k) * ulp x)"
      unfolding ulp_def by (subst x_def) simp
    then have "x = of_int (n * b ^ k) * ulp x" by simp
    then have "x / ulp x = of_int (n * b ^ k)" using ulp_pos [of x] by (simp add: field_simps)
    then have "rhe (x / ulp x) = n * b ^ k" by (simp only: rhe_of_int)
    then have "rnd b p x = of_int (n * b ^ k) * ulp x" by (simp only: rnd_pos [OF x0])
    with \<open>x = of_int (n * b ^ k) * ulp x\<close> show ?thesis by (simp only: x_def)
  next
    case False
    have up: "x \<le> of_int b powi (int p + e)"
    proof -
      have "(of_int n :: rat) \<le> of_int (b ^ p)" using n by (simp only: of_int_le_iff)
      then have "x \<le> of_int (b ^ p) * of_int b powi e"
        using powi_pos [of e] unfolding x_def by (intro mult_right_mono) auto
      then show ?thesis using base_pos by (simp add: power_int_add)
    qed
    have "of_int b powi mag b x \<le> x" using mag_spec [OF base x0] by simp
    moreover have "(of_int b :: rat) powi (int p + e) \<le> of_int b powi mag b x"
      using False base_pos by (intro power_int_increasing) auto
    ultimately have x: "x = of_int b powi mag b x" using up by linarith
    then have "x / ulp x = of_int (b ^ (p - 1))"
    proof -
      have "of_int (b ^ (p - 1)) * ulp x = of_int b powi (int (p - 1) + (mag b x - int p + 1))"
        using base_pos by (simp add: ulp_def power_int_add)
      also have "\<dots> = of_int b powi mag b x" using digits by simp
      finally show ?thesis using x ulp_pos [of x] by (simp add: field_simps)
    qed
    then have "rhe (x / ulp x) = b ^ (p - 1)" by (simp only: rhe_of_int)
    with \<open>x / ulp x = of_int (b ^ (p - 1))\<close> ulp_pos [of x] show ?thesis
      by (simp add: rnd_pos [OF x0] x_def [symmetric] field_simps)
  qed
qed

lemma rnd_fits:
  assumes "radix_fits b p x" shows "rnd b p x = x"
proof -
  from assms obtain n e where x: "x = of_int n * of_int b powi e" "\<bar>n\<bar> \<le> b ^ p"
    by (auto simp: radix_fits_def)
  consider "n = 0" | "0 < n" | "n < 0" by linarith
  then show ?thesis
  proof cases
    case 1
    then show ?thesis by (simp add: x rnd_def)
  next
    case 2
    then show ?thesis using x rnd_scaled_int [of n e] by simp
  next
    case 3
    have "rnd b p (of_int (- n) * of_int b powi e) = of_int (- n) * of_int b powi e"
      using 3 x(2) by (intro rnd_scaled_int) auto
    then show ?thesis using x(1) rnd_neg [of x] by simp
  qed
qed

text \<open>Conversely every rounded number fits, so rounding is idempotent.\<close>

lemma rnd_radix_fits: "radix_fits b p (rnd b p x)"
proof -
  have pos: "radix_fits b p (rnd b p y)" if "0 < y" for y
  proof -
    have "rhe (y / ulp y) \<le> b ^ p" using scaled_upper [OF that] by (intro rhe_le_int) simp
    moreover have "0 \<le> rhe (y / ulp y)" using that ulp_pos [of y] by (intro rhe_ge_int) simp
    ultimately have "\<bar>rhe (y / ulp y)\<bar> \<le> b ^ p" by linarith
    moreover have "rnd b p y = of_int (rhe (y / ulp y)) * of_int b powi (mag b y - int p + 1)"
      unfolding rnd_pos [OF that] by (simp only: ulp_def)
    ultimately show ?thesis unfolding radix_fits_def by blast
  qed
  consider "x = 0" | "0 < x" | "0 < - x" by linarith
  then show ?thesis
  proof cases
    case 1
    have "radix_fits b p 0" unfolding radix_fits_def by (rule exI [of _ 0]) (use base in auto)
    then show ?thesis by (simp add: 1 rnd_def)
  next
    case 2
    then show ?thesis by (rule pos)
  next
    case 3
    from pos [OF 3] obtain n e where "rnd b p (- x) = of_int n * of_int b powi e" "\<bar>n\<bar> \<le> b ^ p"
      by (auto simp: radix_fits_def)
    then have "rnd b p x = of_int (- n) * of_int b powi e \<and> \<bar>- n\<bar> \<le> b ^ p" by (simp add: rnd_neg)
    then show ?thesis unfolding radix_fits_def by blast
  qed
qed

text \<open>The rounding error is at most half a unit in the last place.\<close>

lemma rnd_error:
  assumes "0 < x" shows "\<bar>rnd b p x - x\<bar> \<le> ulp x / 2"
proof -
  have u: "0 < ulp x" by (rule ulp_pos)
  have "rnd b p x - x = (of_int (rhe (x / ulp x)) - x / ulp x) * ulp x"
    using u by (simp add: rnd_pos [OF assms] field_simps)
  then have "\<bar>rnd b p x - x\<bar> = \<bar>of_int (rhe (x / ulp x)) - x / ulp x\<bar> * ulp x"
    using u by (simp add: abs_mult)
  also have "\<dots> \<le> 1 / 2 * ulp x"
    using rhe_close [of "x / ulp x"] u by (intro mult_right_mono) auto
  finally show ?thesis by simp
qed

lemma rnd_rel_error:
  assumes "0 < x" shows "\<bar>rnd b p x - x\<bar> \<le> x / of_int (b ^ (p - 1))"
proof -
  have B: "0 < (of_int (b ^ (p - 1)) :: rat)" using base_pos by simp
  have "of_int (b ^ (p - 1)) * ulp x \<le> x"
    using scaled_lower [OF assms] ulp_pos [of x] by (simp add: pos_le_divide_eq)
  then have "ulp x \<le> x / of_int (b ^ (p - 1))"
    using B by (simp only: pos_le_divide_eq mult.commute)
  moreover have "ulp x / 2 \<le> ulp x" using ulp_pos [of x] by simp
  ultimately show ?thesis using rnd_error [OF assms] by linarith
qed

end

sublocale radix \<subseteq> rounding "rnd b p" "radix_fits b p"
proof
  show "rnd b p x \<le> rnd b p y" if "x \<le> y" for x y using that by (rule rnd_mono)
  show "rnd b p (- x) = - rnd b p x" for x by (rule rnd_neg)
  show "rnd b p c = c" if "radix_fits b p c" for c using that by (rule rnd_fits)
  show "radix_fits b p 0" unfolding radix_fits_def by (rule exI [of _ 0]) (use base in auto)
  show "radix_fits b p 1" unfolding radix_fits_def
    by (rule exI [of _ 1], rule exI [of _ 0]) (use base in auto)
  show "radix_fits b p (rnd b p x)" for x by (rule rnd_radix_fits)
qed

end
