(* ===== verification/Decimals.thy ===== *)
theory Decimals
  imports Rounding
begin

section \<open>Decimal and float operations\<close>

text \<open>
  The operations the program uses on \<open>Decimal\<close> values (\<open>dadd\<close>, \<open>dsub\<close>, \<open>dmul\<close>, \<open>ddiv\<close>,
  \<open>dabs\<close>, \<open>dneg\<close>, \<open>dsum\<close>, \<open>dquantize\<close>) and the float computations of elapsed time.  \<open>ddiv\<close> is
  used where the code guards the divisor; \<open>ddiv_res\<close> where a zero divisor raises.
\<close>

type_synonym dec = rat

definition dctx :: "rat \<Rightarrow> dec" where "dctx = rnd 10 28"

definition f64 :: "rat \<Rightarrow> rat" where "f64 = rnd 2 53"

definition dec_fits :: "rat \<Rightarrow> bool" where "dec_fits = radix_fits 10 28"

definition f64_fits :: "rat \<Rightarrow> bool" where "f64_fits = radix_fits 2 53"

interpretation dec10: radix 10 28 by unfold_locales simp_all

interpretation bin2: radix 2 53 by unfold_locales simp_all

interpretation dc: rounding dctx dec_fits
  unfolding dctx_def dec_fits_def by (rule dec10.rounding_axioms)

interpretation fl: rounding f64 f64_fits
  unfolding f64_def f64_fits_def by (rule bin2.rounding_axioms)

definition dadd :: "dec \<Rightarrow> dec \<Rightarrow> dec" where "dadd x y = dctx (x + y)"
definition dsub :: "dec \<Rightarrow> dec \<Rightarrow> dec" where "dsub x y = dctx (x - y)"
definition dmul :: "dec \<Rightarrow> dec \<Rightarrow> dec" where "dmul x y = dctx (x * y)"
definition ddiv :: "dec \<Rightarrow> dec \<Rightarrow> dec" where "ddiv x y = dctx (x / y)"
definition dabs :: "dec \<Rightarrow> dec" where "dabs x = dctx \<bar>x\<bar>"
definition dneg :: "dec \<Rightarrow> dec" where "dneg x = dctx (- x)"

definition ddiv_res :: "dec \<Rightarrow> dec \<Rightarrow> dec res" where
  "ddiv_res x y = (if y = 0 then Inl ZeroDivision else Inr (ddiv x y))"

text \<open>Python's \<open>sum(xs, Decimal("0"))\<close>.\<close>

definition dsum :: "dec list \<Rightarrow> dec" where "dsum xs = foldl dadd 0 xs"

text \<open>
  \<open>x.quantize(Decimal(10) ** -k)\<close>: the nearest multiple, ties to even; a result of more than 28
  digits raises \<open>InvalidOperation\<close>.  \<open>dquantize_down\<close> is \<open>quantize(Decimal("1"), ROUND_DOWN)\<close>.
\<close>

definition dquantize :: "nat \<Rightarrow> dec \<Rightarrow> dec res" where
  "dquantize k x = (let n = sgn x * of_int (rhe (\<bar>x\<bar> * 10 ^ k))
                    in if 10 ^ 28 \<le> \<bar>n\<bar> then Inl InvalidOperation else Inr (n / 10 ^ k))"

definition dquantize_down :: "dec \<Rightarrow> int res" where
  "dquantize_down x = (if 10 ^ 28 \<le> \<bar>py_int x\<bar> then Inl InvalidOperation else Inr (py_int x))"

lemmas dec_ops = dadd_def dsub_def dmul_def ddiv_def dabs_def dneg_def

subsection \<open>Numbers that fit\<close>

lemma dec_fits_scaled:
  assumes "x * 10 ^ k = of_int n" "\<bar>n\<bar> \<le> 10 ^ 28"
  shows "dec_fits x"
proof -
  have "x = of_int n * 10 powi (- int k)"
    using assms(1) by (simp add: power_int_minus field_simps)
  with assms(2) show ?thesis
    unfolding dec_fits_def radix_fits_def by (intro exI conjI) auto
qed

lemma dec_fits_int: "\<bar>n\<bar> \<le> 10 ^ 28 \<Longrightarrow> dec_fits (of_int n)"
  by (rule dec_fits_scaled [where k = 0]) simp_all

lemma dec_fits_nat: "n \<le> 10 ^ 28 \<Longrightarrow> dec_fits (of_nat n)"
  using dec_fits_int [of "int n"] by simp

lemma dec_fits_numeral: "numeral n \<le> (10 ^ 28 :: int) \<Longrightarrow> dec_fits (numeral n)"
  using dec_fits_int [of "numeral n"] by simp

lemma dctx_short [dec_simps]:
  assumes "x * 10 ^ 10 = of_int \<lfloor>x * 10 ^ 10\<rfloor>" "\<bar>\<lfloor>x * 10 ^ 10\<rfloor>\<bar> \<le> 10 ^ 28"
  shows "dctx x = x"
  by (rule dc.rd_fits) (rule dec_fits_scaled [OF assms])

lemma dctx_fits: "dec_fits x \<Longrightarrow> dctx x = x"
  by (rule dc.rd_fits)

subsection \<open>Signs and bounds\<close>

lemma dabs_nonneg [dec_bounds]: "0 \<le> dabs x"
  by (simp add: dabs_def dc.rd_nonneg)

lemma dadd_nonneg [dec_bounds]: "0 \<le> x \<Longrightarrow> 0 \<le> y \<Longrightarrow> 0 \<le> dadd x y"
  by (simp add: dadd_def dc.rd_nonneg)

lemma dmul_nonneg [dec_bounds]: "0 \<le> x \<Longrightarrow> 0 \<le> y \<Longrightarrow> 0 \<le> dmul x y"
  by (simp add: dmul_def dc.rd_nonneg)

lemma ddiv_nonneg [dec_bounds]: "0 \<le> x \<Longrightarrow> 0 \<le> y \<Longrightarrow> 0 \<le> ddiv x y"
  by (simp add: ddiv_def dc.rd_nonneg)

lemma dsub_nonneg [dec_bounds]: "y \<le> x \<Longrightarrow> 0 \<le> dsub x y"
  by (simp add: dsub_def dc.rd_nonneg)

lemma dctx_pos: "0 < x \<Longrightarrow> 0 < dctx x"
  unfolding dctx_def by (rule dec10.rnd_gt_0)

lemma dmul_pos: "0 < x \<Longrightarrow> 0 < y \<Longrightarrow> 0 < dmul x y"
  by (simp add: dmul_def dctx_pos)

lemma dadd_mono: "x \<le> x' \<Longrightarrow> y \<le> y' \<Longrightarrow> dadd x y \<le> dadd x' y'"
  by (simp add: dadd_def dc.rd_mono)

lemma dsub_mono: "x \<le> x' \<Longrightarrow> y' \<le> y \<Longrightarrow> dsub x y \<le> dsub x' y'"
  by (simp add: dsub_def dc.rd_mono)

lemma dmul_mono: "0 \<le> x \<Longrightarrow> 0 \<le> y' \<Longrightarrow> x \<le> x' \<Longrightarrow> y \<le> y' \<Longrightarrow> dmul x y \<le> dmul x' y'"
  unfolding dmul_def by (intro dc.rd_mono) (meson mult_left_mono mult_right_mono order_trans)

lemma ddiv_mono: "x \<le> x' \<Longrightarrow> 0 < y \<Longrightarrow> ddiv x y \<le> ddiv x' y"
  unfolding ddiv_def by (intro dc.rd_mono divide_right_mono) auto

lemma dsub_pos_iff_arg: "0 < dsub x y \<Longrightarrow> y < x"
  unfolding dsub_def using dc.rd_pos_iff_arg [of "x - y"] by simp

lemma dadd_0 [simp]: "dec_fits x \<Longrightarrow> dadd x 0 = x" "dec_fits x \<Longrightarrow> dadd 0 x = x"
  by (simp_all add: dadd_def dctx_fits)

lemma dadd_ge_left: "dec_fits x \<Longrightarrow> 0 \<le> y \<Longrightarrow> x \<le> dadd x y"
  unfolding dadd_def by (rule dc.rd_ge_fits) auto

lemma dsub_le_left: "dec_fits x \<Longrightarrow> 0 \<le> y \<Longrightarrow> dsub x y \<le> x"
  unfolding dsub_def by (rule dc.rd_le_fits) auto

lemma dmul_0 [simp]: "dmul 0 x = 0" "dmul x 0 = 0"
  by (simp_all add: dmul_def)

lemma ddiv_0 [simp]: "ddiv 0 x = 0"
  by (simp add: ddiv_def)

lemma dabs_minus_commute: "dabs (x - y) = dabs (y - x)"
  by (simp add: dabs_def abs_minus_commute)

lemma dsum_snoc: "dsum (xs @ [x]) = dadd (dsum xs) x"
  by (simp add: dsum_def)

lemma dsum_Nil [simp]: "dsum [] = 0"
  by (simp add: dsum_def)

lemma foldl_dadd_nonneg: "0 \<le> a \<Longrightarrow> (\<And>x. x \<in> set xs \<Longrightarrow> 0 \<le> x) \<Longrightarrow> 0 \<le> foldl dadd a xs"
  by (rule foldl_invariant [of "\<lambda>a. 0 \<le> a"]) (auto intro: dadd_nonneg)

lemma dsum_nonneg [dec_bounds]: "(\<And>x. x \<in> set xs \<Longrightarrow> 0 \<le> x) \<Longrightarrow> 0 \<le> dsum xs"
  unfolding dsum_def by (rule foldl_dadd_nonneg) auto

text \<open>Results of decimal operations fit; what fits is not changed by rounding.\<close>

lemma dec_fits_ops [simp]:
  "dec_fits (dadd x y)" "dec_fits (dsub x y)" "dec_fits (dmul x y)" "dec_fits (ddiv x y)"
  "dec_fits (dabs x)" "dec_fits (dneg x)" "dec_fits (dctx x)" "dec_fits 0" "dec_fits 1"
  by (simp_all add: dec_ops dc.fits_rd dc.fits_0 dc.fits_1)

lemma dec_fits_dsum [simp]: "dec_fits (dsum xs)"
  unfolding dsum_def by (rule foldl_invariant [of dec_fits]) auto

lemma dabs_dsub: "dabs (dsub x y) = dctx \<bar>x - y\<bar>"
  by (simp add: dabs_def dsub_def dc.rd_abs [symmetric] dc.rd_idem)

lemma ddiv_le_1: "x \<le> y \<Longrightarrow> 0 \<le> y \<Longrightarrow> ddiv x y \<le> 1"
  unfolding ddiv_def by (rule dc.rd_le_1) (cases "y = 0", auto)

lemma ddiv_le_self: "0 \<le> x \<Longrightarrow> dec_fits x \<Longrightarrow> 1 \<le> y \<Longrightarrow> ddiv x y \<le> x"
  unfolding ddiv_def
  by (rule dc.rd_le_fits, assumption) (simp add: divide_le_eq mult_le_cancel_left1)

text \<open>Adding numbers below an integer bound stays below the integer sum of the bounds.\<close>

lemma dadd_le_int:
  "x \<le> of_int m \<Longrightarrow> y \<le> of_int n \<Longrightarrow> \<bar>m + n\<bar> \<le> 10 ^ 28 \<Longrightarrow> dadd x y \<le> of_int (m + n)"
  unfolding dadd_def by (rule dc.rd_le_fits [OF dec_fits_int]) simp_all

lemma dsum_le_int:
  assumes "\<And>x. x \<in> set xs \<Longrightarrow> x \<le> of_int c" "0 \<le> c" "int (length xs) * c \<le> 10 ^ 28"
  shows "dsum xs \<le> of_int (int (length xs) * c)"
  using assms
proof (induction xs rule: rev_induct)
  case Nil
  then show ?case by simp
next
  case (snoc x xs)
  have "int (length xs) * c + c \<le> 10 ^ 28" using snoc.prems(3) by (simp add: algebra_simps)
  moreover have "0 \<le> int (length xs) * c" using snoc.prems(2) by simp
  ultimately have "dsum xs \<le> of_int (int (length xs) * c)"
    using snoc.prems by (intro snoc.IH) auto
  then have "dadd (dsum xs) x \<le> of_int (int (length xs) * c + c)"
    using snoc.prems \<open>int (length xs) * c + c \<le> 10 ^ 28\<close> \<open>0 \<le> int (length xs) * c\<close>
    by (intro dadd_le_int) auto
  then show ?case by (simp add: dsum_snoc algebra_simps)
qed

subsection \<open>Elapsed time\<close>

text \<open>
  Instants are integers, microseconds since the epoch (UTC).  \<open>timedelta.total_seconds()\<close> is the
  correctly rounded quotient by \<open>10^6\<close>; multiplying by the int 1000 rounds once more, and
  \<open>int()\<close> truncates.
\<close>

type_synonym instant = int

definition total_seconds :: "int \<Rightarrow> rat" where
  "total_seconds us = f64 (of_int us / 10 ^ 6)"

definition age_ms :: "int \<Rightarrow> int" where
  "age_ms us = py_int (f64 (total_seconds us * 1000))"

lemma total_seconds_mono: "x \<le> y \<Longrightarrow> total_seconds x \<le> total_seconds y"
  unfolding total_seconds_def by (intro fl.rd_mono divide_right_mono) auto

lemma age_ms_mono: "x \<le> y \<Longrightarrow> age_ms x \<le> age_ms y"
  unfolding age_ms_def by (intro py_int_mono fl.rd_mono mult_right_mono total_seconds_mono) auto

lemma f64_fits_int: "\<bar>n\<bar> \<le> 2 ^ 53 \<Longrightarrow> f64_fits (of_int n)"
  unfolding f64_fits_def radix_fits_def by (rule exI [of _ n], rule exI [of _ 0]) simp

lemma total_seconds_whole:
  assumes "\<bar>s\<bar> \<le> 2 ^ 53" shows "total_seconds (s * 10 ^ 6) = of_int s"
  unfolding total_seconds_def using fl.rd_fits [OF f64_fits_int [OF assms]] by simp

text \<open>At whole seconds the millisecond age is exact; in between it is monotone.\<close>

lemma age_ms_whole:
  assumes "\<bar>s\<bar> \<le> 2 ^ 40" shows "age_ms (s * 10 ^ 6) = s * 1000"
proof -
  have "f64 (of_int (s * 1000)) = of_int (s * 1000)"
    using assms by (intro fl.rd_fits f64_fits_int) (simp add: abs_le_iff)
  moreover have "total_seconds (s * 10 ^ 6) = of_int s"
    using assms by (intro total_seconds_whole) (simp add: abs_le_iff)
  ultimately have "f64 (total_seconds (s * 10 ^ 6) * 1000) = of_int (s * 1000)" by simp
  then show ?thesis unfolding age_ms_def by (simp only: py_int_of_int)
qed

lemma age_ms_whole_gt:
  assumes "s * 10 ^ 6 \<le> us" "\<bar>s\<bar> \<le> 2 ^ 40" "m < s * 1000" shows "m < age_ms us"
  using age_ms_mono [OF assms(1)] age_ms_whole [OF assms(2)] assms(3) by linarith

end
