(* ===== verification/Market_Types.thy ===== *)
theory Market_Types
  imports Decimals
begin

section \<open>Market data types (\<open>brain/market_data/types.py\<close>)\<close>

text \<open>
  Ticks, bars and the feed status.  Instants are microseconds since the epoch; a computed
  property that reads the clock takes the instant \<open>now\<close> as an argument.
\<close>

datatype data_source = LIVE_BROKER | REPLAY | MOCK | UNKNOWN_SOURCE

record tick =
  tk_symbol :: string
  tk_broker_symbol :: string
  tk_bid :: dec
  tk_ask :: dec
  tk_tick_time :: instant
  tk_received_at :: instant
  tk_source :: data_source
  tk_sequence_id :: "int option"
  tk_volume :: "dec option"

text \<open>\<open>__post_init__\<close>: an empty broker symbol becomes the canonical one.\<close>

definition tick_post_init :: "tick \<Rightarrow> tick" where
  "tick_post_init t = (if tk_broker_symbol t = [] then t\<lparr>tk_broker_symbol := tk_symbol t\<rparr> else t)"

definition tick_spread :: "tick \<Rightarrow> dec" where
  "tick_spread t = dsub (tk_ask t) (tk_bid t)"

definition tick_mid :: "tick \<Rightarrow> dec" where
  "tick_mid t = ddiv (dadd (tk_bid t) (tk_ask t)) 2"

definition tick_is_mock :: "tick \<Rightarrow> bool" where
  "tick_is_mock t \<longleftrightarrow> tk_source t = MOCK"

definition tick_staleness_seconds :: "instant \<Rightarrow> tick \<Rightarrow> rat" where
  "tick_staleness_seconds now t = total_seconds (now - tk_received_at t)"

record market_data_status =
  md_symbol :: string
  md_is_live :: bool
  md_source :: data_source
  md_last_tick_at :: "instant option"
  md_staleness_seconds :: "rat option"
  md_staleness_threshold_seconds :: "int option"
  md_notes :: "string option"

definition md_is_fresh :: "market_data_status \<Rightarrow> bool" where
  "md_is_fresh s =
     (if \<not> md_is_live s then False
      else if md_last_tick_at s = None then False
      else case md_staleness_threshold_seconds s of
             None \<Rightarrow> False
           | Some thr \<Rightarrow>
               (case md_staleness_seconds s of None \<Rightarrow> False | Some sec \<Rightarrow> sec \<le> of_int thr))"

record bar =
  br_symbol :: string
  br_timeframe :: string
  br_open_time :: instant
  br_close_time :: instant
  br_open_price :: dec
  br_high_price :: dec
  br_low_price :: dec
  br_close_price :: dec
  br_volume :: dec
  br_is_closed :: bool

text \<open>A bar whose open and close lie within its range, as every aggregated bar does.\<close>

definition ohlc_ok :: "bar \<Rightarrow> bool" where
  "ohlc_ok b \<longleftrightarrow> br_low_price b \<le> br_open_price b \<and> br_open_price b \<le> br_high_price b
     \<and> br_low_price b \<le> br_close_price b \<and> br_close_price b \<le> br_high_price b"

lemma ohlc_ok_range: "ohlc_ok b \<Longrightarrow> br_low_price b \<le> br_high_price b"
  by (auto simp: ohlc_ok_def)

subsection \<open>Prices\<close>

lemma tick_mid_between:
  assumes "tk_bid t \<le> tk_ask t" "dec_fits (2 * tk_bid t)" "dec_fits (2 * tk_ask t)"
    "dec_fits (tk_bid t)" "dec_fits (tk_ask t)"
  shows "tk_bid t \<le> tick_mid t" "tick_mid t \<le> tk_ask t"
proof -
  have "2 * tk_bid t \<le> dadd (tk_bid t) (tk_ask t)"
    unfolding dadd_def using assms by (intro dc.rd_ge_fits) auto
  then show "tk_bid t \<le> tick_mid t"
    unfolding tick_mid_def ddiv_def using assms by (intro dc.rd_ge_fits) auto
  have "dadd (tk_bid t) (tk_ask t) \<le> 2 * tk_ask t"
    unfolding dadd_def using assms by (intro dc.rd_le_fits) auto
  then show "tick_mid t \<le> tk_ask t"
    unfolding tick_mid_def ddiv_def using assms by (intro dc.rd_le_fits) auto
qed

lemma tick_spread_nonneg: "tk_bid t \<le> tk_ask t \<Longrightarrow> 0 \<le> tick_spread t"
  by (simp add: tick_spread_def dsub_nonneg)

lemma md_is_fresh_fail_safe:
  "md_is_fresh s \<Longrightarrow>
     md_is_live s \<and> md_last_tick_at s \<noteq> None \<and>
     (\<exists>thr sec. md_staleness_threshold_seconds s = Some thr \<and> md_staleness_seconds s = Some sec
        \<and> sec \<le> of_int thr)"
  by (auto simp: md_is_fresh_def split: if_splits option.splits)

subsection \<open>Whole seconds of an instant\<close>

lemma floor_total_seconds:
  assumes "0 \<le> us" "us < 2 ^ 33 * 10 ^ 6"
  shows "py_int (total_seconds us) = us div 10 ^ 6"
proof -
  define x where "x = (of_int us / 10 ^ 6 :: rat)"
  define n where "n = us div 10 ^ 6"
  have us: "us = n * 10 ^ 6 + us mod 10 ^ 6" by (simp add: n_def)
  have m: "0 \<le> us mod 10 ^ 6" "us mod 10 ^ 6 \<le> 999999" by auto
  have n: "0 \<le> n" "n \<le> 2 ^ 33" using assms by (auto simp: n_def)
  have x: "x = of_int n + of_int (us mod 10 ^ 6) / 10 ^ 6"
    unfolding x_def by (subst us) (simp add: add_divide_distrib)
  have lo: "of_int n \<le> x" using m by (simp add: x)
  have "(of_int (us mod 10 ^ 6) :: rat) \<le> 999999" using m(2) by linarith
  then have hi: "x \<le> of_int n + 999999 / 10 ^ 6" unfolding x by (simp add: divide_right_mono)
  have "of_int n \<le> f64 x"
    using lo n by (intro fl.rd_ge_fits f64_fits_int) (simp_all add: abs_le_iff)
  moreover have "f64 x < of_int n + 1"
  proof (cases "0 < x")
    case False
    then have "f64 x \<le> 0" by (intro fl.rd_nonpos) simp
    moreover have "(0::rat) \<le> of_int n" using n(1) by simp
    ultimately show ?thesis by linarith
  next
    case True
    have "us \<le> 2 ^ 33 * 10 ^ 6" using assms(2) by simp
    then have "(of_int us :: rat) \<le> of_int (2 ^ 33 * 10 ^ 6)" by (simp only: of_int_le_iff)
    then have "x \<le> 2 ^ 33" by (simp add: x_def)
    moreover have "of_int us < (of_int (2 ^ 33 * 10 ^ 6) :: rat)"
      using assms(2) by (simp only: of_int_less_iff)
    then have "x < 2 ^ 33" by (simp add: x_def)
    moreover have "2 powi mag 2 x \<le> x" using mag_spec [of 2 x] True by simp
    ultimately have "2 powi mag 2 x < (2::rat) powi 33" by simp
    then have "mag 2 x < 33" by (intro powi_less_exp [of "2::rat"]) auto
    then have "bin2.ulp x \<le> (2::rat) powi (- 20)"
      unfolding bin2.ulp_def by (simp only: of_int_numeral) (intro power_int_increasing, auto)
    then have "bin2.ulp x / 2 \<le> 1 / 2 ^ 21" by (simp add: power_int_minus field_simps)
    moreover have "f64 x - x \<le> bin2.ulp x / 2"
      using bin2.rnd_error [OF True] unfolding f64_def by (rule order_trans [OF abs_ge_self])
    ultimately have "f64 x \<le> x + 1 / 2 ^ 21" by linarith
    with hi have "f64 x \<le> of_int n + (999999 / 10 ^ 6 + 1 / 2 ^ 21)" by simp
    also have "\<dots> < of_int n + 1" by simp
    finally show ?thesis .
  qed
  ultimately have "\<lfloor>f64 x\<rfloor> = n" by (intro floor_unique) auto
  moreover have "0 \<le> f64 x" using \<open>of_int n \<le> f64 x\<close> n(1) by (meson of_int_0_le_iff order_trans)
  ultimately have "py_int (f64 x) = n" by (simp add: py_int_def)
  then show ?thesis unfolding total_seconds_def x_def n_def .
qed

end
