(* ===== verification/Bar_Builder.thy ===== *)
theory Bar_Builder
  imports Market_Types "HOL-Library.AList"
begin

section \<open>Bar builder (\<open>brain/bar_builder.py\<close>)\<close>

text \<open>
  Ticks are aggregated into OHLCV bars of one timeframe; a bar closes when a tick arrives in a
  later bucket.  The six fields of the running bar are assigned together in the code, so they
  are one optional record here (\<open>None\<close> is \<open>_current_bar_start is None\<close>).
\<close>

subsection \<open>State\<close>

definition timeframe_seconds :: "string \<Rightarrow> int option" where
  "timeframe_seconds = map_of
     [(''M1'', 60), (''M5'', 300), (''M15'', 900), (''M30'', 1800), (''H1'', 3600),
      (''H4'', 14400), (''D1'', 86400)]"

record running_bar =
  rb_start :: instant
  rb_open :: dec
  rb_high :: dec
  rb_low :: dec
  rb_close :: dec
  rb_volume :: dec

record bar_builder =
  bb_symbol :: string
  bb_timeframe :: string
  bb_interval_seconds :: int
  bb_current :: "running_bar option"
  bb_closed_bars :: "bar list"

definition bar_builder_init :: "string \<Rightarrow> string \<Rightarrow> bar_builder res" where
  "bar_builder_init smb tf =
     (case timeframe_seconds tf of
        None \<Rightarrow> Inl (ValueError ''Unsupported timeframe'')
      | Some sec \<Rightarrow> Inr \<lparr>bb_symbol = smb, bb_timeframe = tf, bb_interval_seconds = sec,
                       bb_current = None, bb_closed_bars = []\<rparr>)"

subsection \<open>Operations\<close>

text \<open>\<open>seed_closed_bars\<close>: a dict keyed by \<open>open_time\<close>, its values sorted, the last 300 kept.\<close>

definition bars_by_time :: "(instant \<times> bar) list \<Rightarrow> bar list \<Rightarrow> (instant \<times> bar) list" where
  "bars_by_time d bars = foldl (\<lambda>d b. AList.update (br_open_time b) b d) d bars"

definition seed_closed_bars :: "bar list \<Rightarrow> bar_builder \<Rightarrow> bar_builder" where
  "seed_closed_bars bars s =
     (let existing_by_time = bars_by_time [] (bb_closed_bars s);
          merged = bars_by_time existing_by_time (filter br_is_closed bars);
          srt = sort_key br_open_time (map snd merged)
      in s\<lparr>bb_closed_bars := (if 300 < length srt then last_n 300 srt else srt)\<rparr>)"

definition get_bucket_start :: "int \<Rightarrow> instant \<Rightarrow> instant" where
  "get_bucket_start interval dt =
     (py_int (total_seconds dt) div interval) * interval * 10 ^ 6"

definition fresh_running :: "instant \<Rightarrow> dec \<Rightarrow> dec \<Rightarrow> running_bar" where
  "fresh_running start price vol =
     \<lparr>rb_start = start, rb_open = price, rb_high = price, rb_low = price, rb_close = price,
      rb_volume = vol\<rparr>"

definition extend_running :: "dec \<Rightarrow> dec \<Rightarrow> running_bar \<Rightarrow> running_bar" where
  "extend_running price vol r =
     r\<lparr>rb_high := (if rb_high r < price then price else rb_high r),
       rb_low := (if price < rb_low r then price else rb_low r),
       rb_close := price,
       rb_volume := dadd (rb_volume r) vol\<rparr>"

definition close_running :: "bar_builder \<Rightarrow> running_bar \<Rightarrow> bar" where
  "close_running s r =
     \<lparr>br_symbol = bb_symbol s, br_timeframe = bb_timeframe s, br_open_time = rb_start r,
      br_close_time = rb_start r + bb_interval_seconds s * 10 ^ 6,
      br_open_price = rb_open r, br_high_price = rb_high r, br_low_price = rb_low r,
      br_close_price = rb_close r, br_volume = rb_volume r, br_is_closed = True\<rparr>"

definition tick_bar_volume :: "tick \<Rightarrow> dec" where
  "tick_bar_volume t = (case tk_volume t of None \<Rightarrow> 1 | Some v \<Rightarrow> v)"

definition process_tick :: "tick \<Rightarrow> bar_builder \<Rightarrow> bar option \<times> bar_builder" where
  "process_tick t s =
     (let price = tick_mid t; vol = tick_bar_volume t;
          bucket = get_bucket_start (bb_interval_seconds s) (tk_tick_time t)
      in case bb_current s of
           None \<Rightarrow> (None, s\<lparr>bb_current := Some (fresh_running bucket price vol)\<rparr>)
         | Some r \<Rightarrow>
             if rb_start r < bucket
             then (let b = close_running s r
                   in (Some b, s\<lparr>bb_closed_bars := bb_closed_bars s @ [b],
                                 bb_current := Some (fresh_running bucket price vol)\<rparr>))
             else (None, s\<lparr>bb_current := Some (extend_running price vol r)\<rparr>))"

definition process_ticks :: "tick list \<Rightarrow> bar_builder \<Rightarrow> bar_builder" where
  "process_ticks ts s = foldl (\<lambda>s t. snd (process_tick t s)) s ts"

lemma process_ticks_Nil [simp]: "process_ticks [] s = s"
  by (simp add: process_ticks_def)

lemma process_ticks_Cons [simp]: "process_ticks (t # ts) s = process_ticks ts (snd (process_tick t s))"
  by (simp add: process_ticks_def)

lemma process_ticks_append: "process_ticks (xs @ ys) s = process_ticks ys (process_ticks xs s)"
  by (simp add: process_ticks_def)

lemma process_tick_frame [simp]:
  "bb_interval_seconds (snd (process_tick t s)) = bb_interval_seconds s"
  "bb_symbol (snd (process_tick t s)) = bb_symbol s"
  "bb_timeframe (snd (process_tick t s)) = bb_timeframe s"
  by (simp_all add: process_tick_def Let_def split: option.split)

lemma process_ticks_frame [simp]:
  "bb_interval_seconds (process_ticks ts s) = bb_interval_seconds s"
  "bb_symbol (process_ticks ts s) = bb_symbol s"
  "bb_timeframe (process_ticks ts s) = bb_timeframe s"
  by (induction ts arbitrary: s) simp_all

subsection \<open>Invariant\<close>

text \<open>
  Bars produced from ticks alone: the closed bars start on bucket boundaries, strictly
  increasing, before the running bar; each has a consistent range and lasts one interval.
\<close>

definition running_ok :: "running_bar \<Rightarrow> bool" where
  "running_ok r \<longleftrightarrow> rb_low r \<le> rb_open r \<and> rb_open r \<le> rb_high r
     \<and> rb_low r \<le> rb_close r \<and> rb_close r \<le> rb_high r"

definition bar_of_builder :: "bar_builder \<Rightarrow> bar \<Rightarrow> bool" where
  "bar_of_builder s b \<longleftrightarrow> ohlc_ok b \<and> br_is_closed b \<and> br_symbol b = bb_symbol s
     \<and> br_close_time b = br_open_time b + bb_interval_seconds s * 10 ^ 6
     \<and> bb_interval_seconds s * 10 ^ 6 dvd br_open_time b"

definition builder_inv :: "bar_builder \<Rightarrow> bool" where
  "builder_inv s \<longleftrightarrow> 0 < bb_interval_seconds s
     \<and> (\<forall>b \<in> set (bb_closed_bars s). bar_of_builder s b)
     \<and> sorted_wrt (\<lambda>a b. br_open_time a < br_open_time b) (bb_closed_bars s)
     \<and> (case bb_current s of
          None \<Rightarrow> bb_closed_bars s = []
        | Some r \<Rightarrow> running_ok r \<and> bb_interval_seconds s * 10 ^ 6 dvd rb_start r
            \<and> (\<forall>b \<in> set (bb_closed_bars s). br_open_time b < rb_start r))"

lemma bucket_dvd: "iv * 10 ^ 6 dvd get_bucket_start iv dt"
  unfolding get_bucket_start_def by (simp add: mult.assoc)

lemmas bucket_dvd_simp [simp] = bucket_dvd [simplified]

lemma running_ok_fresh [simp]: "running_ok (fresh_running st p v)"
  by (simp add: running_ok_def fresh_running_def)

lemma running_ok_extend: "running_ok r \<Longrightarrow> running_ok (extend_running p v r)"
  by (auto simp: running_ok_def extend_running_def)

lemma extend_running_start [simp]: "rb_start (extend_running p v r) = rb_start r"
  by (simp add: extend_running_def)

lemma fresh_running_start [simp]: "rb_start (fresh_running st p v) = st"
  by (simp add: fresh_running_def)

lemma bar_of_builder_close:
  "running_ok r \<Longrightarrow> bb_interval_seconds s * 10 ^ 6 dvd rb_start r \<Longrightarrow> bar_of_builder s (close_running s r)"
  by (auto simp: bar_of_builder_def close_running_def ohlc_ok_def running_ok_def)

lemma bar_of_builder_cong:
  "bb_symbol s = bb_symbol s' \<Longrightarrow> bb_interval_seconds s = bb_interval_seconds s' \<Longrightarrow>
     bar_of_builder s b = bar_of_builder s' b"
  by (simp add: bar_of_builder_def)

lemma builder_inv_process_tick [inv_intros]:
  assumes inv: "builder_inv s"
  shows "builder_inv (snd (process_tick t s))"
proof (cases "bb_current s")
  case None
  with inv show ?thesis by (simp add: builder_inv_def process_tick_def Let_def bucket_dvd)
next
  case (Some r)
  let ?bk = "get_bucket_start (bb_interval_seconds s) (tk_tick_time t)"
  have r: "running_ok r" "bb_interval_seconds s * 10 ^ 6 dvd rb_start r"
    "\<And>b. b \<in> set (bb_closed_bars s) \<Longrightarrow> br_open_time b < rb_start r"
    using inv Some by (auto simp: builder_inv_def)
  show ?thesis
  proof (cases "rb_start r < ?bk")
    case False
    with inv Some r show ?thesis
      by (auto simp: builder_inv_def process_tick_def Let_def running_ok_extend bar_of_builder_def)
  next
    case True
    let ?b = "close_running s r"
    have "br_open_time ?b = rb_start r" by (simp add: close_running_def)
    moreover have "bar_of_builder s ?b" by (rule bar_of_builder_close [OF r(1,2)])
    ultimately show ?thesis
      using inv Some True r(3)
      by (auto simp: builder_inv_def process_tick_def Let_def bucket_dvd sorted_wrt_append
            bar_of_builder_def intro: less_trans)
  qed
qed

lemma builder_inv_process_ticks [inv_intros]: "builder_inv s \<Longrightarrow> builder_inv (process_ticks ts s)"
  by (induction ts arbitrary: s) (simp_all add: builder_inv_process_tick)

lemma timeframe_seconds_pos: "timeframe_seconds tf = Some sec \<Longrightarrow> 0 < sec"
  by (auto simp: timeframe_seconds_def split: if_splits)

lemma builder_inv_init [inv_intros]: "bar_builder_init smb tf = Inr s \<Longrightarrow> builder_inv s"
  by (auto simp: bar_builder_init_def builder_inv_def timeframe_seconds_pos split: option.splits)

subsection \<open>No lookahead\<close>

lemma process_tick_closed_grow:
  "\<exists>new. bb_closed_bars (snd (process_tick t s)) = bb_closed_bars s @ new"
  by (auto simp: process_tick_def Let_def split: option.split)

lemma process_ticks_closed_grow:
  "\<exists>new. bb_closed_bars (process_ticks ts s) = bb_closed_bars s @ new"
proof (induction ts arbitrary: s)
  case Nil
  then show ?case by simp
next
  case (Cons t ts)
  obtain n1 where "bb_closed_bars (snd (process_tick t s)) = bb_closed_bars s @ n1"
    using process_tick_closed_grow by blast
  moreover obtain n2 where
    "bb_closed_bars (process_ticks ts (snd (process_tick t s)))
       = bb_closed_bars (snd (process_tick t s)) @ n2"
    using Cons.IH by blast
  ultimately show ?case by simp
qed

subsection \<open>The bar of a bucket\<close>

text \<open>
  Reference definition: the open is the first mid price, the close the last, the range the
  extremes, the volume the running sum.
\<close>

definition bucket_bar :: "bar_builder \<Rightarrow> instant \<Rightarrow> tick list \<Rightarrow> bar" where
  "bucket_bar s st ts =
     \<lparr>br_symbol = bb_symbol s, br_timeframe = bb_timeframe s, br_open_time = st,
      br_close_time = st + bb_interval_seconds s * 10 ^ 6,
      br_open_price = tick_mid (hd ts),
      br_high_price = Max (tick_mid ` set ts), br_low_price = Min (tick_mid ` set ts),
      br_close_price = tick_mid (last ts),
      br_volume = foldl dadd (tick_bar_volume (hd ts)) (map tick_bar_volume (tl ts)),
      br_is_closed = True\<rparr>"

lemma max_if: "max (a :: rat) m = (if m < a then a else m)"
  by (simp add: max_def)

lemma min_if: "min (a :: rat) m = (if a < m then a else m)"
  by (simp add: min_def)

lemma Max_insert_if:
  "finite M \<Longrightarrow> M \<noteq> {} \<Longrightarrow> Max (insert (a :: rat) M) = (if Max M < a then a else Max M)"
  by (subst Max_insert, assumption, assumption, rule max_if)

lemma Min_insert_if:
  "finite M \<Longrightarrow> M \<noteq> {} \<Longrightarrow> Min (insert (a :: rat) M) = (if a < Min M then a else Min M)"
  by (subst Min_insert, assumption, assumption, rule min_if)

lemma running_of_bucket:
  assumes "bb_current s = None" "ts \<noteq> []"
    "\<And>t. t \<in> set ts \<Longrightarrow> get_bucket_start (bb_interval_seconds s) (tk_tick_time t) = st"
  shows "bb_current (process_ticks ts s) =
     Some \<lparr>rb_start = st, rb_open = tick_mid (hd ts),
           rb_high = Max (tick_mid ` set ts), rb_low = Min (tick_mid ` set ts),
           rb_close = tick_mid (last ts),
           rb_volume = foldl dadd (tick_bar_volume (hd ts)) (map tick_bar_volume (tl ts))\<rparr>"
  using assms(2,3)
proof (induction ts rule: rev_induct)
  case Nil
  then show ?case by simp
next
  case (snoc t ts)
  show ?case
  proof (cases "ts = []")
    case True
    with snoc.prems assms(1) show ?thesis
      by (simp add: process_tick_def Let_def fresh_running_def)
  next
    case False
    let ?M = "tick_mid ` set ts"
    from False snoc have cur: "bb_current (process_ticks ts s) =
       Some \<lparr>rb_start = st, rb_open = tick_mid (hd ts), rb_high = Max ?M, rb_low = Min ?M,
             rb_close = tick_mid (last ts),
             rb_volume = foldl dadd (tick_bar_volume (hd ts)) (map tick_bar_volume (tl ts))\<rparr>"
      by simp
    have bk: "get_bucket_start (bb_interval_seconds s) (tk_tick_time t) = st"
      using snoc.prems by simp
    have "Max (insert (tick_mid t) ?M) = (if Max ?M < tick_mid t then tick_mid t else Max ?M)"
      "Min (insert (tick_mid t) ?M) = (if tick_mid t < Min ?M then tick_mid t else Min ?M)"
      using False by (simp_all only: Max_insert_if Min_insert_if finite_imageI finite_set
          image_is_empty set_empty not_False_eq_True)
    with cur bk False show ?thesis
      by (simp add: process_ticks_append process_tick_def Let_def extend_running_def)
  qed
qed

lemma process_tick_crossing:
  assumes "bb_current s = Some r" "rb_start r < get_bucket_start (bb_interval_seconds s) (tk_tick_time t)"
  shows "process_tick t s =
     (Some (close_running s r),
      s\<lparr>bb_closed_bars := bb_closed_bars s @ [close_running s r],
        bb_current := Some (fresh_running (get_bucket_start (bb_interval_seconds s) (tk_tick_time t))
                              (tick_mid t) (tick_bar_volume t))\<rparr>)"
  using assms by (simp add: process_tick_def Let_def)

subsection \<open>Seeding\<close>

definition keyed_by_time :: "(instant \<times> bar) list \<Rightarrow> bool" where
  "keyed_by_time d \<longleftrightarrow> distinct (map fst d) \<and> (\<forall>(k, b) \<in> set d. k = br_open_time b)"

lemma keyed_by_time_update:
  assumes "keyed_by_time d" shows "keyed_by_time (AList.update (br_open_time b) b d)"
proof -
  have "(k, c) \<in> set (AList.update (br_open_time b) b d) \<Longrightarrow> k = br_open_time c" for k c
    using assms map_of_eq_Some_iff [of "AList.update (br_open_time b) b d" k c]
      map_of_eq_Some_iff [of d k c]
    by (auto simp: keyed_by_time_def distinct_update update_conv' split: if_splits)
  then show ?thesis using assms by (auto simp: keyed_by_time_def distinct_update)
qed

lemma keyed_bars_by_time: "keyed_by_time d \<Longrightarrow> keyed_by_time (bars_by_time d bs)"
  unfolding bars_by_time_def
  by (induction bs arbitrary: d) (simp_all add: keyed_by_time_update)

lemma map_of_bars_by_time:
  "map_of (bars_by_time d bs) = foldl (\<lambda>m b. m(br_open_time b \<mapsto> b)) (map_of d) bs"
  unfolding bars_by_time_def by (induction bs arbitrary: d) (simp_all add: update_conv')

lemma keyed_times: "keyed_by_time d \<Longrightarrow> map br_open_time (map snd d) = map fst d"
  by (auto simp: keyed_by_time_def)

lemma sorted_distinct_strict:
  "sorted (map f xs) \<Longrightarrow> distinct (map f xs) \<Longrightarrow> sorted_wrt (\<lambda>a b. f a < (f b :: int)) xs"
  by (induction xs) (auto simp: order.order_iff_strict)

lemma seed_merged_sorted:
  assumes "keyed_by_time d"
  shows "sorted_wrt (\<lambda>a b. br_open_time a < br_open_time b) (sort_key br_open_time (map snd d))"
proof (rule sorted_distinct_strict)
  show "sorted (map br_open_time (sort_key br_open_time (map snd d)))" by simp
  have "distinct (map br_open_time (map snd d))"
    unfolding keyed_times [OF assms] using assms by (simp add: keyed_by_time_def)
  then show "distinct (map br_open_time (sort_key br_open_time (map snd d)))"
    by (metis distinct_map distinct_sort set_sort)
qed

lemma keyed_by_time_Nil [simp]: "keyed_by_time []"
  by (simp add: keyed_by_time_def)

lemma seed_sorted:
  "sorted_wrt (\<lambda>a b. br_open_time a < br_open_time b) (bb_closed_bars (seed_closed_bars bars s))"
  unfolding seed_closed_bars_def Let_def
  by (simp add: sorted_wrt_last_n seed_merged_sorted keyed_bars_by_time)

lemma seed_length: "length (bb_closed_bars (seed_closed_bars bars s)) \<le> 300"
  unfolding seed_closed_bars_def Let_def by simp

lemma map_upd_foldl_source:
  "foldl (\<lambda>m b. m(br_open_time b \<mapsto> b)) m bs k = Some c \<Longrightarrow> m k = Some c \<or> c \<in> set bs"
  by (induction bs arbitrary: m) (force split: if_splits)+

lemma map_upd_foldl_new:
  "c \<in> set bs \<Longrightarrow> \<exists>c' \<in> set bs. br_open_time c' = br_open_time c
     \<and> foldl (\<lambda>m b. m(br_open_time b \<mapsto> b)) m bs (br_open_time c) = Some c'"
proof (induction bs arbitrary: m rule: rev_induct)
  case Nil
  then show ?case by simp
next
  case (snoc b bs)
  then show ?case by (cases "br_open_time b = br_open_time c") auto
qed

lemma set_snd_keyed: "keyed_by_time d \<Longrightarrow> b \<in> snd ` set d \<longleftrightarrow> map_of d (br_open_time b) = Some b"
  by (force simp: keyed_by_time_def map_of_eq_Some_iff)

lemma set_seed_subset:
  "set (bb_closed_bars (seed_closed_bars bars s)) \<subseteq> set (bb_closed_bars s) \<union> {b \<in> set bars. br_is_closed b}"
proof -
  let ?e = "bars_by_time [] (bb_closed_bars s)"
  let ?d = "bars_by_time ?e (filter br_is_closed bars)"
  have k: "keyed_by_time ?d" by (simp add: keyed_bars_by_time)
  have "b \<in> set (bb_closed_bars s) \<union> {b \<in> set bars. br_is_closed b}" if "b \<in> snd ` set ?d" for b
  proof -
    from that have "map_of ?d (br_open_time b) = Some b" by (simp only: set_snd_keyed [OF k])
    then have "map_of ?e (br_open_time b) = Some b \<or> b \<in> set (filter br_is_closed bars)"
      unfolding map_of_bars_by_time [of ?e] by (rule map_upd_foldl_source)
    moreover have "b \<in> set (bb_closed_bars s)" if "map_of ?e (br_open_time b) = Some b"
      using map_upd_foldl_source [OF that [unfolded map_of_bars_by_time]] by simp
    ultimately show ?thesis by auto
  qed
  moreover have "set (bb_closed_bars (seed_closed_bars bars s)) \<subseteq> snd ` set ?d"
    using set_last_n_subset [of 300 "sort_key br_open_time (map snd ?d)"]
    by (auto simp: seed_closed_bars_def Let_def)
  ultimately show ?thesis by blast
qed

text \<open>Instants of the years 1970 to 2242: the bucket is the floor to the interval.\<close>

lemma get_bucket_start_floor [dec_simps]:
  "0 \<le> us \<Longrightarrow> us < 2 ^ 33 * 10 ^ 6 \<Longrightarrow> get_bucket_start iv us = us div 10 ^ 6 div iv * iv * 10 ^ 6"
  by (simp add: get_bucket_start_def floor_total_seconds)

lemma bucket_contains:
  assumes "0 < iv" "0 \<le> us" "us < 2 ^ 33 * 10 ^ 6"
  shows "get_bucket_start iv us \<le> us" "us < get_bucket_start iv us + iv * 10 ^ 6"
proof -
  define n where "n = us div 10 ^ 6"
  have us: "n * 10 ^ 6 \<le> us" "us < (n + 1) * 10 ^ 6" by (auto simp: n_def)
  have g: "get_bucket_start iv us = n div iv * iv * 10 ^ 6"
    using get_bucket_start_floor [OF assms(2,3)] by (simp add: n_def)
  define q where "q = n div iv * iv"
  have "q + n mod iv = n" "0 \<le> n mod iv" "n mod iv < iv"
    using assms(1) by (simp_all add: q_def)
  have g': "get_bucket_start iv us = q * 1000000" unfolding g q_def by simp
  from \<open>q + n mod iv = n\<close> \<open>0 \<le> n mod iv\<close> \<open>n mod iv < iv\<close>
  have q: "q \<le> n" "n + 1 \<le> q + iv" by linarith+
  have "q * 1000000 \<le> us" using us(1) q(1) by simp
  moreover have "us < (q + iv) * 1000000" using us(2) q(2) by simp
  ultimately show "get_bucket_start iv us \<le> us" "us < get_bucket_start iv us + iv * 10 ^ 6"
    by (simp_all add: g' algebra_simps)
qed

subsection \<open>Properties\<close>

text \<open>
  C4: whatever ticks a new builder is fed, its closed bars are strictly increasing in open time,
  each lies on an interval boundary, lasts exactly one interval and has low \<open>\<le>\<close> open, close \<open>\<le>\<close>
  high; and feeding more ticks only appends: a bar once closed never changes (no lookahead).
\<close>

theorem closed_bars_sound:
  assumes "bar_builder_init smb tf = Inr s"
  shows "sorted_wrt (\<lambda>a b. br_open_time a < br_open_time b) (bb_closed_bars (process_ticks ts s))
    \<and> (\<forall>b \<in> set (bb_closed_bars (process_ticks ts s)).
          ohlc_ok b \<and> br_is_closed b \<and> br_symbol b = smb
          \<and> br_close_time b = br_open_time b + bb_interval_seconds s * 10 ^ 6
          \<and> bb_interval_seconds s * 10 ^ 6 dvd br_open_time b)
    \<and> (\<exists>new. bb_closed_bars (process_ticks (ts @ us) s) = bb_closed_bars (process_ticks ts s) @ new)"
proof -
  have "builder_inv (process_ticks ts s)"
    by (rule builder_inv_process_ticks [OF builder_inv_init [OF assms]])
  moreover have "bb_symbol s = smb"
    using assms by (auto simp: bar_builder_init_def split: option.splits)
  ultimately show ?thesis
    using process_ticks_closed_grow [of us "process_ticks ts s"]
    by (auto simp: builder_inv_def bar_of_builder_def process_ticks_append)
qed

definition demo_tick :: "instant \<Rightarrow> dec \<Rightarrow> dec \<Rightarrow> tick" where
  "demo_tick tm bid ask =
     \<lparr>tk_symbol = ''XAUUSD'', tk_broker_symbol = ''XAUUSD'', tk_bid = bid, tk_ask = ask,
      tk_tick_time = tm, tk_received_at = tm, tk_source = MOCK, tk_sequence_id = None,
      tk_volume = None\<rparr>"

definition demo_builder :: bar_builder where
  "demo_builder = \<lparr>bb_symbol = ''XAUUSD'', bb_timeframe = ''M1'', bb_interval_seconds = 60,
     bb_current = None, bb_closed_bars = []\<rparr>"

lemma demo_builder_init: "bar_builder_init ''XAUUSD'' ''M1'' = Inr demo_builder"
  by (simp add: bar_builder_init_def timeframe_seconds_def demo_builder_def)

theorem closed_bars_sound_witness:
  "sorted_wrt (\<lambda>a b. br_open_time a < br_open_time b)
     (bb_closed_bars (process_ticks [demo_tick 60000000 2000 2001, demo_tick 120000000 2002 2003] demo_builder))"
  using closed_bars_sound [OF demo_builder_init,
      of "[demo_tick 60000000 2000 2001, demo_tick 120000000 2002 2003]" "[]"] by blast

text \<open>
  when all ticks received since a new builder's first one fall in one bucket and the next
  tick falls in a later bucket, exactly one bar is returned and it is the reference OHLCV bar of
  those ticks: first mid as open, maximum and minimum mid as high and low, last mid as close, the
  rounded running sum of tick volumes (1 where the tick has none) as volume.
\<close>

theorem bucket_closes_to_ohlcv:
  assumes "bb_current s = None" "ts \<noteq> []"
    "\<And>t. t \<in> set ts \<Longrightarrow> get_bucket_start (bb_interval_seconds s) (tk_tick_time t) = st"
    "st < get_bucket_start (bb_interval_seconds s) (tk_tick_time u)"
  shows "fst (process_tick u (process_ticks ts s)) = Some (bucket_bar s st ts)"
  using running_of_bucket [OF assms(1-3)] assms(4)
  by (simp add: process_tick_crossing close_running_def bucket_bar_def)

theorem bucket_closes_to_ohlcv_witness:
  "fst (process_tick (demo_tick 120000000 2002 2003)
     (process_ticks [demo_tick 60000000 2000 2001, demo_tick 61000000 1998 1999] demo_builder))
   = Some (bucket_bar demo_builder 60000000
       [demo_tick 60000000 2000 2001, demo_tick 61000000 1998 1999])"
  by (rule bucket_closes_to_ohlcv)
    (auto simp: demo_builder_def demo_tick_def get_bucket_start_floor)

text \<open>
  seeding and tick aggregation do not agree on uniqueness.  If the broker seeds a bar for
  the bucket that is still running locally, closing that running bar appends a second bar with the
  same open time, so the closed bars are no longer free of duplicates.
\<close>

theorem seed_then_close_duplicates:
  assumes "bb_current s = Some r"
    "\<exists>b \<in> set (bb_closed_bars (seed_closed_bars bars s)). br_open_time b = rb_start r"
    "rb_start r < get_bucket_start (bb_interval_seconds s) (tk_tick_time t)"
  shows "\<not> distinct (map br_open_time (bb_closed_bars (snd (process_tick t (seed_closed_bars bars s)))))"
proof -
  let ?s = "seed_closed_bars bars s"
  have "bb_current ?s = Some r" "bb_interval_seconds ?s = bb_interval_seconds s"
    using assms(1) by (simp_all add: seed_closed_bars_def Let_def)
  then have "bb_closed_bars (snd (process_tick t ?s)) = bb_closed_bars ?s @ [close_running ?s r]"
    using assms(3) by (simp add: process_tick_crossing)
  moreover have "br_open_time (close_running ?s r) = rb_start r" by (simp add: close_running_def)
  ultimately show ?thesis using assms(2) by force
qed

theorem seed_then_close_duplicates_witness:
  "\<not> distinct (map br_open_time (bb_closed_bars (snd (process_tick (demo_tick 120000000 2002 2003)
       (seed_closed_bars [bucket_bar demo_builder 60000000 [demo_tick 60000000 2000 2001]]
          (process_ticks [demo_tick 60000000 2000 2001] demo_builder))))))"
proof (rule seed_then_close_duplicates)
  let ?b = "bucket_bar demo_builder 60000000 [demo_tick 60000000 2000 2001]"
  let ?s = "process_ticks [demo_tick 60000000 2000 2001] demo_builder"
  show "bb_current ?s = Some (fresh_running 60000000
      (tick_mid (demo_tick 60000000 2000 2001)) 1)"
    by (simp add: process_tick_def Let_def demo_builder_def demo_tick_def get_bucket_start_floor
        tick_bar_volume_def)
  show "\<exists>b \<in> set (bb_closed_bars (seed_closed_bars [?b] ?s)). br_open_time b = rb_start
      (fresh_running 60000000 (tick_mid (demo_tick 60000000 2000 2001)) 1)"
    by (simp add: seed_closed_bars_def bars_by_time_def bucket_bar_def process_tick_def Let_def
        demo_builder_def fresh_running_def)
  show "rb_start (fresh_running 60000000 (tick_mid (demo_tick 60000000 2000 2001)) 1)
      < get_bucket_start (bb_interval_seconds ?s) (tk_tick_time (demo_tick 120000000 2002 2003))"
    by (simp add: demo_builder_def demo_tick_def get_bucket_start_floor)
qed

end
