(* ===== verification/Indicators.thy ===== *)
theory Indicators
  imports Market_Types
begin

section \<open>Technical indicators (\<open>brain/indicators.py\<close>)\<close>

text \<open>
  SMA, EMA, ATR, RSI, the ATR baseline and ADX on a list of closed bars.  Periods are Python ints;
  every list index of the code is reached through \<open>take\<close>, \<open>drop\<close> and the pairing of each bar
  with its predecessor (\<open>adj_map\<close>), so nothing reads out of range.
\<close>

fun adj_map :: "('a \<Rightarrow> 'a \<Rightarrow> 'b) \<Rightarrow> 'a list \<Rightarrow> 'b list" where
  "adj_map f (x # y # zs) = f x y # adj_map f (y # zs)"
| "adj_map f _ = []"

lemma length_adj_map [simp]: "length (adj_map f xs) = length xs - 1"
  by (induction f xs rule: adj_map.induct) auto

lemma adj_map_all: "(\<And>x y. P (f x y)) \<Longrightarrow> z \<in> set (adj_map f xs) \<Longrightarrow> P z"
  by (induction f xs rule: adj_map.induct) auto

definition calculate_sma :: "bar list \<Rightarrow> int \<Rightarrow> dec option" where
  "calculate_sma bars period =
     (if int (length bars) < period \<or> period \<le> 0 then None
      else Some (ddiv (dsum (map br_close_price (last_n (nat period) bars))) (of_int period)))"

definition calculate_ema :: "bar list \<Rightarrow> int \<Rightarrow> dec option" where
  "calculate_ema bars period =
     (if int (length bars) < period \<or> period \<le> 0 then None
      else let k = ddiv 2 (of_int (period + 1));
               closes = map br_close_price bars;
               start = ddiv (dsum (take (nat period) closes)) (of_int period)
           in Some (foldl (\<lambda>ema c. dadd (dmul c k) (dmul ema (dsub 1 k))) start
                      (drop (nat period) closes)))"

subsection \<open>Average true range\<close>

definition true_range :: "bar \<Rightarrow> bar \<Rightarrow> dec" where
  "true_range prev cur =
     max (max (dsub (br_high_price cur) (br_low_price cur))
              (dabs (dsub (br_high_price cur) (br_close_price prev))))
         (dabs (dsub (br_low_price cur) (br_close_price prev)))"

definition wilder :: "dec \<Rightarrow> dec \<Rightarrow> dec \<Rightarrow> dec list \<Rightarrow> dec" where
  "wilder p_less_1 p start xs = foldl (\<lambda>a x. ddiv (dadd (dmul a p_less_1) x) p) start xs"

definition calculate_atr :: "bar list \<Rightarrow> int \<Rightarrow> dec option" where
  "calculate_atr bars period =
     (if int (length bars) < period + 1 \<or> period \<le> 0 then None
      else let trs = adj_map true_range bars
           in if int (length trs) < period then None
              else Some (wilder (of_int (period - 1)) (of_int period)
                           (ddiv (dsum (take (nat period) trs)) (of_int period))
                           (drop (nat period) trs)))"

definition calculate_atr_baseline :: "bar list \<Rightarrow> int \<Rightarrow> int \<Rightarrow> dec option" where
  "calculate_atr_baseline bars atr_period baseline_bars =
     (if int (length bars) < atr_period + 1 + baseline_bars \<or> baseline_bars \<le> 0 then None
      else let n = length bars; k = nat baseline_bars;
               vals = List.map_filter (\<lambda>off. calculate_atr (take (n - k + off + 1) bars) atr_period) [0..<k]
           in if vals = [] then None else Some (ddiv (dsum vals) (of_nat (length vals))))"

subsection \<open>Relative strength index\<close>

definition bar_gain :: "bar \<Rightarrow> bar \<Rightarrow> dec" where
  "bar_gain prev cur =
     (let change = dsub (br_close_price cur) (br_close_price prev) in if 0 < change then change else 0)"

definition bar_loss :: "bar \<Rightarrow> bar \<Rightarrow> dec" where
  "bar_loss prev cur =
     (let change = dsub (br_close_price cur) (br_close_price prev) in if 0 < change then 0 else dabs change)"

definition rsi_of :: "dec \<Rightarrow> dec \<Rightarrow> dec" where
  "rsi_of avg_gain avg_loss =
     (if avg_loss = 0 then 100
      else if avg_gain = 0 then 0
      else dsub 100 (ddiv 100 (dadd 1 (ddiv avg_gain avg_loss))))"

definition wilder_average :: "int \<Rightarrow> dec list \<Rightarrow> dec" where
  "wilder_average period xs =
     wilder (of_int (period - 1)) (of_int period)
       (ddiv (dsum (take (nat period) xs)) (of_int period)) (drop (nat period) xs)"

definition calculate_rsi :: "bar list \<Rightarrow> int \<Rightarrow> dec option" where
  "calculate_rsi bars period =
     (if int (length bars) < period + 1 \<or> period \<le> 0 then None
      else let gains = adj_map bar_gain bars; losses = adj_map bar_loss bars
           in if int (length gains) < period then None
              else Some (rsi_of (wilder_average period gains) (wilder_average period losses)))"

subsection \<open>Directional movement\<close>

record adx_result =
  ax_adx :: "dec option"
  ax_plus_di :: "dec option"
  ax_minus_di :: "dec option"

definition compute_dx :: "dec \<Rightarrow> dec \<Rightarrow> dec" where
  "compute_dx plus_di minus_di =
     (let total = dadd plus_di minus_di
      in if total = 0 then 0 else dmul (ddiv (dabs (dsub plus_di minus_di)) total) 100)"

definition di_of :: "dec \<Rightarrow> dec \<Rightarrow> dec" where
  "di_of dm_s atr_smooth = (if atr_smooth = 0 then 0 else dmul (ddiv dm_s atr_smooth) 100)"

definition plus_dm :: "bar \<Rightarrow> bar \<Rightarrow> dec" where
  "plus_dm prev cur =
     (let up = dsub (br_high_price cur) (br_high_price prev);
          down = dsub (br_low_price prev) (br_low_price cur)
      in if down < up \<and> 0 < up then up else 0)"

definition minus_dm :: "bar \<Rightarrow> bar \<Rightarrow> dec" where
  "minus_dm prev cur =
     (let up = dsub (br_high_price cur) (br_high_price prev);
          down = dsub (br_low_price prev) (br_low_price cur)
      in if up < down \<and> 0 < down then down else 0)"

text \<open>The smoothed true range and directional movements, and the list of DX values so far.\<close>

definition smooth :: "dec \<Rightarrow> dec \<Rightarrow> dec \<Rightarrow> dec" where
  "smooth p s x = dadd (dsub s (ddiv s p)) x"

fun dx_loop :: "dec \<Rightarrow> dec \<times> dec \<times> dec \<Rightarrow> (dec \<times> dec \<times> dec) list \<Rightarrow> dec list
    \<Rightarrow> (dec \<times> dec \<times> dec) \<times> dec list" where
  "dx_loop p s [] dxs = (s, dxs)"
| "dx_loop p (a, u, d) ((tr, pdm, ndm) # xs) dxs =
     (let a' = smooth p a tr; u' = smooth p u pdm; d' = smooth p d ndm
      in dx_loop p (a', u', d') xs (dxs @ [compute_dx (di_of u' a') (di_of d' a')]))"

definition calculate_adx :: "bar list \<Rightarrow> int \<Rightarrow> adx_result" where
  "calculate_adx bars period =
     (let none = \<lparr>ax_adx = None, ax_plus_di = None, ax_minus_di = None\<rparr>
      in if int (length bars) < period * 2 + 1 \<or> period \<le> 0 then none
      else let trs = adj_map true_range bars; pdms = adj_map plus_dm bars; ndms = adj_map minus_dm bars
      in if int (length trs) < period then none
      else let p = of_int period; n = nat period;
               a0 = dsum (take n trs); u0 = dsum (take n pdms); d0 = dsum (take n ndms);
               ((a, u, d), dxs) = dx_loop p (a0, u0, d0)
                  (zip (drop n trs) (zip (drop n pdms) (drop n ndms)))
                  [compute_dx (di_of u0 a0) (di_of d0 a0)]
      in if int (length dxs) < period then none
      else \<lparr>ax_adx = Some (wilder (dsub p 1) p (ddiv (dsum (take n dxs)) p) (drop n dxs)),
            ax_plus_di = Some (di_of u a), ax_minus_di = Some (di_of d a)\<rparr>)"

subsection \<open>Signs and bounds\<close>

lemma true_range_nonneg: "0 \<le> true_range p c"
  unfolding true_range_def by (simp add: le_max_iff_disj dabs_nonneg)

lemma bar_gain_nonneg: "0 \<le> bar_gain p c"
  by (simp add: bar_gain_def Let_def)

lemma bar_loss_nonneg: "0 \<le> bar_loss p c"
  by (simp add: bar_loss_def Let_def dabs_nonneg)

lemma wilder_nonneg:
  "0 \<le> q \<Longrightarrow> 0 \<le> p \<Longrightarrow> 0 \<le> a \<Longrightarrow> (\<And>x. x \<in> set xs \<Longrightarrow> 0 \<le> x) \<Longrightarrow> 0 \<le> wilder q p a xs"
  unfolding wilder_def
  by (rule foldl_invariant [of "\<lambda>a. 0 \<le> a"]) (auto intro!: dec_bounds)

lemma wilder_average_nonneg:
  assumes "1 \<le> period" "\<And>x. x \<in> set xs \<Longrightarrow> 0 \<le> x" shows "0 \<le> wilder_average period xs"
  unfolding wilder_average_def
  using assms by (intro wilder_nonneg dec_bounds) (auto dest: in_set_takeD in_set_dropD)

lemma rsi_of_bounds:
  assumes "0 \<le> g" "0 \<le> l" shows "0 \<le> rsi_of g l" "rsi_of g l \<le> 100"
proof -
  have "1 \<le> dadd 1 (ddiv g l)"
    unfolding dadd_def using ddiv_nonneg [OF assms] by (intro dc.rd_ge_fits) (simp_all add: dc.fits_1)
  then have "ddiv 100 (dadd 1 (ddiv g l)) \<le> 100"
    by (intro ddiv_le_self) (simp_all add: dec_fits_numeral)
  moreover have "0 \<le> ddiv 100 (dadd 1 (ddiv g l))"
    using \<open>1 \<le> dadd 1 (ddiv g l)\<close> by (intro ddiv_nonneg) auto
  ultimately have "0 \<le> dsub 100 (ddiv 100 (dadd 1 (ddiv g l)))"
    "dsub 100 (ddiv 100 (dadd 1 (ddiv g l))) \<le> 100"
    unfolding dsub_def by (auto intro!: dc.rd_nonneg dc.rd_le_fits dec_fits_numeral)
  then show "0 \<le> rsi_of g l" "rsi_of g l \<le> 100" by (simp_all add: rsi_of_def)
qed

lemma compute_dx_bounds:
  assumes "0 \<le> u" "0 \<le> d" shows "0 \<le> compute_dx u d" "compute_dx u d \<le> 100"
proof -
  have "dabs (dsub u d) \<le> dadd u d"
    unfolding dabs_dsub dadd_def using assms by (intro dc.rd_mono) linarith
  then have r: "ddiv (dabs (dsub u d)) (dadd u d) \<le> 1"
    using dadd_nonneg [OF assms] by (rule ddiv_le_1)
  then have "ddiv (dabs (dsub u d)) (dadd u d) * 100 \<le> 100" by simp
  then have "dmul (ddiv (dabs (dsub u d)) (dadd u d)) 100 \<le> 100"
    unfolding dmul_def by (intro dc.rd_le_fits dec_fits_numeral) simp_all
  then show "compute_dx u d \<le> 100" by (simp add: compute_dx_def Let_def)
  show "0 \<le> compute_dx u d"
    using assms by (auto simp: compute_dx_def Let_def intro!: dec_bounds)
qed

lemma di_of_nonneg: "0 \<le> u \<Longrightarrow> 0 \<le> a \<Longrightarrow> 0 \<le> di_of u a"
  by (auto simp: di_of_def intro!: dec_bounds)

lemma smooth_nonneg: "1 \<le> p \<Longrightarrow> 0 \<le> s \<Longrightarrow> dec_fits s \<Longrightarrow> 0 \<le> x \<Longrightarrow> 0 \<le> smooth p s x"
  unfolding smooth_def by (intro dec_bounds ddiv_le_self) auto

lemma smooth_fits [simp]: "dec_fits (smooth p s x)"
  by (simp add: smooth_def)

definition nonneg_fits :: "dec \<Rightarrow> bool" where
  "nonneg_fits x \<longleftrightarrow> 0 \<le> x \<and> dec_fits x"

lemma nonneg_fits_smooth: "1 \<le> p \<Longrightarrow> nonneg_fits s \<Longrightarrow> 0 \<le> x \<Longrightarrow> nonneg_fits (smooth p s x)"
  by (auto simp: nonneg_fits_def intro: smooth_nonneg)

lemma nonneg_fits_dsum: "(\<And>x. x \<in> set xs \<Longrightarrow> 0 \<le> x) \<Longrightarrow> nonneg_fits (dsum xs)"
  by (simp add: nonneg_fits_def dsum_nonneg)

lemma dx_of_bounds:
  assumes "nonneg_fits a" "nonneg_fits u" "nonneg_fits d"
  shows "0 \<le> compute_dx (di_of u a) (di_of d a)" "compute_dx (di_of u a) (di_of d a) \<le> 100"
  using assms by (auto simp: nonneg_fits_def intro!: compute_dx_bounds di_of_nonneg)

lemma dx_loop_bounds:
  assumes "dx_loop p (a, u, d) xs dxs = ((a', u', d'), dxs')" "1 \<le> p"
    "nonneg_fits a" "nonneg_fits u" "nonneg_fits d"
    "\<And>tr pd nd. (tr, pd, nd) \<in> set xs \<Longrightarrow> 0 \<le> tr \<and> 0 \<le> pd \<and> 0 \<le> nd"
    "\<And>x. x \<in> set dxs \<Longrightarrow> 0 \<le> x \<and> x \<le> 100"
  shows "nonneg_fits a' \<and> nonneg_fits u' \<and> nonneg_fits d' \<and> (\<forall>x \<in> set dxs'. 0 \<le> x \<and> x \<le> 100)"
  using assms
proof (induction xs arbitrary: a u d dxs)
  case Nil
  then show ?case by auto
next
  case (Cons x xs)
  obtain tr pd nd where x: "x = (tr, pd, nd)" by (cases x)
  have nn: "0 \<le> tr" "0 \<le> pd" "0 \<le> nd" using Cons.prems(6) [of tr pd nd] x by auto
  let ?a = "smooth p a tr" and ?u = "smooth p u pd" and ?d = "smooth p d nd"
  have fits: "nonneg_fits ?a" "nonneg_fits ?u" "nonneg_fits ?d"
    using Cons.prems(2-5) nn by (auto intro: nonneg_fits_smooth)
  show ?case
  proof (rule Cons.IH)
    show "dx_loop p (?a, ?u, ?d) xs (dxs @ [compute_dx (di_of ?u ?a) (di_of ?d ?a)])
        = ((a', u', d'), dxs')"
      using Cons.prems(1) by (simp add: x Let_def)
    show "0 \<le> y \<and> y \<le> 100" if "y \<in> set (dxs @ [compute_dx (di_of ?u ?a) (di_of ?d ?a)])" for y
      using that Cons.prems(7) dx_of_bounds [OF fits] by auto
    show "0 \<le> tr \<and> 0 \<le> pd \<and> 0 \<le> nd" if "(tr, pd, nd) \<in> set xs" for tr pd nd
      using that Cons.prems(6) [of tr pd nd] by simp
  qed (use Cons.prems(2) fits in auto)
qed

text \<open>A Wilder average of values up to an integer bound stays up to the bound.\<close>

lemma wilder_le:
  assumes p: "1 \<le> n" "n * c \<le> 10 ^ 28" "0 \<le> c" and a: "a \<le> of_int c"
    and xs: "\<And>x. x \<in> set xs \<Longrightarrow> x \<le> of_int c"
  shows "wilder (of_int (n - 1)) (of_int n) a xs \<le> of_int c"
  unfolding wilder_def
proof (rule foldl_invariant [of "\<lambda>a. a \<le> of_int c"])
  show "a \<le> of_int c" by (rule a)
  fix s x :: dec assume x: "x \<in> set xs" and s: "s \<le> of_int c"
  have nc: "0 \<le> (n - 1) * c" using p by (intro mult_nonneg_nonneg) auto
  have nc': "(n - 1) * c + c = n * c" by (simp add: algebra_simps)
  from nc have small: "\<bar>(n - 1) * c\<bar> \<le> 10 ^ 28" "\<bar>(n - 1) * c + c\<bar> \<le> 10 ^ 28" "\<bar>c\<bar> \<le> 10 ^ 28"
    using p nc nc' by linarith+
  have "s * of_int (n - 1) \<le> of_int c * of_int (n - 1)"
    using s p(1) by (intro mult_right_mono) auto
  then have "dmul s (of_int (n - 1)) \<le> of_int ((n - 1) * c)"
    unfolding dmul_def using small(1)
    by (intro dc.rd_le_fits dec_fits_int) (simp_all add: mult.commute)
  then have "dadd (dmul s (of_int (n - 1))) x \<le> of_int ((n - 1) * c + c)"
    using xs [OF x] small(2) by (rule dadd_le_int)
  then have "dadd (dmul s (of_int (n - 1))) x / of_int n \<le> of_int (n * c) / of_int n"
    unfolding nc' [symmetric] using p(1) by (intro divide_right_mono) auto
  also have "\<dots> = of_int c" using p(1) by simp
  finally show "ddiv (dadd (dmul s (of_int (n - 1))) x) (of_int n) \<le> of_int c"
    unfolding ddiv_def using small(3) by (intro dc.rd_le_fits dec_fits_int) auto
qed

lemma dmean_le:
  assumes "1 \<le> n" "n * c \<le> 10 ^ 28" "0 \<le> c" "length xs \<le> nat n" "\<And>x. x \<in> set xs \<Longrightarrow> x \<le> of_int c"
  shows "ddiv (dsum xs) (of_int n) \<le> of_int c"
proof -
  have len: "int (length xs) * c \<le> n * c" using assms by (intro mult_right_mono) auto
  then have "dsum xs \<le> of_int (int (length xs) * c)"
    using assms by (intro dsum_le_int) auto
  also have "\<dots> \<le> of_int (n * c)" using len by (simp only: of_int_le_iff)
  finally have "dsum xs / of_int n \<le> of_int (n * c) / of_int n"
    using assms(1) by (intro divide_right_mono) auto
  also have "\<dots> = of_int c" using assms(1) by simp
  finally have "dsum xs / of_int n \<le> of_int c" .
  moreover have "c \<le> n * c"
    using mult_right_mono [OF assms(1,3)] by (simp only: mult_1)
  then have "\<bar>c\<bar> \<le> 10 ^ 28" using assms(2,3) by linarith
  ultimately show ?thesis unfolding ddiv_def by (intro dc.rd_le_fits dec_fits_int) auto
qed

lemma calculate_atr_nonneg: "calculate_atr bars period = Some a \<Longrightarrow> 0 \<le> a"
  by (auto simp: calculate_atr_def Let_def split: if_splits
      intro!: wilder_nonneg dec_bounds dest!: in_set_takeD in_set_dropD
      elim!: adj_map_all [of "\<lambda>x. 0 \<le> x" true_range, OF true_range_nonneg])

lemma calculate_rsi_bounds:
  assumes "calculate_rsi bars period = Some r" shows "0 \<le> r" "r \<le> 100"
proof -
  let ?g = "wilder_average period (adj_map bar_gain bars)"
  let ?l = "wilder_average period (adj_map bar_loss bars)"
  have r: "r = rsi_of ?g ?l" and p: "1 \<le> period"
    using assms by (auto simp: calculate_rsi_def Let_def split: if_splits)
  have "0 \<le> ?g" using adj_map_all [of "\<lambda>x. 0 \<le> x" bar_gain, OF bar_gain_nonneg]
    by (intro wilder_average_nonneg [OF p])
  moreover have "0 \<le> ?l" using adj_map_all [of "\<lambda>x. 0 \<le> x" bar_loss, OF bar_loss_nonneg]
    by (intro wilder_average_nonneg [OF p])
  ultimately show "0 \<le> r" "r \<le> 100" unfolding r by (auto intro: rsi_of_bounds)
qed

lemma plus_dm_nonneg: "0 \<le> plus_dm p c" and minus_dm_nonneg: "0 \<le> minus_dm p c"
  by (simp_all add: plus_dm_def minus_dm_def Let_def)

text \<open>The state after the ADX loop, from the bars.\<close>

lemma adx_loop_bounds:
  assumes "1 \<le> period"
    "dx_loop (of_int period)
       (dsum (take n (adj_map true_range bars)), dsum (take n (adj_map plus_dm bars)),
        dsum (take n (adj_map minus_dm bars)))
       (zip (drop n (adj_map true_range bars))
            (zip (drop n (adj_map plus_dm bars)) (drop n (adj_map minus_dm bars))))
       [compute_dx (di_of (dsum (take n (adj_map plus_dm bars))) (dsum (take n (adj_map true_range bars))))
          (di_of (dsum (take n (adj_map minus_dm bars))) (dsum (take n (adj_map true_range bars))))]
     = ((a, u, d), dxs)"
  shows "nonneg_fits a \<and> nonneg_fits u \<and> nonneg_fits d \<and> (\<forall>x \<in> set dxs. 0 \<le> x \<and> x \<le> 100)"
proof (rule dx_loop_bounds [OF assms(2)])
  have tr: "0 \<le> x" if "x \<in> set (adj_map true_range bars)" for x
    using adj_map_all [of "\<lambda>x. 0 \<le> x" true_range, OF true_range_nonneg that] .
  have pd: "0 \<le> x" if "x \<in> set (adj_map plus_dm bars)" for x
    using adj_map_all [of "\<lambda>x. 0 \<le> x" plus_dm, OF plus_dm_nonneg that] .
  have nd: "0 \<le> x" if "x \<in> set (adj_map minus_dm bars)" for x
    using adj_map_all [of "\<lambda>x. 0 \<le> x" minus_dm, OF minus_dm_nonneg that] .
  show fits: "nonneg_fits (dsum (take n (adj_map true_range bars)))"
    "nonneg_fits (dsum (take n (adj_map plus_dm bars)))"
    "nonneg_fits (dsum (take n (adj_map minus_dm bars)))"
    using tr pd nd by (auto intro!: nonneg_fits_dsum dest: in_set_takeD)
  show "0 \<le> t \<and> 0 \<le> p \<and> 0 \<le> m"
    if "(t, p, m) \<in> set (zip (drop n (adj_map true_range bars))
            (zip (drop n (adj_map plus_dm bars)) (drop n (adj_map minus_dm bars))))" for t p m
    using tr [OF in_set_dropD [OF set_zip_leftD [OF that]]]
      pd [OF in_set_dropD [OF set_zip_leftD [OF set_zip_rightD [OF that]]]]
      nd [OF in_set_dropD [OF set_zip_rightD [OF set_zip_rightD [OF that]]]] by simp
  show "0 \<le> x \<and> x \<le> 100"
    if "x \<in> set [compute_dx (di_of (dsum (take n (adj_map plus_dm bars))) (dsum (take n (adj_map true_range bars))))
          (di_of (dsum (take n (adj_map minus_dm bars))) (dsum (take n (adj_map true_range bars))))]" for x
    using that dx_of_bounds [OF fits] by auto
qed (use assms(1) in simp)

lemma dsub_int_1: "\<bar>n - 1\<bar> \<le> 10 ^ 28 \<Longrightarrow> dsub (of_int n) 1 = of_int (n - 1)"
  unfolding dsub_def using dctx_fits [OF dec_fits_int [of "n - 1"]] by simp

lemma calculate_adx_Some:
  assumes "ax_adx (calculate_adx bars period) = Some x"
  obtains a u d dxs where "1 \<le> period"
    "nonneg_fits a" "nonneg_fits u" "nonneg_fits d" "\<forall>x \<in> set dxs. 0 \<le> x \<and> x \<le> 100"
    "x = wilder (dsub (of_int period) 1) (of_int period)
           (ddiv (dsum (take (nat period) dxs)) (of_int period)) (drop (nat period) dxs)"
    "ax_plus_di (calculate_adx bars period) = Some (di_of u a)"
    "ax_minus_di (calculate_adx bars period) = Some (di_of d a)"
proof -
  have p: "1 \<le> period" using assms by (auto simp: calculate_adx_def Let_def split: if_splits)
  obtain a u d dxs where loop: "dx_loop (of_int period)
       (dsum (take (nat period) (adj_map true_range bars)), dsum (take (nat period) (adj_map plus_dm bars)),
        dsum (take (nat period) (adj_map minus_dm bars)))
       (zip (drop (nat period) (adj_map true_range bars))
            (zip (drop (nat period) (adj_map plus_dm bars)) (drop (nat period) (adj_map minus_dm bars))))
       [compute_dx (di_of (dsum (take (nat period) (adj_map plus_dm bars))) (dsum (take (nat period) (adj_map true_range bars))))
          (di_of (dsum (take (nat period) (adj_map minus_dm bars))) (dsum (take (nat period) (adj_map true_range bars))))]
     = ((a, u, d), dxs)" by (metis prod.collapse)
  from adx_loop_bounds [OF p loop] assms show ?thesis
    by (intro that [OF p, of a u d dxs])
      (auto simp: calculate_adx_def Let_def loop split: if_splits)
qed

lemma calculate_adx_bounds:
  assumes x: "ax_adx (calculate_adx bars period) = Some x" and small: "period \<le> 10 ^ 26"
  shows "0 \<le> x" "x \<le> 100"
proof -
  from x obtain a u d dxs where *: "1 \<le> period" "\<forall>x \<in> set dxs. 0 \<le> x \<and> x \<le> 100"
    "x = wilder (dsub (of_int period) 1) (of_int period)
           (ddiv (dsum (take (nat period) dxs)) (of_int period)) (drop (nat period) dxs)"
    by (rule calculate_adx_Some) blast
  have one: "dsub (of_int period) 1 = of_int (period - 1)"
    using *(1) small by (intro dsub_int_1) simp
  have big: "period * 100 \<le> 10 ^ 28" using small by simp
  have "ddiv (dsum (take (nat period) dxs)) (of_int period) \<le> of_int 100"
    using *(1,2) big by (intro dmean_le) (auto dest: in_set_takeD)
  then have "x \<le> of_int 100"
    unfolding *(3) one using *(1,2) big by (intro wilder_le) (auto dest: in_set_dropD)
  then show "x \<le> 100" by simp
  show "0 \<le> x" unfolding *(3) using *(1,2)
    by (intro wilder_nonneg dec_bounds) (auto dest: in_set_takeD in_set_dropD)
qed

subsection \<open>Properties\<close>

text \<open>
  C6: the oscillators are bounded in the decimal arithmetic the code uses, rounding included.  On
  any bars (malformed ones too) an RSI lies between 0 and 100, an ATR is never negative, an ADX
  lies between 0 and 100 and comes with non-negative +DI and -DI.
\<close>

theorem indicators_bounded:
  assumes "period \<le> 10 ^ 26"
  shows "(\<forall>r. calculate_rsi bars period = Some r \<longrightarrow> 0 \<le> r \<and> r \<le> 100)
    \<and> (\<forall>a. calculate_atr bars period = Some a \<longrightarrow> 0 \<le> a)
    \<and> (\<forall>x. ax_adx (calculate_adx bars period) = Some x \<longrightarrow> 0 \<le> x \<and> x \<le> 100
         \<and> (\<exists>u d. ax_plus_di (calculate_adx bars period) = Some u \<and> 0 \<le> u
              \<and> ax_minus_di (calculate_adx bars period) = Some d \<and> 0 \<le> d))"
proof (intro conjI allI impI)
  fix x assume x: "ax_adx (calculate_adx bars period) = Some x"
  from x obtain a u d where "nonneg_fits a" "nonneg_fits u" "nonneg_fits d"
    "ax_plus_di (calculate_adx bars period) = Some (di_of u a)"
    "ax_minus_di (calculate_adx bars period) = Some (di_of d a)"
    by (rule calculate_adx_Some) blast
  then show "\<exists>u d. ax_plus_di (calculate_adx bars period) = Some u \<and> 0 \<le> u
              \<and> ax_minus_di (calculate_adx bars period) = Some d \<and> 0 \<le> d"
    by (auto simp: nonneg_fits_def intro: di_of_nonneg)
qed (use assms in \<open>auto intro: calculate_rsi_bounds calculate_atr_nonneg calculate_adx_bounds\<close>)

definition demo_bar :: "nat \<Rightarrow> dec \<Rightarrow> dec \<Rightarrow> dec \<Rightarrow> bar" where
  "demo_bar i hi lo cl =
     \<lparr>br_symbol = ''XAUUSD'', br_timeframe = ''M15'', br_open_time = int i * 900 * 10 ^ 6,
      br_close_time = (int i + 1) * 900 * 10 ^ 6, br_open_price = lo, br_high_price = hi,
      br_low_price = lo, br_close_price = cl, br_volume = 1, br_is_closed = True\<rparr>"

text \<open>Three bars, period 1: every close is higher, so the RSI is 100 and the ATR the last range.\<close>

theorem indicators_bounded_witness:
  "calculate_rsi [demo_bar 0 2002 2000 2001, demo_bar 1 2004 2001 2003, demo_bar 2 2006 2003 2005] 1 = Some 100
   \<and> (100::dec) \<le> 100 \<and> (0::dec) \<le> 3
   \<and> calculate_atr [demo_bar 0 2002 2000 2001, demo_bar 1 2004 2001 2003, demo_bar 2 2006 2003 2005] 1 = Some 3"
proof -
  let ?bars = "[demo_bar 0 2002 2000 2001, demo_bar 1 2004 2001 2003, demo_bar 2 2006 2003 2005]"
  have r: "calculate_rsi ?bars 1 = Some 100"
    by (simp add: calculate_rsi_def demo_bar_def bar_gain_def bar_loss_def rsi_of_def Let_def
        wilder_average_def wilder_def dsum_def dec_ops dec_simps)
  have a: "calculate_atr ?bars 1 = Some 3"
    by (simp add: calculate_atr_def demo_bar_def true_range_def Let_def
        wilder_def dsum_def dec_ops dec_simps)
  from indicators_bounded [of 1 ?bars] r a show ?thesis by auto
qed

end
