(* ===== verification/Market_Structure.thy ===== *)
theory Market_Structure
  imports Market_Types
begin

section \<open>Market structure (\<open>brain/structure.py\<close>)\<close>

text \<open>
  Swing pivots with a strict left/right comparison, and the structure state from the last two
  swing highs and lows.  The string-valued fields of the code range over the constructors below.
\<close>

record swing_point =
  sw_bar_index :: nat
  sw_price :: dec
  sw_is_high :: bool

datatype bias = BULLISH | BEARISH | NEUTRAL
datatype struct_event = BOS_BULLISH | BOS_BEARISH | CHOCH_BULLISH | CHOCH_BEARISH | NO_EVENT
datatype struct_direction = DIR_UP | DIR_DOWN | DIR_NEUTRAL

record structure_state =
  st_bias :: bias
  st_recent_swing_high :: "dec option"
  st_recent_swing_low :: "dec option"
  st_last_event :: struct_event
  st_structural_direction :: struct_direction

subsection \<open>Swing points\<close>

text \<open>The indices \<open>range(i - lookback, i + lookback + 1)\<close> without \<open>i\<close>.\<close>

definition pivot_window :: "nat \<Rightarrow> nat \<Rightarrow> nat list" where
  "pivot_window lb i = filter (\<lambda>j. j \<noteq> i) [i - lb..<i + lb + 1]"

definition is_swing_high :: "bar list \<Rightarrow> nat \<Rightarrow> nat \<Rightarrow> bool" where
  "is_swing_high bars lb i \<longleftrightarrow>
     list_all (\<lambda>j. br_high_price (bars ! j) < br_high_price (bars ! i)) (pivot_window lb i)"

definition is_swing_low :: "bar list \<Rightarrow> nat \<Rightarrow> nat \<Rightarrow> bool" where
  "is_swing_low bars lb i \<longleftrightarrow>
     list_all (\<lambda>j. br_low_price (bars ! i) < br_low_price (bars ! j)) (pivot_window lb i)"

definition swings_at :: "bar list \<Rightarrow> nat \<Rightarrow> nat \<Rightarrow> swing_point list" where
  "swings_at bars lb i =
     (if is_swing_high bars lb i
      then [\<lparr>sw_bar_index = i, sw_price = br_high_price (bars ! i), sw_is_high = True\<rparr>] else [])
     @ (if is_swing_low bars lb i
        then [\<lparr>sw_bar_index = i, sw_price = br_low_price (bars ! i), sw_is_high = False\<rparr>] else [])"

definition detect_swing_points :: "bar list \<Rightarrow> int \<Rightarrow> swing_point list" where
  "detect_swing_points bars lookback =
     (if int (length bars) < 2 * lookback + 1 \<or> lookback < 1 then []
      else concat (map (swings_at bars (nat lookback))
             [nat lookback..<length bars - nat lookback]))"

subsection \<open>Structure state\<close>

definition atr_scaled :: "dec option \<Rightarrow> dec \<Rightarrow> dec" where
  "atr_scaled atr mult = (case atr of None \<Rightarrow> 0 | Some a \<Rightarrow> if 0 < a then dmul a mult else 0)"

text \<open>The branch on two swing highs and two swing lows: (bias, last event, direction).\<close>

definition classify_swings ::
  "dec \<Rightarrow> dec \<Rightarrow> dec \<Rightarrow> dec \<Rightarrow> dec \<Rightarrow> dec \<Rightarrow> bias \<times> struct_event \<times> struct_direction" where
  "classify_swings min_bos equal_tol h1 h2 l1 l2 =
     (let hh = dadd h1 min_bos < h2; hl = dadd l1 min_bos < l2;
          lh = h2 < dsub h1 min_bos; ll = l2 < dsub l1 min_bos;
          eq_h = dabs (dsub h2 h1) \<le> equal_tol; eq_l = dabs (dsub l2 l1) \<le> equal_tol
      in if hh \<and> hl then (BULLISH, BOS_BULLISH, DIR_UP)
         else if lh \<and> ll then (BEARISH, BOS_BEARISH, DIR_DOWN)
         else if lh \<and> hl then (NEUTRAL, CHOCH_BULLISH, DIR_UP)
         else if hh \<and> ll then (NEUTRAL, CHOCH_BEARISH, DIR_DOWN)
         else if eq_h \<or> eq_l then (NEUTRAL, NO_EVENT, DIR_NEUTRAL)
         else (NEUTRAL, NO_EVENT, DIR_NEUTRAL))"

definition classify_one :: "dec \<Rightarrow> dec \<Rightarrow> dec \<Rightarrow> struct_direction" where
  "classify_one min_bos p1 p2 =
     (if dadd p1 min_bos < p2 then DIR_UP else if p2 < dsub p1 min_bos then DIR_DOWN else DIR_NEUTRAL)"

definition second_last :: "'a list \<Rightarrow> 'a" where
  "second_last xs = xs ! (length xs - 2)"

definition analyze_structure ::
  "bar list \<Rightarrow> int \<Rightarrow> dec option \<Rightarrow> dec \<Rightarrow> dec \<Rightarrow> structure_state" where
  "analyze_structure bars lookback atr min_bos_mult equal_tol_mult =
     (let swings = detect_swing_points bars lookback
      in if swings = []
         then \<lparr>st_bias = NEUTRAL, st_recent_swing_high = None, st_recent_swing_low = None,
               st_last_event = NO_EVENT, st_structural_direction = DIR_NEUTRAL\<rparr>
      else let highs = map sw_price (filter sw_is_high swings);
               lows = map sw_price (filter (\<lambda>s. \<not> sw_is_high s) swings);
               min_bos = atr_scaled atr min_bos_mult; equal_tol = atr_scaled atr equal_tol_mult;
               (b, ev, dir) =
                 (if 2 \<le> length highs \<and> 2 \<le> length lows
                  then classify_swings min_bos equal_tol (second_last highs) (last highs)
                         (second_last lows) (last lows)
                  else if 2 \<le> length highs
                  then (NEUTRAL, NO_EVENT, classify_one min_bos (second_last highs) (last highs))
                  else if 2 \<le> length lows
                  then (NEUTRAL, NO_EVENT, classify_one min_bos (second_last lows) (last lows))
                  else (NEUTRAL, NO_EVENT, DIR_NEUTRAL))
           in \<lparr>st_bias = b,
               st_recent_swing_high = (if highs = [] then None else Some (last highs)),
               st_recent_swing_low = (if lows = [] then None else Some (last lows)),
               st_last_event = ev, st_structural_direction = dir\<rparr>)"

subsection \<open>Lemmas\<close>

lemma set_pivot_window: "set (pivot_window lb i) = {j. i - lb \<le> j \<and> j \<le> i + lb \<and> j \<noteq> i}"
  by (auto simp: pivot_window_def)

lemma swings_at_append:
  assumes "i + lb < length bars"
  shows "swings_at (bars @ new) lb i = swings_at bars lb i"
proof -
  have "(bars @ new) ! j = bars ! j" if "j \<in> set (pivot_window lb i)" for j
    using that assms by (auto simp: set_pivot_window nth_append)
  moreover have "(bars @ new) ! i = bars ! i" using assms by (simp add: nth_append)
  ultimately show ?thesis
    by (simp add: swings_at_def is_swing_high_def is_swing_low_def list_all_iff)
qed

lemma detect_append:
  assumes "1 \<le> lb"
  shows "\<exists>more. detect_swing_points (bars @ new) lb = detect_swing_points bars lb @ more"
proof (cases "int (length bars) < 2 * lb + 1")
  case True
  with assms show ?thesis by (simp add: detect_swing_points_def)
next
  case False
  define n where "n = nat lb"
  have n: "2 * n + 1 \<le> length bars" using False assms by (simp add: n_def)
  let ?f = "swings_at (bars @ new) n"
  have split: "[n..<length (bars @ new) - n] =
      [n..<length bars - n] @ [length bars - n..<length (bars @ new) - n]"
    using n upt_add_eq_append [of n "length bars - n" "length new"] by simp
  have same: "map ?f [n..<length bars - n] = map (swings_at bars n) [n..<length bars - n]"
    by (rule map_cong) (auto intro!: swings_at_append)
  have "concat (map ?f [n..<length (bars @ new) - n]) =
      concat (map (swings_at bars n) [n..<length bars - n])
      @ concat (map ?f [length bars - n..<length (bars @ new) - n])"
    by (simp only: split map_append concat_append same)
  with False assms show ?thesis unfolding detect_swing_points_def n_def by auto
qed

lemma swings_at_elem:
  "s \<in> set (swings_at bars lb i) \<Longrightarrow> sw_bar_index s = i
     \<and> (sw_is_high s \<longrightarrow> is_swing_high bars lb i \<and> sw_price s = br_high_price (bars ! i))
     \<and> (\<not> sw_is_high s \<longrightarrow> is_swing_low bars lb i \<and> sw_price s = br_low_price (bars ! i))"
  by (auto simp: swings_at_def split: if_splits)

lemma detect_elem:
  assumes "s \<in> set (detect_swing_points bars lb)"
  shows "1 \<le> lb \<and> lb \<le> int (sw_bar_index s) \<and> int (sw_bar_index s) + lb < int (length bars)
     \<and> (sw_is_high s \<longrightarrow> is_swing_high bars (nat lb) (sw_bar_index s)
          \<and> sw_price s = br_high_price (bars ! sw_bar_index s))
     \<and> (\<not> sw_is_high s \<longrightarrow> is_swing_low bars (nat lb) (sw_bar_index s)
          \<and> sw_price s = br_low_price (bars ! sw_bar_index s))"
proof -
  from assms obtain i where i: "s \<in> set (swings_at bars (nat lb) i)" "1 \<le> lb"
    "i \<in> set [nat lb..<length bars - nat lb]"
    by (auto simp: detect_swing_points_def split: if_splits)
  from swings_at_elem [OF i(1)] i(2,3) show ?thesis by auto
qed

text \<open>Membership spelled out: a point is reported exactly where a bar with \<open>lookback\<close> bars on each side
  tops (or undercuts) all of them.\<close>

lemma set_pivot_window_int:
  "0 \<le> lb \<Longrightarrow> set (pivot_window (nat lb) i) = {j. j \<noteq> i \<and> \<bar>int j - int i\<bar> \<le> lb}"
  unfolding set_pivot_window by (rule Collect_cong) linarith

lemma swing_high_iff:
  "0 \<le> lb \<Longrightarrow> is_swing_high bars (nat lb) i \<longleftrightarrow>
     (\<forall>j. j \<noteq> i \<and> \<bar>int j - int i\<bar> \<le> lb \<longrightarrow> br_high_price (bars ! j) < br_high_price (bars ! i))"
  by (simp only: is_swing_high_def list_all_iff set_pivot_window_int Ball_Collect subset_iff mem_Collect_eq)

lemma swing_low_iff:
  "0 \<le> lb \<Longrightarrow> is_swing_low bars (nat lb) i \<longleftrightarrow>
     (\<forall>j. j \<noteq> i \<and> \<bar>int j - int i\<bar> \<le> lb \<longrightarrow> br_low_price (bars ! i) < br_low_price (bars ! j))"
  by (simp only: is_swing_low_def list_all_iff set_pivot_window_int Ball_Collect subset_iff mem_Collect_eq)

lemma detect_iff:
  assumes "1 \<le> lb"
  shows "s \<in> set (detect_swing_points bars lb) \<longleftrightarrow>
    (\<exists>i. lb \<le> int i \<and> int i + lb < int (length bars)
       \<and> (s = \<lparr>sw_bar_index = i, sw_price = br_high_price (bars ! i), sw_is_high = True\<rparr>
            \<and> is_swing_high bars (nat lb) i
          \<or> s = \<lparr>sw_bar_index = i, sw_price = br_low_price (bars ! i), sw_is_high = False\<rparr>
            \<and> is_swing_low bars (nat lb) i))"
proof -
  have "s \<in> set (detect_swing_points bars lb) \<longleftrightarrow>
      (\<exists>i. nat lb \<le> i \<and> i < length bars - nat lb \<and> s \<in> set (swings_at bars (nat lb) i))"
    using assms by (auto simp: detect_swing_points_def)
  moreover have "nat lb \<le> i \<and> i < length bars - nat lb \<longleftrightarrow> lb \<le> int i \<and> int i + lb < int (length bars)" for i
    using assms by linarith
  ultimately show ?thesis by (auto simp: swings_at_def)
qed

text \<open>Two highs within one window would each have to exceed the other.\<close>

lemma swing_highs_apart:
  assumes "is_swing_high bars lb i" "is_swing_high bars lb j" "i \<noteq> j" "i < j"
  shows "i + lb < j"
proof (rule ccontr)
  assume "\<not> i + lb < j"
  with assms(3,4) have "j \<in> set (pivot_window lb i)" "i \<in> set (pivot_window lb j)"
    by (auto simp: set_pivot_window)
  with assms(1,2) have "br_high_price (bars ! j) < br_high_price (bars ! i)"
    "br_high_price (bars ! i) < br_high_price (bars ! j)"
    by (auto simp: is_swing_high_def list_all_iff)
  then show False by simp
qed

lemma swing_lows_apart:
  assumes "is_swing_low bars lb i" "is_swing_low bars lb j" "i \<noteq> j" "i < j"
  shows "i + lb < j"
proof (rule ccontr)
  assume "\<not> i + lb < j"
  with assms(3,4) have "j \<in> set (pivot_window lb i)" "i \<in> set (pivot_window lb j)"
    by (auto simp: set_pivot_window)
  with assms(1,2) have "br_low_price (bars ! i) < br_low_price (bars ! j)"
    "br_low_price (bars ! j) < br_low_price (bars ! i)"
    by (auto simp: is_swing_low_def list_all_iff)
  then show False by simp
qed

lemma atr_scaled_nonneg: "0 \<le> m \<Longrightarrow> 0 \<le> atr_scaled a m"
  by (auto simp: atr_scaled_def dmul_nonneg split: option.split)

lemma analyze_bullish:
  assumes "st_bias (analyze_structure bars lb atr bm em) = BULLISH"
  shows "st_last_event (analyze_structure bars lb atr bm em) = BOS_BULLISH
    \<and> st_structural_direction (analyze_structure bars lb atr bm em) = DIR_UP
    \<and> (\<exists>h1 h2 l1 l2. dadd h1 (atr_scaled atr bm) < h2 \<and> dadd l1 (atr_scaled atr bm) < l2
         \<and> st_recent_swing_high (analyze_structure bars lb atr bm em) = Some h2
         \<and> st_recent_swing_low (analyze_structure bars lb atr bm em) = Some l2)"
  using assms
  by (auto simp: analyze_structure_def classify_swings_def Let_def split: if_splits)

lemma analyze_bearish:
  assumes "st_bias (analyze_structure bars lb atr bm em) = BEARISH"
  shows "st_last_event (analyze_structure bars lb atr bm em) = BOS_BEARISH
    \<and> st_structural_direction (analyze_structure bars lb atr bm em) = DIR_DOWN
    \<and> (\<exists>h1 h2 l1 l2. h2 < dsub h1 (atr_scaled atr bm) \<and> l2 < dsub l1 (atr_scaled atr bm)
         \<and> st_recent_swing_high (analyze_structure bars lb atr bm em) = Some h2
         \<and> st_recent_swing_low (analyze_structure bars lb atr bm em) = Some l2)"
  using assms
  by (auto simp: analyze_structure_def classify_swings_def Let_def split: if_splits)

text \<open>The tolerance for equal levels never changes the result: both last branches agree.\<close>

lemma classify_swings_equal_tol: "classify_swings m e h1 h2 l1 l2 = classify_swings m e' h1 h2 l1 l2"
  by (simp add: classify_swings_def Let_def)

subsection \<open>Properties\<close>

text \<open>
  C7: swing points do not repaint and are exactly the true pivots.  Appending bars only appends swing
  points; a high is reported at a bar, with that bar's high, exactly when the bar has \<open>lookback\<close> bars on
  each side and its high exceeds the high of all of them, likewise a low; and two swing highs (or two
  swing lows) are always more than \<open>lookback\<close> bars apart.
\<close>

theorem swings_do_not_repaint:
  assumes "1 \<le> lb"
  shows "(\<exists>more. detect_swing_points (bars @ new) lb = detect_swing_points bars lb @ more)
    \<and> (\<forall>s. s \<in> set (detect_swing_points bars lb) \<longleftrightarrow>
         (\<exists>i. lb \<le> int i \<and> int i + lb < int (length bars)
            \<and> (s = \<lparr>sw_bar_index = i, sw_price = br_high_price (bars ! i), sw_is_high = True\<rparr>
                 \<and> (\<forall>j. j \<noteq> i \<and> \<bar>int j - int i\<bar> \<le> lb \<longrightarrow> br_high_price (bars ! j) < br_high_price (bars ! i))
               \<or> s = \<lparr>sw_bar_index = i, sw_price = br_low_price (bars ! i), sw_is_high = False\<rparr>
                 \<and> (\<forall>j. j \<noteq> i \<and> \<bar>int j - int i\<bar> \<le> lb \<longrightarrow> br_low_price (bars ! i) < br_low_price (bars ! j)))))
    \<and> (\<forall>s \<in> set (detect_swing_points bars lb). \<forall>s' \<in> set (detect_swing_points bars lb).
         sw_is_high s = sw_is_high s' \<longrightarrow> sw_bar_index s < sw_bar_index s'
           \<longrightarrow> int (sw_bar_index s) + lb < int (sw_bar_index s'))"
proof (intro conjI ballI impI)
  show "\<exists>more. detect_swing_points (bars @ new) lb = detect_swing_points bars lb @ more"
    by (rule detect_append [OF assms])
  from assms have "0 \<le> lb" by simp
  note detect_iff [OF assms, unfolded swing_high_iff [OF this] swing_low_iff [OF this]]
  then show "\<forall>s. s \<in> set (detect_swing_points bars lb) \<longleftrightarrow>
         (\<exists>i. lb \<le> int i \<and> int i + lb < int (length bars)
            \<and> (s = \<lparr>sw_bar_index = i, sw_price = br_high_price (bars ! i), sw_is_high = True\<rparr>
                 \<and> (\<forall>j. j \<noteq> i \<and> \<bar>int j - int i\<bar> \<le> lb \<longrightarrow> br_high_price (bars ! j) < br_high_price (bars ! i))
               \<or> s = \<lparr>sw_bar_index = i, sw_price = br_low_price (bars ! i), sw_is_high = False\<rparr>
                 \<and> (\<forall>j. j \<noteq> i \<and> \<bar>int j - int i\<bar> \<le> lb \<longrightarrow> br_low_price (bars ! i) < br_low_price (bars ! j))))"
    by (rule allI)
  fix s s' assume s: "s \<in> set (detect_swing_points bars lb)" and s': "s' \<in> set (detect_swing_points bars lb)"
    and "sw_is_high s = sw_is_high s'" "sw_bar_index s < sw_bar_index s'"
  with detect_elem [OF s] detect_elem [OF s'] have "sw_bar_index s + nat lb < sw_bar_index s'"
    by (cases "sw_is_high s'") (auto intro: swing_highs_apart swing_lows_apart)
  with assms show "int (sw_bar_index s) + lb < int (sw_bar_index s')" by linarith
qed

definition demo_price_bar :: "dec \<Rightarrow> dec \<Rightarrow> bar" where
  "demo_price_bar h l =
     \<lparr>br_symbol = [], br_timeframe = [], br_open_time = 0, br_close_time = 1, br_open_price = l,
      br_high_price = h, br_low_price = l, br_close_price = h, br_volume = 1, br_is_closed = True\<rparr>"

text \<open>A high at index 1 and a low at index 2, which only the fourth bar confirms.\<close>

theorem swings_do_not_repaint_witness:
  "detect_swing_points [demo_price_bar 2 1, demo_price_bar 4 2, demo_price_bar 3 0] 1
     = [\<lparr>sw_bar_index = 1, sw_price = 4, sw_is_high = True\<rparr>]
   \<and> (\<exists>more. detect_swing_points
        ([demo_price_bar 2 1, demo_price_bar 4 2, demo_price_bar 3 0] @ [demo_price_bar 3 1]) 1
      = detect_swing_points [demo_price_bar 2 1, demo_price_bar 4 2, demo_price_bar 3 0] 1 @ more)"
proof
  show "detect_swing_points [demo_price_bar 2 1, demo_price_bar 4 2, demo_price_bar 3 0] 1
     = [\<lparr>sw_bar_index = 1, sw_price = 4, sw_is_high = True\<rparr>]"
    by (simp add: detect_swing_points_def swings_at_def is_swing_high_def is_swing_low_def
        pivot_window_def demo_price_bar_def upt_rec)
  show "\<exists>more. detect_swing_points
        ([demo_price_bar 2 1, demo_price_bar 4 2, demo_price_bar 3 0] @ [demo_price_bar 3 1]) 1
      = detect_swing_points [demo_price_bar 2 1, demo_price_bar 4 2, demo_price_bar 3 0] 1 @ more"
    using swings_do_not_repaint [of 1 "[demo_price_bar 2 1, demo_price_bar 4 2, demo_price_bar 3 0]"
        "[demo_price_bar 3 1]"] by blast
qed

end
