(* ===== verification/Regime.thy ===== *)
theory Regime
  imports Indicators Market_Structure
begin

section \<open>Regime classification (\<open>brain/regime.py\<close>)\<close>

text \<open>
  The regime snapshot computed from closed bars.  The keyword parameters of \<open>classify_regime\<close> are
  one record; the only operation that can raise is the quotient \<open>1 / volatility_normal_ratio\<close>,
  evaluated on the last branch of the volatility cascade.
\<close>

datatype regime = TREND_UP | TREND_DOWN | RANGE | TRANSITION | HIGH_VOLATILITY | UNKNOWN_REGIME
datatype trend_strength = TRENDING | WEAK | UNKNOWN_STRENGTH
datatype momentum = MOM_BULLISH | MOM_BEARISH | MOM_NEUTRAL | EXHAUSTED
datatype volatility = NORMAL | EXPANDING | CONTRACTING | ABNORMAL_HIGH | UNKNOWN_VOLATILITY

record regime_context =
  rc_regime :: regime
  rc_fast_ma :: "dec option"
  rc_slow_ma :: "dec option"
  rc_trend_direction :: bias
  rc_adx :: "dec option"
  rc_plus_di :: "dec option"
  rc_minus_di :: "dec option"
  rc_trend_strength :: trend_strength
  rc_rsi :: "dec option"
  rc_momentum_state :: momentum
  rc_atr :: "dec option"
  rc_atr_baseline :: "dec option"
  rc_volatility_state :: volatility

definition permits_new_entry :: "regime_context \<Rightarrow> bool" where
  "permits_new_entry r \<longleftrightarrow> rc_regime r \<notin> {UNKNOWN_REGIME, HIGH_VOLATILITY, TRANSITION}"

definition momentum_direction :: "regime_context \<Rightarrow> momentum" where
  "momentum_direction r =
     (if rc_momentum_state r = MOM_BULLISH \<or> rc_momentum_state r = MOM_BEARISH
      then rc_momentum_state r else MOM_NEUTRAL)"

record regime_params =
  rp_fast_period :: int
  rp_slow_period :: int
  rp_rsi_period :: int
  rp_atr_period :: int
  rp_adx_period :: int
  rp_trending_threshold :: dec
  rp_rsi_bullish_min :: dec
  rp_rsi_bearish_max :: dec
  rp_rsi_overbought :: dec
  rp_rsi_oversold :: dec
  rp_atr_baseline_bars :: int
  rp_volatility_normal_ratio :: dec
  rp_volatility_high_ratio :: dec
  rp_max_atr_threshold :: "dec option"

definition default_regime_params :: regime_params where
  "default_regime_params =
     \<lparr>rp_fast_period = 20, rp_slow_period = 50, rp_rsi_period = 14, rp_atr_period = 14,
      rp_adx_period = 14, rp_trending_threshold = 20, rp_rsi_bullish_min = 52,
      rp_rsi_bearish_max = 48, rp_rsi_overbought = 70, rp_rsi_oversold = 30,
      rp_atr_baseline_bars = 50, rp_volatility_normal_ratio = 3 / 2,
      rp_volatility_high_ratio = 2, rp_max_atr_threshold = None\<rparr>"

definition unknown_context :: regime_context where
  "unknown_context =
     \<lparr>rc_regime = UNKNOWN_REGIME, rc_fast_ma = None, rc_slow_ma = None,
      rc_trend_direction = NEUTRAL, rc_adx = None, rc_plus_di = None, rc_minus_di = None,
      rc_trend_strength = UNKNOWN_STRENGTH, rc_rsi = None, rc_momentum_state = MOM_NEUTRAL,
      rc_atr = None, rc_atr_baseline = None, rc_volatility_state = UNKNOWN_VOLATILITY\<rparr>"

definition trend_direction_of :: "dec option \<Rightarrow> dec option \<Rightarrow> bias" where
  "trend_direction_of fast slow =
     (case (fast, slow) of
        (Some f, Some s) \<Rightarrow> if s < f then BULLISH else if f < s then BEARISH else NEUTRAL
      | _ \<Rightarrow> NEUTRAL)"

definition trend_strength_of :: "dec \<Rightarrow> dec option \<Rightarrow> bias \<Rightarrow> trend_strength" where
  "trend_strength_of threshold adx dir =
     (case adx of
        Some a \<Rightarrow> if threshold \<le> a then TRENDING else WEAK
      | None \<Rightarrow> if dir \<noteq> NEUTRAL then TRENDING else UNKNOWN_STRENGTH)"

definition momentum_of :: "regime_params \<Rightarrow> dec option \<Rightarrow> bias \<Rightarrow> momentum" where
  "momentum_of P rsi dir =
     (case rsi of
        None \<Rightarrow> MOM_NEUTRAL
      | Some r \<Rightarrow>
          if dir = BULLISH \<and> rp_rsi_overbought P \<le> r \<or> dir = BEARISH \<and> r \<le> rp_rsi_oversold P
          then EXHAUSTED
          else if rp_rsi_bullish_min P \<le> r then MOM_BULLISH
          else if r \<le> rp_rsi_bearish_max P then MOM_BEARISH
          else MOM_NEUTRAL)"

definition volatility_of :: "regime_params \<Rightarrow> dec option \<Rightarrow> dec option \<Rightarrow> volatility res" where
  "volatility_of P atr baseline =
     (case atr of
        None \<Rightarrow> Inr NORMAL
      | Some a \<Rightarrow>
          (case baseline of
             Some b \<Rightarrow>
               if 0 < b then
                 let ratio = ddiv a b
                 in if rp_volatility_high_ratio P \<le> ratio then Inr ABNORMAL_HIGH
                    else if rp_volatility_normal_ratio P \<le> ratio then Inr EXPANDING
                    else bind_res (ddiv_res 1 (rp_volatility_normal_ratio P))
                           (\<lambda>q. Inr (if ratio < q then CONTRACTING else NORMAL))
               else (case rp_max_atr_threshold P of
                       Some m \<Rightarrow> Inr (if m < a then ABNORMAL_HIGH else NORMAL)
                     | None \<Rightarrow> Inr NORMAL)
           | None \<Rightarrow> (case rp_max_atr_threshold P of
                       Some m \<Rightarrow> Inr (if m < a then ABNORMAL_HIGH else NORMAL)
                     | None \<Rightarrow> Inr NORMAL)))"

definition regime_of ::
  "dec option \<Rightarrow> dec option \<Rightarrow> bias \<Rightarrow> trend_strength \<Rightarrow> momentum \<Rightarrow> volatility \<Rightarrow> regime" where
  "regime_of fast slow dir strength mom vol =
     (if vol = ABNORMAL_HIGH then HIGH_VOLATILITY
      else if fast = None \<or> slow = None then UNKNOWN_REGIME
      else if dir = BULLISH \<and> strength = TRENDING \<and> (mom = MOM_BULLISH \<or> mom = MOM_NEUTRAL)
      then TREND_UP
      else if dir = BEARISH \<and> strength = TRENDING \<and> (mom = MOM_BEARISH \<or> mom = MOM_NEUTRAL)
      then TREND_DOWN
      else if strength = WEAK \<and> dir \<noteq> NEUTRAL then TRANSITION
      else RANGE)"

definition classify_regime :: "regime_params \<Rightarrow> bar list \<Rightarrow> regime_context res" where
  "classify_regime P bars =
     (if int (length bars) < max (rp_slow_period P) (max (rp_rsi_period P + 1) (rp_atr_period P + 1))
      then Inr unknown_context
      else let fast = calculate_ema bars (rp_fast_period P);
               slow = calculate_ema bars (rp_slow_period P);
               rsi = calculate_rsi bars (rp_rsi_period P);
               atr = calculate_atr bars (rp_atr_period P);
               ax = calculate_adx bars (rp_adx_period P);
               baseline = (if rp_atr_period P + 1 + rp_atr_baseline_bars P \<le> int (length bars)
                           then calculate_atr_baseline bars (rp_atr_period P) (rp_atr_baseline_bars P)
                           else None);
               dir = trend_direction_of fast slow;
               strength = trend_strength_of (rp_trending_threshold P) (ax_adx ax) dir;
               mom = momentum_of P rsi dir
           in bind_res (volatility_of P atr baseline) (\<lambda>vol.
                Inr \<lparr>rc_regime = regime_of fast slow dir strength mom vol,
                     rc_fast_ma = fast, rc_slow_ma = slow, rc_trend_direction = dir,
                     rc_adx = ax_adx ax, rc_plus_di = ax_plus_di ax, rc_minus_di = ax_minus_di ax,
                     rc_trend_strength = strength, rc_rsi = rsi, rc_momentum_state = mom,
                     rc_atr = atr, rc_atr_baseline = baseline, rc_volatility_state = vol\<rparr>))"

subsection \<open>Lemmas\<close>

lemma volatility_of_total:
  "rp_volatility_normal_ratio P \<noteq> 0 \<Longrightarrow> \<exists>v. volatility_of P atr baseline = Inr v"
  by (auto simp: volatility_of_def ddiv_res_def Let_def split: option.splits)

lemma classify_regime_total:
  "rp_volatility_normal_ratio P \<noteq> 0 \<Longrightarrow> \<exists>r. classify_regime P bars = Inr r"
  unfolding classify_regime_def Let_def
  by (rule if_res_total, blast, intro bind_res_total volatility_of_total exI, assumption, rule refl)

text \<open>Every field of a computed context is the one the branch functions give.\<close>

lemma classify_regime_cases:
  assumes "classify_regime P bars = Inr r"
  obtains "r = unknown_context"
    "int (length bars) < max (rp_slow_period P) (max (rp_rsi_period P + 1) (rp_atr_period P + 1))"
  | vol where
    "\<not> int (length bars) < max (rp_slow_period P) (max (rp_rsi_period P + 1) (rp_atr_period P + 1))"
    "volatility_of P (rc_atr r) (rc_atr_baseline r) = Inr vol" "rc_volatility_state r = vol"
    "rc_atr r = calculate_atr bars (rp_atr_period P)"
    "rc_fast_ma r = calculate_ema bars (rp_fast_period P)"
    "rc_slow_ma r = calculate_ema bars (rp_slow_period P)"
    "rc_rsi r = calculate_rsi bars (rp_rsi_period P)"
    "rc_adx r = ax_adx (calculate_adx bars (rp_adx_period P))"
    "rc_trend_direction r = trend_direction_of (rc_fast_ma r) (rc_slow_ma r)"
    "rc_trend_strength r = trend_strength_of (rp_trending_threshold P) (rc_adx r) (rc_trend_direction r)"
    "rc_momentum_state r = momentum_of P (rc_rsi r) (rc_trend_direction r)"
    "rc_regime r = regime_of (rc_fast_ma r) (rc_slow_ma r) (rc_trend_direction r)
                     (rc_trend_strength r) (rc_momentum_state r) vol"
  using assms
  by (auto simp: classify_regime_def Let_def elim!: bind_res_InrE split: if_splits)

lemma classify_regime_atr_nonneg:
  assumes "classify_regime P bars = Inr r" "rc_atr r = Some a" shows "0 \<le> a"
  using assms(1)
  by (cases rule: classify_regime_cases)
     (use assms(2) in \<open>auto simp: unknown_context_def intro: calculate_atr_nonneg\<close>)

lemma regime_of_trend_up:
  "regime_of fast slow dir strength mom vol = TREND_UP \<longleftrightarrow>
     vol \<noteq> ABNORMAL_HIGH \<and> fast \<noteq> None \<and> slow \<noteq> None \<and> dir = BULLISH \<and> strength = TRENDING
     \<and> mom \<in> {MOM_BULLISH, MOM_NEUTRAL}"
  by (auto simp: regime_of_def)

lemma regime_of_trend_down:
  "regime_of fast slow dir strength mom vol = TREND_DOWN \<longleftrightarrow>
     vol \<noteq> ABNORMAL_HIGH \<and> fast \<noteq> None \<and> slow \<noteq> None \<and> dir = BEARISH \<and> strength = TRENDING
     \<and> mom \<in> {MOM_BEARISH, MOM_NEUTRAL}"
  by (auto simp: regime_of_def)

lemma trend_direction_of_iff:
  "trend_direction_of fast slow = BULLISH \<longleftrightarrow> (\<exists>f s. fast = Some f \<and> slow = Some s \<and> s < f)"
  "trend_direction_of fast slow = BEARISH \<longleftrightarrow> (\<exists>f s. fast = Some f \<and> slow = Some s \<and> f < s)"
  by (auto simp: trend_direction_of_def split: option.splits)

lemma volatility_abnormal:
  assumes "volatility_of P (Some a) baseline = Inr v" "v \<noteq> ABNORMAL_HIGH"
  shows "case baseline of
           Some b \<Rightarrow> (0 < b \<longrightarrow> ddiv a b < rp_volatility_high_ratio P)
             \<and> (\<not> 0 < b \<longrightarrow> (\<forall>m. rp_max_atr_threshold P = Some m \<longrightarrow> a \<le> m))
         | None \<Rightarrow> \<forall>m. rp_max_atr_threshold P = Some m \<longrightarrow> a \<le> m"
  using assms
  by (auto simp: volatility_of_def Let_def not_le not_less split: option.splits if_splits)

lemma volatility_known: "volatility_of P atr baseline = Inr v \<Longrightarrow> v \<noteq> UNKNOWN_VOLATILITY"
  by (auto simp: volatility_of_def Let_def elim!: bind_res_InrE split: option.splits if_splits)

lemma regime_of_permits:
  "regime_of fast slow dir strength mom vol \<notin> {UNKNOWN_REGIME, HIGH_VOLATILITY, TRANSITION} \<longleftrightarrow>
     fast \<noteq> None \<and> slow \<noteq> None \<and> vol \<noteq> ABNORMAL_HIGH \<and> \<not> (strength = WEAK \<and> dir \<noteq> NEUTRAL)"
  by (auto simp: regime_of_def)

subsection \<open>Properties\<close>

text \<open>
  C8: the regime classification is fail-closed.  With a nonzero volatility ratio it never raises.  A
  new entry is permitted exactly when both moving averages were computed, volatility is not abnormally
  high and the trend is not a weak one.  Then there are enough bars, the volatility is normal, expanding
  or contracting: an ATR with a positive baseline is below the high ratio of it, and without one not
  above the configured maximum; and a trend regime agrees with the order of the averages, the trend
  strength and an unexhausted momentum.
\<close>

theorem regime_fail_closed:
  assumes "rp_volatility_normal_ratio P \<noteq> 0"
  shows "\<exists>r. classify_regime P bars = Inr r
    \<and> (permits_new_entry r \<longleftrightarrow>
         rc_fast_ma r \<noteq> None \<and> rc_slow_ma r \<noteq> None \<and> rc_volatility_state r \<noteq> ABNORMAL_HIGH
         \<and> \<not> (rc_trend_strength r = WEAK \<and> rc_trend_direction r \<noteq> NEUTRAL))
    \<and> (permits_new_entry r \<longrightarrow>
         rp_slow_period P \<le> int (length bars) \<and> rp_rsi_period P < int (length bars)
         \<and> rp_atr_period P < int (length bars)
         \<and> (\<exists>f s. rc_fast_ma r = Some f \<and> rc_slow_ma r = Some s
              \<and> (rc_regime r = TREND_UP \<longrightarrow> s < f)
              \<and> (rc_regime r = TREND_DOWN \<longrightarrow> f < s))
         \<and> rc_volatility_state r \<in> {NORMAL, EXPANDING, CONTRACTING}
         \<and> (\<forall>a. rc_atr r = Some a \<longrightarrow>
              (case rc_atr_baseline r of
                 Some b \<Rightarrow> (0 < b \<longrightarrow> ddiv a b < rp_volatility_high_ratio P)
                   \<and> (\<not> 0 < b \<longrightarrow> (\<forall>m. rp_max_atr_threshold P = Some m \<longrightarrow> a \<le> m))
               | None \<Rightarrow> \<forall>m. rp_max_atr_threshold P = Some m \<longrightarrow> a \<le> m))
         \<and> (rc_regime r \<in> {TREND_UP, TREND_DOWN} \<longrightarrow>
              rc_trend_strength r = TRENDING \<and> rc_momentum_state r \<noteq> EXHAUSTED))"
proof -
  obtain r where r: "classify_regime P bars = Inr r"
    using classify_regime_total [OF assms] by blast
  then show ?thesis
  proof (cases rule: classify_regime_cases)
    case 1
    then show ?thesis using r by (auto simp: permits_new_entry_def unknown_context_def)
  next
    case (2 vol)
    have len: "rp_slow_period P \<le> int (length bars)" "rp_rsi_period P < int (length bars)"
      "rp_atr_period P < int (length bars)"
      using 2(1) by auto
    have iff: "permits_new_entry r \<longleftrightarrow>
         rc_fast_ma r \<noteq> None \<and> rc_slow_ma r \<noteq> None \<and> rc_volatility_state r \<noteq> ABNORMAL_HIGH
         \<and> \<not> (rc_trend_strength r = WEAK \<and> rc_trend_direction r \<noteq> NEUTRAL)"
      by (simp only: permits_new_entry_def 2(12,3) regime_of_permits)
    show ?thesis
    proof (rule exI [of _ r], intro conjI impI allI r len iff)
      assume p: "permits_new_entry r"
      then have vol: "vol \<noteq> ABNORMAL_HIGH" and ma: "rc_fast_ma r \<noteq> None" "rc_slow_ma r \<noteq> None"
        using iff 2(3) by auto
      show "rc_volatility_state r \<in> {NORMAL, EXPANDING, CONTRACTING}"
        unfolding 2(3) using vol volatility_known [OF 2(2)] by (cases vol) simp_all
      show "\<exists>f s. rc_fast_ma r = Some f \<and> rc_slow_ma r = Some s
          \<and> (rc_regime r = TREND_UP \<longrightarrow> s < f) \<and> (rc_regime r = TREND_DOWN \<longrightarrow> f < s)"
        using ma 2(9,12) by (auto simp: regime_of_trend_up regime_of_trend_down trend_direction_of_iff)
      show "case rc_atr_baseline r of
                 Some b \<Rightarrow> (0 < b \<longrightarrow> ddiv a b < rp_volatility_high_ratio P)
                   \<and> (\<not> 0 < b \<longrightarrow> (\<forall>m. rp_max_atr_threshold P = Some m \<longrightarrow> a \<le> m))
               | None \<Rightarrow> \<forall>m. rp_max_atr_threshold P = Some m \<longrightarrow> a \<le> m" if "rc_atr r = Some a" for a
        by (rule volatility_abnormal [OF 2(2) [unfolded that] vol])
      assume "rc_regime r \<in> {TREND_UP, TREND_DOWN}"
      then show "rc_trend_strength r = TRENDING" "rc_momentum_state r \<noteq> EXHAUSTED"
        using 2(12) by (auto simp: regime_of_trend_up regime_of_trend_down)
    qed
  qed
qed

text \<open>Two rising bars and periods short enough for them: an upward trend, open to entries.\<close>

definition short_regime_params :: regime_params where
  "short_regime_params = default_regime_params
     \<lparr>rp_fast_period := 1, rp_slow_period := 2, rp_rsi_period := 1, rp_atr_period := 1,
      rp_rsi_overbought := 101\<rparr>"

theorem regime_fail_closed_witness:
  "\<exists>r. classify_regime short_regime_params [demo_price_bar 2 1, demo_price_bar 4 2] = Inr r
     \<and> permits_new_entry r \<and> rc_regime r = TREND_UP
     \<and> (\<exists>f s. rc_fast_ma r = Some f \<and> rc_slow_ma r = Some s \<and> s < f)
     \<and> rc_volatility_state r \<in> {NORMAL, EXPANDING, CONTRACTING}"
proof -
  have "rp_volatility_normal_ratio short_regime_params \<noteq> 0"
    by (simp add: short_regime_params_def default_regime_params_def)
  note c = regime_fail_closed [OF this, of "[demo_price_bar 2 1, demo_price_bar 4 2]"]
  have "\<exists>r. classify_regime short_regime_params [demo_price_bar 2 1, demo_price_bar 4 2] = Inr r
      \<and> permits_new_entry r \<and> rc_regime r = TREND_UP"
    by (simp add: classify_regime_def short_regime_params_def default_regime_params_def Let_def
        calculate_ema_def calculate_rsi_def calculate_atr_def calculate_adx_def demo_price_bar_def last_n_def
        true_range_def wilder_def bar_gain_def bar_loss_def rsi_of_def wilder_average_def dsum_def dec_ops
        dec_simps volatility_of_def trend_direction_of_def trend_strength_of_def momentum_of_def regime_of_def
        permits_new_entry_def)
  with c show ?thesis by auto
qed

end
