(* ===== verification/Setups.thy ===== *)
theory Setups
  imports Market_Structure
begin

section \<open>Setup detection (\<open>brain/strategy/setups.py\<close>)\<close>

text \<open>
  Breakouts and fakeouts on the last two closed bars against the last swing levels.  The
  human-readable \<open>summary\<close> of the result is left out.
\<close>

datatype setup_type =
    LONG_BREAKOUT | SHORT_BREAKOUT | LONG_FAKEOUT_REVERSAL | SHORT_FAKEOUT_REVERSAL
  | CONTINUATION | NO_SETUP

record setup_result =
  su_type :: setup_type
  su_reference_price :: "dec option"
  su_displacement_atr :: "dec option"
  su_is_reversal :: bool

definition displacement :: "dec option \<Rightarrow> dec \<Rightarrow> dec" where
  "displacement atr d = (case atr of Some a \<Rightarrow> if 0 < a then ddiv d a else 1 | None \<Rightarrow> 1)"

definition detect_setup ::
  "bar list \<Rightarrow> structure_state \<Rightarrow> dec option \<Rightarrow> dec \<Rightarrow> setup_result" where
  "detect_setup bars structure atr min_disp =
     (if length bars < 2
      then \<lparr>su_type = NO_SETUP, su_reference_price = None, su_displacement_atr = None,
            su_is_reversal = False\<rparr>
      else let last_bar = last bars; prev_bar = second_last bars;
               req = atr_scaled atr min_disp;
               sh = st_recent_swing_high structure; sl = st_recent_swing_low structure
      in if (case sh of Some h \<Rightarrow> dadd h req < br_close_price last_bar \<and> br_close_price prev_bar \<le> h
                      | None \<Rightarrow> False)
         then \<lparr>su_type = LONG_BREAKOUT, su_reference_price = sh,
               su_displacement_atr = Some (displacement atr (dsub (br_close_price last_bar) (the sh))),
               su_is_reversal = False\<rparr>
         else if (case sl of Some l \<Rightarrow> br_close_price last_bar < dsub l req \<and> l \<le> br_close_price prev_bar
                           | None \<Rightarrow> False)
         then \<lparr>su_type = SHORT_BREAKOUT, su_reference_price = sl,
               su_displacement_atr = Some (displacement atr (dsub (the sl) (br_close_price last_bar))),
               su_is_reversal = False\<rparr>
         else if (case sh of Some h \<Rightarrow> h < br_high_price last_bar \<and> br_close_price last_bar < h
                           | None \<Rightarrow> False)
         then \<lparr>su_type = SHORT_FAKEOUT_REVERSAL, su_reference_price = sh,
               su_displacement_atr = Some 0, su_is_reversal = True\<rparr>
         else if (case sl of Some l \<Rightarrow> br_low_price last_bar < l \<and> l < br_close_price last_bar
                           | None \<Rightarrow> False)
         then \<lparr>su_type = LONG_FAKEOUT_REVERSAL, su_reference_price = sl,
               su_displacement_atr = Some 0, su_is_reversal = True\<rparr>
         else if st_bias structure = BULLISH \<or> st_bias structure = BEARISH
         then \<lparr>su_type = CONTINUATION,
               su_reference_price = (if st_bias structure = BULLISH then sh else sl),
               su_displacement_atr = Some 0, su_is_reversal = False\<rparr>
         else \<lparr>su_type = NO_SETUP, su_reference_price = None, su_displacement_atr = None,
               su_is_reversal = False\<rparr>)"

subsection \<open>Properties\<close>

text \<open>
  a detected setup is what its name says.  A long (short) breakout is a close beyond the last
  swing high (low) by more than the required displacement after a close on the other side; a
  fakeout penetrates the level and closes back; only fakeouts are reversals; a reversal or a
  breakout always names its reference level; without two bars there is no setup.
\<close>

theorem setup_sound:
  "case su_type (detect_setup bars structure atr m) of
     LONG_BREAKOUT \<Rightarrow> \<exists>h. st_recent_swing_high structure = Some h
        \<and> su_reference_price (detect_setup bars structure atr m) = Some h
        \<and> dadd h (atr_scaled atr m) < br_close_price (last bars)
        \<and> br_close_price (second_last bars) \<le> h
   | SHORT_BREAKOUT \<Rightarrow> \<exists>l. st_recent_swing_low structure = Some l
        \<and> su_reference_price (detect_setup bars structure atr m) = Some l
        \<and> br_close_price (last bars) < dsub l (atr_scaled atr m)
        \<and> l \<le> br_close_price (second_last bars)
   | SHORT_FAKEOUT_REVERSAL \<Rightarrow> \<exists>h. st_recent_swing_high structure = Some h
        \<and> su_reference_price (detect_setup bars structure atr m) = Some h
        \<and> su_is_reversal (detect_setup bars structure atr m)
        \<and> h < br_high_price (last bars) \<and> br_close_price (last bars) < h
   | LONG_FAKEOUT_REVERSAL \<Rightarrow> \<exists>l. st_recent_swing_low structure = Some l
        \<and> su_reference_price (detect_setup bars structure atr m) = Some l
        \<and> su_is_reversal (detect_setup bars structure atr m)
        \<and> br_low_price (last bars) < l \<and> l < br_close_price (last bars)
   | CONTINUATION \<Rightarrow> st_bias structure \<noteq> NEUTRAL \<and> 2 \<le> length bars
        \<and> \<not> su_is_reversal (detect_setup bars structure atr m)
   | NO_SETUP \<Rightarrow> (length bars < 2 \<or> st_bias structure = NEUTRAL)
        \<and> su_reference_price (detect_setup bars structure atr m) = None"
  by (cases "st_bias structure"; cases "st_recent_swing_high structure";
      cases "st_recent_swing_low structure")
     (simp_all add: detect_setup_def Let_def)

end
