(* ===== verification/Scoring.thy ===== *)
theory Scoring
  imports Regime Setups
begin

section \<open>Signals and confidence scoring (\<open>brain/strategy/interfaces.py\<close>, \<open>brain/scoring.py\<close>)\<close>

text \<open>
  The candidate signal and the six-dimension scorer.  The text of \<open>market_state_summary\<close> is kept
  as the constructor and the values it is formatted from; \<open>expires_at\<close> and \<open>evidence\<close>, which no
  producer sets, are left out.  News states are the strings the callers pass.
\<close>

datatype strategy_status = NOT_CONFIGURED | CONFIGURED | ANALYZING
datatype direction = BUY | SELL | NO_DIRECTION

datatype market_summary =
    BlockedByNews string
  | BlockedBySpread dec dec
  | BlockedByRegime regime
  | NoDirectionalConfluence
  | Scored direction dec dec dec dec
  | InsufficientClosedBars
  | StaleTick
  | ParametersUndefined

record candidate_signal =
  cs_symbol :: string
  cs_direction :: direction
  cs_confidence_score :: "dec option"
  cs_suggested_stop_loss :: "dec option"
  cs_suggested_take_profit :: "dec option"
  cs_strategy_id :: string
  cs_strategy_version :: string
  cs_market_state_summary :: market_summary
  cs_is_configured :: bool
  cs_entry_reference :: "dec option"
  cs_correlation_id :: "string option"
  cs_setup_type :: "setup_type option"

text \<open>\<open>NotConfiguredStrategyEngine\<close>: the placeholder engine never proposes a trade.\<close>

definition not_configured_signal :: "string \<Rightarrow> candidate_signal" where
  "not_configured_signal smb =
     \<lparr>cs_symbol = smb, cs_direction = NO_DIRECTION, cs_confidence_score = None,
      cs_suggested_stop_loss = None, cs_suggested_take_profit = None,
      cs_strategy_id = ''NOT_CONFIGURED'', cs_strategy_version = ''0.0.0-not-configured'',
      cs_market_state_summary = ParametersUndefined, cs_is_configured = False,
      cs_entry_reference = None, cs_correlation_id = None, cs_setup_type = None\<rparr>"

definition not_configured_status :: strategy_status where
  "not_configured_status = NOT_CONFIGURED"

subsection \<open>The six dimensions\<close>

text \<open>The code compares the direction with \<open>"BUY"\<close> and treats every other one as a sell.\<close>

definition score_structure :: "direction \<Rightarrow> structure_state \<Rightarrow> dec" where
  "score_structure d s =
     (if d = BUY then
        if st_bias s = BULLISH then 1
        else if st_last_event s = CHOCH_BULLISH then 6 / 10
        else if st_structural_direction s = DIR_UP then 4 / 10 else 0
      else
        if st_bias s = BEARISH then 1
        else if st_last_event s = CHOCH_BEARISH then 6 / 10
        else if st_structural_direction s = DIR_DOWN then 4 / 10 else 0)"

definition score_trend :: "direction \<Rightarrow> regime_context \<Rightarrow> dec" where
  "score_trend d r =
     (let aligned = d = BUY \<and> rc_trend_direction r = BULLISH
                  \<or> d = SELL \<and> rc_trend_direction r = BEARISH;
          s = (if aligned then dadd 0 (1 / 2) else 0)
      in if rc_trend_strength r = TRENDING then dadd s (1 / 2) else s)"

definition score_setup :: "direction \<Rightarrow> setup_type \<Rightarrow> dec" where
  "score_setup d st =
     (if d = BUY \<and> st = LONG_BREAKOUT \<or> d = SELL \<and> st = SHORT_BREAKOUT then 1
      else if d = BUY \<and> st = LONG_FAKEOUT_REVERSAL \<or> d = SELL \<and> st = SHORT_FAKEOUT_REVERSAL then 8 / 10
      else if st = CONTINUATION then 1 / 2 else 0)"

definition score_momentum :: "direction \<Rightarrow> regime_context \<Rightarrow> dec" where
  "score_momentum d r =
     (if rc_momentum_state r = EXHAUSTED then 0
      else if d = BUY \<and> rc_momentum_state r = MOM_BULLISH
            \<or> d = SELL \<and> rc_momentum_state r = MOM_BEARISH then 1
      else if rc_momentum_state r = MOM_NEUTRAL then 1 / 2 else 0)"

definition score_volatility :: "regime_context \<Rightarrow> dec" where
  "score_volatility r =
     (if rc_volatility_state r = NORMAL then 1
      else if rc_volatility_state r = CONTRACTING then 8 / 10
      else if rc_volatility_state r = EXPANDING then 1 / 2 else 0)"

definition score_regime :: "direction \<Rightarrow> regime_context \<Rightarrow> dec" where
  "score_regime d r =
     (if d = BUY \<and> rc_regime r = TREND_UP \<or> d = SELL \<and> rc_regime r = TREND_DOWN then 1
      else if rc_regime r = RANGE then 3 / 10 else 0)"

subsection \<open>The scorer\<close>

record scorer =
  sr_strategy_id :: string
  sr_strategy_version :: string
  sr_min_conf :: dec
  sr_w_st :: dec
  sr_w_tr :: dec
  sr_w_se :: dec
  sr_w_mo :: dec
  sr_w_vo :: dec
  sr_w_re :: dec
  sr_sl_buffer :: dec
  sr_min_sl_atr :: dec
  sr_rr :: dec
  sr_min_rr :: dec
  sr_max_spread :: dec

definition default_scorer :: scorer where
  "default_scorer =
     \<lparr>sr_strategy_id = ''AUREXIS_CORE'', sr_strategy_version = ''AUREXIS-STRAT-1.0.0'',
      sr_min_conf = 7 / 10, sr_w_st = 25 / 100, sr_w_tr = 20 / 100, sr_w_se = 25 / 100,
      sr_w_mo = 10 / 100, sr_w_vo = 10 / 100, sr_w_re = 10 / 100, sr_sl_buffer = 1 / 2,
      sr_min_sl_atr = 3 / 10, sr_rr = 2, sr_min_rr = 3 / 2, sr_max_spread = 1\<rparr>"

text \<open>\<open>_compute_sl_tp\<close>: \<open>None\<close> stands for the pair \<open>(None, None)\<close>.\<close>

definition compute_sl_tp ::
  "scorer \<Rightarrow> tick \<Rightarrow> structure_state \<Rightarrow> dec \<Rightarrow> direction \<Rightarrow> (dec \<times> dec) option" where
  "compute_sl_tp sc t s atr d =
     (let min_dist = dmul atr (sr_min_sl_atr sc)
      in if d = BUY then
           let entry = tk_ask t;
               base = (case st_recent_swing_low s of
                         Some l \<Rightarrow> if l < entry then l else dsub entry atr
                       | None \<Rightarrow> dsub entry atr);
               sl = dsub base (dmul atr (sr_sl_buffer sc));
               risk = dsub entry sl
           in if risk < min_dist then None else Some (sl, dadd entry (dmul risk (sr_rr sc)))
         else
           let entry = tk_bid t;
               base = (case st_recent_swing_high s of
                         Some h \<Rightarrow> if entry < h then h else dadd entry atr
                       | None \<Rightarrow> dadd entry atr);
               sl = dadd base (dmul atr (sr_sl_buffer sc));
               risk = dsub sl entry
           in if risk < min_dist then None else Some (sl, dsub entry (dmul risk (sr_rr sc))))"

text \<open>The weighted sum, added from left to right.\<close>

definition confidence ::
  "scorer \<Rightarrow> structure_state \<Rightarrow> regime_context \<Rightarrow> setup_type \<Rightarrow> direction \<Rightarrow> dec" where
  "confidence sc s r st d =
     dadd (dadd (dadd (dadd (dadd
       (dmul (score_structure d s) (sr_w_st sc))
       (dmul (score_trend d r) (sr_w_tr sc)))
       (dmul (score_setup d st) (sr_w_se sc)))
       (dmul (score_momentum d r) (sr_w_mo sc)))
       (dmul (score_volatility r) (sr_w_vo sc)))
       (dmul (score_regime d r) (sr_w_re sc))"

definition none_signal :: "scorer \<Rightarrow> tick \<Rightarrow> market_summary \<Rightarrow> candidate_signal" where
  "none_signal sc t summary =
     \<lparr>cs_symbol = tk_symbol t, cs_direction = NO_DIRECTION, cs_confidence_score = Some 0,
      cs_suggested_stop_loss = None, cs_suggested_take_profit = None,
      cs_strategy_id = sr_strategy_id sc, cs_strategy_version = sr_strategy_version sc,
      cs_market_state_summary = summary, cs_is_configured = True,
      cs_entry_reference = None, cs_correlation_id = None, cs_setup_type = None\<rparr>"

definition directional_signal ::
  "scorer \<Rightarrow> tick \<Rightarrow> structure_state \<Rightarrow> regime_context \<Rightarrow> setup_type \<Rightarrow> direction
     \<Rightarrow> dec \<times> dec \<Rightarrow> candidate_signal" where
  "directional_signal sc t s r st d sltp =
     \<lparr>cs_symbol = tk_symbol t, cs_direction = d, cs_confidence_score = Some (confidence sc s r st d),
      cs_suggested_stop_loss = Some (fst sltp), cs_suggested_take_profit = Some (snd sltp),
      cs_strategy_id = sr_strategy_id sc, cs_strategy_version = sr_strategy_version sc,
      cs_market_state_summary = Scored d (confidence sc s r st d)
        (score_structure d s) (score_trend d r) (score_setup d st),
      cs_is_configured = True,
      cs_entry_reference = Some (if d = BUY then tk_ask t else tk_bid t),
      cs_correlation_id = None, cs_setup_type = None\<rparr>"

text \<open>One round of the loop over the directions: the state is the best signal and confidence.\<close>

definition score_direction ::
  "scorer \<Rightarrow> tick \<Rightarrow> structure_state \<Rightarrow> regime_context \<Rightarrow> setup_type
     \<Rightarrow> candidate_signal \<times> dec \<Rightarrow> direction \<Rightarrow> candidate_signal \<times> dec" where
  "score_direction sc t s r st best d =
     (let conf = confidence sc s r st d
      in if conf < sr_min_conf sc \<or> conf \<le> snd best then best
         else case compute_sl_tp sc t s (or_default (rc_atr r) 1) d of
                None \<Rightarrow> best
              | Some sltp \<Rightarrow> (directional_signal sc t s r st d sltp, conf))"

definition evaluate_factors ::
  "scorer \<Rightarrow> tick \<Rightarrow> structure_state \<Rightarrow> regime_context \<Rightarrow> string \<Rightarrow> setup_type \<Rightarrow> candidate_signal" where
  "evaluate_factors sc t s r news st =
     (if news \<noteq> ''CLEAR'' then none_signal sc t (BlockedByNews news)
      else if sr_max_spread sc < tick_spread t
      then none_signal sc t (BlockedBySpread (tick_spread t) (sr_max_spread sc))
      else if \<not> permits_new_entry r then none_signal sc t (BlockedByRegime (rc_regime r))
      else fst (foldl (score_direction sc t s r st)
                  (none_signal sc t NoDirectionalConfluence, 0) [BUY, SELL]))"

subsection \<open>Lemmas\<close>

lemma score_range [dec_bounds]:
  "0 \<le> score_structure d s \<and> score_structure d s \<le> 1"
  "0 \<le> score_trend d r \<and> score_trend d r \<le> 1"
  "0 \<le> score_setup d st \<and> score_setup d st \<le> 1"
  "0 \<le> score_momentum d r \<and> score_momentum d r \<le> 1"
  "0 \<le> score_volatility r \<and> score_volatility r \<le> 1"
  "0 \<le> score_regime d r \<and> score_regime d r \<le> 1"
  by (simp_all add: score_structure_def score_trend_def score_setup_def score_momentum_def
      score_volatility_def score_regime_def Let_def dadd_def dctx_short)

lemma weighted_le: "0 \<le> s \<and> s \<le> 1 \<Longrightarrow> 0 \<le> w \<Longrightarrow> 0 \<le> dmul s w \<and> dmul s w \<le> dctx w"
  unfolding dmul_def by (auto intro!: dc.rd_nonneg dc.rd_mono simp: mult_left_le_one_le)

definition weight_total :: "scorer \<Rightarrow> dec" where
  "weight_total sc = dadd (dadd (dadd (dadd (dadd (dctx (sr_w_st sc)) (dctx (sr_w_tr sc)))
     (dctx (sr_w_se sc))) (dctx (sr_w_mo sc))) (dctx (sr_w_vo sc))) (dctx (sr_w_re sc))"

lemma confidence_bounds:
  assumes "0 \<le> sr_w_st sc" "0 \<le> sr_w_tr sc" "0 \<le> sr_w_se sc" "0 \<le> sr_w_mo sc"
    "0 \<le> sr_w_vo sc" "0 \<le> sr_w_re sc"
  shows "0 \<le> confidence sc s r st d" "confidence sc s r st d \<le> weight_total sc"
proof -
  show "confidence sc s r st d \<le> weight_total sc"
    unfolding confidence_def weight_total_def
    by (intro dadd_mono conjunct2 [OF weighted_le] score_range assms)
  show "0 \<le> confidence sc s r st d"
    unfolding confidence_def
    by (intro dadd_nonneg conjunct1 [OF weighted_le] score_range assms)
qed

lemma weight_total_default: "weight_total default_scorer = 1"
  by (simp add: weight_total_def default_scorer_def dec_ops dec_simps)

lemma direction_cases: "d = BUY \<or> d = SELL \<or> d = NO_DIRECTION" by (cases d) auto

text \<open>A directional result comes from one of the two rounds, with every gate passed.\<close>

lemma evaluate_directional:
  assumes "cs_direction (evaluate_factors sc t s r news st) \<noteq> NO_DIRECTION"
  obtains d sltp where "d \<in> {BUY, SELL}"
    "evaluate_factors sc t s r news st = directional_signal sc t s r st d sltp"
    "compute_sl_tp sc t s (or_default (rc_atr r) 1) d = Some sltp"
    "news = ''CLEAR''" "tick_spread t \<le> sr_max_spread sc" "permits_new_entry r"
    "sr_min_conf sc \<le> confidence sc s r st d" "0 < confidence sc s r st d"
    "\<And>d'. d' \<in> {BUY, SELL} \<Longrightarrow> compute_sl_tp sc t s (or_default (rc_atr r) 1) d' \<noteq> None
       \<Longrightarrow> confidence sc s r st d' \<le> confidence sc s r st d"
proof -
  let ?c = "confidence sc s r st" and ?p = "compute_sl_tp sc t s (or_default (rc_atr r) 1)"
  have gates: "news = ''CLEAR''" "tick_spread t \<le> sr_max_spread sc" "permits_new_entry r"
    using assms by (auto simp: evaluate_factors_def none_signal_def split: if_splits)
  let ?r1 = "score_direction sc t s r st (none_signal sc t NoDirectionalConfluence, 0) BUY"
  have ev: "evaluate_factors sc t s r news st = fst (score_direction sc t s r st ?r1 SELL)"
    using gates by (simp add: evaluate_factors_def)
  have step: "score_direction sc t s r st best d =
      (if sr_min_conf sc \<le> ?c d \<and> snd best < ?c d \<and> ?p d \<noteq> None
       then (directional_signal sc t s r st d (the (?p d)), ?c d) else best)" for best d
    by (auto simp: score_direction_def Let_def split: option.splits)
  show thesis
  proof (cases "sr_min_conf sc \<le> ?c SELL \<and> snd ?r1 < ?c SELL \<and> ?p SELL \<noteq> None")
    case True
    then show thesis using gates ev
      by (intro that [of SELL "the (?p SELL)"])
         (auto simp: step [of _ SELL] step [of _ BUY] split: if_splits)
  next
    case False
    then have r1: "evaluate_factors sc t s r news st = fst ?r1"
      unfolding ev step [of ?r1 SELL] by (subst if_not_P [OF False]) (rule refl)
    then have "sr_min_conf sc \<le> ?c BUY \<and> 0 < ?c BUY \<and> ?p BUY \<noteq> None"
      using assms by (auto simp: step [of _ BUY] none_signal_def split: if_splits)
    then show thesis using gates r1 False
      by (intro that [of BUY "the (?p BUY)"]) (auto simp: step [of _ BUY])
  qed
qed

text \<open>Stop and target lie on the two sides of the entry price.\<close>

lemma sl_tp_buy:
  assumes "compute_sl_tp sc t s atr BUY = Some (sl, tp)" "0 < atr" "0 < sr_min_sl_atr sc"
    "0 \<le> sr_rr sc" "dec_fits (tk_ask t)"
  shows "sl < tk_ask t \<and> tk_ask t \<le> tp \<and> dmul atr (sr_min_sl_atr sc) \<le> dsub (tk_ask t) sl"
proof -
  have r: "dmul atr (sr_min_sl_atr sc) \<le> dsub (tk_ask t) sl"
    and tp: "tp = dadd (tk_ask t) (dmul (dsub (tk_ask t) sl) (sr_rr sc))"
    using assms(1) by (auto simp: compute_sl_tp_def Let_def split: if_splits)
  have pos: "0 < dsub (tk_ask t) sl"
    using r dmul_pos [OF assms(2,3)] by linarith
  have "tk_ask t \<le> tp"
    unfolding tp using pos assms(4) by (intro dadd_ge_left assms(5) dmul_nonneg) auto
  with r pos show ?thesis by (auto dest: dsub_pos_iff_arg)
qed

lemma sl_tp_sell:
  assumes "compute_sl_tp sc t s atr SELL = Some (sl, tp)" "0 < atr" "0 < sr_min_sl_atr sc"
    "0 \<le> sr_rr sc" "dec_fits (tk_bid t)"
  shows "tk_bid t < sl \<and> tp \<le> tk_bid t \<and> dmul atr (sr_min_sl_atr sc) \<le> dsub sl (tk_bid t)"
proof -
  have r: "dmul atr (sr_min_sl_atr sc) \<le> dsub sl (tk_bid t)"
    and tp: "tp = dsub (tk_bid t) (dmul (dsub sl (tk_bid t)) (sr_rr sc))"
    using assms(1) by (auto simp: compute_sl_tp_def Let_def split: if_splits)
  have pos: "0 < dsub sl (tk_bid t)"
    using r dmul_pos [OF assms(2,3)] by linarith
  have "tp \<le> tk_bid t"
    unfolding tp using pos assms(4) by (intro dsub_le_left assms(5) dmul_nonneg) auto
  with r pos show ?thesis by (auto dest: dsub_pos_iff_arg)
qed

lemma or_default_atr_pos: "(\<And>a. v = Some a \<Longrightarrow> (0::dec) \<le> a) \<Longrightarrow> 0 < or_default v 1"
  by (auto simp: or_default_def less_le split: option.splits)

text \<open>The scorer never reads \<open>min_rr\<close>: two scorers that differ in it agree.\<close>

lemma evaluate_min_rr: "evaluate_factors (sc\<lparr>sr_min_rr := x\<rparr>) t s r news st = evaluate_factors sc t s r news st"
proof -
  have "score_direction (sc\<lparr>sr_min_rr := x\<rparr>) t s r st = score_direction sc t s r st"
    by (intro ext) (simp add: score_direction_def confidence_def compute_sl_tp_def
        directional_signal_def Let_def)
  then show ?thesis by (simp add: evaluate_factors_def none_signal_def)
qed

subsection \<open>Properties\<close>

text \<open>
  the confidence is a bounded weighted sum.  With non-negative weights it lies between 0 and
  the rounded sum of the weights, whatever the evidence; with the default weights, between 0 and 1,
  so the threshold 0.70 compares with a normalised score.
\<close>

theorem confidence_bounded:
  assumes "0 \<le> sr_w_st sc" "0 \<le> sr_w_tr sc" "0 \<le> sr_w_se sc" "0 \<le> sr_w_mo sc"
    "0 \<le> sr_w_vo sc" "0 \<le> sr_w_re sc"
  shows "0 \<le> confidence sc s r st d \<and> confidence sc s r st d \<le> weight_total sc
    \<and> weight_total default_scorer = 1"
  using confidence_bounds [OF assms] weight_total_default by blast

definition neutral_structure :: structure_state where
  "neutral_structure =
     \<lparr>st_bias = NEUTRAL, st_recent_swing_high = None, st_recent_swing_low = None,
      st_last_event = NO_EVENT, st_structural_direction = DIR_NEUTRAL\<rparr>"

theorem confidence_bounded_witness:
  "0 \<le> confidence default_scorer neutral_structure unknown_context CONTINUATION BUY
   \<and> confidence default_scorer neutral_structure unknown_context CONTINUATION BUY \<le> 1"
  using confidence_bounded [of default_scorer neutral_structure unknown_context CONTINUATION BUY]
  by (simp add: default_scorer_def)

end
