(* ===== verification/Brain_Pipeline.thy ===== *)
theory Brain_Pipeline
  imports Scoring
begin

section \<open>Configuration and signal pipeline (\<open>brain/config.py\<close>, \<open>brain/pipeline.py\<close>)\<close>

text \<open>
  The strategy configuration, one record per pydantic section, and \<open>SignalPipeline.process\<close>.  The
  clock and the generated correlation id are arguments.  \<open>Inl\<close> would be an exception of a stage;
  \<open>pipeline_safe\<close> shows there is none.
\<close>

record structure_config =
  cf_swing_lookback_bars :: "int option"
  cf_min_bos_atr_multiplier :: "dec option"
  cf_equal_level_tolerance_atr :: "dec option"
  cf_max_level_age_bars :: "int option"

record regime_config =
  cf_adx_period :: "int option"
  cf_trending_threshold :: "dec option"
  cf_regime_confirmation_bars :: "int option"
  cf_volatility_baseline_bars :: "int option"
  cf_volatility_normal_ratio :: "dec option"
  cf_volatility_high_ratio :: "dec option"

record trend_config =
  cf_fast_ma_period :: "int option"
  cf_slow_ma_period :: "int option"
  cf_trend_consistency_bars :: "int option"

record momentum_config =
  cf_rsi_period :: "int option"
  cf_rsi_overbought :: "dec option"
  cf_rsi_oversold :: "dec option"
  cf_rsi_bullish_min :: "dec option"
  cf_rsi_bearish_max :: "dec option"

record volatility_config =
  cf_atr_period :: "int option"
  cf_atr_baseline_bars :: "int option"
  cf_normal_ratio_upper :: "dec option"
  cf_abnormal_high_ratio :: "dec option"
  cf_max_atr_threshold_usd :: "dec option"

record breakout_config =
  cf_breakout_confirmation_bars :: "int option"
  cf_min_displacement_atr :: "dec option"
  cf_setup_expiry_bars :: "int option"
  cf_fakeout_reversal_bars :: "int option"

record scoring_config =
  cf_min_confidence_threshold :: "dec option"
  cf_weight_structure :: "dec option"
  cf_weight_trend :: "dec option"
  cf_weight_setup :: "dec option"
  cf_weight_momentum :: "dec option"
  cf_weight_volatility :: "dec option"
  cf_weight_regime :: "dec option"

record sl_tp_config =
  cf_sl_atr_buffer :: "dec option"
  cf_min_sl_atr :: "dec option"
  cf_rr_target :: "dec option"
  cf_min_rr :: "dec option"

record spread_config =
  cf_max_spread_usd :: "dec option"

record freshness_config =
  cf_max_tick_staleness_ms :: "int option"

record daily_risk_config =
  cf_daily_loss_limit_pct :: "dec option"
  cf_max_drawdown_pct :: "dec option"
  cf_caution_drawdown_pct :: "dec option"
  cf_risk_per_trade_pct :: "dec option"
  cf_profit_lock_activation_usd :: "dec option"
  cf_profit_lock_ratio :: "dec option"

record brain_config =
  cf_strategy_id :: string
  cf_strategy_version :: string
  cf_structure :: structure_config
  cf_regime :: regime_config
  cf_trend :: trend_config
  cf_momentum :: momentum_config
  cf_volatility :: volatility_config
  cf_breakout :: breakout_config
  cf_scoring :: scoring_config
  cf_sl_tp :: sl_tp_config
  cf_spread :: spread_config
  cf_freshness :: freshness_config
  cf_daily_risk :: daily_risk_config

definition is_fully_configured :: "brain_config \<Rightarrow> bool" where
  "is_fully_configured c \<longleftrightarrow>
     cf_swing_lookback_bars (cf_structure c) \<noteq> None
     \<and> cf_adx_period (cf_regime c) \<noteq> None
     \<and> cf_trending_threshold (cf_regime c) \<noteq> None
     \<and> cf_fast_ma_period (cf_trend c) \<noteq> None
     \<and> cf_slow_ma_period (cf_trend c) \<noteq> None
     \<and> cf_rsi_period (cf_momentum c) \<noteq> None
     \<and> cf_atr_period (cf_volatility c) \<noteq> None
     \<and> cf_min_confidence_threshold (cf_scoring c) \<noteq> None"

definition default_strat_config :: brain_config where
  "default_strat_config =
     \<lparr>cf_strategy_id = ''AUREXIS_CORE'', cf_strategy_version = ''AUREXIS-STRAT-1.0.0'',
      cf_structure = \<lparr>cf_swing_lookback_bars = Some 3, cf_min_bos_atr_multiplier = Some (30 / 100),
        cf_equal_level_tolerance_atr = Some (10 / 100), cf_max_level_age_bars = Some 100\<rparr>,
      cf_regime = \<lparr>cf_adx_period = Some 14, cf_trending_threshold = Some 20,
        cf_regime_confirmation_bars = Some 2, cf_volatility_baseline_bars = Some 50,
        cf_volatility_normal_ratio = Some (3 / 2), cf_volatility_high_ratio = Some 2\<rparr>,
      cf_trend = \<lparr>cf_fast_ma_period = Some 20, cf_slow_ma_period = Some 50,
        cf_trend_consistency_bars = Some 3\<rparr>,
      cf_momentum = \<lparr>cf_rsi_period = Some 14, cf_rsi_overbought = Some 70, cf_rsi_oversold = Some 30,
        cf_rsi_bullish_min = Some 52, cf_rsi_bearish_max = Some 48\<rparr>,
      cf_volatility = \<lparr>cf_atr_period = Some 14, cf_atr_baseline_bars = Some 50,
        cf_normal_ratio_upper = Some (3 / 2), cf_abnormal_high_ratio = Some 2,
        cf_max_atr_threshold_usd = Some 15\<rparr>,
      cf_breakout = \<lparr>cf_breakout_confirmation_bars = Some 1, cf_min_displacement_atr = Some (30 / 100),
        cf_setup_expiry_bars = Some 3, cf_fakeout_reversal_bars = Some 1\<rparr>,
      cf_scoring = \<lparr>cf_min_confidence_threshold = Some (70 / 100), cf_weight_structure = Some (25 / 100),
        cf_weight_trend = Some (20 / 100), cf_weight_setup = Some (25 / 100),
        cf_weight_momentum = Some (10 / 100), cf_weight_volatility = Some (10 / 100),
        cf_weight_regime = Some (10 / 100)\<rparr>,
      cf_sl_tp = \<lparr>cf_sl_atr_buffer = Some (1 / 2), cf_min_sl_atr = Some (3 / 10), cf_rr_target = Some 2,
        cf_min_rr = Some (3 / 2)\<rparr>,
      cf_spread = \<lparr>cf_max_spread_usd = Some 1\<rparr>,
      cf_freshness = \<lparr>cf_max_tick_staleness_ms = Some 2000\<rparr>,
      cf_daily_risk = \<lparr>cf_daily_loss_limit_pct = Some 2, cf_max_drawdown_pct = Some 5,
        cf_caution_drawdown_pct = Some 70, cf_risk_per_trade_pct = Some (1 / 2),
        cf_profit_lock_activation_usd = Some 10, cf_profit_lock_ratio = Some (70 / 100)\<rparr>\<rparr>"

text \<open>\<open>BrainConfig()\<close>: every section unset.\<close>

definition empty_brain_config :: "string \<Rightarrow> string \<Rightarrow> brain_config" where
  "empty_brain_config sid ver =
     \<lparr>cf_strategy_id = sid, cf_strategy_version = ver,
      cf_structure = \<lparr>cf_swing_lookback_bars = None, cf_min_bos_atr_multiplier = None,
        cf_equal_level_tolerance_atr = None, cf_max_level_age_bars = None\<rparr>,
      cf_regime = \<lparr>cf_adx_period = None, cf_trending_threshold = None,
        cf_regime_confirmation_bars = None, cf_volatility_baseline_bars = None,
        cf_volatility_normal_ratio = None, cf_volatility_high_ratio = None\<rparr>,
      cf_trend = \<lparr>cf_fast_ma_period = None, cf_slow_ma_period = None, cf_trend_consistency_bars = None\<rparr>,
      cf_momentum = \<lparr>cf_rsi_period = None, cf_rsi_overbought = None, cf_rsi_oversold = None,
        cf_rsi_bullish_min = None, cf_rsi_bearish_max = None\<rparr>,
      cf_volatility = \<lparr>cf_atr_period = None, cf_atr_baseline_bars = None,
        cf_normal_ratio_upper = None, cf_abnormal_high_ratio = None, cf_max_atr_threshold_usd = None\<rparr>,
      cf_breakout = \<lparr>cf_breakout_confirmation_bars = None, cf_min_displacement_atr = None,
        cf_setup_expiry_bars = None, cf_fakeout_reversal_bars = None\<rparr>,
      cf_scoring = \<lparr>cf_min_confidence_threshold = None, cf_weight_structure = None,
        cf_weight_trend = None, cf_weight_setup = None, cf_weight_momentum = None,
        cf_weight_volatility = None, cf_weight_regime = None\<rparr>,
      cf_sl_tp = \<lparr>cf_sl_atr_buffer = None, cf_min_sl_atr = None, cf_rr_target = None, cf_min_rr = None\<rparr>,
      cf_spread = \<lparr>cf_max_spread_usd = None\<rparr>,
      cf_freshness = \<lparr>cf_max_tick_staleness_ms = None\<rparr>,
      cf_daily_risk = \<lparr>cf_daily_loss_limit_pct = None, cf_max_drawdown_pct = None,
        cf_caution_drawdown_pct = None, cf_risk_per_trade_pct = None,
        cf_profit_lock_activation_usd = None, cf_profit_lock_ratio = None\<rparr>\<rparr>"

subsection \<open>The pipeline\<close>

text \<open>\<open>SignalPipeline.__init__\<close> keeps the configuration; the ids are read from it.\<close>

definition pipeline_init :: "string \<Rightarrow> string \<Rightarrow> brain_config option \<Rightarrow> brain_config" where
  "pipeline_init sid ver config =
     (case config of Some c \<Rightarrow> c | None \<Rightarrow> empty_brain_config sid ver)"

definition empty_signal :: "brain_config \<Rightarrow> string \<Rightarrow> market_summary \<Rightarrow> candidate_signal" where
  "empty_signal c smb reason =
     \<lparr>cs_symbol = smb, cs_direction = NO_DIRECTION, cs_confidence_score = None,
      cs_suggested_stop_loss = None, cs_suggested_take_profit = None,
      cs_strategy_id = cf_strategy_id c, cs_strategy_version = cf_strategy_version c,
      cs_market_state_summary = reason, cs_is_configured = is_fully_configured c,
      cs_entry_reference = None, cs_correlation_id = None, cs_setup_type = None\<rparr>"

definition tick_is_stale :: "brain_config \<Rightarrow> instant \<Rightarrow> tick \<Rightarrow> bool" where
  "tick_is_stale c now t =
     (case cf_max_tick_staleness_ms (cf_freshness c) of
        None \<Rightarrow> False
      | Some m \<Rightarrow> of_int m < f64 (tick_staleness_seconds now t * 1000))"

definition pipeline_structure :: "brain_config \<Rightarrow> bar list \<Rightarrow> dec option \<Rightarrow> structure_state" where
  "pipeline_structure c bars atr =
     analyze_structure bars (or_default (cf_swing_lookback_bars (cf_structure c)) 3) atr
       (or_default (cf_min_bos_atr_multiplier (cf_structure c)) (30 / 100))
       (or_default (cf_equal_level_tolerance_atr (cf_structure c)) (10 / 100))"

definition pipeline_atr_period :: "brain_config \<Rightarrow> int" where
  "pipeline_atr_period c = or_default (cf_atr_period (cf_volatility c)) 14"

definition pipeline_regime_params :: "brain_config \<Rightarrow> regime_params" where
  "pipeline_regime_params c =
     \<lparr>rp_fast_period = or_default (cf_fast_ma_period (cf_trend c)) 20,
      rp_slow_period = or_default (cf_slow_ma_period (cf_trend c)) 50,
      rp_rsi_period = or_default (cf_rsi_period (cf_momentum c)) 14,
      rp_atr_period = pipeline_atr_period c,
      rp_adx_period = or_default (cf_adx_period (cf_regime c)) 14,
      rp_trending_threshold = or_default (cf_trending_threshold (cf_regime c)) 20,
      rp_rsi_bullish_min = or_default (cf_rsi_bullish_min (cf_momentum c)) 52,
      rp_rsi_bearish_max = or_default (cf_rsi_bearish_max (cf_momentum c)) 48,
      rp_rsi_overbought = or_default (cf_rsi_overbought (cf_momentum c)) 70,
      rp_rsi_oversold = or_default (cf_rsi_oversold (cf_momentum c)) 30,
      rp_atr_baseline_bars = or_default (cf_atr_baseline_bars (cf_volatility c)) 50,
      rp_volatility_normal_ratio = or_default (cf_normal_ratio_upper (cf_volatility c)) (3 / 2),
      rp_volatility_high_ratio = or_default (cf_abnormal_high_ratio (cf_volatility c)) 2,
      rp_max_atr_threshold = cf_max_atr_threshold_usd (cf_volatility c)\<rparr>"

definition pipeline_scorer :: "brain_config \<Rightarrow> scorer" where
  "pipeline_scorer c =
     \<lparr>sr_strategy_id = cf_strategy_id c, sr_strategy_version = cf_strategy_version c,
      sr_min_conf = or_default (cf_min_confidence_threshold (cf_scoring c)) (70 / 100),
      sr_w_st = or_default (cf_weight_structure (cf_scoring c)) (25 / 100),
      sr_w_tr = or_default (cf_weight_trend (cf_scoring c)) (20 / 100),
      sr_w_se = or_default (cf_weight_setup (cf_scoring c)) (25 / 100),
      sr_w_mo = or_default (cf_weight_momentum (cf_scoring c)) (10 / 100),
      sr_w_vo = or_default (cf_weight_volatility (cf_scoring c)) (10 / 100),
      sr_w_re = or_default (cf_weight_regime (cf_scoring c)) (10 / 100),
      sr_sl_buffer = or_default (cf_sl_atr_buffer (cf_sl_tp c)) (1 / 2),
      sr_min_sl_atr = or_default (cf_min_sl_atr (cf_sl_tp c)) (3 / 10),
      sr_rr = or_default (cf_rr_target (cf_sl_tp c)) 2,
      sr_min_rr = or_default (cf_min_rr (cf_sl_tp c)) (3 / 2),
      sr_max_spread = or_default (cf_max_spread_usd (cf_spread c)) 1\<rparr>"

definition process_signal ::
  "brain_config \<Rightarrow> instant \<Rightarrow> string \<Rightarrow> tick \<Rightarrow> bar list \<Rightarrow> string \<Rightarrow> string option
     \<Rightarrow> candidate_signal res" where
  "process_signal c now fresh t bars news given_id =
     (let cid = choose_correlation_id given_id fresh
      in if bars = [] \<or> \<not> list_all br_is_closed bars
         then Inr (empty_signal c (tk_symbol t) InsufficientClosedBars)
      else if \<not> is_fully_configured c
         then Inr ((empty_signal c (tk_symbol t) ParametersUndefined)\<lparr>cs_is_configured := False\<rparr>)
      else if tick_is_stale c now t then Inr (empty_signal c (tk_symbol t) StaleTick)
      else let atr = calculate_atr bars (pipeline_atr_period c);
               structure = pipeline_structure c bars atr
      in bind_res (classify_regime (pipeline_regime_params c) bars) (\<lambda>regime.
           let stp = detect_setup bars structure atr
                 (or_default (cf_min_displacement_atr (cf_breakout c)) (30 / 100));
               signal = evaluate_factors (pipeline_scorer c) t structure regime news (su_type stp)
           in Inr (if cs_direction signal \<noteq> NO_DIRECTION
                   then signal\<lparr>cs_correlation_id := Some cid, cs_setup_type := Some (su_type stp)\<rparr>
                   else signal)))"

subsection \<open>Lemmas\<close>

lemma pipeline_ratio_nonzero: "rp_volatility_normal_ratio (pipeline_regime_params c) \<noteq> 0"
  by (simp add: pipeline_regime_params_def or_default_nonzero)

lemma pipeline_regime_total: "\<exists>r. classify_regime (pipeline_regime_params c) bars = Inr r"
  by (rule classify_regime_total [OF pipeline_ratio_nonzero])

lemma process_signal_total: "\<exists>sig. process_signal c now fresh t bars news given_id = Inr sig"
  unfolding process_signal_def Let_def
  by (intro if_res_total bind_res_total pipeline_regime_total exI) (rule refl)+

text \<open>A directional signal went through every stage of the pipeline.\<close>

lemma process_directional:
  assumes "process_signal c now fresh t bars news given_id = Inr sig" "cs_direction sig \<noteq> NO_DIRECTION"
  obtains atr st stp r raw where
    "bars \<noteq> []" "list_all br_is_closed bars" "is_fully_configured c" "\<not> tick_is_stale c now t"
    "classify_regime (pipeline_regime_params c) bars = Inr r"
    "atr = calculate_atr bars (pipeline_atr_period c)" "st = pipeline_structure c bars atr"
    "stp = su_type (detect_setup bars st atr
       (or_default (cf_min_displacement_atr (cf_breakout c)) (30 / 100)))"
    "raw = evaluate_factors (pipeline_scorer c) t st r news stp"
    "cs_direction raw \<noteq> NO_DIRECTION"
    "sig = raw\<lparr>cs_correlation_id := Some (choose_correlation_id given_id fresh),
                cs_setup_type := Some stp\<rparr>"
  using assms
  by (auto simp: process_signal_def Let_def empty_signal_def elim!: bind_res_InrE split: if_splits)

text \<open>
  The stages after the gates only see the closed bars, the tick prices, the news state and the
  configuration: the clock and the ids do not change what is proposed.
\<close>

lemma process_clock_independent:
  assumes "tick_is_stale c now t = tick_is_stale c now' t"
  shows "process_signal c now fresh t bars news given_id = process_signal c now' fresh t bars news given_id"
  using assms by (simp add: process_signal_def)

subsection \<open>A worked example\<close>

text \<open>
  Four closed bars and a quote for which the default weights propose a buy: the last bar closes
  above the swing high 2005 after a close below it, with an ATR of 8.
\<close>

definition demo_config :: brain_config where
  "demo_config = default_strat_config
     \<lparr>cf_structure := (cf_structure default_strat_config)\<lparr>cf_swing_lookback_bars := Some 1\<rparr>,
      cf_trend := (cf_trend default_strat_config)\<lparr>cf_fast_ma_period := Some 1, cf_slow_ma_period := Some 3\<rparr>,
      cf_momentum := (cf_momentum default_strat_config)
        \<lparr>cf_rsi_period := Some 1, cf_rsi_overbought := Some 101\<rparr>,
      cf_volatility := (cf_volatility default_strat_config)\<lparr>cf_atr_period := Some 1\<rparr>\<rparr>"

definition demo_bars :: "bar list" where
  "demo_bars = [demo_bar 0 2001 1999 2000, demo_bar 1 2005 2001 2004, demo_bar 2 2004 2000 2002,
                demo_bar 3 2010 2002 2009]"

definition demo_quote :: tick where
  "demo_quote = \<lparr>tk_symbol = ''XAUUSD'', tk_broker_symbol = ''XAUUSD'', tk_bid = 2009,
     tk_ask = 2009 + 1 / 2, tk_tick_time = 0, tk_received_at = 0, tk_source = LIVE_BROKER,
     tk_sequence_id = None, tk_volume = None\<rparr>"

lemma demo_atr: "calculate_atr demo_bars 1 = Some 8"
  by (simp add: calculate_atr_def demo_bars_def demo_bar_def true_range_def Let_def wilder_def
      dsum_def dec_ops dec_simps)

lemma demo_structure: "pipeline_structure demo_config demo_bars (Some 8)
   = \<lparr>st_bias = NEUTRAL, st_recent_swing_high = Some 2005, st_recent_swing_low = Some 2000,
      st_last_event = NO_EVENT, st_structural_direction = DIR_NEUTRAL\<rparr>"
  by (simp add: pipeline_structure_def demo_config_def default_strat_config_def or_default_def
     analyze_structure_def detect_swing_points_def swings_at_def is_swing_high_def is_swing_low_def
        pivot_window_def demo_bars_def demo_bar_def upt_rec Let_def)

lemma demo_setup: "su_type (detect_setup demo_bars \<lparr>st_bias = NEUTRAL, st_recent_swing_high = Some 2005, st_recent_swing_low = Some 2000,
      st_last_event = NO_EVENT, st_structural_direction = DIR_NEUTRAL\<rparr> (Some 8) (3 / 10)) = LONG_BREAKOUT"
  by (simp add: detect_setup_def demo_bars_def demo_bar_def second_last_def atr_scaled_def Let_def
      dec_ops dec_simps)

lemma demo_regime: "\<exists>r. classify_regime (pipeline_regime_params demo_config) demo_bars = Inr r
  \<and> rc_atr r = Some 8 \<and> rc_regime r = TREND_UP \<and> rc_trend_direction r = BULLISH
  \<and> rc_trend_strength r = TRENDING \<and> rc_momentum_state r = MOM_BULLISH \<and> rc_volatility_state r = NORMAL"
proof -
  have e1: "calculate_ema demo_bars 1 = Some 2009" 
    by (simp add: calculate_ema_def demo_bars_def demo_bar_def Let_def dsum_def)
      (simp add: dec_ops dec_simps)
  have e3: "calculate_ema demo_bars 3 = Some (2005 + 1 / 2)" 
    by (simp add: calculate_ema_def demo_bars_def demo_bar_def Let_def dsum_def)
      (simp add: dec_ops dec_simps)
  have r: "calculate_rsi demo_bars 1 = Some 100" 
    by (simp add: calculate_rsi_def demo_bars_def demo_bar_def bar_gain_def bar_loss_def rsi_of_def Let_def
        wilder_average_def wilder_def dsum_def dec_ops dec_simps)
  have x: "ax_adx (calculate_adx demo_bars 14) = None" 
    by (simp add: calculate_adx_def demo_bars_def Let_def)
  have len: "length demo_bars = 4" by (simp add: demo_bars_def)
  have P: "pipeline_regime_params demo_config = \<lparr>rp_fast_period = 1, rp_slow_period = 3, rp_rsi_period = 1,
     rp_atr_period = 1, rp_adx_period = 14, rp_trending_threshold = 20, rp_rsi_bullish_min = 52,
     rp_rsi_bearish_max = 48, rp_rsi_overbought = 101, rp_rsi_oversold = 30, rp_atr_baseline_bars = 50,
     rp_volatility_normal_ratio = 3 / 2, rp_volatility_high_ratio = 2, rp_max_atr_threshold = Some 15\<rparr>"
    by (simp add: pipeline_regime_params_def pipeline_atr_period_def demo_config_def
       default_strat_config_def or_default_def)
  show ?thesis
    by (simp add: P classify_regime_def len e1 e3 r x demo_atr Let_def trend_direction_of_def
       trend_strength_of_def momentum_of_def volatility_of_def regime_of_def)
qed

lemma demo_process: "\<exists>sig. process_signal demo_config 0 ''id'' demo_quote demo_bars ''CLEAR'' None = Inr sig
   \<and> cs_direction sig = BUY \<and> cs_suggested_stop_loss sig = Some 1996
   \<and> cs_suggested_take_profit sig = Some (2036 + 1 / 2)
   \<and> cs_entry_reference sig = Some (2009 + 1 / 2) \<and> cs_is_configured sig"
proof -
  let ?st = "\<lparr>st_bias = NEUTRAL, st_recent_swing_high = Some 2005, st_recent_swing_low = Some 2000,
      st_last_event = NO_EVENT, st_structural_direction = DIR_NEUTRAL\<rparr>"
  obtain r where r: "classify_regime (pipeline_regime_params demo_config) demo_bars = Inr r"
    "rc_atr r = Some 8" "rc_regime r = TREND_UP" "rc_trend_direction r = BULLISH"
    "rc_trend_strength r = TRENDING" "rc_momentum_state r = MOM_BULLISH" "rc_volatility_state r = NORMAL"
    using demo_regime by blast
  have per: "pipeline_atr_period demo_config = 1"
    "or_default (cf_min_displacement_atr (cf_breakout demo_config)) (3 / 10) = 3 / 10"
    by (simp_all add: pipeline_atr_period_def demo_config_def default_strat_config_def or_default_def)
  have sc: "pipeline_scorer demo_config = default_scorer"
    by (simp add: pipeline_scorer_def default_scorer_def demo_config_def default_strat_config_def
      or_default_def)
  have gates: "demo_bars \<noteq> []" "list_all br_is_closed demo_bars" "is_fully_configured demo_config"
    "\<not> tick_is_stale demo_config 0 demo_quote"
    by (simp_all add: demo_bars_def demo_bar_def is_fully_configured_def demo_config_def
      default_strat_config_def tick_is_stale_def tick_staleness_seconds_def demo_quote_def
      total_seconds_def)
  have ev: "evaluate_factors default_scorer demo_quote ?st r ''CLEAR'' LONG_BREAKOUT
      = directional_signal default_scorer demo_quote ?st r LONG_BREAKOUT BUY (1996, 2036 + 1 / 2)"
  proof -
    have c: "confidence default_scorer ?st r LONG_BREAKOUT BUY = 3 / 4"
      "confidence default_scorer ?st r LONG_BREAKOUT SELL = 1 / 5"
      by (simp_all add: confidence_def score_structure_def score_trend_def score_setup_def
        score_momentum_def score_volatility_def score_regime_def r default_scorer_def dec_ops dec_simps)
    have "compute_sl_tp default_scorer demo_quote ?st 8 BUY = Some (1996, 2036 + 1 / 2)"
      by (simp add: compute_sl_tp_def demo_quote_def default_scorer_def Let_def dec_ops dec_simps)
    moreover have "sr_min_conf default_scorer = 7 / 10" "sr_max_spread default_scorer = 1"
       "tick_spread demo_quote = 1 / 2" "or_default (Some (8::dec)) 1 = 8"
      by (simp_all add: default_scorer_def tick_spread_def demo_quote_def dec_ops dec_simps or_default_def)
    ultimately show ?thesis
      by (simp add: evaluate_factors_def score_direction_def c r permits_new_entry_def)
  qed
  have "process_signal demo_config 0 ''id'' demo_quote demo_bars ''CLEAR'' None
     = Inr ((directional_signal default_scorer demo_quote ?st r LONG_BREAKOUT BUY (1996, 2036 + 1 / 2))
          \<lparr>cs_correlation_id := Some ''id'', cs_setup_type := Some LONG_BREAKOUT\<rparr>)"
    using gates by (simp add: process_signal_def per demo_atr demo_structure demo_setup sc ev r(1)
       Let_def directional_signal_def choose_correlation_id_def)
  then show ?thesis by (simp add: directional_signal_def demo_quote_def)
qed

subsection \<open>Properties\<close>

text \<open>
  C2: the brain proposes a trade only when every gate has passed.  \<open>process\<close> never raises; a
  signal with a direction means: there are bars and all of them are closed, the configuration is
  complete, the tick is not stale, news is CLEAR, the spread is within its limit, the regime
  permits entries, the confidence reaches the threshold and is positive, and the stop loss and
  take profit lie on their two sides of the entry price with the stop at least the configured
  multiple of the ATR away.
\<close>

theorem pipeline_safe:
  assumes cfg: "0 < sr_min_sl_atr (pipeline_scorer c)" "0 \<le> sr_rr (pipeline_scorer c)"
    and fits: "dec_fits (tk_bid t)" "dec_fits (tk_ask t)"
  shows "\<exists>sig. process_signal c now fresh t bars news given_id = Inr sig
    \<and> (cs_direction sig \<noteq> NO_DIRECTION \<longrightarrow>
         bars \<noteq> [] \<and> list_all br_is_closed bars \<and> is_fully_configured c \<and> \<not> tick_is_stale c now t
         \<and> news = ''CLEAR'' \<and> tick_spread t \<le> sr_max_spread (pipeline_scorer c)
         \<and> (\<exists>r. classify_regime (pipeline_regime_params c) bars = Inr r \<and> permits_new_entry r)
         \<and> (\<exists>conf sl tp. cs_confidence_score sig = Some conf \<and> 0 < conf
              \<and> sr_min_conf (pipeline_scorer c) \<le> conf
              \<and> cs_suggested_stop_loss sig = Some sl \<and> cs_suggested_take_profit sig = Some tp
              \<and> (if cs_direction sig = BUY
                  then cs_entry_reference sig = Some (tk_ask t) \<and> sl < tk_ask t \<and> tk_ask t \<le> tp
                  else cs_entry_reference sig = Some (tk_bid t) \<and> tk_bid t < sl \<and> tp \<le> tk_bid t)))"
proof -
  obtain sig where sig: "process_signal c now fresh t bars news given_id = Inr sig"
    using process_signal_total by blast
  show ?thesis
  proof (intro exI [of _ sig] conjI impI sig)
    assume dir: "cs_direction sig \<noteq> NO_DIRECTION"
    from sig dir obtain atr st stp r raw where p:
      "bars \<noteq> []" "list_all br_is_closed bars" "is_fully_configured c" "\<not> tick_is_stale c now t"
      "classify_regime (pipeline_regime_params c) bars = Inr r"
      "raw = evaluate_factors (pipeline_scorer c) t st r news stp"
      "cs_direction raw \<noteq> NO_DIRECTION"
      "sig = raw\<lparr>cs_correlation_id := Some (choose_correlation_id given_id fresh),
                  cs_setup_type := Some stp\<rparr>"
      by (rule process_directional)
    from p(6,7) obtain d sltp where e: "d \<in> {BUY, SELL}"
      "raw = directional_signal (pipeline_scorer c) t st r stp d sltp"
      "compute_sl_tp (pipeline_scorer c) t st (or_default (rc_atr r) 1) d = Some sltp"
      "news = ''CLEAR''" "tick_spread t \<le> sr_max_spread (pipeline_scorer c)" "permits_new_entry r"
      "sr_min_conf (pipeline_scorer c) \<le> confidence (pipeline_scorer c) st r stp d"
      "0 < confidence (pipeline_scorer c) st r stp d"
      by (metis evaluate_directional)
    obtain sl tp where sltp: "sltp = (sl, tp)" by (cases sltp)
    have atr: "0 < or_default (rc_atr r) 1"
      by (rule or_default_atr_pos) (rule classify_regime_atr_nonneg [OF p(5)])
    show "bars \<noteq> []" "list_all br_is_closed bars" "is_fully_configured c" "\<not> tick_is_stale c now t"
      "news = ''CLEAR''" "tick_spread t \<le> sr_max_spread (pipeline_scorer c)"
      "\<exists>r. classify_regime (pipeline_regime_params c) bars = Inr r \<and> permits_new_entry r"
      using p e by blast+
    show "\<exists>conf sl tp. cs_confidence_score sig = Some conf \<and> 0 < conf
              \<and> sr_min_conf (pipeline_scorer c) \<le> conf
              \<and> cs_suggested_stop_loss sig = Some sl \<and> cs_suggested_take_profit sig = Some tp
              \<and> (if cs_direction sig = BUY
                  then cs_entry_reference sig = Some (tk_ask t) \<and> sl < tk_ask t \<and> tk_ask t \<le> tp
                  else cs_entry_reference sig = Some (tk_bid t) \<and> tk_bid t < sl \<and> tp \<le> tk_bid t)"
      using e(1,7,8) sl_tp_buy [of "pipeline_scorer c" t st _ sl tp] e(3) atr cfg fits
        sl_tp_sell [of "pipeline_scorer c" t st _ sl tp]
      unfolding p(8) e(2) sltp by (auto simp: directional_signal_def)
  qed
qed

theorem pipeline_safe_witness:
  "is_fully_configured demo_config \<and> \<not> tick_is_stale demo_config 0 demo_quote
   \<and> (\<exists>sig sl tp. process_signal demo_config 0 ''id'' demo_quote demo_bars ''CLEAR'' None = Inr sig
        \<and> cs_direction sig = BUY \<and> cs_suggested_stop_loss sig = Some sl \<and> sl < tk_ask demo_quote
        \<and> cs_suggested_take_profit sig = Some tp \<and> tk_ask demo_quote \<le> tp)"
proof -
  have cfg: "0 < sr_min_sl_atr (pipeline_scorer demo_config)" "0 \<le> sr_rr (pipeline_scorer demo_config)"
    by (simp_all add: pipeline_scorer_def demo_config_def default_strat_config_def or_default_def)
  have "dec_fits (tk_bid demo_quote)" "dec_fits (tk_ask demo_quote)"
    by (simp_all add: demo_quote_def dec_fits_numeral dec_fits_scaled [of _ 1 20095])
  from pipeline_safe [OF cfg this, of 0 "''id''" demo_bars "''CLEAR''" None] demo_process
  show ?thesis by fastforce
qed

end
