(* ===== verification/Sizing.thy ===== *)
theory Sizing
  imports Decimals
begin

section \<open>Position sizing (\<open>backend/risk/sizing.py\<close>)\<close>

text \<open>
  The two sizing policies and the contract the risk engine relies on.  A policy is its
  \<open>calculate_lot_size\<close> function of equity, entry and stop.  A \<open>Decimal\<close> carries its exponent, which
  \<open>quantize(lot_step)\<close> reads; the record keeps it as the number of decimals of \<open>lot_step\<close>.
\<close>

type_synonym sizing_policy = "dec \<Rightarrow> dec option \<Rightarrow> dec option \<Rightarrow> dec option res"

record percentage_policy =
  pp_risk_per_trade_pct :: dec
  pp_contract_size :: dec
  pp_min_lot :: dec
  pp_max_lot :: "dec option"
  pp_lot_step :: dec
  pp_lot_step_decimals :: nat

text \<open>\<open>PercentageEquitySizingPolicy(risk_per_trade_pct=r)\<close> with the defaults of the constructor.\<close>

definition percentage_policy_init :: "dec \<Rightarrow> percentage_policy" where
  "percentage_policy_init r =
     \<lparr>pp_risk_per_trade_pct = r, pp_contract_size = 100, pp_min_lot = 1 / 100, pp_max_lot = None,
      pp_lot_step = 1 / 100, pp_lot_step_decimals = 2\<rparr>"

definition percentage_lot_size :: "percentage_policy \<Rightarrow> sizing_policy" where
  "percentage_lot_size p equity entry stop =
     (case (entry, stop) of
        (Some e, Some s) \<Rightarrow>
          let dist = dabs (dsub e s)
          in if dist \<le> 0 then Inr None
             else if equity \<le> 0 then Inr None
             else
               bind_res (ddiv_res (dmul equity (pp_risk_per_trade_pct p)) (dmul dist (pp_contract_size p)))
                 (\<lambda>raw. bind_res (ddiv_res raw (pp_lot_step p))
                   (\<lambda>q. bind_res (dquantize_down q)
                     (\<lambda>steps.
                        let lots = dmul (of_int steps) (pp_lot_step p)
                        in if lots < pp_min_lot p then Inr None
                           else bind_res (dquantize (pp_lot_step_decimals p)
                                  (case pp_max_lot p of
                                     Some m \<Rightarrow> if m < lots then m else lots | None \<Rightarrow> lots))
                                  (\<lambda>l. Inr (Some l)))))
      | _ \<Rightarrow> Inr None)"

definition fixed_lot_size :: "dec \<Rightarrow> sizing_policy" where
  "fixed_lot_size fixed_lots equity entry stop = Inr (Some fixed_lots)"

subsection \<open>Rounding on the lot grid\<close>

lemma dquantize_grid:
  assumes "x * 10 ^ k = of_int n" "\<bar>n\<bar> < 10 ^ 28"
  shows "dquantize k x = Inr x"
proof -
  have "\<bar>x\<bar> * 10 ^ k = \<bar>x * 10 ^ k\<bar>" by (simp add: abs_mult)
  also have "\<dots> = of_int \<bar>n\<bar>" by (simp add: assms(1))
  finally have "\<bar>x\<bar> * 10 ^ k = of_int \<bar>n\<bar>" .
  then have r: "rhe (\<bar>x\<bar> * 10 ^ k) = \<bar>n\<bar>" by (simp only: rhe_of_int)
  have "sgn x * of_int \<bar>n\<bar> = (of_int n :: rat)"
  proof -
    have "sgn x = sgn (of_int n :: rat)" using assms(1) [symmetric] by (simp add: sgn_mult)
    then show ?thesis by (simp add: sgn_if)
  qed
  moreover have "x = of_int n / 10 ^ k" using assms(1) by (simp add: field_simps)
  moreover have "\<not> 10 ^ 28 \<le> \<bar>of_int n :: rat\<bar>"
  proof -
    have "(of_int \<bar>n\<bar> :: rat) < of_int (10 ^ 28)" using assms(2) by (simp only: of_int_less_iff)
    then show ?thesis by simp
  qed
  ultimately show ?thesis unfolding dquantize_def r Let_def by simp
qed

text \<open>The relative error of one decimal rounding.\<close>

lemma dctx_rel_error:
  assumes "0 < x" shows "dctx x \<le> x * (1 + 1 / 10 ^ 27)"
proof -
  have "\<bar>dctx x - x\<bar> \<le> x / of_int (10 ^ (28 - 1))"
    unfolding dctx_def by (rule dec10.rnd_rel_error [OF assms])
  then have "dctx x - x \<le> x / of_int (10 ^ (28 - 1))" by (rule order_trans [OF abs_ge_self])
  then have "dctx x \<le> x + x / 10 ^ 27" by simp
  also have "\<dots> = x * (1 + 1 / 10 ^ 27)" by (simp only: distrib_left mult_1_right times_divide_eq_right)
  finally show ?thesis .
qed

lemma dec_fits_times_100:
  assumes "dec_fits x" shows "dec_fits (x * 100)"
proof -
  from assms obtain n e where "x = of_int n * 10 powi e" "\<bar>n\<bar> \<le> 10 ^ 28"
    unfolding dec_fits_def radix_fits_def by auto
  then have "x * 100 = of_int n * 10 powi (e + 2)" by (simp add: power_int_add)
  with \<open>\<bar>n\<bar> \<le> 10 ^ 28\<close> show ?thesis unfolding dec_fits_def radix_fits_def by auto
qed

text \<open>What a policy on the 0.01 lot grid returns.\<close>

lemma percentage_lot_size_Some:
  assumes res: "percentage_lot_size p equity (Some e) (Some s) = Inr (Some l)"
    and grid: "pp_lot_step p = 1 / 100" "pp_lot_step_decimals p = 2" "1 / 100 \<le> pp_min_lot p"
    and mx: "\<And>m. pp_max_lot p = Some m \<Longrightarrow> \<exists>k. m = of_int k / 100 \<and> 1 \<le> k"
  defines "d \<equiv> dmul (dabs (dsub e s)) (pp_contract_size p)"
    and "ra \<equiv> dmul equity (pp_risk_per_trade_pct p)"
  shows "0 < dabs (dsub e s) \<and> 0 < equity \<and> d \<noteq> 0 \<and> 0 < l \<and> (\<exists>n. l = of_int n / 100)
    \<and> l \<le> ddiv ra d \<and> (\<forall>m. pp_max_lot p = Some m \<longrightarrow> l \<le> m)
    \<and> (pp_max_lot p = None \<longrightarrow> pp_min_lot p \<le> l)"
proof -
  let ?raw = "ddiv ra d"
  define n where "n = py_int (ddiv ?raw (1 / 100))"
  define lots where "lots = dmul (of_int n) (1 / 100)"
  define capped where "capped = (case pp_max_lot p of Some m \<Rightarrow> if m < lots then m else lots | None \<Rightarrow> lots)"
  from res have pos: "0 < dabs (dsub e s)" "0 < equity" and d0: "d \<noteq> 0"
    and n28: "\<bar>n\<bar> < 10 ^ 28" and min: "pp_min_lot p \<le> lots" and q: "dquantize 2 capped = Inr l"
    unfolding n_def lots_def capped_def ra_def d_def
    by (auto simp: percentage_lot_size_def Let_def grid ddiv_res_def dquantize_down_def not_le
        elim!: bind_res_InrE split: if_splits)
  have q100: "ddiv ?raw (1 / 100) = ?raw * 100"
    unfolding ddiv_def [of ?raw] by (simp add: dctx_fits dec_fits_times_100)
  have lots: "lots = of_int n / 100"
    unfolding lots_def dmul_def using n28 by (simp add: dctx_fits dec_fits_scaled [of _ 2 n])
  with min grid(3) have n1: "1 \<le> n" by simp
  have raw0: "0 \<le> ?raw * 100"
  proof (rule ccontr)
    assume "\<not> 0 \<le> ?raw * 100"
    then have "n \<le> 0" unfolding n_def q100 by (simp add: py_int_def)
    with n1 show False by simp
  qed
  then have "of_int n \<le> ?raw * 100" unfolding n_def q100 py_int_def by simp
  with lots have le: "lots \<le> ?raw" by simp
  have "\<exists>k. capped = of_int k / 100 \<and> 1 \<le> k \<and> k \<le> n"
  proof (cases "pp_max_lot p")
    case None
    then show ?thesis using lots n1 by (auto simp: capped_def)
  next
    case (Some m)
    from mx [OF Some] obtain k where "m = of_int k / 100" "1 \<le> k" by blast
    with Some lots n1 show ?thesis by (auto simp: capped_def)
  qed
  then obtain k where k: "capped = of_int k / 100" "1 \<le> k" "k \<le> n" by blast
  have "dquantize 2 capped = Inr capped"
    by (rule dquantize_grid [of _ _ k]) (use k n28 in auto)
  with q have l: "l = capped" by simp
  have "capped \<le> lots" using k(1,3) lots by simp
  with le l have "l \<le> ?raw" by simp
  moreover have "\<forall>m. pp_max_lot p = Some m \<longrightarrow> l \<le> m" "pp_max_lot p = None \<longrightarrow> pp_min_lot p \<le> l"
    using min unfolding l capped_def by (auto split: if_splits)
  ultimately show ?thesis using pos d0 l k(1,2) by auto
qed

lemma ddiv_budget:
  assumes "l \<le> ddiv a d" "0 < l" "0 < d"
  shows "l * d \<le> a * (1 + 1 / 10 ^ 27)"
proof -
  have "0 < ddiv a d" using assms by linarith
  then have ad: "0 < a / d" unfolding ddiv_def by (rule dc.rd_pos_iff_arg)
  from dctx_rel_error [OF ad] assms(1) have "l \<le> a / d * (1 + 1 / 10 ^ 27)"
    unfolding ddiv_def by linarith
  then have "l * d \<le> a / d * (1 + 1 / 10 ^ 27) * d" using assms(3) by (intro mult_right_mono) auto
  also have "\<dots> = a * (1 + 1 / 10 ^ 27)" using assms(3) by simp
  finally show ?thesis .
qed

subsection \<open>The contract of a sizing policy\<close>

text \<open>
  What the risk engine relies on: an authorised volume is positive.  A budgeted policy also keeps
  the loss at the stop (volume times distance times 100 ounces) within the risk budget, up to the
  relative error of one decimal rounding.
\<close>

locale sizing_contract =
  fixes lot_size :: sizing_policy
  assumes positive: "lot_size equity entry stop = Inr (Some l) \<Longrightarrow> 0 < l"

locale budgeted_sizing = sizing_contract +
  fixes risk_pct :: dec
  assumes needs_stop: "lot_size equity entry stop = Inr (Some l) \<Longrightarrow> \<exists>e s. entry = Some e \<and> stop = Some s"
    and within_budget: "lot_size equity (Some e) (Some s) = Inr (Some l) \<Longrightarrow>
      l * dmul (dabs (dsub e s)) 100 \<le> dmul equity risk_pct * (1 + 1 / 10 ^ 27)"
begin

lemma no_stop_no_volume: "lot_size equity None stop \<noteq> Inr (Some l)" "lot_size equity entry None \<noteq> Inr (Some l)"
  using needs_stop by blast+

text \<open>Two trades sized on the same equity stay within twice the budget, and so on.\<close>

lemma total_within_budget:
  assumes "list_all (\<lambda>(e, s, l). lot_size equity (Some e) (Some s) = Inr (Some l)) trades"
  shows "sum_list (map (\<lambda>(e, s, l). l * dmul (dabs (dsub e s)) 100) trades)
    \<le> of_nat (length trades) * (dmul equity risk_pct * (1 + 1 / 10 ^ 27))"
  using assms
proof (induction trades)
  case (Cons t ts)
  obtain e s l where t: "t = (e, s, l)" by (cases t)
  have "l * dmul (dabs (dsub e s)) 100 \<le> dmul equity risk_pct * (1 + 1 / 10 ^ 27)"
    using Cons.prems by (intro within_budget) (simp add: t)
  with Cons show ?case by (simp add: t algebra_simps)
qed simp

end

interpretation pct: budgeted_sizing "percentage_lot_size (percentage_policy_init r)" r for r
proof
  fix equity entry stop l
  assume *: "percentage_lot_size (percentage_policy_init r) equity entry stop = Inr (Some l)"
  then show ex: "\<exists>e s. entry = Some e \<and> stop = Some s"
    by (auto simp: percentage_lot_size_def split: option.splits)
  then obtain e s where "entry = Some e" "stop = Some s" by blast
  with * percentage_lot_size_Some [of "percentage_policy_init r" equity e s l] show "0 < l"
    by (simp add: percentage_policy_init_def)
next
  fix equity e s l
  assume "percentage_lot_size (percentage_policy_init r) equity (Some e) (Some s) = Inr (Some l)"
  from percentage_lot_size_Some [OF this]
  have "0 < dabs (dsub e s)" "0 < l" "l \<le> ddiv (dmul equity r) (dmul (dabs (dsub e s)) 100)"
    by (auto simp: percentage_policy_init_def)
  then show "l * dmul (dabs (dsub e s)) 100 \<le> dmul equity r * (1 + 1 / 10 ^ 27)"
    by (intro ddiv_budget dmul_pos) auto
qed

subsection \<open>Properties\<close>

text \<open>
  percentage sizing never risks more than the budget.  A volume is authorised only for a
  positive equity and a stop away from the entry; it is a whole number of 0.01 lots, at least the
  minimum lot, and the loss at the stop (volume times stop distance times 100 ounces) exceeds the
  risk amount at most by the relative error \<open>10 ^ -27\<close> of one decimal rounding.
\<close>

theorem sizing_within_budget:
  assumes "percentage_lot_size (percentage_policy_init r) equity entry stop = Inr (Some l)"
  shows "\<exists>e s. entry = Some e \<and> stop = Some s \<and> 0 < equity \<and> 0 < dabs (dsub e s)
    \<and> 1 / 100 \<le> l \<and> (\<exists>n. l = of_int n / 100)
    \<and> l * dmul (dabs (dsub e s)) 100 \<le> dmul equity r * (1 + 1 / 10 ^ 27)"
proof -
  from pct.needs_stop [OF assms] obtain e s where es: "entry = Some e" "stop = Some s" by blast
  from percentage_lot_size_Some [OF assms [unfolded es]] pct.within_budget [OF assms [unfolded es]]
  show ?thesis using es by (auto simp: percentage_policy_init_def)
qed

lemma demo_sizing:
  "percentage_lot_size (percentage_policy_init (1 / 100)) 10000 (Some 2000) (Some 1990) = Inr (Some (1 / 10))"
  by (simp add: percentage_lot_size_def percentage_policy_init_def ddiv_res_def Let_def
      dquantize_down_def py_int_def dquantize_grid [of _ _ 10] dec_ops dec_simps)

theorem sizing_within_budget_witness:
  "percentage_lot_size (percentage_policy_init (1 / 100)) 10000 (Some 2000) (Some 1990) = Inr (Some (1 / 10))
   \<and> (\<exists>e s. Some (2000::dec) = Some e \<and> Some (1990::dec) = Some s
        \<and> (1 / 10) * dmul (dabs (dsub e s)) 100 \<le> dmul 10000 (1 / 100) * (1 + 1 / 10 ^ 27))"
  using sizing_within_budget [OF demo_sizing] demo_sizing by blast

text \<open>
  The cap \<open>max_lot\<close> holds on the lot grid only: a cap of 0.015 is rounded to 0.02 by the final
  \<open>quantize\<close> and exceeded.
\<close>

lemma max_lot_rounded_up:
  "percentage_lot_size ((percentage_policy_init (1 / 100))\<lparr>pp_max_lot := Some (15 / 1000)\<rparr>)
     10000 (Some 2000) (Some 1990) = Inr (Some (2 / 100))"
proof -
  have f: "\<lfloor>3 / 2 :: rat\<rfloor> = 1" by (rule floor_unique) simp_all
  show ?thesis
  by (simp add: percentage_lot_size_def percentage_policy_init_def ddiv_res_def Let_def
      dquantize_down_def py_int_def dquantize_def rhe_def f dec_ops dec_simps)
qed

end
