(* ===== verification/Risk_Engine.thy ===== *)
theory Risk_Engine
  imports Sizing Market_Types
begin

section \<open>Risk engine (\<open>backend/risk/\<close>)\<close>

text \<open>
  The risk states and configuration, and \<open>RiskEngine.evaluate\<close> as its ten numbered checks.  Each
  check is a definition that returns the decision it blocks with, or \<open>None\<close>; \<open>evaluate_risk\<close> takes
  the first.  A reason code is a constructor with the text the code appends to it.  The clock and
  the generated correlation id are arguments.
\<close>

datatype risk_state = RS_NOT_CONFIGURED | RS_NORMAL | RS_CAUTION | RS_PROTECTED | RS_STOPPED | RS_EMERGENCY_STOP

datatype signal_decision = APPROVED | BLOCKED | DEC_NOT_CONFIGURED | EMERGENCY

definition trading_allowed_states :: "risk_state set" where
  "trading_allowed_states = {RS_NORMAL}"

definition position_management_allowed_states :: "risk_state set" where
  "position_management_allowed_states = {RS_NORMAL, RS_CAUTION, RS_PROTECTED}"

datatype reason_code =
    EMERGENCY_STOP_ACTIVE
  | MISSING_PARAMETERS "string list"
  | MARKET_DATA_NOT_READY string
  | STALE_MARKET_DATA
  | SPREAD_TOO_HIGH
  | NEWS_EVENT_WINDOW string
  | NEWS_DATA_UNAVAILABLE string
  | DAILY_LOSS_LIMIT_HIT
  | MAX_DRAWDOWN_HIT
  | CAUTION_DRAWDOWN_REACHED
  | PROFIT_LOCK_FLOOR_BREACHED
  | MAX_POSITIONS_REACHED
  | MAX_LOTS_EXCEEDED
  | ALL_CHECKS_PASSED

datatype profit_lock_formula = PCT_RETRACE
datatype profit_lock_basis = FLOATING_EQUITY
datatype drawdown_reference = LIFETIME_HWM

record risk_config =
  rk_daily_loss_limit_usd :: "dec option"
  rk_max_drawdown_usd :: "dec option"
  rk_max_open_positions :: "int option"
  rk_max_open_lots :: "dec option"
  rk_max_spread_usd :: "dec option"
  rk_caution_drawdown_pct :: "dec option"
  rk_risk_per_trade_pct :: "dec option"
  rk_default_position_size_lots :: "dec option"
  rk_profit_lock_formula :: profit_lock_formula
  rk_profit_lock_basis :: profit_lock_basis
  rk_profit_lock_threshold_usd :: dec
  rk_profit_lock_floor_pct :: dec
  rk_max_tick_staleness_ms :: int
  rk_news_pre_event_window_minutes :: int
  rk_news_post_event_window_minutes :: int
  rk_daily_reset_timezone :: string
  rk_drawdown_reference :: drawdown_reference
  rk_emergency_stop_active :: bool

definition risk_config_default :: risk_config where
  "risk_config_default =
     \<lparr>rk_daily_loss_limit_usd = None, rk_max_drawdown_usd = None, rk_max_open_positions = None,
      rk_max_open_lots = None, rk_max_spread_usd = None, rk_caution_drawdown_pct = None,
      rk_risk_per_trade_pct = None, rk_default_position_size_lots = None,
      rk_profit_lock_formula = PCT_RETRACE, rk_profit_lock_basis = FLOATING_EQUITY,
      rk_profit_lock_threshold_usd = 10, rk_profit_lock_floor_pct = 30 / 100,
      rk_max_tick_staleness_ms = 2000, rk_news_pre_event_window_minutes = 30,
      rk_news_post_event_window_minutes = 30, rk_daily_reset_timezone = ''UTC'',
      rk_drawdown_reference = LIFETIME_HWM, rk_emergency_stop_active = False\<rparr>"

definition risk_is_fully_configured :: "risk_config \<Rightarrow> bool" where
  "risk_is_fully_configured c \<longleftrightarrow>
     rk_daily_loss_limit_usd c \<noteq> None \<and> rk_max_drawdown_usd c \<noteq> None
     \<and> rk_max_open_positions c \<noteq> None
     \<and> (rk_risk_per_trade_pct c \<noteq> None \<or> rk_default_position_size_lots c \<noteq> None)"

definition missing_parameters :: "risk_config \<Rightarrow> string list" where
  "missing_parameters c =
     (if rk_daily_loss_limit_usd c = None then [''daily_loss_limit_usd''] else [])
     @ (if rk_max_drawdown_usd c = None then [''max_drawdown_usd''] else [])
     @ (if rk_max_open_positions c = None then [''max_open_positions''] else [])
     @ (if rk_risk_per_trade_pct c = None \<and> rk_default_position_size_lots c = None
        then [''risk_per_trade_pct''] else [])"

subsection \<open>Inputs and outputs\<close>

record account_snapshot =
  as_account_id :: string
  as_current_balance_usd :: dec
  as_current_equity_usd :: dec
  as_equity_peak_usd :: dec
  as_daily_realized_pnl_usd :: dec
  as_daily_floating_pnl_usd :: dec
  as_open_position_count :: int
  as_snapshot_at :: instant
  as_session_open_equity_usd :: "dec option"
  as_session_peak_profit_usd :: "dec option"
  as_open_lot_exposure :: dec
  as_in_flight_lot_exposure :: dec

record market_condition =
  mc_symbol :: string
  mc_bid :: "dec option"
  mc_ask :: "dec option"
  mc_tick_timestamp :: "instant option"
  mc_tick_age_ms :: "int option"
  mc_spread :: "dec option"
  mc_market_data_status :: string

definition effective_spread :: "market_condition \<Rightarrow> dec option" where
  "effective_spread m =
     (case mc_spread m of
        Some s \<Rightarrow> Some s
      | None \<Rightarrow> (case (mc_ask m, mc_bid m) of (Some a, Some b) \<Rightarrow> Some (dsub a b) | _ \<Rightarrow> None))"

record profit_lock_status =
  pl_is_active :: bool
  pl_session_profit_usd :: dec
  pl_peak_profit_usd :: dec
  pl_protected_floor_usd :: dec
  pl_is_breached :: bool

record risk_decision =
  rd_decision :: signal_decision
  rd_reason_code :: reason_code
  rd_risk_state :: risk_state
  rd_account_id :: string
  rd_correlation_id :: string
  rd_decided_at :: instant
  rd_equity_at_decision :: "dec option"
  rd_drawdown_at_decision :: "dec option"
  rd_daily_pnl_at_decision :: "dec option"
  rd_profit_lock_status :: "profit_lock_status option"
  rd_authorized_lot_size :: "dec option"

definition rd_trading_allowed :: "risk_decision \<Rightarrow> bool" where
  "rd_trading_allowed d \<longleftrightarrow> rd_decision d = APPROVED"

record risk_engine =
  re_config :: risk_config
  re_sizing_policy :: "sizing_policy option"

definition get_sizing_policy :: "risk_engine \<Rightarrow> sizing_policy option" where
  "get_sizing_policy e =
     (case re_sizing_policy e of
        Some p \<Rightarrow> Some p
      | None \<Rightarrow>
          (case rk_risk_per_trade_pct (re_config e) of
             Some r \<Rightarrow> Some (percentage_lot_size (percentage_policy_init r))
           | None \<Rightarrow> map_option fixed_lot_size (rk_default_position_size_lots (re_config e))))"

subsection \<open>The checks\<close>

text \<open>A decision with the equity filled in and everything else left at its default.\<close>

definition decide ::
  "signal_decision \<Rightarrow> reason_code \<Rightarrow> risk_state \<Rightarrow> account_snapshot \<Rightarrow> string \<Rightarrow> instant \<Rightarrow> risk_decision" where
  "decide d code st snap cid now =
     \<lparr>rd_decision = d, rd_reason_code = code, rd_risk_state = st,
      rd_account_id = as_account_id snap, rd_correlation_id = cid, rd_decided_at = now,
      rd_equity_at_decision = Some (as_current_equity_usd snap), rd_drawdown_at_decision = None,
      rd_daily_pnl_at_decision = None, rd_profit_lock_status = None, rd_authorized_lot_size = None\<rparr>"

definition check_emergency ::
  "risk_config \<Rightarrow> account_snapshot \<Rightarrow> string \<Rightarrow> instant \<Rightarrow> risk_decision option" where
  "check_emergency c snap cid now =
     (if rk_emergency_stop_active c
      then Some (decide EMERGENCY EMERGENCY_STOP_ACTIVE RS_EMERGENCY_STOP snap cid now) else None)"

definition check_configured ::
  "risk_config \<Rightarrow> account_snapshot \<Rightarrow> string \<Rightarrow> instant \<Rightarrow> risk_decision option" where
  "check_configured c snap cid now =
     (if risk_is_fully_configured c then None
      else Some ((decide DEC_NOT_CONFIGURED (MISSING_PARAMETERS (missing_parameters c))
                    RS_NOT_CONFIGURED snap cid now)\<lparr>rd_equity_at_decision := None\<rparr>))"

definition market_staleness_ms :: "instant \<Rightarrow> market_condition \<Rightarrow> int option" where
  "market_staleness_ms now m =
     (case mc_tick_age_ms m of
        Some a \<Rightarrow> Some a
      | None \<Rightarrow> map_option (\<lambda>ts. age_ms (now - ts)) (mc_tick_timestamp m))"

text \<open>The status and news strings the checks compare with.\<close>

definition ready_statuses :: "string set" where
  "ready_statuses = {''READY'', ''OK''}"

definition news_window_states :: "string set" where
  "news_window_states = {''PRE_EVENT'', ''IN_EVENT'', ''POST_EVENT''}"

definition news_unavailable_states :: "string set" where
  "news_unavailable_states = {''UNKNOWN'', ''PROVIDER_UNAVAILABLE'', ''STALE''}"

definition check_market ::
  "risk_config \<Rightarrow> market_condition option \<Rightarrow> account_snapshot \<Rightarrow> string \<Rightarrow> instant
     \<Rightarrow> risk_decision option" where
  "check_market c market snap cid now =
     (case market of
        None \<Rightarrow> None
      | Some m \<Rightarrow>
          if mc_market_data_status m \<notin> ready_statuses
          then Some (decide BLOCKED (MARKET_DATA_NOT_READY (mc_market_data_status m)) RS_CAUTION snap cid now)
          else if (case market_staleness_ms now m of
                     Some a \<Rightarrow> rk_max_tick_staleness_ms c < a | None \<Rightarrow> False)
          then Some (decide BLOCKED STALE_MARKET_DATA RS_CAUTION snap cid now)
          else if (case (rk_max_spread_usd c, effective_spread m) of
                     (Some mx, Some s) \<Rightarrow> mx < s | _ \<Rightarrow> False)
          then Some (decide BLOCKED SPREAD_TOO_HIGH RS_CAUTION snap cid now)
          else None)"

definition check_news ::
  "string option \<Rightarrow> account_snapshot \<Rightarrow> string \<Rightarrow> instant \<Rightarrow> risk_decision option" where
  "check_news news snap cid now =
     (case news of
        None \<Rightarrow> None
      | Some n \<Rightarrow>
          if n \<in> news_window_states
          then Some (decide BLOCKED (NEWS_EVENT_WINDOW n) RS_CAUTION snap cid now)
          else if n \<in> news_unavailable_states
          then Some (decide BLOCKED (NEWS_DATA_UNAVAILABLE n) RS_CAUTION snap cid now)
          else None)"

definition total_daily_pnl :: "account_snapshot \<Rightarrow> dec" where
  "total_daily_pnl snap = dadd (as_daily_realized_pnl_usd snap) (as_daily_floating_pnl_usd snap)"

definition drawdown :: "account_snapshot \<Rightarrow> dec" where
  "drawdown snap = dsub (as_equity_peak_usd snap) (as_current_equity_usd snap)"

definition check_daily_loss ::
  "risk_config \<Rightarrow> account_snapshot \<Rightarrow> string \<Rightarrow> instant \<Rightarrow> risk_decision option" where
  "check_daily_loss c snap cid now =
     (case rk_daily_loss_limit_usd c of
        Some l \<Rightarrow>
          if total_daily_pnl snap \<le> dneg l
          then Some ((decide BLOCKED DAILY_LOSS_LIMIT_HIT RS_STOPPED snap cid now)
                       \<lparr>rd_daily_pnl_at_decision := Some (total_daily_pnl snap)\<rparr>)
          else None
      | None \<Rightarrow> None)"

definition check_drawdown ::
  "risk_config \<Rightarrow> account_snapshot \<Rightarrow> string \<Rightarrow> instant \<Rightarrow> risk_decision option" where
  "check_drawdown c snap cid now =
     (case rk_max_drawdown_usd c of
        None \<Rightarrow> None
      | Some mx \<Rightarrow>
          if mx \<le> drawdown snap
          then Some ((decide BLOCKED MAX_DRAWDOWN_HIT RS_STOPPED snap cid now)
                       \<lparr>rd_drawdown_at_decision := Some (drawdown snap)\<rparr>)
          else (case rk_caution_drawdown_pct c of
                  Some p \<Rightarrow>
                    if dmul mx p \<le> drawdown snap
                    then Some ((decide BLOCKED CAUTION_DRAWDOWN_REACHED RS_CAUTION snap cid now)
                                 \<lparr>rd_drawdown_at_decision := Some (drawdown snap)\<rparr>)
                    else None
                | None \<Rightarrow> None))"

definition profit_lock_of :: "risk_config \<Rightarrow> account_snapshot \<Rightarrow> profit_lock_status option" where
  "profit_lock_of c snap =
     (case (as_session_open_equity_usd snap, as_session_peak_profit_usd snap) of
        (Some open_equity, Some peak) \<Rightarrow>
          let profit = dsub (as_current_equity_usd snap) open_equity;
              active = rk_profit_lock_threshold_usd c \<le> peak;
              floor = (if active then dmul peak (rk_profit_lock_floor_pct c) else 0)
          in Some \<lparr>pl_is_active = active, pl_session_profit_usd = profit, pl_peak_profit_usd = peak,
                   pl_protected_floor_usd = floor, pl_is_breached = (active \<and> profit < floor)\<rparr>
      | _ \<Rightarrow> None)"

definition check_profit_lock ::
  "risk_config \<Rightarrow> account_snapshot \<Rightarrow> string \<Rightarrow> instant \<Rightarrow> risk_decision option" where
  "check_profit_lock c snap cid now =
     (case profit_lock_of c snap of
        Some pl \<Rightarrow>
          if pl_is_breached pl
          then Some ((decide BLOCKED PROFIT_LOCK_FLOOR_BREACHED RS_PROTECTED snap cid now)
                       \<lparr>rd_daily_pnl_at_decision := Some (total_daily_pnl snap),
                        rd_profit_lock_status := Some pl\<rparr>)
          else None
      | None \<Rightarrow> None)"

definition check_positions ::
  "risk_config \<Rightarrow> account_snapshot \<Rightarrow> string \<Rightarrow> instant \<Rightarrow> risk_decision option" where
  "check_positions c snap cid now =
     (case rk_max_open_positions c of
        Some mx \<Rightarrow>
          if mx \<le> as_open_position_count snap
          then Some ((decide BLOCKED MAX_POSITIONS_REACHED RS_CAUTION snap cid now)
                       \<lparr>rd_profit_lock_status := profit_lock_of c snap\<rparr>)
          else None
      | None \<Rightarrow> None)"

text \<open>
  Step 9.  The candidate is the pair of its entry reference and suggested stop, which \<open>getattr\<close>
  reads with default \<open>None\<close>.
\<close>

definition authorize_lots ::
  "risk_engine \<Rightarrow> account_snapshot \<Rightarrow> (dec option \<times> dec option) option \<Rightarrow> dec option res" where
  "authorize_lots e snap candidate =
     bind_res (case (candidate, get_sizing_policy e) of
                 (Some (entry, stop), Some p) \<Rightarrow> p (as_current_equity_usd snap) entry stop
               | _ \<Rightarrow> Inr None)
       (\<lambda>lots. Inr (if lots = None then rk_default_position_size_lots (re_config e) else lots))"

definition check_lots ::
  "risk_config \<Rightarrow> dec option \<Rightarrow> account_snapshot \<Rightarrow> string \<Rightarrow> instant \<Rightarrow> risk_decision option" where
  "check_lots c lots snap cid now =
     (case rk_max_open_lots c of
        Some mx \<Rightarrow>
          if mx < dadd (dadd (as_open_lot_exposure snap) (as_in_flight_lot_exposure snap)) (or_default lots 0)
          then Some ((decide BLOCKED MAX_LOTS_EXCEEDED RS_CAUTION snap cid now)
                       \<lparr>rd_profit_lock_status := profit_lock_of c snap\<rparr>)
          else None
      | None \<Rightarrow> None)"

definition evaluate_risk ::
  "risk_engine \<Rightarrow> instant \<Rightarrow> string \<Rightarrow> account_snapshot \<Rightarrow> (dec option \<times> dec option) option
     \<Rightarrow> market_condition option \<Rightarrow> string option \<Rightarrow> string option \<Rightarrow> risk_decision res" where
  "evaluate_risk e now fresh snap candidate market news given =
     (let c = re_config e; cid = choose_correlation_id given fresh
      in case first_some
           [check_emergency c snap cid now, check_configured c snap cid now,
            check_market c market snap cid now, check_news news snap cid now,
            check_daily_loss c snap cid now, check_drawdown c snap cid now,
            check_profit_lock c snap cid now, check_positions c snap cid now] of
           Some d \<Rightarrow> Inr d
         | None \<Rightarrow>
             bind_res (authorize_lots e snap candidate) (\<lambda>lots.
               Inr (case check_lots c lots snap cid now of
                      Some d \<Rightarrow> d
                    | None \<Rightarrow>
                        (decide APPROVED ALL_CHECKS_PASSED RS_NORMAL snap cid now)
                          \<lparr>rd_drawdown_at_decision := Some (drawdown snap),
                           rd_daily_pnl_at_decision := Some (total_daily_pnl snap),
                           rd_profit_lock_status := profit_lock_of c snap,
                           rd_authorized_lot_size := lots\<rparr>)))"

subsection \<open>Lemmas\<close>

lemmas check_defs = check_emergency_def check_configured_def check_market_def check_news_def
  check_daily_loss_def check_drawdown_def check_profit_lock_def check_positions_def check_lots_def

lemma risk_is_fully_configured_iff: "risk_is_fully_configured c \<longleftrightarrow> missing_parameters c = []"
  by (auto simp: risk_is_fully_configured_def missing_parameters_def)

text \<open>Every blocking check answers with a decision other than approval, in a non-normal state.\<close>

lemma check_blocks:
  "check_emergency c snap cid now = Some d \<Longrightarrow> rd_decision d = EMERGENCY \<and> rd_risk_state d = RS_EMERGENCY_STOP"
  "check_configured c snap cid now = Some d \<Longrightarrow> rd_decision d = DEC_NOT_CONFIGURED \<and> rd_risk_state d = RS_NOT_CONFIGURED"
  "check_market c market snap cid now = Some d \<Longrightarrow> rd_decision d = BLOCKED \<and> rd_risk_state d = RS_CAUTION"
  "check_news news snap cid now = Some d \<Longrightarrow> rd_decision d = BLOCKED \<and> rd_risk_state d = RS_CAUTION"
  "check_daily_loss c snap cid now = Some d \<Longrightarrow> rd_decision d = BLOCKED \<and> rd_risk_state d = RS_STOPPED"
  "check_drawdown c snap cid now = Some d \<Longrightarrow> rd_decision d = BLOCKED \<and> (rd_risk_state d = RS_STOPPED \<or> rd_risk_state d = RS_CAUTION)"
  "check_profit_lock c snap cid now = Some d \<Longrightarrow> rd_decision d = BLOCKED \<and> rd_risk_state d = RS_PROTECTED"
  "check_positions c snap cid now = Some d \<Longrightarrow> rd_decision d = BLOCKED \<and> rd_risk_state d = RS_CAUTION"
  "check_lots c lots snap cid now = Some d \<Longrightarrow> rd_decision d = BLOCKED \<and> rd_risk_state d = RS_CAUTION"
  by (auto simp: check_defs decide_def split: option.splits if_splits)

lemma check_emergency_None: "check_emergency c snap cid now = None \<longleftrightarrow> \<not> rk_emergency_stop_active c"
  by (simp add: check_emergency_def)

lemma check_configured_None: "check_configured c snap cid now = None \<longleftrightarrow> risk_is_fully_configured c"
  by (simp add: check_configured_def)

lemma check_market_None:
  "check_market c market snap cid now = None \<longleftrightarrow>
     (\<forall>m. market = Some m \<longrightarrow> mc_market_data_status m \<in> ready_statuses
        \<and> (\<forall>a. market_staleness_ms now m = Some a \<longrightarrow> a \<le> rk_max_tick_staleness_ms c)
        \<and> (\<forall>mx s. rk_max_spread_usd c = Some mx \<longrightarrow> effective_spread m = Some s \<longrightarrow> s \<le> mx))"
proof (cases market)
  case (Some m)
  show ?thesis
    unfolding Some check_market_def
    by (cases "market_staleness_ms now m"; cases "rk_max_spread_usd c"; cases "effective_spread m")
       (simp_all add: not_less)
qed (simp add: check_market_def)

lemma check_news_None:
  "check_news news snap cid now = None \<longleftrightarrow>
     (\<forall>n. news = Some n \<longrightarrow> n \<notin> news_window_states \<and> n \<notin> news_unavailable_states)"
  by (cases news) (simp_all add: check_news_def)

lemma check_daily_loss_None:
  "check_daily_loss c snap cid now = None \<longleftrightarrow>
     (\<forall>l. rk_daily_loss_limit_usd c = Some l \<longrightarrow> dneg l < total_daily_pnl snap)"
  by (auto simp: check_daily_loss_def not_le split: option.splits)

lemma check_drawdown_None:
  "check_drawdown c snap cid now = None \<longleftrightarrow>
     (\<forall>mx. rk_max_drawdown_usd c = Some mx \<longrightarrow> drawdown snap < mx
        \<and> (\<forall>p. rk_caution_drawdown_pct c = Some p \<longrightarrow> drawdown snap < dmul mx p))"
  by (auto simp: check_drawdown_def not_le split: option.splits)

lemma check_profit_lock_None:
  "check_profit_lock c snap cid now = None \<longleftrightarrow>
     (\<forall>pl. profit_lock_of c snap = Some pl \<longrightarrow> \<not> pl_is_breached pl)"
  by (auto simp: check_profit_lock_def split: option.splits)

lemma check_positions_None:
  "check_positions c snap cid now = None \<longleftrightarrow>
     (\<forall>mx. rk_max_open_positions c = Some mx \<longrightarrow> as_open_position_count snap < mx)"
  by (auto simp: check_positions_def not_le split: option.splits)

lemma check_lots_None:
  "check_lots c lots snap cid now = None \<longleftrightarrow>
     (\<forall>mx. rk_max_open_lots c = Some mx \<longrightarrow>
        dadd (dadd (as_open_lot_exposure snap) (as_in_flight_lot_exposure snap)) (or_default lots 0) \<le> mx)"
  by (auto simp: check_lots_def not_less split: option.splits)

lemmas check_None = check_emergency_None check_configured_None check_market_None check_news_None
  check_daily_loss_None check_drawdown_None check_profit_lock_None check_positions_None check_lots_None

text \<open>The three ways an evaluation returns.\<close>

lemma evaluate_risk_cases:
  assumes "evaluate_risk e now fresh snap candidate market news given = Inr d"
  obtains (early) "first_some
       [check_emergency (re_config e) snap (choose_correlation_id given fresh) now,
        check_configured (re_config e) snap (choose_correlation_id given fresh) now,
        check_market (re_config e) market snap (choose_correlation_id given fresh) now,
        check_news news snap (choose_correlation_id given fresh) now,
        check_daily_loss (re_config e) snap (choose_correlation_id given fresh) now,
        check_drawdown (re_config e) snap (choose_correlation_id given fresh) now,
        check_profit_lock (re_config e) snap (choose_correlation_id given fresh) now,
        check_positions (re_config e) snap (choose_correlation_id given fresh) now] = Some d"
  | (lots) l where "authorize_lots e snap candidate = Inr l"
      "check_lots (re_config e) l snap (choose_correlation_id given fresh) now = Some d"
      "check_emergency (re_config e) snap (choose_correlation_id given fresh) now = None"
      "check_configured (re_config e) snap (choose_correlation_id given fresh) now = None"
  | (approved) l where "authorize_lots e snap candidate = Inr l"
      "check_lots (re_config e) l snap (choose_correlation_id given fresh) now = None"
      "check_emergency (re_config e) snap (choose_correlation_id given fresh) now = None"
      "check_configured (re_config e) snap (choose_correlation_id given fresh) now = None"
      "check_market (re_config e) market snap (choose_correlation_id given fresh) now = None"
      "check_news news snap (choose_correlation_id given fresh) now = None"
      "check_daily_loss (re_config e) snap (choose_correlation_id given fresh) now = None"
      "check_drawdown (re_config e) snap (choose_correlation_id given fresh) now = None"
      "check_profit_lock (re_config e) snap (choose_correlation_id given fresh) now = None"
      "check_positions (re_config e) snap (choose_correlation_id given fresh) now = None"
      "rd_decision d = APPROVED" "rd_risk_state d = RS_NORMAL" "rd_authorized_lot_size d = l"
      "rd_profit_lock_status d = profit_lock_of (re_config e) snap"
  using assms unfolding evaluate_risk_def Let_def
  by (auto simp: decide_def elim!: bind_res_InrE split: option.splits)

lemma early_not_approved:
  assumes "first_some
       [check_emergency c snap cid now, check_configured c snap cid now,
        check_market c market snap cid now, check_news news snap cid now,
        check_daily_loss c snap cid now, check_drawdown c snap cid now,
        check_profit_lock c snap cid now, check_positions c snap cid now] = Some d"
  shows "rd_decision d \<noteq> APPROVED" "rd_risk_state d \<noteq> RS_NORMAL"
  using first_some_mem [OF assms] by (auto dest!: check_blocks [OF sym])

text \<open>An approval means that no check blocked.\<close>

lemma approved_checks:
  assumes "evaluate_risk e now fresh snap candidate market news given = Inr d" "rd_trading_allowed d"
  obtains cid l where "authorize_lots e snap candidate = Inr l" "rd_authorized_lot_size d = l"
    "check_lots (re_config e) l snap cid now = None"
    "check_emergency (re_config e) snap cid now = None"
    "check_configured (re_config e) snap cid now = None"
    "check_market (re_config e) market snap cid now = None"
    "check_news news snap cid now = None"
    "check_daily_loss (re_config e) snap cid now = None"
    "check_drawdown (re_config e) snap cid now = None"
    "check_profit_lock (re_config e) snap cid now = None"
    "check_positions (re_config e) snap cid now = None"
  using assms(1)
proof (cases rule: evaluate_risk_cases)
  case early
  with assms(2) early_not_approved(1) show ?thesis by (auto simp: rd_trading_allowed_def)
next
  case (lots l)
  with assms(2) check_blocks(9) show ?thesis by (auto simp: rd_trading_allowed_def)
next
  case (approved l)
  with that show ?thesis by metis
qed

text \<open>
  Lots authorised by a policy that meets the sizing contract are positive; a budgeted policy keeps
  the loss at the stop within the budget unless the fallback volume is used.
\<close>

context sizing_contract begin

lemma authorized_positive:
  assumes "get_sizing_policy e = Some lot_size" "rk_default_position_size_lots (re_config e) = None"
    "authorize_lots e snap candidate = Inr (Some l)"
  shows "0 < l"
  using assms positive
  by (auto simp: authorize_lots_def elim!: bind_res_InrE split: option.splits if_splits)

end

context budgeted_sizing begin

text \<open>What is authorised is the sized volume, within the budget; the configured default lot size is
  used exactly where there is no candidate or sizing refuses.\<close>

lemma authorized_cases:
  assumes "get_sizing_policy e = Some lot_size" "authorize_lots e snap candidate = Inr lots"
  shows "case candidate of
      None \<Rightarrow> lots = rk_default_position_size_lots (re_config e)
    | Some (entry, stop) \<Rightarrow>
        (case lot_size (as_current_equity_usd snap) entry stop of
           Inr (Some l) \<Rightarrow> lots = Some l \<and> 0 < l \<and> (\<exists>en st. entry = Some en \<and> stop = Some st
             \<and> l * dmul (dabs (dsub en st)) 100
                 \<le> dmul (as_current_equity_usd snap) risk_pct * (1 + 1 / 10 ^ 27))
         | Inr None \<Rightarrow> lots = rk_default_position_size_lots (re_config e)
         | Inl _ \<Rightarrow> False)"
proof (cases candidate)
  case (Some c)
  obtain entry stop where c: "c = (entry, stop)" by (cases c)
  from assms Some c obtain v where v: "lot_size (as_current_equity_usd snap) entry stop = Inr v"
    "lots = (if v = None then rk_default_position_size_lots (re_config e) else v)"
    by (auto simp: authorize_lots_def elim!: bind_res_InrE)
  show ?thesis
  proof (cases v)
    case s: (Some l)
    from needs_stop [OF v(1) [unfolded s]] obtain en st where "entry = Some en" "stop = Some st" by blast
    with v s positive [OF v(1) [unfolded s]] within_budget Some c show ?thesis by simp
  qed (use Some c v in simp)
qed (use assms in \<open>auto simp: authorize_lots_def elim!: bind_res_InrE\<close>)

end

lemma get_sizing_policy_pct:
  "re_sizing_policy e = None \<Longrightarrow> rk_risk_per_trade_pct (re_config e) = Some r
     \<Longrightarrow> get_sizing_policy e = Some (percentage_lot_size (percentage_policy_init r))"
  by (simp add: get_sizing_policy_def)

subsection \<open>A worked example\<close>

definition demo_engine :: risk_engine where
  "demo_engine =
     \<lparr>re_config = risk_config_default
        \<lparr>rk_daily_loss_limit_usd := Some 100, rk_max_drawdown_usd := Some 200,
         rk_max_open_positions := Some 3, rk_max_open_lots := Some 1, rk_max_spread_usd := Some 1,
         rk_caution_drawdown_pct := Some (8 / 10), rk_risk_per_trade_pct := Some (1 / 100)\<rparr>,
      re_sizing_policy = None\<rparr>"

definition demo_snapshot :: account_snapshot where
  "demo_snapshot =
     \<lparr>as_account_id = ''acc'', as_current_balance_usd = 10000, as_current_equity_usd = 10000,
      as_equity_peak_usd = 10050, as_daily_realized_pnl_usd = - 10, as_daily_floating_pnl_usd = 5,
      as_open_position_count = 1, as_snapshot_at = 0, as_session_open_equity_usd = Some 9990,
      as_session_peak_profit_usd = Some 20, as_open_lot_exposure = 1 / 10,
      as_in_flight_lot_exposure = 0\<rparr>"

definition demo_market :: market_condition where
  "demo_market =
     \<lparr>mc_symbol = ''XAUUSD'', mc_bid = Some 2000, mc_ask = Some (2000 + 1 / 2),
      mc_tick_timestamp = None, mc_tick_age_ms = Some 500, mc_spread = None,
      mc_market_data_status = ''READY''\<rparr>"

lemma demo_approved:
  "\<exists>d. evaluate_risk demo_engine 0 ''id'' demo_snapshot (Some (Some 2000, Some 1990))
         (Some demo_market) (Some ''CLEAR'') None = Inr d
     \<and> rd_trading_allowed d \<and> rd_authorized_lot_size d = Some (1 / 10)"
proof -
  let ?c = "re_config demo_engine"
  have cfg: "rk_daily_loss_limit_usd ?c = Some 100" "rk_max_drawdown_usd ?c = Some 200"
    "rk_max_open_positions ?c = Some 3" "rk_max_open_lots ?c = Some 1" "rk_max_spread_usd ?c = Some 1"
    "rk_caution_drawdown_pct ?c = Some (8 / 10)" "rk_risk_per_trade_pct ?c = Some (1 / 100)"
    "rk_default_position_size_lots ?c = None" "\<not> rk_emergency_stop_active ?c"
    "rk_max_tick_staleness_ms ?c = 2000" "rk_profit_lock_threshold_usd ?c = 10"
    "rk_profit_lock_floor_pct ?c = 3 / 10"
    by (simp_all add: demo_engine_def risk_config_default_def)
  have lots: "authorize_lots demo_engine demo_snapshot (Some (Some 2000, Some 1990)) = Inr (Some (1 / 10))"
    using demo_sizing cfg(7,8) get_sizing_policy_pct [of demo_engine "1 / 100"]
    by (simp add: authorize_lots_def demo_snapshot_def demo_engine_def)
  have m: "check_market ?c (Some demo_market) demo_snapshot cid 0 = None" for cid
    by (simp add: check_market_None cfg demo_market_def ready_statuses_def market_staleness_ms_def
        effective_spread_def dec_ops dec_simps)
  have n: "check_news (Some ''CLEAR'') demo_snapshot cid 0 = None" for cid
    by (simp add: check_news_None news_window_states_def news_unavailable_states_def)
  have rest: "check_emergency ?c demo_snapshot cid 0 = None" "check_configured ?c demo_snapshot cid 0 = None"
    "check_daily_loss ?c demo_snapshot cid 0 = None" "check_drawdown ?c demo_snapshot cid 0 = None"
    "check_profit_lock ?c demo_snapshot cid 0 = None" "check_positions ?c demo_snapshot cid 0 = None"
    "check_lots ?c (Some (1 / 10)) demo_snapshot cid 0 = None" for cid
    by (simp_all add: check_emergency_None check_configured_None check_daily_loss_None
        check_drawdown_def check_profit_lock_None check_positions_None check_lots_None cfg
        risk_is_fully_configured_def total_daily_pnl_def drawdown_def profit_lock_of_def
        demo_snapshot_def or_default_def Let_def dec_ops dec_simps)
  show ?thesis
    by (simp add: evaluate_risk_def rest m n lots Let_def decide_def rd_trading_allowed_def)
qed

subsection \<open>Properties\<close>

text \<open>
  C1: an approval respects every configured limit.  When the engine permits a trade, the emergency
  stop is off and the configuration complete; given market data is ready, no older than the limit
  and within the spread limit; given news is in none of the blocking states; the day's loss, the
  drawdown (and its caution fraction), the profit lock and the number of positions are within
  their limits; and the open, in-flight and authorised lots together do not exceed the cap.
\<close>

theorem approval_respects_limits:
  assumes "evaluate_risk e now fresh snap candidate market news given = Inr d" "rd_trading_allowed d"
  shows "\<not> rk_emergency_stop_active (re_config e) \<and> risk_is_fully_configured (re_config e)
    \<and> (\<forall>m. market = Some m \<longrightarrow> mc_market_data_status m \<in> ready_statuses
         \<and> (\<forall>a. market_staleness_ms now m = Some a \<longrightarrow> a \<le> rk_max_tick_staleness_ms (re_config e))
         \<and> (\<forall>mx s. rk_max_spread_usd (re_config e) = Some mx \<longrightarrow> effective_spread m = Some s \<longrightarrow> s \<le> mx))
    \<and> (\<forall>n. news = Some n \<longrightarrow> n \<notin> news_window_states \<and> n \<notin> news_unavailable_states)
    \<and> (\<exists>l. rk_daily_loss_limit_usd (re_config e) = Some l \<and> dneg l < total_daily_pnl snap)
    \<and> (\<exists>mx. rk_max_drawdown_usd (re_config e) = Some mx \<and> drawdown snap < mx
         \<and> (\<forall>p. rk_caution_drawdown_pct (re_config e) = Some p \<longrightarrow> drawdown snap < dmul mx p))
    \<and> (\<forall>pl. profit_lock_of (re_config e) snap = Some pl \<longrightarrow> \<not> pl_is_breached pl)
    \<and> (\<exists>mx. rk_max_open_positions (re_config e) = Some mx \<and> as_open_position_count snap < mx)
    \<and> (\<forall>mx. rk_max_open_lots (re_config e) = Some mx \<longrightarrow>
         dadd (dadd (as_open_lot_exposure snap) (as_in_flight_lot_exposure snap))
           (or_default (rd_authorized_lot_size d) 0) \<le> mx)"
proof -
  from approved_checks [OF assms] obtain cid l where approved: "rd_authorized_lot_size d = l"
    "check_lots (re_config e) l snap cid now = None"
    "check_emergency (re_config e) snap cid now = None"
    "check_configured (re_config e) snap cid now = None"
    "check_market (re_config e) market snap cid now = None"
    "check_news news snap cid now = None"
    "check_daily_loss (re_config e) snap cid now = None"
    "check_drawdown (re_config e) snap cid now = None"
    "check_profit_lock (re_config e) snap cid now = None"
    "check_positions (re_config e) snap cid now = None" by metis
  then have cfg: "risk_is_fully_configured (re_config e)" by (simp add: check_configured_None)
  then obtain dl mx mp where "rk_daily_loss_limit_usd (re_config e) = Some dl"
    "rk_max_drawdown_usd (re_config e) = Some mx" "rk_max_open_positions (re_config e) = Some mp"
    by (auto simp: risk_is_fully_configured_def)
  with cfg approved show ?thesis unfolding check_None by simp
qed

theorem approval_respects_limits_witness:
  "\<exists>d. evaluate_risk demo_engine 0 ''id'' demo_snapshot (Some (Some 2000, Some 1990))
         (Some demo_market) (Some ''CLEAR'') None = Inr d
     \<and> rd_trading_allowed d
     \<and> (\<exists>mx. rk_max_open_positions (re_config demo_engine) = Some mx
          \<and> as_open_position_count demo_snapshot < mx)
     \<and> (\<exists>mx. rk_max_drawdown_usd (re_config demo_engine) = Some mx \<and> drawdown demo_snapshot < mx)"
proof -
  obtain d where d: "evaluate_risk demo_engine 0 ''id'' demo_snapshot (Some (Some 2000, Some 1990))
         (Some demo_market) (Some ''CLEAR'') None = Inr d" "rd_trading_allowed d"
    using demo_approved by blast
  note limits = approval_respects_limits [OF d]
  show ?thesis
  proof (intro exI conjI)
    show "rd_trading_allowed d" by (rule d(2))
    from limits have "\<exists>mx. rk_max_open_positions (re_config demo_engine) = Some mx
      \<and> as_open_position_count demo_snapshot < mx" by (elim conjE)
    then show "rk_max_open_positions (re_config demo_engine) = Some 3"
      "as_open_position_count demo_snapshot < 3"
      by (simp_all add: demo_engine_def)
    from limits have "\<exists>mx. rk_max_drawdown_usd (re_config demo_engine) = Some mx \<and> drawdown demo_snapshot < mx"
      by (elim conjE exE) (intro exI conjI)
    then show "rk_max_drawdown_usd (re_config demo_engine) = Some 200" "drawdown demo_snapshot < 200"
      by (simp_all add: demo_engine_def)
  qed (rule d(1))
qed

text \<open>
  decision and risk state always agree.  Exactly the approvals carry a state in which trading
  is allowed; an active emergency stop always yields EMERGENCY, whatever else holds; otherwise an
  incomplete configuration yields NOT_CONFIGURED with the names of the missing parameters;
  everything else is approved or blocked.
\<close>

theorem decision_state_agree:
  assumes "evaluate_risk e now fresh snap candidate market news given = Inr d"
  shows "(rd_trading_allowed d \<longleftrightarrow> rd_risk_state d \<in> trading_allowed_states)
    \<and> (rd_decision d = EMERGENCY \<longleftrightarrow> rk_emergency_stop_active (re_config e))
    \<and> (rd_decision d = EMERGENCY \<longleftrightarrow> rd_risk_state d = RS_EMERGENCY_STOP)
    \<and> (rd_decision d = DEC_NOT_CONFIGURED \<longleftrightarrow>
         \<not> rk_emergency_stop_active (re_config e) \<and> missing_parameters (re_config e) \<noteq> [])
    \<and> (rd_decision d = DEC_NOT_CONFIGURED \<longrightarrow>
         rd_reason_code d = MISSING_PARAMETERS (missing_parameters (re_config e)))"
  using assms
proof (cases rule: evaluate_risk_cases)
  case early
  show ?thesis
  proof (cases "rk_emergency_stop_active (re_config e)")
    case True
    with early show ?thesis
      by (auto simp: check_emergency_def decide_def rd_trading_allowed_def trading_allowed_states_def)
  next
    case False
    note em = this
    show ?thesis
    proof (cases "risk_is_fully_configured (re_config e)")
      case False
      with early em show ?thesis
        by (auto simp: check_emergency_def check_configured_def decide_def rd_trading_allowed_def
            trading_allowed_states_def risk_is_fully_configured_iff)
    next
      case True
      let ?cid = "choose_correlation_id given fresh"
      from early em True have "first_some
         [check_market (re_config e) market snap ?cid now, check_news news snap ?cid now,
          check_daily_loss (re_config e) snap ?cid now, check_drawdown (re_config e) snap ?cid now,
          check_profit_lock (re_config e) snap ?cid now, check_positions (re_config e) snap ?cid now]
         = Some d"
        by (simp add: check_emergency_def check_configured_def)
      from first_some_mem [OF this] have "rd_decision d = BLOCKED"
        "rd_risk_state d \<noteq> RS_EMERGENCY_STOP" "rd_risk_state d \<noteq> RS_NORMAL"
        by (auto dest!: check_blocks [OF sym])
      with em True show ?thesis
        by (auto simp: rd_trading_allowed_def trading_allowed_states_def risk_is_fully_configured_iff)
    qed
  qed
next
  case (lots l)
  with check_blocks(9) [OF lots(2)] show ?thesis
    by (auto simp: rd_trading_allowed_def trading_allowed_states_def check_emergency_None
        check_configured_None risk_is_fully_configured_iff)
next
  case (approved l)
  then show ?thesis
    by (auto simp: rd_trading_allowed_def trading_allowed_states_def check_emergency_None
        check_configured_None risk_is_fully_configured_iff)
qed
theorem decision_state_agree_witness:
  "\<exists>d. evaluate_risk demo_engine 0 ''id'' demo_snapshot (Some (Some 2000, Some 1990))
         (Some demo_market) (Some ''CLEAR'') None = Inr d
     \<and> rd_trading_allowed d \<and> rd_risk_state d \<in> trading_allowed_states"
proof -
  obtain d where d: "evaluate_risk demo_engine 0 ''id'' demo_snapshot (Some (Some 2000, Some 1990))
         (Some demo_market) (Some ''CLEAR'') None = Inr d" "rd_trading_allowed d"
    using demo_approved by blast
  from decision_state_agree [OF d(1)] d show ?thesis by blast
qed

text \<open>
  C3: authorised volumes come from the risk budget.  For an engine configured with a risk per trade,
  an approval for a signal that the percentage sizing accepts authorises exactly the sized volume: it
  is positive and its loss at the suggested stop stays within equity times the risk per trade, up to
  \<open>10 ^ -27\<close>.  Where sizing refuses the signal (no stop, no equity, a volume below the minimum lot) or
  there is no signal, the approval carries the configured default lot size, bounded by no budget, and
  no volume when there is none.
\<close>

theorem approved_volume_within_budget:
  assumes "evaluate_risk e now fresh snap candidate market news given = Inr d" "rd_trading_allowed d"
    and "re_sizing_policy e = None" "rk_risk_per_trade_pct (re_config e) = Some r"
  shows "case candidate of
      None \<Rightarrow> rd_authorized_lot_size d = rk_default_position_size_lots (re_config e)
    | Some (entry, stop) \<Rightarrow>
        (case percentage_lot_size (percentage_policy_init r) (as_current_equity_usd snap) entry stop of
           Inr (Some l) \<Rightarrow> rd_authorized_lot_size d = Some l \<and> 0 < l
             \<and> (\<exists>en st. entry = Some en \<and> stop = Some st
               \<and> l * dmul (dabs (dsub en st)) 100
                   \<le> dmul (as_current_equity_usd snap) r * (1 + 1 / 10 ^ 27))
         | Inr None \<Rightarrow> rd_authorized_lot_size d = rk_default_position_size_lots (re_config e)
         | Inl _ \<Rightarrow> False)"
proof -
  from approved_checks [OF assms(1,2)] obtain l
    where l: "authorize_lots e snap candidate = Inr l" "rd_authorized_lot_size d = l" by metis
  from pct.authorized_cases [OF get_sizing_policy_pct [OF assms(3,4)] l(1)] show ?thesis
    unfolding l(2) .
qed

theorem approved_volume_within_budget_witness:
  "\<exists>d l. evaluate_risk demo_engine 0 ''id'' demo_snapshot (Some (Some 2000, Some 1990))
         (Some demo_market) (Some ''CLEAR'') None = Inr d
     \<and> rd_authorized_lot_size d = Some l \<and> l = 1 / 10
     \<and> l * dmul (dabs (dsub 2000 1990)) 100
             \<le> dmul (as_current_equity_usd demo_snapshot) (1 / 100) * (1 + 1 / 10 ^ 27)"
proof -
  obtain d where d: "evaluate_risk demo_engine 0 ''id'' demo_snapshot (Some (Some 2000, Some 1990))
         (Some demo_market) (Some ''CLEAR'') None = Inr d" "rd_trading_allowed d"
    "rd_authorized_lot_size d = Some (1 / 10)"
    using demo_approved by blast
  have "re_sizing_policy demo_engine = None" "rk_risk_per_trade_pct (re_config demo_engine) = Some (1 / 100)"
    by (simp_all add: demo_engine_def risk_config_default_def)
  note b = approved_volume_within_budget [OF d(1,2) this]
  have "as_current_equity_usd demo_snapshot = 10000" by (simp add: demo_snapshot_def)
  with b d demo_sizing show ?thesis by (intro exI [of _ d] exI [of _ "1 / 10"]) simp
qed

text \<open>
  what the engine is not told it does not block.  With no market condition, and for any news
  string outside the six it compares with, the result is the one of a healthy market and CLEAR
  news: the BLACKOUT and UPCOMING of the news service pass, and so does missing market data.
\<close>

theorem risk_engine_open_on_unknown:
  "evaluate_risk e now fresh snap candidate market (Some ''BLACKOUT'') given
     = evaluate_risk e now fresh snap candidate market (Some ''CLEAR'') given
   \<and> evaluate_risk e now fresh snap candidate market None given
     = evaluate_risk e now fresh snap candidate market (Some ''CLEAR'') given
   \<and> evaluate_risk e now fresh snap candidate None news given
     = evaluate_risk e now fresh snap candidate
         (Some \<lparr>mc_symbol = ''XAUUSD'', mc_bid = None, mc_ask = None, mc_tick_timestamp = None,
            mc_tick_age_ms = None, mc_spread = None, mc_market_data_status = ''READY''\<rparr>) news given"
proof -
  have "check_news (Some ''BLACKOUT'') snap cid now = None" "check_news (Some ''CLEAR'') snap cid now = None"
    "check_news None snap cid now = None" for cid
    by (simp_all add: check_news_def news_window_states_def news_unavailable_states_def)
  moreover have "check_market (re_config e) None snap cid now = None"
    "check_market (re_config e) (Some \<lparr>mc_symbol = ''XAUUSD'', mc_bid = None, mc_ask = None,
        mc_tick_timestamp = None, mc_tick_age_ms = None, mc_spread = None,
        mc_market_data_status = ''READY''\<rparr>) snap cid now = None" for cid
    by (simp_all add: check_market_def ready_statuses_def market_staleness_ms_def effective_spread_def
        split: option.split)
  ultimately show ?thesis by (simp add: evaluate_risk_def)
qed

end
