(* ===== verification/Backtest.thy ===== *)
theory Backtest
  imports Bar_Builder Brain_Pipeline Risk_Engine
begin

section \<open>Backtest engine (\<open>brain/backtest/engine.py\<close>)\<close>

text \<open>
  One run over a list of ticks: exits, equity tracking, the bar builder, the signal pipeline, the
  risk engine and the simulated fills, then the summary.  The engine keeps its bar builder between
  runs, so a run returns it.  The two readings of the clock for a tick (the pipeline's and the risk
  engine's) and the generated ids are functions of the position of the tick.
\<close>

record backtest_config =
  bc_initial_balance_usd :: dec
  bc_symbol :: string
  bc_point_value :: dec
  bc_contract_size :: dec
  bc_slippage_points :: int
  bc_commission_per_lot_usd :: dec
  bc_brain_config :: brain_config
  bc_risk_config :: risk_config
  bc_timeframe :: string

datatype exit_reason = SL_HIT | TP_HIT | END_OF_DATA

record backtest_trade =
  bt_trade_id :: string
  bt_symbol :: string
  bt_side :: direction
  bt_entry_time :: instant
  bt_entry_price :: dec
  bt_volume_lots :: dec
  bt_stop_loss :: "dec option"
  bt_take_profit :: "dec option"
  bt_exit_time :: "instant option"
  bt_exit_price :: "dec option"
  bt_realized_pnl_usd :: dec
  bt_commission_usd :: dec
  bt_exit_reason :: "exit_reason option"

record backtest_result =
  bk_initial_balance_usd :: dec
  bk_final_balance_usd :: dec
  bk_total_net_pnl_usd :: dec
  bk_total_trades :: nat
  bk_winning_trades :: nat
  bk_losing_trades :: nat
  bk_win_rate_pct :: dec
  bk_profit_factor :: "dec option"
  bk_max_drawdown_usd :: dec
  bk_max_drawdown_pct :: dec
  bk_trades :: "backtest_trade list"
  bk_gross_profit_usd :: dec
  bk_gross_loss_usd :: dec
  bk_expectancy_usd :: dec
  bk_largest_win_usd :: dec
  bk_largest_loss_usd :: dec
  bk_consecutive_wins :: nat
  bk_consecutive_losses :: nat

record backtest_env =
  be_brain_clock :: "nat \<Rightarrow> instant"
  be_risk_clock :: "nat \<Rightarrow> instant"
  be_fresh_id :: "nat \<Rightarrow> string"

record backtest_state =
  bs_tick_index :: nat
  bs_balance :: dec
  bs_peak_equity :: dec
  bs_max_drawdown_usd :: dec
  bs_max_drawdown_pct :: dec
  bs_open_positions :: "backtest_trade list"
  bs_completed_trades :: "backtest_trade list"
  bs_closed_bars :: "bar list"
  bs_bar_builder :: bar_builder

definition backtest_risk_engine :: "backtest_config \<Rightarrow> risk_engine" where
  "backtest_risk_engine c = \<lparr>re_config = bc_risk_config c, re_sizing_policy = None\<rparr>"

definition backtest_start :: "backtest_config \<Rightarrow> bar_builder \<Rightarrow> backtest_state" where
  "backtest_start c b =
     \<lparr>bs_tick_index = 0, bs_balance = bc_initial_balance_usd c,
      bs_peak_equity = bc_initial_balance_usd c, bs_max_drawdown_usd = 0, bs_max_drawdown_pct = 0,
      bs_open_positions = [], bs_completed_trades = [], bs_closed_bars = [], bs_bar_builder = b\<rparr>"

subsection \<open>Exits\<close>

definition price_move :: "direction \<Rightarrow> dec \<Rightarrow> dec \<Rightarrow> dec" where
  "price_move side entry price = (if side = BUY then dsub price entry else dsub entry price)"

definition gross_pnl :: "backtest_config \<Rightarrow> backtest_trade \<Rightarrow> dec \<Rightarrow> dec" where
  "gross_pnl c p price =
     dmul (dmul (price_move (bt_side p) (bt_entry_price p) price) (bc_contract_size c)) (bt_volume_lots p)"

definition close_trade ::
  "backtest_config \<Rightarrow> instant \<Rightarrow> dec \<Rightarrow> exit_reason \<Rightarrow> backtest_trade \<Rightarrow> backtest_trade" where
  "close_trade c tm price reason p =
     p\<lparr>bt_exit_time := Some tm, bt_exit_price := Some price,
       bt_realized_pnl_usd := dsub (gross_pnl c p price) (bt_commission_usd p),
       bt_exit_reason := Some reason\<rparr>"

definition stop_hit :: "tick \<Rightarrow> backtest_trade \<Rightarrow> dec \<Rightarrow> bool" where
  "stop_hit t p sl \<longleftrightarrow> (if bt_side p = BUY then tk_bid t \<le> sl else sl \<le> tk_ask t)"

definition target_hit :: "tick \<Rightarrow> backtest_trade \<Rightarrow> dec \<Rightarrow> bool" where
  "target_hit t p tp \<longleftrightarrow> (if bt_side p = BUY then tp \<le> tk_bid t else tk_ask t \<le> tp)"

definition exit_signal :: "tick \<Rightarrow> backtest_trade \<Rightarrow> (dec \<times> exit_reason) option" where
  "exit_signal t p =
     (if bt_side p = BUY \<or> bt_side p = SELL
      then orelse
             (case bt_stop_loss p of
                Some sl \<Rightarrow> if stop_hit t p sl then Some (sl, SL_HIT) else None | None \<Rightarrow> None)
             (case bt_take_profit p of
                Some tp \<Rightarrow> if target_hit t p tp then Some (tp, TP_HIT) else None | None \<Rightarrow> None)
      else None)"

text \<open>A closed position moves to the completed trades and its net result to the balance.\<close>

definition book_trade :: "backtest_trade \<Rightarrow> backtest_state \<Rightarrow> backtest_state" where
  "book_trade p s =
     s\<lparr>bs_balance := dadd (bs_balance s) (bt_realized_pnl_usd p),
       bs_completed_trades := bs_completed_trades s @ [p]\<rparr>"

definition settle_position ::
  "backtest_config \<Rightarrow> tick \<Rightarrow> backtest_state \<Rightarrow> backtest_trade \<Rightarrow> backtest_state" where
  "settle_position c t s p =
     (case exit_signal t p of
        Some (price, reason) \<Rightarrow> book_trade (close_trade c (tk_tick_time t) price reason p) s
      | None \<Rightarrow> s\<lparr>bs_open_positions := bs_open_positions s @ [p]\<rparr>)"

definition check_exits :: "backtest_config \<Rightarrow> tick \<Rightarrow> backtest_state \<Rightarrow> backtest_state" where
  "check_exits c t s =
     foldl (settle_position c t) (s\<lparr>bs_open_positions := []\<rparr>) (bs_open_positions s)"

subsection \<open>Equity\<close>

definition floating_pnl :: "backtest_config \<Rightarrow> tick \<Rightarrow> backtest_trade list \<Rightarrow> dec" where
  "floating_pnl c t ps =
     foldl (\<lambda>a p. dadd a (gross_pnl c p (if bt_side p = BUY then tk_bid t else tk_ask t))) 0 ps"

definition current_equity :: "backtest_config \<Rightarrow> tick \<Rightarrow> backtest_state \<Rightarrow> dec" where
  "current_equity c t s = dadd (bs_balance s) (floating_pnl c t (bs_open_positions s))"

definition track_equity :: "backtest_config \<Rightarrow> tick \<Rightarrow> backtest_state \<Rightarrow> backtest_state" where
  "track_equity c t s =
     (let eq = current_equity c t s;
          peak = (if bs_peak_equity s < eq then eq else bs_peak_equity s);
          dd = dsub peak eq
      in s\<lparr>bs_peak_equity := peak,
           bs_max_drawdown_usd := (if bs_max_drawdown_usd s < dd then dd else bs_max_drawdown_usd s),
           bs_max_drawdown_pct :=
             (if bs_max_drawdown_usd s < dd \<and> 0 < peak then dmul (ddiv dd peak) 100
              else bs_max_drawdown_pct s)\<rparr>)"

subsection \<open>Entries\<close>

definition backtest_snapshot ::
  "backtest_config \<Rightarrow> tick \<Rightarrow> backtest_state \<Rightarrow> account_snapshot" where
  "backtest_snapshot c t s =
     \<lparr>as_account_id = ''backtest_account'', as_current_balance_usd = bs_balance s,
      as_current_equity_usd = current_equity c t s, as_equity_peak_usd = bs_peak_equity s,
      as_daily_realized_pnl_usd = dsub (bs_balance s) (bc_initial_balance_usd c),
      as_daily_floating_pnl_usd = floating_pnl c t (bs_open_positions s),
      as_open_position_count = int (length (bs_open_positions s)),
      as_snapshot_at = tk_tick_time t, as_session_open_equity_usd = None,
      as_session_peak_profit_usd = None,
      as_open_lot_exposure = dsum (map bt_volume_lots (bs_open_positions s)),
      as_in_flight_lot_exposure = 0\<rparr>"

definition backtest_market :: "tick \<Rightarrow> market_condition" where
  "backtest_market t =
     \<lparr>mc_symbol = tk_symbol t, mc_bid = Some (tk_bid t), mc_ask = Some (tk_ask t),
      mc_tick_timestamp = Some (tk_tick_time t), mc_tick_age_ms = None,
      mc_spread = Some (dsub (tk_ask t) (tk_bid t)), mc_market_data_status = ''READY''\<rparr>"

definition open_trade ::
  "backtest_config \<Rightarrow> string \<Rightarrow> tick \<Rightarrow> candidate_signal \<Rightarrow> dec \<Rightarrow> backtest_trade" where
  "open_trade c tid t sig lots =
     (let slip = dmul (of_int (bc_slippage_points c)) (bc_point_value c);
          buy = cs_direction sig = BUY
      in \<lparr>bt_trade_id = tid, bt_symbol = tk_symbol t, bt_side = (if buy then BUY else SELL),
          bt_entry_time = tk_tick_time t,
          bt_entry_price = (if buy then dadd (tk_ask t) slip else dsub (tk_bid t) slip),
          bt_volume_lots = lots, bt_stop_loss = cs_suggested_stop_loss sig,
          bt_take_profit = cs_suggested_take_profit sig, bt_exit_time = None, bt_exit_price = None,
          bt_realized_pnl_usd = 0,
          bt_commission_usd = dmul (dmul (bc_commission_per_lot_usd c) lots) 2,
          bt_exit_reason = None\<rparr>)"

definition risk_verdict ::
  "backtest_config \<Rightarrow> backtest_env \<Rightarrow> tick \<Rightarrow> candidate_signal \<Rightarrow> backtest_state \<Rightarrow> risk_decision res" where
  "risk_verdict c env t sig s =
     evaluate_risk (backtest_risk_engine c) (be_risk_clock env (bs_tick_index s))
       (be_fresh_id env (bs_tick_index s)) (backtest_snapshot c t s)
       (Some (cs_entry_reference sig, cs_suggested_stop_loss sig)) (Some (backtest_market t))
       (Some ''CLEAR'') None"

definition consider_entry ::
  "backtest_config \<Rightarrow> backtest_env \<Rightarrow> tick \<Rightarrow> candidate_signal \<Rightarrow> backtest_state \<Rightarrow> backtest_state res" where
  "consider_entry c env t sig s =
     (if cs_direction sig = NO_DIRECTION then Inr s
      else bind_res (risk_verdict c env t sig s) (\<lambda>d.
             Inr (case rd_authorized_lot_size d of
                    Some lots \<Rightarrow>
                      if rd_trading_allowed d \<and> lots \<noteq> 0
                      then s\<lparr>bs_open_positions := bs_open_positions s
                               @ [open_trade c (be_fresh_id env (bs_tick_index s)) t sig lots]\<rparr>
                      else s
                  | None \<Rightarrow> s)))"

definition evaluate_bar ::
  "backtest_config \<Rightarrow> backtest_env \<Rightarrow> tick \<Rightarrow> backtest_state \<Rightarrow> backtest_state res" where
  "evaluate_bar c env t s =
     (case process_tick t (bs_bar_builder s) of
        (None, b) \<Rightarrow> Inr (s\<lparr>bs_bar_builder := b\<rparr>)
      | (Some new_bar, b) \<Rightarrow>
          let s' = s\<lparr>bs_bar_builder := b, bs_closed_bars := bs_closed_bars s @ [new_bar]\<rparr>
          in bind_res (process_signal (bc_brain_config c) (be_brain_clock env (bs_tick_index s))
                         (be_fresh_id env (bs_tick_index s)) t (bs_closed_bars s') ''CLEAR'' None)
               (\<lambda>sig. consider_entry c env t sig s'))"

definition backtest_tick ::
  "backtest_config \<Rightarrow> backtest_env \<Rightarrow> tick \<Rightarrow> backtest_state \<Rightarrow> backtest_state res" where
  "backtest_tick c env t s =
     bind_res (evaluate_bar c env t (track_equity c t (check_exits c t s)))
       (\<lambda>s'. Inr (s'\<lparr>bs_tick_index := bs_tick_index s' + 1\<rparr>))"

fun backtest_loop ::
  "backtest_config \<Rightarrow> backtest_env \<Rightarrow> tick list \<Rightarrow> backtest_state \<Rightarrow> backtest_state res" where
  "backtest_loop c env [] s = Inr s"
| "backtest_loop c env (t # ts) s = bind_res (backtest_tick c env t s) (backtest_loop c env ts)"

text \<open>Positions left at the end are closed at the last tick; they stay in the list, unread.\<close>

definition close_remaining :: "backtest_config \<Rightarrow> tick \<Rightarrow> backtest_state \<Rightarrow> backtest_state" where
  "close_remaining c t s =
     foldl (\<lambda>s p. book_trade (close_trade c (tk_tick_time t)
                    (if bt_side p = BUY then tk_bid t else tk_ask t) END_OF_DATA p) s)
       s (bs_open_positions s)"

subsection \<open>Summary\<close>

text \<open>Current and longest streaks: (wins, losses, longest wins, longest losses).\<close>

definition streak_step :: "nat \<times> nat \<times> nat \<times> nat \<Rightarrow> dec \<Rightarrow> nat \<times> nat \<times> nat \<times> nat" where
  "streak_step st pnl =
     (case st of (w, l, mw, ml) \<Rightarrow>
        if 0 < pnl then (w + 1, 0, if mw < w + 1 then w + 1 else mw, ml)
        else if pnl < 0 then (0, l + 1, mw, if ml < l + 1 then l + 1 else ml)
        else (0, 0, mw, ml))"

definition streaks :: "dec list \<Rightarrow> nat \<times> nat" where
  "streaks pnls = (case foldl streak_step (0, 0, 0, 0) pnls of (_, _, mw, ml) \<Rightarrow> (mw, ml))"

definition cents :: "dec \<Rightarrow> dec res" where
  "cents x = dquantize 2 x"

definition summarize :: "backtest_config \<Rightarrow> backtest_state \<Rightarrow> backtest_result res" where
  "summarize c s =
     (let trades = bs_completed_trades s; pnls = map bt_realized_pnl_usd trades;
          n = length trades;
          wins = filter (\<lambda>x. 0 < x) pnls; losses = filter (\<lambda>x. x < 0) pnls;
          win_rate = (if 0 < n then dmul (ddiv (of_nat (length wins)) (of_nat n)) 100 else 0);
          gp = dsum wins; gl = dabs (dsum losses);
          pf = (if 0 < gl then Some (ddiv gp gl) else None);
          net = dsub (bs_balance s) (bc_initial_balance_usd c);
          expect = (if 0 < n then ddiv net (of_nat n) else 0);
          best = (if wins = [] then 0 else Max (set wins));
          worst = (if losses = [] then 0 else Min (set losses))
      in bind_res (cents win_rate) (\<lambda>wr.
         bind_res (case pf of Some f \<Rightarrow> if f = 0 then Inr None else bind_res (cents f) (\<lambda>q. Inr (Some q))
                            | None \<Rightarrow> Inr None) (\<lambda>pfq.
         bind_res (cents (bs_max_drawdown_usd s)) (\<lambda>ddu.
         bind_res (cents (bs_max_drawdown_pct s)) (\<lambda>ddp.
         bind_res (cents gp) (\<lambda>gpq.
         bind_res (cents gl) (\<lambda>glq.
         bind_res (cents expect) (\<lambda>ex.
         bind_res (cents best) (\<lambda>lw.
         bind_res (cents worst) (\<lambda>ll.
         Inr \<lparr>bk_initial_balance_usd = bc_initial_balance_usd c, bk_final_balance_usd = bs_balance s,
              bk_total_net_pnl_usd = net, bk_total_trades = n, bk_winning_trades = length wins,
              bk_losing_trades = length losses, bk_win_rate_pct = wr, bk_profit_factor = pfq,
              bk_max_drawdown_usd = ddu, bk_max_drawdown_pct = ddp, bk_trades = trades,
              bk_gross_profit_usd = gpq, bk_gross_loss_usd = glq, bk_expectancy_usd = ex,
              bk_largest_win_usd = lw, bk_largest_loss_usd = ll,
              bk_consecutive_wins = fst (streaks pnls),
              bk_consecutive_losses = snd (streaks pnls)\<rparr>))))))))))"

definition empty_result :: "backtest_config \<Rightarrow> backtest_result" where
  "empty_result c =
     \<lparr>bk_initial_balance_usd = bc_initial_balance_usd c,
      bk_final_balance_usd = bc_initial_balance_usd c, bk_total_net_pnl_usd = 0, bk_total_trades = 0,
      bk_winning_trades = 0, bk_losing_trades = 0, bk_win_rate_pct = 0, bk_profit_factor = None,
      bk_max_drawdown_usd = 0, bk_max_drawdown_pct = 0, bk_trades = [], bk_gross_profit_usd = 0,
      bk_gross_loss_usd = 0, bk_expectancy_usd = 0, bk_largest_win_usd = 0, bk_largest_loss_usd = 0,
      bk_consecutive_wins = 0, bk_consecutive_losses = 0\<rparr>"

definition run_backtest ::
  "backtest_config \<Rightarrow> backtest_env \<Rightarrow> bar_builder \<Rightarrow> tick list \<Rightarrow> (backtest_result \<times> bar_builder) res" where
  "run_backtest c env b ticks =
     (if ticks = [] then Inr (empty_result c, b)
      else bind_res (backtest_loop c env ticks (backtest_start c b)) (\<lambda>s.
             let s' = close_remaining c (last ticks) s
             in bind_res (summarize c s') (\<lambda>r. Inr (r, bs_bar_builder s'))))"

subsection \<open>Lemmas\<close>

lemma backtest_loop_append:
  "backtest_loop c env (xs @ ys) s = bind_res (backtest_loop c env xs s) (backtest_loop c env ys)"
proof (induction xs arbitrary: s)
  case (Cons t xs)
  show ?case by (cases "backtest_tick c env t s") (simp_all add: Cons.IH)
qed simp

text \<open>A closed trade records its exit and the result computed from it.\<close>

definition trade_closed :: "backtest_config \<Rightarrow> backtest_trade \<Rightarrow> bool" where
  "trade_closed c p \<longleftrightarrow> (\<exists>price reason. bt_exit_price p = Some price \<and> bt_exit_reason p = Some reason
     \<and> bt_exit_time p \<noteq> None
     \<and> bt_realized_pnl_usd p = dsub (gross_pnl c p price) (bt_commission_usd p)
     \<and> (reason = SL_HIT \<longrightarrow> bt_stop_loss p = Some price)
     \<and> (reason = TP_HIT \<longrightarrow> bt_take_profit p = Some price))"

definition ledger_inv :: "backtest_config \<Rightarrow> backtest_state \<Rightarrow> bool" where
  "ledger_inv c s \<longleftrightarrow>
     bs_balance s = foldl dadd (bc_initial_balance_usd c) (map bt_realized_pnl_usd (bs_completed_trades s))
     \<and> list_all (trade_closed c) (bs_completed_trades s)"

lemma exit_signal_level:
  "exit_signal t p = Some (price, reason) \<Longrightarrow>
     (reason = SL_HIT \<and> bt_stop_loss p = Some price) \<or> (reason = TP_HIT \<and> bt_take_profit p = Some price)"
  by (auto simp: exit_signal_def orelse_Some split: if_splits option.splits)

lemma trade_closed_close_trade:
  "(reason = SL_HIT \<longrightarrow> bt_stop_loss p = Some price) \<Longrightarrow> (reason = TP_HIT \<longrightarrow> bt_take_profit p = Some price)
     \<Longrightarrow> trade_closed c (close_trade c tm price reason p)"
  by (simp add: trade_closed_def close_trade_def gross_pnl_def)

lemma book_trade_simps [simp]:
  "bs_open_positions (book_trade p s) = bs_open_positions s"
  "bs_completed_trades (book_trade p s) = bs_completed_trades s @ [p]"
  "bs_bar_builder (book_trade p s) = bs_bar_builder s"
  "bs_closed_bars (book_trade p s) = bs_closed_bars s"
  "bs_tick_index (book_trade p s) = bs_tick_index s"
  by (simp_all add: book_trade_def)

lemma ledger_inv_book: "trade_closed c p \<Longrightarrow> ledger_inv c s \<Longrightarrow> ledger_inv c (book_trade p s)"
  by (simp add: ledger_inv_def book_trade_def)

lemma ledger_inv_cong:
  "bs_balance s' = bs_balance s \<Longrightarrow> bs_completed_trades s' = bs_completed_trades s
     \<Longrightarrow> ledger_inv c s' = ledger_inv c s"
  by (simp add: ledger_inv_def)

lemma ledger_inv_settle: "ledger_inv c s \<Longrightarrow> ledger_inv c (settle_position c t s p)"
  unfolding settle_position_def
  by (cases "exit_signal t p")
     (auto intro!: ledger_inv_book trade_closed_close_trade dest!: exit_signal_level
       simp: ledger_inv_cong [of "s\<lparr>bs_open_positions := _\<rparr>" s])

lemma ledger_inv_check_exits: "ledger_inv c s \<Longrightarrow> ledger_inv c (check_exits c t s)"
  unfolding check_exits_def
  by (rule foldl_invariant [of "ledger_inv c"])
     (simp_all add: ledger_inv_settle ledger_inv_cong [of "s\<lparr>bs_open_positions := []\<rparr>" s])

lemma ledger_inv_close_remaining: "ledger_inv c s \<Longrightarrow> ledger_inv c (close_remaining c t s)"
  unfolding close_remaining_def
  by (rule foldl_invariant [of "ledger_inv c"]) (auto intro!: ledger_inv_book trade_closed_close_trade)

lemma track_equity_frame [simp]:
  "bs_balance (track_equity c t s) = bs_balance s"
  "bs_open_positions (track_equity c t s) = bs_open_positions s"
  "bs_completed_trades (track_equity c t s) = bs_completed_trades s"
  "bs_tick_index (track_equity c t s) = bs_tick_index s"
  by (simp_all add: track_equity_def Let_def)

text \<open>An entry only appends one trade, and only on an approval with a volume.\<close>

lemma consider_entry_cases:
  assumes "consider_entry c env t sig s = Inr s'"
  obtains "s' = s"
  | d lots where "risk_verdict c env t sig s = Inr d" "rd_trading_allowed d"
      "rd_authorized_lot_size d = Some lots" "cs_direction sig \<noteq> NO_DIRECTION"
      "s' = s\<lparr>bs_open_positions := bs_open_positions s
              @ [open_trade c (be_fresh_id env (bs_tick_index s)) t sig lots]\<rparr>"
  using assms
  by (auto simp: consider_entry_def elim!: bind_res_InrE split: if_splits option.splits)

lemma evaluate_bar_cases:
  assumes "evaluate_bar c env t s = Inr s'"
  obtains s0 where "bs_balance s0 = bs_balance s" "bs_completed_trades s0 = bs_completed_trades s"
    "bs_open_positions s0 = bs_open_positions s" "bs_tick_index s0 = bs_tick_index s"
    "s' = s0 \<or> (\<exists>sig. consider_entry c env t sig s0 = Inr s')"
proof (cases "process_tick t (bs_bar_builder s)")
  case (Pair new b)
  show thesis
  proof (cases new)
    case None
    with Pair assms show thesis
      by (intro that [of "s\<lparr>bs_bar_builder := b\<rparr>"]) (auto simp: evaluate_bar_def)
  next
    case (Some nb)
    with Pair assms show thesis
      by (intro that [of "s\<lparr>bs_bar_builder := b, bs_closed_bars := bs_closed_bars s @ [nb]\<rparr>"])
         (auto simp: evaluate_bar_def Let_def elim!: bind_res_InrE)
  qed
qed

lemma evaluate_bar_frame:
  assumes "evaluate_bar c env t s = Inr s'"
  shows "bs_balance s' = bs_balance s \<and> bs_completed_trades s' = bs_completed_trades s"
  using assms by (auto elim!: evaluate_bar_cases consider_entry_cases)

lemma check_exits_completed: "\<exists>more. bs_completed_trades (check_exits c t s) = bs_completed_trades s @ more"
  unfolding check_exits_def
proof (rule foldl_invariant [where I = "\<lambda>s'. \<exists>more. bs_completed_trades s' = bs_completed_trades s @ more"])
  show "\<exists>more. bs_completed_trades (settle_position c t s' p) = bs_completed_trades s @ more"
    if "\<exists>more. bs_completed_trades s' = bs_completed_trades s @ more" for s' p
    using that by (auto simp: settle_position_def split: option.splits)
qed simp

lemma close_remaining_completed: "\<exists>more. bs_completed_trades (close_remaining c t s) = bs_completed_trades s @ more"
  unfolding close_remaining_def
  by (rule foldl_invariant [where I = "\<lambda>s'. \<exists>more. bs_completed_trades s' = bs_completed_trades s @ more"])
     auto

lemma backtest_tick_cases:
  assumes "backtest_tick c env t s = Inr s'"
  obtains s1 where "evaluate_bar c env t (track_equity c t (check_exits c t s)) = Inr s1"
    "s' = s1\<lparr>bs_tick_index := bs_tick_index s1 + 1\<rparr>"
  using assms by (auto simp: backtest_tick_def elim!: bind_res_InrE)

lemma ledger_inv_tick:
  assumes "backtest_tick c env t s = Inr s'" "ledger_inv c s" shows "ledger_inv c s'"
proof -
  from assms(1) obtain s1 where s1: "evaluate_bar c env t (track_equity c t (check_exits c t s)) = Inr s1"
    "s' = s1\<lparr>bs_tick_index := bs_tick_index s1 + 1\<rparr>" by (rule backtest_tick_cases)
  from evaluate_bar_frame [OF s1(1)] ledger_inv_check_exits [OF assms(2), of t] s1(2)
  show ?thesis by (simp add: ledger_inv_def)
qed

lemma completed_tick:
  assumes "backtest_tick c env t s = Inr s'"
  shows "\<exists>more. bs_completed_trades s' = bs_completed_trades s @ more"
proof -
  from assms obtain s1 where s1: "evaluate_bar c env t (track_equity c t (check_exits c t s)) = Inr s1"
    "s' = s1\<lparr>bs_tick_index := bs_tick_index s1 + 1\<rparr>" by (rule backtest_tick_cases)
  from evaluate_bar_frame [OF s1(1)] check_exits_completed [of c t s] s1(2) show ?thesis by simp
qed

text \<open>What every tick preserves, the loop preserves.\<close>

lemma backtest_loop_invariant:
  assumes "backtest_loop c env ts s = Inr s'" "I s"
    and "\<And>t s s'. t \<in> set ts \<Longrightarrow> backtest_tick c env t s = Inr s' \<Longrightarrow> I s \<Longrightarrow> I s'"
  shows "I s'"
  using assms
proof (induction ts arbitrary: s)
  case (Cons t ts)
  from Cons.prems(1) obtain s1 where "backtest_tick c env t s = Inr s1" "backtest_loop c env ts s1 = Inr s'"
    by (auto elim!: bind_res_InrE)
  with Cons.prems(2,3) show ?case by (intro Cons.IH [of s1]) auto
qed simp

lemma run_backtest_cases:
  assumes "run_backtest c env b ticks = Inr (r, b')" "ticks \<noteq> []"
  obtains s where "backtest_loop c env ticks (backtest_start c b) = Inr s"
    "summarize c (close_remaining c (last ticks) s) = Inr r"
  using assms by (auto simp: run_backtest_def Let_def elim!: bind_res_InrE)

lemma summarize_fields:
  assumes "summarize c s = Inr r"
  shows "bk_trades r = bs_completed_trades s" "bk_final_balance_usd r = bs_balance s"
    "bk_total_net_pnl_usd r = dsub (bs_balance s) (bc_initial_balance_usd c)"
    "bk_total_trades r = length (bs_completed_trades s)"
    "bk_winning_trades r = length (filter (\<lambda>p. 0 < bt_realized_pnl_usd p) (bs_completed_trades s))"
    "bk_losing_trades r = length (filter (\<lambda>p. bt_realized_pnl_usd p < 0) (bs_completed_trades s))"
  using assms
  by (auto simp: summarize_def Let_def filter_map comp_def elim!: bind_res_InrE)

lemma ledger_inv_loop:
  assumes "backtest_loop c env ts (backtest_start c b) = Inr s" shows "ledger_inv c s"
  using assms
  by (rule backtest_loop_invariant [where I = "ledger_inv c"])
     (auto simp: ledger_inv_def backtest_start_def ledger_inv_tick [unfolded ledger_inv_def])

text \<open>Open positions: exits only shrink the list, and an entry respects the position limit.\<close>

lemma check_exits_length:
  "length (bs_open_positions (check_exits c t s)) \<le> length (bs_open_positions s)"
proof -
  have "length (bs_open_positions (foldl (settle_position c t) s ps)) \<le> length (bs_open_positions s) + length ps"
    for s ps
  proof (induction ps arbitrary: s)
    case (Cons p ps)
    have "length (bs_open_positions (settle_position c t s p)) \<le> length (bs_open_positions s) + 1"
      by (simp add: settle_position_def split: option.split)
    with Cons.IH [of "settle_position c t s p"] show ?case by simp
  qed simp
  from this [of "s\<lparr>bs_open_positions := []\<rparr>" "bs_open_positions s"]
  show ?thesis by (simp add: check_exits_def)
qed

definition within_position_limit :: "backtest_config \<Rightarrow> backtest_state \<Rightarrow> bool" where
  "within_position_limit c s \<longleftrightarrow> bs_open_positions s = []
     \<or> (\<exists>mx. rk_max_open_positions (bc_risk_config c) = Some mx \<and> int (length (bs_open_positions s)) \<le> mx)"

lemma approved_below_limit:
  assumes "risk_verdict c env t sig s = Inr d" "rd_trading_allowed d"
  shows "\<exists>mx. rk_max_open_positions (bc_risk_config c) = Some mx \<and> int (length (bs_open_positions s)) < mx"
proof -
  from approved_checks [OF assms [unfolded risk_verdict_def]] obtain cid where
    "check_configured (bc_risk_config c) (backtest_snapshot c t s) cid (be_risk_clock env (bs_tick_index s)) = None"
    "check_positions (bc_risk_config c) (backtest_snapshot c t s) cid (be_risk_clock env (bs_tick_index s)) = None"
    by (metis backtest_risk_engine_def risk_engine.select_convs(1))
  then show ?thesis
    by (auto simp: check_configured_None check_positions_None risk_is_fully_configured_def backtest_snapshot_def)
qed

lemma within_position_limit_tick:
  assumes "backtest_tick c env t s = Inr s'" "within_position_limit c s"
  shows "within_position_limit c s'"
proof -
  let ?s0 = "track_equity c t (check_exits c t s)"
  have lim: "within_position_limit c ?s0"
    using assms(2) check_exits_length [of c t s] by (auto simp: within_position_limit_def)
  from assms(1) obtain s1 where s1: "evaluate_bar c env t ?s0 = Inr s1"
    "s' = s1\<lparr>bs_tick_index := bs_tick_index s1 + 1\<rparr>" by (rule backtest_tick_cases)
  from s1(1) obtain s2 where s2: "bs_open_positions s2 = bs_open_positions ?s0"
    "s1 = s2 \<or> (\<exists>sig. consider_entry c env t sig s2 = Inr s1)" by (rule evaluate_bar_cases)
  from s2(1) lim have lim2: "within_position_limit c s2" by (simp add: within_position_limit_def)
  have "within_position_limit c s1"
    using s2(2)
  proof (elim disjE exE)
    fix sig assume "consider_entry c env t sig s2 = Inr s1"
    then show ?thesis
    proof (cases rule: consider_entry_cases)
      case (2 d lots)
      from approved_below_limit [OF 2(1,2)] 2(5) show ?thesis by (auto simp: within_position_limit_def)
    qed (use lim2 in simp)
  qed (use lim2 in simp)
  then show ?thesis by (simp add: s1(2) within_position_limit_def)
qed

text \<open>Readings of the clock far after the tick time make every evaluation block.\<close>

lemma stale_blocked:
  assumes "sec * 10 ^ 6 \<le> be_risk_clock env (bs_tick_index s) - tk_tick_time t" "\<bar>sec\<bar> \<le> 2 ^ 40"
      "rk_max_tick_staleness_ms (bc_risk_config c) < sec * 1000"
  shows "\<exists>d. risk_verdict c env t sig s = Inr d \<and> \<not> rd_trading_allowed d"
proof -
  let ?now = "be_risk_clock env (bs_tick_index s)" and ?cfg = "bc_risk_config c"
  let ?snap = "backtest_snapshot c t s"
  let ?cid = "choose_correlation_id None (be_fresh_id env (bs_tick_index s))"
  have "check_market ?cfg (Some (backtest_market t)) ?snap ?cid ?now \<noteq> None"
    using age_ms_whole_gt [OF assms] by (auto simp: check_market_None market_staleness_ms_def backtest_market_def)
  then have "\<exists>d. first_some
       [check_emergency ?cfg ?snap ?cid ?now, check_configured ?cfg ?snap ?cid ?now,
        check_market ?cfg (Some (backtest_market t)) ?snap ?cid ?now,
        check_news (Some ''CLEAR'') ?snap ?cid ?now, check_daily_loss ?cfg ?snap ?cid ?now,
        check_drawdown ?cfg ?snap ?cid ?now, check_profit_lock ?cfg ?snap ?cid ?now,
        check_positions ?cfg ?snap ?cid ?now] = Some d"
    by (intro first_some_skip [of "check_market ?cfg (Some (backtest_market t)) ?snap ?cid ?now"])
       (simp_all only: list.set insert_iff simp_thms)
  then obtain d where d: "first_some
       [check_emergency ?cfg ?snap ?cid ?now, check_configured ?cfg ?snap ?cid ?now,
        check_market ?cfg (Some (backtest_market t)) ?snap ?cid ?now,
        check_news (Some ''CLEAR'') ?snap ?cid ?now, check_daily_loss ?cfg ?snap ?cid ?now,
        check_drawdown ?cfg ?snap ?cid ?now, check_profit_lock ?cfg ?snap ?cid ?now,
        check_positions ?cfg ?snap ?cid ?now] = Some d" by blast
  then have "risk_verdict c env t sig s = Inr d"
    by (simp add: risk_verdict_def evaluate_risk_def backtest_risk_engine_def Let_def)
  moreover have "\<not> rd_trading_allowed d"
    using early_not_approved(1) [OF d] by (simp add: rd_trading_allowed_def)
  ultimately show ?thesis by blast
qed

text \<open>A state in which nothing has happened but the passing of bars.\<close>

definition idle :: "backtest_config \<Rightarrow> backtest_state \<Rightarrow> bool" where
  "idle c s \<longleftrightarrow> bs_open_positions s = [] \<and> bs_completed_trades s = []
     \<and> bs_balance s = bc_initial_balance_usd c \<and> bs_peak_equity s = bc_initial_balance_usd c
     \<and> bs_max_drawdown_usd s = 0 \<and> bs_max_drawdown_pct s = 0"

lemma idle_quiet:
  assumes "idle c s" "dec_fits (bc_initial_balance_usd c)"
  shows "track_equity c t (check_exits c t s) = s"
  using assms
  by (auto simp: idle_def check_exits_def track_equity_def current_equity_def floating_pnl_def Let_def dsub_def)

lemma idle_tick:
  assumes "idle c s" "dec_fits (bc_initial_balance_usd c)"
    and "sec * 10 ^ 6 \<le> be_risk_clock env (bs_tick_index s) - tk_tick_time t" "\<bar>sec\<bar> \<le> 2 ^ 40"
      "rk_max_tick_staleness_ms (bc_risk_config c) < sec * 1000"
  shows "\<exists>s'. backtest_tick c env t s = Inr s' \<and> idle c s' \<and> bs_tick_index s' = bs_tick_index s + 1"
proof -
  have unchanged: "consider_entry c env t sig s' = Inr s'" if "bs_tick_index s' = bs_tick_index s" for sig s'
    using stale_blocked [of sec env s' t c sig] assms(3-5) that
    by (auto simp: consider_entry_def split: option.split)
  obtain new b where pt: "process_tick t (bs_bar_builder s) = (new, b)" by (cases "process_tick t (bs_bar_builder s)")
  have "\<exists>s'. evaluate_bar c env t s = Inr s' \<and> idle c s' \<and> bs_tick_index s' = bs_tick_index s"
  proof (cases new)
    case None
    with pt assms(1) show ?thesis by (simp add: evaluate_bar_def idle_def)
  next
    case (Some nb)
    let ?s = "s\<lparr>bs_bar_builder := b, bs_closed_bars := bs_closed_bars s @ [nb]\<rparr>"
    obtain sig where "process_signal (bc_brain_config c) (be_brain_clock env (bs_tick_index s))
       (be_fresh_id env (bs_tick_index s)) t (bs_closed_bars s @ [nb]) ''CLEAR'' None = Inr sig"
      using process_signal_total by blast
    with Some pt have "evaluate_bar c env t s = Inr ?s" by (simp add: evaluate_bar_def Let_def unchanged)
    moreover have "idle c ?s" using assms(1) by (simp add: idle_def)
    ultimately show ?thesis by simp
  qed
  then show ?thesis
    unfolding backtest_tick_def idle_quiet [OF assms(1,2)] by (auto simp: idle_def)
qed

text \<open>The clock is read at the position of each tick.\<close>

definition all_stale :: "backtest_env \<Rightarrow> int \<Rightarrow> nat \<Rightarrow> tick list \<Rightarrow> bool" where
  "all_stale env sec i ts \<longleftrightarrow>
     (\<forall>j < length ts. sec * 10 ^ 6 \<le> be_risk_clock env (i + j) - tk_tick_time (ts ! j))"

lemma all_stale_Cons:
  "all_stale env sec i (t # ts) \<longleftrightarrow>
     sec * 10 ^ 6 \<le> be_risk_clock env i - tk_tick_time t \<and> all_stale env sec (i + 1) ts"
  unfolding all_stale_def by (auto simp: less_Suc_eq_0_disj)

lemma idle_loop:
  assumes "idle c s" "dec_fits (bc_initial_balance_usd c)"
    and "all_stale env sec (bs_tick_index s) ts" "\<bar>sec\<bar> \<le> 2 ^ 40"
      "rk_max_tick_staleness_ms (bc_risk_config c) < sec * 1000"
  shows "\<exists>s'. backtest_loop c env ts s = Inr s' \<and> idle c s'"
  using assms(1,3)
proof (induction ts arbitrary: s)
  case (Cons t ts)
  from Cons.prems(2) have stale: "sec * 10 ^ 6 \<le> be_risk_clock env (bs_tick_index s) - tk_tick_time t"
    "all_stale env sec (bs_tick_index s + 1) ts" by (simp_all only: all_stale_Cons)
  from idle_tick [OF Cons.prems(1) assms(2) stale(1) assms(4,5)]
  obtain s1 where "backtest_tick c env t s = Inr s1" "idle c s1" "bs_tick_index s1 = bs_tick_index s + 1" by auto
  with Cons.IH [of s1] stale(2) show ?case by simp
qed simp

lemma cents_0: "cents 0 = Inr 0"
  using dquantize_grid [of 0 2 0] by (simp add: cents_def)

lemma summarize_idle:
  assumes "idle c s"
  shows "\<exists>r. summarize c (close_remaining c t s) = Inr r \<and> bk_trades r = []
    \<and> bk_final_balance_usd r = bc_initial_balance_usd c"
proof -
  have s: "close_remaining c t s = s" using assms by (simp add: idle_def close_remaining_def)
  have "\<exists>r. summarize c s = Inr r"
    using assms by (simp add: summarize_def idle_def cents_0 dabs_def Let_def)
  with s show ?thesis using assms summarize_fields(1,2) [of c s] by (auto simp: idle_def)
qed

text \<open>When only the last tick is fresh, it is the only one that can open a trade.\<close>

lemma idle_entry:
  assumes "idle c s" "dec_fits (bc_initial_balance_usd c)" "backtest_tick c env t s = Inr s'"
  shows "bs_completed_trades s' = []
    \<and> (bs_open_positions s' = [] \<or> (\<exists>tid sig lots. bs_open_positions s' = [open_trade c tid t sig lots]))"
proof -
  from assms(3) obtain s1 where s1: "evaluate_bar c env t s = Inr s1" "s' = s1\<lparr>bs_tick_index := bs_tick_index s1 + 1\<rparr>"
    by (rule backtest_tick_cases) (simp only: idle_quiet [OF assms(1,2)])
  from s1(1) obtain s0 where s0: "bs_completed_trades s0 = bs_completed_trades s"
    "bs_open_positions s0 = bs_open_positions s" "s1 = s0 \<or> (\<exists>sig. consider_entry c env t sig s0 = Inr s1)"
    by (rule evaluate_bar_cases)
  then show ?thesis
    using assms(1) s1(2) by (fastforce simp: idle_def elim!: consider_entry_cases)
qed

lemma close_remaining_trades:
  "bs_completed_trades (close_remaining c t s) = bs_completed_trades s
     @ map (\<lambda>p. close_trade c (tk_tick_time t) (if bt_side p = BUY then tk_bid t else tk_ask t) END_OF_DATA p)
         (bs_open_positions s)"
proof -
  have "bs_completed_trades (foldl (\<lambda>s p. book_trade (f p) s) s ps) = bs_completed_trades s @ map f ps" for f ps s
    by (induction ps arbitrary: s) (simp_all add: book_trade_def)
  then show ?thesis by (simp add: close_remaining_def)
qed

lemma stale_until_last:
  assumes "run_backtest c env b ticks = Inr (r, b')" "ticks \<noteq> []" "all_stale env sec 0 (butlast ticks)"
    and "\<bar>sec\<bar> \<le> 2 ^ 40" "rk_max_tick_staleness_ms (bc_risk_config c) < sec * 1000"
    and "dec_fits (bc_initial_balance_usd c)"
  shows "length (bk_trades r) \<le> 1 \<and> (\<forall>p \<in> set (bk_trades r). bt_entry_time p = tk_tick_time (last ticks))"
proof -
  let ?t = "last ticks"
  have "idle c (backtest_start c b)" "all_stale env sec (bs_tick_index (backtest_start c b)) (butlast ticks)"
    using assms(3) by (simp_all add: idle_def backtest_start_def)
  from idle_loop [OF this(1) assms(6) this(2) assms(4,5)] obtain s0 where
    s0: "backtest_loop c env (butlast ticks) (backtest_start c b) = Inr s0" "idle c s0" by blast
  from run_backtest_cases [OF assms(1,2)] obtain s where
    s: "backtest_loop c env ticks (backtest_start c b) = Inr s" "summarize c (close_remaining c ?t s) = Inr r" by blast
  have "ticks = butlast ticks @ [?t]" using assms(2) by simp
  with s(1) have "backtest_loop c env (butlast ticks @ [?t]) (backtest_start c b) = Inr s" by simp
  with s0(1) have "backtest_tick c env ?t s0 = Inr s"
    unfolding backtest_loop_append by (auto elim: bind_res_InrE)
  from idle_entry [OF s0(2) assms(6) this] show ?thesis
    unfolding summarize_fields(1) [OF s(2)] close_remaining_trades
    by (auto simp: close_trade_def open_trade_def Let_def)
qed

subsection \<open>A worked example\<close>

text \<open>
  Four ticks: two bars whose closes rise by 4, a buy of one lot at 2005 with stop 1999 and target
  2017, and a bid of 2020 that closes it at the target for 1200.
\<close>

definition demo_backtest_brain :: brain_config where
  "demo_backtest_brain = demo_config
     \<lparr>cf_trend := (cf_trend default_strat_config)\<lparr>cf_fast_ma_period := Some 1, cf_slow_ma_period := Some 2\<rparr>,
      cf_scoring := (cf_scoring default_strat_config)\<lparr>cf_min_confidence_threshold := Some (2 / 5)\<rparr>\<rparr>"

definition demo_backtest :: backtest_config where
  "demo_backtest =
     \<lparr>bc_initial_balance_usd = 10000, bc_symbol = ''XAUUSD'', bc_point_value = 1 / 100,
      bc_contract_size = 100, bc_slippage_points = 0, bc_commission_per_lot_usd = 0,
      bc_brain_config = demo_backtest_brain,
      bc_risk_config = risk_config_default
        \<lparr>rk_daily_loss_limit_usd := Some 1000, rk_max_drawdown_usd := Some 2000,
         rk_max_open_positions := Some 1, rk_risk_per_trade_pct := Some (6 / 100)\<rparr>,
      bc_timeframe = ''M1''\<rparr>"

definition demo_env :: backtest_env where
  "demo_env =
     \<lparr>be_brain_clock = (\<lambda>i. if i < 3 then 60000000 * (int i + 1) else 181000000),
      be_risk_clock = (\<lambda>i. if i < 3 then 60000000 * (int i + 1) else 181000000),
      be_fresh_id = (\<lambda>i. ''id'')\<rparr>"

definition demo_bar1 :: bar where
  "demo_bar1 = \<lparr>br_symbol = ''XAUUSD'', br_timeframe = ''M1'', br_open_time = 60000000,
     br_close_time = 120000000, br_open_price = 2000, br_high_price = 2000, br_low_price = 2000,
     br_close_price = 2000, br_volume = 1, br_is_closed = True\<rparr>"

definition demo_bar2 :: bar where
  "demo_bar2 = \<lparr>br_symbol = ''XAUUSD'', br_timeframe = ''M1'', br_open_time = 120000000,
     br_close_time = 180000000, br_open_price = 2004, br_high_price = 2004, br_low_price = 2004,
     br_close_price = 2004, br_volume = 1, br_is_closed = True\<rparr>"

definition demo_ticks :: "tick list" where
  "demo_ticks = [demo_tick 60000000 1999 2001, demo_tick 120000000 2003 2005,
                 demo_tick 180000000 2004 2005, demo_tick 181000000 2020 2021]"

lemma demo_no_signal:
  "\<exists>sg. process_signal demo_backtest_brain 120000000 f (demo_tick 120000000 2003 2005) [demo_bar1] ''CLEAR'' None = Inr sg
     \<and> cs_direction sg = NO_DIRECTION"
proof -
  obtain sg where "process_signal demo_backtest_brain 120000000 f (demo_tick 120000000 2003 2005)
      [demo_bar1] ''CLEAR'' None = Inr sg"
    using process_signal_total by blast
  then show ?thesis
    by (auto simp: process_signal_def classify_regime_def pipeline_regime_params_def
        demo_backtest_brain_def demo_config_def default_strat_config_def or_default_def
        evaluate_factors_def unknown_context_def permits_new_entry_def none_signal_def
        empty_signal_def demo_bar1_def pipeline_atr_period_def Let_def split: if_splits)
qed

lemma demo_signal:
  "\<exists>sg. process_signal demo_backtest_brain 180000000 f (demo_tick 180000000 2004 2005) [demo_bar1, demo_bar2] ''CLEAR'' None = Inr sg
     \<and> cs_direction sg = BUY \<and> cs_entry_reference sg = Some 2005
     \<and> cs_suggested_stop_loss sg = Some 1999 \<and> cs_suggested_take_profit sg = Some 2017"
proof -
  let ?bars = "[demo_bar1, demo_bar2]" and ?t = "demo_tick 180000000 2004 2005"
  have cfg: "pipeline_regime_params demo_backtest_brain = \<lparr>rp_fast_period = 1, rp_slow_period = 2, rp_rsi_period = 1,
     rp_atr_period = 1, rp_adx_period = 14, rp_trending_threshold = 20, rp_rsi_bullish_min = 52,
     rp_rsi_bearish_max = 48, rp_rsi_overbought = 101, rp_rsi_oversold = 30, rp_atr_baseline_bars = 50,
     rp_volatility_normal_ratio = 3 / 2, rp_volatility_high_ratio = 2, rp_max_atr_threshold = Some 15\<rparr>"
    "pipeline_atr_period demo_backtest_brain = 1"
    "pipeline_scorer demo_backtest_brain = default_scorer\<lparr>sr_min_conf := 2 / 5\<rparr>"
    by (simp_all add: pipeline_regime_params_def pipeline_atr_period_def pipeline_scorer_def demo_config_def
        demo_backtest_brain_def default_strat_config_def or_default_def default_scorer_def)
  have e1: "calculate_ema ?bars 1 = Some 2004" and e2: "calculate_ema ?bars 2 = Some 2002"
    by (simp add: calculate_ema_def demo_bar1_def demo_bar2_def Let_def dsum_def,
        simp add: dec_ops dec_simps)+
  have r: "calculate_rsi ?bars 1 = Some 100"
    by (simp add: calculate_rsi_def demo_bar1_def demo_bar2_def bar_gain_def bar_loss_def rsi_of_def
        Let_def wilder_average_def wilder_def dsum_def dec_ops dec_simps)
  have x: "ax_adx (calculate_adx ?bars 14) = None" by (simp add: calculate_adx_def Let_def)
  have atr: "calculate_atr ?bars 1 = Some 4"
    by (simp add: calculate_atr_def demo_bar1_def demo_bar2_def true_range_def Let_def wilder_def
        dsum_def dec_ops dec_simps)
  obtain reg where reg: "classify_regime (pipeline_regime_params demo_backtest_brain) ?bars = Inr reg"
    "rc_atr reg = Some 4" "rc_regime reg = TREND_UP" "rc_trend_direction reg = BULLISH"
    "rc_trend_strength reg = TRENDING" "rc_momentum_state reg = MOM_BULLISH" "rc_volatility_state reg = NORMAL"
    by (simp add: cfg classify_regime_def e1 e2 r x atr Let_def trend_direction_of_def
        trend_strength_of_def momentum_of_def volatility_of_def regime_of_def)
  have st: "pipeline_structure demo_backtest_brain ?bars a = neutral_structure" for a
    by (simp add: pipeline_structure_def demo_backtest_brain_def demo_config_def default_strat_config_def
        or_default_def analyze_structure_def detect_swing_points_def neutral_structure_def)
  have stp: "su_type (detect_setup ?bars neutral_structure a m) = NO_SETUP" for a m
    by (simp add: detect_setup_def neutral_structure_def)
  have gates: "is_fully_configured demo_backtest_brain" "\<not> tick_is_stale demo_backtest_brain 180000000 ?t"
    "list_all br_is_closed ?bars"
    by (simp_all add: is_fully_configured_def demo_backtest_brain_def demo_config_def demo_bar1_def
        demo_bar2_def default_strat_config_def tick_is_stale_def tick_staleness_seconds_def
        demo_tick_def total_seconds_def)
  have ev: "evaluate_factors (default_scorer\<lparr>sr_min_conf := 2 / 5\<rparr>) ?t neutral_structure reg ''CLEAR'' NO_SETUP
      = directional_signal (default_scorer\<lparr>sr_min_conf := 2 / 5\<rparr>) ?t neutral_structure reg NO_SETUP BUY (1999, 2017)"
  proof -
    let ?sc = "default_scorer\<lparr>sr_min_conf := 2 / 5\<rparr>"
    have c: "confidence ?sc neutral_structure reg NO_SETUP BUY = 1 / 2"
      "confidence ?sc neutral_structure reg NO_SETUP SELL = 1 / 5"
      by (simp_all add: confidence_def score_structure_def score_trend_def score_setup_def
        score_momentum_def score_volatility_def score_regime_def reg neutral_structure_def
        default_scorer_def dec_ops dec_simps)
    have "compute_sl_tp ?sc ?t neutral_structure 4 BUY = Some (1999, 2017)"
      by (simp add: compute_sl_tp_def demo_tick_def default_scorer_def neutral_structure_def Let_def
        dec_ops dec_simps)
    moreover have "sr_max_spread ?sc = 1" "tick_spread ?t = 1" "or_default (Some (4::dec)) 1 = 4"
      by (simp_all add: default_scorer_def tick_spread_def demo_tick_def dec_ops dec_simps or_default_def)
    ultimately show ?thesis
      by (simp add: evaluate_factors_def score_direction_def c reg permits_new_entry_def Let_def)
  qed
  have "process_signal demo_backtest_brain 180000000 f ?t ?bars ''CLEAR'' None
     = Inr ((directional_signal (default_scorer\<lparr>sr_min_conf := 2 / 5\<rparr>) ?t neutral_structure reg NO_SETUP BUY (1999, 2017))
          \<lparr>cs_correlation_id := Some f, cs_setup_type := Some NO_SETUP\<rparr>)"
    using gates by (simp add: process_signal_def cfg(2,3) atr st stp ev reg(1) Let_def
        directional_signal_def choose_correlation_id_def)
  then show ?thesis by (simp add: directional_signal_def demo_tick_def)
qed

definition demo_state :: "nat \<Rightarrow> bar list \<Rightarrow> bar_builder \<Rightarrow> backtest_state" where
  "demo_state i bars b =
     \<lparr>bs_tick_index = i, bs_balance = 10000, bs_peak_equity = 10000, bs_max_drawdown_usd = 0,
      bs_max_drawdown_pct = 0, bs_open_positions = [], bs_completed_trades = [],
      bs_closed_bars = bars, bs_bar_builder = b\<rparr>"

definition demo_running :: "instant \<Rightarrow> dec \<Rightarrow> bar list \<Rightarrow> bar_builder" where
  "demo_running start price bars = demo_builder
     \<lparr>bb_current := Some (fresh_running start price 1), bb_closed_bars := bars\<rparr>"

definition demo_open_trade :: backtest_trade where
  "demo_open_trade =
     \<lparr>bt_trade_id = ''id'', bt_symbol = ''XAUUSD'', bt_side = BUY, bt_entry_time = 180000000,
      bt_entry_price = 2005, bt_volume_lots = 1, bt_stop_loss = Some 1999, bt_take_profit = Some 2017,
      bt_exit_time = None, bt_exit_price = None, bt_realized_pnl_usd = 0, bt_commission_usd = 0,
      bt_exit_reason = None\<rparr>"

definition demo_closed_trade :: backtest_trade where
  "demo_closed_trade = demo_open_trade
     \<lparr>bt_exit_time := Some 181000000, bt_exit_price := Some 2017, bt_realized_pnl_usd := 1200,
      bt_exit_reason := Some TP_HIT\<rparr>"

lemma demo_quiet:
  "track_equity demo_backtest t (check_exits demo_backtest t (demo_state i bars b)) = demo_state i bars b"
  by (simp add: demo_state_def check_exits_def track_equity_def current_equity_def floating_pnl_def
      Let_def dec_ops dec_simps)

lemma demo_bar_steps:
  "process_tick (demo_tick 60000000 1999 2001) demo_builder = (None, demo_running 60000000 2000 [])"
  "process_tick (demo_tick 120000000 2003 2005) (demo_running 60000000 2000 [])
     = (Some demo_bar1, demo_running 120000000 2004 [demo_bar1])"
  "process_tick (demo_tick 180000000 2004 2005) (demo_running 120000000 2004 [demo_bar1])
     = (Some demo_bar2, demo_running 180000000 (4009 / 2) [demo_bar1, demo_bar2])"
  by (simp_all add: process_tick_def demo_tick_def demo_builder_def demo_running_def tick_mid_def
      tick_bar_volume_def get_bucket_start_floor close_running_def fresh_running_def demo_bar1_def demo_bar2_def
      Let_def dec_ops dec_simps)

lemma demo_tick1:
  "backtest_tick demo_backtest demo_env (demo_tick 60000000 1999 2001) (backtest_start demo_backtest demo_builder)
     = Inr (demo_state 1 [] (demo_running 60000000 2000 []))"
proof -
  have "backtest_start demo_backtest demo_builder = demo_state 0 [] demo_builder"
    by (simp add: backtest_start_def demo_state_def demo_backtest_def)
  then show ?thesis
    by (simp add: backtest_tick_def demo_quiet evaluate_bar_def)
       (simp add: demo_state_def demo_bar_steps)
qed

lemma demo_tick2:
  "backtest_tick demo_backtest demo_env (demo_tick 120000000 2003 2005)
      (demo_state 1 [] (demo_running 60000000 2000 []))
     = Inr (demo_state 2 [demo_bar1] (demo_running 120000000 2004 [demo_bar1]))"
proof -
  obtain sg where sg: "process_signal demo_backtest_brain 120000000 ''id'' (demo_tick 120000000 2003 2005)
      [demo_bar1] ''CLEAR'' None = Inr sg" "cs_direction sg = NO_DIRECTION"
    using demo_no_signal by blast
  have "bs_bar_builder (demo_state 1 [] b) = b" "bs_closed_bars (demo_state 1 [] b) = []"
    "bs_tick_index (demo_state 1 [] b) = 1" for b by (simp_all add: demo_state_def)
  moreover have "bc_brain_config demo_backtest = demo_backtest_brain" "be_brain_clock demo_env 1 = 120000000"
    "be_fresh_id demo_env 1 = ''id''" by (simp_all add: demo_backtest_def demo_env_def)
  ultimately show ?thesis
    by (simp add: backtest_tick_def demo_quiet evaluate_bar_def demo_bar_steps Let_def sg consider_entry_def)
       (simp add: demo_state_def)
qed

lemma demo_verdict:
  assumes "cs_direction sg = BUY" "cs_entry_reference sg = Some 2005" "cs_suggested_stop_loss sg = Some 1999"
  shows "\<exists>d. risk_verdict demo_backtest demo_env (demo_tick 180000000 2004 2005) sg
      (demo_state 2 bars b) = Inr d \<and> rd_trading_allowed d \<and> rd_authorized_lot_size d = Some 1"
proof -
  let ?t = "demo_tick 180000000 2004 2005" and ?s = "demo_state 2 bars b"
  let ?snap = "backtest_snapshot demo_backtest ?t ?s" and ?c = "bc_risk_config demo_backtest"
  let ?e = "backtest_risk_engine demo_backtest"
  have cfg: "rk_daily_loss_limit_usd ?c = Some 1000" "rk_max_drawdown_usd ?c = Some 2000"
    "rk_max_open_positions ?c = Some 1" "rk_max_open_lots ?c = None" "rk_max_spread_usd ?c = None"
    "rk_caution_drawdown_pct ?c = None" "rk_risk_per_trade_pct ?c = Some (6 / 100)"
    "rk_default_position_size_lots ?c = None" "\<not> rk_emergency_stop_active ?c"
    "rk_max_tick_staleness_ms ?c = 2000"
    by (simp_all add: demo_backtest_def risk_config_default_def)
  have e: "re_config ?e = ?c" "re_sizing_policy ?e = None" by (simp_all add: backtest_risk_engine_def)
  have snap: "as_current_equity_usd ?snap = 10000" "as_equity_peak_usd ?snap = 10000"
    "as_daily_realized_pnl_usd ?snap = 0" "as_daily_floating_pnl_usd ?snap = 0"
    "as_open_position_count ?snap = 0" "as_session_open_equity_usd ?snap = None"
    by (simp_all add: backtest_snapshot_def demo_state_def current_equity_def floating_pnl_def
        demo_backtest_def dec_ops dec_simps)
  have "percentage_lot_size (percentage_policy_init (6 / 100)) 10000 (Some 2005) (Some 1999) = Inr (Some 1)"
    by (simp add: percentage_lot_size_def percentage_policy_init_def ddiv_res_def Let_def
        dquantize_down_def py_int_def dquantize_grid [of _ _ 100] dec_ops dec_simps)
  then have lots: "authorize_lots ?e ?snap (Some (cs_entry_reference sg, cs_suggested_stop_loss sg)) = Inr (Some 1)"
    using get_sizing_policy_pct [of ?e "6 / 100"] by (simp add: authorize_lots_def e cfg snap assms)
  have m: "check_market ?c (Some (backtest_market ?t)) ?snap cid 180000000 = None" for cid
    by (simp add: check_market_None cfg backtest_market_def ready_statuses_def market_staleness_ms_def
        effective_spread_def demo_tick_def age_ms_def total_seconds_def py_int_def)
  have n: "check_news (Some ''CLEAR'') ?snap cid 180000000 = None" for cid
    by (simp add: check_news_None news_window_states_def news_unavailable_states_def)
  have rest: "check_emergency ?c ?snap cid 180000000 = None" "check_configured ?c ?snap cid 180000000 = None"
    "check_daily_loss ?c ?snap cid 180000000 = None" "check_drawdown ?c ?snap cid 180000000 = None"
    "check_profit_lock ?c ?snap cid 180000000 = None" "check_positions ?c ?snap cid 180000000 = None"
    "check_lots ?c l ?snap cid 180000000 = None" for cid l
    by (simp_all add: check_emergency_None check_configured_None check_daily_loss_None
        check_drawdown_None check_profit_lock_None check_positions_None check_lots_None cfg snap
        risk_is_fully_configured_def total_daily_pnl_def drawdown_def profit_lock_of_def dec_ops dec_simps)
  have clk: "be_risk_clock demo_env (bs_tick_index ?s) = 180000000" by (simp add: demo_env_def demo_state_def)
  show ?thesis
    by (simp add: risk_verdict_def evaluate_risk_def e clk rest m n lots Let_def decide_def rd_trading_allowed_def)
qed

lemma demo_tick3:
  "backtest_tick demo_backtest demo_env (demo_tick 180000000 2004 2005)
      (demo_state 2 [demo_bar1] (demo_running 120000000 2004 [demo_bar1]))
     = Inr ((demo_state 3 [demo_bar1, demo_bar2] (demo_running 180000000 (4009 / 2) [demo_bar1, demo_bar2]))
             \<lparr>bs_open_positions := [demo_open_trade]\<rparr>)"
proof -
  let ?t = "demo_tick 180000000 2004 2005"
  let ?s = "demo_state 2 [demo_bar1, demo_bar2] (demo_running 180000000 (4009 / 2) [demo_bar1, demo_bar2])"
  obtain sg where sg: "process_signal demo_backtest_brain 180000000 ''id'' ?t [demo_bar1, demo_bar2] ''CLEAR'' None = Inr sg"
    "cs_direction sg = BUY" "cs_entry_reference sg = Some 2005" "cs_suggested_stop_loss sg = Some 1999"
    "cs_suggested_take_profit sg = Some 2017"
    using demo_signal by blast
  obtain d where d: "risk_verdict demo_backtest demo_env ?t sg ?s = Inr d" "rd_trading_allowed d"
    "rd_authorized_lot_size d = Some 1"
    using demo_verdict [OF sg(2-4)] by blast
  have "open_trade demo_backtest ''id'' ?t sg 1 = demo_open_trade"
    by (simp add: open_trade_def sg demo_open_trade_def demo_backtest_def demo_tick_def Let_def dec_ops dec_simps)
  moreover have "be_fresh_id demo_env i = ''id''" for i by (simp add: demo_env_def)
  ultimately have entry: "consider_entry demo_backtest demo_env ?t sg ?s = Inr (?s\<lparr>bs_open_positions := [demo_open_trade]\<rparr>)"
    using sg(2) d by (simp add: consider_entry_def) (simp add: demo_state_def)
  have s: "(demo_state 2 [demo_bar1] b)\<lparr>bs_bar_builder := b', bs_closed_bars := [demo_bar1, demo_bar2]\<rparr>
      = demo_state 2 [demo_bar1, demo_bar2] b'" for b b' by (simp add: demo_state_def)
  have "bs_bar_builder (demo_state 2 bs b) = b" "bs_closed_bars (demo_state 2 bs b) = bs"
    "bs_tick_index (demo_state 2 bs b) = 2" for b bs by (simp_all add: demo_state_def)
  moreover have "bc_brain_config demo_backtest = demo_backtest_brain" "be_brain_clock demo_env 2 = 180000000"
    "be_fresh_id demo_env 2 = ''id''" by (simp_all add: demo_backtest_def demo_env_def)
  ultimately show ?thesis
    by (simp add: backtest_tick_def demo_quiet evaluate_bar_def demo_bar_steps Let_def s sg(1) entry)
       (simp add: demo_state_def)
qed

lemma demo_tick4:
  "\<exists>s. backtest_tick demo_backtest demo_env (demo_tick 181000000 2020 2021)
      ((demo_state 3 [demo_bar1, demo_bar2] (demo_running 180000000 (4009 / 2) [demo_bar1, demo_bar2]))
             \<lparr>bs_open_positions := [demo_open_trade]\<rparr>) = Inr s
     \<and> bs_balance s = 11200 \<and> bs_open_positions s = [] \<and> bs_completed_trades s = [demo_closed_trade]
     \<and> bs_max_drawdown_usd s = 0 \<and> bs_max_drawdown_pct s = 0"
proof -
  let ?t = "demo_tick 181000000 2020 2021"
  let ?s = "(demo_state 3 [demo_bar1, demo_bar2] (demo_running 180000000 (4009 / 2) [demo_bar1, demo_bar2]))
             \<lparr>bs_open_positions := [demo_open_trade]\<rparr>"
  have x: "check_exits demo_backtest ?t ?s = ?s\<lparr>bs_open_positions := [], bs_balance := 11200,
      bs_completed_trades := [demo_closed_trade]\<rparr>"
    by (simp add: check_exits_def settle_position_def exit_signal_def stop_hit_def target_hit_def
        orelse_def demo_open_trade_def demo_closed_trade_def demo_tick_def book_trade_def
        close_trade_def gross_pnl_def price_move_def demo_backtest_def demo_state_def dec_ops dec_simps)
  have "fst (process_tick ?t (demo_running 180000000 (4009 / 2) [demo_bar1, demo_bar2])) = None"
    by (simp add: process_tick_def demo_tick_def demo_builder_def demo_running_def tick_mid_def
        get_bucket_start_floor fresh_running_def Let_def)
  then obtain b where "process_tick ?t (demo_running 180000000 (4009 / 2) [demo_bar1, demo_bar2]) = (None, b)"
    by (metis prod.collapse)
  then show ?thesis unfolding backtest_tick_def x
    by (simp add: evaluate_bar_def demo_state_def track_equity_def current_equity_def floating_pnl_def
        Let_def dec_ops dec_simps)
qed

lemma demo_run:
  "\<exists>r b. run_backtest demo_backtest demo_env demo_builder demo_ticks = Inr (r, b)
     \<and> bk_final_balance_usd r = 11200 \<and> bk_trades r = [demo_closed_trade] \<and> bk_winning_trades r = 1
     \<and> bk_win_rate_pct r = 100"
proof -
  obtain s where s: "backtest_tick demo_backtest demo_env (demo_tick 181000000 2020 2021)
      ((demo_state 3 [demo_bar1, demo_bar2] (demo_running 180000000 (4009 / 2) [demo_bar1, demo_bar2]))
             \<lparr>bs_open_positions := [demo_open_trade]\<rparr>) = Inr s"
    "bs_balance s = 11200" "bs_open_positions s = []" "bs_completed_trades s = [demo_closed_trade]"
    "bs_max_drawdown_usd s = 0" "bs_max_drawdown_pct s = 0"
    using demo_tick4 by blast
  have loop: "backtest_loop demo_backtest demo_env demo_ticks (backtest_start demo_backtest demo_builder) = Inr s"
    by (simp add: demo_ticks_def demo_tick1 demo_tick2 demo_tick3 s(1) del: One_nat_def)
  have pnl: "bt_realized_pnl_usd demo_closed_trade = 1200" by (simp add: demo_closed_trade_def)
  have q: "dquantize 2 (of_int n) = Inr (of_int n)" if "\<bar>n\<bar> < 10 ^ 26" for n
    using that by (intro dquantize_grid [of _ _ "n * 100"]) simp_all
  have q: "dquantize 2 1200 = Inr 1200" "dquantize 2 100 = Inr 100" "dquantize 2 0 = Inr 0"
    using q [of 1200] q [of 100] q [of 0] by simp_all
  have ini: "bc_initial_balance_usd demo_backtest = 10000" by (simp add: demo_backtest_def)
  have "\<exists>r. summarize demo_backtest s = Inr r"
    by (simp add: summarize_def s pnl cents_def q ini dsum_def Let_def dec_ops dec_simps)
  then obtain r where r: "summarize demo_backtest s = Inr r" by blast
  have wr: "bk_win_rate_pct r = 100" using r
    by (auto simp: summarize_def s pnl cents_def q ini dsum_def Let_def dec_ops dec_simps)
  have "demo_ticks \<noteq> []" by (simp add: demo_ticks_def)
  then have "run_backtest demo_backtest demo_env demo_builder demo_ticks = Inr (r, bs_bar_builder s)"
    by (simp add: run_backtest_def loop close_remaining_def s(3) r)
  then show ?thesis using summarize_fields [OF r] wr s pnl by simp
qed

subsection \<open>Properties\<close>

text \<open>
  C13: the ledger of a run is consistent.  The final balance is the initial balance with the results
  of the reported trades added one by one; every reported trade is closed, with the result its
  entry, exit, size and commission give; a stop-out is booked exactly at the stop and a target
  exactly at the target; the counts are those of the reported trades.
\<close>

theorem backtest_ledger:
  assumes "run_backtest c env b ticks = Inr (r, b')"
  shows "bk_final_balance_usd r = foldl dadd (bc_initial_balance_usd c) (map bt_realized_pnl_usd (bk_trades r))
    \<and> bk_total_net_pnl_usd r = dsub (bk_final_balance_usd r) (bc_initial_balance_usd c)
    \<and> list_all (trade_closed c) (bk_trades r)
    \<and> bk_total_trades r = length (bk_trades r)
    \<and> bk_winning_trades r = length (filter (\<lambda>p. 0 < bt_realized_pnl_usd p) (bk_trades r))
    \<and> bk_losing_trades r = length (filter (\<lambda>p. bt_realized_pnl_usd p < 0) (bk_trades r))"
proof (cases "ticks = []")
  case True
  with assms show ?thesis by (auto simp: run_backtest_def empty_result_def dsub_def)
next
  case False
  from run_backtest_cases [OF assms False] obtain s where
    s: "backtest_loop c env ticks (backtest_start c b) = Inr s"
    "summarize c (close_remaining c (last ticks) s) = Inr r" by blast
  from ledger_inv_loop [OF s(1)] have "ledger_inv c (close_remaining c (last ticks) s)" by (rule ledger_inv_close_remaining)
  then show ?thesis unfolding ledger_inv_def using summarize_fields [OF s(2)] by simp
qed

theorem backtest_ledger_witness:
  "\<exists>r b. run_backtest demo_backtest demo_env demo_builder demo_ticks = Inr (r, b)
     \<and> bk_trades r = [demo_closed_trade] \<and> list_all (trade_closed demo_backtest) (bk_trades r)
     \<and> bk_final_balance_usd r = foldl dadd 10000 (map bt_realized_pnl_usd (bk_trades r))"
proof -
  obtain r b where r: "run_backtest demo_backtest demo_env demo_builder demo_ticks = Inr (r, b)"
    "bk_trades r = [demo_closed_trade]" using demo_run by blast
  have "bc_initial_balance_usd demo_backtest = 10000" by (simp add: demo_backtest_def)
  with backtest_ledger [OF r(1)] r show ?thesis by simp
qed

text \<open>
  C14: no look-ahead.  Whatever follows, the trades completed while the first ticks were processed
  are already determined by those ticks and stay the first of the reported trades.
\<close>

theorem backtest_no_lookahead:
  assumes "run_backtest c env b (xs @ ys) = Inr (r, b')"
  shows "\<exists>s more. backtest_loop c env xs (backtest_start c b) = Inr s
    \<and> bk_trades r = bs_completed_trades s @ more"
proof (cases "xs @ ys = []")
  case True
  with assms show ?thesis by (auto simp: run_backtest_def empty_result_def backtest_start_def)
next
  case False
  from run_backtest_cases [OF assms False] obtain s where
    s: "backtest_loop c env (xs @ ys) (backtest_start c b) = Inr s"
    "summarize c (close_remaining c (last (xs @ ys)) s) = Inr r" by blast
  from s(1) obtain s1 where s1: "backtest_loop c env xs (backtest_start c b) = Inr s1"
    "backtest_loop c env ys s1 = Inr s"
    unfolding backtest_loop_append by (rule bind_res_InrE)
  have "\<exists>more. bs_completed_trades s = bs_completed_trades s1 @ more"
    by (rule backtest_loop_invariant [OF s1(2)]) (auto dest: completed_tick)
  with close_remaining_completed [of c "last (xs @ ys)" s] summarize_fields(1) [OF s(2)] s1(1)
  show ?thesis by auto
qed

theorem backtest_no_lookahead_witness:
  "\<exists>r b s more. run_backtest demo_backtest demo_env demo_builder (take 3 demo_ticks @ drop 3 demo_ticks) = Inr (r, b)
     \<and> backtest_loop demo_backtest demo_env (take 3 demo_ticks) (backtest_start demo_backtest demo_builder) = Inr s
     \<and> bk_trades r = bs_completed_trades s @ more"
proof -
  obtain r b where r: "run_backtest demo_backtest demo_env demo_builder (take 3 demo_ticks @ drop 3 demo_ticks) = Inr (r, b)"
    using demo_run by auto
  from backtest_no_lookahead [OF r] r show ?thesis by blast
qed

text \<open>
  the position limit holds throughout a run.  After any number of ticks there is no open
  position, or the configured maximum is at least the number of open positions.
\<close>

theorem backtest_position_limit:
  assumes "backtest_loop c env ticks (backtest_start c b) = Inr s"
  shows "bs_open_positions s = []
    \<or> (\<exists>mx. rk_max_open_positions (bc_risk_config c) = Some mx \<and> int (length (bs_open_positions s)) \<le> mx)"
proof -
  have "within_position_limit c (backtest_start c b)"
    by (simp add: within_position_limit_def backtest_start_def)
  with assms have "within_position_limit c s"
    by (rule backtest_loop_invariant) (rule within_position_limit_tick)
  then show ?thesis by (simp add: within_position_limit_def)
qed

theorem backtest_position_limit_witness:
  "\<exists>s. backtest_loop demo_backtest demo_env (take 3 demo_ticks) (backtest_start demo_backtest demo_builder) = Inr s
     \<and> bs_open_positions s = [demo_open_trade]
     \<and> (\<exists>mx. rk_max_open_positions (bc_risk_config demo_backtest) = Some mx \<and> int (length (bs_open_positions s)) \<le> mx)"
proof -
  let ?s = "(demo_state 3 [demo_bar1, demo_bar2] (demo_running 180000000 (4009 / 2) [demo_bar1, demo_bar2]))
             \<lparr>bs_open_positions := [demo_open_trade]\<rparr>"
  have loop: "backtest_loop demo_backtest demo_env (take 3 demo_ticks) (backtest_start demo_backtest demo_builder) = Inr ?s"
    by (simp add: demo_ticks_def demo_tick1 demo_tick2 demo_tick3 del: One_nat_def)
  from backtest_position_limit [OF loop] loop show ?thesis by auto
qed

text \<open>
  a backtest on past data never trades.  The risk engine measures the age of a tick against the
  clock of the machine; when every tick is older than the staleness limit by that clock, the run
  completes, but no trade is ever opened, whatever the strategy proposes, and the balance does not
  move.
\<close>

theorem past_data_never_trades:
  assumes "all_stale env sec 0 ticks"
    and "\<bar>sec\<bar> \<le> 2 ^ 40" "rk_max_tick_staleness_ms (bc_risk_config c) < sec * 1000"
    and "dec_fits (bc_initial_balance_usd c)"
  shows "\<exists>r b'. run_backtest c env b ticks = Inr (r, b') \<and> bk_trades r = []
    \<and> bk_final_balance_usd r = bc_initial_balance_usd c"
proof (cases "ticks = []")
  case True
  then show ?thesis by (simp add: run_backtest_def empty_result_def)
next
  case False
  have "idle c (backtest_start c b)" "all_stale env sec (bs_tick_index (backtest_start c b)) ticks"
    using assms(1) by (simp_all add: idle_def backtest_start_def)
  from idle_loop [OF this(1) assms(4) this(2) assms(2,3)]
  obtain s where "backtest_loop c env ticks (backtest_start c b) = Inr s" "idle c s" by blast
  with summarize_idle [of c s "last ticks"] False show ?thesis by (auto simp: run_backtest_def Let_def)
qed

text \<open>The same ticks, replayed a day later by the clock of the risk engine: nothing is traded.\<close>

theorem past_data_never_trades_witness:
  "\<exists>r b. run_backtest demo_backtest (demo_env\<lparr>be_risk_clock := \<lambda>i. 86400000000\<rparr>) demo_builder demo_ticks = Inr (r, b)
     \<and> bk_trades r = [] \<and> bk_final_balance_usd r = 10000"
proof -
  let ?env = "demo_env\<lparr>be_risk_clock := \<lambda>i. 86400000000\<rparr>"
  have sec: "rk_max_tick_staleness_ms (bc_risk_config demo_backtest) < 3 * 1000"
    "bc_initial_balance_usd demo_backtest = 10000" "dec_fits (bc_initial_balance_usd demo_backtest)"
    by (simp_all add: demo_backtest_def risk_config_default_def dec_fits_numeral)
  have old: "all_stale ?env 3 0 demo_ticks"
    by (simp add: all_stale_Cons demo_ticks_def demo_tick_def) (simp add: all_stale_def)
  from past_data_never_trades [OF old _ sec(1,3)] sec(2) show ?thesis by simp
qed

end
