(* ===== verification/Backtest_Analysis.thy ===== *)
theory Backtest_Analysis
  imports Backtest "HOL-Library.Multiset"
begin

section \<open>Analyses over backtests (\<open>brain/backtest/robustness.py\<close>, \<open>sensitivity.py\<close>, \<open>walk_forward.py\<close>)\<close>

text \<open>
  Every analysis builds a new engine per run.  \<open>random.Random.shuffle\<close> is the argument \<open>shuffle\<close>,
  which may be any function that permutes its list; setting a field of a cloned
  configuration by its name (\<open>setattr\<close> on the pydantic model) are the arguments \<open>set_brain\<close> and
  \<open>set_risk\<close>; each run has its own environment.
\<close>

definition run_fresh :: "backtest_config \<Rightarrow> backtest_env \<Rightarrow> tick list \<Rightarrow> backtest_result res" where
  "run_fresh c env ticks =
     bind_res (bar_builder_init (bc_symbol c) (bc_timeframe c)) (\<lambda>b.
     bind_res (run_backtest c env b ticks) (\<lambda>r. Inr (fst r)))"

subsection \<open>Walk-forward validation\<close>

record walk_forward_result =
  wf_train_result :: backtest_result
  wf_validation_result :: backtest_result
  wf_oos_result :: backtest_result
  wf_train_pct :: dec
  wf_validation_pct :: dec
  wf_oos_pct :: dec
  wf_train_size :: nat
  wf_validation_size :: nat
  wf_oos_size :: nat

text \<open>A slice index of Python: negative counts from the end, out of range is clamped.\<close>

definition slice_index :: "nat \<Rightarrow> int \<Rightarrow> nat" where
  "slice_index n i = (if i < 0 then nat (int n + i) else min (nat i) n)"

definition py_slice :: "int \<Rightarrow> int \<Rightarrow> 'a list \<Rightarrow> 'a list" where
  "py_slice lo hi xs =
     drop (slice_index (length xs) lo) (take (slice_index (length xs) hi) xs)"

text \<open>\<open>int(n * float(ratio))\<close>.\<close>

definition split_point :: "nat \<Rightarrow> dec \<Rightarrow> int" where
  "split_point n ratio = py_int (f64 (f64 (of_nat n) * f64 ratio))"

definition walk_forward_split ::
  "dec \<Rightarrow> dec \<Rightarrow> tick list \<Rightarrow> tick list \<times> tick list \<times> tick list" where
  "walk_forward_split train_ratio validation_ratio ticks =
     (let n = length ticks;
          train_end = split_point n train_ratio;
          val_end = split_point n (dadd train_ratio validation_ratio)
      in (py_slice 0 train_end ticks, py_slice train_end val_end ticks, py_slice val_end (int n) ticks))"

definition run_walk_forward ::
  "tick list \<Rightarrow> backtest_config \<Rightarrow> backtest_env \<Rightarrow> backtest_env \<Rightarrow> backtest_env \<Rightarrow> dec \<Rightarrow> dec \<Rightarrow> dec
     \<Rightarrow> walk_forward_result res" where
  "run_walk_forward ticks c env1 env2 env3 train_ratio validation_ratio oos_ratio =
     (case walk_forward_split train_ratio validation_ratio ticks of (tr, va, oos) \<Rightarrow>
        bind_res (run_fresh c env1 tr) (\<lambda>r1.
        bind_res (run_fresh c env2 va) (\<lambda>r2.
        bind_res (run_fresh c env3 oos) (\<lambda>r3.
          Inr \<lparr>wf_train_result = r1, wf_validation_result = r2, wf_oos_result = r3,
               wf_train_pct = dmul train_ratio 100, wf_validation_pct = dmul validation_ratio 100,
               wf_oos_pct = dmul oos_ratio 100, wf_train_size = length tr,
               wf_validation_size = length va, wf_oos_size = length oos\<rparr>))))"

subsection \<open>Robustness\<close>

text \<open>One path of the Monte-Carlo test: the state is equity, peak and maximum drawdown.\<close>

definition path_step :: "dec \<times> dec \<times> dec \<Rightarrow> dec \<Rightarrow> dec \<times> dec \<times> dec" where
  "path_step st pnl =
     (case st of (equity, peak, max_dd) \<Rightarrow>
        let eq = dadd equity pnl; pk = (if peak < eq then eq else peak); dd = dsub pk eq
        in (eq, pk, if max_dd < dd then dd else max_dd))"

definition path_drawdown :: "dec \<Rightarrow> dec list \<Rightarrow> dec" where
  "path_drawdown initial pnls = snd (snd (foldl path_step (initial, initial, 0) pnls))"

text \<open>The generator shuffles a fresh copy in every iteration; \<open>shuffle k\<close> is its k-th shuffle.\<close>

definition monte_carlo_order_shuffle ::
  "(nat \<Rightarrow> dec list \<Rightarrow> dec list) \<Rightarrow> backtest_result \<Rightarrow> int \<Rightarrow> dec list" where
  "monte_carlo_order_shuffle shuffle r num_iterations =
     (if bk_trades r = [] then [0]
      else map (\<lambda>k. path_drawdown (bk_initial_balance_usd r)
                     (shuffle k (map bt_realized_pnl_usd (bk_trades r)))) [0..<nat num_iterations])"

datatype perturbation = BASE | SLIPPAGE

record robustness_run =
  rr_perturbation_type :: perturbation
  rr_perturbation_value :: int
  rr_result :: backtest_result

record robustness_summary =
  rs_runs :: "robustness_run list"
  rs_monte_carlo_drawdowns_usd :: "dec list"
  rs_median_mc_drawdown_usd :: dec
  rs_max_mc_drawdown_usd :: dec

fun slippage_runs ::
  "backtest_config \<Rightarrow> (nat \<Rightarrow> backtest_env) \<Rightarrow> tick list \<Rightarrow> int list \<Rightarrow> robustness_run list res" where
  "slippage_runs c envs ticks [] = Inr []"
| "slippage_runs c envs ticks (slip # steps) =
     (if slip = bc_slippage_points c then slippage_runs c envs ticks steps
      else bind_res (run_fresh (c\<lparr>bc_slippage_points := slip\<rparr>) (envs (length steps)) ticks) (\<lambda>r.
           bind_res (slippage_runs c envs ticks steps) (\<lambda>rs.
             Inr (\<lparr>rr_perturbation_type = SLIPPAGE, rr_perturbation_value = slip, rr_result = r\<rparr> # rs))))"

text \<open>The middle of an empty list raises \<open>IndexError\<close>, before \<open>max\<close> is taken.\<close>

definition drawdown_stats :: "dec list \<Rightarrow> (dec \<times> dec) res" where
  "drawdown_stats dds =
     (if dds = [] then Inl IndexError
      else Inr (sort dds ! (length dds div 2), Max (set dds)))"

definition run_robustness_battery ::
  "(nat \<Rightarrow> dec list \<Rightarrow> dec list) \<Rightarrow> (nat \<Rightarrow> backtest_env) \<Rightarrow> backtest_env \<Rightarrow> tick list \<Rightarrow> backtest_config
     \<Rightarrow> int list option \<Rightarrow> int \<Rightarrow> robustness_summary res" where
  "run_robustness_battery shuffle envs env ticks c slippage_steps mc_iterations =
     (let steps = (case slippage_steps of Some xs \<Rightarrow> if xs = [] then [0, 1, 2, 3] else xs
                                        | None \<Rightarrow> [0, 1, 2, 3])
      in bind_res (run_fresh c env ticks) (\<lambda>base.
         bind_res (slippage_runs c envs ticks steps) (\<lambda>rs.
           let dds = monte_carlo_order_shuffle shuffle base mc_iterations
           in bind_res (drawdown_stats dds) (\<lambda>stats.
              Inr \<lparr>rs_runs = \<lparr>rr_perturbation_type = BASE, rr_perturbation_value = 0, rr_result = base\<rparr> # rs,
                   rs_monte_carlo_drawdowns_usd = dds, rs_median_mc_drawdown_usd = fst stats,
                   rs_max_mc_drawdown_usd = snd stats\<rparr>))))"

subsection \<open>Sensitivity\<close>

record 'v sensitivity_report =
  se_param_name :: string
  se_points :: "('v \<times> backtest_result) list"
  se_is_stable :: bool

fun split_dots :: "string \<Rightarrow> string list" where
  "split_dots [] = [[]]"
| "split_dots (ch # cs) =
     (if ch = CHR ''.'' then [] # split_dots cs
      else (case split_dots cs of w # ws \<Rightarrow> (ch # w) # ws | [] \<Rightarrow> [[ch]]))"

text \<open>A path that names neither configuration leaves the base configuration as it is.\<close>

definition sweep_config ::
  "(string \<Rightarrow> string \<Rightarrow> 'v \<Rightarrow> brain_config \<Rightarrow> brain_config res) \<Rightarrow> (string \<Rightarrow> 'v \<Rightarrow> risk_config \<Rightarrow> risk_config res)
     \<Rightarrow> backtest_config \<Rightarrow> string \<Rightarrow> 'v \<Rightarrow> backtest_config res" where
  "sweep_config set_brain set_risk c param_path v =
     (let parts = split_dots param_path
      in if hd parts = ''brain_config'' \<and> length parts = 3
         then bind_res (set_brain (parts ! 1) (parts ! 2) v (bc_brain_config c)) (\<lambda>b. Inr (c\<lparr>bc_brain_config := b\<rparr>))
         else if hd parts = ''risk_config'' \<and> length parts = 2
         then bind_res (set_risk (parts ! 1) v (bc_risk_config c)) (\<lambda>r. Inr (c\<lparr>bc_risk_config := r\<rparr>))
         else Inr c)"

fun sweep_points ::
  "('v \<Rightarrow> backtest_config res) \<Rightarrow> (nat \<Rightarrow> backtest_env) \<Rightarrow> tick list \<Rightarrow> 'v list \<Rightarrow> ('v \<times> backtest_result) list res" where
  "sweep_points with_param envs ticks [] = Inr []"
| "sweep_points with_param envs ticks (v # vs) =
     bind_res (with_param v) (\<lambda>c.
     bind_res (run_fresh c (envs (length vs)) ticks) (\<lambda>r.
     bind_res (sweep_points with_param envs ticks vs) (\<lambda>ps. Inr ((v, r) # ps))))"

definition drawdowns_stable :: "dec list \<Rightarrow> bool" where
  "drawdowns_stable dds =
     (if 2 \<le> length dds \<and> 0 < Max (set dds) \<and> 0 < Min (set dds) \<and> 3 < ddiv (Max (set dds)) (Min (set dds))
      then False else True)"

definition run_parameter_sweep ::
  "(string \<Rightarrow> string \<Rightarrow> 'v \<Rightarrow> brain_config \<Rightarrow> brain_config res) \<Rightarrow> (string \<Rightarrow> 'v \<Rightarrow> risk_config \<Rightarrow> risk_config res)
     \<Rightarrow> (nat \<Rightarrow> backtest_env) \<Rightarrow> tick list \<Rightarrow> backtest_config \<Rightarrow> string \<Rightarrow> 'v list \<Rightarrow> 'v sensitivity_report res" where
  "run_parameter_sweep set_brain set_risk envs ticks c param_path vs =
     bind_res (sweep_points (sweep_config set_brain set_risk c param_path) envs ticks vs) (\<lambda>ps.
       Inr \<lparr>se_param_name = param_path, se_points = ps,
            se_is_stable = drawdowns_stable (map (bk_max_drawdown_usd \<circ> snd) ps)\<rparr>)"

subsection \<open>Lemmas\<close>

lemma slice_index_mono: "0 \<le> i \<Longrightarrow> i \<le> j \<Longrightarrow> slice_index n i \<le> slice_index n j"
  by (auto simp: slice_index_def)

lemma py_slices_partition:
  assumes "0 \<le> i" "i \<le> j"
  shows "py_slice 0 i xs @ py_slice i j xs @ py_slice j (int (length xs)) xs = xs"
proof -
  let ?a = "slice_index (length xs) i" and ?b = "slice_index (length xs) j"
  have ab: "?a \<le> ?b" using assms by (rule slice_index_mono)
  have "slice_index (length xs) 0 = 0" "slice_index (length xs) (int (length xs)) = length xs"
    by (simp_all add: slice_index_def)
  then have "py_slice 0 i xs @ py_slice i j xs @ py_slice j (int (length xs)) xs
      = take ?a xs @ drop ?a (take ?b xs) @ drop ?b xs"
    by (simp add: py_slice_def)
  also have "take ?a xs = take ?a (take ?b xs)" using ab by (simp add: min_def)
  finally show ?thesis by (metis append_assoc append_take_drop_id)
qed

lemma split_point_nonneg: "0 \<le> r \<Longrightarrow> 0 \<le> split_point n r"
  unfolding split_point_def by (intro py_int_nonneg fl.rd_nonneg mult_nonneg_nonneg) simp_all

lemma split_point_mono: "r \<le> r' \<Longrightarrow> split_point n r \<le> split_point n r'"
  unfolding split_point_def
  by (intro py_int_mono fl.rd_mono mult_left_mono fl.rd_nonneg) simp_all

text \<open>The equity after each trade, the initial balance first.\<close>

fun equity_path :: "dec \<Rightarrow> dec list \<Rightarrow> dec list" where
  "equity_path e [] = [e]"
| "equity_path e (x # xs) = e # equity_path (dadd e x) xs"

lemma equity_path_not_Nil [simp]: "equity_path e xs \<noteq> []"
  by (cases xs) simp_all

lemma equity_path_snoc: "equity_path e (xs @ [x]) = equity_path e xs @ [dadd (last (equity_path e xs)) x]"
  by (induction xs arbitrary: e) simp_all

text \<open>All falls from an earlier equity to a later one.\<close>

definition falls :: "dec list \<Rightarrow> dec set" where
  "falls es = {dsub (es ! i) (es ! j) | i j. i \<le> j \<and> j < length es}"

lemma falls_snoc: "falls (es @ [e]) = falls es \<union> (\<lambda>x. dsub x e) ` set (es @ [e])"
proof (intro equalityI subsetI)
  fix x assume "x \<in> falls (es @ [e])"
  then obtain i j where ij: "i \<le> j" "j \<le> length es" "x = dsub ((es @ [e]) ! i) ((es @ [e]) ! j)"
    by (auto simp: falls_def)
  show "x \<in> falls es \<union> (\<lambda>x. dsub x e) ` set (es @ [e])"
  proof (cases "j < length es")
    case True
    with ij have "x = dsub (es ! i) (es ! j)" by (simp add: nth_append)
    with True ij(1) show ?thesis by (auto simp: falls_def)
  next
    case False
    with ij have "x = dsub ((es @ [e]) ! i) e" "i < length (es @ [e])" by auto
    then show ?thesis using nth_mem by blast
  qed
next
  fix x assume "x \<in> falls es \<union> (\<lambda>x. dsub x e) ` set (es @ [e])"
  then show "x \<in> falls (es @ [e])"
  proof
    assume "x \<in> falls es"
    then obtain i j where ij: "i \<le> j" "j < length es" "x = dsub (es ! i) (es ! j)"
      by (auto simp: falls_def)
    then have "x = dsub ((es @ [e]) ! i) ((es @ [e]) ! j)" by (simp add: nth_append)
    with ij(1,2) show ?thesis unfolding falls_def by (intro CollectI exI conjI) auto
  next
    assume "x \<in> (\<lambda>x. dsub x e) ` set (es @ [e])"
    then obtain i where "i < length (es @ [e])" "x = dsub ((es @ [e]) ! i) e"
      unfolding set_conv_nth by blast
    then show ?thesis unfolding falls_def
      by (intro CollectI exI [of _ i] exI [of _ "length es"] conjI) auto
  qed
qed

lemma finite_falls: "finite (falls es)"
proof -
  have "falls es \<subseteq> (\<lambda>(i, j). dsub (es ! i) (es ! j)) ` ({..<length es} \<times> {..<length es})"
    unfolding falls_def by auto
  then show ?thesis by (rule finite_subset) simp
qed

lemma falls_self: "es \<noteq> [] \<Longrightarrow> 0 \<in> falls es"
  unfolding falls_def by (auto simp: dsub_def intro!: exI [of _ "0::nat"])

lemma path_state:
  "foldl path_step (e, e, 0) xs
     = (last (equity_path e xs), Max (set (equity_path e xs)), Max (falls (equity_path e xs)))"
proof (induction xs rule: rev_induct)
  case Nil
  then show ?case by (simp add: falls_def dsub_def)
next
  case (snoc x xs)
  let ?es = "equity_path e xs"
  let ?eq = "dadd (last ?es) x"
  have pk: "(if Max (set ?es) < ?eq then ?eq else Max (set ?es)) = Max (set (?es @ [?eq]))"
    by (simp only: set_append list.set insert_is_Un [symmetric] Un_insert_right Un_empty_right
        Max_insert [OF finite_set] set_empty equity_path_not_Nil not_False_eq_True max_if)
  have mono: "mono (\<lambda>y. dsub y ?eq)" by (rule monoI) (simp add: dsub_mono)
  have dd: "dsub (Max (set (?es @ [?eq]))) ?eq = Max ((\<lambda>y. dsub y ?eq) ` set (?es @ [?eq]))"
    by (rule mono_Max_commute [OF mono]) simp_all
  have "Max (falls (?es @ [?eq])) = max (Max (falls ?es)) (Max ((\<lambda>y. dsub y ?eq) ` set (?es @ [?eq])))"
    unfolding falls_snoc using falls_self [of ?es] by (intro Max_Un finite_falls) auto
  then have third: "(if Max (falls ?es) < dsub (Max (set (?es @ [?eq]))) ?eq
      then dsub (Max (set (?es @ [?eq]))) ?eq else Max (falls ?es)) = Max (falls (?es @ [?eq]))"
    unfolding dd by (simp only: max_if [symmetric] max.commute)
  have "foldl path_step (e, e, 0) (xs @ [x]) = path_step (last ?es, Max (set ?es), Max (falls ?es)) x"
    by (simp only: foldl_append foldl.simps snoc)
  also have "\<dots> = (?eq, Max (set (?es @ [?eq])), Max (falls (?es @ [?eq])))"
    by (simp only: path_step_def prod.case Let_def pk third)
  finally show ?case by (simp only: equity_path_snoc last_snoc)
qed

lemma slippage_runs_values:
  "slippage_runs c envs ticks steps = Inr rs \<Longrightarrow>
     map rr_perturbation_value rs = filter (\<lambda>s. s \<noteq> bc_slippage_points c) steps
     \<and> (\<forall>r \<in> set rs. rr_perturbation_type r = SLIPPAGE)"
  by (induction steps arbitrary: rs) (auto elim!: bind_res_InrE split: if_splits)

lemma drawdown_stats_sound:
  assumes "drawdown_stats dds = Inr (med, mx)"
  shows "med \<in> set dds \<and> mx \<in> set dds \<and> (\<forall>d \<in> set dds. d \<le> mx)"
proof -
  from assms have dds: "dds \<noteq> []" "med = sort dds ! (length dds div 2)" "mx = Max (set dds)"
    by (auto simp: drawdown_stats_def split: if_splits)
  have "length dds div 2 < length (sort dds)" using dds(1) by simp
  then have "med \<in> set (sort dds)" unfolding dds(2) by (rule nth_mem)
  then show ?thesis using dds by simp
qed

subsection \<open>Properties\<close>

text \<open>
  the walk-forward split partitions the data in order.  For non-negative ratios the training,
  validation and out-of-sample ticks, one after the other, are exactly the input ticks: no tick is
  lost, repeated or moved, whatever the float rounding of the split points does.
\<close>

theorem walk_forward_partitions:
  assumes "0 \<le> train_ratio" "0 \<le> validation_ratio" "dec_fits train_ratio"
    and "walk_forward_split train_ratio validation_ratio ticks = (train, validation, oos)"
  shows "train @ validation @ oos = ticks"
proof -
  have "train_ratio \<le> dadd train_ratio validation_ratio" by (rule dadd_ge_left) (use assms in auto)
  then have "split_point (length ticks) train_ratio \<le> split_point (length ticks) (dadd train_ratio validation_ratio)"
    by (rule split_point_mono)
  from py_slices_partition [OF split_point_nonneg [OF assms(1)] this] assms(4)
  show ?thesis by (auto simp: walk_forward_split_def Let_def)
qed

lemma demo_split: "walk_forward_split (1 / 2) (1 / 4) demo_ticks
    = (take 2 demo_ticks, take 1 (drop 2 demo_ticks), drop 3 demo_ticks)"
proof -
  have f: "f64 4 = 4" "f64 (1 / 2) = 1 / 2" "f64 (3 / 4) = 3 / 4" "f64 2 = 2" "f64 3 = 3"
  proof -
    have "f64_fits (of_int n / 4)" if "\<bar>n\<bar> \<le> 2 ^ 53" for n
      unfolding f64_fits_def radix_fits_def
      by (rule exI [of _ n], rule exI [of _ "- 2"]) (use that in \<open>simp add: power_int_minus\<close>)
    from fl.rd_fits [OF this [of 16]] fl.rd_fits [OF this [of 2]] fl.rd_fits [OF this [of 3]]
      fl.rd_fits [OF this [of 8]] fl.rd_fits [OF this [of 12]]
    show "f64 4 = 4" "f64 (1 / 2) = 1 / 2" "f64 (3 / 4) = 3 / 4" "f64 2 = 2" "f64 3 = 3" by simp_all
  qed
  have d: "dadd (1 / 2) (1 / 4) = 3 / 4" unfolding dadd_def by (subst dctx_short) simp_all
  have "split_point 4 (1 / 2) = 2" "split_point 4 (dadd (1 / 2) (1 / 4)) = 3"
    unfolding d by (simp_all add: split_point_def f py_int_def)
  moreover have "length demo_ticks = 4" by (simp add: demo_ticks_def)
  ultimately show ?thesis
    by (simp add: walk_forward_split_def py_slice_def slice_index_def Let_def)
       (simp add: demo_ticks_def)
qed

theorem walk_forward_partitions_witness:
  "walk_forward_split (1 / 2) (1 / 4) demo_ticks
     = (take 2 demo_ticks, take 1 (drop 2 demo_ticks), drop 3 demo_ticks)
   \<and> take 2 demo_ticks @ take 1 (drop 2 demo_ticks) @ drop 3 demo_ticks = demo_ticks"
  using walk_forward_partitions [OF _ _ _ demo_split] demo_split
  by (simp add: dec_fits_scaled [of "1 / 2" 1 5])

text \<open>
  C16: the one-pass drawdown is the maximum fall.  For every sequence of results, the loop of the
  Monte-Carlo test returns the largest difference between an equity and a later (or the same)
  equity of the path, computed in the same decimal arithmetic.
\<close>

theorem path_drawdown_is_max_fall:
  "path_drawdown initial pnls = Max (falls (equity_path initial pnls))
   \<and> (\<forall>i j. i \<le> j \<longrightarrow> j < length (equity_path initial pnls) \<longrightarrow>
        dsub (equity_path initial pnls ! i) (equity_path initial pnls ! j) \<le> path_drawdown initial pnls)"
proof -
  have eq: "path_drawdown initial pnls = Max (falls (equity_path initial pnls))"
    by (simp add: path_drawdown_def path_state)
  have "dsub (equity_path initial pnls ! i) (equity_path initial pnls ! j) \<le> path_drawdown initial pnls"
    if "i \<le> j" "j < length (equity_path initial pnls)" for i j
    unfolding eq by (rule Max_ge [OF finite_falls]) (use that in \<open>auto simp: falls_def\<close>)
  with eq show ?thesis by blast
qed

theorem path_drawdown_is_max_fall_witness:
  "dsub (equity_path 100 [10, - 30] ! 1) (equity_path 100 [10, - 30] ! 2) \<le> path_drawdown 100 [10, - 30]
   \<and> path_drawdown 100 [10, - 30] = 30"
proof
  show "path_drawdown 100 [10, - 30] = 30"
    by (simp add: path_drawdown_def path_step_def Let_def dec_ops dec_simps)
  show "dsub (equity_path 100 [10, - 30] ! 1) (equity_path 100 [10, - 30] ! 2) \<le> path_drawdown 100 [10, - 30]"
    by (rule path_drawdown_is_max_fall [THEN conjunct2, rule_format]) simp_all
qed

end
