(* ===== verification/Exec_Commands.thy ===== *)
theory Exec_Commands
  imports Decimals
begin

section \<open>Execution commands (\<open>backend/execution/commands.py\<close>)\<close>

text \<open>
  The in-memory command and its state machine.  \<open>transition_to\<close> returns the Boolean of the code and
  the command as it is left; \<open>cmd_step\<close> is the relation of its successful calls.
\<close>

datatype command_action = ORDER_OPEN | ORDER_CLOSE | BASKET_CLOSE | POSITION_MODIFY

datatype command_state =
    CREATED | SENT | ACKNOWLEDGED | EXECUTING | FILLED | PARTIALLY_FILLED | REJECTED | EXPIRED | RECONCILED

datatype side = SIDE_BUY | SIDE_SELL

fun valid_transitions :: "command_state \<Rightarrow> command_state set" where
  "valid_transitions CREATED = {SENT, EXPIRED, REJECTED}"
| "valid_transitions SENT = {ACKNOWLEDGED, EXPIRED, REJECTED}"
| "valid_transitions ACKNOWLEDGED = {EXECUTING, EXPIRED, REJECTED}"
| "valid_transitions EXECUTING = {FILLED, PARTIALLY_FILLED, REJECTED, EXPIRED}"
| "valid_transitions FILLED = {RECONCILED}"
| "valid_transitions PARTIALLY_FILLED = {FILLED, RECONCILED}"
| "valid_transitions REJECTED = {}"
| "valid_transitions EXPIRED = {}"
| "valid_transitions RECONCILED = {}"

record exec_command =
  ec_command_id :: string
  ec_account_id :: string
  ec_action :: command_action
  ec_symbol :: string
  ec_order_type :: side
  ec_volume_lots :: dec
  ec_price :: dec
  ec_slippage_points :: int
  ec_idempotency_key :: string
  ec_correlation_id :: string
  ec_state :: command_state
  ec_signal_id :: "string option"
  ec_stop_loss :: "dec option"
  ec_take_profit :: "dec option"
  ec_magic_number :: int
  ec_position_ticket :: "int option"
  ec_created_at :: instant
  ec_expires_at :: instant
  ec_sent_at :: "instant option"
  ec_acknowledged_at :: "instant option"
  ec_fill_price :: "dec option"
  ec_fill_volume_lots :: "dec option"
  ec_broker_ticket :: "int option"
  ec_rejection_reason :: "string option"

definition cmd_is_expired :: "instant \<Rightarrow> exec_command \<Rightarrow> bool" where
  "cmd_is_expired now c \<longleftrightarrow> ec_expires_at c < now"

definition cmd_is_terminal :: "exec_command \<Rightarrow> bool" where
  "cmd_is_terminal c \<longleftrightarrow> ec_state c \<in> {FILLED, REJECTED, EXPIRED, RECONCILED}"

definition transition_to ::
  "instant \<Rightarrow> command_state \<Rightarrow> string option \<Rightarrow> exec_command \<Rightarrow> bool \<times> exec_command" where
  "transition_to now new_state reason c =
     (if new_state \<notin> valid_transitions (ec_state c) then (False, c)
      else let c1 = c\<lparr>ec_state := new_state\<rparr>;
               c2 = (case reason of
                       Some r \<Rightarrow> if r \<noteq> [] then c1\<lparr>ec_rejection_reason := Some r\<rparr> else c1
                     | None \<Rightarrow> c1)
           in (True, if new_state = SENT then c2\<lparr>ec_sent_at := Some now\<rparr>
                     else if new_state = ACKNOWLEDGED then c2\<lparr>ec_acknowledged_at := Some now\<rparr>
                     else c2))"

subsection \<open>The state machine\<close>

inductive cmd_step :: "exec_command \<Rightarrow> exec_command \<Rightarrow> bool" where
  step: "transition_to now new_state reason c = (True, c') \<Longrightarrow> cmd_step c c'"

inductive cmd_steps :: "exec_command \<Rightarrow> nat \<Rightarrow> exec_command \<Rightarrow> bool" where
  none: "cmd_steps c 0 c"
| more: "cmd_steps c n c' \<Longrightarrow> cmd_step c' c'' \<Longrightarrow> cmd_steps c (Suc n) c''"

inductive_cases cmd_stepE: "cmd_step c c'"
inductive_cases cmd_stepsE: "cmd_steps c n c'"

text \<open>The most transitions that can lead to a state.\<close>

fun depth :: "command_state \<Rightarrow> nat" where
  "depth CREATED = 0"
| "depth SENT = 1"
| "depth ACKNOWLEDGED = 2"
| "depth EXECUTING = 3"
| "depth PARTIALLY_FILLED = 4"
| "depth FILLED = 5"
| "depth REJECTED = 4"
| "depth EXPIRED = 4"
| "depth RECONCILED = 6"

lemma depth_le_6: "depth s \<le> 6" "depth s = 6 \<Longrightarrow> s = RECONCILED"
  by (cases s; simp)+

lemma transition_state:
  assumes "transition_to now new_state reason c = (b, c')"
  shows "b \<longleftrightarrow> new_state \<in> valid_transitions (ec_state c)"
    "ec_state c' = (if b then new_state else ec_state c)" "\<not> b \<Longrightarrow> c' = c"
  using assms by (auto simp: transition_to_def Let_def split: if_splits option.splits)

lemma transition_frame [simp]:
  "ec_command_id (snd (transition_to now s r c)) = ec_command_id c"
  "ec_account_id (snd (transition_to now s r c)) = ec_account_id c"
  "ec_volume_lots (snd (transition_to now s r c)) = ec_volume_lots c"
  "ec_order_type (snd (transition_to now s r c)) = ec_order_type c"
  "ec_symbol (snd (transition_to now s r c)) = ec_symbol c"
  "ec_action (snd (transition_to now s r c)) = ec_action c"
  "ec_expires_at (snd (transition_to now s r c)) = ec_expires_at c"
  "ec_stop_loss (snd (transition_to now s r c)) = ec_stop_loss c"
  "ec_take_profit (snd (transition_to now s r c)) = ec_take_profit c"
  "ec_idempotency_key (snd (transition_to now s r c)) = ec_idempotency_key c"
  by (auto simp: transition_to_def Let_def split: option.split)

lemma depth_increases: "s' \<in> valid_transitions s \<Longrightarrow> depth s < depth s'"
  by (cases s) auto

lemma cmd_step_valid:
  assumes "cmd_step c c'" shows "ec_state c' \<in> valid_transitions (ec_state c)"
proof -
  from assms obtain now new_state reason where t: "transition_to now new_state reason c = (True, c')"
    by (rule cmd_stepE)
  from transition_state(1,2) [OF t] show ?thesis by simp
qed

lemma cmd_steps_depth: "cmd_steps c n c' \<Longrightarrow> n + depth (ec_state c) \<le> depth (ec_state c')"
  by (induction rule: cmd_steps.induct) (auto dest!: cmd_step_valid dest: depth_increases)

text \<open>The timestamps that a command in a given state carries.\<close>

definition stamped :: "exec_command \<Rightarrow> bool" where
  "stamped c \<longleftrightarrow>
     (ec_state c \<in> {SENT, ACKNOWLEDGED, EXECUTING, FILLED, PARTIALLY_FILLED, RECONCILED}
        \<longrightarrow> ec_sent_at c \<noteq> None)
     \<and> (ec_state c \<in> {ACKNOWLEDGED, EXECUTING, FILLED, PARTIALLY_FILLED, RECONCILED}
        \<longrightarrow> ec_acknowledged_at c \<noteq> None)"

lemma stamped_step [inv_intros]: "cmd_step c c' \<Longrightarrow> stamped c \<Longrightarrow> stamped c'"
proof (elim cmd_stepE)
  fix now new_state reason
  assume "transition_to now new_state reason c = (True, c')" "stamped c"
  then show "stamped c'"
    by (cases "ec_state c")
       (auto simp: transition_to_def stamped_def Let_def split: if_splits option.splits)
qed

lemma stamped_steps [inv_intros]: "cmd_steps c n c' \<Longrightarrow> stamped c \<Longrightarrow> stamped c'"
  by (induction rule: cmd_steps.induct) (auto intro: inv_intros)

subsection \<open>Properties\<close>

text \<open>
  C15: the command lifecycle is a bounded, stamped, forward-only machine.  From a new command at
  most six transitions succeed, in any order of calls, and after six it is RECONCILED; a rejected, expired or reconciled
  command changes no more; a command past SENT carries its send time, one past ACKNOWLEDGED its
  acknowledgement time.
\<close>

theorem command_lifecycle:
  assumes "cmd_steps c n c'" "ec_state c = CREATED"
  shows "n \<le> 6 \<and> (n = 6 \<longrightarrow> ec_state c' = RECONCILED)
    \<and> (ec_state c' \<in> {REJECTED, EXPIRED, RECONCILED} \<longrightarrow> (\<forall>c''. \<not> cmd_step c' c''))
    \<and> (ec_state c' \<in> {SENT, ACKNOWLEDGED, EXECUTING, FILLED, PARTIALLY_FILLED, RECONCILED}
         \<longrightarrow> ec_sent_at c' \<noteq> None)
    \<and> (ec_state c' \<in> {ACKNOWLEDGED, EXECUTING, FILLED, PARTIALLY_FILLED, RECONCILED}
         \<longrightarrow> ec_acknowledged_at c' \<noteq> None)"
proof -
  have b: "n \<le> depth (ec_state c')" using cmd_steps_depth [OF assms(1)] assms(2) by simp
  have "stamped c" using assms(2) by (simp add: stamped_def)
  with assms(1) have st: "stamped c'" by (rule stamped_steps)
  have dead: "\<not> cmd_step c' c''" if "ec_state c' \<in> {REJECTED, EXPIRED, RECONCILED}" for c''
    using that cmd_step_valid [of c' c''] by auto
  have "n \<le> 6" "n = 6 \<longrightarrow> ec_state c' = RECONCILED"
    using b depth_le_6 [of "ec_state c'"] by auto
  with st dead show ?thesis unfolding stamped_def by blast
qed

definition demo_command :: exec_command where
  "demo_command =
     \<lparr>ec_command_id = ''c1'', ec_account_id = ''acc'', ec_action = ORDER_OPEN, ec_symbol = ''XAUUSD'',
      ec_order_type = SIDE_BUY, ec_volume_lots = 1 / 10, ec_price = 2000, ec_slippage_points = 20,
      ec_idempotency_key = ''k1'', ec_correlation_id = ''id'', ec_state = CREATED,
      ec_signal_id = None, ec_stop_loss = Some 1990, ec_take_profit = Some 2020,
      ec_magic_number = 202609, ec_position_ticket = None, ec_created_at = 0, ec_expires_at = 5000000,
      ec_sent_at = None, ec_acknowledged_at = None,
      ec_fill_price = None, ec_fill_volume_lots = None, ec_broker_ticket = None, ec_rejection_reason = None\<rparr>"

theorem command_lifecycle_witness:
  "\<exists>c'. cmd_steps demo_command 2 c' \<and> ec_state c' = ACKNOWLEDGED \<and> ec_sent_at c' \<noteq> None
     \<and> ec_acknowledged_at c' \<noteq> None"
proof -
  let ?c1 = "snd (transition_to 1 SENT None demo_command)"
  let ?c2 = "snd (transition_to 2 ACKNOWLEDGED None ?c1)"
  have "cmd_step demo_command ?c1"
    by (rule cmd_step.step [of 1 SENT None]) (simp add: transition_to_def demo_command_def)
  moreover have "cmd_step ?c1 ?c2"
    by (rule cmd_step.step [of 2 ACKNOWLEDGED None]) (simp add: transition_to_def demo_command_def)
  ultimately have steps: "cmd_steps demo_command (Suc (Suc 0)) ?c2"
    using cmd_steps.none cmd_steps.more by blast
  have st: "ec_state ?c2 = ACKNOWLEDGED" by (simp add: transition_to_def demo_command_def)
  from command_lifecycle [OF steps] st steps show ?thesis
    by (intro exI [of _ ?c2]) (simp add: demo_command_def numeral_2_eq_2)
qed

end
