(* ===== verification/Broker_Simulators.thy ===== *)
theory Broker_Simulators
  imports Exec_Commands "HOL-Library.AList"
begin

section \<open>Reports and simulators (\<open>backend/execution/reports.py\<close>, \<open>simulator.py\<close>, \<open>backend/simulation/adapters.py\<close>)\<close>

text \<open>
  The report types, the two simulated brokers, and the contract both meet: the locale \<open>broker\<close>,
  which the reconciliation theory uses.  A dict keyed by ticket is an association list in insertion
  order.  The response blob keeps which response it is and its variable part.
\<close>

datatype exec_status = ES_FILLED | ES_PARTIALLY_FILLED | ES_REJECTED | ES_EXPIRED | ES_ERROR

datatype broker_response =
    CommandExpiredInSimulator
  | SimulatedFillOk int
  | SimulatedCloseOk
  | UnsupportedAction command_action

record account_state_report =
  ar_account_id :: string
  ar_agent_id :: string
  ar_balance_broker :: dec
  ar_equity_broker :: dec
  ar_margin_broker :: dec
  ar_free_margin_broker :: dec
  ar_floating_pnl_broker :: dec
  ar_open_positions :: nat
  ar_reported_at :: instant

record position_report =
  pr_account_id :: string
  pr_broker_ticket :: int
  pr_symbol :: string
  pr_side :: side
  pr_lots :: dec
  pr_open_price :: dec
  pr_current_price :: dec
  pr_stop_loss :: "dec option"
  pr_take_profit :: "dec option"
  pr_unrealized_pnl_broker :: dec
  pr_commission_broker :: dec
  pr_swap_broker :: dec
  pr_magic_number :: int
  pr_reported_at :: instant

record exec_report =
  er_command_id :: string
  er_account_id :: string
  er_report_id :: string
  er_correlation_id :: string
  er_status :: exec_status
  er_broker_ticket :: "int option"
  er_broker_deal_id :: "int option"
  er_fill_price :: "dec option"
  er_filled_volume_lots :: "dec option"
  er_slippage_points :: "int option"
  er_commission_usd :: "dec option"
  er_swap_usd :: "dec option"
  er_broker_error_code :: "int option"
  er_broker_error_message :: "string option"
  er_reported_at :: instant
  er_is_simulated :: bool
  er_raw_broker_response :: "broker_response option"

text \<open>
  \<open>ExecutionReport.__init__\<close>: the aliased arguments and the defaults.  A caller's other keyword
  arguments are record updates of the result.
\<close>

definition exec_report_init ::
  "instant \<Rightarrow> string \<Rightarrow> string \<Rightarrow> exec_status \<Rightarrow> dec option \<Rightarrow> dec option \<Rightarrow> dec option \<Rightarrow> dec option
     \<Rightarrow> dec option \<Rightarrow> dec option \<Rightarrow> instant option \<Rightarrow> instant option \<Rightarrow> exec_report" where
  "exec_report_init now cmd acc status filled fill com_usd com_broker swp_usd swp_broker reported executed =
     \<lparr>er_command_id = cmd, er_account_id = acc, er_report_id = [], er_correlation_id = [],
      er_status = status, er_broker_ticket = None, er_broker_deal_id = None, er_fill_price = None,
      er_filled_volume_lots = orelse filled fill, er_slippage_points = Some 0,
      er_commission_usd = orelse com_usd com_broker, er_swap_usd = orelse swp_usd swp_broker,
      er_broker_error_code = None, er_broker_error_message = None,
      er_reported_at = (case orelse reported executed of Some t \<Rightarrow> t | None \<Rightarrow> now),
      er_is_simulated = False, er_raw_broker_response = None\<rparr>"

definition report_is_filled :: "exec_report \<Rightarrow> bool" where
  "report_is_filled r \<longleftrightarrow> er_status r = ES_FILLED"

subsection \<open>The simulator of the execution service\<close>

record mt5_simulator =
  sm_bid :: dec
  sm_ask :: dec
  sm_ticket_counter :: int
  sm_positions :: "(int \<times> position_report) list"

definition mt5_simulator_init :: "dec \<Rightarrow> dec \<Rightarrow> mt5_simulator" where
  "mt5_simulator_init bid ask =
     \<lparr>sm_bid = bid, sm_ask = ask, sm_ticket_counter = 1000000, sm_positions = []\<rparr>"

definition sm_next_ticket :: "mt5_simulator \<Rightarrow> int \<times> mt5_simulator" where
  "sm_next_ticket s = (sm_ticket_counter s + 1, s\<lparr>sm_ticket_counter := sm_ticket_counter s + 1\<rparr>)"

definition sm_open_positions :: "mt5_simulator \<Rightarrow> position_report list" where
  "sm_open_positions s = map snd (sm_positions s)"

definition new_position ::
  "string \<Rightarrow> int \<Rightarrow> side \<Rightarrow> dec \<Rightarrow> dec \<Rightarrow> instant \<Rightarrow> exec_command \<Rightarrow> position_report" where
  "new_position acc ticket sd price commission now c =
     \<lparr>pr_account_id = acc, pr_broker_ticket = ticket, pr_symbol = ec_symbol c, pr_side = sd,
      pr_lots = ec_volume_lots c, pr_open_price = price, pr_current_price = price,
      pr_stop_loss = ec_stop_loss c, pr_take_profit = ec_take_profit c,
      pr_unrealized_pnl_broker = 0, pr_commission_broker = commission, pr_swap_broker = 0,
      pr_magic_number = ec_magic_number c, pr_reported_at = now\<rparr>"

text \<open>\<open>if target and target in positions: del positions[target]\<close>; a ticket 0 counts as missing.\<close>

definition drop_position ::
  "int option \<Rightarrow> (int \<times> position_report) list \<Rightarrow> (int \<times> position_report) list" where
  "drop_position target ps =
     (case target of
        Some k \<Rightarrow> if k \<noteq> 0 \<and> k \<in> fst ` set ps then AList.delete k ps else ps
      | None \<Rightarrow> ps)"

definition sm_report ::
  "instant \<Rightarrow> exec_command \<Rightarrow> exec_status \<Rightarrow> dec option \<Rightarrow> broker_response \<Rightarrow> exec_report" where
  "sm_report now c status filled resp =
     (exec_report_init now (ec_command_id c) (ec_account_id c) status filled None None None None None
        (Some now) None)
       \<lparr>er_report_id := ''rep_'' @ ec_command_id c, er_is_simulated := True,
        er_raw_broker_response := Some resp\<rparr>"

definition sm_execute ::
  "instant \<Rightarrow> exec_command \<Rightarrow> dec option \<Rightarrow> mt5_simulator \<Rightarrow> exec_report \<times> mt5_simulator" where
  "sm_execute now c price s =
     (if cmd_is_expired now c
      then (sm_report now c ES_EXPIRED None CommandExpiredInSimulator, s)
      else if ec_action c = ORDER_OPEN then
        let fill = or_default price (if ec_order_type c = SIDE_BUY then sm_ask s else sm_bid s);
            (ticket, s1) = sm_next_ticket s;
            pos = new_position (ec_account_id c) ticket (ec_order_type c) fill 0 now c
        in ((sm_report now c ES_FILLED (Some (ec_volume_lots c)) (SimulatedFillOk ticket))
              \<lparr>er_broker_ticket := Some ticket, er_fill_price := Some fill,
               er_commission_usd := Some 0, er_swap_usd := Some 0\<rparr>,
            s1\<lparr>sm_positions := AList.update ticket pos (sm_positions s1)\<rparr>)
      else if ec_action c = ORDER_CLOSE \<or> ec_action c = BASKET_CLOSE then
        ((sm_report now c ES_FILLED (Some (ec_volume_lots c)) SimulatedCloseOk)
           \<lparr>er_broker_ticket := ec_position_ticket c, er_fill_price := Some (or_default price (sm_bid s))\<rparr>,
         s\<lparr>sm_positions := drop_position (ec_position_ticket c) (sm_positions s)\<rparr>)
      else (sm_report now c ES_REJECTED None (UnsupportedAction (ec_action c)), s))"

subsection \<open>The standalone agent simulator\<close>

record agent_simulator =
  sa_account_id :: string
  sa_agent_id :: string
  sa_balance :: dec
  sa_equity :: dec
  sa_positions :: "(int \<times> position_report) list"
  sa_ticket_counter :: int

definition agent_simulator_init :: "string \<Rightarrow> string \<Rightarrow> dec \<Rightarrow> agent_simulator" where
  "agent_simulator_init acc agent balance =
     \<lparr>sa_account_id = acc, sa_agent_id = agent, sa_balance = balance, sa_equity = balance,
      sa_positions = [], sa_ticket_counter = 800001\<rparr>"

definition sa_report ::
  "instant \<Rightarrow> agent_simulator \<Rightarrow> exec_command \<Rightarrow> exec_status \<Rightarrow> dec option \<Rightarrow> exec_report" where
  "sa_report now s c status filled =
     (exec_report_init now (ec_command_id c) (sa_account_id s) status filled None None None None None
        None None)\<lparr>er_is_simulated := True\<rparr>"

definition sa_process ::
  "(nat \<Rightarrow> string) \<Rightarrow> instant \<Rightarrow> exec_command \<Rightarrow> dec option \<Rightarrow> agent_simulator \<Rightarrow> exec_report \<times> agent_simulator" where
  "sa_process fresh now c price s =
     (if cmd_is_expired now c
      then ((sa_report now s c ES_EXPIRED None)
              \<lparr>er_broker_error_message := Some ''Command expired before execution''\<rparr>, s)
      else
        let fill = or_default price (ec_price c);
            ticket = sa_ticket_counter s;
            s1 = s\<lparr>sa_ticket_counter := ticket + 1\<rparr>;
            rid = fresh (nat ticket)
        in if ec_action c = ORDER_OPEN then
             ((sa_report now s c ES_FILLED (Some (ec_volume_lots c)))
                \<lparr>er_report_id := rid, er_correlation_id := ec_correlation_id c,
                 er_broker_ticket := Some ticket, er_fill_price := Some fill,
                 er_commission_usd := Some (5 / 100), er_swap_usd := Some 0\<rparr>,
              s1\<lparr>sa_positions := AList.update ticket
                   (new_position (sa_account_id s) ticket (ec_order_type c) fill (5 / 100) now c)
                   (sa_positions s1)\<rparr>)
           else if ec_action c = ORDER_CLOSE then
             ((sa_report now s c ES_FILLED (Some (ec_volume_lots c)))
                \<lparr>er_report_id := rid, er_correlation_id := ec_correlation_id c,
                 er_broker_ticket := ec_position_ticket c, er_fill_price := Some fill\<rparr>,
              s1\<lparr>sa_positions := drop_position (ec_position_ticket c) (sa_positions s1)\<rparr>)
           else ((sa_report now s c ES_REJECTED None)
                   \<lparr>er_raw_broker_response := None,
                    er_broker_error_message := Some ''Unsupported simulated action''\<rparr>, s1))"

definition sa_open_positions :: "agent_simulator \<Rightarrow> position_report list" where
  "sa_open_positions s = map snd (sa_positions s)"

definition sa_account_state :: "instant \<Rightarrow> agent_simulator \<Rightarrow> account_state_report" where
  "sa_account_state now s =
     \<lparr>ar_account_id = sa_account_id s, ar_agent_id = sa_agent_id s, ar_balance_broker = sa_balance s,
      ar_equity_broker = sa_equity s, ar_margin_broker = 0, ar_free_margin_broker = sa_equity s,
      ar_floating_pnl_broker = 0, ar_open_positions = length (sa_positions s),
      ar_reported_at = now\<rparr>"

record heartbeat =
  hb_agent_id :: string
  hb_account_id :: string
  hb_status :: string
  hb_mode :: string
  hb_timestamp :: instant
  hb_open_positions :: nat

definition sa_heartbeat :: "instant \<Rightarrow> agent_simulator \<Rightarrow> heartbeat" where
  "sa_heartbeat now s =
     \<lparr>hb_agent_id = sa_agent_id s, hb_account_id = sa_account_id s, hb_status = ''CONNECTED'',
      hb_mode = ''SIMULATION'', hb_timestamp = now, hb_open_positions = length (sa_positions s)\<rparr>"

subsection \<open>The contract of a broker\<close>

text \<open>
  Expired commands change nothing; an opening order fills completely and adds one position under a
  fresh ticket; a closing order removes exactly the position it names; tickets never collide.
\<close>

locale broker =
  fixes execute :: "instant \<Rightarrow> exec_command \<Rightarrow> dec option \<Rightarrow> 'b \<Rightarrow> exec_report \<times> 'b"
    and positions :: "'b \<Rightarrow> position_report list"
    and inv :: "'b \<Rightarrow> bool"
  assumes inv_execute: "inv b \<Longrightarrow> inv (snd (execute now c price b))"
    and distinct_tickets: "inv b \<Longrightarrow> distinct (map pr_broker_ticket (positions b))"
    and expired: "cmd_is_expired now c \<Longrightarrow>
      er_status (fst (execute now c price b)) = ES_EXPIRED \<and> positions (snd (execute now c price b)) = positions b"
    and opened: "inv b \<Longrightarrow> \<not> cmd_is_expired now c \<Longrightarrow> ec_action c = ORDER_OPEN \<Longrightarrow>
      \<exists>p. positions (snd (execute now c price b)) = positions b @ [p]
        \<and> pr_lots p = ec_volume_lots c \<and> pr_side p = ec_order_type c \<and> pr_broker_ticket p \<noteq> 0
        \<and> er_status (fst (execute now c price b)) = ES_FILLED
        \<and> er_broker_ticket (fst (execute now c price b)) = Some (pr_broker_ticket p)
        \<and> er_filled_volume_lots (fst (execute now c price b)) = Some (pr_lots p)"
    and closed: "inv b \<Longrightarrow> \<not> cmd_is_expired now c \<Longrightarrow> ec_action c = ORDER_CLOSE \<Longrightarrow>
      positions (snd (execute now c price b))
        = filter (\<lambda>p. ec_position_ticket c \<noteq> Some (pr_broker_ticket p)) (positions b)"
begin

lemma fresh_ticket:
  assumes "inv b" "\<not> cmd_is_expired now c" "ec_action c = ORDER_OPEN"
    "er_broker_ticket (fst (execute now c price b)) = Some k"
  shows "k \<notin> pr_broker_ticket ` set (positions b)"
proof -
  from opened [OF assms(1-3)] obtain p where
    "positions (snd (execute now c price b)) = positions b @ [p]" "pr_broker_ticket p = k"
    using assms(4) by fastforce
  with distinct_tickets [OF inv_execute [OF assms(1)], of now c price] show ?thesis by auto
qed

lemma close_undoes_open:
  assumes "inv b" "\<not> cmd_is_expired now c" "ec_action c = ORDER_OPEN"
    "\<not> cmd_is_expired now' c'" "ec_action c' = ORDER_CLOSE"
    "ec_position_ticket c' = er_broker_ticket (fst (execute now c price b))"
  shows "positions (snd (execute now' c' price' (snd (execute now c price b)))) = positions b"
proof -
  from opened [OF assms(1-3)] obtain p where p:
    "positions (snd (execute now c price b)) = positions b @ [p]"
    "er_broker_ticket (fst (execute now c price b)) = Some (pr_broker_ticket p)" by blast
  have "pr_broker_ticket p \<notin> pr_broker_ticket ` set (positions b)"
    using fresh_ticket [OF assms(1-3) p(2)] .
  then have "filter (\<lambda>q. Some (pr_broker_ticket p) \<noteq> Some (pr_broker_ticket q)) (positions b) = positions b"
    by (intro filter_True) auto
  with closed [OF inv_execute [OF assms(1)] assms(4,5)] p assms(6) show ?thesis by simp
qed

end

subsection \<open>Both simulators meet it\<close>

definition tickets_ok :: "int \<Rightarrow> (int \<times> position_report) list \<Rightarrow> bool" where
  "tickets_ok n ps \<longleftrightarrow> distinct (map fst ps)
     \<and> (\<forall>(k, p) \<in> set ps. pr_broker_ticket p = k \<and> 0 < k \<and> k < n)"

lemma tickets_ok_Nil [simp]: "tickets_ok n []"
  by (simp add: tickets_ok_def)

lemma tickets_ok_mono: "tickets_ok n ps \<Longrightarrow> n \<le> m \<Longrightarrow> tickets_ok m ps"
  by (auto simp: tickets_ok_def)

lemma tickets_ok_distinct: "tickets_ok n ps \<Longrightarrow> distinct (map pr_broker_ticket (map snd ps))"
proof -
  assume ok: "tickets_ok n ps"
  then have "map pr_broker_ticket (map snd ps) = map fst ps"
    by (auto simp: tickets_ok_def intro: map_cong)
  with ok show ?thesis unfolding tickets_ok_def by (simp only:)
qed

lemma update_fresh: "k \<notin> fst ` set ps \<Longrightarrow> AList.update k p ps = ps @ [(k, p)]"
  by (induction ps) auto

lemma tickets_ok_fresh: "tickets_ok n ps \<Longrightarrow> n \<le> k \<Longrightarrow> k \<notin> fst ` set ps"
  by (auto simp: tickets_ok_def)

lemma tickets_ok_open:
  "tickets_ok n ps \<Longrightarrow> 0 < n \<Longrightarrow> tickets_ok (n + 1) (AList.update n (new_position acc n sd fill com now c) ps)"
  using tickets_ok_fresh [of n ps n]
  by (auto simp: update_fresh tickets_ok_def new_position_def)

lemma tickets_ok_drop: "tickets_ok n ps \<Longrightarrow> tickets_ok n (drop_position t ps)"
  by (auto simp: drop_position_def tickets_ok_def AList.delete_eq distinct_map_filter split: option.split)

lemma drop_position_filter:
  assumes "tickets_ok n ps"
  shows "map snd (drop_position t ps) = filter (\<lambda>p. t \<noteq> Some (pr_broker_ticket p)) (map snd ps)"
proof (cases "\<exists>k. t = Some k \<and> k \<noteq> 0 \<and> k \<in> fst ` set ps")
  case True
  then obtain k where k: "t = Some k" "k \<noteq> 0" "k \<in> fst ` set ps" by blast
  have "filter (\<lambda>(k', _). k \<noteq> k') ps = filter (\<lambda>x. k \<noteq> pr_broker_ticket (snd x)) ps"
    using assms by (intro filter_cong) (auto simp: tickets_ok_def)
  with k show ?thesis by (simp add: drop_position_def AList.delete_eq filter_map comp_def)
next
  case False
  then have "drop_position t ps = ps" by (auto simp: drop_position_def split: option.split)
  moreover have "t \<noteq> Some (pr_broker_ticket p)" if "p \<in> set (map snd ps)" for p
    using that assms False by (force simp: tickets_ok_def)
  ultimately show ?thesis by (simp add: filter_True)
qed

definition sm_inv :: "mt5_simulator \<Rightarrow> bool" where
  "sm_inv s \<longleftrightarrow> 0 \<le> sm_ticket_counter s \<and> tickets_ok (sm_ticket_counter s + 1) (sm_positions s)"

definition sa_inv :: "agent_simulator \<Rightarrow> bool" where
  "sa_inv s \<longleftrightarrow> 0 < sa_ticket_counter s \<and> tickets_ok (sa_ticket_counter s) (sa_positions s)"

lemma sm_inv_init [inv_intros]: "sm_inv (mt5_simulator_init bid ask)"
  by (simp add: sm_inv_def mt5_simulator_init_def)

lemma sa_inv_init [inv_intros]: "sa_inv (agent_simulator_init acc agent balance)"
  by (simp add: sa_inv_def agent_simulator_init_def)

interpretation sm: broker sm_execute sm_open_positions sm_inv
proof
  fix b now c price
  assume inv: "sm_inv b"
  note drop = tickets_ok_drop [of _ "sm_positions b"]
  show "sm_inv (snd (sm_execute now c price b))"
    using inv tickets_ok_open [of "sm_ticket_counter b + 1" "sm_positions b"]
    by (auto simp: sm_inv_def sm_execute_def sm_next_ticket_def Let_def add.assoc intro: drop)
  show "distinct (map pr_broker_ticket (sm_open_positions b))"
    using inv tickets_ok_distinct unfolding sm_inv_def sm_open_positions_def by blast
  assume "\<not> cmd_is_expired now c"
  note ne = this
  show "\<exists>p. sm_open_positions (snd (sm_execute now c price b)) = sm_open_positions b @ [p]
        \<and> pr_lots p = ec_volume_lots c \<and> pr_side p = ec_order_type c \<and> pr_broker_ticket p \<noteq> 0
        \<and> er_status (fst (sm_execute now c price b)) = ES_FILLED
        \<and> er_broker_ticket (fst (sm_execute now c price b)) = Some (pr_broker_ticket p)
        \<and> er_filled_volume_lots (fst (sm_execute now c price b)) = Some (pr_lots p)"
    if "ec_action c = ORDER_OPEN"
    using ne that inv tickets_ok_fresh [of "sm_ticket_counter b + 1" "sm_positions b" "sm_ticket_counter b + 1"]
    by (auto simp: sm_inv_def sm_execute_def sm_next_ticket_def sm_open_positions_def Let_def update_fresh
        new_position_def sm_report_def exec_report_init_def orelse_def)
  show "sm_open_positions (snd (sm_execute now c price b))
        = filter (\<lambda>p. ec_position_ticket c \<noteq> Some (pr_broker_ticket p)) (sm_open_positions b)"
    if "ec_action c = ORDER_CLOSE"
    using ne that inv drop_position_filter [of _ "sm_positions b" "ec_position_ticket c"]
    by (auto simp: sm_inv_def sm_execute_def sm_open_positions_def)
next
  fix now c price and b :: mt5_simulator
  assume "cmd_is_expired now c"
  then show "er_status (fst (sm_execute now c price b)) = ES_EXPIRED
      \<and> sm_open_positions (snd (sm_execute now c price b)) = sm_open_positions b"
    by (simp add: sm_execute_def sm_report_def exec_report_init_def)
qed

interpretation sa: broker "sa_process fresh" sa_open_positions sa_inv for fresh
proof
  fix b now c price
  assume inv: "sa_inv b"
  note drop = tickets_ok_drop [of _ "sa_positions b"] tickets_ok_mono [of "sa_ticket_counter b"]
  show "sa_inv (snd (sa_process fresh now c price b))"
    using inv tickets_ok_open [of "sa_ticket_counter b" "sa_positions b"]
    by (auto simp: sa_inv_def sa_process_def Let_def intro: drop)
  show "distinct (map pr_broker_ticket (sa_open_positions b))"
    using inv tickets_ok_distinct unfolding sa_inv_def sa_open_positions_def by blast
  assume "\<not> cmd_is_expired now c"
  note ne = this
  show "\<exists>p. sa_open_positions (snd (sa_process fresh now c price b)) = sa_open_positions b @ [p]
        \<and> pr_lots p = ec_volume_lots c \<and> pr_side p = ec_order_type c \<and> pr_broker_ticket p \<noteq> 0
        \<and> er_status (fst (sa_process fresh now c price b)) = ES_FILLED
        \<and> er_broker_ticket (fst (sa_process fresh now c price b)) = Some (pr_broker_ticket p)
        \<and> er_filled_volume_lots (fst (sa_process fresh now c price b)) = Some (pr_lots p)"
    if "ec_action c = ORDER_OPEN"
    using ne that inv tickets_ok_fresh [of "sa_ticket_counter b" "sa_positions b" "sa_ticket_counter b"]
    by (auto simp: sa_inv_def sa_process_def sa_open_positions_def Let_def update_fresh
        new_position_def sa_report_def exec_report_init_def orelse_def)
  show "sa_open_positions (snd (sa_process fresh now c price b))
        = filter (\<lambda>p. ec_position_ticket c \<noteq> Some (pr_broker_ticket p)) (sa_open_positions b)"
    if "ec_action c = ORDER_CLOSE"
    using ne that inv drop_position_filter [of _ "sa_positions b" "ec_position_ticket c"]
    by (auto simp: sa_inv_def sa_process_def sa_open_positions_def Let_def)
next
  fix now c price and b :: agent_simulator
  assume "cmd_is_expired now c"
  then show "er_status (fst (sa_process fresh now c price b)) = ES_EXPIRED
      \<and> sa_open_positions (snd (sa_process fresh now c price b)) = sa_open_positions b"
    by (simp add: sa_process_def sa_report_def exec_report_init_def)
qed

end
