(* ===== verification/Reconciliation.thy ===== *)
theory Reconciliation
  imports Broker_Simulators
begin

section \<open>Reconciliation (\<open>backend/execution/reconciliation.py\<close>)\<close>

text \<open>
  The comparison of the server's positions with those a broker reports, as the code's two loops, and
  its specification.  A server entry is the dict the caller builds: each key may be missing.  The
  detail texts are left out.
\<close>

datatype discrepancy_type = ORPHAN | PHANTOM | VOLUME_MISMATCH | SIDE_MISMATCH

record discrepancy =
  di_account_id :: string
  di_broker_ticket :: int
  di_type :: discrepancy_type
  di_server_volume :: "dec option"
  di_broker_volume :: "dec option"

record recon_result =
  rc_account_id :: string
  rc_reconciled_at :: instant
  rc_is_clean :: bool
  rc_matched_count :: nat
  rc_discrepancies :: "discrepancy list"

record server_position =
  sp_lots :: "dec option"
  sp_side :: "string option"
  sp_status :: "string option"

definition has_critical_discrepancy :: "recon_result \<Rightarrow> bool" where
  "has_critical_discrepancy r \<longleftrightarrow>
     list_ex (\<lambda>d. di_type d \<in> {ORPHAN, VOLUME_MISMATCH, SIDE_MISMATCH}) (rc_discrepancies r)"

definition server_lots :: "server_position \<Rightarrow> dec" where
  "server_lots sp = (case sp_lots sp of Some x \<Rightarrow> x | None \<Rightarrow> 0)"

definition server_side :: "server_position \<Rightarrow> string" where
  "server_side sp = (case sp_side sp of Some x \<Rightarrow> x | None \<Rightarrow> [])"

fun side_name :: "side \<Rightarrow> string" where
  "side_name SIDE_BUY = ''BUY''"
| "side_name SIDE_SELL = ''SELL''"

text \<open>The outcome for one position of the broker: no discrepancy means a match.\<close>

definition check_broker_position ::
  "string \<Rightarrow> (int \<times> server_position) list \<Rightarrow> position_report \<Rightarrow> discrepancy option" where
  "check_broker_position acc server bp =
     (case map_of server (pr_broker_ticket bp) of
        None \<Rightarrow> Some \<lparr>di_account_id = acc, di_broker_ticket = pr_broker_ticket bp, di_type = ORPHAN,
                       di_server_volume = None, di_broker_volume = Some (pr_lots bp)\<rparr>
      | Some sp \<Rightarrow>
          if server_lots sp \<noteq> pr_lots bp
          then Some \<lparr>di_account_id = acc, di_broker_ticket = pr_broker_ticket bp,
                     di_type = VOLUME_MISMATCH, di_server_volume = Some (server_lots sp),
                     di_broker_volume = Some (pr_lots bp)\<rparr>
          else if server_side sp \<noteq> side_name (pr_side bp)
          then Some \<lparr>di_account_id = acc, di_broker_ticket = pr_broker_ticket bp,
                     di_type = SIDE_MISMATCH, di_server_volume = Some (server_lots sp),
                     di_broker_volume = Some (pr_lots bp)\<rparr>
          else None)"

text \<open>The loop over the broker's positions: discrepancies, matches and tickets seen.\<close>

definition broker_step ::
  "string \<Rightarrow> (int \<times> server_position) list \<Rightarrow> discrepancy list \<times> nat \<times> int set \<Rightarrow> position_report
     \<Rightarrow> discrepancy list \<times> nat \<times> int set" where
  "broker_step acc server st bp =
     (case st of (ds, matched, seen) \<Rightarrow>
        case check_broker_position acc server bp of
          Some d \<Rightarrow> (ds @ [d], matched, insert (pr_broker_ticket bp) seen)
        | None \<Rightarrow> (ds, matched + 1, insert (pr_broker_ticket bp) seen))"

definition is_phantom :: "int set \<Rightarrow> int \<times> server_position \<Rightarrow> bool" where
  "is_phantom seen e \<longleftrightarrow> fst e \<notin> seen \<and> sp_status (snd e) = Some ''OPEN''"

definition phantom :: "string \<Rightarrow> int \<times> server_position \<Rightarrow> discrepancy" where
  "phantom acc e =
     \<lparr>di_account_id = acc, di_broker_ticket = fst e, di_type = PHANTOM,
      di_server_volume = Some (server_lots (snd e)), di_broker_volume = None\<rparr>"

definition server_step ::
  "string \<Rightarrow> int set \<Rightarrow> discrepancy list \<Rightarrow> int \<times> server_position \<Rightarrow> discrepancy list" where
  "server_step acc seen ds e = (if is_phantom seen e then ds @ [phantom acc e] else ds)"

definition reconcile ::
  "instant \<Rightarrow> string \<Rightarrow> (int \<times> server_position) list \<Rightarrow> position_report list \<Rightarrow> recon_result" where
  "reconcile now acc server reported =
     (case foldl (broker_step acc server) ([], 0, {}) reported of (ds, matched, seen) \<Rightarrow>
        let all_ds = foldl (server_step acc seen) ds server
        in \<lparr>rc_account_id = acc, rc_reconciled_at = now, rc_is_clean = (length all_ds = 0),
            rc_matched_count = matched, rc_discrepancies = all_ds\<rparr>)"

subsection \<open>What the loops compute\<close>

definition broker_discrepancies ::
  "string \<Rightarrow> (int \<times> server_position) list \<Rightarrow> position_report list \<Rightarrow> discrepancy list" where
  "broker_discrepancies acc server reported = List.map_filter (check_broker_position acc server) reported"

lemma broker_loop:
  "foldl (broker_step acc server) (ds, m, seen) reported
     = (ds @ broker_discrepancies acc server reported,
        m + length (filter (\<lambda>bp. check_broker_position acc server bp = None) reported),
        seen \<union> pr_broker_ticket ` set reported)"
  by (induction reported arbitrary: ds m seen)
     (auto simp: broker_step_def broker_discrepancies_def map_filter_def split: option.split)

lemma server_loop:
  "foldl (server_step acc seen) ds server = ds @ map (phantom acc) (filter (is_phantom seen) server)"
  by (induction server arbitrary: ds) (auto simp: server_step_def)

lemma reconcile_fields [simp]:
  "rc_account_id (reconcile now acc server reported) = acc"
  "rc_matched_count (reconcile now acc server reported)
     = length (filter (\<lambda>bp. check_broker_position acc server bp = None) reported)"
  "rc_discrepancies (reconcile now acc server reported)
     = broker_discrepancies acc server reported
       @ map (phantom acc) (filter (is_phantom (pr_broker_ticket ` set reported)) server)"
  "rc_is_clean (reconcile now acc server reported) \<longleftrightarrow> rc_discrepancies (reconcile now acc server reported) = []"
  by (simp_all add: reconcile_def broker_loop server_loop Let_def)

lemma reconciled_at: "rc_reconciled_at (reconcile now acc server reported) = now"
  by (simp add: reconcile_def broker_loop server_loop Let_def)

text \<open>The specification: the server tracks a position with the broker's volume and side.\<close>

definition tracked :: "(int \<times> server_position) list \<Rightarrow> position_report \<Rightarrow> bool" where
  "tracked server bp \<longleftrightarrow>
     (\<exists>sp. map_of server (pr_broker_ticket bp) = Some sp \<and> server_lots sp = pr_lots bp
        \<and> server_side sp = side_name (pr_side bp))"

lemma check_None_iff: "check_broker_position acc server bp = None \<longleftrightarrow> tracked server bp"
  by (auto simp: check_broker_position_def tracked_def split: option.split)

text \<open>The divergence of an untracked position, and of an entry that the broker lacks.\<close>

definition divergence :: "string \<Rightarrow> (int \<times> server_position) list \<Rightarrow> position_report \<Rightarrow> discrepancy" where
  "divergence acc server bp =
     \<lparr>di_account_id = acc, di_broker_ticket = pr_broker_ticket bp,
      di_type = (case map_of server (pr_broker_ticket bp) of
                   None \<Rightarrow> ORPHAN
                 | Some sp \<Rightarrow> if server_lots sp \<noteq> pr_lots bp then VOLUME_MISMATCH else SIDE_MISMATCH),
      di_server_volume = map_option server_lots (map_of server (pr_broker_ticket bp)),
      di_broker_volume = Some (pr_lots bp)\<rparr>"

definition missing_position :: "string \<Rightarrow> int \<times> server_position \<Rightarrow> discrepancy" where
  "missing_position acc e =
     \<lparr>di_account_id = acc, di_broker_ticket = fst e, di_type = PHANTOM,
      di_server_volume = Some (server_lots (snd e)), di_broker_volume = None\<rparr>"

lemma check_iff:
  "check_broker_position acc server bp = (if tracked server bp then None else Some (divergence acc server bp))"
  by (auto simp: check_broker_position_def tracked_def divergence_def split: option.split)

lemma broker_discrepancies_eq:
  "broker_discrepancies acc server reported
     = map (divergence acc server) (filter (\<lambda>bp. \<not> tracked server bp) reported)"
  by (induction reported) (simp_all add: broker_discrepancies_def map_filter_def check_iff)

lemma check_Some_critical:
  "check_broker_position acc server bp = Some d \<Longrightarrow> di_type d \<in> {ORPHAN, VOLUME_MISMATCH, SIDE_MISMATCH}"
  by (auto simp: check_broker_position_def split: option.splits if_splits)

lemma broker_discrepancies_simps [simp]:
  "broker_discrepancies acc server [] = []"
  "broker_discrepancies acc server (bp # bps)
     = (case check_broker_position acc server bp of
          None \<Rightarrow> broker_discrepancies acc server bps
        | Some d \<Rightarrow> d # broker_discrepancies acc server bps)"
  by (simp_all add: broker_discrepancies_def map_filter_def split: option.split)

lemma broker_discrepancies_Nil_iff:
  "broker_discrepancies acc server reported = [] \<longleftrightarrow> (\<forall>bp \<in> set reported. tracked server bp)"
proof (induction reported)
  case (Cons bp bps)
  then show ?case using check_None_iff [of acc server bp]
    by (cases "check_broker_position acc server bp") auto
qed simp

lemma length_broker_discrepancies:
  "length (broker_discrepancies acc server reported)
     = length (filter (\<lambda>bp. \<not> tracked server bp) reported)"
proof (induction reported)
  case (Cons bp bps)
  then show ?case using check_None_iff [of acc server bp] by (auto split: option.split)
qed simp

lemma broker_discrepancies_critical:
  "list_ex (\<lambda>d. di_type d \<in> {ORPHAN, VOLUME_MISMATCH, SIDE_MISMATCH})
     (broker_discrepancies acc server reported) \<longleftrightarrow> broker_discrepancies acc server reported \<noteq> []"
proof (induction reported)
  case (Cons bp bps)
  then show ?case using check_Some_critical [of acc server bp]
    by (auto simp del: insert_iff split: option.split)
qed simp

lemma critical_iff:
  "has_critical_discrepancy (reconcile now acc server reported)
     \<longleftrightarrow> (\<exists>bp \<in> set reported. \<not> tracked server bp)"
proof -
  have "\<not> list_ex (\<lambda>d. di_type d \<in> {ORPHAN, VOLUME_MISMATCH, SIDE_MISMATCH})
      (map (phantom acc) (filter (is_phantom seen) server))" for seen
    by (auto simp: list_ex_iff phantom_def)
  then show ?thesis
    by (simp add: has_critical_discrepancy_def broker_discrepancies_critical
        broker_discrepancies_Nil_iff del: insert_iff)
qed

subsection \<open>A broker that is mirrored reconciles\<close>

text \<open>The entries of a server that records every fill of the broker.\<close>

definition mirror :: "position_report \<Rightarrow> int \<times> server_position" where
  "mirror p = (pr_broker_ticket p,
     \<lparr>sp_lots = Some (pr_lots p), sp_side = Some (side_name (pr_side p)), sp_status = Some ''OPEN''\<rparr>)"

lemma mirror_tracked:
  assumes "distinct (map pr_broker_ticket ps)" "p \<in> set ps"
  shows "tracked (map mirror ps) p"
proof -
  have "map_of (map mirror ps) (pr_broker_ticket p) = Some (snd (mirror p))"
  proof (rule map_of_is_SomeI)
    show "distinct (map fst (map mirror ps))" using assms(1) by (simp add: mirror_def comp_def)
    show "(pr_broker_ticket p, snd (mirror p)) \<in> set (map mirror ps)"
      using assms(2) by (force simp: mirror_def)
  qed
  then show ?thesis by (simp add: tracked_def mirror_def server_lots_def server_side_def)
qed

lemma mirror_clean:
  assumes "distinct (map pr_broker_ticket ps)"
  shows "rc_is_clean (reconcile now acc (map mirror ps) ps)"
    "rc_matched_count (reconcile now acc (map mirror ps) ps) = length ps"
proof -
  have t: "\<forall>p \<in> set ps. tracked (map mirror ps) p" using mirror_tracked [OF assms] by blast
  have "\<not> is_phantom (pr_broker_ticket ` set ps) e" if "e \<in> set (map mirror ps)" for e
    using that by (auto simp: is_phantom_def mirror_def)
  then have "filter (is_phantom (pr_broker_ticket ` set ps)) (map mirror ps) = []"
    by (simp add: filter_empty_conv)
  with t show "rc_is_clean (reconcile now acc (map mirror ps) ps)"
    by (simp add: broker_discrepancies_Nil_iff)
  show "rc_matched_count (reconcile now acc (map mirror ps) ps) = length ps"
    using t by (simp add: filter_id_conv check_None_iff)
qed

text \<open>Hence any broker that meets the contract reconciles clean against its own mirror.\<close>

context broker begin

lemma own_mirror_clean:
  assumes "inv b"
  shows "rc_is_clean (reconcile now acc (map mirror (positions b)) (positions b))"
  by (rule mirror_clean [OF distinct_tickets [OF assms]])

lemma unmirrored_open_is_orphan:
  assumes "inv b" "\<not> cmd_is_expired now c" "ec_action c = ORDER_OPEN"
  shows "has_critical_discrepancy
    (reconcile now acc (map mirror (positions b)) (positions (snd (execute now c price b))))"
proof -
  from opened [OF assms, of price] obtain p where
    p: "positions (snd (execute now c price b)) = positions b @ [p]" by blast
  then have "pr_broker_ticket p \<notin> pr_broker_ticket ` set (positions b)"
    using distinct_tickets [OF inv_execute [OF assms(1)], of now c price] by auto
  then have "map_of (map mirror (positions b)) (pr_broker_ticket p) = None"
    by (force simp: map_of_eq_None_iff mirror_def)
  then show ?thesis using p by (auto simp: critical_iff tracked_def)
qed

end

subsection \<open>Properties\<close>

text \<open>
  C12: reconciliation reports exactly the divergences.  The result lists, in the order of the report,
  one divergence for every broker position that the server does not track with its volume and side:
  its ticket, the volumes of both sides, and ORPHAN without an entry, VOLUME_MISMATCH for another
  volume, else SIDE_MISMATCH; then, in the order of the server, a PHANTOM with ticket and volume for
  every entry marked OPEN that the broker lacks.  All other positions count as matched, the result is
  clean if and only if nothing is listed, and new trades are to be halted if and only if some broker
  position is untracked or differs, so a missing position alone is never critical.
\<close>

theorem reconcile_exact:
  "rc_discrepancies (reconcile now acc server reported)
     = map (divergence acc server) (filter (\<lambda>bp. \<not> tracked server bp) reported)
       @ map (missing_position acc) (filter (\<lambda>e. sp_status (snd e) = Some ''OPEN''
           \<and> fst e \<notin> pr_broker_ticket ` set reported) server)
   \<and> rc_account_id (reconcile now acc server reported) = acc
   \<and> rc_reconciled_at (reconcile now acc server reported) = now
   \<and> rc_matched_count (reconcile now acc server reported) = length (filter (tracked server) reported)
   \<and> (rc_is_clean (reconcile now acc server reported) \<longleftrightarrow>
      (\<forall>bp \<in> set reported. tracked server bp)
      \<and> (\<forall>e \<in> set server. sp_status (snd e) = Some ''OPEN'' \<longrightarrow> fst e \<in> pr_broker_ticket ` set reported))
   \<and> (has_critical_discrepancy (reconcile now acc server reported)
        \<longleftrightarrow> (\<exists>bp \<in> set reported. \<not> tracked server bp))"
proof -
  have "filter (is_phantom (pr_broker_ticket ` set reported)) server = []
      \<longleftrightarrow> (\<forall>e \<in> set server. sp_status (snd e) = Some ''OPEN'' \<longrightarrow> fst e \<in> pr_broker_ticket ` set reported)"
    unfolding filter_empty_conv is_phantom_def by blast
  moreover have "map (phantom acc) (filter (is_phantom (pr_broker_ticket ` set reported)) server)
      = map (missing_position acc) (filter (\<lambda>e. sp_status (snd e) = Some ''OPEN''
           \<and> fst e \<notin> pr_broker_ticket ` set reported) server)"
    by (intro arg_cong2 [where f = map] ext filter_cong refl) (auto simp: phantom_def missing_position_def is_phantom_def)
  ultimately show ?thesis
    by (simp add: critical_iff broker_discrepancies_Nil_iff broker_discrepancies_eq check_None_iff
        reconciled_at del: map_eq_conv) (auto simp: filter_empty_conv)
qed

definition demo_server :: "(int \<times> server_position) list" where
  "demo_server =
     [(1, \<lparr>sp_lots = Some (1 / 10), sp_side = Some ''BUY'', sp_status = Some ''OPEN''\<rparr>),
      (2, \<lparr>sp_lots = Some (1 / 10), sp_side = Some ''SELL'', sp_status = Some ''OPEN''\<rparr>)]"

definition demo_position :: "int \<Rightarrow> dec \<Rightarrow> side \<Rightarrow> position_report" where
  "demo_position k lots sd =
     \<lparr>pr_account_id = ''acc'', pr_broker_ticket = k, pr_symbol = ''XAUUSD'', pr_side = sd, pr_lots = lots,
      pr_open_price = 2000, pr_current_price = 2000, pr_stop_loss = None, pr_take_profit = None,
      pr_unrealized_pnl_broker = 0, pr_commission_broker = 0, pr_swap_broker = 0,
      pr_magic_number = 202609, pr_reported_at = 0\<rparr>"

theorem reconcile_exact_witness:
  "map di_type (rc_discrepancies (reconcile 5 ''acc'' demo_server
       [demo_position 1 (2 / 10) SIDE_BUY, demo_position 3 (1 / 10) SIDE_SELL]))
     = [VOLUME_MISMATCH, ORPHAN, PHANTOM]
   \<and> \<not> has_critical_discrepancy (reconcile 5 ''acc'' demo_server [demo_position 1 (1 / 10) SIDE_BUY])"
  using reconcile_exact [of 5 "''acc''" demo_server
      "[demo_position 1 (2 / 10) SIDE_BUY, demo_position 3 (1 / 10) SIDE_SELL]"]
    reconcile_exact [of 5 "''acc''" demo_server "[demo_position 1 (1 / 10) SIDE_BUY]"]
  by (simp add: demo_server_def demo_position_def tracked_def server_lots_def server_side_def
      divergence_def missing_position_def)

end
