(* ===== verification/Execution_Service.thy ===== *)
theory Execution_Service
  imports Reconciliation Risk_Engine Scoring "HOL-Library.Sublist"
begin

section \<open>Execution service (\<open>backend/services/execution_service.py\<close>)\<close>

text \<open>
  The database of the service is its tables as lists in insertion order; a transaction that fails at
  its commit leaves them as they were.  The readings of the clock and the generated ids come in a
  record.  The unique constraint on (account, ticket) is the one a commit checks.  The signal's id
  column, logging and the serialised response are left out; numeric columns keep their values.
\<close>

record db_command =
  dc_id :: string
  dc_account_id :: string
  dc_correlation_id :: string
  dc_idempotency_key :: string
  dc_action :: command_action
  dc_symbol :: string
  dc_order_type :: side
  dc_volume_lots :: dec
  dc_price :: "dec option"
  dc_stop_loss :: "dec option"
  dc_take_profit :: "dec option"
  dc_status :: command_state
  dc_expires_at :: instant
  dc_sent_at :: "instant option"

datatype report_status = REPORTED exec_status | FAILED

record db_report =
  dr_account_id :: string
  dr_command_id :: "string option"
  dr_correlation_id :: "string option"
  dr_idempotency_key :: "string option"
  dr_broker_ticket :: "int option"
  dr_broker_deal_id :: "int option"
  dr_status :: report_status
  dr_fill_volume_lots :: "dec option"
  dr_fill_price :: "dec option"
  dr_slippage_points :: "int option"
  dr_commission_usd :: "dec option"
  dr_swap_usd :: "dec option"
  dr_broker_error_code :: "int option"
  dr_broker_error_message :: "string option"
  dr_executed_at :: instant

record db_position =
  dp_account_id :: string
  dp_command_id :: "string option"
  dp_broker_ticket :: int
  dp_symbol :: string
  dp_side :: string
  dp_lots :: dec
  dp_open_price :: dec
  dp_stop_loss :: "dec option"
  dp_take_profit :: "dec option"
  dp_current_price :: "dec option"
  dp_unrealized_pnl_usd :: dec
  dp_commission_usd :: dec
  dp_swap_usd :: dec
  dp_status :: string
  dp_opened_at :: instant
  dp_closed_at :: "instant option"
  dp_close_price :: "dec option"

datatype audit_event =
    COMMAND_DISPATCHED string command_action command_state "int option" "dec option"
  | RECONCILIATION_MISMATCH nat "(int \<times> discrepancy_type) list"
  | RECONCILIATION_OK nat nat
  | RISK_EVALUATED signal_decision reason_code risk_state bool "dec option"
  | RECONCILIATION_FREEZE "discrepancy_type list"
  | SIGNAL_BLOCKED market_summary
  | SIGNAL_CREATED string string

record exec_db =
  xd_commands :: "db_command list"
  xd_reports :: "db_report list"
  xd_positions :: "db_position list"
  xd_audit :: "(string \<times> audit_event) list"

datatype db_error = IntegrityError | DataError

text \<open>What the service reads of a signal; a missing attribute is \<open>None\<close>.\<close>

record exec_signal =
  xs_direction :: "string option"
  xs_symbol :: "string option"
  xs_stop_loss :: "dec option"
  xs_take_profit :: "dec option"

record exec_env =
  xe_command_id :: string
  xe_fresh_correlation_id :: string
  xe_created_at :: instant
  xe_sent_at :: instant
  xe_simulator_now :: instant
  xe_stored_sent_at :: instant

subsection \<open>Dispatching a command\<close>

definition ascii_upper :: "char \<Rightarrow> char" where
  "ascii_upper ch =
     (let n = (of_char ch :: nat) in if 97 \<le> n \<and> n \<le> 122 then char_of (n - 32) else ch)"

definition order_side :: "exec_signal \<Rightarrow> side" where
  "order_side sg =
     (let dir = (case xs_direction sg of Some d \<Rightarrow> d | None \<Rightarrow> ''BUY'')
      in if sublist ''BUY'' (map ascii_upper dir) then SIDE_BUY else SIDE_SELL)"

definition derived_key :: "string \<Rightarrow> string \<Rightarrow> string option \<Rightarrow> string" where
  "derived_key acc cmd_id key =
     (case key of Some k \<Rightarrow> if k = [] then ''cmd_'' @ acc @ ''_'' @ cmd_id else k
                | None \<Rightarrow> ''cmd_'' @ acc @ ''_'' @ cmd_id)"

definition memory_command ::
  "exec_env \<Rightarrow> string \<Rightarrow> exec_signal \<Rightarrow> dec \<Rightarrow> dec option \<Rightarrow> string \<Rightarrow> string \<Rightarrow> exec_command" where
  "memory_command env acc sg lots price cid key =
     \<lparr>ec_command_id = xe_command_id env, ec_account_id = acc, ec_action = ORDER_OPEN,
      ec_symbol = (case xs_symbol sg of Some s \<Rightarrow> s | None \<Rightarrow> ''XAUUSD''),
      ec_order_type = order_side sg, ec_volume_lots = lots, ec_price = or_default price 2000,
      ec_slippage_points = 20, ec_idempotency_key = key, ec_correlation_id = cid,
      ec_state = CREATED, ec_signal_id = None, ec_stop_loss = xs_stop_loss sg,
      ec_take_profit = xs_take_profit sg, ec_magic_number = 202609, ec_position_ticket = None,
      ec_created_at = xe_created_at env, ec_expires_at = xe_created_at env + 5000000,
      ec_sent_at = None, ec_acknowledged_at = None, ec_fill_price = None, ec_fill_volume_lots = None,
      ec_broker_ticket = None, ec_rejection_reason = None\<rparr>"

definition stored_command ::
  "exec_env \<Rightarrow> exec_command \<Rightarrow> dec option \<Rightarrow> command_state \<Rightarrow> instant option \<Rightarrow> db_command" where
  "stored_command env c price st sent =
     \<lparr>dc_id = ec_command_id c, dc_account_id = ec_account_id c, dc_correlation_id = ec_correlation_id c,
      dc_idempotency_key = ec_idempotency_key c, dc_action = ec_action c, dc_symbol = ec_symbol c,
      dc_order_type = ec_order_type c, dc_volume_lots = ec_volume_lots c, dc_price = price,
      dc_stop_loss = ec_stop_loss c, dc_take_profit = ec_take_profit c, dc_status = st,
      dc_expires_at = ec_expires_at c, dc_sent_at = sent\<rparr>"

text \<open>How the in-memory command and the stored status follow a report.\<close>

definition settle_command :: "instant \<Rightarrow> exec_status \<Rightarrow> exec_command \<Rightarrow> exec_command" where
  "settle_command now st c =
     (if st = ES_FILLED then
        snd (transition_to now FILLED None
          (snd (transition_to now EXECUTING None (snd (transition_to now ACKNOWLEDGED None c)))))
      else if st = ES_EXPIRED then snd (transition_to now EXPIRED None c)
      else snd (transition_to now REJECTED None c))"

definition settled_status :: "exec_status \<Rightarrow> command_state" where
  "settled_status st =
     (if st = ES_FILLED then FILLED else if st = ES_EXPIRED then EXPIRED else REJECTED)"

definition stored_report ::
  "string \<Rightarrow> string \<Rightarrow> string \<Rightarrow> string option \<Rightarrow> exec_report \<Rightarrow> db_report" where
  "stored_report acc cmd_id cid key r =
     \<lparr>dr_account_id = acc, dr_command_id = Some cmd_id, dr_correlation_id = Some cid,
      dr_idempotency_key = key, dr_broker_ticket = er_broker_ticket r,
      dr_broker_deal_id = er_broker_deal_id r, dr_status = REPORTED (er_status r),
      dr_fill_volume_lots = er_filled_volume_lots r, dr_fill_price = er_fill_price r,
      dr_slippage_points = er_slippage_points r, dr_commission_usd = er_commission_usd r,
      dr_swap_usd = er_swap_usd r, dr_broker_error_code = er_broker_error_code r,
      dr_broker_error_message = er_broker_error_message r, dr_executed_at = er_reported_at r\<rparr>"

definition filled_position ::
  "exec_command \<Rightarrow> dec \<Rightarrow> dec option \<Rightarrow> exec_report \<Rightarrow> db_position option" where
  "filled_position c lots price r =
     (case er_broker_ticket r of
        Some k \<Rightarrow>
          if er_status r = ES_FILLED \<and> k \<noteq> 0
          then Some \<lparr>dp_account_id = ec_account_id c, dp_command_id = Some (ec_command_id c),
                 dp_broker_ticket = k, dp_symbol = ec_symbol c, dp_side = side_name (ec_order_type c),
                 dp_lots = or_default (er_filled_volume_lots r) lots,
                 dp_open_price = or_default (er_fill_price r) (or_default price 2000),
                 dp_stop_loss = ec_stop_loss c, dp_take_profit = ec_take_profit c,
                 dp_current_price = er_fill_price r, dp_unrealized_pnl_usd = 0,
                 dp_commission_usd = or_default (er_commission_usd r) 0,
                 dp_swap_usd = or_default (er_swap_usd r) 0, dp_status = ''OPEN'',
                 dp_opened_at = er_reported_at r, dp_closed_at = None, dp_close_price = None\<rparr>
          else None
      | None \<Rightarrow> None)"

definition ticket_taken :: "string \<Rightarrow> int \<Rightarrow> exec_db \<Rightarrow> bool" where
  "ticket_taken acc k db \<longleftrightarrow>
     list_ex (\<lambda>p. dp_account_id p = acc \<and> dp_broker_ticket p = k) (xd_positions db)"

definition key_used :: "string \<Rightarrow> exec_db \<Rightarrow> bool" where
  "key_used key db \<longleftrightarrow> list_ex (\<lambda>c. dc_idempotency_key c = key) (xd_commands db)"

definition dispatch_audit :: "exec_command \<Rightarrow> exec_report \<Rightarrow> audit_event" where
  "dispatch_audit c r =
     COMMAND_DISPATCHED (ec_command_id c) (ec_action c) (settled_status (er_status r))
       (er_broker_ticket r)
       (case er_filled_volume_lots r of Some x \<Rightarrow> if x = 0 then None else Some x | None \<Rightarrow> None)"

text \<open>The writes of one dispatch, ended by the commit.\<close>

definition record_dispatch ::
  "exec_env \<Rightarrow> exec_command \<Rightarrow> dec option \<Rightarrow> string option \<Rightarrow> exec_report \<Rightarrow> exec_db
     \<Rightarrow> (db_error + db_report) \<times> exec_db" where
  "record_dispatch env c price key r db =
     (let pos = filled_position c (ec_volume_lots c) price r;
          rep = stored_report (ec_account_id c) (ec_command_id c) (ec_correlation_id c) key r
      in case pos of
           Some p \<Rightarrow>
             if ticket_taken (ec_account_id c) (dp_broker_ticket p) db then (Inl IntegrityError, db)
             else (Inr rep,
               db\<lparr>xd_commands := xd_commands db
                    @ [stored_command env c price (settled_status (er_status r)) (Some (xe_stored_sent_at env))],
                  xd_reports := xd_reports db @ [rep], xd_positions := xd_positions db @ [p],
                  xd_audit := xd_audit db @ [(ec_account_id c, dispatch_audit c r)]\<rparr>)
         | None \<Rightarrow> (Inr rep,
               db\<lparr>xd_commands := xd_commands db
                    @ [stored_command env c price (settled_status (er_status r)) (Some (xe_stored_sent_at env))],
                  xd_reports := xd_reports db @ [rep],
                  xd_audit := xd_audit db @ [(ec_account_id c, dispatch_audit c r)]\<rparr>))"

definition execute_approved_signal ::
  "exec_env \<Rightarrow> string \<Rightarrow> exec_signal \<Rightarrow> risk_decision \<Rightarrow> dec option \<Rightarrow> string option \<Rightarrow> string option
     \<Rightarrow> mt5_simulator \<Rightarrow> exec_db \<Rightarrow> (db_error + db_report option) \<times> mt5_simulator \<times> exec_db" where
  "execute_approved_signal env acc sg d price correlation_id key sim db =
     (let cid = choose_correlation_id correlation_id
                  (choose_correlation_id (Some (rd_correlation_id d)) (xe_fresh_correlation_id env))
      in if \<not> rd_trading_allowed d then (Inr None, sim, db)
         else if or_default (rd_authorized_lot_size d) 0 \<le> 0 then (Inr None, sim, db)
         else
           let lots = or_default (rd_authorized_lot_size d) 0;
               k = derived_key acc (xe_command_id env) key
           in if key_used k db then (Inr None, sim, db)
              else
                let c = snd (transition_to (xe_sent_at env) SENT None
                               (memory_command env acc sg lots price cid k));
                    (r, sim') = sm_execute (xe_simulator_now env) c price sim
                in case record_dispatch env c price key r db of
                     (Inl e, db') \<Rightarrow> (Inl e, sim', db')
                   | (Inr rep, db') \<Rightarrow> (Inr (Some rep), sim', db'))"

subsection \<open>Reconciling an account\<close>

definition open_positions_of :: "string \<Rightarrow> exec_db \<Rightarrow> db_position list" where
  "open_positions_of acc db =
     filter (\<lambda>p. dp_account_id p = acc \<and> dp_status p = ''OPEN'') (xd_positions db)"

text \<open>The dict handed to the engine: it has no key \<open>status\<close>.\<close>

definition server_entry :: "db_position \<Rightarrow> server_position" where
  "server_entry p = \<lparr>sp_lots = Some (dp_lots p), sp_side = Some (dp_side p), sp_status = None\<rparr>"

definition server_map :: "string \<Rightarrow> exec_db \<Rightarrow> (int \<times> server_position) list" where
  "server_map acc db =
     foldl (\<lambda>m p. AList.update (dp_broker_ticket p) (server_entry p) m) [] (open_positions_of acc db)"

definition reconcile_account_positions ::
  "instant \<Rightarrow> string \<Rightarrow> position_report list \<Rightarrow> exec_db \<Rightarrow> recon_result \<times> exec_db" where
  "reconcile_account_positions now acc reported db =
     (let r = reconcile now acc (server_map acc db) reported
      in if has_critical_discrepancy r
         then (r, db\<lparr>xd_audit := xd_audit db @ [(acc, RECONCILIATION_MISMATCH (rc_matched_count r)
                      (map (\<lambda>d. (di_broker_ticket d, di_type d)) (rc_discrepancies r)))]\<rparr>)
         else (r, db))"

subsection \<open>Results of the agent\<close>

text \<open>
  A result dict maps keys to JSON values, whose type is a parameter together with their readings:
  \<open>as_int\<close> is \<open>int(x)\<close> or nothing when it raises, \<open>as_dec\<close> is \<open>Decimal(str(x))\<close> or nothing,
  \<open>as_str\<close> the text, \<open>truthy\<close> the truth value.  Absent keys and null are \<open>None\<close>
  (a null symbol or side, which no column accepts, is not modelled).  The unique constraint leaves
  at most one row to close.
\<close>

record 'v json_reading =
  jr_as_int :: "'v \<Rightarrow> int option"
  jr_as_dec :: "'v \<Rightarrow> dec option"
  jr_as_str :: "'v \<Rightarrow> string"
  jr_truthy :: "'v \<Rightarrow> bool"

type_synonym 'v json_dict = "string \<Rightarrow> 'v option"

record 'v executed_command =
  xc_command_type :: string
  xc_status :: string
  xc_payload :: "'v json_dict option"

definition read_int :: "'v json_reading \<Rightarrow> 'v option \<Rightarrow> int option" where
  "read_int j v = (case v of Some x \<Rightarrow> jr_as_int j x | None \<Rightarrow> None)"

definition read_dec :: "'v json_reading \<Rightarrow> 'v option \<Rightarrow> dec option" where
  "read_dec j v = (case v of Some x \<Rightarrow> jr_as_dec j x | None \<Rightarrow> None)"

definition result_ticket :: "'v json_reading \<Rightarrow> 'v json_dict \<Rightarrow> int option" where
  "result_ticket j res =
     read_int j (case res ''position_ticket'' of
                   Some v \<Rightarrow> if jr_truthy j v then Some v else res ''order_ticket''
                 | None \<Rightarrow> res ''order_ticket'')"

definition agent_report ::
  "'v json_reading \<Rightarrow> instant \<Rightarrow> string \<Rightarrow> bool \<Rightarrow> 'v json_dict \<Rightarrow> string option \<Rightarrow> db_report" where
  "agent_report j now acc completed res error_message =
     \<lparr>dr_account_id = acc, dr_command_id = None, dr_correlation_id = None, dr_idempotency_key = None,
      dr_broker_ticket = result_ticket j res, dr_broker_deal_id = read_int j (res ''deal_ticket''),
      dr_status = (if completed then REPORTED ES_FILLED else FAILED),
      dr_fill_volume_lots = read_dec j (res ''executed_volume''),
      dr_fill_price = read_dec j (res ''executed_price''), dr_slippage_points = None,
      dr_commission_usd = Some 0, dr_swap_usd = Some 0,
      dr_broker_error_code = read_int j (res ''retcode''),
      dr_broker_error_message =
        (case error_message of
           Some m \<Rightarrow> if m \<noteq> [] then Some m else map_option (jr_as_str j) (res ''retcode_description'')
         | None \<Rightarrow> map_option (jr_as_str j) (res ''retcode_description'')),
      dr_executed_at = now\<rparr>"

definition agent_position ::
  "'v json_reading \<Rightarrow> instant \<Rightarrow> string \<Rightarrow> int \<Rightarrow> 'v json_dict \<Rightarrow> db_position" where
  "agent_position j now acc k res =
     (let price = read_dec j (res ''executed_price'')
      in \<lparr>dp_account_id = acc, dp_command_id = None, dp_broker_ticket = k,
          dp_symbol = (case res ''symbol'' of Some v \<Rightarrow> jr_as_str j v | None \<Rightarrow> ''XAUUSD''),
          dp_side = (case res ''side'' of Some v \<Rightarrow> jr_as_str j v | None \<Rightarrow> ''BUY''),
          dp_lots = or_default (read_dec j (res ''executed_volume'')) (1 / 100),
          dp_open_price = or_default price 0, dp_stop_loss = None, dp_take_profit = None,
          dp_current_price = price, dp_unrealized_pnl_usd = 0, dp_commission_usd = 0, dp_swap_usd = 0,
          dp_status = ''OPEN'', dp_opened_at = now, dp_closed_at = None, dp_close_price = None\<rparr>)"

definition close_position :: "instant \<Rightarrow> dec option \<Rightarrow> db_position \<Rightarrow> db_position" where
  "close_position now price p =
     (let p' = p\<lparr>dp_status := ''CLOSED'', dp_closed_at := Some now\<rparr>
      in case price of Some x \<Rightarrow> if x \<noteq> 0 then p'\<lparr>dp_close_price := Some x\<rparr> else p' | None \<Rightarrow> p')"

text \<open>The ticket to close: the result's, else the payload's; reading the latter may raise.\<close>

definition close_target ::
  "'v json_reading \<Rightarrow> 'v executed_command \<Rightarrow> 'v json_dict \<Rightarrow> int option res" where
  "close_target j cmd res =
     (if or_default (result_ticket j res) 0 \<noteq> 0 then Inr (result_ticket j res)
      else case xc_payload cmd of
             None \<Rightarrow> Inr None
           | Some payload \<Rightarrow>
               (case payload ''position_ticket'' of
                  None \<Rightarrow> Inr None
                | Some v \<Rightarrow>
                    if \<not> jr_truthy j v then Inr None
                    else (case jr_as_int j v of
                            None \<Rightarrow> Inl (ValueError ''invalid literal for int()'')
                          | Some k \<Rightarrow> Inr (Some k))))"

definition close_matching ::
  "instant \<Rightarrow> string \<Rightarrow> int \<Rightarrow> dec option \<Rightarrow> db_position list \<Rightarrow> db_position list" where
  "close_matching now acc k price ps =
     map (\<lambda>p. if dp_account_id p = acc \<and> dp_broker_ticket p = k \<and> dp_status p = ''OPEN''
              then close_position now price p else p) ps"

definition record_agent_execution_result ::
  "'v json_reading \<Rightarrow> instant \<Rightarrow> string \<Rightarrow> 'v executed_command \<Rightarrow> 'v json_dict option \<Rightarrow> string option
     \<Rightarrow> exec_db \<Rightarrow> exec_db res" where
  "record_agent_execution_result j now acc cmd result error_message db =
     (if xc_command_type cmd \<noteq> ''OPEN_POSITION'' \<and> xc_command_type cmd \<noteq> ''CLOSE_POSITION'' then Inr db
      else
        let completed = (xc_status cmd = ''COMPLETED'');
            res = (case result of Some r \<Rightarrow> r | None \<Rightarrow> (\<lambda>_. None));
            k = or_default (result_ticket j res) 0;
            db1 = db\<lparr>xd_reports := xd_reports db @ [agent_report j now acc completed res error_message]\<rparr>
        in if completed \<and> xc_command_type cmd = ''OPEN_POSITION'' \<and> k \<noteq> 0 then
             Inr (if ticket_taken acc k db then db1
                  else db1\<lparr>xd_positions := xd_positions db1 @ [agent_position j now acc k res]\<rparr>)
           else if completed \<and> xc_command_type cmd = ''CLOSE_POSITION'' then
             bind_res (close_target j cmd res) (\<lambda>target.
               Inr (if or_default target 0 = 0 then db1
                    else db1\<lparr>xd_positions := close_matching now acc (or_default target 0)
                                (read_dec j (res ''executed_price'')) (xd_positions db1)\<rparr>))
           else Inr db1)"

subsection \<open>Lemmas\<close>

lemma memory_command_simps [simp]:
  "ec_command_id (memory_command env acc sg lots price cid k) = xe_command_id env"
  "ec_account_id (memory_command env acc sg lots price cid k) = acc"
  "ec_action (memory_command env acc sg lots price cid k) = ORDER_OPEN"
  "ec_order_type (memory_command env acc sg lots price cid k) = order_side sg"
  "ec_volume_lots (memory_command env acc sg lots price cid k) = lots"
  "ec_idempotency_key (memory_command env acc sg lots price cid k) = k"
  "ec_stop_loss (memory_command env acc sg lots price cid k) = xs_stop_loss sg"
  "ec_take_profit (memory_command env acc sg lots price cid k) = xs_take_profit sg"
  "ec_expires_at (memory_command env acc sg lots price cid k) = xe_created_at env + 5000000"
  "ec_state (memory_command env acc sg lots price cid k) = CREATED"
  by (simp_all add: memory_command_def)

lemma settle_command_state:
  assumes "ec_state c = SENT"
  shows "ec_state (settle_command now st c) = settled_status st"
  using assms by (simp add: settle_command_def settled_status_def transition_to_def)

lemma sm_execute_open:
  assumes "ec_action c = ORDER_OPEN" "\<not> cmd_is_expired now c" "sm_execute now c price s = (r, s')"
  shows "er_status r = ES_FILLED" "er_broker_ticket r = Some (sm_ticket_counter s + 1)"
    "er_filled_volume_lots r = Some (ec_volume_lots c)"
    "sm_ticket_counter s' = sm_ticket_counter s + 1"
    "\<exists>fill. sm_positions s' = AList.update (sm_ticket_counter s + 1)
       (new_position (ec_account_id c) (sm_ticket_counter s + 1) (ec_order_type c) fill 0 now c)
       (sm_positions s)"
  using assms
  by (auto simp: sm_execute_def sm_next_ticket_def Let_def sm_report_def exec_report_init_def orelse_def)

lemma new_position_simps [simp]:
  "pr_account_id (new_position acc k sd fill com now c) = acc"
  "pr_broker_ticket (new_position acc k sd fill com now c) = k"
  "pr_side (new_position acc k sd fill com now c) = sd"
  "pr_lots (new_position acc k sd fill com now c) = ec_volume_lots c"
  by (simp_all add: new_position_def)

lemma sm_execute_expired:
  assumes "cmd_is_expired now c" "sm_execute now c price s = (r, s')"
  shows "er_status r = ES_EXPIRED" "er_broker_ticket r = None" "er_filled_volume_lots r = None" "s' = s"
  using assms by (auto simp: sm_execute_def sm_report_def exec_report_init_def orelse_def)

text \<open>The command that a dispatch sends, and when it refuses to send one.\<close>

definition sent_command ::
  "exec_env \<Rightarrow> string \<Rightarrow> exec_signal \<Rightarrow> risk_decision \<Rightarrow> dec option \<Rightarrow> string option \<Rightarrow> string option
     \<Rightarrow> exec_command" where
  "sent_command env acc sg d price correlation_id key =
     snd (transition_to (xe_sent_at env) SENT None
       (memory_command env acc sg (or_default (rd_authorized_lot_size d) 0) price
          (choose_correlation_id correlation_id
             (choose_correlation_id (Some (rd_correlation_id d)) (xe_fresh_correlation_id env)))
          (derived_key acc (xe_command_id env) key)))"

definition refuses :: "exec_env \<Rightarrow> string \<Rightarrow> risk_decision \<Rightarrow> string option \<Rightarrow> exec_db \<Rightarrow> bool" where
  "refuses env acc d key db \<longleftrightarrow>
     \<not> rd_trading_allowed d \<or> or_default (rd_authorized_lot_size d) 0 \<le> 0
     \<or> key_used (derived_key acc (xe_command_id env) key) db"

lemma sent_command_simps [simp]:
  "ec_action (sent_command env acc sg d price cid key) = ORDER_OPEN"
  "ec_account_id (sent_command env acc sg d price cid key) = acc"
  "ec_order_type (sent_command env acc sg d price cid key) = order_side sg"
  "ec_volume_lots (sent_command env acc sg d price cid key) = or_default (rd_authorized_lot_size d) 0"
  "ec_idempotency_key (sent_command env acc sg d price cid key) = derived_key acc (xe_command_id env) key"
  "ec_expires_at (sent_command env acc sg d price cid key) = xe_created_at env + 5000000"
  "ec_state (sent_command env acc sg d price cid key) = SENT"
  by (simp_all add: sent_command_def) (simp add: transition_to_def memory_command_def)

lemma execute_cases:
  "execute_approved_signal env acc sg d price cid key sim db =
     (if refuses env acc d key db then (Inr None, sim, db)
      else let c = sent_command env acc sg d price cid key;
               (r, sim') = sm_execute (xe_simulator_now env) c price sim;
               (out, db') = record_dispatch env c price key r db
           in (map_sum id Some out, sim', db'))"
  by (simp add: execute_approved_signal_def refuses_def sent_command_def Let_def
      split: prod.split sum.split)

lemma filled_position_None [simp]: "er_status r = ES_EXPIRED \<Longrightarrow> filled_position c lots price r = None"
  by (simp add: filled_position_def split: option.split)

lemma filled_position_Some:
  assumes "er_status r = ES_FILLED" "er_broker_ticket r = Some k" "k \<noteq> 0"
    "er_filled_volume_lots r = Some lots"
  shows "\<exists>p. filled_position c lots price r = Some p \<and> dp_account_id p = ec_account_id c
    \<and> dp_broker_ticket p = k \<and> dp_lots p = lots \<and> dp_side p = side_name (ec_order_type c)
    \<and> dp_status p = ''OPEN'' \<and> dp_stop_loss p = ec_stop_loss c \<and> dp_take_profit p = ec_take_profit c"
  using assms by (simp add: filled_position_def or_default_def)

lemma stored_fields [simp]:
  "dc_idempotency_key (stored_command env c price st sent) = ec_idempotency_key c"
  "dc_volume_lots (stored_command env c price st sent) = ec_volume_lots c"
  "dc_status (stored_command env c price st sent) = st"
  "dc_id (stored_command env c price st sent) = ec_command_id c"
  "dr_command_id (stored_report acc i cid key r) = Some i"
  "dr_broker_ticket (stored_report acc i cid key r) = er_broker_ticket r"
  by (simp_all add: stored_command_def stored_report_def)

text \<open>One dispatch that is not refused, by the report it gets.\<close>

lemma dispatch_expired:
  assumes "er_status r = ES_EXPIRED"
  shows "\<exists>rep c'. record_dispatch env c price key r db =
      (Inr rep, db\<lparr>xd_commands := xd_commands db @ [c'], xd_reports := xd_reports db @ [rep],
                   xd_audit := xd_audit db @ [(ec_account_id c, dispatch_audit c r)]\<rparr>)
    \<and> dr_command_id rep = Some (dc_id c') \<and> dc_status c' = EXPIRED
    \<and> dc_idempotency_key c' = ec_idempotency_key c \<and> dc_volume_lots c' = ec_volume_lots c"
  using assms
  by (intro exI [of _ "stored_report (ec_account_id c) (ec_command_id c) (ec_correlation_id c) key r"]
        exI [of _ "stored_command env c price EXPIRED (Some (xe_stored_sent_at env))"])
     (simp add: record_dispatch_def settled_status_def Let_def)

lemma dispatch_filled:
  assumes "er_status r = ES_FILLED" "er_broker_ticket r = Some k" "k \<noteq> 0"
    "er_filled_volume_lots r = Some (ec_volume_lots c)"
  shows "if ticket_taken (ec_account_id c) k db
    then record_dispatch env c price key r db = (Inl IntegrityError, db)
    else \<exists>rep c' p. record_dispatch env c price key r db =
      (Inr rep, db\<lparr>xd_commands := xd_commands db @ [c'], xd_reports := xd_reports db @ [rep],
                   xd_positions := xd_positions db @ [p],
                   xd_audit := xd_audit db @ [(ec_account_id c, dispatch_audit c r)]\<rparr>)
    \<and> dr_command_id rep = Some (dc_id c') \<and> dr_broker_ticket rep = Some k \<and> dc_status c' = FILLED
    \<and> dc_idempotency_key c' = ec_idempotency_key c \<and> dc_volume_lots c' = ec_volume_lots c
    \<and> dp_account_id p = ec_account_id c \<and> dp_broker_ticket p = k \<and> dp_lots p = ec_volume_lots c
    \<and> dp_side p = side_name (ec_order_type c) \<and> dp_status p = ''OPEN''"
proof -
  from filled_position_Some [OF assms] obtain p where p:
    "filled_position c (ec_volume_lots c) price r = Some p" "dp_account_id p = ec_account_id c"
    "dp_broker_ticket p = k" "dp_lots p = ec_volume_lots c"
    "dp_side p = side_name (ec_order_type c)" "dp_status p = ''OPEN''" by blast
  let ?rep = "stored_report (ec_account_id c) (ec_command_id c) (ec_correlation_id c) key r"
  let ?c = "stored_command env c price FILLED (Some (xe_stored_sent_at env))"
  show ?thesis
  proof (cases "ticket_taken (ec_account_id c) k db")
    case True
    with p assms show ?thesis by (simp add: record_dispatch_def Let_def)
  next
    case False
    with p assms have "record_dispatch env c price key r db =
      (Inr ?rep, db\<lparr>xd_commands := xd_commands db @ [?c], xd_reports := xd_reports db @ [?rep],
                   xd_positions := xd_positions db @ [p],
                   xd_audit := xd_audit db @ [(ec_account_id c, dispatch_audit c r)]\<rparr>)"
      by (simp add: record_dispatch_def settled_status_def Let_def)
    with p assms False show ?thesis
      by (simp only: if_False) (intro exI [of _ ?rep] exI [of _ ?c] exI [of _ p], simp)
  qed
qed

text \<open>The three ways a dispatch can end.\<close>

lemma execute_split:
  assumes "execute_approved_signal env acc sg d price cid key sim db = (out, sim', db')"
    and "0 \<le> sm_ticket_counter sim"
  obtains (refused) "refuses env acc d key db" "out = Inr None" "sim' = sim" "db' = db"
  | (expired) rep c r where "\<not> refuses env acc d key db" "out = Inr (Some rep)" "sim' = sim"
      "db' = db\<lparr>xd_commands := xd_commands db @ [c], xd_reports := xd_reports db @ [rep],
                xd_audit := xd_audit db @ [(acc, r)]\<rparr>"
      "dr_command_id rep = Some (dc_id c)" "dc_status c = EXPIRED"
      "dc_idempotency_key c = derived_key acc (xe_command_id env) key"
      "dc_volume_lots c = or_default (rd_authorized_lot_size d) 0"
  | (conflict) "\<not> refuses env acc d key db" "ticket_taken acc (sm_ticket_counter sim + 1) db"
      "out = Inl IntegrityError" "db' = db"
  | (filled) rep c p r fill where "\<not> refuses env acc d key db" "out = Inr (Some rep)"
      "\<not> ticket_taken acc (sm_ticket_counter sim + 1) db"
      "sm_ticket_counter sim' = sm_ticket_counter sim + 1"
      "sm_positions sim' = AList.update (sm_ticket_counter sim + 1)
         (new_position acc (sm_ticket_counter sim + 1) (order_side sg) fill 0 (xe_simulator_now env)
            (sent_command env acc sg d price cid key)) (sm_positions sim)"
      "db' = db\<lparr>xd_commands := xd_commands db @ [c], xd_reports := xd_reports db @ [rep],
                xd_positions := xd_positions db @ [p], xd_audit := xd_audit db @ [(acc, r)]\<rparr>"
      "dr_command_id rep = Some (dc_id c)" "dr_broker_ticket rep = Some (sm_ticket_counter sim + 1)"
      "dc_status c = FILLED" "dc_idempotency_key c = derived_key acc (xe_command_id env) key"
      "dc_volume_lots c = or_default (rd_authorized_lot_size d) 0"
      "dp_account_id p = acc" "dp_broker_ticket p = sm_ticket_counter sim + 1"
      "dp_lots p = or_default (rd_authorized_lot_size d) 0" "dp_side p = side_name (order_side sg)"
      "dp_status p = ''OPEN''"
proof (cases "refuses env acc d key db")
  case True
  with assms(1) show ?thesis by (intro refused) (simp_all add: execute_cases)
next
  case False
  let ?c = "sent_command env acc sg d price cid key"
  obtain r s1 where ex: "sm_execute (xe_simulator_now env) ?c price sim = (r, s1)" by fastforce
  have out: "(out, sim', db') = (map_sum id Some (fst (record_dispatch env ?c price key r db)), s1,
      snd (record_dispatch env ?c price key r db))"
    using assms(1) False ex by (simp add: execute_cases Let_def split: prod.splits)
  show ?thesis
  proof (cases "cmd_is_expired (xe_simulator_now env) ?c")
    case True
    note e = sm_execute_expired [OF True ex]
    from dispatch_expired [OF e(1), of env ?c price key db] obtain rep c' where
      "record_dispatch env ?c price key r db =
        (Inr rep, db\<lparr>xd_commands := xd_commands db @ [c'], xd_reports := xd_reports db @ [rep],
                     xd_audit := xd_audit db @ [(acc, dispatch_audit ?c r)]\<rparr>)"
      "dr_command_id rep = Some (dc_id c')" "dc_status c' = EXPIRED"
      "dc_idempotency_key c' = derived_key acc (xe_command_id env) key"
      "dc_volume_lots c' = or_default (rd_authorized_lot_size d) 0" by auto
    with out e False show ?thesis by (intro expired [where rep = rep and c = c' and r = "dispatch_audit ?c r"]) simp_all
  next
    case ne: False
    note f = sm_execute_open [OF sent_command_simps(1) ne ex]
    let ?k = "sm_ticket_counter sim + 1"
    from f(5) obtain fill where fill: "sm_positions s1 = AList.update ?k
      (new_position acc ?k (order_side sg) fill 0 (xe_simulator_now env) ?c) (sm_positions sim)" by auto
    have "?k \<noteq> 0" using assms(2) by simp
    note disp = dispatch_filled [OF f(1,2) this f(3), of db env price key]
    show ?thesis
    proof (cases "ticket_taken acc ?k db")
      case True
      with disp out False show ?thesis by (intro conflict) simp_all
    next
      case free: False
      with disp obtain rep c' p where
        rec: "record_dispatch env ?c price key r db =
          (Inr rep, db\<lparr>xd_commands := xd_commands db @ [c'], xd_reports := xd_reports db @ [rep],
                       xd_positions := xd_positions db @ [p],
                       xd_audit := xd_audit db @ [(acc, dispatch_audit ?c r)]\<rparr>)"
        and facts: "dr_command_id rep = Some (dc_id c')" "dr_broker_ticket rep = Some ?k"
          "dc_status c' = FILLED" "dc_idempotency_key c' = derived_key acc (xe_command_id env) key"
          "dc_volume_lots c' = or_default (rd_authorized_lot_size d) 0" "dp_account_id p = acc"
          "dp_broker_ticket p = ?k" "dp_lots p = or_default (rd_authorized_lot_size d) 0"
          "dp_side p = side_name (order_side sg)" "dp_status p = ''OPEN''" by auto
      from rec out f(4) fill facts free False show ?thesis
        by (intro filled [where rep = rep and c = c' and p = p and r = "dispatch_audit ?c r" and fill = fill]) simp_all
    qed
  qed
qed

subsection \<open>The tables stay keyed\<close>

definition tables_ok :: "exec_db \<Rightarrow> bool" where
  "tables_ok db \<longleftrightarrow>
     distinct (map (\<lambda>p. (dp_account_id p, dp_broker_ticket p)) (xd_positions db))
     \<and> distinct (map dc_idempotency_key (xd_commands db))"

lemma ticket_taken_iff:
  "ticket_taken acc k db
     \<longleftrightarrow> (acc, k) \<in> (\<lambda>p. (dp_account_id p, dp_broker_ticket p)) ` set (xd_positions db)"
  by (auto simp: ticket_taken_def list_ex_iff)

lemma key_used_iff: "key_used k db \<longleftrightarrow> k \<in> dc_idempotency_key ` set (xd_commands db)"
  by (auto simp: key_used_def list_ex_iff)

lemma tables_ok_execute [inv_intros]:
  assumes "execute_approved_signal env acc sg d price cid key sim db = (out, sim', db')"
    "0 \<le> sm_ticket_counter sim" "tables_ok db"
  shows "tables_ok db'"
  using assms(1,2)
proof (cases rule: execute_split)
  case expired
  with assms(3) show ?thesis by (auto simp: tables_ok_def refuses_def key_used_iff)
next
  case filled
  with assms(3) show ?thesis by (auto simp: tables_ok_def refuses_def key_used_iff ticket_taken_iff)
qed (use assms(3) in simp_all)

lemma sm_inv_execute_service [inv_intros]:
  assumes "execute_approved_signal env acc sg d price cid key sim db = (out, sim', db')" "sm_inv sim"
  shows "sm_inv sim'"
proof -
  have "sm_inv (snd (sm_execute (xe_simulator_now env) (sent_command env acc sg d price cid key) price sim))"
    by (rule sm.inv_execute [OF assms(2)])
  with assms show ?thesis by (simp add: execute_cases Let_def split: if_splits prod.splits)
qed

lemma close_position_key [simp]:
  "dp_account_id (close_position now price p) = dp_account_id p"
  "dp_broker_ticket (close_position now price p) = dp_broker_ticket p"
  "dp_lots (close_position now price p) = dp_lots p"
  "dp_status (close_position now price p) = ''CLOSED''"
  by (simp_all add: close_position_def Let_def split: option.split)

lemma close_matching_keys [simp]:
  "map (\<lambda>p. (dp_account_id p, dp_broker_ticket p)) (close_matching now acc k price ps)
     = map (\<lambda>p. (dp_account_id p, dp_broker_ticket p)) ps"
  by (simp add: close_matching_def comp_def if_distrib cong: if_cong)

lemma agent_position_key [simp]:
  "dp_account_id (agent_position j now acc k r) = acc"
  "dp_broker_ticket (agent_position j now acc k r) = k"
  by (simp_all add: agent_position_def Let_def)

text \<open>What a recorded agent result does to the positions.\<close>

lemma record_agent_cases:
  assumes "record_agent_execution_result j now acc cmd result msg db = Inr db'"
  obtains (same) "xd_positions db' = xd_positions db" "xd_commands db' = xd_commands db"
  | (added) k r where "\<not> ticket_taken acc k db" "k \<noteq> 0" "xd_commands db' = xd_commands db"
      "xd_positions db' = xd_positions db @ [agent_position j now acc k r]"
  | (closed) k price where "xd_commands db' = xd_commands db"
      "xd_positions db' = close_matching now acc k price (xd_positions db)"
  using assms unfolding record_agent_execution_result_def Let_def
  by (auto split: if_splits elim!: bind_res_InrE)

lemma tables_ok_agent [inv_intros]:
  assumes "record_agent_execution_result j now acc cmd result msg db = Inr db'" "tables_ok db"
  shows "tables_ok db'"
  using assms(1)
proof (cases rule: record_agent_cases)
  case (added k r)
  with assms(2) show ?thesis by (auto simp: tables_ok_def ticket_taken_iff)
qed (use assms(2) in \<open>simp_all add: tables_ok_def\<close>)

lemma tables_ok_reconcile [inv_intros]:
  assumes "reconcile_account_positions now acc reported db = (r, db')" "tables_ok db"
  shows "tables_ok db'"
  using assms by (auto simp: reconcile_account_positions_def Let_def tables_ok_def split: if_splits)

text \<open>The service as a system: any interleaving of dispatches, agent results and reconciliations.\<close>

inductive service_step :: "'v json_reading \<Rightarrow> mt5_simulator \<times> exec_db \<Rightarrow> mt5_simulator \<times> exec_db \<Rightarrow> bool"
  for j where
  dispatch: "execute_approved_signal env acc sg d price cid key sim db = (out, sim', db')
    \<Longrightarrow> service_step j (sim, db) (sim', db')"
| agent: "record_agent_execution_result j now acc cmd result msg db = Inr db'
    \<Longrightarrow> service_step j (sim, db) (sim, db')"
| recon: "reconcile_account_positions now acc reported db = (r, db')
    \<Longrightarrow> service_step j (sim, db) (sim, db')"

inductive service_reach :: "'v json_reading \<Rightarrow> mt5_simulator \<times> exec_db \<Rightarrow> mt5_simulator \<times> exec_db \<Rightarrow> bool"
  for j s where
  start: "service_reach j s s"
| step: "service_reach j s s' \<Longrightarrow> service_step j s' s'' \<Longrightarrow> service_reach j s s''"

inductive_cases service_stepE: "service_step j (sim, db) s'"

lemma service_step_inv:
  assumes "service_step j s s'" "sm_inv (fst s) \<and> tables_ok (snd s)"
  shows "sm_inv (fst s') \<and> tables_ok (snd s')"
  using assms(1)
proof (cases rule: service_step.cases)
  case (dispatch env acc sg d price cid key sim db out sim' db')
  with assms(2) have "0 \<le> sm_ticket_counter sim" by (simp add: sm_inv_def)
  from tables_ok_execute [OF dispatch(3) this] sm_inv_execute_service [OF dispatch(3)] dispatch assms(2)
  show ?thesis by simp
next
  case (agent now acc cmd result msg db db' sim)
  with assms(2) show ?thesis using tables_ok_agent [OF agent(3)] by simp
next
  case (recon now acc reported db r db' sim)
  with assms(2) show ?thesis using tables_ok_reconcile [OF recon(3)] by simp
qed

lemma service_reach_inv:
  "service_reach j s s' \<Longrightarrow> sm_inv (fst s) \<and> tables_ok (snd s) \<Longrightarrow> sm_inv (fst s') \<and> tables_ok (snd s')"
  by (induction rule: service_reach.induct) (auto dest: service_step_inv)

subsection \<open>The server's table mirrors the simulator\<close>

text \<open>The abstract view of a position that both sides share.\<close>

definition db_view :: "db_position \<Rightarrow> int \<times> dec \<times> string" where
  "db_view p = (dp_broker_ticket p, dp_lots p, dp_side p)"

definition broker_view :: "position_report \<Rightarrow> int \<times> dec \<times> string" where
  "broker_view p = (pr_broker_ticket p, pr_lots p, side_name (pr_side p))"

definition in_sync :: "string \<Rightarrow> mt5_simulator \<Rightarrow> exec_db \<Rightarrow> bool" where
  "in_sync acc sim db \<longleftrightarrow>
     sm_inv sim \<and> map db_view (open_positions_of acc db) = map broker_view (sm_open_positions sim)
     \<and> (\<forall>p \<in> set (xd_positions db). dp_account_id p = acc \<longrightarrow> dp_broker_ticket p \<le> sm_ticket_counter sim)"

lemma in_sync_free: "in_sync acc sim db \<Longrightarrow> \<not> ticket_taken acc (sm_ticket_counter sim + 1) db"
  by (auto simp: in_sync_def ticket_taken_iff)

lemma in_sync_counter: "in_sync acc sim db \<Longrightarrow> 0 \<le> sm_ticket_counter sim"
  by (simp add: in_sync_def sm_inv_def)

lemma in_sync_execute [inv_intros]:
  assumes "execute_approved_signal env acc sg d price cid key sim db = (out, sim', db')"
    "in_sync acc sim db"
  shows "in_sync acc sim' db' \<and> out \<noteq> Inl IntegrityError"
  using assms(1) in_sync_counter [OF assms(2)]
proof (cases rule: execute_split)
  case conflict
  with in_sync_free [OF assms(2)] show ?thesis by simp
next
  case (filled rep c p r fill)
  have inv: "sm_inv sim'" by (rule sm_inv_execute_service [OF assms(1)]) (use assms(2) in \<open>simp add: in_sync_def\<close>)
  have "sm_ticket_counter sim + 1 \<notin> fst ` set (sm_positions sim)"
    using assms(2) by (auto simp: in_sync_def sm_inv_def tickets_ok_def)
  with filled(5) have "sm_open_positions sim' = sm_open_positions sim
      @ [new_position acc (sm_ticket_counter sim + 1) (order_side sg) fill 0 (xe_simulator_now env)
           (sent_command env acc sg d price cid key)]"
    by (simp add: sm_open_positions_def update_fresh)
  moreover have "open_positions_of acc db' = open_positions_of acc db @ [p]"
    using filled by (simp add: open_positions_of_def)
  ultimately have "map db_view (open_positions_of acc db') = map broker_view (sm_open_positions sim')"
    using assms(2) filled by (simp add: in_sync_def db_view_def broker_view_def)
  with inv assms(2) filled show ?thesis by (auto simp: in_sync_def)
qed (use assms(2) in \<open>simp_all add: in_sync_def open_positions_of_def\<close>)

text \<open>The dict comprehension over distinct tickets.\<close>

lemma update_distinct_keys:
  assumes "distinct (map f xs)" "set (map f xs) \<inter> fst ` set m = {}"
  shows "foldl (\<lambda>m p. AList.update (f p) (g p) m) m xs = m @ map (\<lambda>p. (f p, g p)) xs"
  using assms
proof (induction xs arbitrary: m)
  case (Cons x xs)
  then have "f x \<notin> fst ` set m" by auto
  then have "AList.update (f x) (g x) m = m @ [(f x, g x)]" by (rule update_fresh)
  with Cons show ?case by auto
qed simp

lemma in_sync_distinct:
  assumes "in_sync acc sim db" shows "distinct (map dp_broker_ticket (open_positions_of acc db))"
proof -
  have "map dp_broker_ticket (open_positions_of acc db) = map fst (map db_view (open_positions_of acc db))"
    by (simp add: db_view_def comp_def)
  also have "\<dots> = map pr_broker_ticket (sm_open_positions sim)"
    using assms by (simp add: in_sync_def broker_view_def comp_def)
  finally show ?thesis using sm.distinct_tickets assms by (simp add: in_sync_def)
qed

lemma server_map_distinct:
  "distinct (map dp_broker_ticket (open_positions_of acc db)) \<Longrightarrow>
     server_map acc db = map (\<lambda>p. (dp_broker_ticket p, server_entry p)) (open_positions_of acc db)"
  using update_distinct_keys [of dp_broker_ticket "open_positions_of acc db" "[]" server_entry]
  by (simp add: server_map_def)

lemma server_map_no_status: "e \<in> set (server_map acc db) \<Longrightarrow> sp_status (snd e) = None"
proof -
  have "\<forall>e \<in> set (foldl (\<lambda>m p. AList.update (dp_broker_ticket p) (server_entry p) m) m ps).
      sp_status (snd e) = None" if "\<forall>e \<in> set m. sp_status (snd e) = None" for m ps
    using that
  proof (induction ps arbitrary: m)
    case (Cons p ps)
    have "set (AList.update (dp_broker_ticket p) (server_entry p) m)
        \<subseteq> insert (dp_broker_ticket p, server_entry p) (set m)"
      by (induction m) auto
    with Cons.prems have "\<forall>e \<in> set (AList.update (dp_broker_ticket p) (server_entry p) m). sp_status (snd e) = None"
      by (auto simp: server_entry_def)
    then show ?case using Cons.IH by simp
  qed simp
  from this [of "[]"] show "e \<in> set (server_map acc db) \<Longrightarrow> sp_status (snd e) = None"
    unfolding server_map_def by auto
qed

lemma no_phantoms: "filter (is_phantom seen) (server_map acc db) = []"
  using server_map_no_status by (fastforce simp: filter_empty_conv is_phantom_def)

lemma in_sync_tracked:
  assumes "in_sync acc sim db" "bp \<in> set (sm_open_positions sim)"
  shows "tracked (server_map acc db) bp"
proof -
  from assms have "broker_view bp \<in> set (map db_view (open_positions_of acc db))"
    by (simp add: in_sync_def)
  then obtain p where p: "p \<in> set (open_positions_of acc db)" "db_view p = broker_view bp" by auto
  have d: "distinct (map dp_broker_ticket (open_positions_of acc db))" by (rule in_sync_distinct [OF assms(1)])
  have "map_of (server_map acc db) (dp_broker_ticket p) = Some (server_entry p)"
    unfolding server_map_distinct [OF d]
    by (rule map_of_is_SomeI) (use d p in \<open>auto simp: comp_def\<close>)
  with p(2) show ?thesis
    by (simp add: tracked_def db_view_def broker_view_def server_entry_def server_lots_def server_side_def)
qed

lemma in_sync_reconciles:
  assumes "in_sync acc sim db"
  shows "rc_is_clean (fst (reconcile_account_positions now acc (sm_open_positions sim) db))"
    "snd (reconcile_account_positions now acc (sm_open_positions sim) db) = db"
    "rc_matched_count (fst (reconcile_account_positions now acc (sm_open_positions sim) db))
       = length (open_positions_of acc db)"
proof -
  have t: "\<forall>bp \<in> set (sm_open_positions sim). tracked (server_map acc db) bp"
    using in_sync_tracked [OF assms] by blast
  then have nc: "\<not> has_critical_discrepancy (reconcile now acc (server_map acc db) (sm_open_positions sim))"
    by (simp add: critical_iff)
  then have r: "reconcile_account_positions now acc (sm_open_positions sim) db
      = (reconcile now acc (server_map acc db) (sm_open_positions sim), db)"
    by (simp add: reconcile_account_positions_def Let_def)
  have "length (open_positions_of acc db) = length (sm_open_positions sim)"
    using assms by (metis in_sync_def length_map)
  with r t show "rc_is_clean (fst (reconcile_account_positions now acc (sm_open_positions sim) db))"
    "snd (reconcile_account_positions now acc (sm_open_positions sim) db) = db"
    "rc_matched_count (fst (reconcile_account_positions now acc (sm_open_positions sim) db))
       = length (open_positions_of acc db)"
    by (simp_all add: broker_discrepancies_Nil_iff no_phantoms check_None_iff filter_id_conv)
qed

subsection \<open>A worked example\<close>

definition empty_db :: exec_db where
  "empty_db = \<lparr>xd_commands = [], xd_reports = [], xd_positions = [], xd_audit = []\<rparr>"

definition demo_decision :: risk_decision where
  "demo_decision =
     \<lparr>rd_decision = APPROVED, rd_reason_code = ALL_CHECKS_PASSED, rd_risk_state = RS_NORMAL,
      rd_account_id = ''acc'', rd_correlation_id = ''cid'', rd_decided_at = 0, rd_equity_at_decision = None,
      rd_drawdown_at_decision = None, rd_daily_pnl_at_decision = None, rd_profit_lock_status = None,
      rd_authorized_lot_size = Some (1 / 10)\<rparr>"

definition demo_exec_env :: exec_env where
  "demo_exec_env =
     \<lparr>xe_command_id = ''c1'', xe_fresh_correlation_id = ''f1'', xe_created_at = 0, xe_sent_at = 1,
      xe_simulator_now = 2, xe_stored_sent_at = 1\<rparr>"

definition demo_signal :: exec_signal where
  "demo_signal = \<lparr>xs_direction = Some ''sell'', xs_symbol = Some ''XAUUSD'', xs_stop_loss = Some 2010, xs_take_profit = None\<rparr>"

definition demo_dispatch :: "exec_db \<Rightarrow> (db_error + db_report option) \<times> mt5_simulator \<times> exec_db" where
  "demo_dispatch db = execute_approved_signal demo_exec_env ''acc'' demo_signal demo_decision (Some 2000) None
     (Some ''k1'') (mt5_simulator_init 2000 2001) db"

lemma refuses_demo [simp]: "refuses demo_exec_env acc demo_decision (Some ''k1'') db \<longleftrightarrow> key_used ''k1'' db"
  by (simp add: refuses_def demo_decision_def demo_exec_env_def rd_trading_allowed_def or_default_def derived_key_def)

lemma demo_fill:
  obtains rep sim' db' where "demo_dispatch empty_db = (Inr (Some rep), sim', db')"
    "dr_broker_ticket rep = Some 1000001"
    "length (xd_positions db') = 1" "ticket_taken ''acc'' 1000001 db'" "key_used ''k1'' db'"
    "sm_ticket_counter sim' = 1000001"
proof -
  let ?s0 = "mt5_simulator_init 2000 2001"
  let ?c = "sent_command demo_exec_env ''acc'' demo_signal demo_decision (Some 2000) None (Some ''k1'')"
  have ne: "\<not> cmd_is_expired (xe_simulator_now demo_exec_env) ?c"
    by (simp add: cmd_is_expired_def) (simp add: demo_exec_env_def)
  obtain out sim' db' where d: "demo_dispatch empty_db = (out, sim', db')" by (cases "demo_dispatch empty_db")
  have "sm_execute (xe_simulator_now demo_exec_env) ?c (Some 2000) ?s0 =
      (fst (sm_execute (xe_simulator_now demo_exec_env) ?c (Some 2000) ?s0), sim')"
    using d by (simp add: demo_dispatch_def execute_cases key_used_def empty_db_def Let_def split: prod.splits)
  from sm_execute_open(4) [OF sent_command_simps(1) ne this] have k: "sm_ticket_counter sim' = 1000001"
    by (simp add: mt5_simulator_init_def)
  have "0 \<le> sm_ticket_counter ?s0" by (simp add: mt5_simulator_init_def)
  from d [unfolded demo_dispatch_def] this show ?thesis
  proof (cases rule: execute_split)
    case refused
    then show ?thesis by (simp add: key_used_def empty_db_def)
  next
    case conflict
    then show ?thesis by (simp add: ticket_taken_def empty_db_def)
  next
    case (filled rep c p r fill)
    from d filled(2) have "demo_dispatch empty_db = (Inr (Some rep), sim', db')" by simp
    then show ?thesis
      by (rule that [of rep sim' db'])
        (use filled in \<open>simp_all add: empty_db_def k mt5_simulator_init_def ticket_taken_iff
           key_used_iff derived_key_def\<close>)
  qed (use k in \<open>simp_all add: mt5_simulator_init_def\<close>)
qed

subsection \<open>Properties\<close>

text \<open>
  C11: a dispatch is authorised, complete and at most once.  The service returns nothing, and touches
  nothing, exactly when risk did not allow the trade, no positive volume was authorised or the
  idempotency key is taken; a constraint violation leaves the tables as they were.  Otherwise it adds
  exactly one command with that key and the authorised volume and one report of it, and either the
  command filled and one open position with the authorised volume was added, or it expired and
  neither the positions nor the broker changed.
\<close>

theorem dispatch_outcomes:
  assumes "execute_approved_signal env acc sg d price cid key sim db = (out, sim', db')" "sm_inv sim"
  shows "(out = Inr None \<longleftrightarrow> \<not> rd_trading_allowed d \<or> or_default (rd_authorized_lot_size d) 0 \<le> 0
      \<or> key_used (derived_key acc (xe_command_id env) key) db)
    \<and> (out = Inr None \<longrightarrow> sim' = sim \<and> db' = db)
    \<and> (out = Inl IntegrityError \<longrightarrow> db' = db \<and> ticket_taken acc (sm_ticket_counter sim + 1) db)
    \<and> (\<forall>rep. out = Inr (Some rep) \<longrightarrow>
         (\<exists>c. xd_commands db' = xd_commands db @ [c] \<and> xd_reports db' = xd_reports db @ [rep]
            \<and> dr_command_id rep = Some (dc_id c)
            \<and> dc_idempotency_key c = derived_key acc (xe_command_id env) key
            \<and> Some (dc_volume_lots c) = rd_authorized_lot_size d
            \<and> (dc_status c = EXPIRED \<and> sim' = sim \<and> xd_positions db' = xd_positions db
               \<or> dc_status c = FILLED
                 \<and> (\<exists>p. xd_positions db' = xd_positions db @ [p] \<and> dp_account_id p = acc
                      \<and> Some (dp_lots p) = rd_authorized_lot_size d \<and> dp_side p = side_name (order_side sg)
                      \<and> dp_status p = ''OPEN'' \<and> dr_broker_ticket rep = Some (dp_broker_ticket p)))))"
proof -
  have lots: "Some (or_default (rd_authorized_lot_size d) 0) = rd_authorized_lot_size d"
    if "\<not> refuses env acc d key db"
    using that by (auto simp: refuses_def or_default_def split: option.splits)
  from assms(2) have "0 \<le> sm_ticket_counter sim" by (simp add: sm_inv_def)
  from assms(1) this show ?thesis
  proof (cases rule: execute_split)
    case expired
    with lots show ?thesis by (simp add: refuses_def)
  next
    case filled
    with lots show ?thesis by (simp add: refuses_def)
  qed (simp_all add: refuses_def)
qed

theorem dispatch_outcomes_witness:
  "\<exists>rep sim' db'. demo_dispatch empty_db = (Inr (Some rep), sim', db')
     \<and> (\<exists>c. xd_commands db' = [c] \<and> dc_volume_lots c = 1 / 10)"
proof -
  obtain rep sim' db' where d: "demo_dispatch empty_db = (Inr (Some rep), sim', db')" by (rule demo_fill)
  from dispatch_outcomes [OF d [unfolded demo_dispatch_def] sm_inv_init] d show ?thesis
    by (auto simp: empty_db_def demo_decision_def)
qed

text \<open>
  a retried dispatch is not executed again.  After any dispatch that reached the broker, a second
  call with the same idempotency key, whatever its signal, decision, price and ids, returns nothing
  and changes neither the broker nor the tables.
\<close>

theorem retry_is_ignored:
  assumes "execute_approved_signal env acc sg d price cid (Some key) sim db = (Inr (Some rep), sim', db')"
    "sm_inv sim" "key \<noteq> []"
  shows "execute_approved_signal env' acc' sg' d' price' cid' (Some key) sim' db' = (Inr None, sim', db')"
proof -
  have dk: "derived_key a i (Some key) = key" for a i using assms(3) by (simp add: derived_key_def)
  have "0 \<le> sm_ticket_counter sim" using assms(2) by (simp add: sm_inv_def)
  with assms(1) have "key_used key db'"
  proof (cases rule: execute_split)
    case expired
    with dk show ?thesis by (simp add: key_used_iff)
  next
    case filled
    with dk show ?thesis by (simp add: key_used_iff)
  qed simp_all
  then show ?thesis by (simp add: execute_cases refuses_def dk)
qed

theorem retry_is_ignored_witness:
  "\<exists>rep sim' db'. demo_dispatch empty_db = (Inr (Some rep), sim', db')
     \<and> execute_approved_signal demo_exec_env ''acc'' demo_signal demo_decision (Some 2000) None
         (Some ''k1'') sim' db' = (Inr None, sim', db')"
proof -
  obtain rep sim' db' where d: "demo_dispatch empty_db = (Inr (Some rep), sim', db')" by (rule demo_fill)
  from retry_is_ignored [OF d [unfolded demo_dispatch_def] sm_inv_init] d show ?thesis by blast
qed

text \<open>
  positions and commands stay uniquely keyed.  In any interleaving of dispatches, recorded agent
  results and reconciliations, over any accounts, no two positions share account and ticket and no
  two commands share an idempotency key.
\<close>

theorem tables_stay_keyed:
  assumes "service_reach j (sim, db) (sim', db')" "sm_inv sim" "tables_ok db"
  shows "distinct (map (\<lambda>p. (dp_account_id p, dp_broker_ticket p)) (xd_positions db'))
    \<and> distinct (map dc_idempotency_key (xd_commands db'))"
  using service_reach_inv [OF assms(1)] assms(2,3) by (simp add: tables_ok_def)

theorem tables_stay_keyed_witness:
  "\<exists>sim db. service_reach (\<lparr>jr_as_int = Some, jr_as_dec = (\<lambda>_. None), jr_as_str = (\<lambda>_. []), jr_truthy = (\<lambda>x. x \<noteq> 0)\<rparr>)
       (mt5_simulator_init 2000 2001, empty_db) (sim, db) \<and> length (xd_positions db) = 1
     \<and> distinct (map dc_idempotency_key (xd_commands db))"
proof -
  obtain rep sim' db' where d: "demo_dispatch empty_db = (Inr (Some rep), sim', db')" "length (xd_positions db') = 1"
    by (rule demo_fill)
  let ?j = "\<lparr>jr_as_int = Some, jr_as_dec = (\<lambda>_. None), jr_as_str = (\<lambda>_. []), jr_truthy = (\<lambda>x. x \<noteq> 0)\<rparr>"
  have r: "service_reach ?j (mt5_simulator_init 2000 2001, empty_db) (sim', db')"
    by (rule service_reach.step [OF service_reach.start]) (rule service_step.dispatch [OF d(1) [unfolded demo_dispatch_def]])
  from tables_stay_keyed [OF r sm_inv_init] d(2) r show ?thesis by (auto simp: tables_ok_def empty_db_def)
qed

text \<open>
  the server's view refines the broker's.  While one account trades through its own simulator and
  the two agree on ticket, volume and side of every open position, any dispatch keeps them in
  agreement and never violates the ticket constraint, and reconciliation after it is clean, matches
  every open position and writes nothing.
\<close>

theorem dispatch_keeps_sync:
  assumes "execute_approved_signal env acc sg d price cid key sim db = (out, sim', db')" "in_sync acc sim db"
  shows "in_sync acc sim' db' \<and> out \<noteq> Inl IntegrityError
    \<and> rc_is_clean (fst (reconcile_account_positions now acc (sm_open_positions sim') db'))
    \<and> rc_matched_count (fst (reconcile_account_positions now acc (sm_open_positions sim') db'))
        = length (open_positions_of acc db')
    \<and> snd (reconcile_account_positions now acc (sm_open_positions sim') db') = db'"
  using in_sync_execute [OF assms] in_sync_reconciles by blast

theorem dispatch_keeps_sync_witness:
  "\<exists>rep sim' db'. demo_dispatch empty_db = (Inr (Some rep), sim', db')
     \<and> rc_is_clean (fst (reconcile_account_positions 9 ''acc'' (sm_open_positions sim') db'))"
proof -
  obtain rep sim' db' where d: "demo_dispatch empty_db = (Inr (Some rep), sim', db')" by (rule demo_fill)
  have "in_sync ''acc'' (mt5_simulator_init 2000 2001) empty_db"
    using sm_inv_init by (auto simp: in_sync_def empty_db_def open_positions_of_def
        mt5_simulator_init_def sm_open_positions_def)
  from dispatch_keeps_sync [OF d [unfolded demo_dispatch_def] this] d show ?thesis by blast
qed

text \<open>
  after a restart of the simulator the account is stuck.  The new simulator starts counting at the
  same ticket, so if the account has a position under the first ticket, the next authorised fill
  violates the unique constraint and is lost; the reconciliation before it is clean although the
  database has open positions the broker does not, since the dict it builds has no status.
\<close>

theorem restart_loses_fills:
  assumes "ticket_taken acc 1000001 db" "\<not> refuses env acc d key db"
    "xe_simulator_now env \<le> xe_created_at env + 5000000"
  shows "rc_is_clean (fst (reconcile_account_positions now acc
        (sm_open_positions (mt5_simulator_init bid ask)) db))
    \<and> fst (execute_approved_signal env acc sg d price cid key (mt5_simulator_init bid ask) db) = Inl IntegrityError
    \<and> snd (snd (execute_approved_signal env acc sg d price cid key (mt5_simulator_init bid ask) db)) = db"
proof -
  obtain out sim' db' where e:
    "execute_approved_signal env acc sg d price cid key (mt5_simulator_init bid ask) db = (out, sim', db')"
    by (metis prod_cases3)
  let ?c = "sent_command env acc sg d price cid key"
  have ne: "\<not> cmd_is_expired (xe_simulator_now env) ?c" using assms(3) by (simp add: cmd_is_expired_def)
  have "sm_execute (xe_simulator_now env) ?c price (mt5_simulator_init bid ask)
      = (fst (sm_execute (xe_simulator_now env) ?c price (mt5_simulator_init bid ask)), sim')"
    using e assms(2) by (simp add: execute_cases Let_def split: prod.splits)
  note k = sm_execute_open(4) [OF sent_command_simps(1) ne this]
  have "0 \<le> sm_ticket_counter (mt5_simulator_init bid ask)" by (simp add: mt5_simulator_init_def)
  with e have "out = Inl IntegrityError \<and> db' = db"
  proof (cases rule: execute_split)
    case filled
    with assms(1) show ?thesis by (simp add: mt5_simulator_init_def)
  qed (use assms(2) k in \<open>simp_all add: mt5_simulator_init_def\<close>)
  moreover have "rc_is_clean (reconcile now acc (server_map acc db) [])"
    using no_phantoms [of "{}"] by simp
  ultimately show ?thesis using e
    by (simp add: reconcile_account_positions_def Let_def mt5_simulator_init_def sm_open_positions_def)
qed

theorem restart_loses_fills_witness:
  "\<exists>db. length (open_positions_of ''acc'' db) = 1
     \<and> rc_is_clean (fst (reconcile_account_positions 9 ''acc'' (sm_open_positions (mt5_simulator_init 2000 2001)) db))
     \<and> fst (execute_approved_signal (demo_exec_env\<lparr>xe_command_id := ''c2''\<rparr>) ''acc'' demo_signal demo_decision
             (Some 2000) None None (mt5_simulator_init 2000 2001) db) = Inl IntegrityError"
proof -
  let ?p = "agent_position \<lparr>jr_as_int = Some, jr_as_dec = (\<lambda>_. None), jr_as_str = (\<lambda>_. []), jr_truthy = (\<lambda>x. x \<noteq> 0)\<rparr>
    0 ''acc'' 1000001 Map.empty"
  let ?db = "empty_db\<lparr>xd_positions := [?p]\<rparr>"
  have t: "ticket_taken ''acc'' 1000001 ?db" by (simp add: ticket_taken_def)
  have r: "\<not> refuses (demo_exec_env\<lparr>xe_command_id := ''c2''\<rparr>) ''acc'' demo_decision None ?db"
    by (simp add: refuses_def rd_trading_allowed_def demo_decision_def or_default_def key_used_def empty_db_def)
  have l: "xe_simulator_now (demo_exec_env\<lparr>xe_command_id := ''c2''\<rparr>)
      \<le> xe_created_at (demo_exec_env\<lparr>xe_command_id := ''c2''\<rparr>) + 5000000" by (simp add: demo_exec_env_def)
  have "length (open_positions_of ''acc'' ?db) = 1"
    by (simp add: open_positions_of_def agent_position_def Let_def)
  with restart_loses_fills [OF t r l, of 9 2000 2001 demo_signal "Some 2000" None] show ?thesis by blast
qed

end
