(* ===== verification/Tenancy.thy ===== *)
theory Tenancy
  imports Aurexis_Prelude
begin

section \<open>Tenancy: stores shared by several owners\<close>

text \<open>
  Several services keep the data of all tenants in one store and scope each operation to one owner
  (an agent, an account, a user).  The contract \<open>tenant_isolation\<close>: an operation of one owner leaves
  the view of every other owner alone.  The stronger \<open>tenant_store\<close>: its effect on its own view
  depends on that view only.  The consequence proved here is non-interference: what an owner sees
  after any interleaving is what its own operations produce.  \<open>fits\<close> is a side condition on an
  operation, such as a fresh identifier.  Where an operation carries credentials instead of an owner,
  the contract is \<open>guarded_isolation\<close>: an operation runs for whoever sends it, and only one that acts
  for an owner may change what the owner has.
\<close>

definition run_ops :: "('k \<Rightarrow> 'op \<Rightarrow> 's \<Rightarrow> 's) \<Rightarrow> ('k \<times> 'op) list \<Rightarrow> 's \<Rightarrow> 's" where
  "run_ops step ops s = foldl (\<lambda>s (k, op). step k op s) s ops"

fun ops_fit :: "('k \<Rightarrow> 'op \<Rightarrow> 's \<Rightarrow> 's) \<Rightarrow> ('k \<Rightarrow> 'op \<Rightarrow> 's \<Rightarrow> bool) \<Rightarrow> ('k \<times> 'op) list \<Rightarrow> 's \<Rightarrow> bool" where
  "ops_fit step fits [] s \<longleftrightarrow> True"
| "ops_fit step fits ((k, op) # ops) s \<longleftrightarrow> fits k op s \<and> ops_fit step fits ops (step k op s)"

lemma run_ops_Nil [simp]: "run_ops step [] s = s"
  by (simp add: run_ops_def)

lemma run_ops_Cons [simp]: "run_ops step ((k, op) # ops) s = run_ops step ops (step k op s)"
  by (simp add: run_ops_def)

lemma ops_fit_True [simp]: "ops_fit step (\<lambda>_ _ _. True) ops s"
proof (induction ops arbitrary: s)
  case (Cons o1 ops)
  then show ?case by (cases o1) auto
qed simp

locale tenant_isolation =
  fixes step :: "'k \<Rightarrow> 'op \<Rightarrow> 's \<Rightarrow> 's"
    and view :: "'k \<Rightarrow> 's \<Rightarrow> 'v"
    and inv :: "'s \<Rightarrow> bool"
  assumes inv_step: "inv s \<Longrightarrow> inv (step k op s)"
    and isolated: "inv s \<Longrightarrow> k' \<noteq> k \<Longrightarrow> view k' (step k op s) = view k' s"
begin

lemma inv_run: "inv s \<Longrightarrow> inv (run_ops step ops s)"
  by (induction ops arbitrary: s) (auto simp: inv_step)

lemma others_invisible:
  "inv s \<Longrightarrow> list_all (\<lambda>(k', op). k' \<noteq> k) ops \<Longrightarrow> view k (run_ops step ops s) = view k s"
  by (induction ops arbitrary: s) (auto simp: inv_step isolated)

end

subsection \<open>Operations with credentials\<close>

definition run_events :: "('op \<Rightarrow> 's \<Rightarrow> 's) \<Rightarrow> 'op list \<Rightarrow> 's \<Rightarrow> 's" where
  "run_events step ops s = foldl (\<lambda>s op. step op s) s ops"

text \<open>No operation of a run satisfies \<open>P\<close> in the state in which it is performed.\<close>

fun never :: "('op \<Rightarrow> 's \<Rightarrow> 's) \<Rightarrow> ('op \<Rightarrow> 's \<Rightarrow> bool) \<Rightarrow> 'op list \<Rightarrow> 's \<Rightarrow> bool" where
  "never step P [] s \<longleftrightarrow> True"
| "never step P (op # ops) s \<longleftrightarrow> \<not> P op s \<and> never step P ops (step op s)"

lemma run_events_Nil [simp]: "run_events step [] s = s"
  by (simp add: run_events_def)

lemma run_events_Cons [simp]: "run_events step (op # ops) s = run_events step ops (step op s)"
  by (simp add: run_events_def)

locale guarded_isolation =
  fixes step :: "'op \<Rightarrow> 's \<Rightarrow> 's"
    and view :: "'k \<Rightarrow> 's \<Rightarrow> 'v"
    and inv :: "'s \<Rightarrow> bool"
    and acts :: "'k \<Rightarrow> 'op \<Rightarrow> 's \<Rightarrow> bool"
  assumes inv_event: "inv s \<Longrightarrow> inv (step op s)"
    and guarded: "inv s \<Longrightarrow> \<not> acts k op s \<Longrightarrow> view k (step op s) = view k s"
begin

lemma inv_events: "inv s \<Longrightarrow> inv (run_events step ops s)"
  by (induction ops arbitrary: s) (auto simp: inv_event)

lemma bystander: "inv s \<Longrightarrow> never step (acts k) ops s \<Longrightarrow> view k (run_events step ops s) = view k s"
  by (induction ops arbitrary: s) (auto simp: inv_event guarded)

end

text \<open>An operation of an owner acts for that owner only.\<close>

sublocale tenant_isolation \<subseteq> owned: guarded_isolation "\<lambda>(k, op). step k op" view inv "\<lambda>k (k', op) s. k' = k"
  by unfold_locales (auto simp: inv_step isolated)

locale tenant_store = tenant_isolation step view inv
  for step :: "'k \<Rightarrow> 'op \<Rightarrow> 's \<Rightarrow> 's" and view :: "'k \<Rightarrow> 's \<Rightarrow> 'v" and inv :: "'s \<Rightarrow> bool" +
  fixes fits :: "'k \<Rightarrow> 'op \<Rightarrow> 's \<Rightarrow> bool"
  assumes own_view: "inv s \<Longrightarrow> inv s' \<Longrightarrow> view k s = view k s' \<Longrightarrow> fits k op s \<Longrightarrow> fits k op s'
           \<Longrightarrow> view k (step k op s) = view k (step k op s')"
begin

lemma noninterference_views:
  assumes "inv s" "inv s'" "view k s = view k s'"
    and "ops_fit step fits ops s" "ops_fit step fits (filter (\<lambda>(k', op). k' = k) ops) s'"
  shows "view k (run_ops step ops s) = view k (run_ops step (filter (\<lambda>(k', op). k' = k) ops) s')"
  using assms
proof (induction ops arbitrary: s s')
  case (Cons o1 ops)
  obtain k1 op1 where o1: "o1 = (k1, op1)" by (cases o1)
  show ?case
  proof (cases "k1 = k")
    case True
    with Cons.prems o1 have "view k (step k op1 s) = view k (step k op1 s')" by (auto intro: own_view)
    with Cons.prems o1 True show ?thesis by (simp add: Cons.IH inv_step)
  next
    case False
    with Cons.prems o1 have "view k (step k1 op1 s) = view k s'" by (simp add: isolated)
    with Cons.prems o1 False show ?thesis by (simp add: Cons.IH inv_step)
  qed
qed simp

lemma noninterference:
  assumes "inv s" "ops_fit step fits ops s" "ops_fit step fits (filter (\<lambda>(k', op). k' = k) ops) s"
  shows "view k (run_ops step ops s) = view k (run_ops step (filter (\<lambda>(k', op). k' = k) ops) s)"
  using assms by (intro noninterference_views) auto

end

end
