(* ===== verification/Agent_Commands.thy ===== *)
theory Agent_Commands
  imports Execution_Service Tenancy
begin

section \<open>Agent commands (\<open>backend/services/agent_commands.py\<close>)\<close>

text \<open>
  The control-plane commands queued for an MT5 agent and their life: PENDING, SENT, ACKNOWLEDGED,
  COMPLETED, FAILED, EXPIRED.  The table is a list in insertion order with a unique id; a
  transaction that raises leaves the database as it was.  Rows with equal \<open>created_at\<close> are taken in
  insertion order.  \<open>json.dumps\<close> and \<open>json.loads\<close> are the two fields of a codec; the clock and the
  generated ids are arguments.  Texts of errors are left out.
\<close>

subsection \<open>Tables\<close>

datatype agent_status = AC_PENDING | AC_SENT | AC_ACKNOWLEDGED | AC_COMPLETED | AC_FAILED | AC_EXPIRED

record agent_command =
  ac_id :: string
  ac_agent_id :: string
  ac_command_type :: string
  ac_status :: agent_status
  ac_payload_json :: "string option"
  ac_result_json :: "string option"
  ac_error_message :: "string option"
  ac_created_at :: instant
  ac_sent_at :: "instant option"
  ac_acknowledged_at :: "instant option"
  ac_completed_at :: "instant option"

record agent_row =
  ag_id :: string
  ag_account_id :: string
  ag_label :: string
  ag_hashed_secret :: string
  ag_last_seen_at :: "instant option"
  ag_last_known_status :: string
  ag_mt5_version :: "string option"
  ag_ea_version :: "string option"
  ag_notes :: "string option"

datatype agent_event =
    AGENT_COMMAND_CREATED string string
  | AGENT_COMMAND_SENT string string
  | AGENT_COMMAND_ACKNOWLEDGED string string
  | AGENT_COMMAND_COMPLETED string string
  | AGENT_COMMAND_FAILED string string "string option"
  | AGENT_CONNECTED string
  | AGENT_REGISTERED string

text \<open>The user and account an audit entry is attributed to.\<close>

type_synonym actor = "string option \<times> string option"

record link_db =
  ld_agents :: "agent_row list"
  ld_accounts :: "(string \<times> string) list"
  ld_commands :: "agent_command list"
  ld_audit :: "(string \<times> actor \<times> agent_event) list"

record 'v json_codec =
  jc_dumps :: "'v json_dict \<Rightarrow> string option"
  jc_loads :: "string \<Rightarrow> 'v json_dict option"

datatype command_error =
    CommandError
  | InvalidCommandType string
  | InvalidStateTransition agent_status agent_status
  | CommandNotFound string
  | DuplicateId

subsection \<open>The service\<close>

definition supported_command_types :: "string set" where
  "supported_command_types = {''PING'', ''GET_STATUS'', ''OPEN_POSITION'', ''CLOSE_POSITION''}"

fun agent_transitions :: "agent_status \<Rightarrow> agent_status set" where
  "agent_transitions AC_PENDING = {AC_SENT, AC_FAILED, AC_EXPIRED}"
| "agent_transitions AC_SENT = {AC_ACKNOWLEDGED, AC_COMPLETED, AC_FAILED, AC_EXPIRED}"
| "agent_transitions AC_ACKNOWLEDGED = {AC_COMPLETED, AC_FAILED}"
| "agent_transitions AC_COMPLETED = {}"
| "agent_transitions AC_FAILED = {}"
| "agent_transitions AC_EXPIRED = {}"

definition add_link_audit :: "string \<Rightarrow> actor \<Rightarrow> agent_event \<Rightarrow> link_db \<Rightarrow> link_db" where
  "add_link_audit ag who ev db = db\<lparr>ld_audit := ld_audit db @ [(ag, who, ev)]\<rparr>"

text \<open>The flush of a changed row, which its primary key selects.\<close>

definition put_command :: "agent_command \<Rightarrow> link_db \<Rightarrow> link_db" where
  "put_command c db =
     db\<lparr>ld_commands := map (\<lambda>x. if ac_id x = ac_id c then c else x) (ld_commands db)\<rparr>"

definition new_command ::
  "string \<Rightarrow> instant \<Rightarrow> string \<Rightarrow> string \<Rightarrow> string option \<Rightarrow> agent_command" where
  "new_command cid now ag ty payload =
     \<lparr>ac_id = cid, ac_agent_id = ag, ac_command_type = ty, ac_status = AC_PENDING,
      ac_payload_json = payload, ac_result_json = None, ac_error_message = None, ac_created_at = now,
      ac_sent_at = None, ac_acknowledged_at = None, ac_completed_at = None\<rparr>"

definition dump_optional :: "'v json_codec \<Rightarrow> 'v json_dict option \<Rightarrow> (command_error + string option)" where
  "dump_optional j v =
     (case v of None \<Rightarrow> Inr None
      | Some d \<Rightarrow> (case jc_dumps j d of None \<Rightarrow> Inl CommandError | Some s \<Rightarrow> Inr (Some s)))"

definition create_command ::
  "'v json_codec \<Rightarrow> string \<Rightarrow> instant \<Rightarrow> actor \<Rightarrow> string \<Rightarrow> string \<Rightarrow> 'v json_dict option \<Rightarrow> link_db
     \<Rightarrow> (command_error + agent_command) \<times> link_db" where
  "create_command j cid now who ag command_type payload db =
     (let upper_type = map ascii_upper command_type
      in if upper_type \<notin> supported_command_types then (Inl (InvalidCommandType command_type), db)
         else case dump_optional j payload of
                Inl e \<Rightarrow> (Inl e, db)
              | Inr payload_json \<Rightarrow>
                  if cid \<in> ac_id ` set (ld_commands db) then (Inl DuplicateId, db)
                  else
                    let c = new_command cid now ag upper_type payload_json
                    in (Inr c, add_link_audit ag who (AGENT_COMMAND_CREATED cid upper_type)
                                 (db\<lparr>ld_commands := ld_commands db @ [c]\<rparr>)))"

definition get_command :: "string \<Rightarrow> string \<Rightarrow> link_db \<Rightarrow> agent_command option" where
  "get_command ag cid db = find (\<lambda>c. ac_id c = cid \<and> ac_agent_id c = ag) (ld_commands db)"

definition list_commands :: "string \<Rightarrow> nat \<Rightarrow> nat \<Rightarrow> link_db \<Rightarrow> agent_command list" where
  "list_commands ag limit offset db =
     take limit (drop offset
       (sort_key (\<lambda>c. - ac_created_at c) (filter (\<lambda>c. ac_agent_id c = ag) (ld_commands db))))"

definition pending_commands :: "string \<Rightarrow> nat \<Rightarrow> link_db \<Rightarrow> agent_command list" where
  "pending_commands ag limit db =
     take limit (sort_key ac_created_at
       (filter (\<lambda>c. ac_agent_id c = ag \<and> ac_status c = AC_PENDING) (ld_commands db)))"

definition mark_claimed :: "instant \<Rightarrow> agent_command \<Rightarrow> agent_command" where
  "mark_claimed now c = c\<lparr>ac_status := AC_SENT, ac_sent_at := Some now\<rparr>"

text \<open>The second half of a claim: the selected rows become SENT and are audited one by one.\<close>

definition mark_all_claimed ::
  "instant \<Rightarrow> actor \<Rightarrow> string \<Rightarrow> agent_command list \<Rightarrow> link_db \<Rightarrow> link_db" where
  "mark_all_claimed now who ag cs db =
     foldl (\<lambda>db c. add_link_audit ag who (AGENT_COMMAND_SENT (ac_id c) (ac_command_type c))
                     (put_command (mark_claimed now c) db)) db cs"

definition claim_pending_commands ::
  "instant \<Rightarrow> actor \<Rightarrow> string \<Rightarrow> nat \<Rightarrow> link_db \<Rightarrow> agent_command list \<times> link_db" where
  "claim_pending_commands now who ag limit db =
     (let cs = pending_commands ag limit db
      in (map (mark_claimed now) cs, mark_all_claimed now who ag cs db))"

definition mark_sent ::
  "instant \<Rightarrow> actor \<Rightarrow> string \<Rightarrow> string \<Rightarrow> link_db \<Rightarrow> (command_error + agent_command) \<times> link_db" where
  "mark_sent now who ag cid db =
     (case get_command ag cid db of
        None \<Rightarrow> (Inl (CommandNotFound cid), db)
      | Some c \<Rightarrow>
          (Inr (mark_claimed now c),
           add_link_audit ag who (AGENT_COMMAND_SENT cid (ac_command_type c))
             (put_command (mark_claimed now c) db)))"

definition has_in_flight_command :: "string \<Rightarrow> link_db \<Rightarrow> bool" where
  "has_in_flight_command ag db \<longleftrightarrow>
     list_ex (\<lambda>c. ac_agent_id c = ag \<and> (ac_status c = AC_SENT \<or> ac_status c = AC_ACKNOWLEDGED))
       (ld_commands db)"

definition acknowledge_command ::
  "instant \<Rightarrow> actor \<Rightarrow> string \<Rightarrow> string \<Rightarrow> link_db \<Rightarrow> (command_error + agent_command) \<times> link_db" where
  "acknowledge_command now who ag cid db =
     (case get_command ag cid db of
        None \<Rightarrow> (Inl (CommandNotFound cid), db)
      | Some c \<Rightarrow>
          if AC_ACKNOWLEDGED \<notin> agent_transitions (ac_status c)
          then (Inl (InvalidStateTransition (ac_status c) AC_ACKNOWLEDGED), db)
          else
            let c' = c\<lparr>ac_status := AC_ACKNOWLEDGED, ac_acknowledged_at := Some now\<rparr>
            in (Inr c', add_link_audit ag who (AGENT_COMMAND_ACKNOWLEDGED cid (ac_command_type c))
                          (put_command c' db)))"

definition complete_command ::
  "'v json_codec \<Rightarrow> instant \<Rightarrow> actor \<Rightarrow> string \<Rightarrow> string \<Rightarrow> 'v json_dict option \<Rightarrow> link_db
     \<Rightarrow> (command_error + agent_command) \<times> link_db" where
  "complete_command j now who ag cid result db =
     (case get_command ag cid db of
        None \<Rightarrow> (Inl (CommandNotFound cid), db)
      | Some c \<Rightarrow>
          if AC_COMPLETED \<notin> agent_transitions (ac_status c)
          then (Inl (InvalidStateTransition (ac_status c) AC_COMPLETED), db)
          else
            (case dump_optional j result of
               Inl e \<Rightarrow> (Inl e, db)
             | Inr r \<Rightarrow>
                 let c' = c\<lparr>ac_status := AC_COMPLETED, ac_completed_at := Some now,
                            ac_result_json := orelse r (ac_result_json c)\<rparr>
                 in (Inr c', add_link_audit ag who (AGENT_COMMAND_COMPLETED cid (ac_command_type c))
                               (put_command c' db))))"

definition fail_command ::
  "instant \<Rightarrow> actor \<Rightarrow> string \<Rightarrow> string \<Rightarrow> string option \<Rightarrow> link_db
     \<Rightarrow> (command_error + agent_command) \<times> link_db" where
  "fail_command now who ag cid error_message db =
     (case get_command ag cid db of
        None \<Rightarrow> (Inl (CommandNotFound cid), db)
      | Some c \<Rightarrow>
          if AC_FAILED \<notin> agent_transitions (ac_status c)
          then (Inl (InvalidStateTransition (ac_status c) AC_FAILED), db)
          else
            let msg = (case error_message of
                         Some m \<Rightarrow> if m = [] then ac_error_message c else Some (take 500 m)
                       | None \<Rightarrow> ac_error_message c);
                c' = c\<lparr>ac_status := AC_FAILED, ac_completed_at := Some now, ac_error_message := msg\<rparr>
            in (Inr c', add_link_audit ag who (AGENT_COMMAND_FAILED cid (ac_command_type c) msg)
                          (put_command c' db)))"

subsection \<open>Rows\<close>

text \<open>
  What the operations do to the rows.  A row \<open>evolves\<close> by one transition of its status, or back
  from SENT when a delivery fails; \<open>stamped\<close> ties its times and texts to its status.
\<close>

definition rows_of :: "string \<Rightarrow> agent_command list \<Rightarrow> agent_command list" where
  "rows_of ag cs = filter (\<lambda>c. ac_agent_id c = ag) cs"

definition put_row :: "agent_command \<Rightarrow> agent_command list \<Rightarrow> agent_command list" where
  "put_row c cs = map (\<lambda>x. if ac_id x = ac_id c then c else x) cs"

definition claim_rows :: "instant \<Rightarrow> string set \<Rightarrow> agent_command list \<Rightarrow> agent_command list" where
  "claim_rows now I cs = map (\<lambda>x. if ac_id x \<in> I then mark_claimed now x else x) cs"

definition evolves :: "agent_command \<Rightarrow> agent_command \<Rightarrow> bool" where
  "evolves c c' \<longleftrightarrow> c' = c
     \<or> ac_id c' = ac_id c \<and> ac_agent_id c' = ac_agent_id c \<and> ac_command_type c' = ac_command_type c
       \<and> ac_payload_json c' = ac_payload_json c \<and> ac_created_at c' = ac_created_at c
       \<and> (ac_status c' \<in> agent_transitions (ac_status c)
          \<or> ac_status c = AC_SENT \<and> ac_status c' = AC_PENDING)"

definition rows_evolve :: "agent_command list \<Rightarrow> agent_command list \<Rightarrow> bool" where
  "rows_evolve cs cs' \<longleftrightarrow> (\<exists>old new. cs' = old @ new \<and> list_all2 evolves\<^sup>*\<^sup>* cs old)"

definition stamped :: "agent_command \<Rightarrow> bool" where
  "stamped c \<longleftrightarrow> ac_status c \<noteq> AC_EXPIRED
     \<and> (ac_sent_at c = None) = (ac_status c = AC_PENDING \<or> ac_status c = AC_FAILED \<and> ac_sent_at c = None)
     \<and> (ac_status c \<in> {AC_PENDING, AC_SENT} \<longrightarrow> ac_acknowledged_at c = None)
     \<and> (ac_status c = AC_ACKNOWLEDGED \<longrightarrow> ac_acknowledged_at c \<noteq> None)
     \<and> (ac_completed_at c = None) = (ac_status c \<notin> {AC_COMPLETED, AC_FAILED})
     \<and> (ac_result_json c \<noteq> None \<longrightarrow> ac_status c = AC_COMPLETED)
     \<and> (\<forall>m. ac_error_message c = Some m \<longrightarrow> ac_status c = AC_FAILED \<and> length m \<le> 500)"

definition commands_inv :: "link_db \<Rightarrow> bool" where
  "commands_inv db \<longleftrightarrow> distinct (map ac_id (ld_commands db)) \<and> list_all stamped (ld_commands db)"

lemma mark_claimed_simps [simp]:
  "ac_id (mark_claimed now c) = ac_id c" "ac_agent_id (mark_claimed now c) = ac_agent_id c"
  "ac_status (mark_claimed now c) = AC_SENT" "ac_sent_at (mark_claimed now c) = Some now"
  "ac_command_type (mark_claimed now c) = ac_command_type c"
  "ac_payload_json (mark_claimed now c) = ac_payload_json c"
  "ac_created_at (mark_claimed now c) = ac_created_at c"
  by (simp_all add: mark_claimed_def)

lemma add_link_audit_simps [simp]:
  "ld_commands (add_link_audit ag who ev db) = ld_commands db"
  "ld_agents (add_link_audit ag who ev db) = ld_agents db"
  "ld_accounts (add_link_audit ag who ev db) = ld_accounts db"
  "ld_audit (add_link_audit ag who ev db) = ld_audit db @ [(ag, who, ev)]"
  by (simp_all add: add_link_audit_def)

lemma put_command_simps [simp]:
  "ld_commands (put_command c db) = put_row c (ld_commands db)"
  "ld_agents (put_command c db) = ld_agents db" "ld_accounts (put_command c db) = ld_accounts db"
  "ld_audit (put_command c db) = ld_audit db"
  by (simp_all add: put_command_def put_row_def)

lemma ids_put_row [simp]: "map ac_id (put_row c cs) = map ac_id cs"
  by (simp add: put_row_def comp_def cong: map_cong)

lemma ids_claim_rows [simp]: "map ac_id (claim_rows now I cs) = map ac_id cs"
  by (simp add: claim_rows_def comp_def cong: map_cong)

lemma same_row: "distinct (map ac_id cs) \<Longrightarrow> c \<in> set cs \<Longrightarrow> x \<in> set cs \<Longrightarrow> ac_id x = ac_id c \<Longrightarrow> x = c"
  by (auto simp: distinct_map inj_on_def)

lemma get_commandD:
  assumes "get_command ag cid db = Some c"
  shows "c \<in> set (ld_commands db)" "ac_id c = cid" "ac_agent_id c = ag"
  using assms by (auto simp: get_command_def find_Some_iff)

lemma get_command_rows: "get_command ag cid db = find (\<lambda>c. ac_id c = cid) (rows_of ag (ld_commands db))"
proof -
  have "find (\<lambda>c. ac_id c = cid \<and> ac_agent_id c = ag) cs = find (\<lambda>c. ac_id c = cid) (rows_of ag cs)" for cs
    by (induction cs) (auto simp: rows_of_def)
  then show ?thesis by (simp add: get_command_def)
qed

lemma pending_commands_rows:
  "pending_commands ag n db =
     take n (sort_key ac_created_at (filter (\<lambda>c. ac_status c = AC_PENDING) (rows_of ag (ld_commands db))))"
  by (simp add: pending_commands_def rows_of_def conj_commute)

lemma pending_commandsD:
  assumes "c \<in> set (pending_commands ag n db)"
  shows "c \<in> set (ld_commands db)" "ac_agent_id c = ag" "ac_status c = AC_PENDING"
  using assms set_take_subset by (fastforce simp: pending_commands_def)+

lemma rows_of_list:
  "rows_of ag [] = []"
  "rows_of ag (x # cs) = (if ac_agent_id x = ag then x # rows_of ag cs else rows_of ag cs)"
  by (simp_all add: rows_of_def)

lemma put_row_list:
  "put_row c [] = []" "put_row c (x # cs) = (if ac_id x = ac_id c then c else x) # put_row c cs"
  by (simp_all add: put_row_def)

lemma rows_put_row:
  assumes "\<forall>x \<in> set cs. ac_id x = ac_id c \<longrightarrow> ac_agent_id x = ac_agent_id c"
  shows "rows_of ag (put_row c cs) = (if ag = ac_agent_id c then put_row c (rows_of ag cs) else rows_of ag cs)"
  using assms
proof (induction cs)
  case (Cons x cs)
  then have IH: "rows_of ag (put_row c cs) = (if ag = ac_agent_id c then put_row c (rows_of ag cs) else rows_of ag cs)"
    by simp
  from Cons.prems have "ac_id x = ac_id c \<Longrightarrow> ac_agent_id x = ac_agent_id c" by simp
  then show ?case using IH by (cases "ac_id x = ac_id c") (auto simp: rows_of_list put_row_list)
qed (simp add: rows_of_list put_row_list)

lemma rows_put_row_db:
  assumes "distinct (map ac_id cs)" "c \<in> set cs" "ac_id c' = ac_id c"
    and "ac_agent_id c' = ac_agent_id c"
  shows "rows_of ag (put_row c' cs) = (if ag = ac_agent_id c then put_row c' (rows_of ag cs) else rows_of ag cs)"
proof -
  have "\<forall>x \<in> set cs. ac_id x = ac_id c' \<longrightarrow> ac_agent_id x = ac_agent_id c'"
  proof (intro ballI impI)
    fix x assume "x \<in> set cs" "ac_id x = ac_id c'"
    with assms(3) have "x = c" by (intro same_row [OF assms(1,2)]) simp_all
    with assms(4) show "ac_agent_id x = ac_agent_id c'" by simp
  qed
  from rows_put_row [OF this, of ag] show ?thesis using assms(4) by simp
qed

lemma put_row_claim_rows:
  assumes "distinct (map ac_id cs)" "c \<in> set cs"
  shows "put_row (mark_claimed now c) (claim_rows now I cs) = claim_rows now (insert (ac_id c) I) cs"
proof -
  have eq: "(ac_id x = ac_id c) = (x = c)" if "x \<in> set cs" for x
    using same_row [OF assms that] by auto
  show ?thesis by (simp add: put_row_def claim_rows_def eq cong: map_cong if_cong)
qed

lemma claim_rows_none: "claim_rows now {} cs = cs"
  by (simp add: claim_rows_def)

lemma mark_all_claimed_simps:
  assumes "distinct (map ac_id (ld_commands db))" "set cs \<subseteq> set (ld_commands db)"
  shows "ld_commands (mark_all_claimed now who ag cs db) = claim_rows now (ac_id ` set cs) (ld_commands db)"
    "ld_agents (mark_all_claimed now who ag cs db) = ld_agents db"
    "ld_accounts (mark_all_claimed now who ag cs db) = ld_accounts db"
    "ld_audit (mark_all_claimed now who ag cs db) =
       ld_audit db @ map (\<lambda>c. (ag, who, AGENT_COMMAND_SENT (ac_id c) (ac_command_type c))) cs"
proof -
  have "ld_commands d = claim_rows now I (ld_commands db) \<Longrightarrow> set cs \<subseteq> set (ld_commands db) \<Longrightarrow>
      ld_commands (mark_all_claimed now who ag cs d) = claim_rows now (I \<union> ac_id ` set cs) (ld_commands db)
    \<and> ld_agents (mark_all_claimed now who ag cs d) = ld_agents d
    \<and> ld_accounts (mark_all_claimed now who ag cs d) = ld_accounts d
    \<and> ld_audit (mark_all_claimed now who ag cs d) =
       ld_audit d @ map (\<lambda>c. (ag, who, AGENT_COMMAND_SENT (ac_id c) (ac_command_type c))) cs" for d I
  proof (induction cs arbitrary: d I)
    case (Cons c cs)
    let ?d = "add_link_audit ag who (AGENT_COMMAND_SENT (ac_id c) (ac_command_type c))
                (put_command (mark_claimed now c) d)"
    have "ld_commands ?d = claim_rows now (insert (ac_id c) I) (ld_commands db)"
      using Cons.prems assms(1) by (simp add: put_row_claim_rows)
    from Cons.IH [OF this] Cons.prems show ?case by (simp add: mark_all_claimed_def)
  qed (simp add: mark_all_claimed_def)
  from this [of db "{}"] assms(2) claim_rows_none show
    "ld_commands (mark_all_claimed now who ag cs db) = claim_rows now (ac_id ` set cs) (ld_commands db)"
    "ld_agents (mark_all_claimed now who ag cs db) = ld_agents db"
    "ld_accounts (mark_all_claimed now who ag cs db) = ld_accounts db"
    "ld_audit (mark_all_claimed now who ag cs db) =
       ld_audit db @ map (\<lambda>c. (ag, who, AGENT_COMMAND_SENT (ac_id c) (ac_command_type c))) cs"
    by auto
qed

lemma rows_claim_rows: "rows_of ag (claim_rows now I cs) = claim_rows now I (rows_of ag cs)"
  by (induction cs) (auto simp: rows_of_def claim_rows_def)

lemma claim_rows_other:
  assumes "\<forall>x \<in> set cs. ac_id x \<notin> I"
  shows "claim_rows now I cs = cs"
  using assms by (induction cs) (auto simp: claim_rows_def)

subsection \<open>Every operation keeps the table\<close>

text \<open>A step of one agent: rows evolve, rows are added, rows of other agents stay.\<close>

definition agent_step :: "string \<Rightarrow> link_db \<Rightarrow> link_db \<Rightarrow> bool" where
  "agent_step ag db db' \<longleftrightarrow> (commands_inv db \<longrightarrow>
     commands_inv db' \<and> rows_evolve (ld_commands db) (ld_commands db')
   \<and> (\<forall>ag'. ag' \<noteq> ag \<longrightarrow> rows_of ag' (ld_commands db') = rows_of ag' (ld_commands db)))"

lemma evolves_refl [simp]: "evolves c c"
  by (simp add: evolves_def)

lemma evolves_to_refl [simp]: "list_all2 evolves\<^sup>*\<^sup>* cs cs"
  by (simp add: list.rel_refl)

lemma rows_evolve_refl [simp]: "rows_evolve cs cs"
  unfolding rows_evolve_def by (intro exI [of _ cs] exI [of _ "[]"]) simp

lemma rows_evolve_trans:
  assumes "rows_evolve cs cs'" "rows_evolve cs' cs''" shows "rows_evolve cs cs''"
proof -
  from assms obtain o1 n1 o2 n2 where e: "cs' = o1 @ n1" "list_all2 evolves\<^sup>*\<^sup>* cs o1"
    "cs'' = o2 @ n2" "list_all2 evolves\<^sup>*\<^sup>* cs' o2" by (auto simp: rows_evolve_def)
  from e(4)[unfolded e(1)] obtain o3 n3 where s: "o2 = o3 @ n3" "list_all2 evolves\<^sup>*\<^sup>* o1 o3"
    by (auto simp: list_all2_append1)
  have "list_all2 evolves\<^sup>*\<^sup>* cs o3" by (rule list_all2_trans [OF _ e(2) s(2)]) simp
  with e(3) s(1) show ?thesis unfolding rows_evolve_def by (intro exI [of _ o3] exI [of _ "n3 @ n2"]) simp
qed

lemma rows_evolve_map: "(\<And>c. c \<in> set cs \<Longrightarrow> evolves c (f c)) \<Longrightarrow> rows_evolve cs (map f cs)"
  unfolding rows_evolve_def
  by (intro exI [of _ "map f cs"] exI [of _ "[]"]) (simp add: list_all2_conv_all_nth r_into_rtranclp)

lemma rows_evolve_snoc: "rows_evolve cs (cs @ [c])"
  unfolding rows_evolve_def by (intro exI [of _ cs] exI [of _ "[c]"]) simp

lemma rows_evolveD:
  assumes "rows_evolve cs cs'" "c \<in> set cs"
  obtains c' where "c' \<in> set cs'" "evolves\<^sup>*\<^sup>* c c'"
proof -
  from assms(1) obtain old new where "cs' = old @ new" "list_all2 evolves\<^sup>*\<^sup>* cs old"
    by (auto simp: rows_evolve_def)
  moreover obtain i where "i < length cs" "cs ! i = c" using assms(2) by (auto simp: in_set_conv_nth)
  ultimately have "old ! i \<in> set cs'" "evolves\<^sup>*\<^sup>* c (old ! i)" by (auto simp: list_all2_conv_all_nth)
  then show thesis using that by simp
qed

lemma evolves_to_same:
  assumes "evolves\<^sup>*\<^sup>* c c'"
  shows "ac_id c' = ac_id c \<and> ac_agent_id c' = ac_agent_id c \<and> ac_command_type c' = ac_command_type c
    \<and> ac_payload_json c' = ac_payload_json c \<and> ac_created_at c' = ac_created_at c"
  using assms by (induction rule: rtranclp_induct) (auto simp: evolves_def)

lemma evolves_to_final:
  assumes "evolves\<^sup>*\<^sup>* c c'" "agent_transitions (ac_status c) = {}" "ac_status c \<noteq> AC_SENT"
  shows "c' = c"
  using assms by (induction rule: rtranclp_induct) (auto simp: evolves_def)

lemma agent_step_refl [simp]: "agent_step ag db db"
  by (simp add: agent_step_def)

lemma agent_step_trans: "agent_step ag db db' \<Longrightarrow> agent_step ag db' db'' \<Longrightarrow> agent_step ag db db''"
  by (auto simp: agent_step_def intro: rows_evolve_trans)

lemma agent_step_cong: "ld_commands db' = ld_commands db \<Longrightarrow> agent_step ag db db'"
  by (simp add: agent_step_def commands_inv_def)

lemma agent_step_put:
  assumes "c \<in> set (ld_commands db)" "ac_agent_id c = ag" "ac_id c' = ac_id c" "evolves c c'"
    and "stamped c \<Longrightarrow> stamped c'" "ld_commands db' = put_row c' (ld_commands db)"
  shows "agent_step ag db db'"
  unfolding agent_step_def
proof
  assume inv: "commands_inv db"
  from inv have d: "distinct (map ac_id (ld_commands db))" and st: "list_all stamped (ld_commands db)"
    by (simp_all add: commands_inv_def)
  have "stamped c'" using assms(1,5) st by (simp add: list_all_iff)
  with st have "list_all stamped (put_row c' (ld_commands db))" by (auto simp: list_all_iff put_row_def)
  with d assms(6) have "commands_inv db'" by (simp add: commands_inv_def)
  moreover have "evolves x (if ac_id x = ac_id c' then c' else x)" if "x \<in> set (ld_commands db)" for x
  proof (cases "ac_id x = ac_id c'")
    case True
    with assms(3) have "x = c" by (intro same_row [OF d assms(1) that]) simp
    with True assms(4) show ?thesis by simp
  qed simp
  then have "rows_evolve (ld_commands db) (ld_commands db')"
    unfolding assms(6) put_row_def by (intro rows_evolve_map)
  moreover have ag: "ac_agent_id c' = ac_agent_id c" using assms(4) by (auto simp: evolves_def)
  have "rows_of ag' (ld_commands db') = rows_of ag' (ld_commands db)" if "ag' \<noteq> ag" for ag'
    using rows_put_row_db [OF d assms(1,3) ag, of ag'] assms(2,6) that by simp
  ultimately show "commands_inv db' \<and> rows_evolve (ld_commands db) (ld_commands db')
      \<and> (\<forall>ag'. ag' \<noteq> ag \<longrightarrow> rows_of ag' (ld_commands db') = rows_of ag' (ld_commands db))" by simp
qed

lemma stamped_new [simp]: "stamped (new_command cid now ag ty p)"
  by (simp add: stamped_def new_command_def)

lemma step_create: "create_command j cid now who ag ty p db = (r, db') \<Longrightarrow> agent_step ag db db'"
  by (auto simp: create_command_def Let_def agent_step_def commands_inv_def new_command_def rows_of_def
      rows_evolve_snoc stamped_new [unfolded new_command_def] split: if_splits sum.splits)

lemma step_acknowledge:
  assumes "acknowledge_command now who ag cid db = (r, db')"
  shows "agent_step ag db db'"
proof (cases "\<exists>c. r = Inr c")
  case True
  with assms obtain c where c: "get_command ag cid db = Some c" "ac_status c = AC_SENT"
      "ld_commands db' = put_row (c\<lparr>ac_status := AC_ACKNOWLEDGED, ac_acknowledged_at := Some now\<rparr>) (ld_commands db)"
    by (cases "get_command ag cid db"; cases "ac_status (the (get_command ag cid db))")
       (auto simp: acknowledge_command_def Let_def split: if_splits)
  show ?thesis
    by (rule agent_step_put [OF get_commandD(1,3) [OF c(1)] _ _ _ c(3)])
       (use get_commandD [OF c(1)] c(2) in \<open>auto simp: evolves_def stamped_def\<close>)
next
  case False
  with assms show ?thesis by (auto simp: acknowledge_command_def Let_def split: option.splits if_splits)
qed

lemma step_complete:
  assumes "complete_command j now who ag cid res db = (r, db')"
  shows "agent_step ag db db'"
proof (cases "\<exists>c. r = Inr c")
  case True
  with assms obtain c v where c: "get_command ag cid db = Some c" "AC_COMPLETED \<in> agent_transitions (ac_status c)"
      "ld_commands db' = put_row (c\<lparr>ac_status := AC_COMPLETED, ac_completed_at := Some now, ac_result_json := v\<rparr>)
         (ld_commands db)"
    by (auto simp: complete_command_def Let_def split: if_splits option.splits sum.splits)
  have st: "ac_status c = AC_SENT \<or> ac_status c = AC_ACKNOWLEDGED"
    using c(2) by (cases "ac_status c") simp_all
  show ?thesis
    by (rule agent_step_put [OF get_commandD(1,3) [OF c(1)] _ _ _ c(3)])
       (use get_commandD [OF c(1)] st in \<open>auto simp: evolves_def stamped_def\<close>)
next
  case False
  with assms show ?thesis by (auto simp: complete_command_def Let_def split: option.splits if_splits sum.splits)
qed

lemma step_fail:
  assumes "fail_command now who ag cid msg db = (r, db')"
  shows "agent_step ag db db'"
proof (cases "\<exists>c. r = Inr c")
  case True
  with assms obtain c where c: "get_command ag cid db = Some c" "AC_FAILED \<in> agent_transitions (ac_status c)"
      "ld_commands db' = put_row (c\<lparr>ac_status := AC_FAILED, ac_completed_at := Some now,
         ac_error_message := (case msg of Some m \<Rightarrow> if m = [] then ac_error_message c else Some (take 500 m)
                              | None \<Rightarrow> ac_error_message c)\<rparr>) (ld_commands db)"
    by (auto simp: fail_command_def Let_def split: if_splits option.splits)
  have st: "ac_status c \<in> {AC_PENDING, AC_SENT, AC_ACKNOWLEDGED}"
    using c(2) by (cases "ac_status c") simp_all
  show ?thesis
    by (rule agent_step_put [OF get_commandD(1,3) [OF c(1)] _ _ _ c(3)])
       (use get_commandD [OF c(1)] st in \<open>auto simp: evolves_def stamped_def split: option.splits\<close>)
next
  case False
  with assms show ?thesis by (auto simp: fail_command_def Let_def split: option.splits if_splits)
qed

lemma commands_invD: "commands_inv db \<Longrightarrow> distinct (map ac_id (ld_commands db))"
  by (simp add: commands_inv_def)

lemma step_mark_all:
  assumes "cs = pending_commands ag n db"
  shows "agent_step ag db (mark_all_claimed now who ag cs db)"
  unfolding agent_step_def
proof
  assume inv: "commands_inv db"
  let ?I = "ac_id ` set cs"
  have sub: "set cs \<subseteq> set (ld_commands db)" using assms pending_commandsD(1) by auto
  note eq = mark_all_claimed_simps(1) [OF commands_invD [OF inv] sub]
  have cl: "ac_status x = AC_PENDING \<and> ac_agent_id x = ag"
    if "x \<in> set (ld_commands db)" "ac_id x \<in> ?I" for x
  proof -
    from that(2) obtain y where y: "y \<in> set cs" "ac_id y = ac_id x" by auto
    then have "y = x" using sub by (intro same_row [OF commands_invD [OF inv] that(1)]) auto
    with y assms pending_commandsD(2,3) show ?thesis by simp
  qed
  have st: "stamped (mark_claimed now x)" if "stamped x" "ac_status x = AC_PENDING" for x
    using that by (auto simp: stamped_def mark_claimed_def)
  have "list_all stamped (claim_rows now ?I (ld_commands db))"
    using inv cl st by (auto simp: commands_inv_def list_all_iff claim_rows_def)
  moreover have "evolves x (if ac_id x \<in> ?I then mark_claimed now x else x)"
    if "x \<in> set (ld_commands db)" for x
    using cl [OF that] by (auto simp: evolves_def)
  then have "rows_evolve (ld_commands db) (claim_rows now ?I (ld_commands db))"
    unfolding claim_rows_def by (intro rows_evolve_map)
  moreover have "rows_of ag' (claim_rows now ?I (ld_commands db)) = rows_of ag' (ld_commands db)" if "ag' \<noteq> ag" for ag'
    unfolding rows_claim_rows using cl that by (intro claim_rows_other) (auto simp: rows_of_def)
  ultimately show "commands_inv (mark_all_claimed now who ag cs db)
      \<and> rows_evolve (ld_commands db) (ld_commands (mark_all_claimed now who ag cs db))
      \<and> (\<forall>ag'. ag' \<noteq> ag \<longrightarrow> rows_of ag' (ld_commands (mark_all_claimed now who ag cs db)) = rows_of ag' (ld_commands db))"
    using inv eq by (simp add: commands_inv_def)
qed

lemma step_claim: "claim_pending_commands now who ag n db = (cs, db') \<Longrightarrow> agent_step ag db db'"
  by (auto simp: claim_pending_commands_def Let_def intro: step_mark_all)

end
