(* ===== verification/Agent_Protocol.thy ===== *)
theory Agent_Protocol
  imports Agent_Commands Market_Types
begin

section \<open>Agent protocol (\<open>backend/ws/agent_protocol.py\<close>)\<close>

text \<open>
  The messages an agent may send, as validated from a parsed JSON object.  The conversions of the
  validation library and of the standard library are parameters, one field each: \<open>Decimal(str(v))\<close>
  (\<open>None\<close> when it raises), its integer and number conversions, and \<open>uuid.UUID\<close> (the canonical text,
  or \<open>None\<close> when it raises).  An error is the field that was refused; the texts are left out.
  A validation reports the first refused field where the library reports all of them.  A volume is
  a finite number (a text that reads as NaN or infinity is left out).
\<close>

datatype pyfloat = Fin rat | NaN | Infinite

datatype json =
    J_null
  | J_bool bool
  | J_int int
  | J_float pyfloat
  | J_str string
  | J_list "json list"
  | J_obj "(string \<times> json) list"

type_synonym json_object = "(string \<times> json) list"

record conversions =
  cv_decimal :: "json \<Rightarrow> pyfloat option"
  cv_int :: "json \<Rightarrow> int option"
  cv_number :: "json \<Rightarrow> rat option"
  cv_uuid :: "string \<Rightarrow> string option"

datatype protocol_error = UnknownMessageType | InvalidField string | NotAnObject

type_synonym 'a parsed = "protocol_error + 'a"

subsection \<open>Messages\<close>

record version_fields =
  vf_mt5_version :: "string option"
  vf_ea_version :: "string option"

record market_data_msg =
  mm_symbol :: string
  mm_bid :: dec
  mm_ask :: dec
  mm_spread :: dec
  mm_point :: dec
  mm_digits :: int
  mm_tick_time :: string
  mm_tick_volume :: rat
  mm_timestamp :: "string option"

record bar_data =
  bd_time :: string
  bd_open :: dec
  bd_high :: dec
  bd_low :: dec
  bd_close :: dec
  bd_tick_volume :: rat

record bars_msg =
  bm_symbol :: string
  bm_timeframe :: string
  bm_bars :: "bar_data list"

datatype agent_message =
    Hello "string option" version_fields "string list"
  | Heartbeat string version_fields
  | Ack string
  | Result string string "json_object option" "string option"
  | MarketData market_data_msg
  | Bars bars_msg

subsection \<open>Fields\<close>

definition str_field :: "string \<Rightarrow> nat \<Rightarrow> nat \<Rightarrow> json_object \<Rightarrow> string parsed" where
  "str_field k lo hi obj =
     (case map_of obj k of
        Some (J_str s) \<Rightarrow> if lo \<le> length s \<and> length s \<le> hi then Inr s else Inl (InvalidField k)
      | _ \<Rightarrow> Inl (InvalidField k))"

definition opt_str_field :: "string \<Rightarrow> nat \<Rightarrow> json_object \<Rightarrow> string option parsed" where
  "opt_str_field k hi obj =
     (case map_of obj k of
        None \<Rightarrow> Inr None
      | Some J_null \<Rightarrow> Inr None
      | Some v \<Rightarrow> map_sum id Some (str_field k 0 hi obj))"

definition str_field_default :: "string \<Rightarrow> string \<Rightarrow> nat \<Rightarrow> json_object \<Rightarrow> string parsed" where
  "str_field_default k d hi obj = (if map_of obj k = None then Inr d else str_field k 0 hi obj)"

definition uuid_field :: "conversions \<Rightarrow> string \<Rightarrow> json_object \<Rightarrow> string parsed" where
  "uuid_field cv k obj =
     bind_res (str_field k 1 36 obj) (\<lambda>s.
       case cv_uuid cv s of None \<Rightarrow> Inl (InvalidField k) | Some u \<Rightarrow> Inr u)"

definition version_fields_of :: "json_object \<Rightarrow> version_fields parsed" where
  "version_fields_of obj =
     bind_res (opt_str_field ''mt5_version'' 50 obj) (\<lambda>m.
     bind_res (opt_str_field ''ea_version'' 50 obj) (\<lambda>e.
       Inr \<lparr>vf_mt5_version = m, vf_ea_version = e\<rparr>))"

definition capabilities_field :: "json_object \<Rightarrow> string list parsed" where
  "capabilities_field obj =
     (case map_of obj ''capabilities'' of
        None \<Rightarrow> Inr []
      | Some (J_list vs) \<Rightarrow>
          bind_res (all_res (map (\<lambda>v. case v of J_str s \<Rightarrow> Inr s | _ \<Rightarrow> Inl (InvalidField ''capabilities'')) vs))
            (\<lambda>cs. if length cs > 20 then Inl (InvalidField ''capabilities'')
                  else Inr (map (map ascii_upper) cs))
      | Some _ \<Rightarrow> Inl (InvalidField ''capabilities''))"

text \<open>\<open>parse_and_validate_decimal\<close> and \<open>parse_and_validate_price\<close>: a finite value above the bound
  (\<open>strict\<close>), or not below it.\<close>

definition decimal_field :: "conversions \<Rightarrow> bool \<Rightarrow> string \<Rightarrow> json option \<Rightarrow> dec parsed" where
  "decimal_field cv strict k v =
     (case v of
        None \<Rightarrow> Inl (InvalidField k)
      | Some J_null \<Rightarrow> Inl (InvalidField k)
      | Some (J_float NaN) \<Rightarrow> Inl (InvalidField k)
      | Some (J_float Infinite) \<Rightarrow> Inl (InvalidField k)
      | Some x \<Rightarrow>
          (case cv_decimal cv x of
             Some (Fin d) \<Rightarrow>
               if strict \<and> d \<le> 0 \<or> d < 0 then Inl (InvalidField k) else Inr d
           | _ \<Rightarrow> Inl (InvalidField k)))"

definition number_of :: "conversions \<Rightarrow> json \<Rightarrow> rat parsed" where
  "number_of cv v = (case cv_number cv v of None \<Rightarrow> Inl (InvalidField ''tick_volume'') | Some n \<Rightarrow> Inr n)"

text \<open>The sign of a volume is tested on JSON numbers only (a bool counts as an int).\<close>

definition tick_volume_field :: "conversions \<Rightarrow> json_object \<Rightarrow> rat parsed" where
  "tick_volume_field cv obj =
     (case map_of obj ''tick_volume'' of
        None \<Rightarrow> Inr 0
      | Some J_null \<Rightarrow> Inr 0
      | Some (J_float (Fin x)) \<Rightarrow> if x < 0 then Inl (InvalidField ''tick_volume'') else number_of cv (J_float (Fin x))
      | Some (J_float _) \<Rightarrow> Inl (InvalidField ''tick_volume'')
      | Some (J_int n) \<Rightarrow> if n < 0 then Inl (InvalidField ''tick_volume'') else number_of cv (J_int n)
      | Some v \<Rightarrow> number_of cv v)"

definition digits_field :: "conversions \<Rightarrow> json_object \<Rightarrow> int parsed" where
  "digits_field cv obj =
     (case map_of obj ''digits'' of
        None \<Rightarrow> Inr 2
      | Some v \<Rightarrow>
          (case cv_int cv v of
             Some n \<Rightarrow> if 0 \<le> n \<and> n \<le> 8 then Inr n else Inl (InvalidField ''digits'')
           | None \<Rightarrow> Inl (InvalidField ''digits'')))"

subsection \<open>Parsing\<close>

definition parse_hello :: "json_object \<Rightarrow> agent_message parsed" where
  "parse_hello obj =
     bind_res (opt_str_field ''agent_version'' 50 obj) (\<lambda>av.
     bind_res (version_fields_of obj) (\<lambda>vf.
     bind_res (capabilities_field obj) (\<lambda>cs. Inr (Hello av vf cs))))"

definition parse_heartbeat :: "json_object \<Rightarrow> agent_message parsed" where
  "parse_heartbeat obj =
     bind_res (str_field_default ''status'' ''CONNECTED'' 50 obj) (\<lambda>st.
     bind_res (version_fields_of obj) (\<lambda>vf. Inr (Heartbeat st vf)))"

definition parse_ack :: "conversions \<Rightarrow> json_object \<Rightarrow> agent_message parsed" where
  "parse_ack cv obj = bind_res (uuid_field cv ''command_id'' obj) (\<lambda>u. Inr (Ack u))"

definition result_object :: "json_object \<Rightarrow> json_object option parsed" where
  "result_object obj =
     (case map_of obj ''result'' of
        None \<Rightarrow> Inr None
      | Some J_null \<Rightarrow> Inr None
      | Some (J_obj kvs) \<Rightarrow> Inr (Some kvs)
      | Some _ \<Rightarrow> Inl (InvalidField ''result''))"

definition final_status :: "string \<Rightarrow> string parsed" where
  "final_status s =
     (let u = map ascii_upper s
      in if u = ''COMPLETED'' \<or> u = ''FAILED'' then Inr u else Inl (InvalidField ''status''))"

definition parse_result :: "conversions \<Rightarrow> json_object \<Rightarrow> agent_message parsed" where
  "parse_result cv obj =
     bind_res (uuid_field cv ''command_id'' obj) (\<lambda>u.
     bind_res (str_field ''status'' 0 20 obj) (\<lambda>s.
     bind_res (final_status s) (\<lambda>st.
     bind_res (result_object obj) (\<lambda>res.
     bind_res (opt_str_field ''error_message'' 500 obj) (\<lambda>err. Inr (Result u st res err))))))"

definition clean_symbol :: "string \<Rightarrow> string parsed" where
  "clean_symbol v =
     (let s = map ascii_upper (py_strip v) in if s = [] then Inl (InvalidField ''symbol'') else Inr s)"

definition parse_market_data :: "conversions \<Rightarrow> json_object \<Rightarrow> market_data_msg parsed" where
  "parse_market_data cv obj =
     bind_res (str_field ''symbol'' 1 20 obj) (\<lambda>raw.
     bind_res (clean_symbol raw) (\<lambda>smb.
     bind_res (decimal_field cv True ''bid'' (map_of obj ''bid'')) (\<lambda>bid.
     bind_res (decimal_field cv True ''ask'' (map_of obj ''ask'')) (\<lambda>ask.
     bind_res (decimal_field cv False ''spread'' (map_of obj ''spread'')) (\<lambda>spread.
     bind_res (if map_of obj ''point'' = None then Inr (1 / 100)
               else decimal_field cv False ''point'' (map_of obj ''point'')) (\<lambda>point.
     bind_res (digits_field cv obj) (\<lambda>digits.
     bind_res (str_field ''tick_time'' 1 50 obj) (\<lambda>tt.
     bind_res (tick_volume_field cv obj) (\<lambda>vol.
     bind_res (opt_str_field ''timestamp'' 50 obj) (\<lambda>ts.
       if ask < bid then Inl (InvalidField ''ask'')
       else Inr \<lparr>mm_symbol = smb, mm_bid = bid, mm_ask = ask, mm_spread = spread, mm_point = point,
                 mm_digits = digits, mm_tick_time = tt, mm_tick_volume = vol,
                 mm_timestamp = ts\<rparr>))))))))))"

definition parse_bar :: "conversions \<Rightarrow> json_object \<Rightarrow> bar_data parsed" where
  "parse_bar cv obj =
     bind_res (str_field ''time'' 1 50 obj) (\<lambda>t.
     bind_res (decimal_field cv True ''open'' (map_of obj ''open'')) (\<lambda>o1.
     bind_res (decimal_field cv True ''high'' (map_of obj ''high'')) (\<lambda>h.
     bind_res (decimal_field cv True ''low'' (map_of obj ''low'')) (\<lambda>l.
     bind_res (decimal_field cv True ''close'' (map_of obj ''close'')) (\<lambda>c.
     bind_res (tick_volume_field cv obj) (\<lambda>vol.
       if h < l then Inl (InvalidField ''high'')
       else if h < o1 \<or> h < c then Inl (InvalidField ''high'')
       else if l > o1 \<or> l > c then Inl (InvalidField ''low'')
       else Inr \<lparr>bd_time = t, bd_open = o1, bd_high = h, bd_low = l, bd_close = c,
                 bd_tick_volume = vol\<rparr>))))))"

definition bars_symbol :: "string \<Rightarrow> string parsed" where
  "bars_symbol v =
     (let s = map ascii_upper (py_strip v)
      in if take 6 s \<noteq> ''XAUUSD'' \<and> s \<noteq> ''GOLD'' then Inl (InvalidField ''symbol'') else Inr ''XAUUSD'')"

definition bars_timeframe :: "string \<Rightarrow> string parsed" where
  "bars_timeframe v =
     (let s = map ascii_upper (py_strip v)
      in if s \<noteq> ''M15'' then Inl (InvalidField ''timeframe'') else Inr s)"

definition bars_field :: "conversions \<Rightarrow> json_object \<Rightarrow> bar_data list parsed" where
  "bars_field cv obj =
     (case map_of obj ''bars'' of
        None \<Rightarrow> Inr []
      | Some (J_list vs) \<Rightarrow>
          all_res (map (\<lambda>v. case v of J_obj o1 \<Rightarrow> parse_bar cv o1 | _ \<Rightarrow> Inl (InvalidField ''bars'')) vs)
      | Some _ \<Rightarrow> Inl (InvalidField ''bars''))"

definition parse_bars :: "conversions \<Rightarrow> json_object \<Rightarrow> bars_msg parsed" where
  "parse_bars cv obj =
     bind_res (str_field ''symbol'' 1 20 obj) (\<lambda>raw.
     bind_res (bars_symbol raw) (\<lambda>smb.
     bind_res (if map_of obj ''timeframe'' = None then Inr ''M15''
               else bind_res (str_field ''timeframe'' 0 10 obj) bars_timeframe) (\<lambda>tf.
     bind_res (bars_field cv obj) (\<lambda>bs.
       Inr \<lparr>bm_symbol = smb, bm_timeframe = tf, bm_bars = bs\<rparr>))))"

definition parse_agent_message :: "conversions \<Rightarrow> json_object \<Rightarrow> agent_message parsed" where
  "parse_agent_message cv obj =
     (if map_of obj ''type'' = Some (J_str ''hello'') then parse_hello obj
      else if map_of obj ''type'' = Some (J_str ''heartbeat'') then parse_heartbeat obj
      else if map_of obj ''type'' = Some (J_str ''ack'') then parse_ack cv obj
      else if map_of obj ''type'' = Some (J_str ''result'') then parse_result cv obj
      else if map_of obj ''type'' = Some (J_str ''market_data'')
        then map_sum id MarketData (parse_market_data cv obj)
      else if map_of obj ''type'' = Some (J_str ''bars'') then map_sum id Bars (parse_bars cv obj)
      else Inl UnknownMessageType)"

text \<open>What the loop does with a received text, once parsed.\<close>

definition parse_incoming :: "conversions \<Rightarrow> json \<Rightarrow> agent_message parsed" where
  "parse_incoming cv v = (case v of J_obj o1 \<Rightarrow> parse_agent_message cv o1 | _ \<Rightarrow> Inl NotAnObject)"

subsection \<open>What a validated message satisfies\<close>

definition market_data_ok :: "market_data_msg \<Rightarrow> bool" where
  "market_data_ok m \<longleftrightarrow> 0 < mm_bid m \<and> mm_bid m \<le> mm_ask m \<and> 0 \<le> mm_spread m \<and> 0 \<le> mm_point m
     \<and> 0 \<le> mm_digits m \<and> mm_digits m \<le> 8 \<and> mm_symbol m \<noteq> [] \<and> length (mm_symbol m) \<le> 20"

definition bar_data_ok :: "bar_data \<Rightarrow> bool" where
  "bar_data_ok b \<longleftrightarrow> 0 < bd_low b \<and> bd_low b \<le> bd_open b \<and> bd_open b \<le> bd_high b
     \<and> bd_low b \<le> bd_close b \<and> bd_close b \<le> bd_high b"

definition bars_ok :: "bars_msg \<Rightarrow> bool" where
  "bars_ok m \<longleftrightarrow> bm_symbol m = ''XAUUSD'' \<and> bm_timeframe m = ''M15'' \<and> list_all bar_data_ok (bm_bars m)"

definition short_text :: "nat \<Rightarrow> string option \<Rightarrow> bool" where
  "short_text n v \<longleftrightarrow> (\<forall>s. v = Some s \<longrightarrow> length s \<le> n)"

definition versions_ok :: "version_fields \<Rightarrow> bool" where
  "versions_ok vf \<longleftrightarrow> short_text 50 (vf_mt5_version vf) \<and> short_text 50 (vf_ea_version vf)"

definition time_ok :: "string \<Rightarrow> bool" where
  "time_ok s \<longleftrightarrow> 1 \<le> length s \<and> length s \<le> 50"

definition id_ok :: "conversions \<Rightarrow> string \<Rightarrow> bool" where
  "id_ok cv u \<longleftrightarrow> (\<exists>s. 1 \<le> length s \<and> length s \<le> 36 \<and> cv_uuid cv s = Some u)"

fun message_ok :: "conversions \<Rightarrow> agent_message \<Rightarrow> bool" where
  "message_ok cv (Hello av vf cs) \<longleftrightarrow> short_text 50 av \<and> versions_ok vf \<and> length cs \<le> 20"
| "message_ok cv (Heartbeat st vf) \<longleftrightarrow> length st \<le> 50 \<and> versions_ok vf"
| "message_ok cv (Ack u) \<longleftrightarrow> id_ok cv u"
| "message_ok cv (Result u st res err) \<longleftrightarrow> id_ok cv u \<and> (st = ''COMPLETED'' \<or> st = ''FAILED'')
     \<and> short_text 500 err"
| "message_ok cv (MarketData m) \<longleftrightarrow> market_data_ok m \<and> time_ok (mm_tick_time m) \<and> short_text 50 (mm_timestamp m)"
| "message_ok cv (Bars m) \<longleftrightarrow> bars_ok m \<and> list_all (\<lambda>b. time_ok (bd_time b)) (bm_bars m)"

text \<open>
  Volumes: a conversion that keeps numbers and bools leaves a negative volume to texts only, whose sign
  nothing tests.
\<close>

definition reads_numbers :: "conversions \<Rightarrow> bool" where
  "reads_numbers cv \<longleftrightarrow>
     (\<forall>v x. cv_number cv v = Some x \<longrightarrow>
        (case v of J_int n \<Rightarrow> x = of_int n | J_float (Fin y) \<Rightarrow> x = y
         | J_bool b \<Rightarrow> x = (if b then 1 else 0) | J_str s \<Rightarrow> True | _ \<Rightarrow> False))"

definition volume_as_text :: "json_object \<Rightarrow> bool" where
  "volume_as_text obj \<longleftrightarrow> (\<exists>s. map_of obj ''tick_volume'' = Some (J_str s))"

fun volumes_ok :: "json_object \<Rightarrow> agent_message \<Rightarrow> bool" where
  "volumes_ok obj (MarketData m) \<longleftrightarrow> 0 \<le> mm_tick_volume m \<or> volume_as_text obj"
| "volumes_ok obj (Bars m) \<longleftrightarrow>
     list_all (\<lambda>b. 0 \<le> bd_tick_volume b
       \<or> (\<exists>vs o1. map_of obj ''bars'' = Some (J_list vs) \<and> J_obj o1 \<in> set vs \<and> volume_as_text o1)) (bm_bars m)"
| "volumes_ok obj _ \<longleftrightarrow> True"

lemma all_res_mapD:
  assumes "all_res (map f vs) = Inr xs" "x \<in> set xs"
  shows "\<exists>v \<in> set vs. f v = Inr x"
proof -
  from assms(1) have "map f vs = map Inr xs" by (simp add: all_res_Inr)
  then have "set (map f vs) = set (map Inr xs)" by simp
  with assms(2) show ?thesis by force
qed

lemma map_sum_InrE:
  assumes "map_sum id f r = Inr y"
  obtains x where "r = Inr x" "y = f x"
  using assms by (cases r) auto

lemma str_fieldD: "str_field k lo hi obj = Inr s \<Longrightarrow> lo \<le> length s \<and> length s \<le> hi"
  by (auto simp: str_field_def split: option.splits json.splits if_splits)

lemma opt_str_fieldD: "opt_str_field k hi obj = Inr (Some s) \<Longrightarrow> length s \<le> hi"
  by (auto simp: opt_str_field_def elim!: map_sum_InrE dest: str_fieldD split: option.splits json.splits)

lemma str_field_defaultD: "str_field_default k d hi obj = Inr s \<Longrightarrow> length d \<le> hi \<Longrightarrow> length s \<le> hi"
  by (auto simp: str_field_default_def dest: str_fieldD split: if_splits)

lemma decimal_fieldD: "decimal_field cv strict k v = Inr d \<Longrightarrow> 0 \<le> d \<and> (strict \<longrightarrow> 0 < d)"
  by (auto simp: decimal_field_def split: option.splits json.splits pyfloat.splits if_splits)

lemma capabilities_fieldD: "capabilities_field obj = Inr cs \<Longrightarrow> length cs \<le> 20"
  by (auto simp: capabilities_field_def elim!: bind_res_InrE split: option.splits json.splits if_splits)

lemma digits_fieldD: "digits_field cv obj = Inr n \<Longrightarrow> 0 \<le> n \<and> n \<le> 8"
  by (auto simp: digits_field_def split: option.splits if_splits)

lemma clean_symbolD: "clean_symbol v = Inr s \<Longrightarrow> s \<noteq> [] \<and> length s \<le> length v"
  using length_py_strip [of v] by (auto simp: clean_symbol_def Let_def split: if_splits)

lemma final_statusD: "final_status s = Inr u \<Longrightarrow> u = ''COMPLETED'' \<or> u = ''FAILED''"
  by (auto simp: final_status_def Let_def split: if_splits)

lemma uuid_fieldD: "uuid_field cv k obj = Inr u \<Longrightarrow> id_ok cv u"
  by (auto simp: uuid_field_def id_ok_def elim!: bind_res_InrE dest: str_fieldD split: option.splits)

lemma opt_str_field_short: "opt_str_field k hi obj = Inr v \<Longrightarrow> short_text hi v"
  by (auto simp: short_text_def dest: opt_str_fieldD)

lemma version_fields_ofD: "version_fields_of obj = Inr vf \<Longrightarrow> versions_ok vf"
  by (auto simp: version_fields_of_def versions_ok_def elim!: bind_res_InrE intro: opt_str_field_short)

lemma tick_volume_fieldD:
  assumes "tick_volume_field cv obj = Inr x" "reads_numbers cv"
  shows "0 \<le> x \<or> volume_as_text obj"
proof -
  have n: "case v of J_int n \<Rightarrow> x = of_int n | J_float (Fin y) \<Rightarrow> x = y
         | J_bool b \<Rightarrow> x = (if b then 1 else 0) | J_str s \<Rightarrow> True | _ \<Rightarrow> False"
    if "number_of cv v = Inr x" for v
  proof -
    from that have "cv_number cv v = Some x" by (simp add: number_of_def split: option.splits)
    with assms(2) show ?thesis unfolding reads_numbers_def by blast
  qed
  from assms(1) show ?thesis
    by (auto simp: tick_volume_field_def volume_as_text_def split: option.splits json.splits pyfloat.splits if_splits
        dest!: n)
qed

text \<open>The sign of a text is not tested.\<close>

lemma text_volume_unchecked:
  "cv_number cv (J_str ''-5'') = Some (- 5) \<Longrightarrow> tick_volume_field cv [(''tick_volume'', J_str ''-5'')] = Inr (- 5)"
  by (simp add: tick_volume_field_def number_of_def)

lemma parse_market_data_ok:
  assumes "parse_market_data cv obj = Inr m" shows "market_data_ok m"
  using assms unfolding parse_market_data_def
  by (elim bind_res_InrE)
     (auto simp: market_data_ok_def dest!: decimal_fieldD digits_fieldD clean_symbolD str_fieldD split: if_splits)

lemma parse_market_data_texts:
  assumes "parse_market_data cv obj = Inr m"
  shows "time_ok (mm_tick_time m) \<and> short_text 50 (mm_timestamp m)
    \<and> (reads_numbers cv \<longrightarrow> 0 \<le> mm_tick_volume m \<or> volume_as_text obj)"
  using assms unfolding parse_market_data_def
  by (elim bind_res_InrE)
     (auto simp: time_ok_def dest: str_fieldD opt_str_field_short tick_volume_fieldD split: if_splits)

lemma parse_bar_texts:
  assumes "parse_bar cv obj = Inr b"
  shows "time_ok (bd_time b) \<and> (reads_numbers cv \<longrightarrow> 0 \<le> bd_tick_volume b \<or> volume_as_text obj)"
  using assms unfolding parse_bar_def
  by (elim bind_res_InrE) (auto simp: time_ok_def dest: str_fieldD tick_volume_fieldD split: if_splits)

text \<open>Every bar of a message is parsed from an object of the list.\<close>

lemma bars_field_mem:
  assumes "bars_field cv obj = Inr bs" "b \<in> set bs"
  obtains vs o1 where "map_of obj ''bars'' = Some (J_list vs)" "J_obj o1 \<in> set vs" "parse_bar cv o1 = Inr b"
proof (cases "map_of obj ''bars''")
  case (Some v)
  with assms obtain vs where vs: "v = J_list vs"
    "all_res (map (\<lambda>v. case v of J_obj o1 \<Rightarrow> parse_bar cv o1 | _ \<Rightarrow> Inl (InvalidField ''bars'')) vs) = Inr bs"
    by (auto simp: bars_field_def split: json.splits)
  from all_res_mapD [OF vs(2) assms(2)] obtain w where
    "w \<in> set vs" "(case w of J_obj o1 \<Rightarrow> parse_bar cv o1 | _ \<Rightarrow> Inl (InvalidField ''bars'')) = Inr b" by blast
  with that Some vs show ?thesis by (cases w) auto
qed (use assms in \<open>simp add: bars_field_def\<close>)

lemma parse_bar_ok:
  assumes "parse_bar cv obj = Inr b" shows "bar_data_ok b"
  using assms unfolding parse_bar_def
  by (elim bind_res_InrE) (auto simp: bar_data_ok_def dest!: decimal_fieldD split: if_splits)

lemma parse_hello_ok: "parse_hello obj = Inr msg \<Longrightarrow> message_ok cv msg \<and> volumes_ok obj' msg"
  by (auto simp: parse_hello_def elim!: bind_res_InrE
      dest: opt_str_field_short version_fields_ofD capabilities_fieldD)

lemma parse_heartbeat_ok:
  assumes "parse_heartbeat obj = Inr msg" shows "message_ok cv msg \<and> volumes_ok obj' msg"
proof -
  from assms obtain st vf where m: "str_field_default ''status'' ''CONNECTED'' 50 obj = Inr st"
    "version_fields_of obj = Inr vf" "msg = Heartbeat st vf"
    by (auto simp: parse_heartbeat_def elim!: bind_res_InrE)
  from str_field_defaultD [OF m(1)] version_fields_ofD [OF m(2)] m(3) show ?thesis by simp
qed

lemma parse_ack_ok: "parse_ack cv obj = Inr msg \<Longrightarrow> message_ok cv msg \<and> volumes_ok obj' msg"
  by (auto simp: parse_ack_def elim!: bind_res_InrE dest: uuid_fieldD)

lemma parse_result_ok: "parse_result cv obj = Inr msg \<Longrightarrow> message_ok cv msg \<and> volumes_ok obj' msg"
  by (auto simp: parse_result_def elim!: bind_res_InrE dest: uuid_fieldD final_statusD opt_str_field_short)

lemma parse_bars_ok:
  assumes "parse_bars cv obj = Inr m" shows "bars_ok m"
proof -
  from assms obtain raw tf where m: "bars_symbol raw = Inr (bm_symbol m)" "bars_field cv obj = Inr (bm_bars m)"
    "(if map_of obj ''timeframe'' = None then Inr ''M15''
      else bind_res (str_field ''timeframe'' 0 10 obj) bars_timeframe) = Inr (bm_timeframe m)"
    by (auto simp: parse_bars_def elim!: bind_res_InrE)
  from m(1) have "bm_symbol m = ''XAUUSD''" by (auto simp: bars_symbol_def Let_def split: if_splits)
  moreover from m(3) have "bm_timeframe m = ''M15''"
    by (auto simp: bars_timeframe_def Let_def elim!: bind_res_InrE split: if_splits)
  moreover have "bar_data_ok b" if "b \<in> set (bm_bars m)" for b
    using bars_field_mem [OF m(2) that] parse_bar_ok by blast
  ultimately show ?thesis by (simp add: bars_ok_def list_all_iff)
qed

lemma parse_bars_texts:
  assumes "parse_bars cv obj = Inr m"
  shows "list_all (\<lambda>b. time_ok (bd_time b)) (bm_bars m) \<and> (reads_numbers cv \<longrightarrow> volumes_ok obj (Bars m))"
proof -
  from assms have m: "bars_field cv obj = Inr (bm_bars m)" by (auto simp: parse_bars_def elim!: bind_res_InrE)
  show ?thesis
    unfolding volumes_ok.simps list_all_iff using bars_field_mem [OF m] parse_bar_texts by metis
qed


subsection \<open>Property\<close>


definition demo_conversions :: conversions where
  "demo_conversions =
     \<lparr>cv_decimal = (\<lambda>v. case v of J_int n \<Rightarrow> Some (Fin (of_int n)) | J_float x \<Rightarrow> Some x | _ \<Rightarrow> None),
      cv_int = (\<lambda>v. case v of J_int n \<Rightarrow> Some n | _ \<Rightarrow> None),
      cv_number = (\<lambda>v. case v of J_int n \<Rightarrow> Some (of_int n) | J_float (Fin x) \<Rightarrow> Some x | _ \<Rightarrow> None),
      cv_uuid = (\<lambda>s. Some s)\<rparr>"

definition demo_bar_object :: json_object where
  "demo_bar_object =
     [(''time'', J_str ''2026.09.11 07:15:00''), (''open'', J_int 2000), (''high'', J_int 2004),
      (''low'', J_int 1999), (''close'', J_int 2003), (''tick_volume'', J_int 7)]"

definition demo_bars_object :: json_object where
  "demo_bars_object =
     [(''type'', J_str ''bars''), (''symbol'', J_str ''xauusd''), (''bars'', J_list [J_obj demo_bar_object])]"

lemma demo_bars_parsed:
  "parse_incoming demo_conversions (J_obj demo_bars_object) =
     Inr (Bars \<lparr>bm_symbol = ''XAUUSD'', bm_timeframe = ''M15'', bm_bars =
       [\<lparr>bd_time = ''2026.09.11 07:15:00'', bd_open = 2000, bd_high = 2004, bd_low = 1999,
         bd_close = 2003, bd_tick_volume = 7\<rparr>]\<rparr>)"
  by code_simp


end
