(* ===== verification/News.thy ===== *)
theory News
  imports Agent_Protocol
begin

section \<open>News protection (\<open>brain/news/provider.py\<close>, \<open>backend/services/news_service.py\<close>)\<close>

text \<open>
  The providers of the brain, the synchronisation of the economic calendar into the table of news
  events, and the protection state read from that table.  The session does not flush before a query,
  so the rows a synchronisation adds are not seen by its own look-ups.  The identifier of an event
  (country, minute, shortened title) is kept as its parts, and generated row ids are left out.
  \<open>str\<close> of a JSON value that is no string, and \<open>datetime.fromisoformat\<close> followed by \<open>astimezone\<close>,
  are the fields of a record.  Texts fit their columns; letters are ASCII.
\<close>

subsection \<open>Providers\<close>

datatype news_state =
    NS_CLEAR | PRE_EVENT | IN_EVENT | POST_EVENT | NS_UNKNOWN | PROVIDER_UNAVAILABLE | NS_STALE

record calendar_event =
  ev_event_id :: string
  ev_title :: string
  ev_currency :: string
  ev_impact :: string
  ev_event_time :: instant
  ev_pre_window_minutes :: int
  ev_post_window_minutes :: int

definition minutes_us :: "int \<Rightarrow> int" where
  "minutes_us n = n * 60 * 10 ^ 6"

definition live_news_state :: "news_state \<times> calendar_event list" where
  "live_news_state = (PROVIDER_UNAVAILABLE, [])"

definition event_phase :: "instant \<Rightarrow> calendar_event \<Rightarrow> news_state option" where
  "event_phase now ev =
     (if ev_currency ev \<noteq> ''USD'' \<and> ev_currency ev \<noteq> ''ALL'' then None
      else if ev_impact ev \<noteq> ''HIGH'' then None
      else if ev_event_time ev - minutes_us (ev_pre_window_minutes ev) \<le> now \<and> now < ev_event_time ev
        then Some PRE_EVENT
      else if now = ev_event_time ev \<or> ev_event_time ev \<le> now \<and> now \<le> ev_event_time ev + minutes_us 5
        then Some IN_EVENT
      else if ev_event_time ev < now \<and> now \<le> ev_event_time ev + minutes_us (ev_post_window_minutes ev)
        then Some POST_EVENT
      else None)"

definition mock_news_state :: "instant \<Rightarrow> calendar_event list \<Rightarrow> news_state \<times> calendar_event list" where
  "mock_news_state now evs =
     foldl (\<lambda>(st, rel) ev. case event_phase now ev of None \<Rightarrow> (st, rel) | Some p \<Rightarrow> (p, rel @ [ev]))
       (NS_CLEAR, []) evs"

text \<open>The mock provider keeps its events in a list; a caller may add to it or replace it.\<close>

definition mock_add_event :: "calendar_event \<Rightarrow> calendar_event list \<Rightarrow> calendar_event list" where
  "mock_add_event ev evs = evs @ [ev]"

definition mock_set_events :: "calendar_event list \<Rightarrow> calendar_event list \<Rightarrow> calendar_event list" where
  "mock_set_events new evs = new"

subsection \<open>The table of events\<close>

record news_event =
  ne_source :: string
  ne_source_event_id :: "string \<times> int \<times> string"
  ne_event_name :: string
  ne_currency :: string
  ne_impact :: string
  ne_event_time :: instant
  ne_pre_event_window_start :: instant
  ne_post_event_window_end :: instant
  ne_actual_value :: "string option"
  ne_forecast_value :: "string option"
  ne_previous_value :: "string option"

record news_reading =
  nr_str :: "json \<Rightarrow> string"
  nr_date :: "string \<Rightarrow> instant option"

datatype feed_response = Feed_unreachable | Feed_response nat "json option"

definition ascii_lower :: "char \<Rightarrow> char" where
  "ascii_lower ch =
     (let n = (of_char ch :: nat) in if 65 \<le> n \<and> n \<le> 90 then char_of (n + 32) else ch)"

definition capitalize :: "string \<Rightarrow> string" where
  "capitalize s = (case s of [] \<Rightarrow> [] | ch # cs \<Rightarrow> ascii_upper ch # map ascii_lower cs)"

definition item_text :: "news_reading \<Rightarrow> string \<Rightarrow> string \<Rightarrow> json_object \<Rightarrow> string" where
  "item_text rd k d obj =
     (case map_of obj k of None \<Rightarrow> d | Some (J_str s) \<Rightarrow> s | Some v \<Rightarrow> nr_str rd v)"

definition item_optional :: "news_reading \<Rightarrow> string \<Rightarrow> json_object \<Rightarrow> string option" where
  "item_optional rd k obj = (let s = item_text rd k [] obj in if s = [] then None else Some s)"

text \<open>\<open>None\<close> is one of the \<open>continue\<close>s before an event is looked up.\<close>

definition item_time :: "news_reading \<Rightarrow> json_object \<Rightarrow> instant option" where
  "item_time rd obj =
     (if map ascii_upper (item_text rd ''country'' [] obj) \<noteq> ''USD'' then None
      else case map_of obj ''date'' of
             Some (J_str s) \<Rightarrow> if s = [] then None else nr_date rd s
           | _ \<Rightarrow> None)"

definition item_impact :: "news_reading \<Rightarrow> json_object \<Rightarrow> string" where
  "item_impact rd obj =
     (let raw = capitalize (item_text rd ''impact'' [] obj)
      in if raw = ''High'' then ''HIGH'' else if raw = ''Medium'' then ''MEDIUM'' else ''LOW'')"

definition source_event_id :: "string \<Rightarrow> instant \<Rightarrow> string \<times> int \<times> string" where
  "source_event_id title t =
     (''USD'', t div (60 * 10 ^ 6), map (\<lambda>ch. if ch = CHR '' '' then CHR ''_'' else ch) (take 30 title))"

definition item_title :: "news_reading \<Rightarrow> json_object \<Rightarrow> string" where
  "item_title rd obj = item_text rd ''title'' ''USD Economic Event'' obj"

definition event_of_item :: "news_reading \<Rightarrow> int \<Rightarrow> int \<Rightarrow> json_object \<Rightarrow> instant \<Rightarrow> news_event" where
  "event_of_item rd pre post obj t =
     \<lparr>ne_source = ''forexfactory'', ne_source_event_id = source_event_id (item_title rd obj) t,
      ne_event_name = item_title rd obj, ne_currency = ''USD'', ne_impact = item_impact rd obj,
      ne_event_time = t, ne_pre_event_window_start = t - minutes_us pre,
      ne_post_event_window_end = t + minutes_us post,
      ne_actual_value = item_optional rd ''actual'' obj,
      ne_forecast_value = item_optional rd ''forecast'' obj,
      ne_previous_value = item_optional rd ''previous'' obj\<rparr>"

definition same_event :: "news_event \<Rightarrow> news_event \<Rightarrow> bool" where
  "same_event e x \<longleftrightarrow> ne_source x = ne_source e \<and> ne_source_event_id x = ne_source_event_id e"

definition refresh_event :: "news_event \<Rightarrow> news_event \<Rightarrow> news_event" where
  "refresh_event e x =
     x\<lparr>ne_impact := ne_impact e, ne_actual_value := ne_actual_value e,
       ne_forecast_value := ne_forecast_value e, ne_previous_value := ne_previous_value e,
       ne_pre_event_window_start := ne_pre_event_window_start e,
       ne_post_event_window_end := ne_post_event_window_end e\<rparr>"

text \<open>One turn of the loop, over the stored rows and the rows added so far.\<close>

definition sync_event :: "news_event \<Rightarrow> news_event list \<times> news_event list \<Rightarrow> news_event list \<times> news_event list" where
  "sync_event e = (\<lambda>(rows, added).
     if list_ex (same_event e) rows
     then (map (\<lambda>x. if same_event e x then refresh_event e x else x) rows, added)
     else (rows, added @ [e]))"

fun sync_items ::
  "news_reading \<Rightarrow> int \<Rightarrow> int \<Rightarrow> json list \<Rightarrow> news_event list \<times> news_event list
     \<Rightarrow> (news_event list \<times> news_event list) res" where
  "sync_items rd pre post [] st = Inr st"
| "sync_items rd pre post (J_obj obj # items) st =
     (case item_time rd obj of
        None \<Rightarrow> sync_items rd pre post items st
      | Some t \<Rightarrow> sync_items rd pre post items (sync_event (event_of_item rd pre post obj t) st))"
| "sync_items rd pre post (_ # items) st = Inl (ValueError ''item has no get'')"

text \<open>The commit checks the unique constraint on (source, source event id).\<close>

definition event_key :: "news_event \<Rightarrow> string \<times> string \<times> int \<times> string" where
  "event_key e = (ne_source e, ne_source_event_id e)"

definition fetch_and_sync_news ::
  "news_reading \<Rightarrow> int \<Rightarrow> int \<Rightarrow> feed_response \<Rightarrow> news_event list \<Rightarrow> nat res \<times> news_event list" where
  "fetch_and_sync_news rd pre post resp rows =
     (case resp of
        Feed_response status (Some (J_list items)) \<Rightarrow>
          if status \<noteq> 200 then (Inr 0, rows)
          else (case sync_items rd pre post items (rows, []) of
                  Inl e \<Rightarrow> (Inl e, rows)
                | Inr (rows', added) \<Rightarrow>
                    if distinct (map event_key (rows' @ added)) then (Inr (length added), rows' @ added)
                    else (Inr 0, rows))
      | _ \<Rightarrow> (Inr 0, rows))"

subsection \<open>The protection state\<close>

datatype protection_status = CLEAR | BLACKOUT | UPCOMING

record news_protection =
  np_status :: protection_status
  np_trading_allowed :: bool
  np_active_event :: "string option"
  np_upcoming_event :: "string option"
  np_minutes_until :: "int option"
  np_pre_minutes :: int
  np_post_minutes :: int
  np_events :: "(news_event \<times> bool \<times> int) list"

definition event_active :: "instant \<Rightarrow> news_event \<Rightarrow> bool" where
  "event_active now e \<longleftrightarrow> ne_pre_event_window_start e \<le> now \<and> now \<le> ne_post_event_window_end e"

definition minutes_to :: "instant \<Rightarrow> news_event \<Rightarrow> int" where
  "minutes_to now e = py_int (f64 (total_seconds (ne_event_time e - now) / 60))"

definition nearby_events :: "instant \<Rightarrow> news_event list \<Rightarrow> news_event list" where
  "nearby_events now rows =
     sort_key ne_event_time
       (filter (\<lambda>e. ne_currency e = ''USD'' \<and> ne_impact e = ''HIGH'' \<and>
                    now - minutes_us 120 \<le> ne_event_time e \<and> ne_event_time e \<le> now + minutes_us (48 * 60)) rows)"

definition upcoming_step :: "instant \<Rightarrow> news_event option \<Rightarrow> news_event \<Rightarrow> news_event option" where
  "upcoming_step now u e =
     (if minutes_to now e > 0 \<and> (case u of None \<Rightarrow> True | Some x \<Rightarrow> minutes_to now e < minutes_to now x)
      then Some e else u)"

definition get_news_protection_state :: "instant \<Rightarrow> int \<Rightarrow> int \<Rightarrow> news_event list \<Rightarrow> news_protection" where
  "get_news_protection_state now pre post rows =
     (let evs = nearby_events now rows;
          base = \<lparr>np_status = CLEAR, np_trading_allowed = True, np_active_event = None,
                  np_upcoming_event = None, np_minutes_until = None, np_pre_minutes = pre,
                  np_post_minutes = post,
                  np_events = take 15 (map (\<lambda>e. (e, event_active now e, minutes_to now e)) evs)\<rparr>
      in case find (event_active now) evs of
           Some e \<Rightarrow> base\<lparr>np_status := BLACKOUT, np_trading_allowed := False,
                          np_active_event := Some (ne_event_name e)\<rparr>
         | None \<Rightarrow>
             (case foldl (upcoming_step now) None evs of
                Some u \<Rightarrow>
                  if minutes_to now u \<le> 120
                  then base\<lparr>np_status := UPCOMING, np_upcoming_event := Some (ne_event_name u),
                            np_minutes_until := Some (minutes_to now u)\<rparr>
                  else base
              | None \<Rightarrow> base))"

subsection \<open>Lemmas\<close>

definition feed_events :: "news_reading \<Rightarrow> int \<Rightarrow> int \<Rightarrow> json list \<Rightarrow> news_event list" where
  "feed_events rd pre post items =
     List.map_filter (\<lambda>v. case v of
        J_obj obj \<Rightarrow> map_option (event_of_item rd pre post obj) (item_time rd obj) | _ \<Rightarrow> None) items"

definition news_inv :: "news_event list \<Rightarrow> bool" where
  "news_inv rows \<longleftrightarrow>
     distinct (map event_key rows) \<and> (\<forall>x \<in> set rows. ne_currency x = fst (ne_source_event_id x))"

lemma same_event_key: "same_event e x \<longleftrightarrow> event_key x = event_key e"
  by (simp add: same_event_def event_key_def)

lemma refresh_key [simp]: "event_key (refresh_event e x) = event_key x"
  by (simp add: refresh_event_def event_key_def)

lemma event_of_item_key:
  "ne_currency (event_of_item rd pre post obj t) = fst (ne_source_event_id (event_of_item rd pre post obj t))"
  by (simp add: event_of_item_def source_event_id_def)

lemma feed_events_Nil [simp]: "feed_events rd pre post [] = []"
  by (simp add: feed_events_def)

lemma feed_events_Cons:
  "feed_events rd pre post (J_obj obj # items) =
     (case item_time rd obj of None \<Rightarrow> feed_events rd pre post items
      | Some t \<Rightarrow> event_of_item rd pre post obj t # feed_events rd pre post items)"
  by (simp add: feed_events_def map_filter_simps split: option.splits)

lemma feed_events_currency: "e \<in> set (feed_events rd pre post items) \<Longrightarrow> ne_currency e = fst (ne_source_event_id e)"
  by (auto simp: feed_events_def List.map_filter_def event_of_item_key split: json.splits)

text \<open>The loop is the fold of its turns over the events of the feed.\<close>

lemma sync_items_fold:
  assumes "list_all (\<lambda>v. \<exists>obj. v = J_obj obj) items"
  shows "sync_items rd pre post items st = Inr (foldl (\<lambda>s e. sync_event e s) st (feed_events rd pre post items))"
  using assms
proof (induction items arbitrary: st)
  case (Cons v items)
  then obtain obj where "v = J_obj obj" by auto
  then show ?case using Cons by (cases "item_time rd obj") (simp_all add: feed_events_Cons)
qed simp

lemma sync_items_raises:
  "\<not> list_all (\<lambda>v. \<exists>obj. v = J_obj obj) items \<Longrightarrow>
     sync_items rd pre post items st = Inl (ValueError ''item has no get'')"
proof (induction items arbitrary: st)
  case (Cons v items)
  then show ?case by (cases v) (auto split: option.splits)
qed simp

lemma list_ex_same: "list_ex (same_event e) rows \<longleftrightarrow> event_key e \<in> set (map event_key rows)"
  by (auto simp: list_ex_iff same_event_key image_iff) (metis+)

definition refresh_row :: "news_event list \<Rightarrow> news_event \<Rightarrow> news_event" where
  "refresh_row es x = foldl (\<lambda>x e. if same_event e x then refresh_event e x else x) x es"

lemma refresh_row_Nil [simp]: "refresh_row [] = (\<lambda>x. x)"
  by (simp add: refresh_row_def fun_eq_iff)

text \<open>What a synchronisation does to the table: stored rows are refreshed, unknown events are added.\<close>

lemma sync_fold:
  "foldl (\<lambda>s e. sync_event e s) (rows, added) es =
     (map (refresh_row es) rows, added @ filter (\<lambda>e. event_key e \<notin> set (map event_key rows)) es)"
proof (induction es arbitrary: rows added)
  case (Cons e es)
  let ?f = "\<lambda>x. if same_event e x then refresh_event e x else x"
  have keys: "map event_key (map ?f rows) = map event_key rows" by simp
  show ?case
  proof (cases "event_key e \<in> event_key ` set rows")
    case True
    have "foldl (\<lambda>s e. sync_event e s) (rows, added) (e # es) =
        foldl (\<lambda>s e. sync_event e s) (map ?f rows, added) es"
      using True by (simp add: sync_event_def list_ex_same)
    also have "\<dots> = (map (refresh_row es) (map ?f rows),
        added @ filter (\<lambda>e. event_key e \<notin> set (map event_key rows)) es)"
      unfolding Cons.IH keys ..
    finally show ?thesis using True by (simp add: refresh_row_def comp_def)
  next
    case False
    then have "refresh_row (e # es) x = refresh_row es x" if "x \<in> set rows" for x
      using that by (auto simp: refresh_row_def same_event_key image_iff)
    then have rows: "map (refresh_row (e # es)) rows = map (refresh_row es) rows" by simp
    have "sync_event e (rows, added) = (rows, added @ [e])"
      using False by (simp add: sync_event_def list_ex_same)
    then show ?thesis unfolding rows using False by (simp add: Cons.IH)
  qed
qed simp

lemma refresh_row_key [simp]: "event_key (refresh_row es x) = event_key x"
proof (induction es arbitrary: x)
  case (Cons e es)
  show ?case using Cons.IH [of "refresh_event e x"] Cons.IH [of x] by (simp add: refresh_row_def)
qed (simp add: refresh_row_def)

lemma refresh_row_time [simp]:
  "ne_event_time (refresh_row es x) = ne_event_time x" "ne_currency (refresh_row es x) = ne_currency x"
  "ne_source_event_id (refresh_row es x) = ne_source_event_id x"
proof (induction es arbitrary: x)
  case (Cons e es)
  { case 1 show ?case using Cons.IH(1) [of "refresh_event e x"] Cons.IH(1) [of x]
      by (simp add: refresh_row_def refresh_event_def) }
  { case 2 show ?case using Cons.IH(2) [of "refresh_event e x"] Cons.IH(2) [of x]
      by (simp add: refresh_row_def refresh_event_def) }
  { case 3 show ?case using Cons.IH(3) [of "refresh_event e x"] Cons.IH(3) [of x]
      by (simp add: refresh_row_def refresh_event_def) }
qed (simp_all add: refresh_row_def)

lemma refresh_row_none: "event_key x \<notin> set (map event_key es) \<Longrightarrow> refresh_row es x = x"
  by (induction es) (auto simp: refresh_row_def same_event_key)

lemma refresh_row_append: "refresh_row (es @ fs) x = refresh_row fs (refresh_row es x)"
  by (simp add: refresh_row_def)

definition matches_event :: "news_event \<Rightarrow> news_event \<Rightarrow> bool" where
  "matches_event e x \<longleftrightarrow> event_key x = event_key e \<and> ne_impact x = ne_impact e
     \<and> ne_pre_event_window_start x = ne_pre_event_window_start e
     \<and> ne_post_event_window_end x = ne_post_event_window_end e"

lemma refresh_row_matches:
  assumes "e \<in> set es" "distinct (map event_key es)" "event_key x = event_key e"
  shows "matches_event e (refresh_row es x)"
proof -
  obtain as bs where es: "es = as @ e # bs" using assms(1) by (auto simp: in_set_conv_decomp)
  have "event_key x \<notin> set (map event_key as)" "event_key x \<notin> set (map event_key bs)"
    using assms(2,3) by (auto simp: es)
  then have "refresh_row es x = refresh_event e x"
    using refresh_row_none [of x as] refresh_row_none [of "refresh_event e x" bs] assms(3)
    by (simp add: es refresh_row_append) (simp add: refresh_row_def same_event_key)
  then show ?thesis using assms(3) by (simp add: matches_event_def refresh_event_def event_key_def)
qed

definition sync_ok :: "json list \<Rightarrow> news_event list \<Rightarrow> news_event list \<Rightarrow> bool" where
  "sync_ok items es rows \<longleftrightarrow>
     list_all (\<lambda>v. \<exists>obj. v = J_obj obj) items \<and> distinct (map event_key es) \<and> news_inv rows"

lemma sync_result:
  assumes "sync_ok items (feed_events rd pre post items) rows"
  shows "snd (fetch_and_sync_news rd pre post (Feed_response 200 (Some (J_list items))) rows) =
     map (refresh_row (feed_events rd pre post items)) rows
       @ filter (\<lambda>e. event_key e \<notin> set (map event_key rows)) (feed_events rd pre post items)"
proof -
  let ?es = "feed_events rd pre post items"
  have keys: "map event_key (map (refresh_row ?es) rows) = map event_key rows" by simp
  have "distinct (map event_key rows @ map event_key (filter (\<lambda>e. event_key e \<notin> set (map event_key rows)) ?es))"
    using assms by (auto simp: sync_ok_def news_inv_def distinct_map_filter)
  then show ?thesis
    using assms unfolding sync_ok_def
    by (simp add: fetch_and_sync_news_def sync_items_fold sync_fold keys image_image del: map_map)
qed

lemma synced_event_stored:
  assumes "sync_ok items (feed_events rd pre post items) rows" "e \<in> set (feed_events rd pre post items)"
  shows "\<exists>x \<in> set (snd (fetch_and_sync_news rd pre post (Feed_response 200 (Some (J_list items))) rows)).
           matches_event e x \<and> ne_currency x = ne_currency e"
proof (cases "event_key e \<in> set (map event_key rows)")
  case True
  then obtain x where x: "x \<in> set rows" "event_key x = event_key e" by auto
  have "ne_currency x = ne_currency e"
    using x assms feed_events_currency [OF assms(2)] by (auto simp: sync_ok_def news_inv_def event_key_def)
  then show ?thesis
    using x assms refresh_row_matches [OF assms(2) _ x(2)]
    by (intro bexI [of _ "refresh_row (feed_events rd pre post items) x"])
       (auto simp: sync_result sync_ok_def)
next
  case False
  then show ?thesis using assms by (intro bexI [of _ e]) (auto simp: sync_result matches_event_def)
qed

lemma fetch_keeps_inv:
  assumes "news_inv rows"
  shows "news_inv (snd (fetch_and_sync_news rd pre post resp rows))"
proof (cases "\<exists>items. resp = Feed_response 200 (Some (J_list items)) \<and> list_all (\<lambda>v. \<exists>obj. v = J_obj obj) items")
  case True
  then obtain items where r: "resp = Feed_response 200 (Some (J_list items))"
    and i: "list_all (\<lambda>v. \<exists>obj. v = J_obj obj) items" by auto
  show ?thesis
    using assms feed_events_currency
    by (auto simp: r fetch_and_sync_news_def sync_items_fold [OF i] sync_fold news_inv_def)
next
  case False
  then show ?thesis
    using assms by (auto simp: fetch_and_sync_news_def sync_items_raises split: feed_response.splits option.splits json.splits)
qed

text \<open>Two events of one feed with one identifier that is not stored yet lose the whole feed.\<close>

lemma duplicate_event_discards_feed:
  assumes "\<not> distinct (map event_key (filter (\<lambda>e. event_key e \<notin> set (map event_key rows))
             (feed_events rd pre post items)))"
  shows "snd (fetch_and_sync_news rd pre post (Feed_response 200 (Some (J_list items))) rows) = rows"
proof (cases "list_all (\<lambda>v. \<exists>obj. v = J_obj obj) items")
  case True
  show ?thesis using assms by (auto simp: fetch_and_sync_news_def sync_items_fold [OF True] sync_fold)
qed (simp add: fetch_and_sync_news_def sync_items_raises)

subsection \<open>The states\<close>

lemma blackout_iff:
  "np_status (get_news_protection_state now pre post rows) = BLACKOUT \<longleftrightarrow>
     (\<exists>e \<in> set rows. ne_currency e = ''USD'' \<and> ne_impact e = ''HIGH'' \<and> event_active now e
        \<and> now - minutes_us 120 \<le> ne_event_time e \<and> ne_event_time e \<le> now + minutes_us (48 * 60))"
proof -
  have "np_status (get_news_protection_state now pre post rows) = BLACKOUT \<longleftrightarrow>
      find (event_active now) (nearby_events now rows) \<noteq> None"
    by (auto simp: get_news_protection_state_def Let_def split: option.splits)
  then show ?thesis by (auto simp: find_None_iff nearby_events_def)
qed

lemma protection_allows_iff:
  "np_trading_allowed (get_news_protection_state now pre post rows) \<longleftrightarrow>
     np_status (get_news_protection_state now pre post rows) \<noteq> BLACKOUT"
  by (auto simp: get_news_protection_state_def Let_def split: option.splits)

lemma mock_news_fold:
  "snd (foldl (\<lambda>(st, rel) ev. case event_phase now ev of None \<Rightarrow> (st, rel) | Some p \<Rightarrow> (p, rel @ [ev])) (s, r) evs)
     = r @ filter (\<lambda>ev. event_phase now ev \<noteq> None) evs"
  "fst (foldl (\<lambda>(st, rel) ev. case event_phase now ev of None \<Rightarrow> (st, rel) | Some p \<Rightarrow> (p, rel @ [ev])) (s, r) evs)
     = last (s # map (\<lambda>ev. the (event_phase now ev)) (filter (\<lambda>ev. event_phase now ev \<noteq> None) evs))"
  by (induction evs arbitrary: s r) (auto split: option.splits)

lemma mock_news_clear_iff:
  "fst (mock_news_state now evs) = NS_CLEAR \<longleftrightarrow> (\<forall>ev \<in> set evs. event_phase now ev = None)"
proof -
  let ?r = "filter (\<lambda>ev. event_phase now ev \<noteq> None) evs"
  have phase: "event_phase now ev \<noteq> Some NS_CLEAR" for ev by (simp add: event_phase_def)
  show ?thesis
  proof (cases "?r = []")
    case True
    then show ?thesis by (auto simp: mock_news_state_def mock_news_fold filter_empty_conv)
  next
    case False
    have "last ?r \<in> set ?r" using False by (rule last_in_set)
    then show ?thesis using False phase [of "last ?r"]
      by (auto simp: mock_news_state_def mock_news_fold last_map filter_empty_conv)
  qed
qed

end
