(* ===== verification/Accounts.thy ===== *)
theory Accounts
  imports Sizing News
begin

section \<open>Accounts (\<open>backend/db/models/account.py\<close>, \<open>services/normalization.py\<close>, \<open>services/broker_adapter.py\<close>)\<close>

text \<open>
  The row of a trading account, the conversion between broker units and USD, and the two broker
  adapters.  An adapter class is a constructor; its metadata keep the fields the operations read.
  Texts of errors are left out; letters are ASCII.
\<close>

record account_row =
  ta_id :: string
  ta_user_id :: string
  ta_label :: string
  ta_broker :: string
  ta_mt5_account_number :: string
  ta_mt5_server :: "string option"
  ta_broker_currency :: string
  ta_is_cent_account :: bool
  ta_cent_normalization_factor :: dec
  ta_is_active :: bool
  ta_trading_enabled :: bool
  ta_created_at :: instant

subsection \<open>Monetary normalisation\<close>

datatype normalization_error = FactorNotPositive | CannotNormalize

definition normalize_broker_to_usd :: "dec \<Rightarrow> dec \<Rightarrow> normalization_error + dec" where
  "normalize_broker_to_usd broker_value factor =
     (if factor \<le> 0 then Inl FactorNotPositive
      else case dquantize 2 (dmul broker_value factor) of
             Inl _ \<Rightarrow> Inl CannotNormalize
           | Inr usd \<Rightarrow> Inr usd)"

definition usd_to_broker :: "dec \<Rightarrow> dec \<Rightarrow> normalization_error + dec" where
  "usd_to_broker usd_value factor =
     (if factor \<le> 0 then Inl FactorNotPositive else Inr (ddiv usd_value factor))"

definition cent_account_factor :: dec where "cent_account_factor = 1 / 100"

definition standard_usd_factor :: dec where "standard_usd_factor = 1"

definition account_to_usd :: "account_row \<Rightarrow> dec \<Rightarrow> normalization_error + dec" where
  "account_to_usd a broker_value = normalize_broker_to_usd broker_value (ta_cent_normalization_factor a)"

subsection \<open>Brokers\<close>

datatype broker_adapter = HFM | Exness

fun adapter_name :: "broker_adapter \<Rightarrow> string" where
  "adapter_name HFM = ''HFM''"
| "adapter_name Exness = ''Exness''"

fun default_gold_symbol :: "broker_adapter \<Rightarrow> string" where
  "default_gold_symbol HFM = ''XAUUSD''"
| "default_gold_symbol Exness = ''XAUUSDm''"

fun cent_suffix :: "broker_adapter \<Rightarrow> string option" where
  "cent_suffix HFM = Some ''.m''"
| "cent_suffix Exness = Some ''c''"

definition broker_symbol :: "broker_adapter \<Rightarrow> string \<Rightarrow> bool \<Rightarrow> string" where
  "broker_symbol b symbol is_cent =
     (let sym = map ascii_upper (py_strip symbol)
      in if sym = ''XAUUSD'' \<or> sym = ''GOLD''
         then (case cent_suffix b of
                 Some suf \<Rightarrow> if is_cent \<and> suf \<noteq> [] then ''XAUUSD'' @ suf else default_gold_symbol b
               | None \<Rightarrow> default_gold_symbol b)
         else sym)"

definition get_cent_factor :: "bool \<Rightarrow> dec" where
  "get_cent_factor is_cent = (if is_cent then 1 / 100 else 1)"

text \<open>\<open>str.split()\<close> and \<open>' '.join\<close>.\<close>

function py_split :: "string \<Rightarrow> string list" where
  "py_split s =
     (let t = dropWhile py_space s
      in if t = [] then [] else takeWhile (\<lambda>ch. \<not> py_space ch) t # py_split (dropWhile (\<lambda>ch. \<not> py_space ch) t))"
  by auto
termination
proof (relation "measure length")
  fix s t :: string
  assume t: "t = dropWhile py_space s" "t \<noteq> []"
  then have "\<not> py_space (hd t)" using hd_dropWhile by metis
  then have "length (dropWhile (\<lambda>ch. \<not> py_space ch) t) < length t"
    using t(2) by (cases t) (auto simp: le_imp_less_Suc length_dropWhile_le)
  also have "\<dots> \<le> length s" unfolding t(1) by (rule length_dropWhile_le)
  finally show "(dropWhile (\<lambda>ch. \<not> py_space ch) t, s) \<in> measure length" by simp
qed simp

fun join_spaces :: "string list \<Rightarrow> string" where
  "join_spaces [] = []"
| "join_spaces [w] = w"
| "join_spaces (w # ws) = w @ '' '' @ join_spaces ws"

definition hfm_aliases :: "string list" where
  "hfm_aliases = [''HFM'', ''HF MARKETS'', ''HFMARKETS'', ''HF MARKET'', ''HF MARKET (SV) LTD'',
     ''HF MARKET (SV) LTD.'', ''HF MARKETS (SV) LTD'', ''HF MARKETS (SV) LTD.'', ''HF MARKETS GLOBAL'',
     ''HF MARKETS SV'', ''HFM INVESTMENTS'', ''HFM INVESTMENTS LTD'', ''HF MARKETS EUROPE LTD'']"

definition exness_aliases :: "string list" where
  "exness_aliases = [''EXNESS'', ''EXNESS LLC'', ''EXNESS (SC) LTD'', ''EXNESS (SC) LTD.'',
     ''EXNESS TECHNOLOGIES'', ''EXNESS TECHNOLOGIES LTD'', ''EXNESS B.V.'', ''EXNESS GLOBAL'']"

definition starts_with :: "string \<Rightarrow> string \<Rightarrow> bool" where
  "starts_with p s \<longleftrightarrow> take (length p) s = p"

definition clean_broker :: "string \<Rightarrow> string" where
  "clean_broker raw = join_spaces (py_split (map ascii_upper (py_strip raw)))"

definition normalize_broker_name :: "string \<Rightarrow> broker_adapter option" where
  "normalize_broker_name raw =
     (let clean = clean_broker raw
      in if clean \<in> set hfm_aliases \<or> list_ex (\<lambda>a. starts_with a clean) [''HFM'', ''HF MARKET'', ''HFMARKET'']
         then Some HFM
         else if clean \<in> set exness_aliases \<or> starts_with ''EXNESS'' clean then Some Exness
         else None)"

definition get_broker_adapter :: "string \<Rightarrow> broker_adapter option" where
  "get_broker_adapter raw = normalize_broker_name raw"

subsection \<open>Lemmas\<close>

text \<open>A converted amount is whole cents and at most half a cent from the exact product of the context.\<close>

lemma dquantize_close:
  assumes "dquantize k x = Inr y" shows "\<bar>y - x\<bar> \<le> 1 / (2 * 10 ^ k)"
proof -
  define n where "n = sgn x * of_int (rhe (\<bar>x\<bar> * 10 ^ k))"
  have y: "y = n / 10 ^ k" using assms by (auto simp: dquantize_def n_def Let_def split: if_splits)
  have x: "x * 10 ^ k = sgn x * (\<bar>x\<bar> * 10 ^ k)" by (simp add: sgn_mult_abs flip: mult.assoc)
  have "\<bar>n - x * 10 ^ k\<bar> = \<bar>sgn x\<bar> * \<bar>of_int (rhe (\<bar>x\<bar> * 10 ^ k)) - \<bar>x\<bar> * 10 ^ k\<bar>"
    unfolding n_def x by (simp add: abs_mult flip: right_diff_distrib)
  also have "\<dots> \<le> 1 * (1 / 2)" by (intro mult_mono rhe_close) (auto simp: sgn_if)
  finally have "\<bar>n - x * 10 ^ k\<bar> / 10 ^ k \<le> 1 / 2 / 10 ^ k" by (intro divide_right_mono) auto
  moreover have "\<bar>n - x * 10 ^ k\<bar> / 10 ^ k = \<bar>y - x\<bar>"
  proof -
    have "\<bar>n - x * 10 ^ k\<bar> / 10 ^ k = \<bar>(n - x * 10 ^ k) / 10 ^ k\<bar>" by (simp add: abs_divide)
    then show ?thesis unfolding y by (simp add: diff_divide_distrib)
  qed
  ultimately show ?thesis by (simp add: field_simps)
qed

lemma normalize_close:
  assumes "normalize_broker_to_usd v f = Inr usd"
  shows "0 < f" "\<bar>usd - dmul v f\<bar> \<le> 1 / 200" "\<exists>n. usd = of_int n / 100"
proof -
  have q: "0 < f" "dquantize 2 (dmul v f) = Inr usd"
    using assms by (auto simp: normalize_broker_to_usd_def split: if_splits sum.splits)
  show "0 < f" by (rule q(1))
  show "\<bar>usd - dmul v f\<bar> \<le> 1 / 200" using dquantize_close [OF q(2)] by simp
  show "\<exists>n. usd = of_int n / 100"
  proof -
    have "usd = sgn (dmul v f) * of_int (rhe (\<bar>dmul v f\<bar> * 100)) / 100"
      using q(2) by (auto simp: dquantize_def Let_def split: if_splits)
    then show ?thesis
      by (cases "dmul v f" "0 :: rat" rule: linorder_cases)
         (auto intro: exI [of _ "- rhe (\<bar>dmul v f\<bar> * 100)"])
  qed
qed

text \<open>
  For the two standard factors the conversions are inverse on whole cents, far above any balance.
\<close>

lemma usd_broker_roundtrip:
  assumes "u * 100 = of_int n" "\<bar>n\<bar> < 10 ^ 24" "f = cent_account_factor \<or> f = standard_usd_factor"
  shows "\<exists>b. usd_to_broker u f = Inr b \<and> normalize_broker_to_usd b f = Inr u"
proof -
  have q: "dquantize 2 u = Inr u" using assms by (intro dquantize_grid) auto
  have u: "dctx u = u"
    using assms by (intro dctx_fits dec_fits_scaled [of u 2 n]) auto
  show ?thesis
  proof (cases "f = cent_account_factor")
    case True
    have n: "u / (1 / 100) = of_int n" using assms(1) by simp
    have "dctx (of_int n) = of_int n" using assms(2) by (intro dctx_fits dec_fits_int) simp
    then have "ddiv u (1 / 100) = of_int n" unfolding dec_ops n .
    moreover have "dmul (of_int n) (1 / 100) = u" using u assms(1) unfolding dec_ops by (metis (no_types) n times_divide_eq_right mult.right_neutral nonzero_divide_eq_eq divide_divide_eq_right div_by_1 mult.commute zero_neq_numeral)
    moreover have f: "f = 1 / 100" using True by (simp only: cent_account_factor_def)
    ultimately show ?thesis using q unfolding f
      by (simp add: usd_to_broker_def normalize_broker_to_usd_def)
  next
    case False
    then have "f = 1" using assms(3) by (simp add: standard_usd_factor_def)
    then show ?thesis using q u by (simp add: usd_to_broker_def normalize_broker_to_usd_def dec_ops)
  qed
qed

text \<open>A canonical name is a fixed point, and every alias is already covered by a prefix.\<close>

lemma adapter_name_fixed: "normalize_broker_name (adapter_name b) = Some b"
proof -
  have "normalize_broker_name ''HFM'' = Some HFM" "normalize_broker_name ''Exness'' = Some Exness"
    by code_simp+
  then show ?thesis by (cases b) simp_all
qed

lemma aliases_covered:
  "list_all (\<lambda>a. list_ex (\<lambda>p. starts_with p a) [''HFM'', ''HF MARKET'', ''HFMARKET'']) hfm_aliases"
  "list_all (starts_with ''EXNESS'') exness_aliases"
  by code_simp+

lemma broker_symbol_is_gold:
  assumes "map ascii_upper (py_strip s) \<in> {''XAUUSD'', ''GOLD''}"
  shows "starts_with ''XAUUSD'' (broker_symbol b s c)"
  using assms by (cases b) (auto simp: broker_symbol_def starts_with_def)

end
