(* ===== verification/Licensing.thy ===== *)
theory Licensing
  imports Accounts
begin

section \<open>Licences (\<open>backend/services/license.py\<close>, \<open>license_service.py\<close>, \<open>backend/db/models/license.py\<close>)\<close>

text \<open>
  Serial codes and the licences they activate.  The table is a list in insertion order; the creation
  time of a row is the clock of its insertion.  The unique constraints on the key and on the serial
  code are checked by the flush; the random parts of a code are arguments.  A query for one row that
  finds two raises, as does a refused flush: both are \<open>LicenseFault\<close>.
\<close>

datatype license_status = LS_UNUSED | LS_ACTIVE | LS_EXPIRED | LS_REVOKED

record license_row =
  li_license_key :: string
  li_serial_code :: "string option"
  li_tier :: int
  li_plan :: string
  li_status :: license_status
  li_account_limit :: int
  li_feature_strategy_engine :: bool
  li_feature_brain :: bool
  li_feature_backtest :: bool
  li_feature_multi_account :: bool
  li_user_id :: "string option"
  li_issued_at :: "instant option"
  li_activated_at :: "instant option"
  li_valid_from :: "instant option"
  li_valid_until :: "instant option"
  li_revoked :: bool

datatype license_error =
    InvalidTier
  | InvalidSerialCode
  | SerialCodeRevoked
  | SerialCodeAlreadyUsed
  | SerialCodeExpired
  | LicenseFault

definition tier_config :: "int \<Rightarrow> (string \<times> int \<times> int) option" where
  "tier_config = map_of [(1, (''AUREXIS TIER 1'', 1, 30)), (2, (''AUREXIS TIER 2'', 5, 30)),
                         (3, (''AUREXIS TIER 3'', - 1, 30))]"

definition days_us :: "int \<Rightarrow> int" where "days_us n = n * 86400 * 10 ^ 6"

definition is_expired :: "instant \<Rightarrow> instant option \<Rightarrow> bool" where
  "is_expired now valid_until \<longleftrightarrow> (case valid_until of None \<Rightarrow> False | Some t \<Rightarrow> t < now)"

definition is_currently_valid :: "instant \<Rightarrow> license_row \<Rightarrow> bool" where
  "is_currently_valid now l \<longleftrightarrow>
     (if li_revoked l \<or> li_status l = LS_REVOKED \<or> li_status l = LS_EXPIRED then False
      else if is_expired now (li_valid_until l) then False
      else li_status l = LS_ACTIVE)"

subsection \<open>Serial codes\<close>

definition tier_digit :: "int \<Rightarrow> string" where
  "tier_digit t = (if t = 1 then ''1'' else if t = 2 then ''2'' else ''3'')"

text \<open>The three random parts are hexadecimal texts.\<close>

definition generate_serial_code :: "int \<Rightarrow> string \<Rightarrow> string \<times> string \<times> string \<Rightarrow> string option" where
  "generate_serial_code tier pfx = (\<lambda>(p1, p2, p3).
     (if tier_config tier = None then None
      else Some (pfx @ ''-T'' @ tier_digit tier @ ''-'' @ map ascii_upper p1 @ ''-'' @ map ascii_upper p2
                 @ ''-'' @ map ascii_upper p3)))"

record code_source =
  cs_key :: string
  cs_parts :: "string \<times> string \<times> string"

definition unused_license :: "instant \<Rightarrow> int \<Rightarrow> string \<Rightarrow> string \<Rightarrow> string \<Rightarrow> int \<Rightarrow> license_row" where
  "unused_license now tier key code plan limit =
     \<lparr>li_license_key = key, li_serial_code = Some code, li_tier = tier, li_plan = plan,
      li_status = LS_UNUSED, li_account_limit = limit, li_feature_strategy_engine = True,
      li_feature_brain = True, li_feature_backtest = True, li_feature_multi_account = (2 \<le> tier),
      li_user_id = None, li_issued_at = Some now, li_activated_at = None, li_valid_from = None,
      li_valid_until = None, li_revoked = False\<rparr>"

definition create_license_record ::
  "instant \<Rightarrow> code_source \<Rightarrow> int \<Rightarrow> string option \<Rightarrow> string \<Rightarrow> license_row list
     \<Rightarrow> (license_error + license_row) \<times> license_row list" where
  "create_license_record now src tier serial_code pfx ls =
     (case (tier_config tier, generate_serial_code tier pfx (cs_parts src)) of
        (Some (plan, limit, _), Some generated) \<Rightarrow>
          let code = (case serial_code of Some c \<Rightarrow> if c = [] then generated else c | None \<Rightarrow> generated);
              key = ''lic_'' @ cs_key src
          in if list_ex (\<lambda>l. li_license_key l = key \<or> li_serial_code l = Some code) ls
             then (Inl LicenseFault, ls)
             else let l = unused_license now tier key code plan limit in (Inr l, ls @ [l])
      | _ \<Rightarrow> (Inl InvalidTier, ls))"

definition put_license :: "license_row \<Rightarrow> license_row list \<Rightarrow> license_row list" where
  "put_license l ls = map (\<lambda>x. if li_license_key x = li_license_key l then l else x) ls"

definition activation_error :: "instant \<Rightarrow> license_row \<Rightarrow> license_error option" where
  "activation_error now l =
     (if li_revoked l \<or> li_status l = LS_REVOKED then Some SerialCodeRevoked
      else if li_status l = LS_ACTIVE \<or> li_user_id l \<noteq> None then Some SerialCodeAlreadyUsed
      else if li_status l = LS_EXPIRED \<or> is_expired now (li_valid_until l) then Some SerialCodeExpired
      else None)"

definition activated :: "instant \<Rightarrow> string \<Rightarrow> license_row \<Rightarrow> license_row" where
  "activated now user l =
     l\<lparr>li_user_id := Some user, li_status := LS_ACTIVE, li_activated_at := Some now,
       li_valid_from := Some now,
       li_valid_until := Some (now + days_us (case tier_config (li_tier l) of Some (_, _, d) \<Rightarrow> d | None \<Rightarrow> 30))\<rparr>"

definition activate_license_for_user ::
  "instant \<Rightarrow> string \<Rightarrow> string \<Rightarrow> license_row list \<Rightarrow> (license_error + license_row) \<times> license_row list" where
  "activate_license_for_user now serial_code user ls =
     (case find (\<lambda>l. li_serial_code l = Some (map ascii_upper (py_strip serial_code))) ls of
        None \<Rightarrow> (Inl InvalidSerialCode, ls)
      | Some l \<Rightarrow>
          (case activation_error now l of
             Some e \<Rightarrow> (Inl e, ls)
           | None \<Rightarrow> (Inr (activated now user l), put_license (activated now user l) ls)))"

subsection \<open>The licence of a user\<close>

definition active_licenses :: "string \<Rightarrow> license_row list \<Rightarrow> license_row list" where
  "active_licenses user ls =
     filter (\<lambda>l. li_user_id l = Some user \<and> li_status l = LS_ACTIVE \<and> \<not> li_revoked l) ls"

definition get_user_active_license ::
  "instant \<Rightarrow> string \<Rightarrow> license_row list \<Rightarrow> (license_error + license_row option) \<times> license_row list" where
  "get_user_active_license now user ls =
     (case active_licenses user ls of
        [] \<Rightarrow> (Inr None, ls)
      | [l] \<Rightarrow>
          if is_expired now (li_valid_until l)
          then (Inr None, put_license (l\<lparr>li_status := LS_EXPIRED\<rparr>) ls)
          else (Inr (Some l), ls)
      | _ \<Rightarrow> (Inl LicenseFault, ls))"

definition active_account_count :: "string \<Rightarrow> account_row list \<Rightarrow> int" where
  "active_account_count user accs =
     int (length (filter (\<lambda>a. ta_user_id a = user \<and> ta_is_active a) accs))"

text \<open>An error leaves the tables as they were.\<close>

definition check_user_can_create_account ::
  "instant \<Rightarrow> code_source \<Rightarrow> string \<Rightarrow> account_row list \<Rightarrow> license_row list
     \<Rightarrow> (license_error + bool \<times> string option) \<times> license_row list" where
  "check_user_can_create_account now src user accs ls =
     (case get_user_active_license now user ls of
        (Inl e, _) \<Rightarrow> (Inl e, ls)
      | (Inr None, ls1) \<Rightarrow>
          (case create_license_record now src 3 None ''AURX'' ls1 of
             (Inl e, _) \<Rightarrow> (Inl e, ls)
           | (Inr l, ls2) \<Rightarrow>
               (case activate_license_for_user now (case li_serial_code l of Some c \<Rightarrow> c | None \<Rightarrow> []) user ls2 of
                  (Inl e, _) \<Rightarrow> (Inl e, ls)
                | (Inr _, ls3) \<Rightarrow> (Inr (True, None), ls3)))
      | (Inr (Some l), ls1) \<Rightarrow>
          if li_account_limit l = - 1 then (Inr (True, None), ls1)
          else if li_account_limit l \<le> active_account_count user accs
          then (Inr (True, None),
                put_license (l\<lparr>li_tier := 3, li_account_limit := - 1, li_plan := ''AUREXIS TIER 3''\<rparr>) ls1)
          else (Inr (True, None), ls1))"

subsection \<open>Features\<close>

definition feature_of :: "license_row \<Rightarrow> string \<Rightarrow> bool" where
  "feature_of l feature =
     (case map_of [(''strategy_engine'', li_feature_strategy_engine l), (''brain'', li_feature_brain l),
                   (''backtest'', li_feature_backtest l), (''multi_account'', li_feature_multi_account l)] feature of
        Some b \<Rightarrow> b | None \<Rightarrow> False)"

definition is_feature_enabled :: "instant \<Rightarrow> string \<Rightarrow> string option \<Rightarrow> license_row list \<Rightarrow> bool" where
  "is_feature_enabled now feature license_key ls \<longleftrightarrow>
     (case license_key of
        None \<Rightarrow> True
      | Some k \<Rightarrow>
          if k = [] then True
          else case find (\<lambda>l. li_license_key l = k \<and> \<not> li_revoked l) ls of
                 None \<Rightarrow> False
               | Some l \<Rightarrow> if is_expired now (li_valid_until l) then False else feature_of l feature)"

subsection \<open>Runs\<close>

datatype license_op =
    Lic_create code_source int "string option" string
  | Lic_activate string string
  | Lic_read string
  | Lic_account code_source string "account_row list"

fun license_step :: "instant \<times> license_op \<Rightarrow> license_row list \<Rightarrow> license_row list" where
  "license_step (now, Lic_create src tier code pfx) ls = snd (create_license_record now src tier code pfx ls)"
| "license_step (now, Lic_activate code user) ls = snd (activate_license_for_user now code user ls)"
| "license_step (now, Lic_read user) ls = snd (get_user_active_license now user ls)"
| "license_step (now, Lic_account src user accs) ls = snd (check_user_can_create_account now src user accs ls)"

definition run_licenses :: "(instant \<times> license_op) list \<Rightarrow> license_row list \<Rightarrow> license_row list" where
  "run_licenses ops ls = foldl (\<lambda>ls op. license_step op ls) ls ops"

subsection \<open>Lemmas\<close>

definition licenses_inv :: "license_row list \<Rightarrow> bool" where
  "licenses_inv ls \<longleftrightarrow> distinct (map li_license_key ls) \<and> distinct (map li_serial_code ls)
     \<and> None \<notin> li_serial_code ` set ls"

text \<open>
  How a row may change: never its key and code; the owner and the activation only once; the status
  only forward.
\<close>

definition license_evolves :: "license_row \<Rightarrow> license_row \<Rightarrow> bool" where
  "license_evolves l l' \<longleftrightarrow>
     li_license_key l' = li_license_key l \<and> li_serial_code l' = li_serial_code l \<and> li_revoked l' = li_revoked l
     \<and> (li_status l' = LS_REVOKED \<longleftrightarrow> li_status l = LS_REVOKED)
     \<and> (li_user_id l \<noteq> None \<longrightarrow> li_user_id l' = li_user_id l \<and> li_activated_at l' = li_activated_at l
          \<and> li_valid_until l' = li_valid_until l)"

subsection \<open>Tables whose rows evolve\<close>

text \<open>
  A table grows at its end and every row only changes as \<open>R\<close> allows.
\<close>

definition rows_evolve :: "('r \<Rightarrow> 'r \<Rightarrow> bool) \<Rightarrow> 'r list \<Rightarrow> 'r list \<Rightarrow> bool" where
  "rows_evolve R rs rs' \<longleftrightarrow> (\<exists>new. \<exists>ms. rs' = ms @ new \<and> list_all2 R rs ms)"

locale row_evolution =
  fixes evolves :: "'r \<Rightarrow> 'r \<Rightarrow> bool"
  assumes row_refl: "evolves r r"
    and row_trans: "evolves a b \<Longrightarrow> evolves b c \<Longrightarrow> evolves a c"
begin

lemma rows_map: "(\<And>r. r \<in> set rs \<Longrightarrow> evolves r (f r)) \<Longrightarrow> rows_evolve evolves rs (map f rs)"
  unfolding rows_evolve_def
  by (intro exI [of _ "[]"] exI [of _ "map f rs"]) (simp add: list_all2_conv_all_nth)

lemma rows_refl: "rows_evolve evolves rs rs"
  using rows_map [of rs "\<lambda>r. r"] row_refl by simp

lemma rows_snoc: "rows_evolve evolves rs (rs @ [r])"
  unfolding rows_evolve_def
  by (intro exI [of _ "[r]"] exI [of _ rs]) (simp add: list_all2_conv_all_nth row_refl)

lemma rows_trans:
  assumes "rows_evolve evolves a b" "rows_evolve evolves b c" shows "rows_evolve evolves a c"
proof -
  obtain ms new where b: "b = ms @ new" "list_all2 evolves a ms"
    using assms(1) by (auto simp: rows_evolve_def)
  obtain ns more where c: "c = ns @ more" "list_all2 evolves b ns"
    using assms(2) by (auto simp: rows_evolve_def)
  then obtain n1 n2 where n: "ns = n1 @ n2" "list_all2 evolves ms n1"
    unfolding b(1) by (auto simp: list_all2_append1)
  have "list_all2 evolves a n1"
    using b(2) n(2) row_trans by (rule list_all2_trans [rotated 1])
  then show ?thesis unfolding rows_evolve_def c(1) n(1) by (intro exI [of _ "n2 @ more"] exI [of _ n1]) simp
qed

lemma evolved_row:
  assumes "rows_evolve evolves rs rs'" "r \<in> set rs"
  obtains m where "m \<in> set rs'" "evolves r m"
proof -
  obtain new ms where rs': "rs' = ms @ new" "list_all2 evolves rs ms"
    using assms(1) by (auto simp: rows_evolve_def)
  obtain i where i: "i < length rs" "r = rs ! i" using assms(2) by (auto simp: in_set_conv_nth)
  then have "evolves r (ms ! i)" "ms ! i \<in> set ms"
    using rs'(2) by (auto simp: list_all2_conv_all_nth)
  then show thesis using that [of "ms ! i"] rs'(1) by simp
qed

end

abbreviation licenses_evolve :: "license_row list \<Rightarrow> license_row list \<Rightarrow> bool" where
  "licenses_evolve \<equiv> rows_evolve license_evolves"

interpretation lic: row_evolution license_evolves
  by unfold_locales (auto simp: license_evolves_def)

lemma licenses_evolve_refl [simp]: "licenses_evolve ls ls"
  by (rule lic.rows_refl)

lemmas licenses_evolve_snoc = lic.rows_snoc
lemmas licenses_evolve_trans = lic.rows_trans

lemma put_evolves:
  assumes "licenses_inv ls" "l \<in> set ls" "license_evolves l l'"
  shows "licenses_evolve ls (put_license l' ls) \<and> licenses_inv (put_license l' ls)"
proof
  have same: "x = l" if "x \<in> set ls" "li_license_key x = li_license_key l" for x
    using assms(1,2) that by (auto simp: licenses_inv_def distinct_map inj_on_def)
  have keep: "li_license_key l' = li_license_key l" "li_serial_code l' = li_serial_code l"
    using assms(3) by (simp_all add: license_evolves_def)
  show "licenses_evolve ls (put_license l' ls)"
    unfolding put_license_def by (rule lic.rows_map) (use same assms(3) keep in \<open>auto simp: lic.row_refl\<close>)
  have "map li_license_key (put_license l' ls) = map li_license_key ls" by (simp add: put_license_def)
  moreover have codes: "map li_serial_code (put_license l' ls) = map li_serial_code ls"
    using same keep by (auto simp: put_license_def)
  ultimately show "licenses_inv (put_license l' ls)"
    using assms(1) unfolding licenses_inv_def by (metis list.set_map)
qed

lemma create_cases:
  assumes "create_license_record now src tier code pfx ls = (r, ls')"
  shows "((\<exists>e. r = Inl e) \<and> ls' = ls)
    \<or> (\<exists>key c plan limit. r = Inr (unused_license now tier key c plan limit)
        \<and> ls' = ls @ [unused_license now tier key c plan limit]
        \<and> \<not> list_ex (\<lambda>l. li_license_key l = key \<or> li_serial_code l = Some c) ls)"
  using assms unfolding create_license_record_def Let_def
  by (auto split: option.splits if_splits; blast)

lemma create_evolves:
  assumes "licenses_inv ls" "create_license_record now src tier code pfx ls = (r, ls')"
  shows "licenses_evolve ls ls' \<and> licenses_inv ls'"
proof (cases "ls' = ls")
  case False
  then obtain key c plan limit where 2: "ls' = ls @ [unused_license now tier key c plan limit]"
    "\<not> list_ex (\<lambda>l. li_license_key l = key \<or> li_serial_code l = Some c) ls"
    using create_cases [OF assms(2)] by blast
  then have "key \<notin> li_license_key ` set ls" "Some c \<notin> li_serial_code ` set ls"
    by (auto simp: list_ex_iff)
  then have "licenses_inv ls'"
    using assms(1) by (simp add: licenses_inv_def 2(1) unused_license_def)
  then show ?thesis by (simp add: 2(1) licenses_evolve_snoc)
qed (simp add: assms(1))

lemma find_in: "find P xs = Some x \<Longrightarrow> x \<in> set xs \<and> P x"
  by (induction xs) (auto split: if_splits)

lemma activateD:
  assumes "activate_license_for_user now code user ls = (Inr l', ls')"
  obtains l where "l \<in> set ls" "li_serial_code l = Some (map ascii_upper (py_strip code))"
    "activation_error now l = None" "l' = activated now user l" "ls' = put_license l' ls"
proof -
  obtain l where l: "find (\<lambda>l. li_serial_code l = Some (map ascii_upper (py_strip code))) ls = Some l"
    "activation_error now l = None" "l' = activated now user l" "ls' = put_license l' ls"
    using assms by (auto simp: activate_license_for_user_def simp del: find_Some_iff split: option.splits)
  then show ?thesis using that find_in [OF l(1)] by blast
qed

lemma activated_evolves: "activation_error now l = None \<Longrightarrow> license_evolves l (activated now user l)"
  by (auto simp: activation_error_def license_evolves_def activated_def split: if_splits)

lemma activate_evolves:
  assumes "licenses_inv ls" "activate_license_for_user now code user ls = (r, ls')"
  shows "licenses_evolve ls ls' \<and> licenses_inv ls'"
proof (cases r)
  case (Inl e)
  then have "ls' = ls" using assms(2) by (auto simp: activate_license_for_user_def split: option.splits)
  then show ?thesis using assms(1) by simp
next
  case (Inr l')
  from activateD [OF assms(2) [unfolded Inr]] show ?thesis
    using put_evolves [OF assms(1)] activated_evolves by metis
qed

lemma read_evolves:
  assumes "licenses_inv ls" "get_user_active_license now user ls = (r, ls')"
  shows "licenses_evolve ls ls' \<and> licenses_inv ls'"
proof (cases "\<exists>l. active_licenses user ls = [l] \<and> is_expired now (li_valid_until l)")
  case True
  then obtain l where l: "active_licenses user ls = [l]" "is_expired now (li_valid_until l)" by blast
  have "l \<in> set (active_licenses user ls)" using l(1) by simp
  then have "l \<in> set ls" "li_status l = LS_ACTIVE" by (simp_all add: active_licenses_def)
  moreover have "ls' = put_license (l\<lparr>li_status := LS_EXPIRED\<rparr>) ls"
    using assms(2) l by (simp add: get_user_active_license_def)
  ultimately show ?thesis using put_evolves [OF assms(1)] by (simp add: license_evolves_def)
next
  case False
  then have "ls' = ls"
    using assms(2) by (auto simp: get_user_active_license_def split: list.splits if_splits)
  then show ?thesis using assms(1) by simp
qed

lemma read_license:
  assumes "get_user_active_license now user ls = (Inr (Some l), ls')"
  shows "l \<in> set ls" "ls' = ls" "li_status l = LS_ACTIVE" "li_user_id l = Some user" "\<not> li_revoked l"
    "\<not> is_expired now (li_valid_until l)"
proof -
  have one: "active_licenses user ls = [l]" "ls' = ls" "\<not> is_expired now (li_valid_until l)"
    using assms by (auto simp: get_user_active_license_def split: list.splits if_splits)
  have "l \<in> set (active_licenses user ls)" unfolding one(1) by simp
  then have "l \<in> set ls \<and> li_status l = LS_ACTIVE \<and> li_user_id l = Some user \<and> \<not> li_revoked l"
    unfolding active_licenses_def by simp
  with one(2,3) show "l \<in> set ls" "ls' = ls" "li_status l = LS_ACTIVE" "li_user_id l = Some user" "\<not> li_revoked l"
    "\<not> is_expired now (li_valid_until l)" by simp_all
qed

lemma account_evolves:
  assumes "licenses_inv ls" "check_user_can_create_account now src user accs ls = (r, ls')"
  shows "licenses_evolve ls ls' \<and> licenses_inv ls'"
proof -
  obtain g ls1 where g: "get_user_active_license now user ls = (g, ls1)"
    by (cases "get_user_active_license now user ls")
  note one = read_evolves [OF assms(1) g]
  show ?thesis
  proof (cases "\<exists>x. g = Inr x")
    case False
    then show ?thesis using assms g by (auto simp: check_user_can_create_account_def split: sum.splits)
  next
    case True
    then obtain x where x: "g = Inr x" by blast
    show ?thesis
    proof (cases x)
      case (Some l)
      note l = read_license [OF g [unfolded x Some]]
      have "license_evolves l (l\<lparr>li_tier := 3, li_account_limit := - 1, li_plan := ''AUREXIS TIER 3''\<rparr>)"
        by (simp add: license_evolves_def)
      then have "licenses_evolve ls (put_license (l\<lparr>li_tier := 3, li_account_limit := - 1,
            li_plan := ''AUREXIS TIER 3''\<rparr>) ls)
          \<and> licenses_inv (put_license (l\<lparr>li_tier := 3, li_account_limit := - 1, li_plan := ''AUREXIS TIER 3''\<rparr>) ls)"
        by (rule put_evolves [OF assms(1) l(1)])
      then show ?thesis
        using assms l(2) g x Some by (auto simp: check_user_can_create_account_def split: if_splits)
    next
      case None
      obtain c ls2 where c: "create_license_record now src 3 None ''AURX'' ls1 = (c, ls2)"
        by (cases "create_license_record now src 3 None ''AURX'' ls1")
      note two = create_evolves [OF conjunct2 [OF one] c]
      show ?thesis
      proof (cases c)
        case (Inl e)
        then show ?thesis using assms g x None c by (simp add: check_user_can_create_account_def)
      next
        case (Inr l)
        obtain a ls3 where a: "activate_license_for_user now (case li_serial_code l of Some c \<Rightarrow> c | None \<Rightarrow> []) user ls2 = (a, ls3)"
          by (cases "activate_license_for_user now (case li_serial_code l of Some c \<Rightarrow> c | None \<Rightarrow> []) user ls2")
        note three = activate_evolves [OF conjunct2 [OF two] a]
        have "ls' = ls \<or> ls' = ls3"
          using assms(2) g x None c Inr a by (auto simp: check_user_can_create_account_def split: sum.splits)
        then show ?thesis
          using assms(1) one two three licenses_evolve_trans [of ls ls1 ls2] licenses_evolve_trans [of ls ls2 ls3] by auto
      qed
    qed
  qed
qed

lemma run_evolves:
  assumes "licenses_inv ls" shows "licenses_evolve ls (run_licenses ops ls) \<and> licenses_inv (run_licenses ops ls)"
  using assms unfolding run_licenses_def
proof (induction ops arbitrary: ls)
  case (Cons op ops)
  have step: "licenses_evolve ls (license_step op ls) \<and> licenses_inv (license_step op ls)"
  proof (cases "(op, ls)" rule: license_step.cases)
    case (1 now src tier code pfx ls0)
    then show ?thesis using create_evolves [OF Cons.prems prod.collapse [symmetric]] by simp
  next
    case (2 now code user ls0)
    then show ?thesis using activate_evolves [OF Cons.prems prod.collapse [symmetric]] by simp
  next
    case (3 now user ls0)
    then show ?thesis using read_evolves [OF Cons.prems prod.collapse [symmetric]] by simp
  next
    case (4 now src user accs ls0)
    then show ?thesis using account_evolves [OF Cons.prems prod.collapse [symmetric]] by simp
  qed
  with Cons.IH [of "license_step op ls"] show ?case using licenses_evolve_trans by (simp, blast)
qed simp

lemma activated_fields:
  "li_license_key (activated now user l) = li_license_key l"
  "li_serial_code (activated now user l) = li_serial_code l"
  "li_user_id (activated now user l) = Some user"
  "li_activated_at (activated now user l) = Some now"
  "li_valid_until (activated now user l) = Some (now + days_us 30)"
  "li_status (activated now user l) = LS_ACTIVE"
  "li_revoked (activated now user l) = li_revoked l"
  by (simp_all add: activated_def tier_config_def)

lemma in_put: "l \<in> set ls \<Longrightarrow> li_license_key l = li_license_key l' \<Longrightarrow> l' \<in> set (put_license l' ls)"
  by (force simp: put_license_def)

lemma find_key: "distinct (map f xs) \<Longrightarrow> x \<in> set xs \<Longrightarrow> find (\<lambda>y. f y = f x) xs = Some x"
  by (induction xs) auto

lemma find_code:
  assumes "licenses_inv ls" "l \<in> set ls" "li_serial_code l = Some c"
  shows "find (\<lambda>l. li_serial_code l = Some c) ls = Some l"
  using find_key [of li_serial_code ls l] assms by (simp add: licenses_inv_def)

text \<open>
  C28: a serial code activates once: whatever codes are created, activated and read afterwards and
  whatever accounts are opened, the licence stays with the user who activated it, from that moment and
  for thirty days, and every further activation of the code, by anyone and at any time, is refused as
  already used.
\<close>

theorem activation_is_final:
  assumes "licenses_inv ls" "activate_license_for_user now code user ls = (Inr l, ls1)"
  shows "(\<exists>l' \<in> set (run_licenses ops ls1). li_serial_code l' = li_serial_code l \<and> li_user_id l' = Some user
            \<and> li_activated_at l' = Some now \<and> li_valid_until l' = Some (now + days_us 30))
    \<and> activate_license_for_user later code other (run_licenses ops ls1)
        = (Inl SerialCodeAlreadyUsed, run_licenses ops ls1)"
proof -
  obtain l0 where l0: "l0 \<in> set ls" "li_serial_code l0 = Some (map ascii_upper (py_strip code))"
    "activation_error now l0 = None" "l = activated now user l0" "ls1 = put_license l ls"
    using activateD [OF assms(2)] by blast
  have inv1: "licenses_inv ls1" using activate_evolves [OF assms] by simp
  have "l \<in> set ls1" using in_put [OF l0(1), of l] l0(4,5) by (simp add: activated_fields)
  then obtain m where m: "m \<in> set (run_licenses ops ls1)" "license_evolves l m"
    using lic.evolved_row run_evolves [OF inv1, of ops] by blast
  have fields: "li_serial_code m = li_serial_code l0" "li_user_id m = Some user"
    "li_activated_at m = Some now" "li_valid_until m = Some (now + days_us 30)"
    using m(2) unfolding l0(4) by (simp_all add: license_evolves_def activated_fields)
  have "li_status m \<noteq> LS_REVOKED" "\<not> li_revoked m"
    using m(2) l0(3) unfolding l0(4)
    by (auto simp: license_evolves_def activated_fields activation_error_def split: if_splits)
  then have "activation_error later m = Some SerialCodeAlreadyUsed"
    using fields by (simp add: activation_error_def)
  moreover have "find (\<lambda>l. li_serial_code l = Some (map ascii_upper (py_strip code))) (run_licenses ops ls1) = Some m"
    using find_code [OF conjunct2 [OF run_evolves [OF inv1]] m(1)] fields l0(2) by simp
  ultimately have "activate_license_for_user later code other (run_licenses ops ls1)
      = (Inl SerialCodeAlreadyUsed, run_licenses ops ls1)"
    by (simp add: activate_license_for_user_def)
  then show ?thesis using m(1) fields by (auto simp: l0(4) activated_fields)
qed

definition demo_codes :: "license_row list" where
  "demo_codes = [unused_license 0 1 ''lic_a'' ''AURX-T1-00AA-11BB-22CC'' ''AUREXIS TIER 1'' 1]"

lemma activation_is_final_witness:
  "activate_license_for_user 99 (''AURX-T1-00AA-11BB-22CC'') ''eve''
     (run_licenses [(7, Lic_read ''bob'')] (snd (activate_license_for_user 5 ('' aurx-t1-00aa-11bb-22cc'') ''bob'' demo_codes)))
   = (Inl SerialCodeAlreadyUsed,
      run_licenses [(7, Lic_read ''bob'')] (snd (activate_license_for_user 5 ('' aurx-t1-00aa-11bb-22cc'') ''bob'' demo_codes)))"
proof -
  have inv: "licenses_inv demo_codes" by (simp add: demo_codes_def licenses_inv_def unused_license_def)
  have "fst (activate_license_for_user 5 ('' aurx-t1-00aa-11bb-22cc'') ''bob'' demo_codes)
    = Inr (activated 5 ''bob'' (hd demo_codes))" by code_simp
  then have act: "activate_license_for_user 5 ('' aurx-t1-00aa-11bb-22cc'') ''bob'' demo_codes
    = (Inr (activated 5 ''bob'' (hd demo_codes)), snd (activate_license_for_user 5 ('' aurx-t1-00aa-11bb-22cc'') ''bob'' demo_codes))"
    by (metis prod.collapse)
  have same: "map ascii_upper (py_strip ''AURX-T1-00AA-11BB-22CC'') = map ascii_upper (py_strip '' aurx-t1-00aa-11bb-22cc'')"
    by code_simp
  have "activate_license_for_user 99 ''AURX-T1-00AA-11BB-22CC'' ''eve'' = activate_license_for_user 99 '' aurx-t1-00aa-11bb-22cc'' ''eve''"
    by (rule ext) (simp only: activate_license_for_user_def same)
  then show ?thesis
    using conjunct2 [OF activation_is_final [OF inv act, of "[(7, Lic_read ''bob'')]" 99 "''eve''"]] by simp
qed

subsection \<open>What the account check grants\<close>

definition hex_digits :: string where "hex_digits = ''0123456789abcdef''"

definition hex_parts :: "string \<times> string \<times> string \<Rightarrow> bool" where
  "hex_parts = (\<lambda>(a, b, c). list_all (\<lambda>h. h \<in> set hex_digits) (a @ b @ c) \<and> c \<noteq> [])"

lemma hex_digit:
  assumes "h \<in> set hex_digits"
  shows "ascii_upper (ascii_upper h) = ascii_upper h \<and> \<not> py_space (ascii_upper h)"
proof -
  have up: "map ascii_upper hex_digits = ''0123456789ABCDEF''" by code_simp
  have fix_up: "map ascii_upper ''0123456789ABCDEF'' = ''0123456789ABCDEF''" by code_simp
  have solid: "list_all (\<lambda>h. \<not> py_space h) ''0123456789ABCDEF''" by (simp add: py_space_def)
  have "map ascii_upper (map ascii_upper hex_digits) = map ascii_upper hex_digits"
    by (simp only: up fix_up)
  then have "\<forall>h \<in> set hex_digits. ascii_upper (ascii_upper h) = ascii_upper h"
    unfolding map_map by (simp only: map_eq_conv o_apply)
  moreover have "\<forall>h \<in> set hex_digits. \<not> py_space (ascii_upper h)"
    using solid unfolding up [symmetric] list_all_iff set_map by (simp only: ball_simps)
  ultimately show ?thesis using assms by simp
qed

lemma strip_solid:
  assumes "s \<noteq> []" "\<not> py_space (hd s)" "\<not> py_space (last s)"
  shows "py_strip s = s"
proof -
  have "dropWhile py_space s = s" using assms(1,2) by (cases s) auto
  moreover have "dropWhile py_space (rev s) = rev s" using assms(1,3) by (cases s rule: rev_cases) auto
  ultimately show ?thesis by (simp add: py_strip_def)
qed

lemma generated_code_stable:
  assumes "hex_parts ps" "generate_serial_code 3 ''AURX'' ps = Some c"
  shows "map ascii_upper (py_strip c) = c"
proof -
  obtain p1 p2 p3 where ps: "ps = (p1, p2, p3)" by (cases ps) auto
  have hex: "\<forall>h \<in> set (p1 @ p2 @ p3). ascii_upper (ascii_upper h) = ascii_upper h \<and> \<not> py_space (ascii_upper h)"
    and p3: "p3 \<noteq> []"
    using assms(1) hex_digit unfolding ps hex_parts_def list_all_iff prod.case by blast+
  have c: "c = ''AURX-T3-'' @ map ascii_upper p1 @ ''-'' @ map ascii_upper p2 @ ''-'' @ map ascii_upper p3"
    using assms(2) by (simp add: ps generate_serial_code_def tier_config_def tier_digit_def)
  have "\<not> py_space (last c)" using hex p3 by (simp add: c last_map)
  moreover have "\<not> py_space (hd c)" unfolding c by (simp add: py_space_def)
  ultimately have "py_strip c = c" by (intro strip_solid) (simp_all add: c)
  moreover have "map ascii_upper c = c"
  proof -
    have "map ascii_upper ''AURX-T3-'' = ''AURX-T3-''" "map ascii_upper ''-'' = ''-''" by code_simp+
    moreover have "map ascii_upper (map ascii_upper p1) = map ascii_upper p1"
      "map ascii_upper (map ascii_upper p2) = map ascii_upper p2"
      "map ascii_upper (map ascii_upper p3) = map ascii_upper p3" using hex by auto
    ultimately show ?thesis unfolding c map_append by (simp only:)
  qed
  ultimately show ?thesis by simp
qed

lemma active_append: "active_licenses u (xs @ ys) = active_licenses u xs @ active_licenses u ys"
  by (simp add: active_licenses_def)

lemma put_fresh: "\<forall>x \<in> set ls. li_license_key x \<noteq> li_license_key l \<Longrightarrow> put_license l ls = ls"
  by (simp add: put_license_def map_idI)

lemma no_active_after_expiry:
  assumes "licenses_inv ls" "active_licenses user ls = [l]"
  shows "active_licenses user (put_license (l\<lparr>li_status := LS_EXPIRED\<rparr>) ls) = []"
proof -
  have "x = l" if "x \<in> set ls" "li_user_id x = Some user" "li_status x = LS_ACTIVE" "\<not> li_revoked x" for x
  proof -
    have "x \<in> set (active_licenses user ls)" using that by (simp add: active_licenses_def)
    then show ?thesis by (simp add: assms(2))
  qed
  then show ?thesis by (auto simp: active_licenses_def put_license_def filter_empty_conv)
qed

lemma put_keys: "li_license_key ` set (put_license l ls) \<subseteq> insert (li_license_key l) (li_license_key ` set ls)"
  "li_serial_code ` set (put_license l ls) \<subseteq> insert (li_serial_code l) (li_serial_code ` set ls)"
  by (auto simp: put_license_def)

lemma auto_provision:
  fixes now :: instant
  assumes "licenses_inv ls" "active_licenses user ls = []" "hex_parts (cs_parts src)"
    "''lic_'' @ cs_key src \<notin> li_license_key ` set ls"
    "generate_serial_code 3 ''AURX'' (cs_parts src) \<notin> li_serial_code ` set ls"
  defines "row \<equiv> unused_license now 3 (''lic_'' @ cs_key src)
             (the (generate_serial_code 3 ''AURX'' (cs_parts src))) ''AUREXIS TIER 3'' (- 1)"
  shows "create_license_record now src 3 None ''AURX'' ls = (Inr row, ls @ [row])"
    "activate_license_for_user now (the (li_serial_code row)) user (ls @ [row])
       = (Inr (activated now user row), ls @ [activated now user row])"
    "active_licenses user (ls @ [activated now user row]) = [activated now user row]"
proof -
  obtain c where c: "generate_serial_code 3 ''AURX'' (cs_parts src) = Some c"
    by (cases "cs_parts src") (simp add: generate_serial_code_def tier_config_def)
  note stable = generated_code_stable [OF assms(3) c]
  have row: "row = unused_license now 3 (''lic_'' @ cs_key src) c ''AUREXIS TIER 3'' (- 1)"
    by (simp add: row_def c)
  have tier: "tier_config 3 = Some (''AUREXIS TIER 3'', - 1, 30)" by (simp add: tier_config_def)
  have "\<not> list_ex (\<lambda>l. li_license_key l = ''lic_'' @ cs_key src \<or> li_serial_code l = Some c) ls"
    using assms(4,5) unfolding c by (force simp: list_ex_iff)
  then show "create_license_record now src 3 None ''AURX'' ls = (Inr row, ls @ [row])"
    unfolding create_license_record_def c tier row Let_def by simp
  have fields: "li_serial_code row = Some c" "activation_error now row = None"
    "li_license_key row = ''lic_'' @ cs_key src" "\<not> li_revoked row"
    by (simp_all add: row unused_license_def activation_error_def is_expired_def)
  have "find (\<lambda>l. li_serial_code l = Some c) ls = None"
    using assms(5) unfolding c find_None_iff by force
  then have find: "find (\<lambda>l. li_serial_code l = Some c) (ls @ [row]) = Some row"
    using fields(1) by (induction ls) (auto split: if_splits)
  have put: "put_license (activated now user row) (ls @ [row]) = ls @ [activated now user row]"
    using assms(4) fields(3) by (force simp: put_license_def activated_fields intro!: map_idI)
  show "activate_license_for_user now (the (li_serial_code row)) user (ls @ [row])
       = (Inr (activated now user row), ls @ [activated now user row])"
    unfolding activate_license_for_user_def fields(1) option.sel stable find
    by (simp add: fields(2) put)
  show "active_licenses user (ls @ [activated now user row]) = [activated now user row]"
    unfolding active_append assms(2) by (simp add: active_licenses_def activated_fields fields(4))
qed

text \<open>
  the account limit is never enforced and an expired licence is replaced: for a user whose only
  licence has run out, the account check answers yes and leaves the user with a fresh licence of the
  unlimited tier for thirty days, although no serial code was entered.
\<close>

theorem lapsed_user_gets_unlimited:
  assumes "licenses_inv ls" "active_licenses user ls = [l]" "is_expired now (li_valid_until l)"
    and "hex_parts (cs_parts src)" "''lic_'' @ cs_key src \<notin> li_license_key ` set ls"
    and "generate_serial_code 3 ''AURX'' (cs_parts src) \<notin> li_serial_code ` set ls"
  shows "\<exists>ls' m. check_user_can_create_account now src user accs ls = (Inr (True, None), ls')
    \<and> active_licenses user ls' = [m] \<and> li_tier m = 3 \<and> li_account_limit m = - 1
    \<and> li_valid_until m = Some (now + days_us 30) \<and> \<not> is_expired now (li_valid_until m)"
proof -
  define ls1 where "ls1 = put_license (l\<lparr>li_status := LS_EXPIRED\<rparr>) ls"
  have read: "get_user_active_license now user ls = (Inr None, ls1)"
    by (simp add: get_user_active_license_def assms(2,3) ls1_def)
  have inv1: "licenses_inv ls1" using read_evolves [OF assms(1) read] by simp
  have mem: "l \<in> set (active_licenses user ls)" by (simp add: assms(2))
  then have "l \<in> set ls" by (simp add: active_licenses_def)
  then have keys: "li_license_key ` set ls1 \<subseteq> li_license_key ` set ls"
    "li_serial_code ` set ls1 \<subseteq> li_serial_code ` set ls"
    using put_keys [of "l\<lparr>li_status := LS_EXPIRED\<rparr>" ls] unfolding ls1_def by auto
  note give = auto_provision [OF inv1 no_active_after_expiry [OF assms(1,2), folded ls1_def] assms(4),
      of now]
  define row where "row = unused_license now 3 (''lic_'' @ cs_key src)
      (the (generate_serial_code 3 ''AURX'' (cs_parts src))) ''AUREXIS TIER 3'' (- 1)"
  have fresh: "''lic_'' @ cs_key src \<notin> li_license_key ` set ls1"
    "generate_serial_code 3 ''AURX'' (cs_parts src) \<notin> li_serial_code ` set ls1"
    using assms(5,6) keys by blast+
  note give = give [OF fresh, folded row_def]
  have "check_user_can_create_account now src user accs ls
      = (Inr (True, None), ls1 @ [activated now user row])"
    using give(2) unfolding check_user_can_create_account_def read prod.case sum.case option.case give(1)
    by (simp add: row_def unused_license_def)
  moreover have "li_tier (activated now user row) = 3" "li_account_limit (activated now user row) = - 1"
    by (simp_all add: activated_def row_def unused_license_def)
  ultimately show ?thesis using give(3) by (auto simp: activated_fields is_expired_def days_us_def)
qed

definition demo_source :: code_source where
  "demo_source = \<lparr>cs_key = ''k'', cs_parts = (''00aa'', ''11bb'', ''22cc'')\<rparr>"

lemma lapsed_user_gets_unlimited_witness:
  "\<exists>ls' m. check_user_can_create_account 100 demo_source ''bob'' []
      [activated (- days_us 30) ''bob'' (hd demo_codes)] = (Inr (True, None), ls')
    \<and> active_licenses ''bob'' ls' = [m] \<and> li_tier m = 3 \<and> li_account_limit m = - 1
    \<and> li_valid_until m = Some (100 + days_us 30) \<and> \<not> is_expired 100 (li_valid_until m)"
  by (rule lapsed_user_gets_unlimited [where l = "activated (- days_us 30) ''bob'' (hd demo_codes)"])
    (simp_all add: licenses_inv_def activated_def demo_codes_def unused_license_def active_licenses_def
       tier_config_def is_expired_def days_us_def hex_parts_def hex_digits_def demo_source_def
       generate_serial_code_def tier_digit_def)

end
