(* ===== verification/Auth.thy ===== *)
theory Auth
  imports Licensing
begin

section \<open>Authentication (\<open>services/auth.py\<close>, \<open>password_reset.py\<close>, \<open>api/v1/auth.py\<close>, \<open>api/deps.py\<close>)\<close>

text \<open>
  Users, refresh tokens, password resets and the endpoints over them.  The JWT, password hash and
  digest libraries and \<open>uuid.UUID\<close> are the fields of \<open>auth_lib\<close>; random identifiers come in an
  \<open>auth_source\<close>.  A request runs on the session and \<open>get_db\<close> commits it, or rolls everything back when
  it raises.  Client addresses, log lines and texts of errors are left out; letters are ASCII.
\<close>

subsection \<open>Tables and requests\<close>

record user_row =
  us_id :: string
  us_email :: string
  us_hashed_password :: string
  us_display_name :: string
  us_is_active :: bool
  us_is_superuser :: bool
  us_created_at :: instant

record refresh_row =
  rt_jti :: string
  rt_user_id :: string
  rt_expires_at :: instant
  rt_revoked_at :: "instant option"

record reset_row =
  pr_id :: string
  pr_user_id :: string
  pr_token_hash :: string
  pr_expires_at :: instant
  pr_used_at :: "instant option"

datatype auth_event =
    USER_REGISTERED string string string int
  | USER_LOGIN string string
  | USER_LOGIN_FAILED string
  | USER_LOGOUT string
  | TOKEN_REFRESH string string

record auth_db =
  au_users :: "user_row list"
  au_refresh :: "refresh_row list"
  au_resets :: "reset_row list"
  au_licenses :: "license_row list"
  au_audit :: "auth_event list"

datatype auth_error =
    Unprocessable
  | EmailTaken
  | SerialCodeRequired
  | LicenseRefused license_error
  | InvalidCredentials
  | Unauthorized
  | InvalidToken
  | InvalidRefreshToken
  | RefreshTokenRevoked
  | UserInactive
  | UserNotFound
  | InvalidResetToken
  | ServerError

record claims =
  cl_sub :: "string option"
  cl_iat :: "instant option"
  cl_exp :: "instant option"
  cl_jti :: "string option"
  cl_type :: "string option"
  cl_extra :: "(string \<times> bool) option"

text \<open>
  \<open>jl_decode\<close> is \<open>None\<close> when it raises \<open>JWTError\<close>; \<open>pl_hash\<close> takes a salt; a raised error of the password
  library is \<open>None\<close>; \<open>jl_secret\<close> is the configured secret.
\<close>

record auth_lib =
  jl_secret :: string
  jl_encode :: "claims \<Rightarrow> string"
  jl_decode :: "instant \<Rightarrow> string \<Rightarrow> claims option"
  jl_access_minutes :: int
  jl_refresh_days :: int
  pl_hash :: "string \<Rightarrow> string \<Rightarrow> string option"
  pl_verify :: "string \<Rightarrow> string \<Rightarrow> bool option"
  sl_sha256 :: "string \<Rightarrow> string"
  ul_uuid :: "string \<Rightarrow> string option"
  el_under_test :: bool

record auth_source =
  as_id :: string
  as_salt :: string
  as_access_jti :: string
  as_refresh_jti :: string
  as_reset_token :: string
  as_code :: code_source

subsection \<open>The session\<close>

type_synonym 'a request = "auth_db \<Rightarrow> (auth_error + 'a) \<times> auth_db"

definition ret :: "'a \<Rightarrow> 'a request" where "ret x = (\<lambda>s. (Inr x, s))"

definition http_raise :: "auth_error \<Rightarrow> 'a request" where "http_raise e = (\<lambda>s. (Inl e, s))"

definition and_then :: "'a request \<Rightarrow> ('a \<Rightarrow> 'b request) \<Rightarrow> 'b request" where
  "and_then m f = (\<lambda>s. case m s of (Inl e, s') \<Rightarrow> (Inl e, s') | (Inr x, s') \<Rightarrow> f x s')"

definition of_result :: "(auth_error + 'a) \<Rightarrow> 'a request" where
  "of_result r = (\<lambda>s. (r, s))"

definition get_db :: "'a request \<Rightarrow> 'a request" where
  "get_db m = (\<lambda>s. case m s of (Inl e, _) \<Rightarrow> (Inl e, s) | (Inr x, s') \<Rightarrow> (Inr x, s'))"

definition record_auth_event :: "auth_event \<Rightarrow> unit request" where
  "record_auth_event ev = (\<lambda>s. (Inr (), s\<lparr>au_audit := au_audit s @ [ev]\<rparr>))"

text \<open>The constants of \<open>AuditEventType\<close>; reading any other attribute raises.\<close>

definition audit_event_types :: "string list" where
  "audit_event_types =
     [''USER_LOGIN'', ''USER_LOGIN_FAILED'', ''USER_LOGOUT'', ''TOKEN_REFRESH'', ''REFRESH_TOKEN_REVOKED'',
      ''ACCOUNT_CREATED'', ''ACCOUNT_UPDATED'', ''ACCOUNT_DELETED'', ''TRADING_ENABLED'', ''TRADING_DISABLED'',
      ''MT5_AGENT_CONNECTED'', ''MT5_AGENT_DISCONNECTED'', ''MT5_AGENT_REGISTERED'',
      ''MT5_AGENT_COMMAND_CREATED'', ''MT5_AGENT_COMMAND_SENT'', ''MT5_AGENT_COMMAND_ACKNOWLEDGED'',
      ''MT5_AGENT_COMMAND_COMPLETED'', ''MT5_AGENT_COMMAND_FAILED'', ''MT5_AGENT_COMMAND_DELIVERED'',
      ''RISK_STATE_CHANGED'', ''EMERGENCY_STOP'', ''EMERGENCY_STOP_CLEARED'', ''SIGNAL_CREATED'',
      ''SIGNAL_BLOCKED'', ''COMMAND_CREATED'', ''COMMAND_APPROVED'', ''COMMAND_REJECTED'',
      ''EXECUTION_RESULT'', ''RECONCILIATION_OK'', ''RECONCILIATION_MISMATCH'', ''CONFIG_CHANGED'',
      ''SYSTEM_ALERT'']"

definition audit_event_type :: "string \<Rightarrow> auth_error + string" where
  "audit_event_type name = (if name \<in> set audit_event_types then Inr name else Inl ServerError)"

subsection \<open>Passwords and tokens\<close>

definition hash_password :: "auth_lib \<Rightarrow> string \<Rightarrow> string \<Rightarrow> auth_error + string" where
  "hash_password lib salt plain =
     (if plain = [] then Inl ServerError
      else case pl_hash lib salt plain of None \<Rightarrow> Inl ServerError | Some h \<Rightarrow> Inr h)"

datatype token_error = SecretMissing | TokenError

definition require_jwt_secret :: "auth_lib \<Rightarrow> auth_error + string" where
  "require_jwt_secret lib = (if jl_secret lib = [] then Inl ServerError else Inr (jl_secret lib))"

definition access_claims :: "auth_lib \<Rightarrow> instant \<Rightarrow> string \<Rightarrow> string \<Rightarrow> (string \<times> bool) option \<Rightarrow> int option \<Rightarrow> claims" where
  "access_claims lib now jti subject extra delta =
     \<lparr>cl_sub = Some subject, cl_iat = Some now,
      cl_exp = Some (now + or_default delta (minutes_us (jl_access_minutes lib))),
      cl_jti = Some jti, cl_type = Some ''access'', cl_extra = extra\<rparr>"

definition create_access_token ::
  "auth_lib \<Rightarrow> instant \<Rightarrow> string \<Rightarrow> string \<Rightarrow> (string \<times> bool) option \<Rightarrow> int option \<Rightarrow> auth_error + string" where
  "create_access_token lib now jti subject extra delta =
     bind_res (require_jwt_secret lib) (\<lambda>_. Inr (jl_encode lib (access_claims lib now jti subject extra delta)))"

definition refresh_claims :: "auth_lib \<Rightarrow> instant \<Rightarrow> string \<Rightarrow> string \<Rightarrow> claims" where
  "refresh_claims lib now jti subject =
     \<lparr>cl_sub = Some subject, cl_iat = Some now, cl_exp = Some (now + days_us (jl_refresh_days lib)),
      cl_jti = Some jti, cl_type = Some ''refresh'', cl_extra = None\<rparr>"

definition create_refresh_token ::
  "auth_lib \<Rightarrow> instant \<Rightarrow> string \<Rightarrow> string \<Rightarrow> auth_error + (string \<times> string \<times> instant)" where
  "create_refresh_token lib now jti subject =
     bind_res (require_jwt_secret lib) (\<lambda>_.
       Inr (jl_encode lib (refresh_claims lib now jti subject), jti, now + days_us (jl_refresh_days lib)))"

definition decode_token :: "auth_lib \<Rightarrow> string \<Rightarrow> instant \<Rightarrow> string \<Rightarrow> token_error + claims" where
  "decode_token lib kind now token =
     (if jl_secret lib = [] then Inl SecretMissing
      else case jl_decode lib now token of
             None \<Rightarrow> Inl TokenError
           | Some c \<Rightarrow> if cl_type c \<noteq> Some kind then Inl TokenError else Inr c)"

definition decode_access_token :: "auth_lib \<Rightarrow> instant \<Rightarrow> string \<Rightarrow> token_error + claims" where
  "decode_access_token lib = decode_token lib ''access''"

definition decode_refresh_token :: "auth_lib \<Rightarrow> instant \<Rightarrow> string \<Rightarrow> token_error + claims" where
  "decode_refresh_token lib = decode_token lib ''refresh''"

text \<open>A claim that is absent or empty.\<close>

definition claim_text :: "string option \<Rightarrow> string option" where
  "claim_text v = (case v of Some t \<Rightarrow> if t = [] then None else Some t | None \<Rightarrow> None)"

definition get_subject_from_token :: "auth_lib \<Rightarrow> instant \<Rightarrow> string \<Rightarrow> token_error + string" where
  "get_subject_from_token lib now token =
     bind_res (decode_access_token lib now token) (\<lambda>c.
       case claim_text (cl_sub c) of None \<Rightarrow> Inl TokenError | Some u \<Rightarrow> Inr u)"

definition get_current_user :: "auth_lib \<Rightarrow> instant \<Rightarrow> string option \<Rightarrow> auth_error + string" where
  "get_current_user lib now credentials =
     (case credentials of
        None \<Rightarrow> Inl Unauthorized
      | Some t \<Rightarrow>
          (case decode_access_token lib now t of
             Inl SecretMissing \<Rightarrow> Inl ServerError
           | Inl TokenError \<Rightarrow> Inl InvalidToken
           | Inr c \<Rightarrow> (case claim_text (cl_sub c) of None \<Rightarrow> Inl InvalidToken | Some u \<Rightarrow> Inr u)))"

subsection \<open>The registry of refresh tokens\<close>

definition store_refresh_jti :: "string \<Rightarrow> string \<Rightarrow> instant \<Rightarrow> unit request" where
  "store_refresh_jti jti user expires = (\<lambda>s.
     if list_ex (\<lambda>r. rt_jti r = jti) (au_refresh s) then (Inl ServerError, s)
     else (Inr (), s\<lparr>au_refresh := au_refresh s @
             [\<lparr>rt_jti = jti, rt_user_id = user, rt_expires_at = expires, rt_revoked_at = None\<rparr>]\<rparr>))"

definition is_refresh_jti_valid :: "instant \<Rightarrow> string \<Rightarrow> auth_db \<Rightarrow> bool" where
  "is_refresh_jti_valid now jti s \<longleftrightarrow>
     list_ex (\<lambda>r. rt_jti r = jti \<and> rt_revoked_at r = None \<and> now < rt_expires_at r) (au_refresh s)"

definition revoke_where :: "(refresh_row \<Rightarrow> bool) \<Rightarrow> instant \<Rightarrow> refresh_row list \<Rightarrow> refresh_row list" where
  "revoke_where P now rs =
     map (\<lambda>r. if P r \<and> rt_revoked_at r = None then r\<lparr>rt_revoked_at := Some now\<rparr> else r) rs"

definition revoke_refresh_jti :: "instant \<Rightarrow> string \<Rightarrow> bool request" where
  "revoke_refresh_jti now jti = (\<lambda>s.
     (Inr (list_ex (\<lambda>r. rt_jti r = jti \<and> rt_revoked_at r = None) (au_refresh s)),
      s\<lparr>au_refresh := revoke_where (\<lambda>r. rt_jti r = jti) now (au_refresh s)\<rparr>))"

definition revoke_all_user_refresh_tokens :: "instant \<Rightarrow> string \<Rightarrow> nat request" where
  "revoke_all_user_refresh_tokens now user = (\<lambda>s.
     (Inr (length (filter (\<lambda>r. rt_user_id r = user \<and> rt_revoked_at r = None) (au_refresh s))),
      s\<lparr>au_refresh := revoke_where (\<lambda>r. rt_user_id r = user) now (au_refresh s)\<rparr>))"

subsection \<open>Password resets\<close>

definition reset_token_expiry_minutes :: int where "reset_token_expiry_minutes = 60"

definition create_password_reset_token :: "auth_lib \<Rightarrow> instant \<Rightarrow> auth_source \<Rightarrow> string \<Rightarrow> string request" where
  "create_password_reset_token lib now src user = (\<lambda>s.
     (Inr (as_reset_token src),
      s\<lparr>au_resets := au_resets s @
          [\<lparr>pr_id = as_id src, pr_user_id = user, pr_token_hash = sl_sha256 lib (as_reset_token src),
            pr_expires_at = now + minutes_us reset_token_expiry_minutes, pr_used_at = None\<rparr>]\<rparr>))"

definition verify_and_consume_token :: "auth_lib \<Rightarrow> instant \<Rightarrow> string \<Rightarrow> string request" where
  "verify_and_consume_token lib now raw = (\<lambda>s.
     let h = sl_sha256 lib (py_strip raw)
     in case filter (\<lambda>r. pr_token_hash r = h \<and> pr_used_at r = None) (au_resets s) of
          [] \<Rightarrow> (Inl InvalidResetToken, s)
        | [r] \<Rightarrow>
            if pr_expires_at r < now then (Inl InvalidResetToken, s)
            else (Inr (pr_user_id r),
                  s\<lparr>au_resets := map (\<lambda>x. if pr_token_hash x = h \<and> pr_used_at x = None
                                          then x\<lparr>pr_used_at := Some now\<rparr> else x) (au_resets s)\<rparr>)
        | _ \<Rightarrow> (Inl ServerError, s))"

definition user_by_id :: "string \<Rightarrow> auth_db \<Rightarrow> user_row option" where
  "user_by_id u s = find (\<lambda>x. us_id x = u) (au_users s)"

definition apply_password_reset ::
  "auth_lib \<Rightarrow> instant \<Rightarrow> auth_source \<Rightarrow> string \<Rightarrow> string \<Rightarrow> string request" where
  "apply_password_reset lib now src raw new_password =
     and_then (verify_and_consume_token lib now raw) (\<lambda>user.
     and_then (\<lambda>s. (case user_by_id user s of None \<Rightarrow> Inl UserNotFound | Some u \<Rightarrow> Inr u, s)) (\<lambda>_.
     and_then (of_result (hash_password lib (as_salt src) new_password)) (\<lambda>h.
     and_then (\<lambda>s. (Inr (), s\<lparr>au_users := map (\<lambda>x. if us_id x = user then x\<lparr>us_hashed_password := h\<rparr> else x)
                                        (au_users s)\<rparr>)) (\<lambda>_.
     and_then (revoke_all_user_refresh_tokens now user) (\<lambda>_. ret user)))))"

subsection \<open>Endpoints\<close>

record register_request =
  rq_email :: string
  rq_password :: string
  rq_display_name :: string
  rq_serial_code :: "string option"

definition register_request_ok :: "register_request \<Rightarrow> bool" where
  "register_request_ok q \<longleftrightarrow>
     8 \<le> length (rq_password q) \<and> length (rq_password q) \<le> 128 \<and> length (rq_display_name q) \<le> 100
     \<and> (case rq_serial_code q of None \<Rightarrow> True | Some c \<Rightarrow> length c \<le> 128)"

record me_response =
  me_user_id :: string
  me_email :: string
  me_display_name :: string
  me_is_superuser :: bool
  me_created_at :: instant
  me_license :: "license_row option"

definition me_of :: "user_row \<Rightarrow> license_row option \<Rightarrow> me_response" where
  "me_of u l =
     \<lparr>me_user_id = us_id u, me_email = us_email u, me_display_name = us_display_name u,
      me_is_superuser = us_is_superuser u, me_created_at = us_created_at u, me_license = l\<rparr>"

definition lower_text :: "string \<Rightarrow> string" where "lower_text = map ascii_lower"

definition user_by_email :: "string \<Rightarrow> auth_db \<Rightarrow> user_row option" where
  "user_by_email e s = find (\<lambda>x. us_email x = lower_text e) (au_users s)"

text \<open>An operation of the licence service inside the session.\<close>

definition license_action :: "(license_row list \<Rightarrow> (license_error + 'a) \<times> license_row list) \<Rightarrow> 'a request" where
  "license_action f = (\<lambda>s.
     case f (au_licenses s) of
       (Inl e, ls) \<Rightarrow> (Inl (LicenseRefused e), s\<lparr>au_licenses := ls\<rparr>)
     | (Inr x, ls) \<Rightarrow> (Inr x, s\<lparr>au_licenses := ls\<rparr>))"

definition add_user :: "user_row \<Rightarrow> unit request" where
  "add_user u = (\<lambda>s.
     if list_ex (\<lambda>x. us_id x = us_id u \<or> us_email x = us_email u) (au_users s) then (Inl ServerError, s)
     else (Inr (), s\<lparr>au_users := au_users s @ [u]\<rparr>))"

definition registration_code :: "auth_lib \<Rightarrow> instant \<Rightarrow> auth_source \<Rightarrow> register_request \<Rightarrow> string request" where
  "registration_code lib now src q =
     (case rq_serial_code q of
        None \<Rightarrow>
          if el_under_test lib
          then and_then (license_action (create_license_record now (as_code src) 1 None ''AURX''))
                 (\<lambda>l. ret (case li_serial_code l of Some c \<Rightarrow> c | None \<Rightarrow> []))
          else http_raise SerialCodeRequired
      | Some c \<Rightarrow> if py_strip c = [] then http_raise SerialCodeRequired else ret c)"

definition api_register :: "auth_lib \<Rightarrow> instant \<Rightarrow> auth_source \<Rightarrow> register_request \<Rightarrow> me_response request" where
  "api_register lib now src q =
     get_db (\<lambda>s.
       if \<not> register_request_ok q then (Inl Unprocessable, s)
       else if user_by_email (rq_email q) s \<noteq> None then (Inl EmailTaken, s)
       else and_then (of_result (hash_password lib (as_salt src) (rq_password q))) (\<lambda>h.
            let u = \<lparr>us_id = as_id src, us_email = lower_text (rq_email q), us_hashed_password = h,
                     us_display_name = rq_display_name q, us_is_active = True, us_is_superuser = False,
                     us_created_at = now\<rparr>
            in and_then (add_user u) (\<lambda>_.
               and_then (registration_code lib now src q) (\<lambda>code.
               and_then (license_action (activate_license_for_user now code (us_id u))) (\<lambda>l.
               and_then (record_auth_event (USER_REGISTERED (us_id u) (us_email u) (us_display_name u) (li_tier l)))
                 (\<lambda>_. ret (me_of u (Some l))))))) s)"

record token_response =
  tr_access_token :: string
  tr_refresh_token :: string
  tr_expires_in :: int

text \<open>The pair of tokens of a login or a rotation, and the stored identifier.\<close>

definition issue_tokens :: "auth_lib \<Rightarrow> instant \<Rightarrow> auth_source \<Rightarrow> user_row \<Rightarrow> token_response request" where
  "issue_tokens lib now src u =
     and_then (of_result (create_access_token lib now (as_access_jti src) (us_id u)
                 (Some (us_email u, us_is_superuser u)) None)) (\<lambda>access.
     and_then (of_result (create_refresh_token lib now (as_refresh_jti src) (us_id u))) (\<lambda>(refresh, jti, expires).
     and_then (store_refresh_jti jti (us_id u) expires) (\<lambda>_.
       ret \<lparr>tr_access_token = access, tr_refresh_token = refresh,
            tr_expires_in = jl_access_minutes lib * 60\<rparr>)))"

definition dummy_hash :: string where
  "dummy_hash = ''$2b$12$oyFYv.siQ7pS86oJsIGFJueypGUn6.H6KUvK8vs11vjr11t.2lNPy''"

definition api_login :: "auth_lib \<Rightarrow> instant \<Rightarrow> auth_source \<Rightarrow> string \<Rightarrow> string \<Rightarrow> token_response request" where
  "api_login lib now src email password =
     get_db (\<lambda>s.
       let user = user_by_email email s;
           ok = (case pl_verify lib password (case user of Some u \<Rightarrow> us_hashed_password u | None \<Rightarrow> dummy_hash) of
                   Some b \<Rightarrow> b | None \<Rightarrow> False)
       in case user of
            Some u \<Rightarrow>
              if ok \<and> us_is_active u
              then and_then (issue_tokens lib now src u) (\<lambda>r.
                   and_then (record_auth_event (USER_LOGIN (us_id u) (us_email u))) (\<lambda>_. ret r)) s
              else and_then (record_auth_event (USER_LOGIN_FAILED (lower_text email))) (\<lambda>_. http_raise InvalidCredentials) s
          | None \<Rightarrow> and_then (record_auth_event (USER_LOGIN_FAILED (lower_text email)))
                      (\<lambda>_. http_raise InvalidCredentials) s)"

definition api_refresh :: "auth_lib \<Rightarrow> instant \<Rightarrow> auth_source \<Rightarrow> string \<Rightarrow> token_response request" where
  "api_refresh lib now src token =
     get_db (\<lambda>s.
       case decode_refresh_token lib now token of
         Inl SecretMissing \<Rightarrow> (Inl ServerError, s)
       | Inl TokenError \<Rightarrow> (Inl InvalidRefreshToken, s)
       | Inr c \<Rightarrow>
           (case (claim_text (cl_sub c), claim_text (cl_jti c)) of
              (Some uid, Some jti) \<Rightarrow>
                if \<not> is_refresh_jti_valid now jti s then (Inl RefreshTokenRevoked, s)
                else (case ul_uuid lib uid of
                        None \<Rightarrow> (Inl ServerError, s)
                      | Some u \<Rightarrow>
                          (case user_by_id u s of
                             None \<Rightarrow> (Inl UserInactive, s)
                           | Some user \<Rightarrow>
                               if \<not> us_is_active user then (Inl UserInactive, s)
                               else and_then (revoke_refresh_jti now jti) (\<lambda>_.
                                    and_then (issue_tokens lib now src user) (\<lambda>r.
                                    and_then (record_auth_event (TOKEN_REFRESH (us_id user) jti)) (\<lambda>_. ret r))) s))
            | _ \<Rightarrow> (Inl InvalidRefreshToken, s)))"

definition api_logout :: "auth_lib \<Rightarrow> instant \<Rightarrow> string option \<Rightarrow> string \<Rightarrow> unit request" where
  "api_logout lib now credentials token =
     get_db (and_then (of_result (get_current_user lib now credentials)) (\<lambda>user.
       and_then (case decode_refresh_token lib now token of
                   Inl SecretMissing \<Rightarrow> http_raise ServerError
                 | Inl TokenError \<Rightarrow> ret False
                 | Inr c \<Rightarrow> (case claim_text (cl_jti c) of
                              None \<Rightarrow> ret False | Some jti \<Rightarrow> revoke_refresh_jti now jti)) (\<lambda>_.
         case ul_uuid lib user of
           None \<Rightarrow> http_raise ServerError
         | Some u \<Rightarrow> record_auth_event (USER_LOGOUT u))))"

definition api_me :: "auth_lib \<Rightarrow> instant \<Rightarrow> string option \<Rightarrow> me_response request" where
  "api_me lib now credentials =
     get_db (and_then (of_result (get_current_user lib now credentials)) (\<lambda>uid s.
       case ul_uuid lib uid of
         None \<Rightarrow> (Inl ServerError, s)
       | Some u \<Rightarrow>
           (case user_by_id u s of
              None \<Rightarrow> (Inl UserNotFound, s)
            | Some user \<Rightarrow>
                if \<not> us_is_active user then (Inl UserNotFound, s)
                else and_then (license_action (get_user_active_license now (us_id user)))
                       (\<lambda>l. ret (me_of user l)) s)))"

definition api_forgot_password :: "auth_lib \<Rightarrow> instant \<Rightarrow> auth_source \<Rightarrow> string \<Rightarrow> unit request" where
  "api_forgot_password lib now src email =
     get_db (\<lambda>s.
       case user_by_email email s of
         None \<Rightarrow> (Inr (), s)
       | Some u \<Rightarrow>
           if us_is_active u
           then and_then (create_password_reset_token lib now src (us_id u)) (\<lambda>_. ret ()) s
           else (Inr (), s))"

definition api_reset_password :: "auth_lib \<Rightarrow> instant \<Rightarrow> auth_source \<Rightarrow> string \<Rightarrow> string \<Rightarrow> unit request" where
  "api_reset_password lib now src token new_password =
     get_db (\<lambda>s.
       if \<not> (1 \<le> length token \<and> 8 \<le> length new_password \<and> length new_password \<le> 128) then (Inl Unprocessable, s)
       else and_then (apply_password_reset lib now src token new_password) (\<lambda>user.
            and_then (of_result (audit_event_type ''USER_UPDATED'')) (\<lambda>ev. ret ())) s)"

subsection \<open>Runs\<close>

datatype auth_op =
    A_register auth_source register_request
  | A_login auth_source string string
  | A_refresh auth_source string
  | A_logout "string option" string
  | A_me "string option"
  | A_forgot auth_source string
  | A_reset auth_source string string
  | A_license license_op

fun auth_step :: "auth_lib \<Rightarrow> instant \<times> auth_op \<Rightarrow> auth_db \<Rightarrow> auth_db" where
  "auth_step lib (now, A_register src q) s = snd (api_register lib now src q s)"
| "auth_step lib (now, A_login src e p) s = snd (api_login lib now src e p s)"
| "auth_step lib (now, A_refresh src t) s = snd (api_refresh lib now src t s)"
| "auth_step lib (now, A_logout cr t) s = snd (api_logout lib now cr t s)"
| "auth_step lib (now, A_me cr) s = snd (api_me lib now cr s)"
| "auth_step lib (now, A_forgot src e) s = snd (api_forgot_password lib now src e s)"
| "auth_step lib (now, A_reset src t p) s = snd (api_reset_password lib now src t p s)"
| "auth_step lib (now, A_license op) s = s\<lparr>au_licenses := license_step (now, op) (au_licenses s)\<rparr>"

definition run_auth :: "auth_lib \<Rightarrow> (instant \<times> auth_op) list \<Rightarrow> auth_db \<Rightarrow> auth_db" where
  "run_auth lib ops s = foldl (\<lambda>s op. auth_step lib op s) s ops"

subsection \<open>What every request preserves\<close>

text \<open>
  A reflexive and transitive relation between the tables before and after, kept by the primitives of
  a request, is kept by every request built from them.
\<close>

definition preserves :: "(auth_db \<Rightarrow> auth_db \<Rightarrow> bool) \<Rightarrow> 'a request \<Rightarrow> bool" where
  "preserves R m \<longleftrightarrow> (\<forall>s. R s (snd (m s)))"

lemma preservesD: "preserves R m \<Longrightarrow> R s (snd (m s))"
  by (simp add: preserves_def)

lemma preservesI: "(\<And>s. R s (snd (m s))) \<Longrightarrow> preserves R m"
  by (simp add: preserves_def)

locale session_relation =
  fixes R :: "auth_db \<Rightarrow> auth_db \<Rightarrow> bool"
  assumes stays: "R s s"
    and steps: "R s s' \<Longrightarrow> R s' s'' \<Longrightarrow> R s s''"
begin

lemma ret: "preserves R (ret x)" and raises: "preserves R (http_raise e)" and results: "preserves R (of_result r)"
  by (simp_all add: preserves_def ret_def http_raise_def of_result_def stays)

lemma sequence:
  assumes "preserves R m" "\<And>x. preserves R (f x)" shows "preserves R (and_then m f)"
proof (rule preservesI)
  fix s
  obtain r s' where m: "m s = (r, s')" by (cases "m s")
  have one: "R s s'" using preservesD [OF assms(1), of s] m by simp
  show "R s (snd (and_then m f s))"
    using one steps [OF one preservesD [OF assms(2)]] by (cases r) (simp_all add: and_then_def m)
qed

lemma transaction:
  assumes "preserves R m" shows "preserves R (get_db m)"
proof (rule preservesI)
  fix s
  obtain r s' where m: "m s = (r, s')" by (cases "m s")
  show "R s (snd (get_db m s))"
    using preservesD [OF assms, of s] m by (cases r) (simp_all add: get_db_def stays)
qed

lemmas building_blocks = ret raises results sequence transaction

end

definition token_evolves :: "refresh_row \<Rightarrow> refresh_row \<Rightarrow> bool" where
  "token_evolves r r' \<longleftrightarrow>
     rt_jti r' = rt_jti r \<and> rt_user_id r' = rt_user_id r \<and> rt_expires_at r' = rt_expires_at r
     \<and> (rt_revoked_at r \<noteq> None \<longrightarrow> rt_revoked_at r' = rt_revoked_at r)"

interpretation tok: row_evolution token_evolves
  by unfold_locales (auto simp: token_evolves_def)

definition auth_inv :: "auth_db \<Rightarrow> bool" where
  "auth_inv s \<longleftrightarrow> distinct (map rt_jti (au_refresh s))"

definition tokens_kept :: "auth_db \<Rightarrow> auth_db \<Rightarrow> bool" where
  "tokens_kept s s' \<longleftrightarrow> rows_evolve token_evolves (au_refresh s) (au_refresh s') \<and> (auth_inv s \<longrightarrow> auth_inv s')"

interpretation kept: session_relation tokens_kept
  by unfold_locales (auto simp: tokens_kept_def intro: tok.rows_refl tok.rows_trans)

lemma tokens_untouched: "au_refresh s' = au_refresh s \<Longrightarrow> tokens_kept s s'"
  by (simp add: tokens_kept_def auth_inv_def tok.rows_refl)

lemma revoke_where_keys [simp]: "map rt_jti (revoke_where P now rs) = map rt_jti rs"
  "rt_jti ` set (revoke_where P now rs) = rt_jti ` set rs"
proof -
  show "map rt_jti (revoke_where P now rs) = map rt_jti rs" by (simp add: revoke_where_def)
  then show "rt_jti ` set (revoke_where P now rs) = rt_jti ` set rs" by (metis list.set_map)
qed

lemma kept_revoke: "tokens_kept s (s\<lparr>au_refresh := revoke_where P now (au_refresh s)\<rparr>)"
proof -
  have "rows_evolve token_evolves rs (revoke_where P now rs)" for rs
    unfolding revoke_where_def by (rule tok.rows_map) (auto simp: token_evolves_def)
  then show ?thesis by (simp add: tokens_kept_def auth_inv_def)
qed

named_theorems kept_intros "requests that keep the registry of refresh tokens"

lemma kept_primitives [kept_intros]:
  "preserves tokens_kept (record_auth_event ev)"
  "preserves tokens_kept (add_user u)"
  "preserves tokens_kept (license_action f)"
  "preserves tokens_kept (revoke_refresh_jti now jti)"
  "preserves tokens_kept (revoke_all_user_refresh_tokens now user)"
  "preserves tokens_kept (create_password_reset_token lib now src user)"
  "preserves tokens_kept (verify_and_consume_token lib now raw)"
  by (auto simp: preserves_def record_auth_event_def add_user_def license_action_def revoke_refresh_jti_def
      revoke_all_user_refresh_tokens_def create_password_reset_token_def verify_and_consume_token_def Let_def
      intro!: kept_revoke tokens_untouched split: prod.splits sum.splits list.splits)

lemma kept_store [kept_intros]: "preserves tokens_kept (store_refresh_jti jti user expires)"
  by (auto simp: preserves_def store_refresh_jti_def tokens_kept_def auth_inv_def list_ex_iff
      intro!: tok.rows_snoc tok.rows_refl)

declare kept.building_blocks [kept_intros]

lemma kept_issue [kept_intros]: "preserves tokens_kept (issue_tokens lib now src u)"
  unfolding issue_tokens_def by (auto intro!: kept_intros split: prod.splits)

lemma kept_users [kept_intros]: "preserves tokens_kept (\<lambda>s. (r s, s\<lparr>au_users := f s\<rparr>))"
  "preserves tokens_kept (\<lambda>s. (q s, s))"
  by (simp_all add: preserves_def tokens_untouched)

lemma kept_reset [kept_intros]: "preserves tokens_kept (apply_password_reset lib now src raw new_password)"
  unfolding apply_password_reset_def by (intro kept_intros)

lemma kept_code [kept_intros]: "preserves tokens_kept (registration_code lib now src q)"
  unfolding registration_code_def by (auto intro!: kept_intros split: option.splits)

text \<open>A request that looks at the tables first.\<close>

lemma keptD: "preserves tokens_kept m \<Longrightarrow> tokens_kept s (snd (m s))"
  by (rule preservesD)

lemma kept_register: "preserves tokens_kept (api_register lib now src q)"
  unfolding api_register_def Let_def
  by (intro kept.transaction preservesI) (auto intro!: keptD kept_intros simp: kept.stays)

lemma kept_login: "preserves tokens_kept (api_login lib now src e p)"
  unfolding api_login_def Let_def
  by (intro kept.transaction preservesI) (auto intro!: keptD kept_intros simp: kept.stays split: option.splits)

lemma kept_refresh: "preserves tokens_kept (api_refresh lib now src t)"
  unfolding api_refresh_def
  by (intro kept.transaction preservesI)
    (auto intro!: keptD kept_intros simp: kept.stays split: option.splits sum.splits token_error.splits)

lemma kept_logout: "preserves tokens_kept (api_logout lib now cr t)"
  unfolding api_logout_def
  by (intro kept_intros) (auto intro!: kept_intros split: option.splits sum.splits token_error.splits)

lemma kept_me: "preserves tokens_kept (api_me lib now cr)"
  unfolding api_me_def
  by (intro kept_intros preservesI) (auto intro!: keptD kept_intros simp: kept.stays split: option.splits)

lemma kept_forgot: "preserves tokens_kept (api_forgot_password lib now src e)"
  unfolding api_forgot_password_def
  by (intro kept.transaction preservesI) (auto intro!: keptD kept_intros simp: kept.stays split: option.splits)

lemma kept_api_reset: "preserves tokens_kept (api_reset_password lib now src t p)"
  unfolding api_reset_password_def
  by (intro kept.transaction preservesI) (auto intro!: keptD kept_intros simp: kept.stays)

lemmas kept_endpoints = kept_register kept_login kept_refresh kept_logout kept_me kept_forgot kept_api_reset

lemma kept_step: "tokens_kept s (auth_step lib op s)"
  by (cases "(lib, op, s)" rule: auth_step.cases)
    (simp_all add: kept_endpoints [THEN keptD] tokens_untouched)

lemma kept_run: "tokens_kept s (run_auth lib ops s)"
  unfolding run_auth_def
  by (induction ops arbitrary: s) (auto intro: kept.stays kept.steps kept_step)

subsection \<open>Refresh tokens are spent once\<close>

definition jti_spent :: "string \<Rightarrow> auth_db \<Rightarrow> bool" where
  "jti_spent jti s \<longleftrightarrow> (\<exists>r \<in> set (au_refresh s). rt_jti r = jti \<and> rt_revoked_at r \<noteq> None)"

lemma spent_kept:
  assumes "jti_spent jti s" "tokens_kept s s'" shows "jti_spent jti s'"
proof -
  obtain r where r: "r \<in> set (au_refresh s)" "rt_jti r = jti" "rt_revoked_at r \<noteq> None"
    using assms(1) by (auto simp: jti_spent_def)
  obtain m where "m \<in> set (au_refresh s')" "token_evolves r m"
    using tok.evolved_row [OF _ r(1)] assms(2) unfolding tokens_kept_def by blast
  with r(2,3) show ?thesis by (auto simp: jti_spent_def token_evolves_def)
qed

lemma spent_invalid: "auth_inv s \<Longrightarrow> jti_spent jti s \<Longrightarrow> \<not> is_refresh_jti_valid now jti s"
  by (auto simp: auth_inv_def jti_spent_def is_refresh_jti_valid_def list_ex_iff distinct_map inj_on_def)

lemma revoked_spent:
  assumes "jti \<in> rt_jti ` set (au_refresh s)"
  shows "jti_spent jti (snd (revoke_refresh_jti now jti s))"
proof -
  obtain r where r: "r \<in> set (au_refresh s)" "rt_jti r = jti" using assms by blast
  define r' where "r' = (if rt_jti r = jti \<and> rt_revoked_at r = None then r\<lparr>rt_revoked_at := Some now\<rparr> else r)"
  have "r' \<in> set (revoke_where (\<lambda>r. rt_jti r = jti) now (au_refresh s))"
    using r(1) unfolding revoke_where_def r'_def by auto
  moreover have "rt_jti r' = jti" "rt_revoked_at r' \<noteq> None" using r(2) by (auto simp: r'_def)
  ultimately show ?thesis by (auto simp: jti_spent_def revoke_refresh_jti_def)
qed

lemma revoke_then:
  assumes "jti \<in> rt_jti ` set (au_refresh s)" "\<And>b. preserves tokens_kept (f b)"
  shows "jti_spent jti (snd (and_then (revoke_refresh_jti now jti) f s))"
proof -
  obtain b s' where rv: "revoke_refresh_jti now jti s = (Inr b, s')"
    by (simp add: revoke_refresh_jti_def)
  have "jti_spent jti s'" using revoked_spent [OF assms(1), of now] rv by simp
  then have "jti_spent jti (snd (f b s'))" by (rule spent_kept [OF _ keptD [OF assms(2)]])
  then show ?thesis by (simp add: and_then_def rv)
qed

lemma get_db_InrD: "get_db m s = (Inr x, s') \<Longrightarrow> m s = (Inr x, s')"
  by (simp add: get_db_def split: prod.splits sum.splits)

lemma get_db_InlD: "get_db m s = (Inl e, s') \<Longrightarrow> s' = s"
  by (simp add: get_db_def split: prod.splits sum.splits)

lemma claim_text_Some: "claim_text v = Some t \<longleftrightarrow> v = Some t \<and> t \<noteq> []"
  by (auto simp: claim_text_def split: option.splits)

lemma valid_stored: "is_refresh_jti_valid now jti s \<Longrightarrow> jti \<in> rt_jti ` set (au_refresh s)"
  by (auto simp: is_refresh_jti_valid_def list_ex_iff)

lemma refresh_spends:
  assumes "decode_refresh_token lib now tok = Inr c" "cl_jti c = Some jti"
    and "api_refresh lib now src tok s = (Inr r, s1)"
  shows "jti_spent jti s1"
proof -
  obtain user where valid: "is_refresh_jti_valid now jti s"
    and go: "and_then (revoke_refresh_jti now jti) (\<lambda>_.
        and_then (issue_tokens lib now src user) (\<lambda>r.
        and_then (record_auth_event (TOKEN_REFRESH (us_id user) jti)) (\<lambda>_. ret r))) s = (Inr r, s1)"
    using get_db_InrD [OF assms(3) [unfolded api_refresh_def]] assms(1,2)
    by (auto simp: claim_text_Some split: option.splits if_splits)
  have "jti_spent jti (snd (and_then (revoke_refresh_jti now jti) (\<lambda>_.
        and_then (issue_tokens lib now src user) (\<lambda>r.
        and_then (record_auth_event (TOKEN_REFRESH (us_id user) jti)) (\<lambda>_. ret r))) s))"
    by (rule revoke_then [OF valid_stored [OF valid]]) (intro kept_intros)
  then show ?thesis by (simp add: go)
qed

lemma logout_spends:
  assumes "decode_refresh_token lib now tok = Inr c" "cl_jti c = Some jti" "jti \<noteq> []"
    and "jti \<in> rt_jti ` set (au_refresh s)" "api_logout lib now cr tok s = (Inr u, s1)"
  shows "jti_spent jti s1"
proof -
  obtain user where user: "get_current_user lib now cr = Inr user"
    using get_db_InrD [OF assms(5) [unfolded api_logout_def]]
    by (cases "get_current_user lib now cr") (auto simp: and_then_def of_result_def)
  have jt: "claim_text (cl_jti c) = Some jti" using assms(2,3) by (simp add: claim_text_Some)
  have go: "and_then (revoke_refresh_jti now jti) (\<lambda>_. case ul_uuid lib user of
        None \<Rightarrow> http_raise ServerError | Some u \<Rightarrow> record_auth_event (USER_LOGOUT u)) s = (Inr u, s1)"
    using get_db_InrD [OF assms(5) [unfolded api_logout_def]]
    by (simp add: user assms(1) jt and_then_def of_result_def)
  have "jti_spent jti (snd (and_then (revoke_refresh_jti now jti) (\<lambda>_. case ul_uuid lib user of
        None \<Rightarrow> http_raise ServerError | Some u \<Rightarrow> record_auth_event (USER_LOGOUT u)) s))"
    by (rule revoke_then [OF assms(4)]) (auto intro!: kept_intros split: option.splits)
  then show ?thesis by (simp add: go)
qed

text \<open>
  C29: a refresh token is spent once: after a rotation with it or a logout that presents it, and after
  any further requests, with any tokens and clocks, a rotation with a token of the same identifier is
  refused with 401 and changes nothing.
\<close>

theorem refresh_token_spent_once:
  assumes "auth_inv s" "decode_refresh_token lib now tok = Inr c" "cl_jti c = Some jti"
    and "jti \<in> rt_jti ` set (au_refresh s)"
    and "(\<exists>r. api_refresh lib now src tok s = (Inr r, s1)) \<or> (\<exists>u. api_logout lib now cr tok s = (Inr u, s1))"
    and "decode_refresh_token lib later tok' = Inr c'" "cl_jti c' = Some jti"
  shows "\<exists>e. e \<in> {InvalidRefreshToken, RefreshTokenRevoked}
    \<and> api_refresh lib later src' tok' (run_auth lib ops s1) = (Inl e, run_auth lib ops s1)"
proof -
  let ?s = "run_auth lib ops s1"
  have kept1: "tokens_kept s s1"
    using assms(5) keptD [OF kept_refresh, of s lib now src tok] keptD [OF kept_logout, of s lib now cr tok]
    by auto
  then have inv: "auth_inv ?s" using assms(1) kept_run [of s1 lib ops] by (simp add: tokens_kept_def)
  have "is_refresh_jti_valid later jti ?s \<Longrightarrow> jti = []"
    using assms(5) refresh_spends [OF assms(2,3)] logout_spends [OF assms(2,3) _ assms(4)]
      spent_kept [OF _ kept_run] spent_invalid [OF inv] by blast
  then show ?thesis
    by (auto simp: api_refresh_def get_db_def assms(6,7) claim_text_def split: option.splits)
qed

definition demo_lib :: auth_lib where
  "demo_lib =
     \<lparr>jl_secret = ''k'',
      jl_encode = (\<lambda>c. (if cl_type c = Some ''access'' then ''a'' else ''r'')
                      @ (case cl_jti c of Some j \<Rightarrow> j | None \<Rightarrow> [])),
      jl_decode = (\<lambda>now t. case t of [] \<Rightarrow> None | ch # j \<Rightarrow>
         if ch = CHR ''a''
         then Some \<lparr>cl_sub = Some ''u1'', cl_iat = Some 0, cl_exp = Some (minutes_us 60), cl_jti = Some j,
                    cl_type = Some ''access'', cl_extra = Some (''a@b.c'', False)\<rparr>
         else Some \<lparr>cl_sub = Some ''u1'', cl_iat = Some 0, cl_exp = Some (days_us 30), cl_jti = Some j,
                    cl_type = Some ''refresh'', cl_extra = None\<rparr>),
      jl_access_minutes = 60, jl_refresh_days = 30,
      pl_hash = (\<lambda>salt p. Some (salt @ p)), pl_verify = (\<lambda>p h. Some (h = p)),
      sl_sha256 = (\<lambda>t. t), ul_uuid = (\<lambda>t. Some t), el_under_test = False\<rparr>"

definition demo_auth_source :: "string \<Rightarrow> auth_source" where
  "demo_auth_source j = \<lparr>as_id = j, as_salt = [], as_access_jti = j, as_refresh_jti = j, as_reset_token = j,
     as_code = demo_source\<rparr>"

definition demo_users :: auth_db where
  "demo_users = \<lparr>au_users = [\<lparr>us_id = ''u1'', us_email = ''a@b.c'', us_hashed_password = ''secret12'',
       us_display_name = ''A'', us_is_active = True, us_is_superuser = False, us_created_at = 0\<rparr>],
     au_refresh = [\<lparr>rt_jti = ''j0'', rt_user_id = ''u1'', rt_expires_at = days_us 30, rt_revoked_at = None\<rparr>],
     au_resets = [], au_licenses = [], au_audit = []\<rparr>"

lemmas auth_demo_simps = demo_lib_def demo_auth_source_def demo_users_def decode_refresh_token_def
  decode_access_token_def decode_token_def

lemma refresh_token_spent_once_witness:
  "\<exists>e. e \<in> {InvalidRefreshToken, RefreshTokenRevoked}
    \<and> api_refresh demo_lib 9 (demo_auth_source ''j9'') ''rj0''
        (run_auth demo_lib [(7, A_login (demo_auth_source ''j0'') ''A@b.c'' ''secret12'')]
           (snd (api_refresh demo_lib 5 (demo_auth_source ''j1'') ''rj0'' demo_users)))
      = (Inl e, run_auth demo_lib [(7, A_login (demo_auth_source ''j0'') ''A@b.c'' ''secret12'')]
           (snd (api_refresh demo_lib 5 (demo_auth_source ''j1'') ''rj0'' demo_users)))"
proof -
  have "\<exists>r. fst (api_refresh demo_lib 5 (demo_auth_source ''j1'') ''rj0'' demo_users) = Inr r"
    by (simp add: api_refresh_def get_db_def auth_demo_simps claim_text_def is_refresh_jti_valid_def days_us_def
        user_by_id_def and_then_def revoke_refresh_jti_def issue_tokens_def of_result_def create_access_token_def
        create_refresh_token_def require_jwt_secret_def store_refresh_jti_def revoke_where_def ret_def
        record_auth_event_def)
  then have "\<exists>r. api_refresh demo_lib 5 (demo_auth_source ''j1'') ''rj0'' demo_users
      = (Inr r, snd (api_refresh demo_lib 5 (demo_auth_source ''j1'') ''rj0'' demo_users))"
    by (metis prod.collapse)
  moreover have dec: "decode_refresh_token demo_lib t ''rj0'' = Inr \<lparr>cl_sub = Some ''u1'', cl_iat = Some 0,
      cl_exp = Some (days_us 30), cl_jti = Some ''j0'', cl_type = Some ''refresh'', cl_extra = None\<rparr>" for t
    by (simp add: auth_demo_simps)
  moreover have "auth_inv demo_users" "''j0'' \<in> rt_jti ` set (au_refresh demo_users)"
    by (simp_all add: auth_inv_def demo_users_def)
  ultimately show ?thesis
    by (intro refresh_token_spent_once [where cr = None and jti = "''j0''" and tok = "''rj0''" and now = 5
          and s = demo_users and src = "demo_auth_source ''j1''"]) (assumption | rule dec | simp)+
qed

text \<open>
  C31: a password reset never takes effect: whatever the token and the new password, the request ends
  in an error and the tables, with the password, the sessions and the token, stay as they were, because
  the audit entry names an event type that does not exist.
\<close>

theorem password_reset_never_applies:
  "\<exists>e. api_reset_password lib now src token new_password s = (Inl e, s)"
proof -
  have "''USER_UPDATED'' \<notin> set audit_event_types"
    by (simp add: audit_event_types_def)
  then have none: "audit_event_type ''USER_UPDATED'' = Inl ServerError"
    by (simp add: audit_event_type_def)
  have "\<exists>e s'. and_then (apply_password_reset lib now src token new_password) (\<lambda>user.
      and_then (of_result (audit_event_type ''USER_UPDATED'')) (\<lambda>ev. ret ())) s = (Inl e, s')"
    by (auto simp: and_then_def of_result_def none split: prod.splits sum.splits)
  then show ?thesis
    by (auto simp: api_reset_password_def get_db_def split: prod.splits sum.splits)
qed

subsection \<open>Sessions\<close>

lemma issue_tokens_result:
  assumes "issue_tokens lib now src u s = (Inr r, s1)"
  shows "jl_secret lib \<noteq> []"
    "tr_access_token r = jl_encode lib (access_claims lib now (as_access_jti src) (us_id u)
       (Some (us_email u, us_is_superuser u)) None)"
    "tr_refresh_token r = jl_encode lib (refresh_claims lib now (as_refresh_jti src) (us_id u))"
    "s1 = s\<lparr>au_refresh := au_refresh s @ [\<lparr>rt_jti = as_refresh_jti src, rt_user_id = us_id u,
       rt_expires_at = now + days_us (jl_refresh_days lib), rt_revoked_at = None\<rparr>]\<rparr>"
  using assms
  by (auto simp: issue_tokens_def and_then_def of_result_def create_access_token_def create_refresh_token_def
      require_jwt_secret_def store_refresh_jti_def ret_def split: if_splits)

lemma login_result:
  assumes "api_login lib now src email password s = (Inr r, s1)"
  obtains u s' where "user_by_email email s = Some u" "us_is_active u"
    "pl_verify lib password (us_hashed_password u) = Some True"
    "issue_tokens lib now src u s = (Inr r, s')" "s1 = s'\<lparr>au_audit := au_audit s' @ [USER_LOGIN (us_id u) (us_email u)]\<rparr>"
  using get_db_InrD [OF assms [unfolded api_login_def]]
  by (auto simp: Let_def and_then_def record_auth_event_def http_raise_def ret_def
      split: option.splits if_splits prod.splits sum.splits)

lemma issue_tokens_possible:
  assumes "jl_secret lib \<noteq> []" "as_refresh_jti src \<notin> rt_jti ` set (au_refresh s)"
  shows "\<exists>r s1. issue_tokens lib now src u s = (Inr r, s1)"
  using assms(1) list_ex_iff [of "\<lambda>r. rt_jti r = as_refresh_jti src" "au_refresh s"] assms(2)
  by (simp add: issue_tokens_def and_then_def of_result_def create_access_token_def create_refresh_token_def
      require_jwt_secret_def store_refresh_jti_def ret_def image_iff) metis

text \<open>What a pair of issued tokens does: \<open>dec\<close> says the library decodes the token while it lives.\<close>

lemma issued_access_works:
  assumes "issue_tokens lib now src u s = (Inr r, s')" "us_id u \<noteq> []" "t < now + minutes_us (jl_access_minutes lib)"
    and dec: "\<And>e. cl_exp c = Some e \<Longrightarrow> t < e \<Longrightarrow> jl_decode lib t (jl_encode lib c) = Some c"
    and c: "c = access_claims lib now (as_access_jti src) (us_id u) (Some (us_email u, us_is_superuser u)) None"
  shows "get_current_user lib t (Some (tr_access_token r)) = Inr (us_id u)"
proof -
  note iss = issue_tokens_result [OF assms(1)]
  have "jl_decode lib t (tr_access_token r) = Some c"
    unfolding iss(2) c [symmetric] by (rule dec) (use assms(3) in \<open>auto simp: c access_claims_def or_default_def\<close>)
  then show ?thesis
    using iss(1) assms(2)
    by (simp add: c get_current_user_def decode_access_token_def decode_token_def access_claims_def claim_text_def)
qed

lemma issued_refresh_works:
  assumes iss: "issue_tokens lib now src u s = (Inr r, s')" and s1: "s1 = s'\<lparr>au_audit := evs\<rparr>"
    and user: "user_by_id (us_id u) s1 = Some u" "us_is_active u" "us_id u \<noteq> []"
      "ul_uuid lib (us_id u) = Some (us_id u)" "as_refresh_jti src \<noteq> []"
    and t: "t < now + days_us (jl_refresh_days lib)" and fresh: "as_refresh_jti src' \<notin> rt_jti ` set (au_refresh s1)"
    and dec: "\<And>e. cl_exp c = Some e \<Longrightarrow> t < e \<Longrightarrow> jl_decode lib t (jl_encode lib c) = Some c"
    and c: "c = refresh_claims lib now (as_refresh_jti src) (us_id u)"
  shows "\<exists>r' s2. api_refresh lib t src' (tr_refresh_token r) s1 = (Inr r', s2)
    \<and> tr_refresh_token r' = jl_encode lib (refresh_claims lib t (as_refresh_jti src') (us_id u))"
proof -
  let ?jti = "as_refresh_jti src"
  note res = issue_tokens_result [OF iss]
  have "jl_decode lib t (tr_refresh_token r) = Some c"
    unfolding res(3) c [symmetric] by (rule dec) (use t in \<open>auto simp: c refresh_claims_def\<close>)
  then have decoded: "decode_refresh_token lib t (tr_refresh_token r) = Inr c"
    using res(1) by (simp add: c decode_refresh_token_def decode_token_def refresh_claims_def)
  have valid: "is_refresh_jti_valid t ?jti s1" using t by (simp add: s1 res(4) is_refresh_jti_valid_def)
  obtain b s2 where rv: "revoke_refresh_jti t ?jti s1 = (Inr b, s2)" by (simp add: revoke_refresh_jti_def)
  have "s2 = s1\<lparr>au_refresh := revoke_where (\<lambda>r. rt_jti r = ?jti) t (au_refresh s1)\<rparr>"
    using rv by (simp add: revoke_refresh_jti_def)
  then have "as_refresh_jti src' \<notin> rt_jti ` set (au_refresh s2)" using fresh by simp
  then obtain r' s3 where new: "issue_tokens lib t src' u s2 = (Inr r', s3)"
    using issue_tokens_possible [OF res(1)] by blast
  show ?thesis
    using issue_tokens_result(3) [OF new] valid user new rv
    by (simp add: api_refresh_def get_db_def decoded c refresh_claims_def claim_text_def and_then_def
        record_auth_event_def ret_def)
qed

text \<open>
  C30: a login needs the password of an active user, and what it hands out works: with a token library
  that decodes what it encoded until it expires, the access token identifies that user for as long as
  it lives, and the refresh token, until it expires, buys a new pair of tokens for the same user.
\<close>

theorem login_issues_session:
  assumes "api_login lib now src email password s = (Inr r, s1)"
    and "\<And>c e t. cl_exp c = Some e \<Longrightarrow> t < e \<Longrightarrow> c \<in> {access_claims lib now (as_access_jti src) (us_id u)
            (Some (us_email u, us_is_superuser u)) None, refresh_claims lib now (as_refresh_jti src) (us_id u)}
          \<Longrightarrow> jl_decode lib t (jl_encode lib c) = Some c"
    and "user_by_email email s = Some u" "distinct (map us_id (au_users s))"
    and "us_id u \<noteq> []" "ul_uuid lib (us_id u) = Some (us_id u)" "as_refresh_jti src \<noteq> []"
  shows "us_is_active u \<and> pl_verify lib password (us_hashed_password u) = Some True
    \<and> (\<forall>t < now + minutes_us (jl_access_minutes lib).
         get_current_user lib t (Some (tr_access_token r)) = Inr (us_id u))
    \<and> (\<forall>t < now + days_us (jl_refresh_days lib). \<forall>src'.
         as_refresh_jti src' \<notin> rt_jti ` set (au_refresh s1) \<longrightarrow>
         (\<exists>r' s2. api_refresh lib t src' (tr_refresh_token r) s1 = (Inr r', s2)
            \<and> tr_refresh_token r' = jl_encode lib (refresh_claims lib t (as_refresh_jti src') (us_id u))))"
proof -
  obtain s' where log: "us_is_active u" "pl_verify lib password (us_hashed_password u) = Some True"
    "issue_tokens lib now src u s = (Inr r, s')" "s1 = s'\<lparr>au_audit := au_audit s' @ [USER_LOGIN (us_id u) (us_email u)]\<rparr>"
    using login_result [OF assms(1)] assms(3) by (metis option.inject)
  have "u \<in> set (au_users s)" using assms(3) find_in unfolding user_by_email_def by metis
  then have "user_by_id (us_id u) s = Some u" unfolding user_by_id_def by (rule find_key [OF assms(4)])
  then have user: "user_by_id (us_id u) s1 = Some u"
    by (simp add: log(4) issue_tokens_result(4) [OF log(3)] user_by_id_def)
  show ?thesis
  proof (intro conjI allI impI log(1,2))
    fix t assume "t < now + minutes_us (jl_access_minutes lib)"
    then show "get_current_user lib t (Some (tr_access_token r)) = Inr (us_id u)"
      by (rule issued_access_works [OF log(3) assms(5) _ _ refl]) (rule assms(2), simp_all)
  next
    fix t and src' :: auth_source assume "t < now + days_us (jl_refresh_days lib)" "as_refresh_jti src' \<notin> rt_jti ` set (au_refresh s1)"
    then show "\<exists>r' s2. api_refresh lib t src' (tr_refresh_token r) s1 = (Inr r', s2)
        \<and> tr_refresh_token r' = jl_encode lib (refresh_claims lib t (as_refresh_jti src') (us_id u))"
      by (rule issued_refresh_works [OF log(3,4) user log(1) assms(5-7) _ _ _ refl]) (rule assms(2), simp_all)
  qed
qed

lemma login_issues_session_witness:
  "\<exists>r s1. api_login demo_lib 0 (demo_auth_source ''j1'') ''A@B.c'' ''secret12'' demo_users = (Inr r, s1)
    \<and> get_current_user demo_lib 5 (Some (tr_access_token r)) = Inr ''u1''"
proof -
  define u where "u = hd (au_users demo_users)"
  have mail: "user_by_email ''A@B.c'' demo_users = Some u"
    unfolding u_def by code_simp
  have "\<exists>r. fst (api_login demo_lib 0 (demo_auth_source ''j1'') ''A@B.c'' ''secret12'' demo_users) = Inr r"
    unfolding api_login_def Let_def get_db_def mail
    by (simp add: u_def auth_demo_simps and_then_def issue_tokens_def of_result_def create_access_token_def
        create_refresh_token_def require_jwt_secret_def store_refresh_jti_def ret_def record_auth_event_def)
  then obtain r where r: "api_login demo_lib 0 (demo_auth_source ''j1'') ''A@B.c'' ''secret12'' demo_users
      = (Inr r, snd (api_login demo_lib 0 (demo_auth_source ''j1'') ''A@B.c'' ''secret12'' demo_users))"
    by (metis prod.collapse)
  have law: "jl_decode demo_lib t (jl_encode demo_lib c) = Some c"
    if "c \<in> {access_claims demo_lib 0 (as_access_jti (demo_auth_source ''j1'')) (us_id u)
          (Some (us_email u, us_is_superuser u)) None, refresh_claims demo_lib 0 (as_refresh_jti (demo_auth_source ''j1'')) (us_id u)}"
    for c t
    using that by (auto simp: u_def auth_demo_simps access_claims_def refresh_claims_def or_default_def)
  have "get_current_user demo_lib 5 (Some (tr_access_token r)) = Inr (us_id u)"
    using login_issues_session [OF r, of u] law mail
    by (simp add: u_def auth_demo_simps minutes_us_def)
  with r show ?thesis by (auto simp: u_def demo_users_def)
qed

end
