(* ===== verification/Multi_Timeframe.thy ===== *)
theory Multi_Timeframe
  imports Bar_Builder
begin

section \<open>Multi-timeframe manager (\<open>brain/market_data/multi_timeframe.py\<close>)\<close>

text \<open>
  One independent bar builder per timeframe behind a common tick filter.  A rejected tick raises
  before any field is written.
\<close>

record mtf_manager =
  mt_symbol :: string
  mt_timeframes :: "string list"
  mt_max_spread_usd :: dec
  mt_staleness_threshold_seconds :: rat
  mt_builders :: "(string \<times> bar_builder) list"
  mt_last_tick :: "tick option"
  mt_tick_count :: int

datatype tick_error = SymbolMismatch | NonPositivePrice | CrossedSpread | OutOfOrder

fun mtf_builders :: "string \<Rightarrow> string list \<Rightarrow> (string \<times> bar_builder) list \<Rightarrow> (string \<times> bar_builder) list res" where
  "mtf_builders smb [] d = Inr d"
| "mtf_builders smb (tf # tfs) d =
     bind_res (bar_builder_init smb tf) (\<lambda>b. mtf_builders smb tfs (AList.update tf b d))"

definition mtf_init :: "string \<Rightarrow> string list \<Rightarrow> dec \<Rightarrow> rat \<Rightarrow> mtf_manager res" where
  "mtf_init smb tfs max_spread stale =
     bind_res (mtf_builders smb tfs [])
       (\<lambda>d. Inr \<lparr>mt_symbol = smb, mt_timeframes = tfs, mt_max_spread_usd = max_spread,
                 mt_staleness_threshold_seconds = stale, mt_builders = d, mt_last_tick = None,
                 mt_tick_count = 0\<rparr>)"

definition validate_tick :: "mtf_manager \<Rightarrow> tick \<Rightarrow> tick_error option" where
  "validate_tick m t =
     (if tk_symbol t \<noteq> mt_symbol m then Some SymbolMismatch
      else if tk_bid t \<le> 0 \<or> tk_ask t \<le> 0 then Some NonPositivePrice
      else if tk_ask t < tk_bid t then Some CrossedSpread
      else case mt_last_tick m of
             None \<Rightarrow> None
           | Some l \<Rightarrow> if tk_tick_time t < tk_tick_time l then Some OutOfOrder else None)"

definition mtf_is_stale :: "instant \<Rightarrow> mtf_manager \<Rightarrow> bool" where
  "mtf_is_stale now m =
     (case mt_last_tick m of
        None \<Rightarrow> True
      | Some l \<Rightarrow> mt_staleness_threshold_seconds m < total_seconds (now - tk_tick_time l))"

definition mtf_current_spread :: "mtf_manager \<Rightarrow> dec option" where
  "mtf_current_spread m = map_option tick_spread (mt_last_tick m)"

definition mtf_is_spread_acceptable :: "mtf_manager \<Rightarrow> bool" where
  "mtf_is_spread_acceptable m =
     (case mtf_current_spread m of None \<Rightarrow> False | Some sp \<Rightarrow> sp \<le> mt_max_spread_usd m)"

definition feed_builders :: "tick \<Rightarrow> (string \<times> bar_builder) list \<Rightarrow> (string \<times> bar_builder) list" where
  "feed_builders t d = map (\<lambda>(tf, b). (tf, snd (process_tick t b))) d"

definition newly_closed_bars :: "tick \<Rightarrow> (string \<times> bar_builder) list \<Rightarrow> (string \<times> bar) list" where
  "newly_closed_bars t d =
     List.map_filter (\<lambda>(tf, b). map_option (\<lambda>c. (tf, c)) (fst (process_tick t b))) d"

definition ingest_tick :: "tick \<Rightarrow> mtf_manager \<Rightarrow> (tick_error + (string \<times> bar) list) \<times> mtf_manager" where
  "ingest_tick t m =
     (case validate_tick m t of
        Some e \<Rightarrow> (Inl e, m)
      | None \<Rightarrow> (Inr (newly_closed_bars t (mt_builders m)),
                 m\<lparr>mt_last_tick := Some t, mt_tick_count := mt_tick_count m + 1,
                   mt_builders := feed_builders t (mt_builders m)\<rparr>))"

definition mtf_get_closed_bars :: "string \<Rightarrow> mtf_manager \<Rightarrow> bar list res" where
  "mtf_get_closed_bars tf m =
     (case map_of (mt_builders m) tf of
        None \<Rightarrow> Inl (ValueError ''Timeframe not tracked'')
      | Some b \<Rightarrow> Inr (bb_closed_bars b))"

definition mtf_get_latest_closed_bar :: "string \<Rightarrow> mtf_manager \<Rightarrow> bar option res" where
  "mtf_get_latest_closed_bar tf m =
     bind_res (mtf_get_closed_bars tf m) (\<lambda>bs. Inr (if bs = [] then None else Some (last bs)))"

definition mtf_seed_closed_bars :: "string \<Rightarrow> bar list \<Rightarrow> mtf_manager \<Rightarrow> mtf_manager res" where
  "mtf_seed_closed_bars tf bars m =
     (case map_of (mt_builders m) tf of
        None \<Rightarrow> Inl (ValueError ''Timeframe not tracked'')
      | Some b \<Rightarrow> Inr (m\<lparr>mt_builders := AList.update tf (seed_closed_bars bars b) (mt_builders m)\<rparr>))"

text \<open>A run skips the ticks that are rejected, as \<open>warm_up_from_ticks\<close> does.\<close>

definition ingest_all :: "tick list \<Rightarrow> mtf_manager \<Rightarrow> mtf_manager" where
  "ingest_all ts m = foldl (\<lambda>m t. snd (ingest_tick t m)) m ts"

fun accepted_ticks :: "mtf_manager \<Rightarrow> tick list \<Rightarrow> tick list" where
  "accepted_ticks m [] = []"
| "accepted_ticks m (t # ts) =
     (if validate_tick m t = None then t # accepted_ticks (snd (ingest_tick t m)) ts
      else accepted_ticks m ts)"

subsection \<open>Lemmas\<close>

lemma map_of_feed: "map_of (feed_builders t d) tf = map_option (\<lambda>b. snd (process_tick t b)) (map_of d tf)"
  unfolding feed_builders_def by (induction d) auto

lemma ingest_rejected: "validate_tick m t = Some e \<Longrightarrow> ingest_tick t m = (Inl e, m)"
  by (simp add: ingest_tick_def)

lemma ingest_accepted:
  "validate_tick m t = None \<Longrightarrow>
     snd (ingest_tick t m) = m\<lparr>mt_last_tick := Some t, mt_tick_count := mt_tick_count m + 1,
                              mt_builders := feed_builders t (mt_builders m)\<rparr>"
  by (simp add: ingest_tick_def)

lemma ingest_all_simps [simp]:
  "ingest_all [] m = m" "ingest_all (t # ts) m = ingest_all ts (snd (ingest_tick t m))"
  by (simp_all add: ingest_all_def)

lemma map_of_ingest_all:
  "map_of (mt_builders (ingest_all ts m)) tf
     = map_option (process_ticks (accepted_ticks m ts)) (map_of (mt_builders m) tf)"
proof (induction ts arbitrary: m)
  case Nil
  then show ?case by (cases "map_of (mt_builders m) tf") simp_all
next
  case (Cons t ts)
  show ?case
  proof (cases "validate_tick m t")
    case None
    then show ?thesis
      by (simp add: Cons.IH ingest_accepted map_of_feed option.map_comp comp_def)
  next
    case (Some e)
    then show ?thesis by (simp add: Cons.IH ingest_rejected)
  qed
qed

lemma accepted_valid: "t \<in> set (accepted_ticks m ts) \<Longrightarrow>
    tk_symbol t = mt_symbol m \<and> 0 < tk_bid t \<and> tk_bid t \<le> tk_ask t"
proof (induction ts arbitrary: m)
  case Nil
  then show ?case by simp
next
  case (Cons u us)
  show ?case
  proof (cases "validate_tick m u")
    case None
    with Cons.prems consider "t = u" | "t \<in> set (accepted_ticks (snd (ingest_tick u m)) us)"
      by auto
    then show ?thesis
    proof cases
      case 1
      with None show ?thesis by (auto simp: validate_tick_def split: if_splits option.splits)
    next
      case 2
      with Cons.IH [OF 2] None show ?thesis by (simp add: ingest_accepted)
    qed
  next
    case (Some e)
    with Cons show ?thesis by simp
  qed
qed

lemma accepted_after_last:
  "mt_last_tick m = Some l \<Longrightarrow> t \<in> set (accepted_ticks m ts) \<Longrightarrow> tk_tick_time l \<le> tk_tick_time t"
proof (induction ts arbitrary: m l)
  case Nil
  then show ?case by simp
next
  case (Cons u us)
  show ?case
  proof (cases "validate_tick m u")
    case None
    then have lu: "tk_tick_time l \<le> tk_tick_time u" using Cons.prems(1)
      by (auto simp: validate_tick_def split: if_splits)
    from None Cons.prems(2) consider "t = u" | "t \<in> set (accepted_ticks (snd (ingest_tick u m)) us)"
      by auto
    then show ?thesis
    proof cases
      case 1
      with lu show ?thesis by simp
    next
      case 2
      have "mt_last_tick (snd (ingest_tick u m)) = Some u" using None by (simp add: ingest_accepted)
      from Cons.IH [OF this 2] lu show ?thesis by linarith
    qed
  next
    case (Some e)
    with Cons.prems Cons.IH show ?thesis by simp
  qed
qed

lemma accepted_sorted: "sorted_wrt (\<lambda>a b. tk_tick_time a \<le> tk_tick_time b) (accepted_ticks m ts)"
proof (induction ts arbitrary: m)
  case Nil
  then show ?case by simp
next
  case (Cons u us)
  show ?case
  proof (cases "validate_tick m u")
    case None
    have "mt_last_tick (snd (ingest_tick u m)) = Some u" using None by (simp add: ingest_accepted)
    then have "tk_tick_time u \<le> tk_tick_time t"
      if "t \<in> set (accepted_ticks (snd (ingest_tick u m)) us)" for t
      using that by (rule accepted_after_last)
    with None Cons.IH show ?thesis by simp
  next
    case (Some e)
    with Cons.IH show ?thesis by simp
  qed
qed

lemma mtf_builders_inv:
  assumes "mtf_builders smb tfs d = Inr d'" "\<And>tf b. map_of d tf = Some b \<Longrightarrow> bar_builder_init smb tf = Inr b"
  shows "map_of d' tf = Some b \<Longrightarrow> bar_builder_init smb tf = Inr b"
  using assms
proof (induction tfs arbitrary: d)
  case Nil
  then show ?case by simp
next
  case (Cons x xs)
  from Cons.prems(2) obtain y where y: "bar_builder_init smb x = Inr y"
    "mtf_builders smb xs (AList.update x y d) = Inr d'"
    by (auto elim: bind_res_InrE)
  show ?case
  proof (rule Cons.IH [OF Cons.prems(1) y(2)])
    fix tf b assume "map_of (AList.update x y d) tf = Some b"
    with y(1) Cons.prems(3) show "bar_builder_init smb tf = Inr b"
      by (auto simp: update_conv' split: if_splits)
  qed
qed

lemma mtf_init_builder:
  assumes "mtf_init smb tfs ms st = Inr m" "map_of (mt_builders m) tf = Some b"
  shows "bar_builder_init smb tf = Inr b"
proof -
  from assms(1) obtain d where "mtf_builders smb tfs [] = Inr d" "mt_builders m = d"
    by (auto simp: mtf_init_def elim!: bind_res_InrE)
  with assms(2) mtf_builders_inv [of smb tfs "[]" d tf b] show ?thesis by simp
qed

subsection \<open>Properties\<close>

text \<open>
  C5: the timeframes are independent and only see accepted ticks.  After any stream of ticks,
  the builder of each timeframe is in exactly the state a stand-alone builder reaches on the
  accepted ticks; those all carry the manager's symbol, a positive uncrossed price, and
  non-decreasing times.
\<close>

theorem timeframes_refine_builders:
  "map_of (mt_builders (ingest_all ts m)) tf
     = map_option (process_ticks (accepted_ticks m ts)) (map_of (mt_builders m) tf)
   \<and> list_all (\<lambda>t. tk_symbol t = mt_symbol m \<and> 0 < tk_bid t \<and> tk_bid t \<le> tk_ask t) (accepted_ticks m ts)
   \<and> sorted_wrt (\<lambda>a b. tk_tick_time a \<le> tk_tick_time b) (accepted_ticks m ts)"
  using map_of_ingest_all accepted_valid accepted_sorted by (auto simp: list_all_iff)

end
