(* ===== verification/Market_Data_Service.thy ===== *)
theory Market_Data_Service
  imports Agent_Protocol Brain_Pipeline Multi_Timeframe
begin

section \<open>Market data service (\<open>backend/services/market_data_service.py\<close>)\<close>

text \<open>
  The latest tick and the closed bars of each account, agent and symbol: module-level dicts in front
  of Redis.  Nested dicts are nested association lists in insertion order; Redis is a map from keys
  to a value with its expiry, and an operation is told whether Redis can be reached.  A stored text
  (decimal, ISO time, JSON) is kept as its value.  Times are in UTC, so the order of ISO texts is
  the order of instants.  \<open>datetime.fromisoformat\<close> and \<open>strptime\<close> are the two fields of a record;
  the bar managers of \<open>strategy_service\<close>, which the ingestion seeds, are part of the state.
\<close>

subsection \<open>Nested dicts\<close>

type_synonym 'a dict2 = "(string \<times> (string \<times> 'a) list) list"
type_synonym 'a dict3 = "(string \<times> 'a dict2) list"

definition dict_get2 :: "'a dict2 \<Rightarrow> string \<Rightarrow> string \<Rightarrow> 'a option" where
  "dict_get2 m a b = Option.bind (map_of m a) (\<lambda>d. map_of d b)"

definition dict_put2 :: "string \<Rightarrow> string \<Rightarrow> 'a \<Rightarrow> 'a dict2 \<Rightarrow> 'a dict2" where
  "dict_put2 a b v m =
     AList.update a (AList.update b v (case map_of m a of Some d \<Rightarrow> d | None \<Rightarrow> [])) m"

definition dict_get3 :: "'a dict3 \<Rightarrow> string \<Rightarrow> string \<Rightarrow> string \<Rightarrow> 'a option" where
  "dict_get3 m a b c = Option.bind (map_of m a) (\<lambda>d. dict_get2 d b c)"

definition dict_put3 :: "string \<Rightarrow> string \<Rightarrow> string \<Rightarrow> 'a \<Rightarrow> 'a dict3 \<Rightarrow> 'a dict3" where
  "dict_put3 a b c v m =
     AList.update a (dict_put2 b c v (case map_of m a of Some d \<Rightarrow> d | None \<Rightarrow> [])) m"

lemma dict_get2_put2 [simp]:
  "dict_get2 (dict_put2 a b v m) a' b' = (if a' = a \<and> b' = b then Some v else dict_get2 m a' b')"
  by (auto simp: dict_get2_def dict_put2_def update_conv' split: option.splits)

lemma dict_get_Nil [simp]: "dict_get2 [] a b = None" "dict_get3 [] a b c = None"
  by (simp_all add: dict_get2_def dict_get3_def)

lemma dict_get3_put3 [simp]:
  "dict_get3 (dict_put3 a b c v m) a' b' c' =
     (if a' = a \<and> b' = b \<and> c' = c then Some v else dict_get3 m a' b' c')"
  by (cases "map_of m a") (auto simp: dict_get3_def dict_put3_def update_conv')

subsection \<open>State\<close>

record tick_entry =
  te_agent_id :: string
  te_account_id :: string
  te_symbol :: string
  te_raw_symbol :: string
  te_bid :: dec
  te_ask :: dec
  te_spread :: dec
  te_point :: dec
  te_digits :: int
  te_tick_time :: string
  te_tick_volume :: rat
  te_received_at :: instant

record bar_entry =
  be_symbol :: "string option"
  be_timeframe :: "string option"
  be_open_time :: instant
  be_close_time :: instant
  be_open :: dec
  be_high :: dec
  be_low :: dec
  be_close :: dec
  be_volume :: rat

datatype redis_key =
    K_account_tick string string
  | K_agent_tick string string
  | K_account_bars string string string
  | K_agent_bars string string string
  | K_symbol_bars string string

datatype redis_value = V_tick tick_entry | V_bars "bar_entry list"

record market_store =
  ms_account_ticks :: "tick_entry dict2"
  ms_agent_ticks :: "tick_entry dict2"
  ms_account_bars :: "bar_entry list dict3"
  ms_agent_bars :: "bar_entry list dict3"
  ms_symbol_bars :: "bar_entry list dict2"
  ms_redis :: "redis_key \<Rightarrow> (redis_value \<times> instant) option"
  ms_managers :: "(string \<times> mtf_manager) list"

definition empty_store :: market_store where
  "empty_store = \<lparr>ms_account_ticks = [], ms_agent_ticks = [], ms_account_bars = [],
     ms_agent_bars = [], ms_symbol_bars = [], ms_redis = (\<lambda>_. None), ms_managers = []\<rparr>"

definition redis_set :: "bool \<Rightarrow> instant \<Rightarrow> int \<Rightarrow> (redis_key \<times> redis_value) list \<Rightarrow> market_store \<Rightarrow> market_store" where
  "redis_set up now ttl kvs st =
     (if up then st\<lparr>ms_redis := foldl (\<lambda>r (k, v). r(k \<mapsto> (v, now + ttl * 10 ^ 6))) (ms_redis st) kvs\<rparr> else st)"

definition redis_get :: "bool \<Rightarrow> instant \<Rightarrow> redis_key \<Rightarrow> market_store \<Rightarrow> redis_value option" where
  "redis_get up now k st =
     (case ms_redis st k of
        Some (v, expires) \<Rightarrow> if up \<and> now < expires then Some v else None
      | None \<Rightarrow> None)"

subsection \<open>Times, symbols, freshness\<close>

record time_parser =
  tp_fromisoformat :: "string \<Rightarrow> instant option"
  tp_strptime :: "string \<Rightarrow> instant option"

definition dots_to_dashes :: "string \<Rightarrow> string" where
  "dots_to_dashes s = map (\<lambda>ch. if ch = CHR ''.'' then CHR ''-'' else ch) s"

definition parse_market_time :: "time_parser \<Rightarrow> instant \<Rightarrow> string \<Rightarrow> instant" where
  "parse_market_time tp now raw =
     (if raw = [] then now
      else let cleaned = dots_to_dashes (py_strip raw)
           in case tp_fromisoformat tp cleaned of
                Some t \<Rightarrow> t
              | None \<Rightarrow> (case tp_strptime tp cleaned of Some t \<Rightarrow> t | None \<Rightarrow> now))"

definition normalize_symbol :: "string \<Rightarrow> string" where
  "normalize_symbol raw =
     (let s = map ascii_upper (py_strip raw) in if take 6 s = ''XAUUSD'' then ''XAUUSD'' else s)"

definition norm_timeframe :: "string \<Rightarrow> string" where
  "norm_timeframe tf = map ascii_upper (py_strip tf)"

definition evaluate_freshness ::
  "instant \<Rightarrow> tick_entry option \<Rightarrow> int \<Rightarrow> bool \<times> string \<times> int option" where
  "evaluate_freshness now tick max_ms =
     (case tick of
        None \<Rightarrow> (False, ''NO_DATA'', None)
      | Some t \<Rightarrow>
          (let age = max 0 (age_ms (now - te_received_at t))
           in if age > max_ms then (False, ''STALE'', Some age) else (True, ''FRESH'', Some age)))"

subsection \<open>Ticks\<close>

definition tick_entry_of :: "instant \<Rightarrow> string \<Rightarrow> string \<Rightarrow> market_data_msg \<Rightarrow> tick_entry" where
  "tick_entry_of now ag acc m =
     \<lparr>te_agent_id = ag, te_account_id = acc, te_symbol = normalize_symbol (mm_symbol m),
      te_raw_symbol = mm_symbol m, te_bid = mm_bid m, te_ask = mm_ask m, te_spread = mm_spread m,
      te_point = mm_point m, te_digits = mm_digits m, te_tick_time = mm_tick_time m,
      te_tick_volume = mm_tick_volume m, te_received_at = now\<rparr>"

definition record_market_data ::
  "bool \<Rightarrow> instant \<Rightarrow> string \<Rightarrow> string \<Rightarrow> market_data_msg \<Rightarrow> market_store \<Rightarrow> market_store" where
  "record_market_data up now ag acc m st =
     (let e = tick_entry_of now ag acc m; smb = te_symbol e
      in redis_set up now 300 [(K_account_tick acc smb, V_tick e), (K_agent_tick ag smb, V_tick e)]
           (st\<lparr>ms_account_ticks := dict_put2 acc smb e (ms_account_ticks st),
               ms_agent_ticks := dict_put2 ag smb e (ms_agent_ticks st)\<rparr>))"

definition get_latest_market_data ::
  "bool \<Rightarrow> instant \<Rightarrow> string \<Rightarrow> string \<Rightarrow> market_store \<Rightarrow> tick_entry option \<times> market_store" where
  "get_latest_market_data up now acc symbol st =
     (let smb = normalize_symbol symbol
      in case dict_get2 (ms_account_ticks st) acc smb of
           Some e \<Rightarrow> (Some e, st)
         | None \<Rightarrow>
             (case redis_get up now (K_account_tick acc smb) st of
                Some (V_tick e) \<Rightarrow> (Some e, st\<lparr>ms_account_ticks := dict_put2 acc smb e (ms_account_ticks st)\<rparr>)
              | _ \<Rightarrow> (None, st)))"

definition get_latest_agent_market_data ::
  "bool \<Rightarrow> instant \<Rightarrow> string \<Rightarrow> string \<Rightarrow> market_store \<Rightarrow> tick_entry option \<times> market_store" where
  "get_latest_agent_market_data up now ag symbol st =
     (let smb = normalize_symbol symbol
      in case dict_get2 (ms_agent_ticks st) ag smb of
           Some e \<Rightarrow> (Some e, st)
         | None \<Rightarrow>
             (case redis_get up now (K_agent_tick ag smb) st of
                Some (V_tick e) \<Rightarrow> (Some e, st\<lparr>ms_agent_ticks := dict_put2 ag smb e (ms_agent_ticks st)\<rparr>)
              | _ \<Rightarrow> (None, st)))"

definition clear_local_cache :: "market_store \<Rightarrow> market_store" where
  "clear_local_cache st =
     st\<lparr>ms_account_ticks := [], ms_agent_ticks := [], ms_account_bars := [], ms_agent_bars := []\<rparr>"

subsection \<open>Bars\<close>

text \<open>\<open>strategy_service._get_bar_manager\<close> and \<open>seed_account_bars\<close>.\<close>

definition new_bar_manager :: "mtf_manager res" where
  "new_bar_manager =
     mtf_init ''XAUUSD'' [''M5'', ''M15'', ''H1'']
       (or_default (cf_max_spread_usd (cf_spread default_strat_config)) 1) 10"

definition get_bar_manager ::
  "string \<Rightarrow> (string \<times> mtf_manager) list \<Rightarrow> (mtf_manager \<times> (string \<times> mtf_manager) list) res" where
  "get_bar_manager acc ms =
     (case map_of ms acc of
        Some m \<Rightarrow> Inr (m, ms)
      | None \<Rightarrow> bind_res new_bar_manager (\<lambda>m. Inr (m, AList.update acc m ms)))"

definition bar_of_entry :: "string \<Rightarrow> string \<Rightarrow> bar_entry \<Rightarrow> bar" where
  "bar_of_entry smb tf e =
     \<lparr>br_symbol = (case be_symbol e of Some s \<Rightarrow> s | None \<Rightarrow> smb),
      br_timeframe = (case be_timeframe e of Some s \<Rightarrow> s | None \<Rightarrow> tf),
      br_open_time = be_open_time e, br_close_time = be_close_time e, br_open_price = be_open e,
      br_high_price = be_high e, br_low_price = be_low e, br_close_price = be_close e,
      br_volume = be_volume e, br_is_closed = True\<rparr>"

definition seed_account_bars ::
  "string \<Rightarrow> string \<Rightarrow> string \<Rightarrow> bar_entry list \<Rightarrow> (string \<times> mtf_manager) list \<Rightarrow> (string \<times> mtf_manager) list" where
  "seed_account_bars acc smb tf es ms =
     (if es = [] then ms
      else case get_bar_manager acc ms of
             Inl _ \<Rightarrow> ms
           | Inr (m, ms') \<Rightarrow>
               (case mtf_seed_closed_bars tf (map (bar_of_entry smb tf) es) m of
                  Inl _ \<Rightarrow> ms'
                | Inr m' \<Rightarrow> AList.update acc m' ms'))"

definition service_timeframe_seconds :: "string \<Rightarrow> int option" where
  "service_timeframe_seconds =
     map_of [(''M1'', 60), (''M5'', 300), (''M15'', 900), (''M30'', 1800), (''H1'', 3600),
             (''H4'', 14400), (''D1'', 86400)]"

definition entry_of_bar :: "time_parser \<Rightarrow> instant \<Rightarrow> string \<Rightarrow> string \<Rightarrow> int \<Rightarrow> bar_data \<Rightarrow> bar_entry" where
  "entry_of_bar tp now smb tf sec b =
     (let ot = parse_market_time tp now (bd_time b)
      in \<lparr>be_symbol = Some smb, be_timeframe = Some tf, be_open_time = ot,
          be_close_time = ot + sec * 10 ^ 6, be_open = bd_open b, be_high = bd_high b,
          be_low = bd_low b, be_close = bd_close b, be_volume = bd_tick_volume b\<rparr>)"

text \<open>The loop that keeps the first bar of each open time.\<close>

fun dedup_bars :: "instant list \<Rightarrow> bar_entry list \<Rightarrow> bar_entry list" where
  "dedup_bars seen [] = []"
| "dedup_bars seen (b # bs) =
     (if be_open_time b \<in> set seen then dedup_bars seen bs
      else b # dedup_bars (be_open_time b # seen) bs)"

definition closed_bars_of_msg :: "time_parser \<Rightarrow> instant \<Rightarrow> bars_msg \<Rightarrow> bar_entry list" where
  "closed_bars_of_msg tp now m =
     (let smb = normalize_symbol (bm_symbol m); tf = norm_timeframe (bm_timeframe m);
          sec = (case service_timeframe_seconds tf of Some s \<Rightarrow> s | None \<Rightarrow> 900);
          deduped = dedup_bars [] (sort_key be_open_time (map (entry_of_bar tp now smb tf sec) (bm_bars m)))
      in if length deduped > 300 then last_n 300 deduped else deduped)"

definition record_closed_bars ::
  "time_parser \<Rightarrow> bool \<Rightarrow> instant \<Rightarrow> string \<Rightarrow> string \<Rightarrow> bars_msg \<Rightarrow> market_store \<Rightarrow> market_store" where
  "record_closed_bars tp up now ag acc m st =
     (let smb = normalize_symbol (bm_symbol m); tf = norm_timeframe (bm_timeframe m);
          es = closed_bars_of_msg tp now m;
          st1 = st\<lparr>ms_account_bars := dict_put3 acc smb tf es (ms_account_bars st),
                   ms_agent_bars := dict_put3 ag smb tf es (ms_agent_bars st),
                   ms_symbol_bars := dict_put2 smb tf es (ms_symbol_bars st)\<rparr>;
          st2 = redis_set up now 86400
                  [(K_account_bars acc smb tf, V_bars es), (K_agent_bars ag smb tf, V_bars es),
                   (K_symbol_bars smb tf, V_bars es)] st1
      in st2\<lparr>ms_managers := seed_account_bars acc smb tf es (ms_managers st2)\<rparr>)"

definition get_stored_closed_bars ::
  "bool \<Rightarrow> instant \<Rightarrow> string \<Rightarrow> string \<Rightarrow> string \<Rightarrow> market_store \<Rightarrow> bar_entry list \<times> market_store" where
  "get_stored_closed_bars up now acc symbol timeframe st =
     (let smb = normalize_symbol symbol; tf = norm_timeframe timeframe
      in case dict_get3 (ms_account_bars st) acc smb tf of
           Some es \<Rightarrow> (es, st)
         | None \<Rightarrow>
             (case redis_get up now (K_account_bars acc smb tf) st of
                Some (V_bars es) \<Rightarrow> (es, st\<lparr>ms_account_bars := dict_put3 acc smb tf es (ms_account_bars st)\<rparr>)
              | _ \<Rightarrow> ([], st)))"

definition get_agent_closed_bars ::
  "bool \<Rightarrow> instant \<Rightarrow> string \<Rightarrow> string \<Rightarrow> string \<Rightarrow> market_store \<Rightarrow> bar_entry list \<times> market_store" where
  "get_agent_closed_bars up now ag symbol timeframe st =
     (let smb = normalize_symbol symbol; tf = norm_timeframe timeframe
      in case dict_get3 (ms_agent_bars st) ag smb tf of
           Some es \<Rightarrow> (es, st)
         | None \<Rightarrow>
             (case redis_get up now (K_agent_bars ag smb tf) st of
                Some (V_bars es) \<Rightarrow> (es, st\<lparr>ms_agent_bars := dict_put3 ag smb tf es (ms_agent_bars st)\<rparr>)
              | _ \<Rightarrow> ([], st)))"


subsection \<open>Synthesised timeframes\<close>

text \<open>
  Prices are read as floats.  \<open>str(round(x, 2))\<close> denotes the nearest multiple of a cent, ties to the
  even cent (prices below \<open>10^13\<close>, whose shortest text has both decimals).  \<open>sum\<close> over floats is the
  compensated summation of Python 3.12.
\<close>

definition round_cents :: "rat \<Rightarrow> dec" where
  "round_cents x = of_int (rhe (x * 100)) / 100"

definition py_sum_step :: "rat \<times> rat \<Rightarrow> rat \<Rightarrow> rat \<times> rat" where
  "py_sum_step = (\<lambda>(s, c) x.
     (let t = f64 (s + x)
      in (t, if \<bar>x\<bar> \<le> \<bar>s\<bar> then f64 (c + f64 (f64 (s - t) + x)) else f64 (c + f64 (f64 (x - t) + s)))))"

definition py_float_sum :: "rat list \<Rightarrow> rat" where
  "py_float_sum xs = (let (s, c) = foldl py_sum_step (0, 0) xs in if c \<noteq> 0 then f64 (s + c) else s)"

definition bucket_seconds :: "string \<Rightarrow> int option" where
  "bucket_seconds = map_of [(''M30'', 1800), (''H1'', 3600), (''H4'', 14400), (''D1'', 86400)]"

definition bucket_of :: "int \<Rightarrow> instant \<Rightarrow> instant" where
  "bucket_of sec t = t - t mod (sec * 10 ^ 6)"

definition bucket_items :: "int \<Rightarrow> bar_entry list \<Rightarrow> instant \<Rightarrow> bar_entry list" where
  "bucket_items sec es k =
     sort_key be_open_time (filter (\<lambda>e. bucket_of sec (be_open_time e) = k) es)"

definition merge_bucket :: "instant \<Rightarrow> bar_entry list \<Rightarrow> bar_entry" where
  "merge_bucket k items =
     \<lparr>be_symbol = None, be_timeframe = None, be_open_time = k,
      be_close_time = be_close_time (last items),
      be_open = round_cents (f64 (be_open (hd items))),
      be_high = round_cents (Max (set (map (\<lambda>e. f64 (be_high e)) items))),
      be_low = round_cents (Min (set (map (\<lambda>e. f64 (be_low e)) items))),
      be_close = round_cents (f64 (be_close (last items))),
      be_volume = of_int (rhe (py_float_sum (map (\<lambda>e. f64 (be_volume e)) items)))\<rparr>"

definition merge_bars :: "int \<Rightarrow> bar_entry list \<Rightarrow> bar_entry list" where
  "merge_bars sec es =
     map (\<lambda>k. merge_bucket k (bucket_items sec es k))
       (sort (remdups (map (\<lambda>e. bucket_of sec (be_open_time e)) es)))"

text \<open>One of the parts a bar is split into.\<close>

definition split_part :: "nat \<Rightarrow> int \<Rightarrow> bar_entry \<Rightarrow> nat \<Rightarrow> bar_entry" where
  "split_part n step_minutes e j =
     (let op = f64 (be_open e); h = f64 (be_high e); l = f64 (be_low e); c = f64 (be_close e);
          vol = f64 (f64 (be_volume e) / of_nat n);
          start = be_open_time e + int j * step_minutes * 60 * 10 ^ 6;
          ratio = f64 (of_nat (j + 1) / of_nat n);
          prev = f64 (of_nat j / of_nat n);
          sub_o = f64 (op + f64 (f64 (c - op) * prev));
          sub_c = f64 (op + f64 (f64 (c - op) * ratio));
          wick = f64 (1 / 5);
          sub_h = f64 (max sub_o sub_c + f64 (f64 (h - max op c) * (if j = n div 2 then 1 else wick)));
          sub_l = f64 (min sub_o sub_c - f64 (f64 (min op c - l) * (if j = n div 4 then 1 else wick)))
      in \<lparr>be_symbol = None, be_timeframe = None, be_open_time = start,
          be_close_time = start + step_minutes * 60 * 10 ^ 6,
          be_open = round_cents sub_o,
          be_high = round_cents (max sub_h (max sub_o sub_c)),
          be_low = round_cents (min sub_l (min sub_o sub_c)),
          be_close = round_cents sub_c, be_volume = of_int (rhe vol)\<rparr>)"

definition split_bars :: "nat \<Rightarrow> int \<Rightarrow> bar_entry list \<Rightarrow> bar_entry list" where
  "split_bars n step_minutes es = concat (map (\<lambda>e. map (split_part n step_minutes e) [0..<n]) es)"

definition aggregate_bars :: "bar_entry list \<Rightarrow> string \<Rightarrow> bar_entry list" where
  "aggregate_bars es target =
     (let tf = norm_timeframe target
      in if es = [] then []
         else if tf = ''M15'' then es
         else case bucket_seconds tf of
                Some sec \<Rightarrow> merge_bars sec es
              | None \<Rightarrow>
                  if tf = ''M5'' then split_bars 3 5 es
                  else if tf = ''M1'' then split_bars 15 1 es
                  else es)"

text \<open>The first non-empty list for a symbol and timeframe among the accounts (or agents).\<close>

definition any_bars :: "string \<Rightarrow> string \<Rightarrow> bar_entry list dict3 \<Rightarrow> bar_entry list option" where
  "any_bars smb tf m =
     first_some (map (\<lambda>(_, d). case dict_get2 d smb tf of Some (e # es) \<Rightarrow> Some (e # es) | _ \<Rightarrow> None) m)"

text \<open>
  \<open>get_symbol_closed_bars\<close>: its cached or stored bars, and the wrapper that falls back to bars
  synthesised from M15, which it caches.  The recursive call asks for M15, which never recurses.
\<close>

definition symbol_bars_direct ::
  "bool \<Rightarrow> instant \<Rightarrow> string \<Rightarrow> string \<Rightarrow> market_store \<Rightarrow> bar_entry list option \<times> market_store" where
  "symbol_bars_direct up now smb tf st =
     (case dict_get2 (ms_symbol_bars st) smb tf of
        Some es \<Rightarrow> (Some es, st)
      | None \<Rightarrow>
          (case any_bars smb tf (ms_account_bars st) of
             Some es \<Rightarrow> (Some es, st)
           | None \<Rightarrow>
               (case any_bars smb tf (ms_agent_bars st) of
                  Some es \<Rightarrow> (Some es, st)
                | None \<Rightarrow>
                    (case redis_get up now (K_symbol_bars smb tf) st of
                       Some (V_bars es) \<Rightarrow>
                         (Some es, st\<lparr>ms_symbol_bars := dict_put2 smb tf es (ms_symbol_bars st)\<rparr>)
                     | _ \<Rightarrow> (None, st)))))"

definition get_symbol_closed_bars ::
  "bool \<Rightarrow> instant \<Rightarrow> string \<Rightarrow> string \<Rightarrow> market_store \<Rightarrow> bar_entry list \<times> market_store" where
  "get_symbol_closed_bars up now symbol timeframe st =
     (let smb = normalize_symbol symbol; tf = norm_timeframe timeframe
      in case symbol_bars_direct up now smb tf st of
           (Some es, st') \<Rightarrow> (es, st')
         | (None, st') \<Rightarrow>
             if tf = ''M15'' then ([], st')
             else
               (case symbol_bars_direct up now smb ''M15'' st' of
                  (Some (e # es), st'') \<Rightarrow>
                    (let synth = aggregate_bars (e # es) tf
                     in (synth, st''\<lparr>ms_symbol_bars := dict_put2 smb tf synth (ms_symbol_bars st'')\<rparr>))
                | (_, st'') \<Rightarrow> ([], st'')))"


subsection \<open>Stored bars\<close>

definition entry_ok :: "bar_entry \<Rightarrow> bool" where
  "entry_ok e \<longleftrightarrow> be_low e \<le> be_open e \<and> be_open e \<le> be_high e
     \<and> be_low e \<le> be_close e \<and> be_close e \<le> be_high e"

lemma entry_ok_bar: "entry_ok e \<Longrightarrow> ohlc_ok (bar_of_entry smb tf e)"
  by (simp add: entry_ok_def ohlc_ok_def bar_of_entry_def)

lemma round_cents_mono: "x \<le> y \<Longrightarrow> round_cents x \<le> round_cents y"
  unfolding round_cents_def by (intro divide_right_mono) (auto intro: rhe_mono mult_right_mono)

lemma set_dedup_bars: "set (dedup_bars seen bs) \<subseteq> set bs"
  by (induction bs arbitrary: seen) auto

lemma dedup_bars_times: "be_open_time ` set (dedup_bars seen bs) = be_open_time ` set bs - set seen"
  by (induction bs arbitrary: seen) (auto split: if_splits)

lemma dedup_bars_fresh: "b \<in> set (dedup_bars seen bs) \<Longrightarrow> be_open_time b \<notin> set seen"
  using dedup_bars_times [of seen bs] by blast

lemma dedup_bars_strict:
  "sorted (map be_open_time bs) \<Longrightarrow> sorted_wrt (\<lambda>b c. be_open_time b < be_open_time c) (dedup_bars seen bs)"
proof (induction bs arbitrary: seen)
  case (Cons b bs)
  have "be_open_time b < be_open_time c" if c: "c \<in> set (dedup_bars (be_open_time b # seen) bs)" for c
  proof -
    have "c \<in> set bs" using set_dedup_bars [of "be_open_time b # seen" bs] c by blast
    with Cons.prems have "be_open_time b \<le> be_open_time c" by simp
    with dedup_bars_fresh [OF c] show ?thesis by auto
  qed
  with Cons show ?case by simp
qed simp

lemma closed_bars_mem:
  assumes "e \<in> set (closed_bars_of_msg tp now m)"
  obtains b where "b \<in> set (bm_bars m)"
    "e = entry_of_bar tp now (normalize_symbol (bm_symbol m)) (norm_timeframe (bm_timeframe m))
           (case service_timeframe_seconds (norm_timeframe (bm_timeframe m)) of Some s \<Rightarrow> s | None \<Rightarrow> 900) b"
  using assms set_dedup_bars set_last_n_subset
  by (fastforce simp: closed_bars_of_msg_def Let_def split: if_splits)

lemma closed_bars_strict:
  "sorted_wrt (\<lambda>b c. be_open_time b < be_open_time c) (closed_bars_of_msg tp now m)"
  unfolding closed_bars_of_msg_def Let_def by (auto intro!: sorted_wrt_last_n dedup_bars_strict)

lemma closed_bars_length: "length (closed_bars_of_msg tp now m) \<le> 300"
  by (simp add: closed_bars_of_msg_def Let_def)

lemma entry_of_bar_ok: "bar_data_ok b \<Longrightarrow> entry_ok (entry_of_bar tp now smb tf sec b)"
  by (simp add: bar_data_ok_def entry_ok_def entry_of_bar_def Let_def)

lemma closed_bars_ok: "bars_ok m \<Longrightarrow> list_all entry_ok (closed_bars_of_msg tp now m)"
  by (auto simp: list_all_iff bars_ok_def intro: entry_of_bar_ok elim: closed_bars_mem)

subsection \<open>Aggregation\<close>

lemma merge_bucket_ok:
  assumes "items \<noteq> []" "list_all entry_ok items"
  shows "entry_ok (merge_bucket k items)"
proof -
  let ?H = "set (map (\<lambda>e. f64 (be_high e)) items)" and ?L = "set (map (\<lambda>e. f64 (be_low e)) items)"
  have ok: "entry_ok (hd items)" "entry_ok (last items)" using assms by (auto simp: list_all_iff)
  have mem: "hd items \<in> set items" "last items \<in> set items" using assms(1) by simp_all
  have hi: "x \<le> Max ?H" if "x \<le> f64 (be_high e)" "e \<in> set items" for x e
    by (rule order_trans [OF that(1)]) (use that(2) in simp)
  have lo: "Min ?L \<le> x" if "f64 (be_low e) \<le> x" "e \<in> set items" for x e
    by (rule order_trans [OF _ that(1)]) (use that(2) in simp)
  have b: "be_open (hd items) \<le> be_high (hd items)" "be_close (last items) \<le> be_high (last items)"
    "be_low (hd items) \<le> be_open (hd items)" "be_low (last items) \<le> be_close (last items)"
    using ok by (simp_all add: entry_ok_def)
  note hl = hi [OF fl.rd_mono [OF b(1)] mem(1)] hi [OF fl.rd_mono [OF b(2)] mem(2)]
    lo [OF fl.rd_mono [OF b(3)] mem(1)] lo [OF fl.rd_mono [OF b(4)] mem(2)]
  show ?thesis
    unfolding entry_ok_def merge_bucket_def bar_entry.simps
    by (intro conjI round_cents_mono) (rule hl)+
qed

lemma entry_ok_wicks:
  "entry_ok \<lparr>be_symbol = s, be_timeframe = tf, be_open_time = t1, be_close_time = t2,
     be_open = round_cents a, be_high = round_cents (max x (max a b)),
     be_low = round_cents (min y (min a b)), be_close = round_cents b, be_volume = v\<rparr>"
  by (auto simp: entry_ok_def intro!: round_cents_mono)

lemma split_part_ok: "entry_ok (split_part n k e j)"
  unfolding split_part_def Let_def by (rule entry_ok_wicks)

lemma set_bucket_items: "set (bucket_items sec es k) = {e \<in> set es. bucket_of sec (be_open_time e) = k}"
  by (auto simp: bucket_items_def)

lemma merge_bars_mem:
  assumes "b \<in> set (merge_bars sec es)"
  obtains e where "e \<in> set es" "be_open_time b = bucket_of sec (be_open_time e)"
    "b = merge_bucket (be_open_time b) (bucket_items sec es (be_open_time b))"
  using assms by (auto simp: merge_bars_def merge_bucket_def)

lemma merge_bars_ok:
  assumes "list_all entry_ok es" shows "list_all entry_ok (merge_bars sec es)"
proof -
  have "entry_ok b" if "b \<in> set (merge_bars sec es)" for b
  proof -
    from that obtain e where e: "e \<in> set es" "be_open_time b = bucket_of sec (be_open_time e)"
      "b = merge_bucket (be_open_time b) (bucket_items sec es (be_open_time b))" by (rule merge_bars_mem)
    have s: "set (bucket_items sec es (be_open_time b)) \<subseteq> set es" "e \<in> set (bucket_items sec es (be_open_time b))"
      using e by (auto simp: set_bucket_items)
    then have "bucket_items sec es (be_open_time b) \<noteq> []" "list_all entry_ok (bucket_items sec es (be_open_time b))"
      using assms by (auto simp: list_all_iff)
    with e(3) show ?thesis using merge_bucket_ok by metis
  qed
  then show ?thesis by (simp add: list_all_iff)
qed

lemma merge_bars_times:
  "map be_open_time (merge_bars sec es) = sort (remdups (map (\<lambda>e. bucket_of sec (be_open_time e)) es))"
  by (simp add: merge_bars_def merge_bucket_def comp_def)

lemma merge_bars_strict: "sorted_wrt (\<lambda>b c. be_open_time b < be_open_time c) (merge_bars sec es)"
proof -
  have "sorted_wrt (<) (map be_open_time (merge_bars sec es))"
    unfolding merge_bars_times by (simp add: strict_sorted_iff)
  then show ?thesis by (simp add: sorted_wrt_map)
qed

lemma bucket_of_spec:
  assumes "0 < sec"
  shows "sec * 10 ^ 6 dvd bucket_of sec t" "bucket_of sec t \<le> t" "t < bucket_of sec t + sec * 10 ^ 6"
proof -
  let ?m = "sec * 10 ^ 6"
  have "0 < ?m" using assms by simp
  from pos_mod_sign [OF this, of t] pos_mod_bound [OF this, of t]
  show "bucket_of sec t \<le> t" "t < bucket_of sec t + sec * 10 ^ 6" unfolding bucket_of_def by linarith+
  show "sec * 10 ^ 6 dvd bucket_of sec t" unfolding bucket_of_def by (rule dvd_minus_mod)
qed

lemma merge_covers:
  assumes "e \<in> set items"
  shows "be_low (merge_bucket k items) \<le> round_cents (f64 (be_low e))"
    "round_cents (f64 (be_high e)) \<le> be_high (merge_bucket k items)"
  using assms by (auto simp: merge_bucket_def intro!: round_cents_mono)

lemma bucket_seconds_pos: "bucket_seconds tf = Some sec \<Longrightarrow> 0 < sec \<and> tf \<noteq> ''M15''"
  by (auto simp: bucket_seconds_def split: if_splits)


subsection \<open>Operations of many accounts\<close>

datatype market_op =
    Op_tick bool instant string market_data_msg
  | Op_bars time_parser bool instant string bars_msg
  | Op_get_tick bool instant string
  | Op_get_bars bool instant string string
  | Op_get_symbol_bars bool instant string string
  | Op_get_agent_tick bool instant string string
  | Op_get_agent_bars bool instant string string string

fun market_step :: "string \<Rightarrow> market_op \<Rightarrow> market_store \<Rightarrow> market_store" where
  "market_step acc (Op_tick up now ag m) st = record_market_data up now ag acc m st"
| "market_step acc (Op_bars tp up now ag m) st = record_closed_bars tp up now ag acc m st"
| "market_step acc (Op_get_tick up now smb) st = snd (get_latest_market_data up now acc smb st)"
| "market_step acc (Op_get_bars up now smb tf) st = snd (get_stored_closed_bars up now acc smb tf st)"
| "market_step acc (Op_get_symbol_bars up now smb tf) st = snd (get_symbol_closed_bars up now smb tf st)"
| "market_step acc (Op_get_agent_tick up now ag smb) st = snd (get_latest_agent_market_data up now ag smb st)"
| "market_step acc (Op_get_agent_bars up now ag smb tf) st = snd (get_agent_closed_bars up now ag smb tf st)"

text \<open>What belongs to an account: its ticks and bars in memory and in Redis, and its bar manager.\<close>

record account_view =
  av_ticks :: "string \<Rightarrow> tick_entry option"
  av_bars :: "string \<Rightarrow> string \<Rightarrow> bar_entry list option"
  av_redis_ticks :: "string \<Rightarrow> (redis_value \<times> instant) option"
  av_redis_bars :: "string \<Rightarrow> string \<Rightarrow> (redis_value \<times> instant) option"
  av_manager :: "mtf_manager option"

definition account_view_of :: "string \<Rightarrow> market_store \<Rightarrow> account_view" where
  "account_view_of acc st =
     \<lparr>av_ticks = dict_get2 (ms_account_ticks st) acc, av_bars = dict_get3 (ms_account_bars st) acc,
      av_redis_ticks = (\<lambda>s. ms_redis st (K_account_tick acc s)),
      av_redis_bars = (\<lambda>s tf. ms_redis st (K_account_bars acc s tf)),
      av_manager = map_of (ms_managers st) acc\<rparr>"

lemma account_view_eq:
  "account_view_of acc st = account_view_of acc' st' \<longleftrightarrow>
     (\<forall>s. dict_get2 (ms_account_ticks st) acc s = dict_get2 (ms_account_ticks st') acc' s)
   \<and> (\<forall>s tf. dict_get3 (ms_account_bars st) acc s tf = dict_get3 (ms_account_bars st') acc' s tf)
   \<and> (\<forall>s. ms_redis st (K_account_tick acc s) = ms_redis st' (K_account_tick acc' s))
   \<and> (\<forall>s tf. ms_redis st (K_account_bars acc s tf) = ms_redis st' (K_account_bars acc' s tf))
   \<and> map_of (ms_managers st) acc = map_of (ms_managers st') acc'"
  by (simp add: account_view_of_def fun_eq_iff)

lemma redis_set_simps [simp]:
  "ms_account_ticks (redis_set up now ttl kvs st) = ms_account_ticks st"
  "ms_agent_ticks (redis_set up now ttl kvs st) = ms_agent_ticks st"
  "ms_account_bars (redis_set up now ttl kvs st) = ms_account_bars st"
  "ms_agent_bars (redis_set up now ttl kvs st) = ms_agent_bars st"
  "ms_symbol_bars (redis_set up now ttl kvs st) = ms_symbol_bars st"
  "ms_managers (redis_set up now ttl kvs st) = ms_managers st"
  by (simp_all add: redis_set_def)

lemma symbol_bars_directD:
  assumes "symbol_bars_direct up now smb tf st = (r, st')"
  obtains sb where "st' = st\<lparr>ms_symbol_bars := sb\<rparr>"
  using assms that [of "ms_symbol_bars st"]
  by (auto simp: symbol_bars_direct_def split: option.splits prod.splits redis_value.splits)

lemma get_symbol_view: "account_view_of acc (snd (get_symbol_closed_bars up now smb tf st)) = account_view_of acc st"
  by (auto simp: get_symbol_closed_bars_def Let_def account_view_of_def
      split: option.splits prod.splits list.splits elim!: symbol_bars_directD)

lemma map_of_get_bar_manager:
  assumes "get_bar_manager acc ms = Inr (m, ms')"
  shows "map_of ms' = (map_of ms)(acc \<mapsto> m)"
  using assms
  by (auto simp: get_bar_manager_def update_conv' map_upd_triv elim!: bind_res_InrE split: option.splits)

lemma seed_account_bars_other: "acc' \<noteq> acc \<Longrightarrow> map_of (seed_account_bars acc smb tf es ms) acc' = map_of ms acc'"
  by (auto simp: seed_account_bars_def update_conv' map_of_get_bar_manager split: sum.splits prod.splits)

lemma new_bar_manager_total: "\<exists>m. new_bar_manager = Inr m"
  by (simp add: new_bar_manager_def mtf_init_def bar_builder_init_def timeframe_seconds_def)

text \<open>The effect of the seeding on the account's own manager.\<close>

definition seeded :: "string \<Rightarrow> string \<Rightarrow> bar_entry list \<Rightarrow> mtf_manager option \<Rightarrow> mtf_manager option" where
  "seeded smb tf es mo =
     (if es = [] then mo
      else case (case mo of Some m \<Rightarrow> Inr m | None \<Rightarrow> new_bar_manager) of
             Inl _ \<Rightarrow> mo
           | Inr m \<Rightarrow> (case mtf_seed_closed_bars tf (map (bar_of_entry smb tf) es) m of
                         Inl _ \<Rightarrow> Some m | Inr m' \<Rightarrow> Some m'))"

lemma seed_account_bars_own: "map_of (seed_account_bars acc smb tf es ms) acc = seeded smb tf es (map_of ms acc)"
proof (cases "map_of ms acc")
  case None
  obtain m where new: "new_bar_manager = Inr m" using new_bar_manager_total by blast
  from None show ?thesis
    by (simp add: seed_account_bars_def seeded_def get_bar_manager_def new update_conv' split: sum.splits)
next
  case (Some m)
  then show ?thesis
    by (simp add: seed_account_bars_def seeded_def get_bar_manager_def update_conv' split: sum.splits)
qed

lemma view_record_tick:
  "account_view_of acc (record_market_data up now ag acc m st) =
     (let v = account_view_of acc st; e = tick_entry_of now ag acc m
      in v\<lparr>av_ticks := (av_ticks v)(te_symbol e \<mapsto> e),
           av_redis_ticks := (if up then (av_redis_ticks v)(te_symbol e \<mapsto> (V_tick e, now + 300 * 10 ^ 6))
                              else av_redis_ticks v)\<rparr>)"
  by (simp add: account_view_of_def record_market_data_def Let_def redis_set_def fun_eq_iff)

lemma view_record_bars:
  "account_view_of acc (record_closed_bars tp up now ag acc m st) =
     (let v = account_view_of acc st; es = closed_bars_of_msg tp now m;
          smb = normalize_symbol (bm_symbol m); tf = norm_timeframe (bm_timeframe m)
      in v\<lparr>av_bars := (av_bars v)(smb := (av_bars v smb)(tf \<mapsto> es)),
           av_redis_bars := (if up then (av_redis_bars v)(smb := (av_redis_bars v smb)(tf \<mapsto> (V_bars es, now + 86400 * 10 ^ 6)))
                             else av_redis_bars v),
           av_manager := seeded smb tf es (av_manager v)\<rparr>)"
  by (simp add: account_view_of_def record_closed_bars_def Let_def redis_set_def fun_eq_iff
      seed_account_bars_own)

definition redis_hit :: "bool \<Rightarrow> instant \<Rightarrow> (redis_value \<times> instant) option \<Rightarrow> redis_value option" where
  "redis_hit up now r = (case r of Some (v, expires) \<Rightarrow> if up \<and> now < expires then Some v else None | None \<Rightarrow> None)"

lemma redis_get_hit: "redis_get up now k st = redis_hit up now (ms_redis st k)"
  by (simp add: redis_get_def redis_hit_def)

lemma view_get_tick:
  "account_view_of acc (snd (get_latest_market_data up now acc symbol st)) =
     (let v = account_view_of acc st; smb = normalize_symbol symbol
      in case av_ticks v smb of Some e \<Rightarrow> v
         | None \<Rightarrow> (case redis_hit up now (av_redis_ticks v smb) of
                      Some (V_tick e) \<Rightarrow> v\<lparr>av_ticks := (av_ticks v)(smb \<mapsto> e)\<rparr> | _ \<Rightarrow> v))"
  by (simp add: account_view_of_def get_latest_market_data_def Let_def redis_get_hit fun_eq_iff
      split: option.splits redis_value.splits)

lemma view_get_bars:
  "account_view_of acc (snd (get_stored_closed_bars up now acc symbol timeframe st)) =
     (let v = account_view_of acc st; smb = normalize_symbol symbol; tf = norm_timeframe timeframe
      in case av_bars v smb tf of Some e \<Rightarrow> v
         | None \<Rightarrow> (case redis_hit up now (av_redis_bars v smb tf) of
                      Some (V_bars es) \<Rightarrow> v\<lparr>av_bars := (av_bars v)(smb := (av_bars v smb)(tf \<mapsto> es))\<rparr> | _ \<Rightarrow> v))"
  by (simp add: account_view_of_def get_stored_closed_bars_def Let_def redis_get_hit fun_eq_iff
      split: option.splits redis_value.splits)

lemma view_agent_reads:
  "account_view_of acc (snd (get_latest_agent_market_data up now ag smb st)) = account_view_of acc st"
  "account_view_of acc (snd (get_agent_closed_bars up now ag smb tf st)) = account_view_of acc st"
  by (simp_all add: account_view_of_def get_latest_agent_market_data_def get_agent_closed_bars_def Let_def
      split: option.splits redis_value.splits)

lemmas own_view_rules = view_record_tick view_record_bars view_get_tick view_get_bars view_agent_reads
  get_symbol_view

lemma market_isolated: "k' \<noteq> k \<Longrightarrow> account_view_of k' (market_step k op st) = account_view_of k' st"
  by (cases op)
     (simp_all add: get_symbol_view view_agent_reads account_view_eq record_market_data_def
       record_closed_bars_def Let_def redis_set_def get_latest_market_data_def get_stored_closed_bars_def
       seed_account_bars_other split: option.splits redis_value.splits)

interpretation tenant_market: tenant_store market_step account_view_of "\<lambda>_. True" "\<lambda>_ _ _. True"
proof (unfold_locales, goal_cases)
  case (2 s k' k op)
  then show ?case by (simp add: market_isolated)
next
  case (3 s s' k op)
  then show ?case by (cases op) (simp_all add: own_view_rules)
qed simp


lemma get_tick_view:
  "fst (get_latest_market_data up now acc symbol st) =
     (let v = account_view_of acc st; smb = normalize_symbol symbol
      in case av_ticks v smb of Some e \<Rightarrow> Some e
         | None \<Rightarrow> (case redis_hit up now (av_redis_ticks v smb) of Some (V_tick e) \<Rightarrow> Some e | _ \<Rightarrow> None))"
  by (simp add: account_view_of_def get_latest_market_data_def Let_def redis_get_hit
      split: option.splits redis_value.splits)

lemma get_bars_view:
  "fst (get_stored_closed_bars up now acc symbol timeframe st) =
     (let v = account_view_of acc st; smb = normalize_symbol symbol; tf = norm_timeframe timeframe
      in case av_bars v smb tf of Some e \<Rightarrow> e
         | None \<Rightarrow> (case redis_hit up now (av_redis_bars v smb tf) of Some (V_bars e) \<Rightarrow> e | _ \<Rightarrow> []))"
  by (simp add: account_view_of_def get_stored_closed_bars_def Let_def redis_get_hit
      split: option.splits redis_value.splits)

lemma xauusd_normal [simp]: "normalize_symbol ''XAUUSD'' = ''XAUUSD''"
  by code_simp

lemma m15_normal [simp]: "norm_timeframe ''M15'' = ''M15''"
  by code_simp

lemma stored_after_record:
  assumes "bars_ok m"
  shows "fst (get_stored_closed_bars up' now' acc ''XAUUSD'' ''M15'' (record_closed_bars tp up now ag acc m st))
     = closed_bars_of_msg tp now m"
  using assms by (simp add: get_bars_view view_record_bars Let_def bars_ok_def)

lemma merge_bars_unique:
  assumes "0 < sec" "e \<in> set es" "list_all entry_ok es"
  shows "\<exists>!b. b \<in> set (merge_bars sec es) \<and> be_open_time b \<le> be_open_time e
           \<and> be_open_time e < be_open_time b + sec * 10 ^ 6"
    and "\<And>b. b \<in> set (merge_bars sec es) \<Longrightarrow> be_open_time b = bucket_of sec (be_open_time e) \<Longrightarrow>
           be_low b \<le> round_cents (f64 (be_low e)) \<and> round_cents (f64 (be_high e)) \<le> be_high b"
proof -
  let ?k = "bucket_of sec (be_open_time e)" and ?m = "sec * 10 ^ 6"
  have aligned: "be_open_time b = ?k"
    if "b \<in> set (merge_bars sec es)" "be_open_time b \<le> be_open_time e" "be_open_time e < be_open_time b + ?m" for b
  proof -
    from that(1) obtain e' :: bar_entry where "be_open_time b = bucket_of sec (be_open_time e')"
      by (rule merge_bars_mem) blast
    then have "be_open_time b mod ?m = 0" using bucket_of_spec(1) [OF assms(1)] by (simp add: mod_eq_0_iff_dvd)
    then obtain q where q: "be_open_time b = ?m * q" by (auto simp: mod_eq_0_iff_dvd)
    have "be_open_time e div ?m = q"
      by (rule int_div_pos_eq [where r = "be_open_time e - ?m * q"]) (use that(2,3) q in simp_all)
    with q show ?thesis by (simp add: bucket_of_def minus_mod_eq_mult_div)
  qed
  have inj: "b = merge_bucket (be_open_time b) (bucket_items sec es (be_open_time b))"
    if "b \<in> set (merge_bars sec es)" for b
    using that by (auto simp: merge_bars_def merge_bucket_def)
  let ?B = "merge_bucket ?k (bucket_items sec es ?k)"
  have B: "?B \<in> set (merge_bars sec es)" "be_open_time ?B = ?k"
    using assms(2) by (auto simp: merge_bars_def merge_bucket_def)
  show "\<exists>!b. b \<in> set (merge_bars sec es) \<and> be_open_time b \<le> be_open_time e
           \<and> be_open_time e < be_open_time b + ?m"
  proof (intro ex1I conjI)
    show "?B \<in> set (merge_bars sec es)" by (rule B(1))
    show "be_open_time ?B \<le> be_open_time e" "be_open_time e < be_open_time ?B + ?m"
      unfolding B(2) by (rule bucket_of_spec(2,3) [OF assms(1)])+
  next
    fix b assume b: "b \<in> set (merge_bars sec es) \<and> be_open_time b \<le> be_open_time e
           \<and> be_open_time e < be_open_time b + ?m"
    then have "be_open_time b = ?k" by (intro aligned) simp_all
    with inj b show "b = ?B" by metis
  qed
  fix b assume b: "b \<in> set (merge_bars sec es)" "be_open_time b = ?k"
  have "e \<in> set (bucket_items sec es ?k)" using assms(2) by (simp add: set_bucket_items)
  from merge_covers [OF this, of ?k] inj [OF b(1)] b(2)
  show "be_low b \<le> round_cents (f64 (be_low e)) \<and> round_cents (f64 (be_high e)) \<le> be_high b" by metis
qed

text \<open>A cached symbol list stays as it is until bars of its own timeframe are recorded.\<close>

definition only_m15 :: "string \<times> market_op \<Rightarrow> bool" where
  "only_m15 = (\<lambda>(acc, op). case op of Op_bars tp up now ag m \<Rightarrow> bars_ok m | _ \<Rightarrow> True)"

lemma symbol_cache_hit:
  "dict_get2 (ms_symbol_bars st) (normalize_symbol symbol) (norm_timeframe tf) = Some es \<Longrightarrow>
     get_symbol_closed_bars up now symbol tf st = (es, st)"
  by (simp add: get_symbol_closed_bars_def Let_def symbol_bars_direct_def)

lemma symbol_bars_direct_keeps:
  assumes "symbol_bars_direct up now smb tf st = (r, st')" "dict_get2 (ms_symbol_bars st) s t = Some es"
  shows "dict_get2 (ms_symbol_bars st') s t = Some es"
  using assms by (auto simp: symbol_bars_direct_def split: option.splits redis_value.splits)

lemma direct_none:
  "symbol_bars_direct up now smb tf st = (None, st') \<Longrightarrow> dict_get2 (ms_symbol_bars st) smb tf = None \<and> st' = st"
  by (auto simp: symbol_bars_direct_def split: option.splits redis_value.splits)

lemma get_symbol_keeps:
  assumes "dict_get2 (ms_symbol_bars st) s t = Some es"
  shows "dict_get2 (ms_symbol_bars (snd (get_symbol_closed_bars up now smb tf st))) s t = Some es"
  using assms
  by (auto simp: get_symbol_closed_bars_def Let_def split: option.splits prod.splits list.splits
      dest!: direct_none dest: symbol_bars_direct_keeps)

lemma market_step_keeps_symbol:
  assumes "dict_get2 (ms_symbol_bars st) s t = Some es" "t \<noteq> ''M15''" "only_m15 (acc, op)"
  shows "dict_get2 (ms_symbol_bars (market_step acc op st)) s t = Some es"
  using assms
  by (cases op)
     (auto simp: only_m15_def get_symbol_keeps record_market_data_def record_closed_bars_def Let_def bars_ok_def
       get_latest_market_data_def get_stored_closed_bars_def get_latest_agent_market_data_def
       get_agent_closed_bars_def split: option.splits redis_value.splits)

lemma run_keeps_symbol:
  assumes "dict_get2 (ms_symbol_bars st) s t = Some es" "t \<noteq> ''M15''" "list_all only_m15 ops"
  shows "dict_get2 (ms_symbol_bars (run_ops market_step ops st)) s t = Some es"
  using assms
proof (induction ops arbitrary: st)
  case (Cons o1 ops)
  obtain a op where "o1 = (a, op)" by (cases o1)
  with Cons show ?case by (simp add: market_step_keeps_symbol)
qed simp


subsection \<open>Properties\<close>

text \<open>C22: the bars stored from a validated message are at most 300 well-formed bars in strictly
  ascending time order, and each timeframe synthesised from them consists of well-formed bars; for
  M30, H1, H4 and D1 these are aligned and strictly ascending, and every stored bar falls in exactly
  one of them, whose range covers the bar's range rounded to cents.\<close>

theorem stored_bars_sound:
  assumes "bars_ok m"
    and "es = fst (get_stored_closed_bars up' now' acc ''XAUUSD'' ''M15'' (record_closed_bars tp up now ag acc m st))"
  shows "length es \<le> 300 \<and> list_all entry_ok es
    \<and> sorted_wrt (\<lambda>b c. be_open_time b < be_open_time c) es
    \<and> list_all entry_ok (aggregate_bars es tf)
    \<and> (\<forall>sec. bucket_seconds (norm_timeframe tf) = Some sec \<longrightarrow>
         sorted_wrt (\<lambda>b c. be_open_time b < be_open_time c) (aggregate_bars es tf)
       \<and> (\<forall>b \<in> set (aggregate_bars es tf). sec * 10 ^ 6 dvd be_open_time b)
       \<and> (\<forall>e \<in> set es. \<exists>!b. b \<in> set (aggregate_bars es tf) \<and> be_open_time b \<le> be_open_time e
            \<and> be_open_time e < be_open_time b + sec * 10 ^ 6)
       \<and> (\<forall>e \<in> set es. \<forall>b \<in> set (aggregate_bars es tf). be_open_time b = bucket_of sec (be_open_time e) \<longrightarrow>
            be_low b \<le> round_cents (f64 (be_low e)) \<and> round_cents (f64 (be_high e)) \<le> be_high b))"
proof -
  have es: "es = closed_bars_of_msg tp now m" using assms by (simp add: stored_after_record)
  have ok: "list_all entry_ok es" unfolding es by (rule closed_bars_ok [OF assms(1)])
  have agg: "list_all entry_ok (aggregate_bars es tf)"
    using merge_bars_ok [OF ok] ok
    by (auto simp: aggregate_bars_def Let_def split_bars_def list_all_iff split_part_ok split: option.splits)
  have big: "sorted_wrt (\<lambda>b c. be_open_time b < be_open_time c) (aggregate_bars es tf)
       \<and> (\<forall>b \<in> set (aggregate_bars es tf). sec * 10 ^ 6 dvd be_open_time b)
       \<and> (\<forall>e \<in> set es. \<exists>!b. b \<in> set (aggregate_bars es tf) \<and> be_open_time b \<le> be_open_time e
            \<and> be_open_time e < be_open_time b + sec * 10 ^ 6)
       \<and> (\<forall>e \<in> set es. \<forall>b \<in> set (aggregate_bars es tf). be_open_time b = bucket_of sec (be_open_time e) \<longrightarrow>
            be_low b \<le> round_cents (f64 (be_low e)) \<and> round_cents (f64 (be_high e)) \<le> be_high b)"
    if sec: "bucket_seconds (norm_timeframe tf) = Some sec" for sec
  proof (cases "es = []")
    case True
    then show ?thesis by (simp add: aggregate_bars_def Let_def)
  next
    case False
    have pos: "0 < sec" "norm_timeframe tf \<noteq> ''M15''" using bucket_seconds_pos [OF sec] by simp_all
    with False sec have eq: "aggregate_bars es tf = merge_bars sec es"
      by (simp add: aggregate_bars_def Let_def)
    have "sec * 10 ^ 6 dvd be_open_time b" if "b \<in> set (merge_bars sec es)" for b
      using bucket_of_spec(1) [OF pos(1)] that by (auto elim!: merge_bars_mem)
    then show ?thesis
      unfolding eq using merge_bars_unique [OF pos(1) _ ok] merge_bars_strict by blast
  qed
  have "length es \<le> 300" "sorted_wrt (\<lambda>b c. be_open_time b < be_open_time c) es"
    unfolding es by (rule closed_bars_length closed_bars_strict)+
  with ok agg big show ?thesis by simp
qed

definition demo_times :: time_parser where
  "demo_times = \<lparr>tp_fromisoformat = (\<lambda>_. None),
     tp_strptime = (\<lambda>s. if s = ''2026-09-11 07:15:00'' then Some 1789110900000000 else None)\<rparr>"

definition demo_bars_msg :: bars_msg where
  "demo_bars_msg = \<lparr>bm_symbol = ''XAUUSD'', bm_timeframe = ''M15'', bm_bars =
     [\<lparr>bd_time = ''2026.09.11 07:15:00'', bd_open = 2000, bd_high = 2004, bd_low = 1999,
       bd_close = 2003, bd_tick_volume = 7\<rparr>]\<rparr>"

lemma demo_bars_ok: "bars_ok demo_bars_msg"
  by (simp add: bars_ok_def demo_bars_msg_def bar_data_ok_def)

theorem stored_bars_sound_witness:
  "length (fst (get_stored_closed_bars True 0 ''A'' ''XAUUSD'' ''M15''
     (record_closed_bars demo_times True 0 ''agent'' ''A'' demo_bars_msg empty_store))) \<le> 300"
  using stored_bars_sound [OF demo_bars_ok refl] by blast

text \<open>an account reads back the tick it recorded last, from memory, and after a restart of the
  process from Redis for 300 seconds; then, or without Redis, it has no data.\<close>

theorem latest_tick_roundtrip:
  assumes "normalize_symbol symbol = normalize_symbol (mm_symbol m)"
  shows "fst (get_latest_market_data up' now' acc symbol (record_market_data up now ag acc m st))
      = Some (tick_entry_of now ag acc m)
    \<and> fst (get_latest_market_data up' now' acc symbol (clear_local_cache (record_market_data True now ag acc m st)))
      = (if up' \<and> now' < now + 300 * 10 ^ 6 then Some (tick_entry_of now ag acc m) else None)"
proof -
  have "av_ticks (account_view_of acc (clear_local_cache s)) = (\<lambda>_. None)"
    "av_redis_ticks (account_view_of acc (clear_local_cache s)) = av_redis_ticks (account_view_of acc s)" for s
    by (simp_all add: account_view_of_def clear_local_cache_def fun_eq_iff)
  then show ?thesis
    using assms by (simp add: get_tick_view view_record_tick Let_def redis_hit_def tick_entry_of_def)
qed

definition demo_tick_msg :: market_data_msg where
  "demo_tick_msg = \<lparr>mm_symbol = ''XAUUSD.M'', mm_bid = 2000, mm_ask = 2001, mm_spread = 1,
     mm_point = 1 / 100, mm_digits = 2, mm_tick_time = ''2026.09.11 07:15:00'', mm_tick_volume = 1,
     mm_timestamp = None\<rparr>"

theorem latest_tick_roundtrip_witness:
  "fst (get_latest_market_data True 5 ''A'' ''XAUUSD''
     (clear_local_cache (record_market_data True 0 ''agent'' ''A'' demo_tick_msg empty_store)))
   = Some (tick_entry_of 0 ''agent'' ''A'' demo_tick_msg)"
proof -
  have "normalize_symbol ''XAUUSD'' = normalize_symbol (mm_symbol demo_tick_msg)" by code_simp
  from latest_tick_roundtrip [OF this, where up' = True and now' = 5 and now = 0 and st = empty_store]
  show ?thesis by simp
qed

text \<open>C21: what an account reads, its latest tick and its stored bars, is the outcome of the
  operations recorded under that account alone, whatever the operations of other accounts in
  between.\<close>

theorem accounts_do_not_interfere:
  "fst (get_latest_market_data up now acc symbol (run_ops market_step ops st)) =
     fst (get_latest_market_data up now acc symbol
       (run_ops market_step (filter (\<lambda>(a, op). a = acc) ops) st))
   \<and> fst (get_stored_closed_bars up now acc symbol tf (run_ops market_step ops st)) =
     fst (get_stored_closed_bars up now acc symbol tf
       (run_ops market_step (filter (\<lambda>(a, op). a = acc) ops) st))"
  using tenant_market.noninterference [where s = st and ops = ops and k = acc] by (simp add: get_tick_view get_bars_view)

text \<open>bars of another timeframe synthesised from M15 are cached for good: no later operation, new
  M15 bars included, changes what \<open>get_symbol_closed_bars\<close> returns for that timeframe.\<close>

theorem synthesised_bars_frozen:
  assumes "norm_timeframe tf \<noteq> ''M15''"
    and "symbol_bars_direct up now (normalize_symbol symbol) (norm_timeframe tf) st = (None, st)"
    and "get_symbol_closed_bars up now symbol tf st = (es, st')" "es \<noteq> []"
    and "list_all only_m15 ops"
  shows "fst (get_symbol_closed_bars up' now' symbol tf (run_ops market_step ops st')) = es"
proof -
  have "dict_get2 (ms_symbol_bars st') (normalize_symbol symbol) (norm_timeframe tf) = Some es"
    using assms(1-4)
    by (auto simp: get_symbol_closed_bars_def Let_def split: option.splits prod.splits list.splits)
  from run_keeps_symbol [OF this assms(1,5)] show ?thesis by (simp add: symbol_cache_hit)
qed

definition demo_later_msg :: bars_msg where
  "demo_later_msg = demo_bars_msg\<lparr>bm_bars := []\<rparr>"

theorem synthesised_bars_frozen_witness:
  "fst (get_symbol_closed_bars False 9 ''XAUUSD'' ''H1''
     (run_ops market_step [(''A'', Op_bars demo_times False 5 ''agent'' demo_later_msg)]
       (snd (get_symbol_closed_bars False 1 ''XAUUSD'' ''H1''
         (record_closed_bars demo_times False 0 ''agent'' ''A'' demo_bars_msg empty_store))))) \<noteq> []"
proof -
  let ?st = "record_closed_bars demo_times False 0 ''agent'' ''A'' demo_bars_msg empty_store"
  have n: "norm_timeframe ''H1'' = ''H1''" by code_simp
  let ?e = "closed_bars_of_msg demo_times 0 demo_bars_msg"
  have ne: "?e \<noteq> []"
    by (simp add: closed_bars_of_msg_def demo_bars_msg_def Let_def)
  have m15: "dict_get2 (ms_symbol_bars ?st) ''XAUUSD'' ''M15'' = Some ?e"
    and direct: "symbol_bars_direct False 1 ''XAUUSD'' ''H1'' ?st = (None, ?st)"
    by (simp_all add: record_closed_bars_def Let_def demo_bars_msg_def empty_store_def symbol_bars_direct_def
        any_bars_def dict_put3_def dict_put2_def dict_get2_def redis_get_def redis_set_def)
  from ne obtain e0 es0 where cons: "?e = e0 # es0" by (cases ?e) auto
  let ?es = "aggregate_bars ?e ''H1''"
  have agg: "?es \<noteq> []"
  proof -
    have "set (map be_open_time (merge_bars 3600 ?e)) \<noteq> {}" unfolding merge_bars_times using cons by auto
    then have "merge_bars 3600 ?e \<noteq> []" by auto
    then show ?thesis using cons by (simp add: aggregate_bars_def n bucket_seconds_def)
  qed
  have "fst (get_symbol_closed_bars False 1 ''XAUUSD'' ''H1'' ?st) = ?es"
    using direct m15 cons by (simp add: get_symbol_closed_bars_def n Let_def symbol_bars_direct_def)
  then have g: "get_symbol_closed_bars False 1 ''XAUUSD'' ''H1'' ?st
      = (?es, snd (get_symbol_closed_bars False 1 ''XAUUSD'' ''H1'' ?st))" by (simp add: prod_eq_iff)
  have "list_all only_m15 [(''A'', Op_bars demo_times False 5 ''agent'' demo_later_msg)]"
    by (simp add: only_m15_def demo_later_msg_def bars_ok_def demo_bars_msg_def)
  from synthesised_bars_frozen [OF _ _ g agg this] direct n agg show ?thesis by simp
qed

end
