(* ===== verification/Agent_Link.thy ===== *)
theory Agent_Link
  imports Market_Data_Service
begin

section \<open>Agent link (\<open>backend/api/v1/agent_ws.py\<close>, \<open>backend/ws/agent_manager.py\<close>, \<open>backend/api/v1/agent_commands.py\<close>)\<close>

text \<open>
  The channel between the backend and the agents: the registry of live connections, the WebSocket
  endpoint (authentication, message loop, delivery of queued commands) and the REST endpoints for
  the same commands.  A socket is a number, fresh for each connection.  Whether a send succeeds is
  an oracle over the socket and the number of messages already sent; the log holds the messages
  handed over.  An operation reads the clock once.  A handler is one atomic step, except that a
  delivery scheduled by a REST call is an event of its own.  The password check, the size of a
  serialised payload and the JSON codec are fields of the environment.  The per-agent lock around a
  send orders sends only and is left out, as are logging and the response bodies.
\<close>

datatype server_message =
    WELCOME
  | HEARTBEAT_ACK
  | COMMAND string string "json json_dict option"
  | ERROR string

record agent_manager =
  am_active :: "(string \<times> nat) list"
  am_closed :: "nat list"
  am_log :: "(nat \<times> server_message) list"

record link_env =
  le_now :: instant
  le_up :: "nat \<Rightarrow> nat \<Rightarrow> bool"
  le_redis :: bool
  le_codec :: "json json_codec"
  le_reading :: "json json_reading"
  le_conv :: conversions
  le_times :: time_parser
  le_verify :: "string \<Rightarrow> string \<Rightarrow> bool"
  le_size :: "json json_dict \<Rightarrow> nat"
  le_fresh :: string

record link_state =
  lk_db :: link_db
  lk_exec :: exec_db
  lk_market :: market_store
  lk_manager :: agent_manager

subsection \<open>Connections\<close>

definition am_connect :: "string \<Rightarrow> nat \<Rightarrow> agent_manager \<Rightarrow> agent_manager" where
  "am_connect ag ws m =
     (let m' = (case map_of (am_active m) ag of
                  Some old \<Rightarrow> if old \<noteq> ws then m\<lparr>am_closed := am_closed m @ [old]\<rparr> else m
                | None \<Rightarrow> m)
      in m'\<lparr>am_active := AList.update ag ws (am_active m')\<rparr>)"

definition am_disconnect :: "string \<Rightarrow> nat \<Rightarrow> agent_manager \<Rightarrow> agent_manager" where
  "am_disconnect ag ws m =
     (if map_of (am_active m) ag = Some ws then m\<lparr>am_active := AList.delete ag (am_active m)\<rparr> else m)"

definition am_is_connected :: "string \<Rightarrow> agent_manager \<Rightarrow> bool" where
  "am_is_connected ag m \<longleftrightarrow> map_of (am_active m) ag \<noteq> None"

definition am_connection_count :: "agent_manager \<Rightarrow> nat" where
  "am_connection_count m = length (am_active m)"

text \<open>A direct send on the endpoint's own socket; \<open>False\<close> is an exception.\<close>

definition ws_send :: "link_env \<Rightarrow> nat \<Rightarrow> server_message \<Rightarrow> agent_manager \<Rightarrow> bool \<times> agent_manager" where
  "ws_send env ws msg m =
     (if le_up env ws (length (am_log m)) then (True, m\<lparr>am_log := am_log m @ [(ws, msg)]\<rparr>) else (False, m))"

definition am_send_json :: "link_env \<Rightarrow> string \<Rightarrow> server_message \<Rightarrow> agent_manager \<Rightarrow> bool \<times> agent_manager" where
  "am_send_json env ag msg m =
     (case map_of (am_active m) ag of
        None \<Rightarrow> (False, m)
      | Some ws \<Rightarrow>
          (case ws_send env ws msg m of
             (True, m') \<Rightarrow> (True, m')
           | (False, m') \<Rightarrow> (False, am_disconnect ag ws m')))"

subsection \<open>Authentication\<close>

definition bearer_secret :: "string \<Rightarrow> string option" where
  "bearer_secret h =
     (if take 7 h = ''Bearer '' \<and> py_strip (drop 7 h) \<noteq> [] then Some (py_strip (drop 7 h)) else None)"

definition extract_agent_secret :: "string option \<Rightarrow> string option \<Rightarrow> string option" where
  "extract_agent_secret header token =
     (case Option.bind header bearer_secret of
        Some s \<Rightarrow> Some s
      | None \<Rightarrow> (case token of Some t \<Rightarrow> if t = [] then None else Some (py_strip t) | None \<Rightarrow> None))"

text \<open>The agent joined with its account: the agent and the account's user.\<close>

definition agent_with_owner :: "string \<Rightarrow> link_db \<Rightarrow> (agent_row \<times> string) option" where
  "agent_with_owner ag db =
     Option.bind (find (\<lambda>a. ag_id a = ag) (ld_agents db)) (\<lambda>a.
       map_option (\<lambda>u. (a, u)) (map_of (ld_accounts db) (ag_account_id a)))"

definition authenticate_agent :: "link_env \<Rightarrow> string \<Rightarrow> string \<Rightarrow> link_db \<Rightarrow> (agent_row \<times> string) option" where
  "authenticate_agent env agent_id secret db =
     Option.bind (cv_uuid (le_conv env) agent_id) (\<lambda>u.
       case agent_with_owner u db of
         Some (a, user) \<Rightarrow> if le_verify env secret (ag_hashed_secret a) then Some (a, user) else None
       | None \<Rightarrow> None)"

subsection \<open>Delivery\<close>

definition revert_delivery :: "string \<Rightarrow> link_db \<Rightarrow> link_db" where
  "revert_delivery cid db =
     (case find (\<lambda>c. ac_id c = cid) (ld_commands db) of
        Some c \<Rightarrow>
          if ac_status c = AC_SENT then put_command (c\<lparr>ac_status := AC_PENDING, ac_sent_at := None\<rparr>) db else db
      | None \<Rightarrow> db)"

definition command_message :: "json json_codec \<Rightarrow> agent_command \<Rightarrow> server_message" where
  "command_message j c =
     COMMAND (ac_id c) (ac_command_type c)
       (case ac_payload_json c of Some s \<Rightarrow> if s = [] then None else jc_loads j s | None \<Rightarrow> None)"

fun deliver_each ::
  "link_env \<Rightarrow> string \<Rightarrow> agent_command list \<Rightarrow> link_db \<Rightarrow> agent_manager \<Rightarrow> nat \<times> link_db \<times> agent_manager" where
  "deliver_each env ag [] db m = (0, db, m)"
| "deliver_each env ag (c # cs) db m =
     (case am_send_json env ag (command_message (le_codec env) c) m of
        (True, m') \<Rightarrow> (case deliver_each env ag cs db m' of (n, db', m'') \<Rightarrow> (Suc n, db', m''))
      | (False, m') \<Rightarrow> (0, revert_delivery (ac_id c) db, m'))"

definition deliver_pending_commands ::
  "link_env \<Rightarrow> actor \<Rightarrow> string \<Rightarrow> link_db \<Rightarrow> agent_manager \<Rightarrow> nat \<times> link_db \<times> agent_manager" where
  "deliver_pending_commands env who ag db m =
     (let (claimed, db') = claim_pending_commands (le_now env) who ag 10 db
      in deliver_each env ag claimed db' m)"

definition deliver_step :: "link_env \<Rightarrow> actor \<Rightarrow> string \<Rightarrow> link_state \<Rightarrow> link_state" where
  "deliver_step env who ag st =
     (case deliver_pending_commands env who ag (lk_db st) (lk_manager st) of
        (_, db, m) \<Rightarrow> st\<lparr>lk_db := db, lk_manager := m\<rparr>)"

subsection \<open>The WebSocket endpoint\<close>

record ws_session =
  wn_agent :: string
  wn_account :: string
  wn_user :: string
  wn_socket :: nat

definition session_actor :: "ws_session \<Rightarrow> actor" where
  "session_actor s = (Some (wn_user s), Some (wn_account s))"

definition put_agent :: "string \<Rightarrow> (agent_row \<Rightarrow> agent_row) \<Rightarrow> link_db \<Rightarrow> link_db" where
  "put_agent ag f db = db\<lparr>ld_agents := map (\<lambda>a. if ag_id a = ag then f a else a) (ld_agents db)\<rparr>"

datatype close_code = INVALID_AGENT_ID | AUTHENTICATION_REQUIRED | AUTHENTICATION_FAILED

definition seen_connected :: "instant \<Rightarrow> agent_row \<Rightarrow> agent_row" where
  "seen_connected now a = a\<lparr>ag_last_seen_at := Some now, ag_last_known_status := ''CONNECTED''\<rparr>"

definition ws_accept ::
  "link_env \<Rightarrow> string \<Rightarrow> string option \<Rightarrow> string option \<Rightarrow> nat \<Rightarrow> link_state
     \<Rightarrow> (close_code + ws_session) \<times> link_state" where
  "ws_accept env agent_id header token ws st =
     (case cv_uuid (le_conv env) agent_id of
        None \<Rightarrow> (Inl INVALID_AGENT_ID, st)
      | Some u \<Rightarrow>
          (case extract_agent_secret header token of
             None \<Rightarrow> (Inl AUTHENTICATION_REQUIRED, st)
           | Some secret \<Rightarrow>
               if secret = [] then (Inl AUTHENTICATION_REQUIRED, st)
               else
                 (case authenticate_agent env agent_id secret (lk_db st) of
                    None \<Rightarrow> (Inl AUTHENTICATION_FAILED, st)
                  | Some (a, user) \<Rightarrow>
                      let db = add_link_audit u (Some user, Some (ag_account_id a)) (AGENT_CONNECTED (ag_label a))
                                 (put_agent u (seen_connected (le_now env)) (lk_db st));
                          s = \<lparr>wn_agent = u, wn_account = ag_account_id a, wn_user = user, wn_socket = ws\<rparr>
                      in (Inr s, deliver_step env (session_actor s) u
                                   (st\<lparr>lk_db := db, lk_manager := am_connect u ws (lk_manager st)\<rparr>)))))"

text \<open>Sending on the endpoint's socket: the loop goes on if it succeeds.\<close>

definition reply :: "link_env \<Rightarrow> ws_session \<Rightarrow> server_message \<Rightarrow> link_state \<Rightarrow> bool \<times> link_state" where
  "reply env s msg st =
     (case ws_send env (wn_socket s) msg (lk_manager st) of (ok, m) \<Rightarrow> (ok, st\<lparr>lk_manager := m\<rparr>))"

definition truthy_or :: "string option \<Rightarrow> string option \<Rightarrow> string option" where
  "truthy_or v old = (case v of Some x \<Rightarrow> if x = [] then old else v | None \<Rightarrow> old)"

definition agent_seen :: "instant \<Rightarrow> version_fields \<Rightarrow> agent_row \<Rightarrow> agent_row" where
  "agent_seen now vf a =
     (seen_connected now a)\<lparr>ag_mt5_version := truthy_or (vf_mt5_version vf) (ag_mt5_version a),
        ag_ea_version := truthy_or (vf_ea_version vf) (ag_ea_version a)\<rparr>"

definition dict_of :: "json_object \<Rightarrow> json json_dict" where
  "dict_of kvs = (\<lambda>k. case map_of kvs k of Some J_null \<Rightarrow> None | v \<Rightarrow> v)"

fun status_text :: "agent_status \<Rightarrow> string" where
  "status_text AC_PENDING = ''PENDING''"
| "status_text AC_SENT = ''SENT''"
| "status_text AC_ACKNOWLEDGED = ''ACKNOWLEDGED''"
| "status_text AC_COMPLETED = ''COMPLETED''"
| "status_text AC_FAILED = ''FAILED''"
| "status_text AC_EXPIRED = ''EXPIRED''"

definition executed_of :: "json json_codec \<Rightarrow> agent_command \<Rightarrow> json executed_command" where
  "executed_of j c =
     \<lparr>xc_command_type = ac_command_type c, xc_status = status_text (ac_status c),
      xc_payload = Option.bind (ac_payload_json c) (\<lambda>s. if s = [] then None else jc_loads j s)\<rparr>"

definition handle_ack :: "link_env \<Rightarrow> ws_session \<Rightarrow> string \<Rightarrow> link_state \<Rightarrow> bool \<times> link_state" where
  "handle_ack env s cid st =
     (case acknowledge_command (le_now env) (session_actor s) (wn_agent s) cid (lk_db st) of
        (Inr _, db) \<Rightarrow> (True, st\<lparr>lk_db := db\<rparr>)
      | (Inl _, _) \<Rightarrow> reply env s (ERROR ''ACK_REJECTED'') st)"

text \<open>A result closes the command and books the execution in one transaction, then delivers what is
  queued; an exception of the booking rolls back and ends the loop.\<close>

definition close_command ::
  "link_env \<Rightarrow> actor \<Rightarrow> string \<Rightarrow> string \<Rightarrow> string \<Rightarrow> json json_dict option \<Rightarrow> string option \<Rightarrow> link_db
     \<Rightarrow> (command_error + agent_command) \<times> link_db" where
  "close_command env who ag cid status res err db =
     (if status = ''COMPLETED'' then complete_command (le_codec env) (le_now env) who ag cid res db
      else fail_command (le_now env) who ag cid err db)"

definition handle_result ::
  "link_env \<Rightarrow> ws_session \<Rightarrow> string \<Rightarrow> string \<Rightarrow> json_object option \<Rightarrow> string option \<Rightarrow> link_state
     \<Rightarrow> bool \<times> link_state" where
  "handle_result env s cid status res err st =
     (let r = map_option dict_of res
      in case close_command env (session_actor s) (wn_agent s) cid status r err (lk_db st) of
           (Inl _, _) \<Rightarrow> reply env s (ERROR ''RESULT_REJECTED'') st
         | (Inr c, db) \<Rightarrow>
             (case record_agent_execution_result (le_reading env) (le_now env) (wn_account s)
                     (executed_of (le_codec env) c) r err (lk_exec st) of
                Inl _ \<Rightarrow> (False, st)
              | Inr xdb \<Rightarrow>
                  (True, deliver_step env (session_actor s) (wn_agent s) (st\<lparr>lk_db := db, lk_exec := xdb\<rparr>))))"

definition handle_message :: "link_env \<Rightarrow> ws_session \<Rightarrow> json \<Rightarrow> link_state \<Rightarrow> bool \<times> link_state" where
  "handle_message env s v st =
     (case parse_incoming (le_conv env) v of
        Inl _ \<Rightarrow> reply env s (ERROR ''PROTOCOL_ERROR'') st
      | Inr (Hello av vf caps) \<Rightarrow>
          reply env s WELCOME (st\<lparr>lk_db := put_agent (wn_agent s) (agent_seen (le_now env) vf) (lk_db st)\<rparr>)
      | Inr (Heartbeat status vf) \<Rightarrow>
          reply env s HEARTBEAT_ACK (st\<lparr>lk_db := put_agent (wn_agent s) (agent_seen (le_now env) vf) (lk_db st)\<rparr>)
      | Inr (MarketData m) \<Rightarrow>
          (True, st\<lparr>lk_market := record_market_data (le_redis env) (le_now env) (wn_agent s) (wn_account s) m
                      (lk_market st)\<rparr>)
      | Inr (Bars m) \<Rightarrow>
          (True, st\<lparr>lk_market := record_closed_bars (le_times env) (le_redis env) (le_now env) (wn_agent s)
                      (wn_account s) m (lk_market st)\<rparr>)
      | Inr (Ack cid) \<Rightarrow> handle_ack env s cid st
      | Inr (Result cid status res err) \<Rightarrow> handle_result env s cid status res err st)"

definition ws_finish :: "ws_session \<Rightarrow> link_state \<Rightarrow> link_state" where
  "ws_finish s st =
     st\<lparr>lk_manager := am_disconnect (wn_agent s) (wn_socket s) (lk_manager st),
        lk_db := put_agent (wn_agent s) (\<lambda>a. a\<lparr>ag_last_known_status := ''DISCONNECTED''\<rparr>) (lk_db st)\<rparr>"

text \<open>A message after which the loop ends runs the \<open>finally\<close> block.\<close>

definition ws_receive :: "link_env \<Rightarrow> ws_session \<Rightarrow> json \<Rightarrow> link_state \<Rightarrow> link_state" where
  "ws_receive env s v st =
     (case handle_message env s v st of (True, st') \<Rightarrow> st' | (False, st') \<Rightarrow> ws_finish s st')"

subsection \<open>The REST endpoints\<close>

datatype http_error = Http nat string

definition max_payload_size :: nat where "max_payload_size = 4096"

definition http_of_command_error :: "command_error \<Rightarrow> http_error" where
  "http_of_command_error e =
     (case e of
        InvalidCommandType _ \<Rightarrow> Http 422 ''UNSUPPORTED_COMMAND_TYPE''
      | DuplicateId \<Rightarrow> Http 500 ''INTERNAL''
      | _ \<Rightarrow> Http 422 ''COMMAND_ERROR'')"

text \<open>The agent endpoints catch the lookup and the transition error only.\<close>

definition http_of_final_error :: "command_error \<Rightarrow> http_error" where
  "http_of_final_error e =
     (case e of
        CommandNotFound _ \<Rightarrow> Http 404 ''NOT_FOUND''
      | InvalidStateTransition _ _ \<Rightarrow> Http 409 ''INVALID_STATE_TRANSITION''
      | _ \<Rightarrow> Http 500 ''INTERNAL'')"

definition user_owns_agent :: "link_env \<Rightarrow> string \<Rightarrow> string \<Rightarrow> link_db \<Rightarrow> (http_error + agent_row)" where
  "user_owns_agent env agent_id user db =
     (case (cv_uuid (le_conv env) agent_id, cv_uuid (le_conv env) user) of
        (Some u, Some usr) \<Rightarrow>
          (case agent_with_owner u db of
             Some (a, owner) \<Rightarrow> if owner = usr then Inr a else Inl (Http 404 ''NOT_FOUND'')
           | None \<Rightarrow> Inl (Http 404 ''NOT_FOUND''))
      | _ \<Rightarrow> Inl (Http 404 ''NOT_FOUND''))"

definition get_agent_secret :: "string option \<Rightarrow> (http_error + string)" where
  "get_agent_secret secret =
     (case secret of
        None \<Rightarrow> Inl (Http 401 ''UNAUTHORIZED'')
      | Some sec \<Rightarrow> if sec = [] then Inl (Http 401 ''UNAUTHORIZED'') else Inr sec)"

definition verify_agent_auth :: "link_env \<Rightarrow> string \<Rightarrow> string \<Rightarrow> link_db \<Rightarrow> (http_error + agent_row \<times> string)" where
  "verify_agent_auth env agent_id sec db =
     (case cv_uuid (le_conv env) agent_id of
        None \<Rightarrow> Inl (Http 404 ''NOT_FOUND'')
      | Some u \<Rightarrow>
          (case agent_with_owner u db of
             None \<Rightarrow> Inl (Http 401 ''UNAUTHORIZED'')
           | Some (a, owner) \<Rightarrow>
               if le_verify env sec (ag_hashed_secret a) then Inr (a, owner)
               else Inl (Http 401 ''UNAUTHORIZED'')))"

text \<open>\<open>create_command\<close>: the created command, and whether a delivery is scheduled.\<close>

definition rest_create_command ::
  "link_env \<Rightarrow> string \<Rightarrow> string \<Rightarrow> string \<Rightarrow> json json_dict option \<Rightarrow> link_state
     \<Rightarrow> (http_error + agent_command \<times> bool) \<times> link_state" where
  "rest_create_command env user agent_id command_type payload st =
     (case user_owns_agent env agent_id user (lk_db st) of
        Inl e \<Rightarrow> (Inl e, st)
      | Inr a \<Rightarrow>
          let ty = map ascii_upper command_type
          in if ty \<notin> supported_command_types then (Inl (Http 422 ''UNSUPPORTED_COMMAND_TYPE''), st)
             else if (case payload of Some p \<Rightarrow> le_size env p > max_payload_size | None \<Rightarrow> False)
             then (Inl (Http 422 ''PAYLOAD_TOO_LARGE''), st)
             else
               (case create_command (le_codec env) (le_fresh env) (le_now env)
                       (cv_uuid (le_conv env) user, Some (ag_account_id a)) (ag_id a) ty payload (lk_db st) of
                  (Inl e, _) \<Rightarrow> (Inl (http_of_command_error e), st)
                | (Inr c, db) \<Rightarrow>
                    (Inr (c, am_is_connected (ag_id a) (lk_manager st) \<and> \<not> has_in_flight_command (ag_id a) db),
                     st\<lparr>lk_db := db\<rparr>)))"

definition rest_list_commands ::
  "link_env \<Rightarrow> string \<Rightarrow> string \<Rightarrow> link_state \<Rightarrow> (http_error + agent_command list)" where
  "rest_list_commands env user agent_id st =
     bind_res (user_owns_agent env agent_id user (lk_db st)) (\<lambda>a. Inr (list_commands (ag_id a) 50 0 (lk_db st)))"

definition rest_get_command ::
  "link_env \<Rightarrow> string \<Rightarrow> string \<Rightarrow> string \<Rightarrow> link_state \<Rightarrow> (http_error + agent_command)" where
  "rest_get_command env user agent_id command_id st =
     bind_res (user_owns_agent env agent_id user (lk_db st)) (\<lambda>a.
       case Option.bind (cv_uuid (le_conv env) command_id) (\<lambda>cid. get_command (ag_id a) cid (lk_db st)) of
         None \<Rightarrow> Inl (Http 404 ''NOT_FOUND'') | Some c \<Rightarrow> Inr c)"

text \<open>A missing secret is refused before the body of a request is looked at.\<close>

definition rest_pending_commands ::
  "link_env \<Rightarrow> string option \<Rightarrow> string \<Rightarrow> link_state \<Rightarrow> (http_error + agent_command list) \<times> link_state" where
  "rest_pending_commands env secret agent_id st =
     (case bind_res (get_agent_secret secret) (\<lambda>sec. verify_agent_auth env agent_id sec (lk_db st)) of
        Inl e \<Rightarrow> (Inl e, st)
      | Inr (a, owner) \<Rightarrow>
          (case claim_pending_commands (le_now env) (Some owner, Some (ag_account_id a)) (ag_id a) 10 (lk_db st) of
             (cs, db) \<Rightarrow> (Inr cs, st\<lparr>lk_db := db\<rparr>)))"

definition rest_ack_command ::
  "link_env \<Rightarrow> string option \<Rightarrow> string \<Rightarrow> string \<Rightarrow> string \<Rightarrow> link_state
     \<Rightarrow> (http_error + agent_command) \<times> link_state" where
  "rest_ack_command env secret agent_id command_id status st =
     (case get_agent_secret secret of
        Inl e \<Rightarrow> (Inl e, st)
      | Inr sec \<Rightarrow>
          if map ascii_upper status \<noteq> ''ACKNOWLEDGED'' then (Inl (Http 422 ''INVALID_STATUS''), st)
          else case verify_agent_auth env agent_id sec (lk_db st) of
                 Inl e \<Rightarrow> (Inl e, st)
               | Inr (a, owner) \<Rightarrow>
                   (case cv_uuid (le_conv env) command_id of
                      None \<Rightarrow> (Inl (Http 404 ''NOT_FOUND''), st)
                    | Some cid \<Rightarrow>
                        (case acknowledge_command (le_now env) (Some owner, Some (ag_account_id a)) (ag_id a) cid (lk_db st) of
                           (Inl e, _) \<Rightarrow> (Inl (http_of_final_error e), st)
                         | (Inr c, db) \<Rightarrow> (Inr c, st\<lparr>lk_db := db\<rparr>))))"

text \<open>
  \<open>submit_result\<close> closes the command only: unlike the WebSocket path it books no execution.  An error
  text of more than 500 characters is refused with the body.
\<close>

definition result_body_ok :: "string option \<Rightarrow> bool" where
  "result_body_ok err = (case err of None \<Rightarrow> True | Some e \<Rightarrow> length e \<le> 500)"

definition rest_submit_result ::
  "link_env \<Rightarrow> string option \<Rightarrow> string \<Rightarrow> string \<Rightarrow> string \<Rightarrow> json json_dict option \<Rightarrow> string option \<Rightarrow> link_state
     \<Rightarrow> (http_error + agent_command) \<times> link_state" where
  "rest_submit_result env secret agent_id command_id status res err st =
     (case get_agent_secret secret of
        Inl e \<Rightarrow> (Inl e, st)
      | Inr sec \<Rightarrow>
          if \<not> result_body_ok err then (Inl (Http 422 ''VALIDATION''), st)
          else
            (case final_status status of
               Inl _ \<Rightarrow> (Inl (Http 422 ''INVALID_STATUS''), st)
             | Inr up \<Rightarrow>
                 (case verify_agent_auth env agent_id sec (lk_db st) of
                    Inl e \<Rightarrow> (Inl e, st)
                  | Inr (a, owner) \<Rightarrow>
                      (case cv_uuid (le_conv env) command_id of
                         None \<Rightarrow> (Inl (Http 404 ''NOT_FOUND''), st)
                       | Some cid \<Rightarrow>
                           (case close_command env (Some owner, Some (ag_account_id a)) (ag_id a) cid up res err (lk_db st) of
                              (Inl e, _) \<Rightarrow> (Inl (http_of_final_error e), st)
                            | (Inr c, db) \<Rightarrow> (Inr c, st\<lparr>lk_db := db\<rparr>))))))"

subsection \<open>Events\<close>

text \<open>
  Everything that happens on the link, for whoever causes it.  An endpoint is addressed by the text of
  an id, and its request carries the credentials of its sender.
\<close>

datatype link_event =
    L_accept string "string option" "string option" nat
  | L_message ws_session json
  | L_finish ws_session
  | L_deliver string actor
  | L_create string string string "json json_dict option"
  | L_pending "string option" string
  | L_ack "string option" string string string
  | L_result "string option" string string string "json json_dict option" "string option"

fun event_agent :: "link_env \<Rightarrow> link_event \<Rightarrow> string option" where
  "event_agent env (L_accept raw h tok ws) = cv_uuid (le_conv env) raw"
| "event_agent env (L_message s v) = Some (wn_agent s)"
| "event_agent env (L_finish s) = Some (wn_agent s)"
| "event_agent env (L_deliver ag who) = Some ag"
| "event_agent env (L_create user raw ty p) = cv_uuid (le_conv env) raw"
| "event_agent env (L_pending sec raw) = cv_uuid (le_conv env) raw"
| "event_agent env (L_ack sec raw cid stat) = cv_uuid (le_conv env) raw"
| "event_agent env (L_result sec raw cid stat res err) = cv_uuid (le_conv env) raw"

fun handle_event :: "link_env \<Rightarrow> link_event \<Rightarrow> link_state \<Rightarrow> link_state" where
  "handle_event env (L_accept raw h tok ws) st = snd (ws_accept env raw h tok ws st)"
| "handle_event env (L_message s v) st = ws_receive env s v st"
| "handle_event env (L_finish s) st = ws_finish s st"
| "handle_event env (L_deliver ag who) st = deliver_step env who ag st"
| "handle_event env (L_create user raw ty p) st = snd (rest_create_command env user raw ty p st)"
| "handle_event env (L_pending sec raw) st = snd (rest_pending_commands env sec raw st)"
| "handle_event env (L_ack sec raw cid stat) st = snd (rest_ack_command env sec raw cid stat st)"
| "handle_event env (L_result sec raw cid stat res err) st =
     snd (rest_submit_result env sec raw cid stat res err st)"

definition link_step :: "link_env \<times> link_event \<Rightarrow> link_state \<Rightarrow> link_state" where
  "link_step = (\<lambda>(env, ev) st. handle_event env ev st)"

text \<open>
  Who may act for an agent, said without the checks of the endpoints: whoever knows its secret, the
  user of its account, its open session, and the delivery of its queue.
\<close>

definition knows_secret :: "link_env \<Rightarrow> string \<Rightarrow> string option \<Rightarrow> link_db \<Rightarrow> bool" where
  "knows_secret env ag secret db \<longleftrightarrow>
     (\<exists>sec. secret = Some sec \<and> (\<exists>a \<in> set (ld_agents db). ag_id a = ag \<and> le_verify env sec (ag_hashed_secret a)))"

definition owns_account :: "link_env \<Rightarrow> string \<Rightarrow> string \<Rightarrow> link_db \<Rightarrow> bool" where
  "owns_account env ag user db \<longleftrightarrow>
     (\<exists>a \<in> set (ld_agents db). ag_id a = ag
        \<and> (\<exists>u. cv_uuid (le_conv env) user = Some u \<and> map_of (ld_accounts db) (ag_account_id a) = Some u))"

fun acts_for :: "string \<Rightarrow> link_env \<times> link_event \<Rightarrow> link_state \<Rightarrow> bool" where
  "acts_for ag (env, L_accept raw h tok ws) st \<longleftrightarrow> knows_secret env ag (extract_agent_secret h tok) (lk_db st)"
| "acts_for ag (env, L_message s v) st \<longleftrightarrow> wn_agent s = ag"
| "acts_for ag (env, L_finish s) st \<longleftrightarrow> wn_agent s = ag"
| "acts_for ag (env, L_deliver ag' who) st \<longleftrightarrow> ag' = ag"
| "acts_for ag (env, L_create user raw ty p) st \<longleftrightarrow> owns_account env ag user (lk_db st)"
| "acts_for ag (env, L_pending sec raw) st \<longleftrightarrow> knows_secret env ag sec (lk_db st)"
| "acts_for ag (env, L_ack sec raw cid stat) st \<longleftrightarrow> knows_secret env ag sec (lk_db st)"
| "acts_for ag (env, L_result sec raw cid stat res err) st \<longleftrightarrow> knows_secret env ag sec (lk_db st)"

definition link_inv :: "link_state \<Rightarrow> bool" where
  "link_inv st \<longleftrightarrow> commands_inv (lk_db st) \<and> distinct (map fst (am_active (lk_manager st)))"

text \<open>What an agent has on the link: its queue, its row and its live connection.\<close>

definition link_view ::
  "string \<Rightarrow> link_state \<Rightarrow> agent_command list \<times> agent_row list \<times> nat option" where
  "link_view ag st =
     (rows_of ag (ld_commands (lk_db st)), filter (\<lambda>a. ag_id a = ag) (ld_agents (lk_db st)),
      map_of (am_active (lk_manager st)) ag)"

subsection \<open>Connections\<close>

definition manager_step :: "string \<Rightarrow> agent_manager \<Rightarrow> agent_manager \<Rightarrow> bool" where
  "manager_step ag m m' \<longleftrightarrow> (\<forall>ag'. ag' \<noteq> ag \<longrightarrow> map_of (am_active m') ag' = map_of (am_active m) ag')
     \<and> (distinct (map fst (am_active m)) \<longrightarrow> distinct (map fst (am_active m')))"

lemma manager_step_refl [simp]: "manager_step ag m m"
  by (simp add: manager_step_def)

lemma manager_step_trans: "manager_step ag m m' \<Longrightarrow> manager_step ag m' m'' \<Longrightarrow> manager_step ag m m''"
  by (simp add: manager_step_def)

lemma manager_connect: "manager_step ag m (am_connect ag ws m)"
  by (auto simp: manager_step_def am_connect_def Let_def update_conv' distinct_update split: option.splits)

lemma manager_disconnect: "manager_step ag m (am_disconnect ag ws m)"
  by (auto simp: manager_step_def am_disconnect_def delete_conv' distinct_delete)

lemma ws_send_simps:
  "ws_send env ws msg m = (ok, m') \<Longrightarrow> am_active m' = am_active m \<and> am_closed m' = am_closed m
     \<and> ok = le_up env ws (length (am_log m)) \<and> am_log m' = (if ok then am_log m @ [(ws, msg)] else am_log m)"
  by (auto simp: ws_send_def split: if_splits)

lemma manager_ws_send: "ws_send env ws msg m = (ok, m') \<Longrightarrow> manager_step ag m m'"
  using ws_send_simps by (metis manager_step_def)

lemma manager_send: "am_send_json env ag msg m = (ok, m') \<Longrightarrow> manager_step ag m m'"
  by (auto simp: am_send_json_def ws_send_def split: option.splits prod.splits if_splits bool.splits
      intro: manager_disconnect) (simp add: manager_step_def)

subsection \<open>Steps of the database\<close>

lemma find_mem: "find P xs = Some x \<Longrightarrow> x \<in> set xs \<and> P x"
  by (auto simp: find_Some_iff)

text \<open>A delivery is reverted by id alone; the caller passes ids of its own agent.\<close>

lemma step_revert:
  assumes "\<forall>c \<in> set (ld_commands db). ac_id c = cid \<longrightarrow> ac_agent_id c = ag"
  shows "agent_step ag db (revert_delivery cid db)"
proof (cases "find (\<lambda>c. ac_id c = cid) (ld_commands db)")
  case (Some c)
  then have c: "c \<in> set (ld_commands db)" "ac_id c = cid" by (auto dest: find_mem)
  show ?thesis
  proof (cases "ac_status c = AC_SENT")
    case True
    let ?c = "c\<lparr>ac_status := AC_PENDING, ac_sent_at := None\<rparr>"
    have e: "evolves c ?c" "stamped c \<Longrightarrow> stamped ?c" using True by (auto simp: evolves_def stamped_def)
    have "ld_commands (revert_delivery cid db) = put_row ?c (ld_commands db)"
      using Some True by (simp add: revert_delivery_def)
    from agent_step_put [OF c(1) _ _ e this] c assms show ?thesis by auto
  next
    case False
    with Some show ?thesis by (simp add: revert_delivery_def)
  qed
qed (simp add: revert_delivery_def)

lemma step_deliver_each:
  assumes "deliver_each env ag cs db m = (n, db', m')" "commands_inv db"
    and "\<forall>c \<in> set cs. \<exists>x \<in> set (ld_commands db). ac_id x = ac_id c \<and> ac_agent_id x = ag"
  shows "agent_step ag db db' \<and> manager_step ag m m' \<and> ld_agents db' = ld_agents db"
  using assms(1,3)
proof (induction cs arbitrary: m n m' db')
  case (Cons c cs)
  obtain ok m1 where s: "am_send_json env ag (command_message (le_codec env) c) m = (ok, m1)"
    by (cases "am_send_json env ag (command_message (le_codec env) c) m")
  have own: "\<forall>x \<in> set (ld_commands db). ac_id x = ac_id c \<longrightarrow> ac_agent_id x = ag"
    using Cons.prems(2) same_row [OF commands_invD [OF assms(2)]] by fastforce
  have rev: "ld_agents (revert_delivery cid db) = ld_agents db" for cid
    by (simp add: revert_delivery_def split: option.splits)
  show ?case
  proof (cases ok)
    case True
    with Cons.prems(1) s obtain k where "deliver_each env ag cs db m1 = (k, db', m')"
      by (auto split: prod.splits)
    from Cons.IH [OF this] Cons.prems(2)
    have "agent_step ag db db' \<and> manager_step ag m1 m' \<and> ld_agents db' = ld_agents db" by simp
    with manager_step_trans [OF manager_send [OF s]] show ?thesis by blast
  next
    case False
    with Cons.prems s step_revert [OF own] rev show ?thesis by (auto intro: manager_send)
  qed
qed simp

lemma claimed_ids:
  assumes "claim_pending_commands now who ag n db = (cs, db')" "commands_inv db" "c \<in> set cs"
  shows "\<exists>x \<in> set (ld_commands db'). ac_id x = ac_id c \<and> ac_agent_id x = ag"
proof -
  from assms obtain p where p: "p \<in> set (pending_commands ag n db)" "c = mark_claimed now p"
    "db' = mark_all_claimed now who ag (pending_commands ag n db) db"
    by (auto simp: claim_pending_commands_def Let_def)
  have sub: "set (pending_commands ag n db) \<subseteq> set (ld_commands db)" using pending_commandsD(1) by auto
  have "mark_claimed now p \<in> set (ld_commands db')"
    unfolding p(3) mark_all_claimed_simps(1) [OF commands_invD [OF assms(2)] sub] claim_rows_def
    using p(1) sub by force
  with p(2) pending_commandsD(2) [OF p(1)] show ?thesis
    by (intro bexI [of _ "mark_claimed now p"]) simp_all
qed

lemma claim_agents:
  assumes "claim_pending_commands now who ag n db = (cs, db')" "commands_inv db"
  shows "ld_agents db' = ld_agents db"
  using assms mark_all_claimed_simps(2) [OF commands_invD [OF assms(2)], of "pending_commands ag n db"]
    pending_commandsD(1) by (fastforce simp: claim_pending_commands_def Let_def)

lemma step_deliver_pending:
  assumes "deliver_pending_commands env who ag db m = (n, db', m')" "commands_inv db"
  shows "agent_step ag db db' \<and> manager_step ag m m' \<and> ld_agents db' = ld_agents db"
proof -
  obtain cs db1 where cl: "claim_pending_commands (le_now env) who ag 10 db = (cs, db1)"
    by (cases "claim_pending_commands (le_now env) who ag 10 db")
  with assms(1) have d: "deliver_each env ag cs db1 m = (n, db', m')" by (simp add: deliver_pending_commands_def)
  have s: "agent_step ag db db1" by (rule step_claim [OF cl])
  with assms(2) have "commands_inv db1" by (simp add: agent_step_def)
  from step_deliver_each [OF d this] claimed_ids [OF cl assms(2)] claim_agents [OF cl assms(2)] s
  show ?thesis by (auto intro: agent_step_trans)
qed


definition link_sound :: "string \<Rightarrow> link_state \<Rightarrow> link_state \<Rightarrow> bool" where
  "link_sound ag st st' \<longleftrightarrow> (commands_inv (lk_db st) \<longrightarrow>
     agent_step ag (lk_db st) (lk_db st') \<and> manager_step ag (lk_manager st) (lk_manager st')
   \<and> (\<forall>ag'. ag' \<noteq> ag \<longrightarrow> filter (\<lambda>a. ag_id a = ag') (ld_agents (lk_db st'))
        = filter (\<lambda>a. ag_id a = ag') (ld_agents (lk_db st))))"

lemma link_sound_refl [simp]: "link_sound ag st st"
  by (simp add: link_sound_def)

lemma link_sound_trans:
  assumes "link_sound ag st st'" "link_sound ag st' st''" shows "link_sound ag st st''"
  using assms unfolding link_sound_def
  by (metis agent_step_def agent_step_trans manager_step_trans)

lemma link_sound_same:
  "lk_db st' = lk_db st \<Longrightarrow> lk_manager st' = lk_manager st \<Longrightarrow> link_sound ag st st'"
  by (simp add: link_sound_def)

lemma link_sound_db:
  assumes "agent_step ag (lk_db st) db" "ld_agents db = ld_agents (lk_db st)" "lk_db st' = db"
    and "lk_manager st' = lk_manager st"
  shows "link_sound ag st st'"
  using assms by (simp add: link_sound_def)

lemma filter_put_agent:
  assumes "\<And>a. ag_id (f a) = ag_id a" "ag' \<noteq> ag"
  shows "filter (\<lambda>a. ag_id a = ag') (map (\<lambda>a. if ag_id a = ag then f a else a) as) = filter (\<lambda>a. ag_id a = ag') as"
  using assms by (induction as) auto

lemma link_sound_agent:
  assumes "\<And>a. ag_id (f a) = ag_id a" "manager_step ag (lk_manager st) (lk_manager st')"
    and "lk_db st' = put_agent ag f (lk_db st)"
  shows "link_sound ag st st'"
  using assms filter_put_agent [of f] by (auto simp: link_sound_def put_agent_def intro: agent_step_cong)

lemma link_sound_deliver: "link_sound ag st (deliver_step env who ag st)"
  unfolding link_sound_def deliver_step_def
  by (auto split: prod.splits dest: step_deliver_pending)

lemma link_sound_reply: "reply env s msg st = (ok, st') \<Longrightarrow> link_sound ag st st'"
  by (auto simp: reply_def link_sound_def split: prod.splits intro: manager_ws_send)

lemma seen_simps [simp]: "ag_id (seen_connected now a) = ag_id a" "ag_id (agent_seen now vf a) = ag_id a"
  by (simp_all add: seen_connected_def agent_seen_def)

lemma agents_acknowledge: "acknowledge_command now who ag cid db = (r, db') \<Longrightarrow> ld_agents db' = ld_agents db"
  by (auto simp: acknowledge_command_def Let_def split: option.splits if_splits)

lemma agents_complete: "complete_command j now who ag cid res db = (r, db') \<Longrightarrow> ld_agents db' = ld_agents db"
  by (auto simp: complete_command_def Let_def split: option.splits if_splits sum.splits)

lemma agents_fail: "fail_command now who ag cid msg db = (r, db') \<Longrightarrow> ld_agents db' = ld_agents db"
  by (auto simp: fail_command_def Let_def split: option.splits if_splits)

lemma agents_create: "create_command j cid now who ag ty p db = (r, db') \<Longrightarrow> ld_agents db' = ld_agents db"
  by (auto simp: create_command_def Let_def split: if_splits sum.splits)

lemma link_sound_ack: "handle_ack env s cid st = (ok, st') \<Longrightarrow> link_sound (wn_agent s) st st'"
  by (auto simp: handle_ack_def split: prod.splits sum.splits intro: link_sound_reply link_sound_db
      dest: step_acknowledge agents_acknowledge)

lemma close_command_sound:
  assumes "close_command env who ag cid stat res err db = (r, db')"
  shows "agent_step ag db db'" "ld_agents db' = ld_agents db"
  using assms
  by (auto simp: close_command_def split: if_splits
      dest: step_complete step_fail agents_complete agents_fail)

lemma link_sound_result:
  assumes "handle_result env s cid stat res err st = (ok, st')"
  shows "link_sound (wn_agent s) st st'"
proof -
  obtain r db where c: "close_command env (session_actor s) (wn_agent s) cid stat (map_option dict_of res) err (lk_db st) = (r, db)"
    by (cases "close_command env (session_actor s) (wn_agent s) cid stat (map_option dict_of res) err (lk_db st)")
  have "link_sound (wn_agent s) st (st\<lparr>lk_db := db, lk_exec := x\<rparr>)" for x
    by (rule link_sound_db [OF close_command_sound [OF c]]) simp_all
  with assms c show ?thesis
    by (auto simp: handle_result_def Let_def split: sum.splits intro: link_sound_reply
        link_sound_trans [OF _ link_sound_deliver])
qed

lemma link_sound_message:
  assumes "handle_message env s v st = (ok, st')" shows "link_sound (wn_agent s) st st'"
proof (cases "parse_incoming (le_conv env) v")
  case (Inl e)
  with assms show ?thesis by (auto simp: handle_message_def intro: link_sound_reply)
next
  case (Inr msg)
  have seen: "link_sound (wn_agent s) st (st\<lparr>lk_db := put_agent (wn_agent s) (agent_seen (le_now env) vf) (lk_db st)\<rparr>)" for vf
    by (rule link_sound_agent [where f = "agent_seen (le_now env) vf"]) simp_all
  show ?thesis
    using assms Inr
    by (cases msg) (auto simp: handle_message_def intro: link_sound_ack link_sound_result link_sound_same
        link_sound_trans [OF seen link_sound_reply])
qed

lemma link_sound_finish: "link_sound (wn_agent s) st (ws_finish s st)"
  by (rule link_sound_agent [where f = "\<lambda>a. a\<lparr>ag_last_known_status := ''DISCONNECTED''\<rparr>"])
     (simp_all add: ws_finish_def manager_disconnect)

lemma link_sound_receive: "link_sound (wn_agent s) st (ws_receive env s v st)"
  unfolding ws_receive_def
  by (auto split: prod.splits bool.splits intro: link_sound_message link_sound_trans [OF link_sound_message link_sound_finish])

lemma authenticate_uuid: "authenticate_agent env raw sec db = Some (a, u) \<Longrightarrow> cv_uuid (le_conv env) raw = Some (ag_id a)"
  by (auto simp: authenticate_agent_def agent_with_owner_def bind_eq_Some_conv split: if_splits prod.splits option.splits
      dest: find_mem)

lemma link_sound_accept:
  assumes "cv_uuid (le_conv env) raw = Some ag" shows "link_sound ag st (snd (ws_accept env raw h tok ws st))"
proof -
  have "link_sound ag st (st\<lparr>lk_db := add_link_audit ag w e (put_agent ag (seen_connected n) (lk_db st)),
      lk_manager := am_connect ag ws (lk_manager st)\<rparr>)" for w e n
    using link_sound_agent [of "seen_connected n" ag st "st\<lparr>lk_db := put_agent ag (seen_connected n) (lk_db st),
      lk_manager := am_connect ag ws (lk_manager st)\<rparr>"] manager_connect
    by (simp add: link_sound_def agent_step_def commands_inv_def)
  from link_sound_trans [OF this link_sound_deliver] assms show ?thesis
    by (auto simp: ws_accept_def Let_def split: option.splits prod.splits)
qed

lemma owns_agent_uuid: "user_owns_agent env raw usr db = Inr a \<Longrightarrow> cv_uuid (le_conv env) raw = Some (ag_id a)"
  by (auto simp: user_owns_agent_def agent_with_owner_def bind_eq_Some_conv split: if_splits prod.splits option.splits
      dest: find_mem)

lemma verify_auth_uuid: "verify_agent_auth env raw sec db = Inr (a, u) \<Longrightarrow> cv_uuid (le_conv env) raw = Some (ag_id a)"
  by (auto simp: verify_agent_auth_def agent_with_owner_def bind_eq_Some_conv split: if_splits prod.splits option.splits
      dest: find_mem)

lemma link_sound_create:
  assumes "cv_uuid (le_conv env) raw = Some ag"
  shows "link_sound ag st (snd (rest_create_command env usr raw ty p st))"
  using assms
  by (auto simp: rest_create_command_def Let_def split: sum.splits prod.splits
      dest!: owns_agent_uuid intro!: link_sound_db dest: step_create agents_create)

lemma link_sound_rest_ack:
  assumes "cv_uuid (le_conv env) raw = Some ag"
  shows "link_sound ag st (snd (rest_ack_command env sec raw cid stat st))"
  using assms
  by (auto simp: rest_ack_command_def Let_def split: sum.splits prod.splits option.splits
      dest!: verify_auth_uuid intro!: link_sound_db dest: step_acknowledge agents_acknowledge)

lemma link_sound_rest_result:
  assumes "cv_uuid (le_conv env) raw = Some ag"
  shows "link_sound ag st (snd (rest_submit_result env sec raw cid stat res err st))"
  using assms
  by (auto simp: rest_submit_result_def Let_def split: sum.splits prod.splits option.splits if_splits
      dest!: verify_auth_uuid intro!: link_sound_db dest: close_command_sound)

lemma link_sound_pending:
  assumes "cv_uuid (le_conv env) raw = Some ag"
  shows "link_sound ag st (snd (rest_pending_commands env sec raw st))"
proof (cases "bind_res (get_agent_secret sec) (\<lambda>s. verify_agent_auth env raw s (lk_db st))")
  case (Inr ao)
  obtain a u where ao: "ao = (a, u)" by (cases ao)
  with Inr assms have "ag_id a = ag" using verify_auth_uuid by (fastforce elim: bind_res_InrE)
  obtain cs db where c: "claim_pending_commands (le_now env) (Some u, Some (ag_account_id a)) (ag_id a) 10 (lk_db st)
      = (cs, db)" by (cases "claim_pending_commands (le_now env) (Some u, Some (ag_account_id a)) (ag_id a) 10 (lk_db st)")
  from step_claim [OF c] claim_agents [OF c] \<open>ag_id a = ag\<close> Inr ao c show ?thesis
    by (simp add: rest_pending_commands_def link_sound_def)
qed (simp add: rest_pending_commands_def)

text \<open>An event that denotes no agent changes nothing.\<close>

lemma no_agent_no_change: "event_agent env ev = None \<Longrightarrow> handle_event env ev st = st"
  by (cases ev)
    (auto simp: ws_accept_def rest_create_command_def user_owns_agent_def rest_pending_commands_def
      rest_ack_command_def rest_submit_result_def verify_agent_auth_def get_agent_secret_def
      split: option.splits sum.splits prod.splits)

lemma link_sound_event: "event_agent env ev = Some ag \<Longrightarrow> link_sound ag st (handle_event env ev st)"
  by (cases ev) (auto intro: link_sound_accept link_sound_receive link_sound_finish link_sound_deliver
      link_sound_create link_sound_pending link_sound_rest_ack link_sound_rest_result)

lemma link_sound_step: "\<exists>ag. link_sound ag st (link_step op st)"
proof -
  obtain env ev where op: "op = (env, ev)" by (cases op)
  then show ?thesis
    using no_agent_no_change [of env ev st] link_sound_event [of env ev _ st]
    by (cases "event_agent env ev") (auto simp: link_step_def)
qed

lemma agent_with_ownerD:
  "agent_with_owner u db = Some (a, owner) \<Longrightarrow>
     a \<in> set (ld_agents db) \<and> ag_id a = u \<and> map_of (ld_accounts db) (ag_account_id a) = Some owner"
  by (auto simp: agent_with_owner_def bind_eq_Some_conv dest: find_mem)

lemma verified_knows_secret:
  "verify_agent_auth env raw sec db = Inr (a, owner) \<Longrightarrow> knows_secret env (ag_id a) (Some sec) db"
  by (auto simp: verify_agent_auth_def knows_secret_def dest!: agent_with_ownerD split: option.splits if_splits)

lemma authenticated_knows_secret:
  "authenticate_agent env raw sec db = Some (a, owner) \<Longrightarrow> knows_secret env (ag_id a) (Some sec) db"
  by (auto simp: authenticate_agent_def knows_secret_def bind_eq_Some_conv dest!: agent_with_ownerD
      split: option.splits if_splits)

lemma owner_owns_account:
  "user_owns_agent env raw user db = Inr a \<Longrightarrow> owns_account env (ag_id a) user db"
  by (auto simp: user_owns_agent_def owns_account_def dest!: agent_with_ownerD split: option.splits if_splits)

lemma secretD: "get_agent_secret secret = Inr sec \<Longrightarrow> secret = Some sec"
  by (auto simp: get_agent_secret_def split: option.splits if_splits)

text \<open>A request addressed at an agent without its credentials is refused.\<close>

lemma verify_refuses:
  assumes "cv_uuid (le_conv env) raw = Some ag" "\<not> knows_secret env ag (Some sec) db"
  shows "\<exists>e. verify_agent_auth env raw sec db = Inl e"
proof (cases "verify_agent_auth env raw sec db")
  case (Inr ao)
  then have "verify_agent_auth env raw sec db = Inr (fst ao, snd ao)" by simp
  from verify_auth_uuid [OF this] verified_knows_secret [OF this] assms show ?thesis by simp
qed simp

lemma authenticate_refuses:
  assumes "cv_uuid (le_conv env) raw = Some ag" "\<not> knows_secret env ag (Some sec) db"
  shows "authenticate_agent env raw sec db = None"
proof (cases "authenticate_agent env raw sec db")
  case (Some ao)
  then have "authenticate_agent env raw sec db = Some (fst ao, snd ao)" by simp
  from authenticate_uuid [OF this] authenticated_knows_secret [OF this] assms show ?thesis by simp
qed

lemma owner_refuses:
  assumes "cv_uuid (le_conv env) raw = Some ag" "\<not> owns_account env ag user db"
  shows "\<exists>e. user_owns_agent env raw user db = Inl e"
proof (cases "user_owns_agent env raw user db")
  case (Inr a)
  from owns_agent_uuid [OF this] owner_owns_account [OF this] assms show ?thesis by simp
qed simp

lemma unauthorised_no_change:
  assumes "event_agent env ev = Some ag" "\<not> acts_for ag (env, ev) st"
  shows "handle_event env ev st = st"
proof (cases ev)
  case (L_accept raw h tok ws)
  with assms authenticate_refuses [of env raw ag _ "lk_db st"] show ?thesis
    by (cases "extract_agent_secret h tok") (simp_all add: ws_accept_def)
next
  case (L_create user raw ty p)
  with assms owner_refuses [of env raw ag user "lk_db st"] show ?thesis
    by (auto simp: rest_create_command_def)
next
  case (L_pending secret raw)
  with assms have "\<exists>e. bind_res (get_agent_secret secret) (\<lambda>s. verify_agent_auth env raw s (lk_db st)) = Inl e"
    using secretD [of secret] verify_refuses [of env raw ag _ "lk_db st"] by (cases "get_agent_secret secret") simp_all
  with L_pending show ?thesis by (auto simp: rest_pending_commands_def)
next
  case (L_ack secret raw cid stat)
  show ?thesis
  proof (cases "get_agent_secret secret")
    case (Inr sec)
    with assms L_ack obtain e where "verify_agent_auth env raw sec (lk_db st) = Inl e"
      using secretD [OF Inr] verify_refuses [of env raw ag sec "lk_db st"] by auto
    with Inr L_ack show ?thesis by (simp add: rest_ack_command_def split: sum.split)
  qed (simp add: L_ack rest_ack_command_def)
next
  case (L_result secret raw cid stat res err)
  show ?thesis
  proof (cases "get_agent_secret secret")
    case (Inr sec)
    with assms L_result obtain e where "verify_agent_auth env raw sec (lk_db st) = Inl e"
      using secretD [OF Inr] verify_refuses [of env raw ag sec "lk_db st"] by auto
    with Inr L_result show ?thesis by (simp add: rest_submit_result_def split: sum.split)
  qed (simp add: L_result rest_submit_result_def)
qed (use assms in simp_all)

lemma link_guarded:
  assumes "link_inv st" "\<not> acts_for ag op st"
  shows "link_view ag (link_step op st) = link_view ag st"
proof -
  obtain env ev where op: "op = (env, ev)" by (cases op)
  show ?thesis
  proof (cases "event_agent env ev")
    case None
    then show ?thesis using no_agent_no_change by (simp add: op link_step_def)
  next
    case (Some ag')
    show ?thesis
    proof (cases "ag' = ag")
      case True
      then show ?thesis using unauthorised_no_change [of env ev ag st] Some assms(2) by (simp add: op link_step_def)
    next
      case False
      then show ?thesis using link_sound_event [OF Some, of st] assms(1)
        by (simp add: op link_step_def link_inv_def link_view_def link_sound_def agent_step_def manager_step_def)
    qed
  qed
qed

lemma link_inv_step: "link_inv st \<Longrightarrow> link_inv (link_step op st)"
  using link_sound_step [of st op] by (auto simp: link_inv_def link_sound_def agent_step_def manager_step_def)

interpretation link: guarded_isolation link_step link_view link_inv acts_for
  by unfold_locales (auto intro: link_inv_step link_guarded)


subsection \<open>What a delivery does\<close>

lemma command_message_claimed [simp]: "command_message j (mark_claimed now c) = command_message j c"
  by (simp add: command_message_def)

lemma send_json_cases:
  assumes "am_send_json env ag msg m = (ok, m')"
  obtains (sent) ws where "ok" "map_of (am_active m) ag = Some ws" "am_active m' = am_active m"
      "am_log m' = am_log m @ [(ws, msg)]"
  | (lost) "\<not> ok" "map_of (am_active m') ag = None" "am_log m' = am_log m"
  using assms
  by (auto simp: am_send_json_def ws_send_def am_disconnect_def delete_conv'
      split: option.splits prod.splits if_splits bool.splits)

text \<open>A run of sends: a prefix is handed over; a failure reverts the next command and drops the
  connection.\<close>

lemma deliver_each_outcome:
  assumes "deliver_each env ag cs db m = (n, db', m')"
  shows "n \<le> length cs
    \<and> (\<exists>ws. am_log m' = am_log m @ map (\<lambda>c. (ws, command_message (le_codec env) c)) (take n cs)
         \<and> (n \<noteq> 0 \<longrightarrow> map_of (am_active m) ag = Some ws))
    \<and> (n < length cs \<longrightarrow> db' = revert_delivery (ac_id (cs ! n)) db \<and> map_of (am_active m') ag = None)
    \<and> (n = length cs \<longrightarrow> db' = db \<and> am_active m' = am_active m)"
  using assms
proof (induction cs arbitrary: n m m' db')
  case (Cons c cs)
  obtain ok m1 where s: "am_send_json env ag (command_message (le_codec env) c) m = (ok, m1)"
    by (cases "am_send_json env ag (command_message (le_codec env) c) m")
  from s show ?case
  proof (cases rule: send_json_cases)
    case (sent ws)
    with Cons.prems s obtain k where k: "deliver_each env ag cs db m1 = (k, db', m')" "n = Suc k"
      by (auto split: prod.splits)
    from Cons.IH [OF k(1)] obtain ws' where
      "am_log m' = am_log m1 @ map (\<lambda>c. (ws', command_message (le_codec env) c)) (take k cs)"
      "k \<noteq> 0 \<longrightarrow> ws' = ws"
      "k \<le> length cs" "k < length cs \<longrightarrow> db' = revert_delivery (ac_id (cs ! k)) db \<and> map_of (am_active m') ag = None"
      "k = length cs \<longrightarrow> db' = db \<and> am_active m' = am_active m1"
      using sent by auto
    with sent k(2) show ?thesis by (cases "k = 0") (auto intro!: exI [of _ ws])
  next
    case lost
    with Cons.prems s show ?thesis by auto
  qed
qed simp

lemma revert_claimed:
  assumes "commands_inv db" "p \<in> set (ld_commands db)" "ac_status p = AC_PENDING" "ac_id p \<in> I"
    and "ld_commands db1 = claim_rows now I (ld_commands db)"
  shows "ld_commands (revert_delivery (ac_id p) db1) = claim_rows now (I - {ac_id p}) (ld_commands db)"
proof -
  let ?C = "ld_commands db" and ?P = "\<lambda>c :: agent_command. ac_id c = ac_id p"
  have d: "distinct (map ac_id ?C)" and st: "stamped p" using assms(1,2) by (auto simp: commands_inv_def list_all_iff)
  have "mark_claimed now p \<in> set (claim_rows now I ?C)"
    using assms(2,4) by (auto simp: claim_rows_def intro!: image_eqI [of _ _ p])
  then have "\<exists>c \<in> set (claim_rows now I ?C). ?P c" by (intro bexI [of _ "mark_claimed now p"]) simp
  then obtain c where c: "find ?P (claim_rows now I ?C) = Some c"
    by (metis (mono_tags, lifting) find_None_iff option.exhaust)
  then have "c \<in> set (claim_rows now I ?C)" "?P c" by (auto dest: find_mem)
  then obtain x where x: "x \<in> set ?C" "c = (if ac_id x \<in> I then mark_claimed now x else x)" "ac_id x = ac_id p"
    by (auto simp: claim_rows_def split: if_splits)
  have "x = p" by (rule same_row [OF d assms(2) x(1,3)])
  with x assms(4) have c': "c = mark_claimed now p" by simp
  have orig: "(mark_claimed now p)\<lparr>ac_status := AC_PENDING, ac_sent_at := None\<rparr> = p"
    using st assms(3) by (cases p) (simp add: mark_claimed_def stamped_def)
  have "put_row p (claim_rows now I ?C) = claim_rows now (I - {ac_id p}) ?C"
    unfolding put_row_def claim_rows_def map_map comp_def
  proof (rule map_cong [OF refl])
    fix x assume "x \<in> set ?C"
    then have "ac_id x = ac_id p \<longleftrightarrow> x = p" using same_row [OF d assms(2)] by auto
    then show "(if ac_id (if ac_id x \<in> I then mark_claimed now x else x) = ac_id p then p
        else if ac_id x \<in> I then mark_claimed now x else x)
      = (if ac_id x \<in> I - {ac_id p} then mark_claimed now x else x)" by simp
  qed
  then show ?thesis
    using c c' orig assms(5) by (simp add: revert_delivery_def)
qed

lemma distinct_pending_all:
  assumes "commands_inv db"
  shows "distinct (map ac_id (sort_key ac_created_at (filter P (ld_commands db))))"
  using commands_invD [OF assms] by (auto simp: distinct_map inj_on_def)

lemma distinct_pending: "commands_inv db \<Longrightarrow> distinct (map ac_id (pending_commands ag n db))"
  unfolding pending_commands_def take_map [symmetric] by (intro distinct_take distinct_pending_all)

lemma delivery_outcome:
  assumes "deliver_pending_commands env who ag db m = (n, db', m')" "commands_inv db"
    and "cs = pending_commands ag 10 db"
  shows "n \<le> length cs
    \<and> (\<exists>ws. am_log m' = am_log m @ map (\<lambda>c. (ws, command_message (le_codec env) c)) (take n cs)
         \<and> (n \<noteq> 0 \<longrightarrow> map_of (am_active m) ag = Some ws))
    \<and> ld_commands db' = claim_rows (le_now env) (ac_id ` (set (take n cs) \<union> set (drop (Suc n) cs))) (ld_commands db)
    \<and> (n < length cs \<longrightarrow> map_of (am_active m') ag = None)
    \<and> (n = length cs \<longrightarrow> am_active m' = am_active m)"
proof -
  let ?f = "mark_claimed (le_now env)" and ?db1 = "mark_all_claimed (le_now env) who ag cs db"
  have sub: "set cs \<subseteq> set (ld_commands db)" using assms(3) pending_commandsD(1) by auto
  note rows = mark_all_claimed_simps(1) [OF commands_invD [OF assms(2)] sub, of "le_now env" who ag]
  have "deliver_each env ag (map ?f cs) ?db1 m = (n, db', m')"
    using assms(1,3) by (simp add: deliver_pending_commands_def claim_pending_commands_def Let_def)
  note o1 = deliver_each_outcome [OF this]
  have dis: "distinct (map ac_id cs)"
    unfolding assms(3) by (rule distinct_pending [OF assms(2)])
  have "ld_commands db' = claim_rows (le_now env) (ac_id ` (set (take n cs) \<union> set (drop (Suc n) cs))) (ld_commands db)"
  proof (cases "n < length cs")
    case True
    have p: "cs ! n \<in> set cs" using True by simp
    then have "cs ! n \<in> set (ld_commands db)" "ac_status (cs ! n) = AC_PENDING"
      using sub assms(3) pending_commandsD(3) by auto
    from revert_claimed [OF assms(2) this _ rows] p o1 True
    have "ld_commands db' = claim_rows (le_now env) (ac_id ` set cs - {ac_id (cs ! n)}) (ld_commands db)" by simp
    also have "ac_id ` set cs - {ac_id (cs ! n)} = ac_id ` (set (take n cs) \<union> set (drop (Suc n) cs))"
    proof -
      have "map ac_id cs = map ac_id (take n cs) @ ac_id (cs ! n) # map ac_id (drop (Suc n) cs)"
        by (subst id_take_nth_drop [OF True]) simp
      moreover from this dis have "ac_id (cs ! n) \<notin> set (map ac_id (take n cs)) \<union> set (map ac_id (drop (Suc n) cs))"
        by (metis Un_iff distinct.simps(2) distinct_append not_distinct_conv_prefix set_append)
      ultimately show ?thesis by (metis (no_types, lifting) Diff_insert_absorb Un_insert_right image_Un list.set_map list.simps(15) set_append)
    qed
    finally show ?thesis .
  next
    case False
    with o1 have "n = length cs" "db' = ?db1" by simp_all
    with rows show ?thesis by simp
  qed
  with o1 show ?thesis by (simp add: take_map comp_def)
qed


subsection \<open>Runs\<close>

lemma run_link_rows:
  "link_inv st \<Longrightarrow> link_inv (run_events link_step ops st)
     \<and> rows_evolve (ld_commands (lk_db st)) (ld_commands (lk_db (run_events link_step ops st)))"
proof (induction ops arbitrary: st)
  case (Cons op ops)
  have "rows_evolve (ld_commands (lk_db st)) (ld_commands (lk_db (link_step op st)))"
    using link_sound_step [of st op] Cons.prems by (auto simp: link_inv_def link_sound_def agent_step_def)
  then show ?case using Cons.IH [OF link_inv_step [OF Cons.prems, of op]] by (auto simp: run_events_def intro: rows_evolve_trans)
qed simp

text \<open>Whether an event acknowledges or closes a given command.\<close>

fun names_command :: "link_env \<Rightarrow> string \<Rightarrow> link_event \<Rightarrow> bool" where
  "names_command env cid (L_message s v) \<longleftrightarrow>
     (case parse_incoming (le_conv env) v of
        Inr (Ack u) \<Rightarrow> u = cid | Inr (Result u stat res err) \<Rightarrow> u = cid | _ \<Rightarrow> False)"
| "names_command env cid (L_ack sec raw u stat) \<longleftrightarrow> cv_uuid (le_conv env) u = Some cid"
| "names_command env cid (L_result sec raw u stat res err) \<longleftrightarrow> cv_uuid (le_conv env) u = Some cid"
| "names_command env cid _ \<longleftrightarrow> False"

definition undelivered :: "string \<Rightarrow> agent_manager \<Rightarrow> bool" where
  "undelivered cid m \<longleftrightarrow> list_all (\<lambda>(ws, msg). case msg of COMMAND u ty p \<Rightarrow> u \<noteq> cid | _ \<Rightarrow> True) (am_log m)"

text \<open>A SENT command that no socket has received.\<close>

definition stranded :: "agent_command \<Rightarrow> link_state \<Rightarrow> bool" where
  "stranded c st \<longleftrightarrow> c \<in> set (ld_commands (lk_db st)) \<and> ac_status c = AC_SENT
     \<and> undelivered (ac_id c) (lk_manager st)"

lemma stranded_db:
  assumes "stranded c st" "c \<in> set (ld_commands db)" "lk_db st' = db" "am_log (lk_manager st') = am_log (lk_manager st)"
  shows "stranded c st'"
  using assms by (simp add: stranded_def undelivered_def)

lemma log_connect [simp]: "am_log (am_connect ag ws m) = am_log m"
  by (simp add: am_connect_def Let_def split: option.splits)

lemma log_disconnect [simp]: "am_log (am_disconnect ag ws m) = am_log m"
  by (simp add: am_disconnect_def)

lemma put_row_other: "c \<in> set cs \<Longrightarrow> ac_id c' \<noteq> ac_id c \<Longrightarrow> c \<in> set (put_row c' cs)"
  by (auto simp: put_row_def intro!: image_eqI [of _ _ c])

lemma ack_keeps:
  "acknowledge_command now who ag u db = (r, db') \<Longrightarrow> c \<in> set (ld_commands db) \<Longrightarrow> u \<noteq> ac_id c \<Longrightarrow>
     c \<in> set (ld_commands db')"
  by (auto simp: acknowledge_command_def Let_def split: option.splits if_splits
      intro!: put_row_other dest!: get_commandD(2))

lemma close_keeps:
  "close_command env who ag u stat res err db = (r, db') \<Longrightarrow> c \<in> set (ld_commands db) \<Longrightarrow> u \<noteq> ac_id c \<Longrightarrow>
     c \<in> set (ld_commands db')"
  by (auto simp: close_command_def complete_command_def fail_command_def Let_def
      split: option.splits if_splits sum.splits intro!: put_row_other dest!: get_commandD(2))

lemma create_keeps:
  "create_command j u now who ag ty p db = (r, db') \<Longrightarrow> c \<in> set (ld_commands db) \<Longrightarrow> c \<in> set (ld_commands db')"
  by (auto simp: create_command_def Let_def split: if_splits sum.splits)

lemma not_pending:
  assumes "commands_inv db" "c \<in> set (ld_commands db)" "ac_status c \<noteq> AC_PENDING"
    and "p \<in> set (pending_commands ag n db)"
  shows "ac_id p \<noteq> ac_id c"
  using same_row [OF commands_invD [OF assms(1)] assms(2) pending_commandsD(1) [OF assms(4)]]
    pending_commandsD(3) [OF assms(4)] assms(3) by auto

lemma claim_rows_keeps: "c \<in> set cs \<Longrightarrow> ac_id c \<notin> I \<Longrightarrow> c \<in> set (claim_rows now I cs)"
  by (auto simp: claim_rows_def intro!: image_eqI [of _ _ c])

lemma claim_keeps:
  assumes "claim_pending_commands now who ag n db = (cs, db')" "commands_inv db"
    and "c \<in> set (ld_commands db)" "ac_status c \<noteq> AC_PENDING"
  shows "c \<in> set (ld_commands db')"
proof -
  have sub: "set (pending_commands ag n db) \<subseteq> set (ld_commands db)" using pending_commandsD(1) by auto
  have "ac_id c \<notin> ac_id ` set (pending_commands ag n db)"
    using not_pending [OF assms(2-4)] by (metis imageE)
  from claim_rows_keeps [OF assms(3) this] show ?thesis
    using assms(1) mark_all_claimed_simps(1) [OF commands_invD [OF assms(2)] sub, of now who ag]
    by (auto simp: claim_pending_commands_def Let_def)
qed

lemma deliver_keeps:
  assumes "stranded c st" "commands_inv (lk_db st)"
  shows "stranded c (deliver_step env who ag st)"
proof -
  let ?cs = "pending_commands ag 10 (lk_db st)"
  obtain n db' m' where d: "deliver_pending_commands env who ag (lk_db st) (lk_manager st) = (n, db', m')"
    by (cases "deliver_pending_commands env who ag (lk_db st) (lk_manager st)") auto
  note o1 = delivery_outcome [OF d assms(2) refl]
  have c: "c \<in> set (ld_commands (lk_db st))" "ac_status c \<noteq> AC_PENDING" using assms(1) by (auto simp: stranded_def)
  note np = not_pending [OF assms(2) c]
  have "ac_id c \<notin> ac_id ` (set (take n ?cs) \<union> set (drop (Suc n) ?cs))"
  proof
    assume "ac_id c \<in> ac_id ` (set (take n ?cs) \<union> set (drop (Suc n) ?cs))"
    then obtain p where "ac_id c = ac_id p" "p \<in> set (take n ?cs) \<union> set (drop (Suc n) ?cs)" by (rule imageE)
    moreover from this(2) have "p \<in> set ?cs" using in_set_takeD in_set_dropD by fast
    ultimately show False using np by metis
  qed
  from claim_rows_keeps [OF c(1) this, of "le_now env"]
  have "c \<in> set (ld_commands db')" unfolding o1 [THEN conjunct2, THEN conjunct2, THEN conjunct1] .
  moreover have "undelivered (ac_id c) m'"
  proof -
    from o1 obtain ws where log: "am_log m' = am_log (lk_manager st)
        @ map (\<lambda>p. (ws, command_message (le_codec env) p)) (take n ?cs)" by blast
    have "list_all (\<lambda>p. ac_id p \<noteq> ac_id c) (take n ?cs)"
      using np in_set_takeD by (fastforce simp: list_all_iff)
    moreover have "undelivered (ac_id c) (lk_manager st)" using assms(1) by (simp add: stranded_def)
    ultimately show ?thesis
      unfolding undelivered_def log by (simp add: list_all_iff command_message_def ball_Un)
  qed
  ultimately show ?thesis using d assms(1) by (simp add: deliver_step_def stranded_def)
qed

lemma reply_keeps:
  assumes "reply env s msg st = (ok, st')" "stranded c st" "\<And>u ty p. msg \<noteq> COMMAND u ty p"
  shows "stranded c st'"
proof -
  obtain m' where m: "ws_send env (wn_socket s) msg (lk_manager st) = (ok, m')" "st' = st\<lparr>lk_manager := m'\<rparr>"
    using assms(1) by (auto simp: reply_def split: prod.splits)
  have "case msg of COMMAND u ty p \<Rightarrow> u \<noteq> ac_id c | _ \<Rightarrow> True" using assms(3) by (cases msg) auto
  with ws_send_simps [OF m(1)] assms(2) m(2) show ?thesis
    by (auto simp: stranded_def undelivered_def)
qed

lemma put_agent_simps [simp]: "ld_commands (put_agent ag f db) = ld_commands db"
  by (simp add: put_agent_def)

lemma stranded_put_agent: "stranded c st \<Longrightarrow> stranded c (st\<lparr>lk_db := put_agent ag f (lk_db st)\<rparr>)"
  by (simp add: stranded_def)


lemma result_keeps:
  assumes "handle_result env s u stat res err st = (ok, st')" "stranded c st" "commands_inv (lk_db st)" "u \<noteq> ac_id c"
  shows "stranded c st'"
proof -
  obtain r db where c: "close_command env (session_actor s) (wn_agent s) u stat (map_option dict_of res) err (lk_db st) = (r, db)"
    by (cases "close_command env (session_actor s) (wn_agent s) u stat (map_option dict_of res) err (lk_db st)")
  have k: "c \<in> set (ld_commands db)"
    by (rule close_keeps [OF c _ assms(4)]) (use assms(2) in \<open>simp add: stranded_def\<close>)
  have inv: "commands_inv db" using close_command_sound(1) [OF c] assms(3) by (simp add: agent_step_def)
  have "stranded c (deliver_step env (session_actor s) (wn_agent s) (st\<lparr>lk_db := db, lk_exec := x\<rparr>))" for x
    by (rule deliver_keeps [OF stranded_db [OF assms(2) k]]) (simp_all add: inv)
  with assms(1,2) c show ?thesis
    by (auto simp: handle_result_def split: sum.splits dest: reply_keeps)
qed

lemma ack_message_keeps:
  assumes "handle_ack env s u st = (ok, st')" "stranded c st" "u \<noteq> ac_id c"
  shows "stranded c st'"
proof -
  obtain r db where a: "acknowledge_command (le_now env) (session_actor s) (wn_agent s) u (lk_db st) = (r, db)"
    by (cases "acknowledge_command (le_now env) (session_actor s) (wn_agent s) u (lk_db st)")
  show ?thesis
  proof (cases r)
    case (Inl e)
    with a assms show ?thesis by (auto simp: handle_ack_def intro: reply_keeps)
  next
    case (Inr x)
    have "c \<in> set (ld_commands db)" by (rule ack_keeps [OF a _ assms(3)]) (use assms(2) in \<open>simp add: stranded_def\<close>)
    with Inr a assms show ?thesis by (auto simp: handle_ack_def stranded_def)
  qed
qed

lemma message_keeps:
  assumes "handle_message env s v st = (ok, st')" "stranded c st" "commands_inv (lk_db st)"
    and "\<not> names_command env (ac_id c) (L_message s v)"
  shows "stranded c st'"
proof (cases "parse_incoming (le_conv env) v")
  case (Inl e)
  with assms show ?thesis by (auto simp: handle_message_def dest: reply_keeps)
next
  case (Inr msg)
  show ?thesis
  proof (cases msg)
    case (Ack u)
    with Inr assms show ?thesis by (auto simp: handle_message_def intro: ack_message_keeps)
  next
    case (Result u stat res err)
    with Inr assms show ?thesis by (auto simp: handle_message_def intro: result_keeps)
  next
    case (MarketData m)
    with Inr assms show ?thesis by (auto simp: handle_message_def stranded_def)
  next
    case (Bars m)
    with Inr assms show ?thesis by (auto simp: handle_message_def stranded_def)
  next
    case (Hello av vf caps)
    with Inr assms show ?thesis
      by (auto simp: handle_message_def intro: reply_keeps [OF _ stranded_put_agent [OF assms(2)]])
  next
    case (Heartbeat stat vf)
    with Inr assms show ?thesis
      by (auto simp: handle_message_def intro: reply_keeps [OF _ stranded_put_agent [OF assms(2)]])
  qed
qed

lemma finish_keeps: "stranded c st \<Longrightarrow> stranded c (ws_finish s st)"
  by (simp add: stranded_def ws_finish_def undelivered_def)

lemma receive_keeps:
  assumes "stranded c st" "commands_inv (lk_db st)" "\<not> names_command env (ac_id c) (L_message s v)"
  shows "stranded c (ws_receive env s v st)"
  using message_keeps [OF _ assms] finish_keeps
  by (auto simp: ws_receive_def split: prod.splits bool.splits)

lemma accept_keeps:
  assumes "stranded c st" "commands_inv (lk_db st)"
  shows "stranded c (snd (ws_accept env raw h tok ws st))"
proof -
  have "stranded c (deliver_step env who ag (st\<lparr>lk_db := add_link_audit ag w e (put_agent ag f (lk_db st)),
      lk_manager := am_connect ag ws (lk_manager st)\<rparr>))" for who w e ag f
    using assms by (intro deliver_keeps) (simp_all add: stranded_def undelivered_def commands_inv_def)
  with assms show ?thesis by (auto simp: ws_accept_def Let_def split: option.splits prod.splits)
qed

lemma rest_keeps:
  assumes "stranded c st" "commands_inv (lk_db st)"
  shows "stranded c (snd (rest_create_command env usr raw ty p st))"
    and "stranded c (snd (rest_pending_commands env sec raw st))"
    and "cv_uuid (le_conv env) u \<noteq> Some (ac_id c) \<Longrightarrow> stranded c (snd (rest_ack_command env sec raw u stat st))"
    and "cv_uuid (le_conv env) u \<noteq> Some (ac_id c) \<Longrightarrow>
      stranded c (snd (rest_submit_result env sec raw u stat res err st))"
proof -
  have c: "c \<in> set (ld_commands (lk_db st))" "ac_status c \<noteq> AC_PENDING" using assms(1) by (auto simp: stranded_def)
  have un: "undelivered (ac_id c) (lk_manager st)" "ac_status c = AC_SENT" using assms(1) by (auto simp: stranded_def)
  show "stranded c (snd (rest_create_command env usr raw ty p st))"
    using un c
    by (auto simp: rest_create_command_def Let_def stranded_def split: sum.splits prod.splits dest: create_keeps)
  show "stranded c (snd (rest_pending_commands env sec raw st))"
    using un c claim_keeps [OF _ assms(2) c]
    by (auto simp: rest_pending_commands_def stranded_def split: sum.splits prod.splits)
  assume u: "cv_uuid (le_conv env) u \<noteq> Some (ac_id c)"
  show "stranded c (snd (rest_ack_command env sec raw u stat st))"
    using un c u
    by (auto simp: rest_ack_command_def stranded_def split: sum.splits prod.splits option.splits dest: ack_keeps)
  show "stranded c (snd (rest_submit_result env sec raw u stat res err st))"
    using un c u
    by (auto simp: rest_submit_result_def stranded_def split: sum.splits prod.splits option.splits dest: close_keeps)
qed

lemma step_keeps_stranded:
  assumes "stranded c st" "link_inv st" "\<not> names_command (fst op) (ac_id c) (snd op)"
  shows "stranded c (link_step op st)"
proof -
  obtain env ev where op: "op = (env, ev)" by (cases op)
  have inv: "commands_inv (lk_db st)" using assms(2) by (simp add: link_inv_def)
  note rk = rest_keeps [OF assms(1) inv]
  show ?thesis
    using assms op inv rk receive_keeps [OF assms(1) inv] finish_keeps accept_keeps deliver_keeps
    by (cases ev) (auto simp: link_step_def)
qed

lemma run_keeps_stranded:
  assumes "stranded c st" "link_inv st"
    and "list_all (\<lambda>(env, ev). \<not> names_command env (ac_id c) ev) ops"
  shows "stranded c (run_events link_step ops st)"
  using assms
proof (induction ops arbitrary: st)
  case (Cons op ops)
  obtain env ev where "op = (env, ev)" by (cases op)
  with Cons show ?case by (simp add: step_keeps_stranded link_inv_step)
qed simp

subsection \<open>Draining a queue\<close>

definition pending_all :: "string \<Rightarrow> link_db \<Rightarrow> agent_command list" where
  "pending_all ag db =
     sort_key ac_created_at (filter (\<lambda>c. ac_agent_id c = ag \<and> ac_status c = AC_PENDING) (ld_commands db))"

fun sent_command :: "nat \<times> server_message \<Rightarrow> (nat \<times> string) option" where
  "sent_command (ws, COMMAND u ty p) = Some (ws, u)"
| "sent_command (ws, _) = None"

definition command_log :: "agent_manager \<Rightarrow> (nat \<times> string) list" where
  "command_log m = List.map_filter sent_command (am_log m)"

lemma pending_take: "pending_commands ag n db = take n (pending_all ag db)"
  by (simp add: pending_commands_def pending_all_def)

lemma map_filter_commands:
  "List.map_filter sent_command (map (\<lambda>c. (ws, command_message j c)) cs) = map (\<lambda>c. (ws, ac_id c)) cs"
  by (induction cs) (simp_all add: command_message_def List.map_filter_simps)

lemma map_filter_app: "List.map_filter f (xs @ ys) = List.map_filter f xs @ List.map_filter f ys"
  by (simp add: List.map_filter_def)

lemma deliver_each_up:
  assumes "map_of (am_active m) ag = Some ws" "\<And>k. le_up env ws k"
  shows "deliver_each env ag cs db m =
    (length cs, db, m\<lparr>am_log := am_log m @ map (\<lambda>c. (ws, command_message (le_codec env) c)) cs\<rparr>)"
  using assms(1)
proof (induction cs arbitrary: m)
  case (Cons c cs)
  then show ?case by (simp add: am_send_json_def ws_send_def assms(2))
qed simp

lemma filter_claim_rows:
  "filter (\<lambda>c. ac_agent_id c = ag \<and> ac_status c = AC_PENDING) (claim_rows now I cs) =
     filter (\<lambda>c. ac_id c \<notin> I) (filter (\<lambda>c. ac_agent_id c = ag \<and> ac_status c = AC_PENDING) cs)"
  by (induction cs) (auto simp: claim_rows_def)

lemma filter_drop_ids:
  assumes "distinct (map f xs)" shows "filter (\<lambda>x. f x \<notin> f ` set (take n xs)) xs = drop n xs"
proof -
  have "filter (\<lambda>x. f x \<notin> f ` set (take n xs)) (take n xs) = []" by (simp add: filter_empty_conv)
  moreover have "f x \<notin> f ` set (take n xs)" if "x \<in> set (drop n xs)" for x
  proof
    assume "f x \<in> f ` set (take n xs)"
    moreover from that have "f x \<in> f ` set (drop n xs)" by simp
    moreover from assms have "distinct (map f (take n xs) @ map f (drop n xs))"
      by (simp flip: map_append)
    ultimately show False by auto
  qed
  then have "filter (\<lambda>x. f x \<notin> f ` set (take n xs)) (drop n xs) = drop n xs" by (simp add: filter_id_conv)
  ultimately show ?thesis
    by (metis append_take_drop_id filter_append self_append_conv2)
qed

lemma deliver_step_up:
  assumes "link_inv st" "map_of (am_active (lk_manager st)) ag = Some ws" "\<And>k. le_up env ws k"
  shows "am_active (lk_manager (deliver_step env who ag st)) = am_active (lk_manager st)"
    and "command_log (lk_manager (deliver_step env who ag st)) =
           command_log (lk_manager st) @ map (\<lambda>c. (ws, ac_id c)) (take 10 (pending_all ag (lk_db st)))"
    and "pending_all ag (lk_db (deliver_step env who ag st)) = drop 10 (pending_all ag (lk_db st))"
proof -
  let ?cs = "pending_commands ag 10 (lk_db st)" and ?P = "pending_all ag (lk_db st)"
  have inv: "commands_inv (lk_db st)" using assms(1) by (simp add: link_inv_def)
  have sub: "set ?cs \<subseteq> set (ld_commands (lk_db st))" using pending_commandsD(1) by auto
  let ?db = "mark_all_claimed (le_now env) who ag ?cs (lk_db st)"
  have d: "deliver_step env who ag st = st\<lparr>lk_db := ?db, lk_manager := (lk_manager st)
      \<lparr>am_log := am_log (lk_manager st) @ map (\<lambda>c. (ws, command_message (le_codec env) c)) ?cs\<rparr>\<rparr>"
    by (simp add: deliver_step_def deliver_pending_commands_def claim_pending_commands_def Let_def
        deliver_each_up [OF assms(2,3)] comp_def)
  show "am_active (lk_manager (deliver_step env who ag st)) = am_active (lk_manager st)"
    by (simp add: d)
  show "command_log (lk_manager (deliver_step env who ag st)) =
      command_log (lk_manager st) @ map (\<lambda>c. (ws, ac_id c)) (take 10 ?P)"
    by (simp add: d command_log_def map_filter_app map_filter_commands pending_take)
  have "pending_all ag ?db = sort_key ac_created_at (filter (\<lambda>c. ac_id c \<notin> ac_id ` set ?cs)
      (filter (\<lambda>c. ac_agent_id c = ag \<and> ac_status c = AC_PENDING) (ld_commands (lk_db st))))"
    unfolding pending_all_def mark_all_claimed_simps(1) [OF commands_invD [OF inv] sub] filter_claim_rows ..
  also have "\<dots> = filter (\<lambda>c. ac_id c \<notin> ac_id ` set (take 10 ?P)) ?P"
    unfolding pending_take pending_all_def by (simp only: filter_sort)
  also have "\<dots> = drop 10 ?P"
    by (rule filter_drop_ids) (simp add: pending_all_def distinct_pending_all [OF inv])
  finally show "pending_all ag (lk_db (deliver_step env who ag st)) = drop 10 ?P" by (simp add: d)
qed

lemma drain_run:
  assumes "link_inv st" "map_of (am_active (lk_manager st)) ag = Some ws"
    and "list_all (\<lambda>(env, who). \<forall>k. le_up env ws k) steps"
    and "st' = run_events link_step (map (\<lambda>(env, who). (env, L_deliver ag who)) steps) st"
  shows "command_log (lk_manager st') = command_log (lk_manager st)
      @ map (\<lambda>c. (ws, ac_id c)) (take (10 * length steps) (pending_all ag (lk_db st)))
    \<and> pending_all ag (lk_db st') = drop (10 * length steps) (pending_all ag (lk_db st))"
  using assms
proof (induction steps arbitrary: st)
  case (Cons s1 steps)
  obtain env who where s1: "s1 = (env, who)" by (cases s1)
  let ?s = "deliver_step env who ag st"
  have up: "\<And>k. le_up env ws k" using Cons.prems(3) s1 by simp
  note d = deliver_step_up [OF Cons.prems(1,2) up, of who]
  have step: "link_step (env, L_deliver ag who) st = ?s" by (simp add: link_step_def)
  have inv: "link_inv ?s" using link_inv_step [OF Cons.prems(1), of "(env, L_deliver ag who)"] step by simp
  have con: "map_of (am_active (lk_manager ?s)) ag = Some ws" using d(1) Cons.prems(2) by simp
  from Cons.IH [OF inv con] Cons.prems(3,4) s1 step d(2,3) show ?case
    by (simp add: take_add add.commute flip: map_append)
qed simp

subsection \<open>Properties\<close>

text \<open>C18: through any sequence of connections, messages, deliveries and REST calls every command keeps
  its agent, type and payload, a COMPLETED or FAILED command stays exactly as it is, ids stay unique
  and the times and texts of every command fit its status.\<close>

theorem commands_keep_history:
  assumes "link_inv st" "c \<in> set (ld_commands (lk_db st))" "st' = run_events link_step ops st"
  shows "commands_inv (lk_db st') \<and> (\<exists>c' \<in> set (ld_commands (lk_db st')). ac_id c' = ac_id c
    \<and> ac_agent_id c' = ac_agent_id c \<and> ac_command_type c' = ac_command_type c
    \<and> ac_payload_json c' = ac_payload_json c \<and> stamped c'
    \<and> (ac_status c = AC_COMPLETED \<or> ac_status c = AC_FAILED \<longrightarrow> c' = c))"
proof -
  from run_link_rows [OF assms(1), of ops] assms(3)
  have inv: "link_inv st'" and ev: "rows_evolve (ld_commands (lk_db st)) (ld_commands (lk_db st'))" by simp_all
  from rows_evolveD [OF ev assms(2)] obtain c' where c': "c' \<in> set (ld_commands (lk_db st'))" "evolves\<^sup>*\<^sup>* c c'" .
  moreover have "stamped c'" using inv c'(1) by (auto simp: link_inv_def commands_inv_def list_all_iff)
  moreover have "c' = c" if "ac_status c = AC_COMPLETED \<or> ac_status c = AC_FAILED"
    using that by (intro evolves_to_final [OF c'(2)]) auto
  ultimately show ?thesis using inv evolves_to_same [OF c'(2)] by (auto simp: link_inv_def)
qed

definition demo_link_env :: "nat \<Rightarrow> bool \<Rightarrow> link_env" where
  "demo_link_env ws up =
     \<lparr>le_now = 100, le_up = (\<lambda>w k. up \<and> w = ws), le_redis = True,
      le_codec = \<lparr>jc_dumps = (\<lambda>_. Some []), jc_loads = (\<lambda>_. None)\<rparr>,
      le_reading = \<lparr>jr_as_int = (\<lambda>_. None), jr_as_dec = (\<lambda>_. None), jr_as_str = (\<lambda>_. []), jr_truthy = (\<lambda>_. False)\<rparr>,
      le_conv = demo_conversions, le_times = demo_times, le_verify = (\<lambda>a b. a = b), le_size = (\<lambda>_. 0),
      le_fresh = ''id''\<rparr>"

definition demo_queued :: "string \<Rightarrow> instant \<Rightarrow> agent_command" where
  "demo_queued cid t = new_command cid t ''agent'' ''PING'' None"

definition demo_link :: link_state where
  "demo_link =
     \<lparr>lk_db = \<lparr>ld_agents = [\<lparr>ag_id = ''agent'', ag_account_id = ''A'', ag_label = ''ea'', ag_hashed_secret = ''s'',
         ag_last_seen_at = None, ag_last_known_status = ''UNKNOWN'', ag_mt5_version = None,
         ag_ea_version = None, ag_notes = None\<rparr>],
       ld_accounts = [(''A'', ''user'')], ld_commands = [demo_queued ''c1'' 2, demo_queued ''c2'' 1], ld_audit = []\<rparr>,
      lk_exec = \<lparr>xd_commands = [], xd_reports = [], xd_positions = [], xd_audit = []\<rparr>, lk_market = empty_store,
      lk_manager = \<lparr>am_active = [(''agent'', 7)], am_closed = [], am_log = []\<rparr>\<rparr>"

lemma demo_link_inv: "link_inv demo_link"
  by (simp add: link_inv_def demo_link_def commands_inv_def demo_queued_def) (simp add: new_command_def)

theorem commands_keep_history_witness:
  "commands_inv (lk_db (run_events link_step [(demo_link_env 7 True, L_deliver ''agent'' (None, None))] demo_link))"
proof -
  have "demo_queued ''c1'' 2 \<in> set (ld_commands (lk_db demo_link))" by (simp add: demo_link_def)
  from commands_keep_history [OF demo_link_inv this refl] show ?thesis by blast
qed

text \<open>C17: an agent is isolated from everyone without its credentials.  Any connections, messages and
  requests may run, addressed at any agent, this one included, with any contents: as long as none of
  them knows the secret of the agent, comes from the user of its account or through its own session,
  the agent's queue, its row and its live connection stay as they are.  Its commands are listed to
  the user of its account only, and a session of the agent is only opened with its secret.\<close>

theorem agents_are_isolated:
  assumes "link_inv st" "never link_step (acts_for ag) ops st" "st' = run_events link_step ops st"
  shows "link_view ag st' = link_view ag st
    \<and> (\<forall>env raw user cid. cv_uuid (le_conv env) raw = Some ag \<and> \<not> owns_account env ag user (lk_db st') \<longrightarrow>
         (\<exists>e. rest_list_commands env user raw st' = Inl e) \<and> (\<exists>e. rest_get_command env user raw cid st' = Inl e))
    \<and> (\<forall>env raw h tok ws s. fst (ws_accept env raw h tok ws st') = Inr s \<and> wn_agent s = ag \<longrightarrow>
         knows_secret env ag (extract_agent_secret h tok) (lk_db st'))"
proof (intro conjI allI impI)
  show "link_view ag st' = link_view ag st"
    unfolding assms(3) by (rule link.bystander [OF assms(1,2)])
  fix env raw user cid
  assume "cv_uuid (le_conv env) raw = Some ag \<and> \<not> owns_account env ag user (lk_db st')"
  then obtain e where "user_owns_agent env raw user (lk_db st') = Inl e"
    using owns_agent_uuid owner_owns_account by (cases "user_owns_agent env raw user (lk_db st')") fastforce+
  then show "\<exists>e. rest_list_commands env user raw st' = Inl e" "\<exists>e. rest_get_command env user raw cid st' = Inl e"
    by (simp_all add: rest_list_commands_def rest_get_command_def)
next
  fix env raw h tok ws s
  assume "fst (ws_accept env raw h tok ws st') = Inr s \<and> wn_agent s = ag"
  then show "knows_secret env ag (extract_agent_secret h tok) (lk_db st')"
    using authenticate_uuid authenticated_knows_secret
    by (fastforce simp: ws_accept_def Let_def split: option.splits prod.splits if_splits)
qed

text \<open>An acknowledgement with a wrong secret, and an agent that is not the one addressed.\<close>

theorem agents_are_isolated_witness:
  "link_view ''agent'' (run_events link_step
       [((demo_link_env 7 True)\<lparr>le_verify := \<lambda>sec h. sec = ''right''\<rparr>,
         L_ack (Some ''wrong'') ''agent'' ''c1'' ''ACKNOWLEDGED'')] demo_link)
     = link_view ''agent'' demo_link"
proof -
  have "never link_step (acts_for ''agent'')
      [((demo_link_env 7 True)\<lparr>le_verify := \<lambda>sec h. sec = ''right''\<rparr>,
        L_ack (Some ''wrong'') ''agent'' ''c1'' ''ACKNOWLEDGED'')] demo_link"
    by (simp add: knows_secret_def)
  from agents_are_isolated [OF demo_link_inv this refl] show ?thesis by blast
qed

text \<open>when a send fails, the commands claimed after the failing one stay SENT although no socket
  received them, and no later connection, delivery, claim or message hands them over: only an
  acknowledgement or a result for them, which the agent has no reason to send, changes them, and the
  agent counts as busy meanwhile.\<close>

theorem undelivered_commands_stranded:
  assumes "link_inv st"
    and "deliver_pending_commands env who ag (lk_db st) (lk_manager st) = (n, db', m')"
    and "n < i" "i < length (pending_commands ag 10 (lk_db st))"
    and "c = pending_commands ag 10 (lk_db st) ! i"
    and "undelivered (ac_id c) (lk_manager st)"
    and "list_all (\<lambda>(env, ev). \<not> names_command env (ac_id c) ev) ops"
    and "st' = run_events link_step ops (st\<lparr>lk_db := db', lk_manager := m'\<rparr>)"
  shows "mark_claimed (le_now env) c \<in> set (ld_commands (lk_db st'))
    \<and> undelivered (ac_id c) (lk_manager st') \<and> has_in_flight_command ag (lk_db st')"
proof -
  let ?cs = "pending_commands ag 10 (lk_db st)" and ?c = "mark_claimed (le_now env) c"
  let ?s = "st\<lparr>lk_db := db', lk_manager := m'\<rparr>"
  have inv: "commands_inv (lk_db st)" using assms(1) by (simp add: link_inv_def)
  note o1 = delivery_outcome [OF assms(2) inv refl]
  have later: "c \<in> set (drop k ?cs)" if "k \<le> i" for k
  proof -
    have "drop k ?cs ! (i - k) = c" "i - k < length (drop k ?cs)" using that assms(4,5) by auto
    then show ?thesis using nth_mem by blast
  qed
  have c: "c \<in> set ?cs" "c \<in> set (drop (Suc n) ?cs)" using later [of 0] later [of "Suc n"] assms(3) by simp_all
  note pc = pending_commandsD [OF c(1)]
  have row: "?c \<in> set (ld_commands db')"
  proof -
    have "ld_commands db' = claim_rows (le_now env) (ac_id ` (set (take n ?cs) \<union> set (drop (Suc n) ?cs))) (ld_commands (lk_db st))"
      using o1 by blast
    then show ?thesis using c(2) pc(1) by (auto simp: claim_rows_def intro!: image_eqI [of _ _ c])
  qed
  have "undelivered (ac_id c) m'"
  proof -
    from o1 obtain ws where log: "am_log m' = am_log (lk_manager st)
        @ map (\<lambda>p. (ws, command_message (le_codec env) p)) (take n ?cs)" by blast
    have "ac_id p \<noteq> ac_id c" if "p \<in> set (take n ?cs)" for p
    proof -
      have "c \<in> set (drop n ?cs)" using later [of n] assms(3) by simp
      moreover have "distinct (map ac_id (take n ?cs) @ map ac_id (drop n ?cs))"
        using distinct_pending [OF inv, of ag 10] by (simp flip: map_append)
      ultimately show ?thesis using that by auto
    qed
    then show ?thesis
      using assms(6) unfolding undelivered_def log by (simp add: list_all_iff command_message_def ball_Un)
  qed
  with row have s: "stranded ?c ?s" by (simp add: stranded_def)
  have "link_inv ?s"
    using step_deliver_pending [OF assms(2) inv] assms(1)
    by (simp add: link_inv_def agent_step_def manager_step_def)
  from run_keeps_stranded [OF s this, of ops] assms(7,8) have "stranded ?c st'" by simp
  then show ?thesis using pc(2)
    by (auto simp: stranded_def has_in_flight_command_def list_ex_iff intro!: bexI [of _ ?c])
qed

lemma demo_pending: "pending_commands ''agent'' 10 (lk_db demo_link) = [demo_queued ''c2'' 1, demo_queued ''c1'' 2]"
  by (simp add: pending_commands_def demo_link_def demo_queued_def new_command_def)

theorem undelivered_commands_stranded_witness:
  "mark_claimed 100 (demo_queued ''c1'' 2) \<in> set (ld_commands (lk_db (run_events link_step []
     (demo_link\<lparr>lk_db := fst (snd (deliver_pending_commands (demo_link_env 7 False) (None, None) ''agent''
         (lk_db demo_link) (lk_manager demo_link))),
       lk_manager := snd (snd (deliver_pending_commands (demo_link_env 7 False) (None, None) ''agent''
         (lk_db demo_link) (lk_manager demo_link)))\<rparr>))))"
proof -
  let ?d = "deliver_pending_commands (demo_link_env 7 False) (None, None) ''agent'' (lk_db demo_link) (lk_manager demo_link)"
  have n: "fst ?d = 0"
    by (simp add: deliver_pending_commands_def claim_pending_commands_def Let_def demo_pending am_send_json_def
        ws_send_def demo_link_env_def) (simp add: demo_link_def ws_send_def)
  have d: "?d = (0, fst (snd ?d), snd (snd ?d))" using n by (simp add: prod_eq_iff)
  have now: "le_now (demo_link_env 7 False) = 100" by (simp add: demo_link_env_def)
  have u: "undelivered (ac_id (demo_queued ''c1'' 2)) (lk_manager demo_link)"
    by (simp add: undelivered_def demo_link_def)
  have i: "1 < length (pending_commands ''agent'' 10 (lk_db demo_link))"
    "demo_queued ''c1'' 2 = pending_commands ''agent'' 10 (lk_db demo_link) ! 1" by (simp_all add: demo_pending)
  show ?thesis
    using undelivered_commands_stranded [OF demo_link_inv d zero_less_one i u list.pred_inject(1) refl, THEN conjunct1]
    unfolding now .
qed

text \<open>C19: while the agent's socket accepts messages, n deliveries hand over all of up to 10 n pending
  commands, each once and in the order of their creation, to that socket.\<close>

theorem deliveries_drain_queue:
  assumes "link_inv st" "map_of (am_active (lk_manager st)) ag = Some ws"
    and "list_all (\<lambda>(env, who). \<forall>k. le_up env ws k) steps"
    and "length (pending_all ag (lk_db st)) \<le> 10 * length steps"
    and "st' = run_events link_step (map (\<lambda>(env, who). (env, L_deliver ag who)) steps) st"
  shows "pending_all ag (lk_db st') = []
    \<and> command_log (lk_manager st') =
        command_log (lk_manager st) @ map (\<lambda>c. (ws, ac_id c)) (pending_all ag (lk_db st))"
  using drain_run [OF assms(1-3,5)] assms(4) by simp

theorem deliveries_drain_queue_witness:
  "command_log (lk_manager (run_events link_step
     (map (\<lambda>(env, who). (env, L_deliver ''agent'' who)) [(demo_link_env 7 True, (None, None))]) demo_link))
   = [(7, ''c2''), (7, ''c1'')]"
proof -
  have p: "pending_all ''agent'' (lk_db demo_link) = [demo_queued ''c2'' 1, demo_queued ''c1'' 2]"
    by (simp add: pending_all_def demo_link_def demo_queued_def new_command_def)
  have a: "map_of (am_active (lk_manager demo_link)) ''agent'' = Some 7" by (simp add: demo_link_def)
  have "list_all (\<lambda>(env, who). \<forall>k. le_up env 7 k) [(demo_link_env 7 True, (None, None))]"
    by (simp add: demo_link_env_def)
  from deliveries_drain_queue [OF demo_link_inv a this _ refl] p show ?thesis
    by (simp add: command_log_def demo_queued_def new_command_def)
       (simp add: demo_link_def List.map_filter_simps)
qed

end
