(* ===== verification/Risk_Service.thy ===== *)
theory Risk_Service
  imports Execution_Service
begin

section \<open>Risk service (\<open>backend/services/risk_service.py\<close>)\<close>

text \<open>
  The tables the risk service reads, the snapshot it builds from them, and the evaluation it records.
  The trading database holds the tables of the execution service and those of risk and signals.
  Days are whole days since the epoch in UTC; the unique constraints leave at most one configuration
  per version and one session per day; of several snapshots at one instant the first is taken.
\<close>

record risk_config_row =
  rw_account_id :: string
  rw_version :: int
  rw_daily_reset_timezone :: string
  rw_profit_lock_threshold_usd :: dec
  rw_profit_lock_floor_pct :: dec
  rw_max_tick_staleness_ms :: int
  rw_news_pre_event_window_minutes :: int
  rw_news_post_event_window_minutes :: int
  rw_daily_loss_limit_usd :: "dec option"
  rw_max_drawdown_usd :: "dec option"
  rw_max_open_positions :: "int option"
  rw_max_open_lots :: "dec option"
  rw_max_spread_usd :: "dec option"
  rw_risk_per_trade_pct :: "dec option"
  rw_kill_switch_active :: bool

record equity_row =
  eq_account_id :: string
  eq_balance_usd :: dec
  eq_equity_usd :: dec
  eq_snapped_at :: instant

record session_row =
  ss_account_id :: string
  ss_session_date :: int
  ss_session_open_equity_usd :: dec
  ss_session_peak_profit_usd :: dec
  ss_realized_pnl_usd :: dec
  ss_floating_pnl_usd :: "dec option"

record decision_row =
  de_account_id :: string
  de_correlation_id :: string
  de_decision :: signal_decision
  de_reason_code :: reason_code
  de_risk_state :: risk_state
  de_equity_at_decision :: "dec option"
  de_drawdown_at_decision :: "dec option"
  de_daily_pnl_at_decision :: "dec option"
  de_profit_lock_active :: bool
  de_profit_lock_floor_usd :: "dec option"
  de_decided_at :: instant

record signal_row =
  sg_id :: string
  sg_account_id :: string
  sg_correlation_id :: string
  sg_symbol :: string
  sg_direction :: string
  sg_strategy_id :: string
  sg_strategy_version :: string
  sg_setup_type :: "setup_type option"
  sg_confidence_score :: "dec option"
  sg_entry_reference :: "dec option"
  sg_suggested_stop_loss :: "dec option"
  sg_suggested_take_profit :: "dec option"
  sg_spread_at_signal :: "dec option"
  sg_news_state_at_signal :: string
  sg_status :: string
  sg_generated_at :: instant
  sg_expires_at :: instant

record trade_db =
  td_exec :: exec_db
  td_configs :: "risk_config_row list"
  td_equity :: "equity_row list"
  td_sessions :: "session_row list"
  td_decisions :: "decision_row list"
  td_signals :: "signal_row list"

text \<open>\<open>ORDER BY key DESC LIMIT 1\<close>.\<close>

fun latest_by :: "('a \<Rightarrow> int) \<Rightarrow> 'a list \<Rightarrow> 'a option" where
  "latest_by k [] = None"
| "latest_by k (x # xs) =
     (case latest_by k xs of None \<Rightarrow> Some x | Some y \<Rightarrow> if k x < k y then Some y else Some x)"

definition get_latest_risk_config :: "string \<Rightarrow> trade_db \<Rightarrow> risk_config" where
  "get_latest_risk_config acc db =
     (case latest_by rw_version (filter (\<lambda>r. rw_account_id r = acc) (td_configs db)) of
        None \<Rightarrow> risk_config_default
      | Some r \<Rightarrow> risk_config_default
          \<lparr>rk_daily_loss_limit_usd := rw_daily_loss_limit_usd r,
           rk_max_drawdown_usd := rw_max_drawdown_usd r,
           rk_max_open_positions := rw_max_open_positions r, rk_max_open_lots := rw_max_open_lots r,
           rk_max_spread_usd := rw_max_spread_usd r, rk_risk_per_trade_pct := rw_risk_per_trade_pct r,
           rk_profit_lock_threshold_usd := rw_profit_lock_threshold_usd r,
           rk_profit_lock_floor_pct := rw_profit_lock_floor_pct r,
           rk_max_tick_staleness_ms := rw_max_tick_staleness_ms r,
           rk_news_pre_event_window_minutes := rw_news_pre_event_window_minutes r,
           rk_news_post_event_window_minutes := rw_news_post_event_window_minutes r,
           rk_daily_reset_timezone := rw_daily_reset_timezone r,
           rk_emergency_stop_active := rw_kill_switch_active r\<rparr>)"

definition utc_day :: "instant \<Rightarrow> int" where
  "utc_day t = t div (86400 * 10 ^ 6)"

definition peak_equity :: "dec list \<Rightarrow> dec \<Rightarrow> dec" where
  "peak_equity es current =
     (let hwm = or_default (if es = [] then None else Some (Max (set es))) current
      in if hwm < current then current else hwm)"

definition build_account_risk_snapshot :: "instant \<Rightarrow> instant \<Rightarrow> string \<Rightarrow> trade_db \<Rightarrow> account_snapshot" where
  "build_account_risk_snapshot day_now snap_now acc db =
     (let rows = filter (\<lambda>r. eq_account_id r = acc) (td_equity db);
          latest = latest_by eq_snapped_at rows;
          balance = (case latest of Some r \<Rightarrow> eq_balance_usd r | None \<Rightarrow> 0);
          equity = (case latest of Some r \<Rightarrow> eq_equity_usd r | None \<Rightarrow> 0);
          daily = find (\<lambda>r. ss_account_id r = acc \<and> ss_session_date r = utc_day day_now) (td_sessions db);
          open_pos = open_positions_of acc (td_exec db)
      in \<lparr>as_account_id = acc, as_current_balance_usd = balance, as_current_equity_usd = equity,
          as_equity_peak_usd = peak_equity (map eq_equity_usd rows) equity,
          as_daily_realized_pnl_usd = (case daily of Some r \<Rightarrow> ss_realized_pnl_usd r | None \<Rightarrow> 0),
          as_daily_floating_pnl_usd =
            (case daily of Some r \<Rightarrow> (case ss_floating_pnl_usd r of Some f \<Rightarrow> f | None \<Rightarrow> 0) | None \<Rightarrow> 0),
          as_open_position_count = int (length open_pos), as_snapshot_at = snap_now,
          as_session_open_equity_usd =
            Some (case daily of Some r \<Rightarrow> ss_session_open_equity_usd r | None \<Rightarrow> equity),
          as_session_peak_profit_usd =
            Some (case daily of Some r \<Rightarrow> ss_session_peak_profit_usd r | None \<Rightarrow> 0),
          as_open_lot_exposure = dsum (map dp_lots open_pos), as_in_flight_lot_exposure = 0\<rparr>)"

definition stored_decision :: "string \<Rightarrow> risk_decision \<Rightarrow> decision_row" where
  "stored_decision acc d =
     \<lparr>de_account_id = acc, de_correlation_id = rd_correlation_id d, de_decision = rd_decision d,
      de_reason_code = rd_reason_code d, de_risk_state = rd_risk_state d,
      de_equity_at_decision = rd_equity_at_decision d,
      de_drawdown_at_decision = rd_drawdown_at_decision d,
      de_daily_pnl_at_decision = rd_daily_pnl_at_decision d,
      de_profit_lock_active = (case rd_profit_lock_status d of Some p \<Rightarrow> pl_is_active p | None \<Rightarrow> False),
      de_profit_lock_floor_usd = map_option pl_protected_floor_usd (rd_profit_lock_status d),
      de_decided_at = rd_decided_at d\<rparr>"

definition nonzero :: "dec option \<Rightarrow> dec option" where
  "nonzero v = (case v of Some x \<Rightarrow> if x = 0 then None else Some x | None \<Rightarrow> None)"

definition add_audit :: "string \<Rightarrow> audit_event \<Rightarrow> trade_db \<Rightarrow> trade_db" where
  "add_audit acc ev db =
     db\<lparr>td_exec := (td_exec db)\<lparr>xd_audit := xd_audit (td_exec db) @ [(acc, ev)]\<rparr>\<rparr>"

text \<open>The text of a reason code, as the engine writes it.\<close>

fun join_commas :: "string list \<Rightarrow> string" where
  "join_commas [] = []"
| "join_commas [w] = w"
| "join_commas (w # ws) = w @ '','' @ join_commas ws"

fun reason_text :: "reason_code \<Rightarrow> string" where
  "reason_text EMERGENCY_STOP_ACTIVE = ''EMERGENCY_STOP_ACTIVE''"
| "reason_text (MISSING_PARAMETERS ps) = ''MISSING_PARAMETERS:'' @ join_commas ps"
| "reason_text (MARKET_DATA_NOT_READY s) = ''MARKET_DATA_NOT_READY:'' @ s"
| "reason_text STALE_MARKET_DATA = ''STALE_MARKET_DATA''"
| "reason_text SPREAD_TOO_HIGH = ''SPREAD_TOO_HIGH''"
| "reason_text (NEWS_EVENT_WINDOW n) = ''NEWS_EVENT_WINDOW:'' @ n"
| "reason_text (NEWS_DATA_UNAVAILABLE n) = ''NEWS_DATA_UNAVAILABLE:'' @ n"
| "reason_text DAILY_LOSS_LIMIT_HIT = ''DAILY_LOSS_LIMIT_HIT''"
| "reason_text MAX_DRAWDOWN_HIT = ''MAX_DRAWDOWN_HIT''"
| "reason_text CAUTION_DRAWDOWN_REACHED = ''CAUTION_DRAWDOWN_REACHED''"
| "reason_text PROFIT_LOCK_FLOOR_BREACHED = ''PROFIT_LOCK_FLOOR_BREACHED''"
| "reason_text MAX_POSITIONS_REACHED = ''MAX_POSITIONS_REACHED''"
| "reason_text MAX_LOTS_EXCEEDED = ''MAX_LOTS_EXCEEDED''"
| "reason_text ALL_CHECKS_PASSED = ''ALL_CHECKS_PASSED''"

record risk_clock =
  rl_day :: instant
  rl_snapshot :: instant
  rl_decision :: instant

definition evaluate_and_record_risk ::
  "risk_clock \<Rightarrow> string \<Rightarrow> string \<Rightarrow> (dec option \<times> dec option) option \<Rightarrow> market_condition option
     \<Rightarrow> string option \<Rightarrow> string option \<Rightarrow> trade_db \<Rightarrow> (risk_decision \<times> trade_db) res" where
  "evaluate_and_record_risk clk fresh acc candidate market news cid db =
     (let config = get_latest_risk_config acc db;
          snap = build_account_risk_snapshot (rl_day clk) (rl_snapshot clk) acc db
      in bind_res (evaluate_risk \<lparr>re_config = config, re_sizing_policy = None\<rparr> (rl_decision clk) fresh
                     snap candidate market news cid)
           (\<lambda>d. Inr (d, add_audit acc
                  (RISK_EVALUATED (rd_decision d) (rd_reason_code d) (rd_risk_state d) (rd_trading_allowed d)
                     (nonzero (rd_authorized_lot_size d)))
                  (db\<lparr>td_decisions := td_decisions db @ [stored_decision acc d]\<rparr>))))"

subsection \<open>Lemmas\<close>

lemma latest_by_mem: "latest_by k xs = Some x \<Longrightarrow> x \<in> set xs"
  by (induction xs arbitrary: x) (auto split: option.splits if_splits)

lemma latest_by_None [simp]: "latest_by k xs = None \<longleftrightarrow> xs = []"
  by (cases xs) (auto split: option.splits)

lemma latest_by_max: "latest_by k xs = Some x \<Longrightarrow> y \<in> set xs \<Longrightarrow> k y \<le> k x"
proof (induction xs arbitrary: x)
  case (Cons a xs)
  then show ?case by (cases "latest_by k xs") (force split: if_splits)+
qed simp

lemma latest_by_snoc:
  assumes "\<forall>y \<in> set xs. k y < k x" shows "latest_by k (xs @ [x]) = Some x"
  using assms by (induction xs) auto

lemma no_caution_configured [simp]:
  "rk_caution_drawdown_pct (get_latest_risk_config acc db) = None"
  "rk_default_position_size_lots (get_latest_risk_config acc db) = None"
  by (simp_all add: get_latest_risk_config_def risk_config_default_def split: option.split)

lemma snapshot_positions [simp]:
  "as_open_position_count (build_account_risk_snapshot d s acc db)
     = int (length (open_positions_of acc (td_exec db)))"
  "as_open_lot_exposure (build_account_risk_snapshot d s acc db)
     = dsum (map dp_lots (open_positions_of acc (td_exec db)))"
  "as_in_flight_lot_exposure (build_account_risk_snapshot d s acc db) = 0"
  by (simp_all add: build_account_risk_snapshot_def Let_def)

lemma evaluate_and_record_cases:
  assumes "evaluate_and_record_risk clk fresh acc candidate market news cid db = Inr (d, db')"
  shows "evaluate_risk \<lparr>re_config = get_latest_risk_config acc db, re_sizing_policy = None\<rparr>
      (rl_decision clk) fresh (build_account_risk_snapshot (rl_day clk) (rl_snapshot clk) acc db)
      candidate market news cid = Inr d"
    "td_decisions db' = td_decisions db @ [stored_decision acc d]"
    "td_signals db' = td_signals db"
    "xd_positions (td_exec db') = xd_positions (td_exec db)"
    "xd_commands (td_exec db') = xd_commands (td_exec db)"
    "open_positions_of acc' (td_exec db') = open_positions_of acc' (td_exec db)"
  using assms
  by (auto simp: evaluate_and_record_risk_def Let_def add_audit_def open_positions_of_def elim!: bind_res_InrE)

lemma check_no_lots:
  "check_emergency c snap cid now = Some d \<Longrightarrow> rd_authorized_lot_size d = None"
  "check_configured c snap cid now = Some d \<Longrightarrow> rd_authorized_lot_size d = None"
  "check_market c market snap cid now = Some d \<Longrightarrow> rd_authorized_lot_size d = None"
  "check_news news snap cid now = Some d \<Longrightarrow> rd_authorized_lot_size d = None"
  "check_daily_loss c snap cid now = Some d \<Longrightarrow> rd_authorized_lot_size d = None"
  "check_drawdown c snap cid now = Some d \<Longrightarrow> rd_authorized_lot_size d = None"
  "check_profit_lock c snap cid now = Some d \<Longrightarrow> rd_authorized_lot_size d = None"
  "check_positions c snap cid now = Some d \<Longrightarrow> rd_authorized_lot_size d = None"
  "check_lots c lots snap cid now = Some d \<Longrightarrow> rd_authorized_lot_size d = None"
  by (auto simp: check_defs decide_def split: option.splits if_splits)

lemma evaluate_risk_caution:
  assumes "evaluate_risk e now fresh snap candidate market news given = Inr d"
    "rk_caution_drawdown_pct (re_config e) = None"
  shows "rd_reason_code d \<noteq> CAUTION_DRAWDOWN_REACHED"
proof -
  let ?c = "re_config e"
  have codes: "check_emergency ?c snap cid now = Some d \<Longrightarrow> rd_reason_code d \<noteq> CAUTION_DRAWDOWN_REACHED"
    "check_configured ?c snap cid now = Some d \<Longrightarrow> rd_reason_code d \<noteq> CAUTION_DRAWDOWN_REACHED"
    "check_market ?c market snap cid now = Some d \<Longrightarrow> rd_reason_code d \<noteq> CAUTION_DRAWDOWN_REACHED"
    "check_news news snap cid now = Some d \<Longrightarrow> rd_reason_code d \<noteq> CAUTION_DRAWDOWN_REACHED"
    "check_daily_loss ?c snap cid now = Some d \<Longrightarrow> rd_reason_code d \<noteq> CAUTION_DRAWDOWN_REACHED"
    "check_drawdown ?c snap cid now = Some d \<Longrightarrow> rd_reason_code d \<noteq> CAUTION_DRAWDOWN_REACHED"
    "check_profit_lock ?c snap cid now = Some d \<Longrightarrow> rd_reason_code d \<noteq> CAUTION_DRAWDOWN_REACHED"
    "check_positions ?c snap cid now = Some d \<Longrightarrow> rd_reason_code d \<noteq> CAUTION_DRAWDOWN_REACHED"
    "check_lots ?c lots snap cid now = Some d \<Longrightarrow> rd_reason_code d \<noteq> CAUTION_DRAWDOWN_REACHED" for cid lots d
    using assms(2) by (auto simp: check_defs decide_def split: option.splits if_splits)
  let ?cid = "choose_correlation_id given fresh"
  show ?thesis
  proof (cases "first_some
           [check_emergency ?c snap ?cid now, check_configured ?c snap ?cid now,
            check_market ?c market snap ?cid now, check_news news snap ?cid now,
            check_daily_loss ?c snap ?cid now, check_drawdown ?c snap ?cid now,
            check_profit_lock ?c snap ?cid now, check_positions ?c snap ?cid now]")
    case (Some d')
    with assms(1) have "d' = d" by (simp add: evaluate_risk_def Let_def del: first_some.simps)
    with first_some_mem [OF Some] show ?thesis by (auto dest!: codes [OF sym])
  next
    case None
    with assms(1) obtain l where "authorize_lots e snap candidate = Inr l"
      "d = (case check_lots ?c l snap ?cid now of Some d \<Rightarrow> d
            | None \<Rightarrow> (decide APPROVED ALL_CHECKS_PASSED RS_NORMAL snap ?cid now)
                \<lparr>rd_drawdown_at_decision := Some (drawdown snap),
                 rd_daily_pnl_at_decision := Some (total_daily_pnl snap),
                 rd_profit_lock_status := profit_lock_of ?c snap, rd_authorized_lot_size := l\<rparr>)"
      by (auto simp: evaluate_risk_def Let_def simp del: first_some.simps first_some_None elim!: bind_res_InrE)
    then show ?thesis using codes(9) by (auto simp: decide_def split: option.splits)
  qed
qed

subsection \<open>A worked example\<close>

definition demo_risk_row :: risk_config_row where
  "demo_risk_row =
     \<lparr>rw_account_id = ''acc'', rw_version = 1, rw_daily_reset_timezone = ''UTC'',
      rw_profit_lock_threshold_usd = 10, rw_profit_lock_floor_pct = 30 / 100,
      rw_max_tick_staleness_ms = 2000, rw_news_pre_event_window_minutes = 30,
      rw_news_post_event_window_minutes = 30, rw_daily_loss_limit_usd = Some 100,
      rw_max_drawdown_usd = Some 200, rw_max_open_positions = Some 3, rw_max_open_lots = Some 1,
      rw_max_spread_usd = Some 1, rw_risk_per_trade_pct = Some (1 / 100), rw_kill_switch_active = False\<rparr>"

definition demo_trade_db :: trade_db where
  "demo_trade_db =
     \<lparr>td_exec = empty_db, td_configs = [demo_risk_row],
      td_equity = [\<lparr>eq_account_id = ''acc'', eq_balance_usd = 10000, eq_equity_usd = 10000, eq_snapped_at = 0\<rparr>],
      td_sessions = [], td_decisions = [], td_signals = []\<rparr>"

definition demo_clock :: risk_clock where
  "demo_clock = \<lparr>rl_day = 0, rl_snapshot = 0, rl_decision = 0\<rparr>"

definition demo_risk_run :: "trade_db \<Rightarrow> (risk_decision \<times> trade_db) res" where
  "demo_risk_run db = evaluate_and_record_risk demo_clock ''id'' ''acc'' (Some (Some 2000, Some 1990))
     (Some demo_market) (Some ''CLEAR'') None db"

lemma demo_snapshot_fields:
  "build_account_risk_snapshot 0 0 ''acc'' demo_trade_db =
     \<lparr>as_account_id = ''acc'', as_current_balance_usd = 10000, as_current_equity_usd = 10000,
      as_equity_peak_usd = 10000, as_daily_realized_pnl_usd = 0, as_daily_floating_pnl_usd = 0,
      as_open_position_count = 0, as_snapshot_at = 0, as_session_open_equity_usd = Some 10000,
      as_session_peak_profit_usd = Some 0, as_open_lot_exposure = 0, as_in_flight_lot_exposure = 0\<rparr>"
  by (simp add: build_account_risk_snapshot_def demo_trade_db_def peak_equity_def or_default_def
      open_positions_of_def empty_db_def dsum_def)

lemma demo_risk_approved:
  "\<exists>d db'. demo_risk_run demo_trade_db = Inr (d, db') \<and> rd_trading_allowed d
     \<and> rd_authorized_lot_size d = Some (1 / 10)"
proof -
  define c where "c = get_latest_risk_config ''acc'' demo_trade_db"
  define snap where "snap = build_account_risk_snapshot 0 0 ''acc'' demo_trade_db"
  let ?e = "\<lparr>re_config = c, re_sizing_policy = None\<rparr>"
  have cfg: "rk_daily_loss_limit_usd c = Some 100" "rk_max_drawdown_usd c = Some 200"
    "rk_max_open_positions c = Some 3" "rk_max_open_lots c = Some 1" "rk_max_spread_usd c = Some 1"
    "rk_caution_drawdown_pct c = None" "rk_risk_per_trade_pct c = Some (1 / 100)"
    "rk_default_position_size_lots c = None" "\<not> rk_emergency_stop_active c"
    "rk_max_tick_staleness_ms c = 2000" "rk_profit_lock_threshold_usd c = 10"
    by (simp_all add: c_def get_latest_risk_config_def demo_trade_db_def demo_risk_row_def risk_config_default_def)
  have lots: "authorize_lots ?e snap (Some (Some 2000, Some 1990)) = Inr (Some (1 / 10))"
    using demo_sizing cfg(7,8) get_sizing_policy_pct [of ?e "1 / 100"]
    by (simp add: authorize_lots_def snap_def demo_snapshot_fields)
  have m: "check_market c (Some demo_market) snap cid 0 = None" for cid
    by (simp add: check_market_None cfg demo_market_def ready_statuses_def market_staleness_ms_def
        effective_spread_def dec_ops dec_simps)
  have n: "check_news (Some ''CLEAR'') snap cid 0 = None" for cid
    by (simp add: check_news_None news_window_states_def news_unavailable_states_def)
  have rest: "check_emergency c snap cid 0 = None" "check_configured c snap cid 0 = None"
    "check_daily_loss c snap cid 0 = None" "check_drawdown c snap cid 0 = None"
    "check_profit_lock c snap cid 0 = None" "check_positions c snap cid 0 = None"
    "check_lots c (Some (1 / 10)) snap cid 0 = None" for cid
    by (simp_all add: check_emergency_None check_configured_None check_daily_loss_None
        check_drawdown_def check_profit_lock_None check_positions_None check_lots_None cfg
        risk_is_fully_configured_def total_daily_pnl_def drawdown_def profit_lock_of_def
        snap_def demo_snapshot_fields or_default_def Let_def dec_ops dec_simps)
  show ?thesis
    by (simp add: demo_risk_run_def evaluate_and_record_risk_def demo_clock_def flip: c_def snap_def)
       (simp add: evaluate_risk_def rest m n lots Let_def decide_def rd_trading_allowed_def)
qed

subsection \<open>Properties\<close>

text \<open>
  an approval of the risk service respects the account's stored limits, and is recorded.  The
  newest configuration of the account exists, its kill switch is off and it sets the daily loss,
  drawdown and position limits; fewer positions are open in the database than it allows, and their
  lots with the authorised ones stay within its lot cap; exactly one decision row is appended, an
  approval of this account, and no position, command or signal changes.
\<close>

theorem recorded_approval_respects_tables:
  assumes "evaluate_and_record_risk clk fresh acc candidate market news cid db = Inr (d, db')"
    "rd_trading_allowed d"
  shows "\<exists>r mx dl dd. latest_by rw_version (filter (\<lambda>r. rw_account_id r = acc) (td_configs db)) = Some r
      \<and> \<not> rw_kill_switch_active r
      \<and> rw_daily_loss_limit_usd r = Some dl \<and> rw_max_drawdown_usd r = Some dd
      \<and> rw_max_open_positions r = Some mx
      \<and> int (length (open_positions_of acc (td_exec db))) < mx
      \<and> (\<forall>ml. rw_max_open_lots r = Some ml \<longrightarrow>
           dadd (dadd (dsum (map dp_lots (open_positions_of acc (td_exec db)))) 0)
             (or_default (rd_authorized_lot_size d) 0) \<le> ml)
      \<and> td_decisions db' = td_decisions db @ [stored_decision acc d]
      \<and> de_decision (stored_decision acc d) = APPROVED
      \<and> xd_positions (td_exec db') = xd_positions (td_exec db) \<and> td_signals db' = td_signals db"
proof -
  note ev = evaluate_and_record_cases [OF assms(1)]
  let ?c = "get_latest_risk_config acc db"
  from approved_checks [OF ev(1) assms(2)] obtain cid' l where ch: "rd_authorized_lot_size d = l"
    "check_lots ?c l (build_account_risk_snapshot (rl_day clk) (rl_snapshot clk) acc db) cid' (rl_decision clk) = None"
    "check_emergency ?c (build_account_risk_snapshot (rl_day clk) (rl_snapshot clk) acc db) cid' (rl_decision clk) = None"
    "check_configured ?c (build_account_risk_snapshot (rl_day clk) (rl_snapshot clk) acc db) cid' (rl_decision clk) = None"
    "check_positions ?c (build_account_risk_snapshot (rl_day clk) (rl_snapshot clk) acc db) cid' (rl_decision clk) = None"
    by simp metis
  show ?thesis
  proof (cases "latest_by rw_version (filter (\<lambda>r. rw_account_id r = acc) (td_configs db))")
    case None
    with ch(4) show ?thesis
      by (simp add: check_configured_None get_latest_risk_config_def risk_is_fully_configured_def
          risk_config_default_def)
  next
    case (Some r)
    then have c: "rk_daily_loss_limit_usd ?c = rw_daily_loss_limit_usd r"
      "rk_max_drawdown_usd ?c = rw_max_drawdown_usd r"
      "rk_max_open_positions ?c = rw_max_open_positions r" "rk_max_open_lots ?c = rw_max_open_lots r"
      "rk_emergency_stop_active ?c = rw_kill_switch_active r"
      by (simp_all add: get_latest_risk_config_def)
    from ch(4) c obtain dl dd mx where "rw_daily_loss_limit_usd r = Some dl"
      "rw_max_drawdown_usd r = Some dd" "rw_max_open_positions r = Some mx"
      by (auto simp: check_configured_None risk_is_fully_configured_def)
    moreover have "de_decision (stored_decision acc d) = APPROVED"
      using assms(2) by (simp add: stored_decision_def rd_trading_allowed_def)
    ultimately show ?thesis
      using Some ch(1,2,3,5) c ev
      unfolding check_lots_None check_emergency_None check_positions_None by simp
  qed
qed

theorem recorded_approval_respects_tables_witness:
  "\<exists>d db'. demo_risk_run demo_trade_db = Inr (d, db') \<and> td_decisions db' = [stored_decision ''acc'' d]
     \<and> (\<exists>mx. rw_max_open_positions demo_risk_row = Some mx
          \<and> int (length (open_positions_of ''acc'' (td_exec demo_trade_db))) < mx)"
proof -
  obtain d db' where d: "demo_risk_run demo_trade_db = Inr (d, db')" "rd_trading_allowed d"
    using demo_risk_approved by blast
  have "latest_by rw_version (filter (\<lambda>r. rw_account_id r = ''acc'') (td_configs demo_trade_db)) = Some demo_risk_row"
    "td_decisions demo_trade_db = []"
    by (simp_all add: demo_trade_db_def demo_risk_row_def)
  with recorded_approval_respects_tables [OF d(1) [unfolded demo_risk_run_def] d(2)] d(1) show ?thesis by force
qed

text \<open>
  the kill switch and a missing configuration stop the account.  If the newest configuration of
  the account has the kill switch set, every evaluation is an EMERGENCY decision, whatever the
  market, the news, the signal and the snapshot; if the account has no configuration, every
  evaluation is NOT_CONFIGURED; neither allows trading, and both are recorded.
\<close>

theorem kill_switch_stops:
  assumes "evaluate_and_record_risk clk fresh acc candidate market news cid db = Inr (d, db')"
    and "case latest_by rw_version (filter (\<lambda>r. rw_account_id r = acc) (td_configs db)) of
           Some r \<Rightarrow> rw_kill_switch_active r | None \<Rightarrow> True"
  shows "\<not> rd_trading_allowed d
    \<and> rd_decision d = (if \<exists>r \<in> set (td_configs db). rw_account_id r = acc then EMERGENCY else DEC_NOT_CONFIGURED)
    \<and> (\<exists>row. td_decisions db' = td_decisions db @ [row] \<and> de_account_id row = acc \<and> de_decision row = rd_decision d)"
proof -
  note ev = evaluate_and_record_cases [OF assms(1)]
  let ?c = "get_latest_risk_config acc db"
  have row: "\<exists>row. td_decisions db' = td_decisions db @ [row] \<and> de_account_id row = acc \<and> de_decision row = rd_decision d"
    using ev(2) by (simp add: stored_decision_def)
  show ?thesis
  proof (cases "latest_by rw_version (filter (\<lambda>r. rw_account_id r = acc) (td_configs db))")
    case None
    then have "\<not> rk_emergency_stop_active ?c" "\<not> risk_is_fully_configured ?c"
      by (simp_all add: get_latest_risk_config_def risk_config_default_def risk_is_fully_configured_def)
    with ev(1) have "rd_decision d = DEC_NOT_CONFIGURED"
      by (auto simp: evaluate_risk_def Let_def check_emergency_def check_configured_def decide_def)
    with None row show ?thesis by (auto simp: rd_trading_allowed_def filter_empty_conv)
  next
    case (Some r)
    with assms(2) have "rk_emergency_stop_active ?c" by (simp add: get_latest_risk_config_def)
    with ev(1) have "rd_decision d = EMERGENCY"
      by (auto simp: evaluate_risk_def Let_def check_emergency_def decide_def)
    with latest_by_mem [OF Some] row show ?thesis by (auto simp: rd_trading_allowed_def)
  qed
qed

theorem kill_switch_stops_witness:
  "\<exists>d db'. demo_risk_run (demo_trade_db\<lparr>td_configs := [demo_risk_row, demo_risk_row\<lparr>rw_version := 2, rw_kill_switch_active := True\<rparr>]\<rparr>)
       = Inr (d, db') \<and> rd_decision d = EMERGENCY"
proof -
  let ?db = "demo_trade_db\<lparr>td_configs := [demo_risk_row, demo_risk_row\<lparr>rw_version := 2, rw_kill_switch_active := True\<rparr>]\<rparr>"
  have l: "latest_by rw_version (filter (\<lambda>r. rw_account_id r = ''acc'') (td_configs ?db))
      = Some (demo_risk_row\<lparr>rw_version := 2, rw_kill_switch_active := True\<rparr>)"
    by (simp add: demo_risk_row_def)
  then have "rk_emergency_stop_active (get_latest_risk_config ''acc'' ?db)"
    unfolding get_latest_risk_config_def by simp
  then obtain d db' where d: "demo_risk_run ?db = Inr (d, db')"
    by (auto simp: demo_risk_run_def evaluate_and_record_risk_def evaluate_risk_def check_emergency_def Let_def)
  from kill_switch_stops [OF d [unfolded demo_risk_run_def]] l d show ?thesis
    by (auto simp: demo_risk_row_def split: if_splits)
qed

text \<open>
  the caution threshold never takes effect in the service.  The stored configuration has no
  column for it, so no evaluation through the service answers with CAUTION_DRAWDOWN_REACHED, and
  nothing is authorised from the legacy fallback volume.
\<close>

theorem service_never_caution:
  assumes "evaluate_and_record_risk clk fresh acc candidate market news cid db = Inr (d, db')"
  shows "rd_reason_code d \<noteq> CAUTION_DRAWDOWN_REACHED \<and> (candidate = None \<longrightarrow> rd_authorized_lot_size d = None)"
proof
  note ev = evaluate_and_record_cases(1) [OF assms]
  show "rd_reason_code d \<noteq> CAUTION_DRAWDOWN_REACHED"
    by (rule evaluate_risk_caution [OF ev]) simp
  show "candidate = None \<longrightarrow> rd_authorized_lot_size d = None"
  proof
    assume c: "candidate = None"
    from ev show "rd_authorized_lot_size d = None"
    proof (cases rule: evaluate_risk_cases)
      case early
      from first_some_mem [OF early] show ?thesis by (auto dest!: check_no_lots [OF sym])
    next
      case (lots l)
      then show ?thesis by (auto dest: check_no_lots)
    next
      case (approved l)
      with c show ?thesis by (auto simp: authorize_lots_def)
    qed
  qed
qed

theorem service_never_caution_witness:
  "\<exists>d db'. demo_risk_run demo_trade_db = Inr (d, db') \<and> rd_reason_code d \<noteq> CAUTION_DRAWDOWN_REACHED"
proof -
  obtain d db' where d: "demo_risk_run demo_trade_db = Inr (d, db')" using demo_risk_approved by blast
  from service_never_caution [OF d [unfolded demo_risk_run_def]] d show ?thesis by blast
qed

end
