(* ===== verification/Risk_Gate.thy ===== *)
theory Risk_Gate
  imports Accounts Agent_Link Risk_Service
begin

section \<open>Risk gate (\<open>backend/services/risk_gate.py\<close>)\<close>

text \<open>
  The server-side gate in front of every automated order.  It reads the newest risk configuration,
  the agent and the account, the latest tick, the equity snapshot and the news events; the only
  thing it may write is the cache of ticks.  A tick handed in by a caller may lack a readable time or
  readable prices; a stored tick has both.  The texts and details of a decision are left out.
\<close>

record app_state =
  ap_trade :: trade_db
  ap_link :: link_db
  ap_accounts :: "account_row list"
  ap_news :: "news_event list"
  ap_market :: market_store
  ap_manager :: agent_manager

record gate_clock =
  gk_redis :: bool
  gk_tick :: instant
  gk_day :: instant
  gk_snapshot :: instant
  gk_news :: instant

datatype gate_decision = ALLOW | BLOCK

datatype gate_reason =
    KILL_SWITCH_ACTIVE | INVALID_SYMBOL | AGENT_OFFLINE | NO_TICK | TICK_STALE
  | INVALID_SPREAD | INVALID_BID | INVALID_ASK | ACCOUNT_STATE_UNAVAILABLE | RISK_LIMIT_BLOCK
  | NEWS_BLACKOUT | RISK_OK

fun gate_reason_text :: "gate_reason \<Rightarrow> string" where
  "gate_reason_text KILL_SWITCH_ACTIVE = ''KILL_SWITCH_ACTIVE''"
| "gate_reason_text INVALID_SYMBOL = ''INVALID_SYMBOL''"
| "gate_reason_text AGENT_OFFLINE = ''AGENT_OFFLINE''"
| "gate_reason_text NO_TICK = ''MARKET_DATA_NOT_READY''"
| "gate_reason_text TICK_STALE = ''MARKET_DATA_STALE''"
| "gate_reason_text INVALID_SPREAD = ''INVALID_SPREAD''"
| "gate_reason_text INVALID_BID = ''INVALID_BID''"
| "gate_reason_text INVALID_ASK = ''INVALID_ASK''"
| "gate_reason_text ACCOUNT_STATE_UNAVAILABLE = ''ACCOUNT_STATE_UNAVAILABLE''"
| "gate_reason_text RISK_LIMIT_BLOCK = ''RISK_LIMIT_BLOCK''"
| "gate_reason_text NEWS_BLACKOUT = ''NEWS_BLACKOUT''"
| "gate_reason_text RISK_OK = ''RISK_OK''"

record gate_output =
  go_decision :: gate_decision
  go_reason_code :: gate_reason
  go_symbol :: string

record gate_tick =
  gt_received_at :: "instant option"
  gt_prices :: "(dec \<times> dec \<times> dec) option"

definition gate_tick_of :: "tick_entry \<Rightarrow> gate_tick" where
  "gate_tick_of e = \<lparr>gt_received_at = Some (te_received_at e),
                     gt_prices = Some (te_bid e, te_ask e, te_spread e)\<rparr>"

definition tick_freshness :: "instant \<Rightarrow> instant option \<Rightarrow> int \<Rightarrow> bool \<times> string \<times> int option" where
  "tick_freshness now received max_ms =
     (case received of
        None \<Rightarrow> (False, ''NO_DATA'', None)
      | Some r \<Rightarrow>
          (let age = max 0 (age_ms (now - r))
           in if age > max_ms then (False, ''STALE'', Some age) else (True, ''FRESH'', Some age)))"

definition first_agent :: "string \<Rightarrow> link_db \<Rightarrow> agent_row option" where
  "first_agent acc db = find (\<lambda>a. ag_account_id a = acc) (ld_agents db)"

definition active_account :: "string \<Rightarrow> account_row list \<Rightarrow> account_row option" where
  "active_account acc accs = find (\<lambda>a. ta_id a = acc \<and> ta_is_active a) accs"

definition agent_connected :: "string \<Rightarrow> app_state \<Rightarrow> bool" where
  "agent_connected acc app \<longleftrightarrow>
     (case first_agent acc (ap_link app) of
        None \<Rightarrow> False | Some a \<Rightarrow> am_is_connected (ag_id a) (ap_manager app))"

definition gate_staleness :: "risk_config \<Rightarrow> int" where
  "gate_staleness cfg = (if rk_max_tick_staleness_ms cfg = 0 then 2000 else rk_max_tick_staleness_ms cfg)"

text \<open>Step 5: prices and spread.\<close>

definition price_check :: "risk_config \<Rightarrow> (dec \<times> dec \<times> dec) option \<Rightarrow> gate_reason option" where
  "price_check cfg prices =
     (case prices of
        None \<Rightarrow> Some INVALID_SPREAD
      | Some (bid, ask, spread) \<Rightarrow>
          if bid \<le> 0 then Some INVALID_BID
          else if ask \<le> bid then Some INVALID_ASK
          else if spread < 0 then Some INVALID_SPREAD
          else (case rk_max_spread_usd cfg of
                  Some m \<Rightarrow> if m < spread then Some INVALID_SPREAD else None
                | None \<Rightarrow> None))"

text \<open>Step 7: the configured limits.\<close>

definition limit_check :: "risk_config \<Rightarrow> account_snapshot \<Rightarrow> gate_reason option" where
  "limit_check cfg snap =
     (let daily = dadd (as_daily_realized_pnl_usd snap) (as_daily_floating_pnl_usd snap);
          drawdown = dsub (as_equity_peak_usd snap) (as_current_equity_usd snap)
      in if (case rk_daily_loss_limit_usd cfg of Some l \<Rightarrow> daily \<le> dneg l | None \<Rightarrow> False)
         then Some RISK_LIMIT_BLOCK
         else if (case rk_max_drawdown_usd cfg of Some m \<Rightarrow> m \<le> drawdown | None \<Rightarrow> False)
         then Some RISK_LIMIT_BLOCK
         else None)"

text \<open>Step 8: the news.\<close>

definition blocking_event :: "instant \<Rightarrow> news_event \<Rightarrow> bool" where
  "blocking_event now e \<longleftrightarrow>
     (ne_currency e = ''USD'' \<or> ne_currency e = ''XAU'') \<and> (ne_impact e = ''HIGH'' \<or> ne_impact e = ''CRITICAL'')
     \<and> event_active now e"

text \<open>Steps 6 to 9.\<close>

definition account_check :: "gate_clock \<Rightarrow> string \<Rightarrow> risk_config \<Rightarrow> app_state \<Rightarrow> gate_reason" where
  "account_check clk acc cfg app =
     (if active_account acc (ap_accounts app) = None then ACCOUNT_STATE_UNAVAILABLE
      else let snap = build_account_risk_snapshot (gk_day clk) (gk_snapshot clk) acc (ap_trade app)
        in if as_current_equity_usd snap \<le> 0 then ACCOUNT_STATE_UNAVAILABLE
           else case limit_check cfg snap of
                  Some r \<Rightarrow> r
                | None \<Rightarrow> if list_ex (blocking_event (gk_news clk)) (ap_news app) then NEWS_BLACKOUT else RISK_OK)"

definition gate_result :: "string \<Rightarrow> gate_reason \<Rightarrow> gate_output" where
  "gate_result smb r = \<lparr>go_decision = (if r = RISK_OK then ALLOW else BLOCK), go_reason_code = r, go_symbol = smb\<rparr>"

text \<open>Step 4 on, for the tick that was found.\<close>

definition market_check :: "gate_clock \<Rightarrow> string \<Rightarrow> risk_config \<Rightarrow> gate_tick option \<Rightarrow> app_state \<Rightarrow> gate_reason" where
  "market_check clk acc cfg t app =
     (case t of
        None \<Rightarrow> NO_TICK
      | Some g \<Rightarrow>
          if \<not> fst (tick_freshness (gk_tick clk) (gt_received_at g) (gate_staleness cfg)) then TICK_STALE
          else case price_check cfg (gt_prices g) of
                 Some r \<Rightarrow> r
               | None \<Rightarrow> account_check clk acc cfg app)"

text \<open>
  \<open>override_tick\<close> is \<open>None\<close> when the caller gives no tick and \<open>Some None\<close> for an empty one.
\<close>

definition evaluate_risk_gate ::
  "gate_clock \<Rightarrow> string \<Rightarrow> string \<Rightarrow> gate_tick option option \<Rightarrow> bool option \<Rightarrow> app_state
     \<Rightarrow> gate_output \<times> app_state" where
  "evaluate_risk_gate clk acc symbol override_tick override_connected app =
     (let norm = normalize_symbol symbol; cfg = get_latest_risk_config acc (ap_trade app)
      in if rk_emergency_stop_active cfg then (gate_result norm KILL_SWITCH_ACTIVE, app)
         else if norm \<noteq> ''XAUUSD'' then (gate_result symbol INVALID_SYMBOL, app)
         else if first_agent acc (ap_link app) = None then (gate_result norm AGENT_OFFLINE, app)
         else if \<not> (case override_connected of Some b \<Rightarrow> b | None \<Rightarrow> agent_connected acc app)
         then (gate_result norm AGENT_OFFLINE, app)
         else case override_tick of
                Some t \<Rightarrow> (gate_result norm (market_check clk acc cfg t app), app)
              | None \<Rightarrow>
                  (case get_latest_market_data (gk_redis clk) (gk_tick clk) acc norm (ap_market app) of
                     (e, mk) \<Rightarrow> (gate_result norm (market_check clk acc cfg (map_option gate_tick_of e) app),
                                 app\<lparr>ap_market := mk\<rparr>)))"

subsection \<open>Lemmas\<close>

lemma tick_freshness_stored: "tick_freshness now (Some (te_received_at e)) m = evaluate_freshness now (Some e) m"
  by (simp add: tick_freshness_def evaluate_freshness_def)

lemma fresh_iff: "fst (tick_freshness now (Some r) m) \<longleftrightarrow> max 0 (age_ms (now - r)) \<le> m"
  by (auto simp: tick_freshness_def Let_def)

lemma gate_result_simps [simp]:
  "go_reason_code (gate_result s r) = r" "go_symbol (gate_result s r) = s"
  "go_decision (gate_result s r) = ALLOW \<longleftrightarrow> r = RISK_OK"
  "go_decision (gate_result s r) = BLOCK \<longleftrightarrow> r \<noteq> RISK_OK"
  by (simp_all add: gate_result_def)

lemma price_check_None:
  "price_check cfg (Some (bid, ask, spread)) = None \<longleftrightarrow>
     0 < bid \<and> bid < ask \<and> 0 \<le> spread
     \<and> (case rk_max_spread_usd cfg of None \<Rightarrow> True | Some m \<Rightarrow> spread \<le> m)"
  by (auto simp: price_check_def split: option.splits)

lemma price_check_not_ok: "price_check cfg p \<noteq> Some RISK_OK"
  by (auto simp: price_check_def split: option.splits prod.splits)

lemma limit_check_None:
  "limit_check cfg snap = None \<longleftrightarrow>
     (case rk_daily_loss_limit_usd cfg of None \<Rightarrow> True
      | Some l \<Rightarrow> dneg l < dadd (as_daily_realized_pnl_usd snap) (as_daily_floating_pnl_usd snap))
     \<and> (case rk_max_drawdown_usd cfg of None \<Rightarrow> True
        | Some m \<Rightarrow> dsub (as_equity_peak_usd snap) (as_current_equity_usd snap) < m)"
  by (auto simp: limit_check_def Let_def split: option.splits)

lemma limit_check_not_ok: "limit_check cfg snap \<noteq> Some RISK_OK"
  by (auto simp: limit_check_def Let_def)

lemma account_check_ok:
  "account_check clk acc cfg app = RISK_OK \<longleftrightarrow>
     active_account acc (ap_accounts app) \<noteq> None
     \<and> 0 < as_current_equity_usd (build_account_risk_snapshot (gk_day clk) (gk_snapshot clk) acc (ap_trade app))
     \<and> limit_check cfg (build_account_risk_snapshot (gk_day clk) (gk_snapshot clk) acc (ap_trade app)) = None
     \<and> \<not> list_ex (blocking_event (gk_news clk)) (ap_news app)"
  using limit_check_not_ok [of cfg "build_account_risk_snapshot (gk_day clk) (gk_snapshot clk) acc (ap_trade app)"]
  by (auto simp: account_check_def Let_def split: option.splits)

lemma market_check_ok:
  "market_check clk acc cfg t app = RISK_OK \<longleftrightarrow>
     (case t of None \<Rightarrow> False
      | Some g \<Rightarrow> fst (tick_freshness (gk_tick clk) (gt_received_at g) (gate_staleness cfg))
                 \<and> price_check cfg (gt_prices g) = None \<and> account_check clk acc cfg app = RISK_OK)"
  using price_check_not_ok by (auto simp: market_check_def split: option.splits)

lemma gate_reason_cases:
  "go_decision (fst (evaluate_risk_gate clk acc s ot oc app)) = ALLOW \<longleftrightarrow>
     \<not> rk_emergency_stop_active (get_latest_risk_config acc (ap_trade app))
     \<and> normalize_symbol s = ''XAUUSD'' \<and> first_agent acc (ap_link app) \<noteq> None
     \<and> (case oc of Some b \<Rightarrow> b | None \<Rightarrow> agent_connected acc app)
     \<and> market_check clk acc (get_latest_risk_config acc (ap_trade app))
         (case ot of Some t \<Rightarrow> t
          | None \<Rightarrow> map_option gate_tick_of
              (fst (get_latest_market_data (gk_redis clk) (gk_tick clk) acc ''XAUUSD'' (ap_market app)))) app
         = RISK_OK"
  by (auto simp: evaluate_risk_gate_def Let_def split: option.splits prod.splits)

lemma gate_only_caches:
  "\<exists>mk. snd (evaluate_risk_gate clk acc s ot oc app) = app\<lparr>ap_market := mk\<rparr>"
  by (auto simp: evaluate_risk_gate_def Let_def split: option.splits prod.splits
        intro: exI [of _ "ap_market app"])

lemma connected_has_agent: "agent_connected acc app \<Longrightarrow> first_agent acc (ap_link app) \<noteq> None"
  by (auto simp: agent_connected_def split: option.splits)

lemma gate_news_block:
  assumes "x \<in> set (ap_news app)" "blocking_event (gk_news clk) x"
  shows "go_decision (fst (evaluate_risk_gate clk acc s ot oc app)) \<noteq> ALLOW"
  using assms by (auto simp: gate_reason_cases market_check_ok account_check_ok list_ex_iff split: option.splits)

text \<open>
  C25: The gate allows exactly when the newest configuration has no kill switch, the symbol is gold,
  the agent of the account is connected, the latest tick of the account is fresh with a positive bid
  below the ask and an acceptable spread, the account is active with positive equity inside the
  configured loss and drawdown limits, and no high-impact news window is open.  A limit that is not
  configured does not block.
\<close>

theorem gate_allows_exactly:
  "go_decision (fst (evaluate_risk_gate clk acc s None None app)) = ALLOW \<longleftrightarrow>
     (let cfg = get_latest_risk_config acc (ap_trade app);
          snap = build_account_risk_snapshot (gk_day clk) (gk_snapshot clk) acc (ap_trade app)
      in \<not> rk_emergency_stop_active cfg \<and> normalize_symbol s = ''XAUUSD'' \<and> agent_connected acc app
         \<and> (case fst (get_latest_market_data (gk_redis clk) (gk_tick clk) acc ''XAUUSD'' (ap_market app)) of
              None \<Rightarrow> False
            | Some e \<Rightarrow>
                max 0 (age_ms (gk_tick clk - te_received_at e)) \<le> gate_staleness cfg
                \<and> 0 < te_bid e \<and> te_bid e < te_ask e \<and> 0 \<le> te_spread e
                \<and> (case rk_max_spread_usd cfg of None \<Rightarrow> True | Some m \<Rightarrow> te_spread e \<le> m))
         \<and> (\<exists>a \<in> set (ap_accounts app). ta_id a = acc \<and> ta_is_active a)
         \<and> 0 < as_current_equity_usd snap
         \<and> (case rk_daily_loss_limit_usd cfg of None \<Rightarrow> True
            | Some l \<Rightarrow> dneg l < dadd (as_daily_realized_pnl_usd snap) (as_daily_floating_pnl_usd snap))
         \<and> (case rk_max_drawdown_usd cfg of None \<Rightarrow> True
            | Some m \<Rightarrow> dsub (as_equity_peak_usd snap) (as_current_equity_usd snap) < m)
         \<and> \<not> (\<exists>e \<in> set (ap_news app). blocking_event (gk_news clk) e))"
proof -
  have active: "active_account acc (ap_accounts app) \<noteq> None \<longleftrightarrow>
      (\<exists>a \<in> set (ap_accounts app). ta_id a = acc \<and> ta_is_active a)"
    by (auto simp: active_account_def find_None_iff)
  show ?thesis
    unfolding gate_reason_cases market_check_ok account_check_ok active limit_check_None list_ex_iff Let_def
    using connected_has_agent [of acc app]
    by (cases "fst (get_latest_market_data (gk_redis clk) (gk_tick clk) acc ''XAUUSD'' (ap_market app))")
       (auto simp: gate_tick_of_def price_check_None fresh_iff)
qed

text \<open>
  C26: After a synchronisation of the calendar that can be stored (objects with distinct identifiers
  over a well-formed table), the gate blocks every account, whatever else holds, from the start of
  the window before each high-impact USD event of the feed to the end of the window after it.
\<close>

theorem synced_news_blocks:
  assumes "sync_ok items (feed_events rd pre post items) rows"
    and "J_obj obj \<in> set items" "item_time rd obj = Some t" "item_impact rd obj = ''HIGH''"
    and "ap_news app = snd (fetch_and_sync_news rd pre post (Feed_response 200 (Some (J_list items))) rows)"
    and "t - minutes_us pre \<le> gk_news clk" "gk_news clk \<le> t + minutes_us post"
  shows "go_decision (fst (evaluate_risk_gate clk acc s ot oc app)) = BLOCK"
proof -
  let ?e = "event_of_item rd pre post obj t"
  have "?e \<in> set (feed_events rd pre post items)"
    using assms(2,3) by (force simp: feed_events_def List.map_filter_def)
  then obtain x where x: "x \<in> set (ap_news app)" "matches_event ?e x" "ne_currency x = ne_currency ?e"
    using synced_event_stored [OF assms(1)] unfolding assms(5) by blast
  have "blocking_event (gk_news clk) x"
    using x(2,3) assms(4,6,7)
    by (simp add: blocking_event_def matches_event_def event_active_def event_of_item_def)
  with x(1) have "go_decision (fst (evaluate_risk_gate clk acc s ot oc app)) \<noteq> ALLOW"
    by (rule gate_news_block)
  then show ?thesis by (cases "go_decision (fst (evaluate_risk_gate clk acc s ot oc app))") simp_all
qed

definition demo_feed_item :: json_object where
  "demo_feed_item = [(''country'', J_str ''usd''), (''impact'', J_str ''High''), (''title'', J_str ''CPI''),
     (''date'', J_str ''2026-09-11T12:30:00+00:00'')]"

definition demo_news_reading :: news_reading where
  "demo_news_reading = \<lparr>nr_str = (\<lambda>_. []),
     nr_date = (\<lambda>s. if s = ''2026-09-11T12:30:00+00:00'' then Some 1789129800000000 else None)\<rparr>"

definition demo_app :: app_state where
  "demo_app =
     \<lparr>ap_trade = demo_trade_db, ap_link = lk_db demo_link,
      ap_accounts = [\<lparr>ta_id = ''acc'', ta_user_id = ''user'', ta_label = ''demo'', ta_broker = ''HFM'',
        ta_mt5_account_number = ''1'', ta_mt5_server = Some ''HFM-Demo'', ta_broker_currency = ''USD'',
        ta_is_cent_account = False, ta_cent_normalization_factor = 1, ta_is_active = True,
        ta_trading_enabled = False, ta_created_at = 0\<rparr>],
      ap_news = snd (fetch_and_sync_news demo_news_reading 30 30
        (Feed_response 200 (Some (J_list [J_obj demo_feed_item]))) []),
      ap_market = record_market_data True 0 ''agent'' ''acc'' demo_tick_msg empty_store,
      ap_manager = lk_manager demo_link\<rparr>"

lemma demo_feed_facts:
  "item_time demo_news_reading demo_feed_item = Some 1789129800000000"
  "item_impact demo_news_reading demo_feed_item = ''HIGH''"
  by code_simp+

lemma demo_sync_ok: "sync_ok [J_obj demo_feed_item] (feed_events demo_news_reading 30 30 [J_obj demo_feed_item]) []"
  by (simp add: sync_ok_def feed_events_Cons demo_feed_facts news_inv_def)

definition demo_gate_clock :: "instant \<Rightarrow> gate_clock" where
  "demo_gate_clock now = \<lparr>gk_redis = True, gk_tick = 0, gk_day = 0, gk_snapshot = 0, gk_news = now\<rparr>"

theorem synced_news_blocks_witness:
  "go_decision (fst (evaluate_risk_gate (demo_gate_clock 1789128600000000) ''acc'' ''XAUUSD'' None None demo_app)) = BLOCK"
  by (rule synced_news_blocks [OF demo_sync_ok _ demo_feed_facts])
     (simp_all add: demo_app_def demo_gate_clock_def minutes_us_def)

end
