(* ===== verification/Trading_Pipeline.thy ===== *)
theory Trading_Pipeline
  imports Multi_Timeframe Brain_Pipeline Risk_Service
begin

section \<open>Trading pipeline (\<open>backend/services/trading_pipeline.py\<close>)\<close>

text \<open>
  One cycle of \<open>TradingPipeline.process_tick\<close>: validation and ingestion, the readiness gates, the
  circuit breaker, the brain, the stored signal, the expiry gate, the recorded risk decision, the
  dispatch, and the reconciliation that can freeze the account.  The brain, the risk service, the
  execution service and the simulator are the definitions of the other theories; the readings of the
  clock and the generated ids of a cycle come in a record.  An exception leaves the database at its
  last commit.  Broadcasting an event cannot fail the cycle, so only the emitted list is kept.
\<close>

datatype pipeline_status =
    INVALID_TICK | MARKET_NOT_READY | ACCOUNT_FROZEN | SIGNAL_NONE | SIGNAL_EXPIRED
  | RISK_BLOCKED | RISK_NOT_CONFIGURED | RISK_EMERGENCY
  | EXECUTION_REJECTED | EXECUTION_FILLED | EXECUTION_EXPIRED

datatype ws_event =
    SignalCreated string string string
  | RiskStateChanged risk_state bool
  | CommandCreated string string "dec option" dec
  | CommandUpdated string report_status "int option" "dec option" "dec option"
  | PositionUpdated int string
  | SystemAlert "discrepancy_type list"

datatype cycle_error = PyError pyexc | DbError db_error

record trading_pipeline =
  tp_account_id :: string
  tp_symbol :: string
  tp_primary_timeframe :: string
  tp_signal_expiry_seconds :: int
  tp_bar_manager :: mtf_manager
  tp_brain_config :: brain_config
  tp_simulator :: mt5_simulator
  tp_frozen_accounts :: "(string \<times> discrepancy_type list) list"

record cycle_env =
  ce_fresh_id :: string
  ce_stale_now :: instant
  ce_brain_now :: instant
  ce_signal_id :: string
  ce_expires_now :: instant
  ce_generated_now :: instant
  ce_gate_now :: instant
  ce_age_now :: instant
  ce_risk_clock :: risk_clock
  ce_exec :: exec_env
  ce_recon_now :: instant

record cycle_result =
  cy_correlation_id :: string
  cy_symbol :: string
  cy_status :: pipeline_status
  cy_tick :: tick
  cy_signal :: "signal_row option"
  cy_decision :: "risk_decision option"
  cy_report :: "db_report option"
  cy_recon :: "recon_result option"
  cy_events :: "ws_event list"

subsection \<open>The circuit breaker\<close>

definition freeze_account :: "string \<Rightarrow> discrepancy_type list \<Rightarrow> trading_pipeline \<Rightarrow> trading_pipeline" where
  "freeze_account acc reason p =
     p\<lparr>tp_frozen_accounts := AList.update acc reason (tp_frozen_accounts p)\<rparr>"

definition unfreeze_account :: "string \<Rightarrow> trading_pipeline \<Rightarrow> trading_pipeline" where
  "unfreeze_account acc p = p\<lparr>tp_frozen_accounts := AList.delete acc (tp_frozen_accounts p)\<rparr>"

definition is_account_frozen :: "string \<Rightarrow> trading_pipeline \<Rightarrow> bool" where
  "is_account_frozen acc p \<longleftrightarrow> acc \<in> fst ` set (tp_frozen_accounts p)"

definition warm_up_from_ticks :: "tick list \<Rightarrow> trading_pipeline \<Rightarrow> nat \<times> trading_pipeline" where
  "warm_up_from_ticks ts p =
     foldl (\<lambda>(n, p) t.
         if validate_tick (tp_bar_manager p) t \<noteq> None then (n, p)
         else (n + 1, p\<lparr>tp_bar_manager := snd (ingest_tick t (tp_bar_manager p))\<rparr>))
       (0, p) ts"

subsection \<open>The stages of a cycle\<close>

definition cycle_base :: "string \<Rightarrow> trading_pipeline \<Rightarrow> tick \<Rightarrow> pipeline_status \<Rightarrow> cycle_result" where
  "cycle_base cid p t st =
     \<lparr>cy_correlation_id = cid, cy_symbol = tp_symbol p, cy_status = st, cy_tick = t, cy_signal = None,
      cy_decision = None, cy_report = None, cy_recon = None, cy_events = []\<rparr>"

text \<open>Gates 2 and 3, after the tick was ingested: what stops the cycle, or the closed bars.\<close>

definition readiness :: "instant \<Rightarrow> trading_pipeline \<Rightarrow> (pipeline_status + bar list) res" where
  "readiness now p =
     (if mtf_is_stale now (tp_bar_manager p) then Inr (Inl MARKET_NOT_READY)
      else if \<not> mtf_is_spread_acceptable (tp_bar_manager p) then Inr (Inl MARKET_NOT_READY)
      else bind_res (mtf_get_closed_bars (tp_primary_timeframe p) (tp_bar_manager p)) (\<lambda>bars.
        Inr (if bars = [] then Inl MARKET_NOT_READY
             else if is_account_frozen (tp_account_id p) p then Inl ACCOUNT_FROZEN
             else Inr bars)))"

fun direction_name :: "direction \<Rightarrow> string" where
  "direction_name BUY = ''BUY''"
| "direction_name SELL = ''SELL''"
| "direction_name NO_DIRECTION = ''NONE''"

text \<open>Stage 5: the signal as it is stored.\<close>

definition signal_entry :: "candidate_signal \<Rightarrow> tick \<Rightarrow> dec" where
  "signal_entry sig t =
     (case cs_entry_reference sig of
        Some x \<Rightarrow> x | None \<Rightarrow> if cs_direction sig = BUY then tk_ask t else tk_bid t)"

definition proposed_signal ::
  "cycle_env \<Rightarrow> string \<Rightarrow> trading_pipeline \<Rightarrow> tick \<Rightarrow> string \<Rightarrow> candidate_signal \<Rightarrow> signal_row" where
  "proposed_signal env cid p t news sig =
     \<lparr>sg_id = ce_signal_id env, sg_account_id = tp_account_id p, sg_correlation_id = cid,
      sg_symbol = tk_symbol t, sg_direction = direction_name (cs_direction sig),
      sg_strategy_id = cs_strategy_id sig, sg_strategy_version = cs_strategy_version sig,
      sg_setup_type = cs_setup_type sig, sg_confidence_score = cs_confidence_score sig,
      sg_entry_reference = Some (signal_entry sig t),
      sg_suggested_stop_loss = cs_suggested_stop_loss sig,
      sg_suggested_take_profit = cs_suggested_take_profit sig,
      sg_spread_at_signal = Some (tick_spread t), sg_news_state_at_signal = news,
      sg_status = ''PROPOSED'', sg_generated_at = ce_generated_now env,
      sg_expires_at = ce_expires_now env + tp_signal_expiry_seconds p * 10 ^ 6\<rparr>"

text \<open>The last stored signal is the one of the cycle; a stage rewrites its status.\<close>

definition store_signal :: "signal_row \<Rightarrow> trade_db \<Rightarrow> trade_db" where
  "store_signal s db = db\<lparr>td_signals := td_signals db @ [s]\<rparr>"

definition set_status :: "string \<Rightarrow> trade_db \<Rightarrow> trade_db" where
  "set_status st db =
     db\<lparr>td_signals := butlast (td_signals db) @ [(last (td_signals db))\<lparr>sg_status := st\<rparr>]\<rparr>"

definition cycle_market :: "cycle_env \<Rightarrow> tick \<Rightarrow> market_condition" where
  "cycle_market env t =
     \<lparr>mc_symbol = tk_symbol t, mc_bid = Some (tk_bid t), mc_ask = Some (tk_ask t),
      mc_tick_timestamp = Some (tk_tick_time t),
      mc_tick_age_ms = Some (age_ms (ce_age_now env - tk_received_at t)),
      mc_spread = Some (tick_spread t), mc_market_data_status = ''READY''\<rparr>"

definition risk_status :: "signal_decision \<Rightarrow> pipeline_status" where
  "risk_status d =
     (case d of DEC_NOT_CONFIGURED \<Rightarrow> RISK_NOT_CONFIGURED | EMERGENCY \<Rightarrow> RISK_EMERGENCY
      | BLOCKED \<Rightarrow> RISK_BLOCKED | APPROVED \<Rightarrow> RISK_BLOCKED)"

definition risk_refuses :: "risk_decision \<Rightarrow> bool" where
  "risk_refuses d \<longleftrightarrow>
     rd_decision d = DEC_NOT_CONFIGURED \<or> rd_decision d = BLOCKED \<or> rd_decision d = EMERGENCY
     \<or> \<not> rd_trading_allowed d"

text \<open>
  \<open>candidate_signals.status\<close> is a \<open>String(50)\<close>: PostgreSQL rejects a longer text when it is written.
\<close>

definition status_width :: nat where
  "status_width = 50"

definition blocked_status :: "risk_decision \<Rightarrow> string" where
  "blocked_status d = ''BLOCKED_'' @ reason_text (rd_reason_code d)"

definition exec_status_of :: "report_status \<Rightarrow> pipeline_status" where
  "exec_status_of st =
     (if st = REPORTED ES_EXPIRED then EXECUTION_EXPIRED
      else if st = REPORTED ES_FILLED \<or> st = REPORTED ES_PARTIALLY_FILLED then EXECUTION_FILLED
      else EXECUTION_REJECTED)"

text \<open>Stage 10: reconcile, freeze on a critical discrepancy, commit.\<close>

definition reconcile_stage ::
  "cycle_env \<Rightarrow> trading_pipeline \<Rightarrow> trade_db \<Rightarrow> recon_result \<times> ws_event list \<times> trading_pipeline \<times> trade_db" where
  "reconcile_stage env p db =
     (case reconcile_account_positions (ce_recon_now env) (tp_account_id p)
             (sm_open_positions (tp_simulator p)) (td_exec db) of (r, xdb) \<Rightarrow>
        let db1 = db\<lparr>td_exec := xdb\<rparr>; reason = map di_type (rc_discrepancies r)
        in if has_critical_discrepancy r
           then (r, [SystemAlert reason], freeze_account (tp_account_id p) reason p,
                 add_audit (tp_account_id p) (RECONCILIATION_FREEZE reason) db1)
           else (r, [], p,
                 add_audit (tp_account_id p)
                   (RECONCILIATION_OK (rc_matched_count r) (length (rc_discrepancies r))) db1))"

text \<open>Stage 9 on: dispatch an approved signal.  The first event names the command by the idempotency key,
  the update by the id of the stored command (\<open>str\<close> of it).\<close>

definition exec_key :: "string \<Rightarrow> signal_row \<Rightarrow> string" where
  "exec_key acc s = ''exec_'' @ acc @ ''_'' @ sg_id s"

definition row_exec_signal :: "signal_row \<Rightarrow> exec_signal" where
  "row_exec_signal s =
     \<lparr>xs_direction = Some (sg_direction s), xs_symbol = Some (sg_symbol s),
      xs_stop_loss = sg_suggested_stop_loss s, xs_take_profit = sg_suggested_take_profit s\<rparr>"

definition py_str :: "string option \<Rightarrow> string" where
  "py_str v = (case v of Some s \<Rightarrow> s | None \<Rightarrow> ''None'')"

definition updated_event :: "db_report \<Rightarrow> ws_event" where
  "updated_event r =
     CommandUpdated (py_str (dr_command_id r)) (dr_status r) (dr_broker_ticket r)
       (nonzero (dr_fill_price r)) (nonzero (dr_fill_volume_lots r))"

definition position_event :: "signal_row \<Rightarrow> db_report \<Rightarrow> ws_event list" where
  "position_event s r =
     (case dr_broker_ticket r of
        Some k \<Rightarrow> if (dr_status r = REPORTED ES_FILLED \<or> dr_status r = REPORTED ES_PARTIALLY_FILLED) \<and> k \<noteq> 0
                  then [PositionUpdated k (sg_direction s)] else []
      | None \<Rightarrow> [])"

definition execution_stage ::
  "cycle_env \<Rightarrow> string \<Rightarrow> tick \<Rightarrow> signal_row \<Rightarrow> risk_decision \<Rightarrow> ws_event list \<Rightarrow> trading_pipeline \<Rightarrow> trade_db
     \<Rightarrow> (cycle_error + cycle_result) \<times> trading_pipeline \<times> trade_db" where
  "execution_stage env cid t s d evs p db =
     (let acc = tp_account_id p; key = exec_key acc s;
          price = (if sg_direction s = ''BUY'' then tk_ask t else tk_bid t);
          evs1 = evs @ [CommandCreated key (sg_direction s) (nonzero (rd_authorized_lot_size d)) price];
          base = (\<lambda>st db'. (cycle_base cid p t st)\<lparr>cy_signal := Some (last (td_signals db')), cy_decision := Some d\<rparr>)
      in case execute_approved_signal (ce_exec env) acc (row_exec_signal s) d (Some price) (Some cid) (Some key)
                (tp_simulator p) (td_exec db) of
           (Inl e, sim', xdb) \<Rightarrow> (Inl (DbError e), p\<lparr>tp_simulator := sim'\<rparr>, db)
         | (Inr None, sim', xdb) \<Rightarrow>
             let db1 = set_status ''EXECUTION_REJECTED'' (db\<lparr>td_exec := xdb\<rparr>)
             in (Inr ((base EXECUTION_REJECTED db1)\<lparr>cy_events := evs1\<rparr>), p\<lparr>tp_simulator := sim'\<rparr>, db1)
         | (Inr (Some rep), sim', xdb) \<Rightarrow>
             let evs2 = evs1 @ [updated_event rep] @ position_event s rep;
                 db1 = set_status ''EXECUTED'' (db\<lparr>td_exec := xdb\<rparr>)
             in case reconcile_stage env (p\<lparr>tp_simulator := sim'\<rparr>) db1 of (rec, alerts, p', db2) \<Rightarrow>
                  (Inr ((base (exec_status_of (dr_status rep)) db2)
                          \<lparr>cy_report := Some rep, cy_recon := Some rec, cy_events := evs2 @ alerts\<rparr>),
                   p', db2))"

text \<open>Stages 5 to 8 for a directional signal.\<close>

definition signal_stage ::
  "cycle_env \<Rightarrow> string \<Rightarrow> tick \<Rightarrow> string \<Rightarrow> candidate_signal \<Rightarrow> trading_pipeline \<Rightarrow> trade_db
     \<Rightarrow> (cycle_error + cycle_result) \<times> trading_pipeline \<times> trade_db" where
  "signal_stage env cid t news sig p db =
     (let acc = tp_account_id p; s = proposed_signal env cid p t news sig;
          db1 = add_audit acc (SIGNAL_CREATED (sg_id s) (sg_direction s)) (store_signal s db);
          evs = [SignalCreated (sg_id s) (sg_symbol s) (sg_direction s)]
      in if sg_expires_at s < ce_gate_now env
         then let db2 = set_status ''EXPIRED'' db1
              in (Inr ((cycle_base cid p t SIGNAL_EXPIRED)
                         \<lparr>cy_signal := Some (last (td_signals db2)), cy_events := evs\<rparr>), p, db2)
         else case evaluate_and_record_risk (ce_risk_clock env) (ce_fresh_id env) acc
                     (Some (sg_entry_reference s, sg_suggested_stop_loss s)) (Some (cycle_market env t))
                     (Some news) (Some cid) db1 of
                Inl e \<Rightarrow> (Inl (PyError e), p, db)
              | Inr (d, db2) \<Rightarrow>
                  let evs1 = evs @ [RiskStateChanged (rd_risk_state d) (rd_trading_allowed d)]
                  in if risk_refuses d
                     then let db3 = set_status (blocked_status d) db2
                          in if status_width < length (blocked_status d) then (Inl (DbError DataError), p, db2)
                             else (Inr ((cycle_base cid p t (risk_status (rd_decision d)))
                                     \<lparr>cy_signal := Some (last (td_signals db3)), cy_decision := Some d,
                                      cy_events := evs1\<rparr>), p, db3)
                     else execution_stage env cid t s d evs1 p db2)"

definition pipeline_tick ::
  "cycle_env \<Rightarrow> tick \<Rightarrow> string \<Rightarrow> string option \<Rightarrow> trading_pipeline \<Rightarrow> trade_db
     \<Rightarrow> (cycle_error + cycle_result) \<times> trading_pipeline \<times> trade_db" where
  "pipeline_tick env t news correlation_id p db =
     (let cid = choose_correlation_id correlation_id (ce_fresh_id env)
      in if validate_tick (tp_bar_manager p) t \<noteq> None then (Inr (cycle_base cid p t INVALID_TICK), p, db)
         else
           let p1 = p\<lparr>tp_bar_manager := snd (ingest_tick t (tp_bar_manager p))\<rparr>
           in case readiness (ce_stale_now env) p1 of
                Inl e \<Rightarrow> (Inl (PyError e), p1, db)
              | Inr (Inl st) \<Rightarrow> (Inr (cycle_base cid p1 t st), p1, db)
              | Inr (Inr bars) \<Rightarrow>
                  (case process_signal (tp_brain_config p1) (ce_brain_now env) (ce_fresh_id env) t bars news (Some cid) of
                     Inl e \<Rightarrow> (Inl (PyError e), p1, db)
                   | Inr sig \<Rightarrow>
                       if cs_direction sig = NO_DIRECTION \<or> \<not> cs_is_configured sig
                       then (Inr (cycle_base cid p1 t SIGNAL_NONE), p1,
                             add_audit (tp_account_id p1) (SIGNAL_BLOCKED (cs_market_state_summary sig)) db)
                       else signal_stage env cid t news sig p1 db))"

subsection \<open>Lemmas\<close>

lemma sg_status_last [simp]: "td_exec (set_status st db) = td_exec db" "td_decisions (set_status st db) = td_decisions db"
  "last (td_signals (set_status st db)) = (last (td_signals db))\<lparr>sg_status := st\<rparr>"
  "td_configs (set_status st db) = td_configs db"
  by (simp_all add: set_status_def)

lemma risk_inputs_frame [simp]:
  "get_latest_risk_config acc (add_audit a ev (store_signal s db)) = get_latest_risk_config acc db"
  "build_account_risk_snapshot n m acc (add_audit a ev (store_signal s db)) = build_account_risk_snapshot n m acc db"
  by (simp_all add: get_latest_risk_config_def build_account_risk_snapshot_def add_audit_def store_signal_def
      open_positions_of_def)

lemma store_signal_simps [simp]: "td_exec (store_signal s db) = td_exec db"
  "td_decisions (store_signal s db) = td_decisions db" "td_configs (store_signal s db) = td_configs db"
  "td_signals (store_signal s db) = td_signals db @ [s]"
  by (simp_all add: store_signal_def)

lemma add_audit_simps [simp]:
  "xd_commands (td_exec (add_audit acc ev db)) = xd_commands (td_exec db)"
  "xd_positions (td_exec (add_audit acc ev db)) = xd_positions (td_exec db)"
  "open_positions_of a (td_exec (add_audit acc ev db)) = open_positions_of a (td_exec db)"
  "td_decisions (add_audit acc ev db) = td_decisions db" "td_signals (add_audit acc ev db) = td_signals db"
  "td_configs (add_audit acc ev db) = td_configs db"
  by (simp_all add: add_audit_def open_positions_of_def)

lemma reconcile_positions_frame [simp]:
  "xd_commands (snd (reconcile_account_positions now acc reported db)) = xd_commands db"
  "xd_positions (snd (reconcile_account_positions now acc reported db)) = xd_positions db"
  by (simp_all add: reconcile_account_positions_def Let_def)

text \<open>What a reconciliation stage leaves alone, and when it freezes.\<close>

lemma reconcile_stage_frame:
  assumes "reconcile_stage env p db = (r, al, p', db')"
  shows "tp_simulator p' = tp_simulator p" "tp_account_id p' = tp_account_id p"
    "xd_commands (td_exec db') = xd_commands (td_exec db)"
    "xd_positions (td_exec db') = xd_positions (td_exec db)"
    "td_decisions db' = td_decisions db" "td_signals db' = td_signals db"
    "tp_frozen_accounts p' = (if has_critical_discrepancy r
        then AList.update (tp_account_id p) (map di_type (rc_discrepancies r)) (tp_frozen_accounts p)
        else tp_frozen_accounts p)"
    "r = fst (reconcile_account_positions (ce_recon_now env) (tp_account_id p)
            (sm_open_positions (tp_simulator p)) (td_exec db))"
proof -
  obtain r0 xdb where x: "reconcile_account_positions (ce_recon_now env) (tp_account_id p)
      (sm_open_positions (tp_simulator p)) (td_exec db) = (r0, xdb)" by fastforce
  from reconcile_positions_frame [of "ce_recon_now env" "tp_account_id p" "sm_open_positions (tp_simulator p)" "td_exec db"] x
  have f: "xd_commands xdb = xd_commands (td_exec db)" "xd_positions xdb = xd_positions (td_exec db)" by simp_all
  from assms x f show "tp_simulator p' = tp_simulator p" "tp_account_id p' = tp_account_id p"
    "xd_commands (td_exec db') = xd_commands (td_exec db)"
    "xd_positions (td_exec db') = xd_positions (td_exec db)"
    "td_decisions db' = td_decisions db" "td_signals db' = td_signals db"
    "tp_frozen_accounts p' = (if has_critical_discrepancy r
        then AList.update (tp_account_id p) (map di_type (rc_discrepancies r)) (tp_frozen_accounts p)
        else tp_frozen_accounts p)"
    "r = fst (reconcile_account_positions (ce_recon_now env) (tp_account_id p)
            (sm_open_positions (tp_simulator p)) (td_exec db))"
    by (auto simp: reconcile_stage_def Let_def freeze_account_def split: if_splits)
qed

lemma pipeline_frame [simp]:
  "tp_frozen_accounts (p\<lparr>tp_bar_manager := m\<rparr>) = tp_frozen_accounts p"
  "is_account_frozen acc (p\<lparr>tp_bar_manager := m\<rparr>) = is_account_frozen acc p"
  by (simp_all add: is_account_frozen_def)

lemma order_side_direction [simp]:
  "cs_direction sig = BUY \<Longrightarrow> order_side (row_exec_signal (proposed_signal env cid p t news sig)) = SIDE_BUY"
  "cs_direction sig = SELL \<Longrightarrow> order_side (row_exec_signal (proposed_signal env cid p t news sig)) = SIDE_SELL"
  by (simp_all add: order_side_def row_exec_signal_def proposed_signal_def ascii_upper_def Let_def
      sublist_code)

text \<open>A run of cycles; an exception ends its cycle only.\<close>

type_synonym cycle_input = "cycle_env \<times> tick \<times> string \<times> string option"

definition run_cycle :: "trading_pipeline \<times> trade_db \<Rightarrow> cycle_input \<Rightarrow> trading_pipeline \<times> trade_db" where
  "run_cycle s i = (case i of (env, t, news, cid) \<Rightarrow> snd (pipeline_tick env t news cid (fst s) (snd s)))"

definition run_cycles :: "cycle_input list \<Rightarrow> trading_pipeline \<times> trade_db \<Rightarrow> trading_pipeline \<times> trade_db" where
  "run_cycles ins s = foldl run_cycle s ins"

lemma run_cycles_Nil [simp]: "run_cycles [] s = s"
  by (simp add: run_cycles_def)

lemma run_cycles_snoc [simp]: "run_cycles (ins @ [i]) s = run_cycle (run_cycles ins s) i"
  by (simp add: run_cycles_def)

lemma run_cycle_eq:
  "pipeline_tick env t news cid p db = (out, p', db') \<Longrightarrow> run_cycle (p, db) (env, t, news, cid) = (p', db')"
  by (simp add: run_cycle_def)

lemma same_bar_manager: "p\<lparr>tp_bar_manager := tp_bar_manager p\<rparr> = (p :: trading_pipeline)"
  by (cases p) simp

lemma readiness_frozen:
  "is_account_frozen (tp_account_id p) p \<Longrightarrow> readiness now p \<noteq> Inr (Inr bars)"
  by (auto simp: readiness_def elim!: bind_res_InrE split: if_splits)

lemma readiness_ready:
  assumes "readiness now p = Inr (Inr bars)"
  shows "bars \<noteq> []" "\<not> is_account_frozen (tp_account_id p) p" "\<not> mtf_is_stale now (tp_bar_manager p)"
    "mtf_is_spread_acceptable (tp_bar_manager p)"
    "mtf_get_closed_bars (tp_primary_timeframe p) (tp_bar_manager p) = Inr bars"
  using assms by (auto simp: readiness_def elim!: bind_res_InrE split: if_splits)

text \<open>Either a cycle ends before the signal stage, or it is the signal stage.\<close>

lemma pipeline_tick_cases:
  assumes "pipeline_tick env t news correlation_id p db = (out, p', db')"
  obtains (idle) m st where "p' = p\<lparr>tp_bar_manager := m\<rparr>"
      "xd_commands (td_exec db') = xd_commands (td_exec db)"
      "xd_positions (td_exec db') = xd_positions (td_exec db)"
      "td_signals db' = td_signals db" "td_decisions db' = td_decisions db"
      "is_account_frozen (tp_account_id p) p \<Longrightarrow> db' = db"
      "out = Inl (PyError st) \<or> (\<exists>c. out = Inr c \<and> cy_recon c = None \<and> cy_report c = None)"
  | (signal) m bars sig cid where "cid = choose_correlation_id correlation_id (ce_fresh_id env)"
      "validate_tick (tp_bar_manager p) t = None" "m = snd (ingest_tick t (tp_bar_manager p))"
      "readiness (ce_stale_now env) (p\<lparr>tp_bar_manager := m\<rparr>) = Inr (Inr bars)"
      "process_signal (tp_brain_config p) (ce_brain_now env) (ce_fresh_id env) t bars news (Some cid) = Inr sig"
      "cs_direction sig \<noteq> NO_DIRECTION" "cs_is_configured sig"
      "signal_stage env cid t news sig (p\<lparr>tp_bar_manager := m\<rparr>) db = (out, p', db')"
proof (cases "validate_tick (tp_bar_manager p) t = None")
  case False
  with assms show ?thesis
    by (intro idle [of "tp_bar_manager p"]) (auto simp: pipeline_tick_def Let_def cycle_base_def)
next
  case valid: True
  let ?m = "snd (ingest_tick t (tp_bar_manager p))"
  let ?p1 = "p\<lparr>tp_bar_manager := ?m\<rparr>"
  show ?thesis
  proof (cases "readiness (ce_stale_now env) ?p1")
    case (Inl e)
    with assms valid show ?thesis by (intro idle [of ?m]) (auto simp: pipeline_tick_def Let_def)
  next
    case (Inr x)
    show ?thesis
    proof (cases x)
      case (Inl st)
      with Inr assms valid show ?thesis
        by (intro idle [of ?m]) (auto simp: pipeline_tick_def Let_def cycle_base_def)
    next
      case ready: (Inr bars)
      let ?cid = "choose_correlation_id correlation_id (ce_fresh_id env)"
      obtain sig where sig: "process_signal (tp_brain_config p) (ce_brain_now env) (ce_fresh_id env) t bars
          news (Some ?cid) = Inr sig"
        using process_signal_total by blast
      have nf: "\<not> is_account_frozen (tp_account_id p) p"
        using readiness_ready(2) [of "ce_stale_now env" ?p1 bars] Inr ready by simp
      show ?thesis
      proof (cases "cs_direction sig = NO_DIRECTION \<or> \<not> cs_is_configured sig")
        case True
        with assms valid Inr ready sig nf show ?thesis
          by (intro idle [of ?m]) (auto simp: pipeline_tick_def Let_def cycle_base_def)
      next
        case False
        with assms valid Inr ready sig show ?thesis
          by (intro signal) (auto simp: pipeline_tick_def Let_def)
      qed
    qed
  qed
qed

lemma frozen_cycle:
  assumes "pipeline_tick env t news correlation_id p db = (out, p', db')"
    "is_account_frozen (tp_account_id p) p"
  shows "\<exists>m. p' = p\<lparr>tp_bar_manager := m\<rparr> \<and> db' = db"
  using assms(1)
proof (cases rule: pipeline_tick_cases)
  case (signal m bars sig cid)
  from readiness_ready(2) [OF signal(4)] assms(2) show ?thesis by simp
qed (use assms(2) in blast)

text \<open>How the signal stage and the execution stage end.\<close>

lemma execution_stage_cases:
  assumes "execution_stage env cid t s d evs p db = (out, p', db')" "0 \<le> sm_ticket_counter (tp_simulator p)"
  obtains (conflict) "ticket_taken (tp_account_id p) (sm_ticket_counter (tp_simulator p) + 1) (td_exec db)"
      "out = Inl (DbError IntegrityError)" "db' = db" "tp_frozen_accounts p' = tp_frozen_accounts p"
  | (dispatched) o1 xdb where
      "execute_approved_signal (ce_exec env) (tp_account_id p) (row_exec_signal s) d
         (Some (if sg_direction s = ''BUY'' then tk_ask t else tk_bid t)) (Some cid)
         (Some (exec_key (tp_account_id p) s)) (tp_simulator p) (td_exec db) = (o1, tp_simulator p', xdb)"
      "o1 \<noteq> Inl IntegrityError" "td_decisions db' = td_decisions db"
      "xd_commands (td_exec db') = xd_commands xdb" "xd_positions (td_exec db') = xd_positions xdb"
      "tp_account_id p' = tp_account_id p"
      "\<exists>c. out = Inr c \<and> (cy_recon c = None \<and> tp_frozen_accounts p' = tp_frozen_accounts p
           \<or> (\<exists>r. cy_recon c = Some r
                \<and> r = fst (reconcile_account_positions (ce_recon_now env) (tp_account_id p)
                             (sm_open_positions (tp_simulator p')) xdb)
                \<and> tp_frozen_accounts p' = (if has_critical_discrepancy r
                     then AList.update (tp_account_id p) (map di_type (rc_discrepancies r)) (tp_frozen_accounts p)
                     else tp_frozen_accounts p)))"
proof -
  let ?price = "if sg_direction s = ''BUY'' then tk_ask t else tk_bid t"
  obtain o1 sim' xdb where ex: "execute_approved_signal (ce_exec env) (tp_account_id p) (row_exec_signal s) d
      (Some ?price) (Some cid) (Some (exec_key (tp_account_id p) s)) (tp_simulator p) (td_exec db)
      = (o1, sim', xdb)" by (metis prod_cases3)
  show ?thesis
  proof (cases o1)
    case (Inl e)
    with ex assms(2) have e: "e = IntegrityError" "ticket_taken (tp_account_id p) (sm_ticket_counter (tp_simulator p) + 1) (td_exec db)"
      by (auto elim: execute_split)
    with Inl ex assms(1) show ?thesis by (intro conflict) (auto simp: execution_stage_def Let_def)
  next
    case (Inr orep)
    show ?thesis
    proof (cases orep)
      case None
      with Inr ex assms(1) show ?thesis
        by (intro dispatched [of o1 xdb]) (auto simp: execution_stage_def Let_def cycle_base_def)
    next
      case (Some rep)
      let ?db1 = "set_status ''EXECUTED'' (db\<lparr>td_exec := xdb\<rparr>)"
      obtain r al p2 db2 where st: "reconcile_stage env (p\<lparr>tp_simulator := sim'\<rparr>) ?db1 = (r, al, p2, db2)"
        by (metis prod_cases4)
      note f = reconcile_stage_frame [OF st]
      from Some Inr ex assms(1) st have "p' = p2" "db' = db2" "\<exists>c. out = Inr c \<and> cy_recon c = Some r"
        by (auto simp: execution_stage_def Let_def)
      with f ex Inr Some show ?thesis
        by (intro dispatched [of o1 xdb]) auto
    qed
  qed
qed

definition signal_db :: "cycle_env \<Rightarrow> string \<Rightarrow> tick \<Rightarrow> string \<Rightarrow> candidate_signal \<Rightarrow> trading_pipeline \<Rightarrow> trade_db \<Rightarrow> trade_db" where
  "signal_db env cid t news sig p db =
     add_audit (tp_account_id p)
       (SIGNAL_CREATED (ce_signal_id env) (direction_name (cs_direction sig)))
       (store_signal (proposed_signal env cid p t news sig) db)"

lemma signal_db_simps [simp]:
  "xd_commands (td_exec (signal_db env cid t news sig p db)) = xd_commands (td_exec db)"
  "xd_positions (td_exec (signal_db env cid t news sig p db)) = xd_positions (td_exec db)"
  "open_positions_of a (td_exec (signal_db env cid t news sig p db)) = open_positions_of a (td_exec db)"
  "td_decisions (signal_db env cid t news sig p db) = td_decisions db"
  "td_configs (signal_db env cid t news sig p db) = td_configs db"
  by (simp_all add: signal_db_def)

definition cycle_risk ::
  "cycle_env \<Rightarrow> string \<Rightarrow> tick \<Rightarrow> string \<Rightarrow> candidate_signal \<Rightarrow> trading_pipeline \<Rightarrow> trade_db
     \<Rightarrow> (risk_decision \<times> trade_db) res" where
  "cycle_risk env cid t news sig p db =
     evaluate_and_record_risk (ce_risk_clock env) (ce_fresh_id env) (tp_account_id p)
       (Some (Some (signal_entry sig t), cs_suggested_stop_loss sig)) (Some (cycle_market env t))
       (Some news) (Some cid) (signal_db env cid t news sig p db)"

lemma proposed_signal_simps [simp]:
  "sg_entry_reference (proposed_signal env cid p t news sig) = Some (signal_entry sig t)"
  "sg_suggested_stop_loss (proposed_signal env cid p t news sig) = cs_suggested_stop_loss sig"
  "sg_id (proposed_signal env cid p t news sig) = ce_signal_id env"
  "sg_direction (proposed_signal env cid p t news sig) = direction_name (cs_direction sig)"
  "sg_expires_at (proposed_signal env cid p t news sig) = ce_expires_now env + tp_signal_expiry_seconds p * 10 ^ 6"
  by (simp_all add: proposed_signal_def)

lemma signal_stage_cases:
  assumes "signal_stage env cid t news sig p db = (out, p', db')"
  obtains (stopped) "p' = p" "xd_commands (td_exec db') = xd_commands (td_exec db)"
      "xd_positions (td_exec db') = xd_positions (td_exec db)"
      "out \<noteq> Inl (DbError IntegrityError)" "\<forall>c. out = Inr c \<longrightarrow> cy_recon c = None"
  | (cleared) d db2 evs where "cycle_risk env cid t news sig p db = Inr (d, db2)" "rd_trading_allowed d"
      "ce_gate_now env \<le> ce_expires_now env + tp_signal_expiry_seconds p * 10 ^ 6"
      "execution_stage env cid t (proposed_signal env cid p t news sig) d evs p db2 = (out, p', db')"
proof -
  let ?s = "proposed_signal env cid p t news sig"
  show ?thesis
  proof (cases "sg_expires_at ?s < ce_gate_now env")
    case True
    with assms show ?thesis
      by (intro stopped) (auto simp: signal_stage_def Let_def cycle_base_def)
  next
    case alive: False
    show ?thesis
    proof (cases "cycle_risk env cid t news sig p db")
      case (Inl e)
      with assms alive show ?thesis
        by (intro stopped) (auto simp: signal_stage_def cycle_risk_def signal_db_def Let_def)
    next
      case (Inr y)
      obtain d db2 where y: "y = (d, db2)" by (cases y)
      note ev = evaluate_and_record_cases [OF Inr [unfolded y cycle_risk_def]]
      show ?thesis
      proof (cases "risk_refuses d")
        case True
        with assms alive Inr y ev(4,5) show ?thesis
          by (intro stopped)
            (auto simp: signal_stage_def cycle_risk_def signal_db_def Let_def cycle_base_def split: if_splits)
      next
        case False
        with assms alive Inr y show ?thesis
          by (intro cleared [of d db2])
            (auto simp: signal_stage_def cycle_risk_def signal_db_def Let_def risk_refuses_def)
      qed
    qed
  qed
qed

text \<open>The broker and the tables of an account stay in agreement through a cycle.\<close>

definition in_step :: "trading_pipeline \<times> trade_db \<Rightarrow> bool" where
  "in_step s \<longleftrightarrow> in_sync (tp_account_id (fst s)) (tp_simulator (fst s)) (td_exec (snd s))"

lemma in_sync_cong:
  "xd_positions db' = xd_positions db \<Longrightarrow> in_sync acc sim db' \<longleftrightarrow> in_sync acc sim db"
  by (simp add: in_sync_def open_positions_of_def)

lemma fst_reconcile:
  "fst (reconcile_account_positions now acc reported db) = reconcile now acc (server_map acc db) reported"
  by (simp add: reconcile_account_positions_def Let_def)

lemma in_sync_not_critical:
  assumes "in_sync acc sim db"
  shows "\<not> has_critical_discrepancy (fst (reconcile_account_positions now acc (sm_open_positions sim) db))"
  using in_sync_tracked [OF assms] by (simp add: fst_reconcile critical_iff)

lemma in_step_cycle:
  assumes "pipeline_tick env t news correlation_id p db = (out, p', db')" "in_step (p, db)"
  shows "in_step (p', db') \<and> tp_frozen_accounts p' = tp_frozen_accounts p \<and> tp_account_id p' = tp_account_id p
    \<and> out \<noteq> Inl (DbError IntegrityError)
    \<and> (\<forall>c r. out = Inr c \<longrightarrow> cy_recon c = Some r \<longrightarrow> rc_is_clean r)"
  using assms(1)
proof (cases rule: pipeline_tick_cases)
  case (idle m st)
  with assms(2) in_sync_cong [OF idle(3)] show ?thesis by (auto simp: in_step_def)
next
  case (signal m bars sig cid)
  let ?p1 = "p\<lparr>tp_bar_manager := m\<rparr>"
  from signal(8) show ?thesis
  proof (cases rule: signal_stage_cases)
    case stopped
    with assms(2) in_sync_cong [OF stopped(3)] show ?thesis by (auto simp: in_step_def)
  next
    case (cleared d db2 evs)
    from evaluate_and_record_cases(4) [OF cleared(1) [unfolded cycle_risk_def]]
    have sy: "in_sync (tp_account_id ?p1) (tp_simulator ?p1) (td_exec db2)"
      using assms(2) by (simp add: in_step_def in_sync_cong [of "td_exec db2" "td_exec db"])
    from cleared(4) in_sync_counter [OF sy] show ?thesis
    proof (cases rule: execution_stage_cases)
      case conflict
      with in_sync_free [OF sy] show ?thesis by simp
    next
      case (dispatched o1 xdb)
      from in_sync_execute [OF dispatched(1) sy] have sy': "in_sync (tp_account_id p) (tp_simulator p') xdb" by simp
      note nc = in_sync_not_critical [OF sy', of "ce_recon_now env"]
      note cl = in_sync_reconciles(1) [OF sy', of "ce_recon_now env"]
      note sync = in_sync_cong [OF dispatched(5), of "tp_account_id p" "tp_simulator p'"]
      from dispatched(7) nc cl have "tp_frozen_accounts p' = tp_frozen_accounts p"
        "\<exists>c. out = Inr c \<and> (\<forall>r. cy_recon c = Some r \<longrightarrow> rc_is_clean r)" by auto
      with sync sy' dispatched(6) show ?thesis by (auto simp: in_step_def)
    qed
  qed
qed

subsection \<open>A worked example\<close>

definition demo_manager :: mtf_manager where
  "demo_manager =
     \<lparr>mt_symbol = ''XAUUSD'', mt_timeframes = [''M5''], mt_max_spread_usd = 1,
      mt_staleness_threshold_seconds = 5,
      mt_builders = [(''M5'', \<lparr>bb_symbol = ''XAUUSD'', bb_timeframe = ''M5'', bb_interval_seconds = 300,
        bb_current = None, bb_closed_bars = demo_bars\<rparr>)],
      mt_last_tick = None, mt_tick_count = 0\<rparr>"

definition demo_pipeline :: trading_pipeline where
  "demo_pipeline =
     \<lparr>tp_account_id = ''acc'', tp_symbol = ''XAUUSD'', tp_primary_timeframe = ''M5'',
      tp_signal_expiry_seconds = 60, tp_bar_manager = demo_manager, tp_brain_config = demo_config,
      tp_simulator = mt5_simulator_init 2000 2001, tp_frozen_accounts = []\<rparr>"

definition demo_cycle_env :: cycle_env where
  "demo_cycle_env =
     \<lparr>ce_fresh_id = ''id'', ce_stale_now = 0, ce_brain_now = 0, ce_signal_id = ''s1'', ce_expires_now = 0,
      ce_generated_now = 0, ce_gate_now = 0, ce_age_now = 0, ce_risk_clock = demo_clock,
      ce_exec = demo_exec_env, ce_recon_now = 0\<rparr>"

definition demo_cycle_db :: trade_db where
  "demo_cycle_db = demo_trade_db\<lparr>td_equity :=
     [\<lparr>eq_account_id = ''acc'', eq_balance_usd = 13500, eq_equity_usd = 13500, eq_snapped_at = 0\<rparr>]\<rparr>"

lemma demo_spread: "tick_spread demo_quote = 1 / 2"
  by (simp add: tick_spread_def demo_quote_def dec_ops dec_simps)

lemma demo_ready:
  "validate_tick demo_manager demo_quote = None"
  "readiness 0 (demo_pipeline\<lparr>tp_bar_manager := snd (ingest_tick demo_quote demo_manager)\<rparr>) = Inr (Inr demo_bars)"
proof -
  show v: "validate_tick demo_manager demo_quote = None"
    by (simp add: validate_tick_def demo_manager_def demo_quote_def)
  have "snd (ingest_tick demo_quote demo_manager) = demo_manager
      \<lparr>mt_last_tick := Some demo_quote, mt_tick_count := 1,
       mt_builders := feed_builders demo_quote (mt_builders demo_manager)\<rparr>"
    using v by (simp add: ingest_tick_def) (simp add: demo_manager_def)
  then show "readiness 0 (demo_pipeline\<lparr>tp_bar_manager := snd (ingest_tick demo_quote demo_manager)\<rparr>) = Inr (Inr demo_bars)"
    by (simp add: readiness_def mtf_is_stale_def mtf_is_spread_acceptable_def mtf_current_spread_def
        demo_spread mtf_get_closed_bars_def feed_builders_def demo_manager_def demo_pipeline_def
        process_tick_def Let_def is_account_frozen_def)
       (simp add: demo_quote_def total_seconds_def demo_bars_def)
qed

lemma demo_brain:
  "\<exists>sig. process_signal demo_config 0 ''id'' demo_quote demo_bars ''CLEAR'' (Some ''id'') = Inr sig
     \<and> cs_direction sig = BUY \<and> cs_suggested_stop_loss sig = Some 1996
     \<and> cs_entry_reference sig = Some (2009 + 1 / 2) \<and> cs_is_configured sig"
proof -
  have id: "choose_correlation_id (Some ''id'') ''id'' = choose_correlation_id None ''id''"
    by (simp add: choose_correlation_id_def)
  have "process_signal demo_config 0 ''id'' demo_quote demo_bars ''CLEAR'' (Some ''id'')
      = process_signal demo_config 0 ''id'' demo_quote demo_bars ''CLEAR'' None"
    unfolding process_signal_def id ..
  with demo_process show ?thesis by metis
qed

lemma demo_cycle_sizing:
  "percentage_lot_size (percentage_policy_init (1 / 100)) 13500 (Some (2009 + 1 / 2)) (Some 1996) = Inr (Some (1 / 10))"
  by (simp add: percentage_lot_size_def percentage_policy_init_def ddiv_res_def Let_def
      dquantize_down_def py_int_def dquantize_grid [of _ _ 10] dec_ops dec_simps)

lemma demo_cycle_snapshot:
  assumes "td_equity db = td_equity demo_cycle_db" "td_sessions db = []" "open_positions_of ''acc'' (td_exec db) = []"
  shows "build_account_risk_snapshot 0 0 ''acc'' db =
     \<lparr>as_account_id = ''acc'', as_current_balance_usd = 13500, as_current_equity_usd = 13500,
      as_equity_peak_usd = 13500, as_daily_realized_pnl_usd = 0, as_daily_floating_pnl_usd = 0,
      as_open_position_count = 0, as_snapshot_at = 0, as_session_open_equity_usd = Some 13500,
      as_session_peak_profit_usd = Some 0, as_open_lot_exposure = 0, as_in_flight_lot_exposure = 0\<rparr>"
  using assms
  by (simp add: build_account_risk_snapshot_def demo_cycle_db_def peak_equity_def or_default_def dsum_def)

lemma demo_cycle_approved:
  assumes "cs_direction sig = BUY" "cs_suggested_stop_loss sig = Some 1996"
    "cs_entry_reference sig = Some (2009 + 1 / 2)"
  shows "\<exists>d db'. cycle_risk demo_cycle_env ''id'' demo_quote ''CLEAR'' sig
      (demo_pipeline\<lparr>tp_bar_manager := m\<rparr>) demo_cycle_db = Inr (d, db')
    \<and> rd_trading_allowed d \<and> rd_authorized_lot_size d = Some (1 / 10)"
proof -
  define db where "db = signal_db demo_cycle_env ''id'' demo_quote ''CLEAR'' sig
    (demo_pipeline\<lparr>tp_bar_manager := m\<rparr>) demo_cycle_db"
  define c where "c = get_latest_risk_config ''acc'' db"
  define snap where "snap = build_account_risk_snapshot 0 0 ''acc'' db"
  let ?e = "\<lparr>re_config = c, re_sizing_policy = None\<rparr>"
  let ?m = "cycle_market demo_cycle_env demo_quote"
  have tables: "td_configs db = [demo_risk_row]" "td_equity db = td_equity demo_cycle_db" "td_sessions db = []"
    "open_positions_of ''acc'' (td_exec db) = []"
    by (simp_all add: db_def) (simp_all add: signal_db_def add_audit_def store_signal_def demo_cycle_db_def
        demo_trade_db_def open_positions_of_def empty_db_def)
  note snap = demo_cycle_snapshot [OF tables(2,3,4), folded snap_def]
  have cfg: "rk_daily_loss_limit_usd c = Some 100" "rk_max_drawdown_usd c = Some 200"
    "rk_max_open_positions c = Some 3" "rk_max_open_lots c = Some 1" "rk_max_spread_usd c = Some 1"
    "rk_caution_drawdown_pct c = None" "rk_risk_per_trade_pct c = Some (1 / 100)"
    "rk_default_position_size_lots c = None" "\<not> rk_emergency_stop_active c"
    "rk_max_tick_staleness_ms c = 2000" "rk_profit_lock_threshold_usd c = 10"
    by (simp_all add: c_def get_latest_risk_config_def tables demo_risk_row_def risk_config_default_def)
  have lots: "authorize_lots ?e snap (Some (Some (2009 + 1 / 2), Some 1996)) = Inr (Some (1 / 10))"
    using demo_cycle_sizing cfg(7,8) get_sizing_policy_pct [of ?e "1 / 100"]
    by (simp add: authorize_lots_def snap)
  have age: "age_ms 0 = 0" by (simp add: age_ms_def total_seconds_def py_int_def)
  have m: "check_market c (Some ?m) snap cid 0 = None" for cid
    unfolding check_market_None
    by (simp add: cfg cycle_market_def ready_statuses_def market_staleness_ms_def effective_spread_def
        demo_spread demo_cycle_env_def) (simp add: demo_quote_def age)
  have n: "check_news (Some ''CLEAR'') snap cid 0 = None" for cid
    by (simp add: check_news_None news_window_states_def news_unavailable_states_def)
  have rest: "check_emergency c snap cid 0 = None" "check_configured c snap cid 0 = None"
    "check_daily_loss c snap cid 0 = None" "check_drawdown c snap cid 0 = None"
    "check_profit_lock c snap cid 0 = None" "check_positions c snap cid 0 = None"
    "check_lots c (Some (1 / 10)) snap cid 0 = None" for cid
    by (simp_all add: check_emergency_None check_configured_None check_daily_loss_None
        check_drawdown_def check_profit_lock_None check_positions_None check_lots_None cfg
        risk_is_fully_configured_def total_daily_pnl_def drawdown_def profit_lock_of_def
        snap or_default_def Let_def dec_ops dec_simps)
  obtain d where d: "evaluate_risk ?e 0 ''id'' snap (Some (Some (2009 + 1 / 2), Some 1996)) (Some ?m) (Some ''CLEAR'')
      (Some ''id'') = Inr d" "rd_trading_allowed d" "rd_authorized_lot_size d = Some (1 / 10)"
    by (simp add: evaluate_risk_def rest m n lots [simplified] Let_def decide_def rd_trading_allowed_def)
  have entry: "signal_entry sig demo_quote = 2009 + 1 / 2" using assms(3) by (simp add: signal_entry_def)
  have clk: "rl_day demo_clock = 0" "rl_snapshot demo_clock = 0" "rl_decision demo_clock = 0"
    by (simp_all add: demo_clock_def)
  have fields: "ce_risk_clock demo_cycle_env = demo_clock" "ce_fresh_id demo_cycle_env = ''id''"
    "tp_account_id (demo_pipeline\<lparr>tp_bar_manager := m\<rparr>) = ''acc''"
    by (simp_all add: demo_cycle_env_def demo_pipeline_def)
  have "\<exists>db'. cycle_risk demo_cycle_env ''id'' demo_quote ''CLEAR'' sig
      (demo_pipeline\<lparr>tp_bar_manager := m\<rparr>) demo_cycle_db = Inr (d, db')"
    unfolding cycle_risk_def evaluate_and_record_risk_def Let_def db_def [symmetric] fields clk
      c_def [symmetric] snap_def [symmetric] entry assms(2) d(1) by simp
  with d(2,3) show ?thesis by blast
qed

lemma signal_stage_cleared:
  assumes "ce_gate_now env \<le> ce_expires_now env + tp_signal_expiry_seconds p * 10 ^ 6"
    "cycle_risk env cid t news sig p db = Inr (d, db2)" "rd_trading_allowed d"
  shows "\<exists>evs. signal_stage env cid t news sig p db
    = execution_stage env cid t (proposed_signal env cid p t news sig) d evs p db2"
proof -
  have "\<not> risk_refuses d" using assms(3) by (simp add: risk_refuses_def rd_trading_allowed_def)
  with assms(1,2) show ?thesis
    by (auto simp: signal_stage_def cycle_risk_def signal_db_def Let_def)
qed

lemma execution_commands:
  assumes "execution_stage env cid t s d evs p db = (out, p', db')" "sm_inv (tp_simulator p)"
    "xd_commands (td_exec db') \<noteq> xd_commands (td_exec db)"
  shows "\<exists>c. xd_commands (td_exec db') = xd_commands (td_exec db) @ [c]
    \<and> Some (dc_volume_lots c) = rd_authorized_lot_size d \<and> 0 < dc_volume_lots c
    \<and> td_decisions db' = td_decisions db"
proof -
  have nn: "0 \<le> sm_ticket_counter (tp_simulator p)" using assms(2) by (simp add: sm_inv_def)
  have lots: "Some (or_default (rd_authorized_lot_size d) 0) = rd_authorized_lot_size d
      \<and> 0 < or_default (rd_authorized_lot_size d) 0"
    if "\<not> refuses e a d k x" for e a k x
    using that by (auto simp: refuses_def or_default_def split: option.splits)
  from assms(1) nn show ?thesis
  proof (cases rule: execution_stage_cases)
    case conflict
    with assms(3) show ?thesis by simp
  next
    case (dispatched o1 xdb)
    from dispatched(1) nn show ?thesis
    proof (cases rule: execute_split)
      case refused
      with dispatched(4) assms(3) show ?thesis by simp
    next
      case expired
      with dispatched(3,4) lots show ?thesis by fastforce
    next
      case conflict
      with dispatched(2) show ?thesis by simp
    next
      case filled
      with dispatched(3,4) lots show ?thesis by fastforce
    qed
  qed
qed

lemma demo_cycle:
  obtains out p' db' where
    "pipeline_tick demo_cycle_env demo_quote ''CLEAR'' None demo_pipeline demo_cycle_db = (out, p', db')"
    "xd_commands (td_exec db') \<noteq> xd_commands (td_exec demo_cycle_db)"
proof -
  let ?m = "snd (ingest_tick demo_quote demo_manager)"
  let ?p1 = "demo_pipeline\<lparr>tp_bar_manager := ?m\<rparr>"
  obtain sig where sig:
    "process_signal demo_config 0 ''id'' demo_quote demo_bars ''CLEAR'' (Some ''id'') = Inr sig"
    "cs_direction sig = BUY" "cs_suggested_stop_loss sig = Some 1996"
    "cs_entry_reference sig = Some (2009 + 1 / 2)" "cs_is_configured sig"
    using demo_brain by blast
  obtain d db2 where d: "cycle_risk demo_cycle_env ''id'' demo_quote ''CLEAR'' sig ?p1 demo_cycle_db = Inr (d, db2)"
    "rd_trading_allowed d" "rd_authorized_lot_size d = Some (1 / 10)"
    using demo_cycle_approved [OF sig(2,3,4)] by blast
  have "ce_gate_now demo_cycle_env \<le> ce_expires_now demo_cycle_env + tp_signal_expiry_seconds ?p1 * 10 ^ 6"
    by (simp add: demo_cycle_env_def demo_pipeline_def)
  from signal_stage_cleared [OF this d(1,2)] obtain evs where st:
    "signal_stage demo_cycle_env ''id'' demo_quote ''CLEAR'' sig ?p1 demo_cycle_db
      = execution_stage demo_cycle_env ''id'' demo_quote
          (proposed_signal demo_cycle_env ''id'' ?p1 demo_quote ''CLEAR'' sig) d evs ?p1 db2" by blast
  have fields: "tp_bar_manager demo_pipeline = demo_manager" "ce_stale_now demo_cycle_env = 0"
    "ce_brain_now demo_cycle_env = 0" "ce_fresh_id demo_cycle_env = ''id''" "tp_brain_config ?p1 = demo_config"
    "choose_correlation_id None ''id'' = ''id''" "sm_ticket_counter (tp_simulator ?p1) = 1000000"
    by (simp_all add: demo_pipeline_def demo_cycle_env_def choose_correlation_id_def mt5_simulator_init_def)
  obtain out p' db' where ex: "execution_stage demo_cycle_env ''id'' demo_quote
      (proposed_signal demo_cycle_env ''id'' ?p1 demo_quote ''CLEAR'' sig) d evs ?p1 db2 = (out, p', db')"
    by (metis prod_cases3)
  have tick: "pipeline_tick demo_cycle_env demo_quote ''CLEAR'' None demo_pipeline demo_cycle_db = (out, p', db')"
    using demo_ready sig st ex by (simp add: pipeline_tick_def Let_def fields)
  note ev = evaluate_and_record_cases [OF d(1) [unfolded cycle_risk_def]]
  have empty: "xd_commands (td_exec db2) = []" "xd_positions (td_exec db2) = []"
    using ev(4,5) by (simp_all add: demo_cycle_db_def demo_trade_db_def empty_db_def)
  have nn: "0 \<le> sm_ticket_counter (tp_simulator ?p1)" unfolding fields by simp
  have nr: "\<not> refuses e a d k (td_exec db2)" for e a k
    using d(2,3) empty by (simp add: refuses_def or_default_def key_used_def)
  from ex nn have "xd_commands (td_exec db') \<noteq> []"
  proof (cases rule: execution_stage_cases)
    case conflict
    with empty show ?thesis by (simp add: ticket_taken_def)
  next
    case (dispatched o1 xdb)
    from dispatched(1) nn show ?thesis
    proof (cases rule: execute_split)
      case conflict
      with dispatched(2) show ?thesis by simp
    qed (use nr dispatched(4) in auto)
  qed
  then show ?thesis by (intro that [OF tick]) (simp add: demo_cycle_db_def demo_trade_db_def empty_db_def)
qed

subsection \<open>Properties\<close>

text \<open>
  C9: the pipeline sends an order only through every gate.  If a cycle changed the commands, then the
  tick was valid and in order, the manager's data fresh and its spread acceptable, the account not
  frozen, the brain proposed a directional signal on closed bars that had not expired, the recorded
  risk decision of that signal is an approval, and exactly one command was added, for exactly the
  positive volume that the risk engine authorises for the signal's entry and stop on the account's
  stored limits and its equity, sessions and positions.
\<close>

theorem order_passes_every_gate:
  assumes "pipeline_tick env t news correlation_id p db = (out, p', db')" "sm_inv (tp_simulator p)"
    "xd_commands (td_exec db') \<noteq> xd_commands (td_exec db)"
  shows "validate_tick (tp_bar_manager p) t = None \<and> \<not> is_account_frozen (tp_account_id p) p
    \<and> \<not> mtf_is_stale (ce_stale_now env) (snd (ingest_tick t (tp_bar_manager p)))
    \<and> mtf_is_spread_acceptable (snd (ingest_tick t (tp_bar_manager p)))
    \<and> ce_gate_now env \<le> ce_expires_now env + tp_signal_expiry_seconds p * 10 ^ 6
    \<and> (\<exists>bars cid sig d c. bars \<noteq> [] \<and> cid = choose_correlation_id correlation_id (ce_fresh_id env)
        \<and> mtf_get_closed_bars (tp_primary_timeframe p) (snd (ingest_tick t (tp_bar_manager p))) = Inr bars
        \<and> process_signal (tp_brain_config p) (ce_brain_now env) (ce_fresh_id env) t bars news (Some cid) = Inr sig
        \<and> cs_direction sig \<noteq> NO_DIRECTION \<and> cs_is_configured sig
        \<and> evaluate_risk \<lparr>re_config = get_latest_risk_config (tp_account_id p) db, re_sizing_policy = None\<rparr>
              (rl_decision (ce_risk_clock env)) (ce_fresh_id env)
              (build_account_risk_snapshot (rl_day (ce_risk_clock env)) (rl_snapshot (ce_risk_clock env))
                 (tp_account_id p) db)
              (Some (Some (signal_entry sig t), cs_suggested_stop_loss sig)) (Some (cycle_market env t))
              (Some news) (Some cid) = Inr d
        \<and> rd_trading_allowed d \<and> td_decisions db' = td_decisions db @ [stored_decision (tp_account_id p) d]
        \<and> xd_commands (td_exec db') = xd_commands (td_exec db) @ [c]
        \<and> Some (dc_volume_lots c) = rd_authorized_lot_size d \<and> 0 < dc_volume_lots c)"
  using assms(1)
proof (cases rule: pipeline_tick_cases)
  case (signal m bars sig cid)
  note ready = readiness_ready [OF signal(4)]
  from signal(8) show ?thesis
  proof (cases rule: signal_stage_cases)
    case (cleared d db2 evs)
    note ev = evaluate_and_record_cases [OF cleared(1) [unfolded cycle_risk_def]]
    have "xd_commands (td_exec db') \<noteq> xd_commands (td_exec db2)" using ev(5) assms(3) by simp
    from execution_commands [OF cleared(4) _ this] assms(2) obtain c where
      "xd_commands (td_exec db') = xd_commands (td_exec db2) @ [c]"
      "Some (dc_volume_lots c) = rd_authorized_lot_size d" "0 < dc_volume_lots c"
      "td_decisions db' = td_decisions db2" by auto
    moreover have "td_decisions db2 = td_decisions db @ [stored_decision (tp_account_id p) d]"
      "xd_commands (td_exec db2) = xd_commands (td_exec db)" using ev(2,5) by simp_all
    moreover note risk = ev(1) [unfolded signal_db_def risk_inputs_frame]
    ultimately show ?thesis
      using ready signal(1,2,3,5,6,7) cleared(2,3) by auto
  qed (use assms(3) in simp)
qed (use assms(3) in simp)

theorem order_passes_every_gate_witness:
  "\<exists>out p' db' c d. pipeline_tick demo_cycle_env demo_quote ''CLEAR'' None demo_pipeline demo_cycle_db = (out, p', db')
     \<and> xd_commands (td_exec db') = [c] \<and> 0 < dc_volume_lots c
     \<and> td_decisions db' = [stored_decision ''acc'' d] \<and> rd_trading_allowed d"
proof -
  obtain out p' db' where c: "pipeline_tick demo_cycle_env demo_quote ''CLEAR'' None demo_pipeline demo_cycle_db
      = (out, p', db')" "xd_commands (td_exec db') \<noteq> xd_commands (td_exec demo_cycle_db)"
    by (rule demo_cycle)
  have "sm_inv (tp_simulator demo_pipeline)" using sm_inv_init by (simp add: demo_pipeline_def)
  moreover have "xd_commands (td_exec demo_cycle_db) = []" "td_decisions demo_cycle_db = []"
    "tp_account_id demo_pipeline = ''acc''"
    by (simp_all add: demo_cycle_db_def demo_trade_db_def empty_db_def demo_pipeline_def)
  ultimately show ?thesis
    using order_passes_every_gate [OF c(1) _ c(2)] c(1) by (metis append_Nil)
qed

text \<open>
  the circuit breaker holds.  While the account is frozen, no sequence of cycles, whatever its
  ticks, news and clocks, changes the database or the simulated broker, and the account stays
  frozen: only unfreezing it lifts the stop.
\<close>

theorem frozen_account_is_inert:
  assumes "is_account_frozen (tp_account_id p) p"
  shows "snd (run_cycles ins (p, db)) = db
    \<and> tp_simulator (fst (run_cycles ins (p, db))) = tp_simulator p
    \<and> is_account_frozen (tp_account_id p) (fst (run_cycles ins (p, db)))
    \<and> \<not> is_account_frozen (tp_account_id p) (unfreeze_account (tp_account_id p) (fst (run_cycles ins (p, db))))"
proof -
  have "\<exists>m. run_cycles ins (p, db) = (p\<lparr>tp_bar_manager := m\<rparr>, db)"
  proof (induction ins rule: rev_induct)
    case Nil
    show ?case by (rule exI [of _ "tp_bar_manager p"]) (simp add: same_bar_manager)
  next
    case (snoc i ins)
    then obtain m where m: "run_cycles ins (p, db) = (p\<lparr>tp_bar_manager := m\<rparr>, db)" by blast
    obtain env t news cid where i: "i = (env, t, news, cid)" by (cases i)
    obtain out p' db' where e: "pipeline_tick env t news cid (p\<lparr>tp_bar_manager := m\<rparr>) db = (out, p', db')"
      by (metis prod_cases3)
    from frozen_cycle [OF e] assms run_cycle_eq [OF e] show ?case by (auto simp: m i)
  qed
  then obtain m where "run_cycles ins (p, db) = (p\<lparr>tp_bar_manager := m\<rparr>, db)" by blast
  with assms show ?thesis by (auto simp: is_account_frozen_def unfreeze_account_def AList.delete_eq)
qed

theorem frozen_account_is_inert_witness:
  "snd (run_cycles [(demo_cycle_env, demo_quote, ''CLEAR'', None)]
      (freeze_account ''acc'' [ORPHAN] demo_pipeline, demo_cycle_db)) = demo_cycle_db"
proof -
  have "is_account_frozen (tp_account_id (freeze_account ''acc'' [ORPHAN] demo_pipeline))
      (freeze_account ''acc'' [ORPHAN] demo_pipeline)"
    by (simp add: freeze_account_def is_account_frozen_def demo_pipeline_def)
  from frozen_account_is_inert [OF this, of "[(demo_cycle_env, demo_quote, ''CLEAR'', None)]" demo_cycle_db]
  show ?thesis by simp
qed

text \<open>
  C10: the pipeline never freezes itself.  Started with tables and broker in agreement, any sequence
  of cycles keeps them in agreement, leaves the set of frozen accounts as it was, and a further cycle
  neither violates the ticket constraint nor reconciles with a discrepancy: the composition of brain,
  risk, execution and reconciliation refines one shared list of open positions.
\<close>

theorem pipeline_refines_positions:
  assumes "in_sync (tp_account_id p) (tp_simulator p) (td_exec db)"
  shows "in_sync (tp_account_id p) (tp_simulator (fst (run_cycles ins (p, db)))) (td_exec (snd (run_cycles ins (p, db))))
    \<and> tp_frozen_accounts (fst (run_cycles ins (p, db))) = tp_frozen_accounts p
    \<and> fst (pipeline_tick env t news cid (fst (run_cycles ins (p, db))) (snd (run_cycles ins (p, db))))
        \<noteq> Inl (DbError IntegrityError)
    \<and> (\<forall>c r. fst (pipeline_tick env t news cid (fst (run_cycles ins (p, db))) (snd (run_cycles ins (p, db)))) = Inr c
         \<longrightarrow> cy_recon c = Some r \<longrightarrow> rc_is_clean r)"
proof -
  have inv: "in_step (run_cycles ins (p, db)) \<and> tp_frozen_accounts (fst (run_cycles ins (p, db))) = tp_frozen_accounts p
      \<and> tp_account_id (fst (run_cycles ins (p, db))) = tp_account_id p"
  proof (induction ins rule: rev_induct)
    case Nil
    with assms show ?case by (simp add: in_step_def)
  next
    case (snoc i ins)
    obtain q qdb where q: "run_cycles ins (p, db) = (q, qdb)" by fastforce
    obtain env t news cid where i: "i = (env, t, news, cid)" by (cases i)
    obtain out p' db' where e: "pipeline_tick env t news cid q qdb = (out, p', db')" by (metis prod_cases3)
    from in_step_cycle [OF e] snoc q run_cycle_eq [OF e] show ?case by (simp add: i)
  qed
  obtain q qdb where q: "run_cycles ins (p, db) = (q, qdb)" by fastforce
  obtain out p' db' where e: "pipeline_tick env t news cid q qdb = (out, p', db')" by (metis prod_cases3)
  from inv q have a: "in_step (q, qdb)" "tp_account_id q = tp_account_id p" "tp_frozen_accounts q = tp_frozen_accounts p"
    by simp_all
  from in_step_cycle [OF e a(1)] a q e show ?thesis by (simp add: in_step_def)
qed

theorem pipeline_refines_positions_witness:
  "in_sync ''acc'' (tp_simulator (fst (run_cycles [(demo_cycle_env, demo_quote, ''CLEAR'', None)] (demo_pipeline, demo_cycle_db))))
     (td_exec (snd (run_cycles [(demo_cycle_env, demo_quote, ''CLEAR'', None)] (demo_pipeline, demo_cycle_db))))
   \<and> xd_commands (td_exec (snd (run_cycles [(demo_cycle_env, demo_quote, ''CLEAR'', None)] (demo_pipeline, demo_cycle_db)))) \<noteq> []"
proof -
  have "in_sync (tp_account_id demo_pipeline) (tp_simulator demo_pipeline) (td_exec demo_cycle_db)"
    using sm_inv_init by (simp add: in_sync_def demo_pipeline_def demo_cycle_db_def demo_trade_db_def empty_db_def
        open_positions_of_def sm_open_positions_def mt5_simulator_init_def)
  from pipeline_refines_positions [OF this, of "[(demo_cycle_env, demo_quote, ''CLEAR'', None)]"]
  have s: "in_sync ''acc'' (tp_simulator (fst (run_cycles [(demo_cycle_env, demo_quote, ''CLEAR'', None)] (demo_pipeline, demo_cycle_db))))
     (td_exec (snd (run_cycles [(demo_cycle_env, demo_quote, ''CLEAR'', None)] (demo_pipeline, demo_cycle_db))))"
    by (simp add: demo_pipeline_def)
  obtain out p' db' where "pipeline_tick demo_cycle_env demo_quote ''CLEAR'' None demo_pipeline demo_cycle_db = (out, p', db')"
    "xd_commands (td_exec db') \<noteq> xd_commands (td_exec demo_cycle_db)" by (rule demo_cycle)
  with s show ?thesis
    by (simp add: run_cycles_def run_cycle_def) (simp add: demo_cycle_db_def demo_trade_db_def empty_db_def)
qed

text \<open>
  an unconfigured account makes the pipeline raise.  Without a risk configuration the decision
  names the three missing parameters, and the status text BLOCKED with that reason is longer than
  the fifty characters of its column: the cycle of every live signal ends in a database error
  instead of RISK_NOT_CONFIGURED, after the decision has been recorded and with no order.
\<close>

theorem unconfigured_signal_raises:
  assumes "\<forall>r \<in> set (td_configs db). rw_account_id r \<noteq> tp_account_id p"
    "ce_gate_now env \<le> ce_expires_now env + tp_signal_expiry_seconds p * 10 ^ 6"
  shows "fst (signal_stage env cid t news sig p db) = Inl (DbError DataError)
    \<and> xd_commands (td_exec (snd (snd (signal_stage env cid t news sig p db)))) = xd_commands (td_exec db)
    \<and> (\<exists>d. td_decisions (snd (snd (signal_stage env cid t news sig p db)))
          = td_decisions db @ [stored_decision (tp_account_id p) d] \<and> rd_decision d = DEC_NOT_CONFIGURED)"
proof -
  let ?acc = "tp_account_id p"
  let ?db1 = "signal_db env cid t news sig p db"
  define c where "c = get_latest_risk_config ?acc ?db1"
  have "filter (\<lambda>r. rw_account_id r = ?acc) (td_configs db) = []" using assms(1) by (simp add: filter_empty_conv)
  then have "c = risk_config_default" by (simp add: c_def get_latest_risk_config_def)
  then have cfg: "\<not> rk_emergency_stop_active c" "\<not> risk_is_fully_configured c"
    "missing_parameters c = [''daily_loss_limit_usd'', ''max_drawdown_usd'', ''max_open_positions'', ''risk_per_trade_pct'']"
    by (simp_all add: risk_config_default_def risk_is_fully_configured_def missing_parameters_def)
  let ?snap = "build_account_risk_snapshot (rl_day (ce_risk_clock env)) (rl_snapshot (ce_risk_clock env)) ?acc ?db1"
  let ?cid = "choose_correlation_id (Some cid) (ce_fresh_id env)"
  obtain d where d: "evaluate_risk \<lparr>re_config = c, re_sizing_policy = None\<rparr> (rl_decision (ce_risk_clock env))
      (ce_fresh_id env) ?snap (Some (Some (signal_entry sig t), cs_suggested_stop_loss sig))
      (Some (cycle_market env t)) (Some news) (Some cid) = Inr d"
    "rd_decision d = DEC_NOT_CONFIGURED" "rd_reason_code d = MISSING_PARAMETERS (missing_parameters c)"
    using cfg by (simp add: evaluate_risk_def check_emergency_def check_configured_def decide_def Let_def)
  then obtain db2 where r: "cycle_risk env cid t news sig p db = Inr (d, db2)"
    by (simp add: cycle_risk_def evaluate_and_record_risk_def Let_def flip: c_def)
  note ev = evaluate_and_record_cases [OF r [unfolded cycle_risk_def]]
  have "risk_refuses d" "status_width < length (blocked_status d)"
    using d(2,3) by (simp_all add: risk_refuses_def blocked_status_def cfg(3) status_width_def)
  with r assms(2) have "signal_stage env cid t news sig p db = (Inl (DbError DataError), p, db2)"
    by (simp add: signal_stage_def cycle_risk_def signal_db_def Let_def)
  with ev(2,5) d(2) show ?thesis by auto
qed

theorem unconfigured_signal_raises_witness:
  "fst (signal_stage demo_cycle_env ''id'' demo_quote ''CLEAR'' (not_configured_signal ''XAUUSD'') demo_pipeline
     (demo_cycle_db\<lparr>td_configs := []\<rparr>)) = Inl (DbError DataError)"
proof -
  have a: "\<forall>r \<in> set (td_configs (demo_cycle_db\<lparr>td_configs := []\<rparr>)). rw_account_id r \<noteq> tp_account_id demo_pipeline"
    by simp
  have b: "ce_gate_now demo_cycle_env \<le> ce_expires_now demo_cycle_env + tp_signal_expiry_seconds demo_pipeline * 10 ^ 6"
    by (simp add: demo_cycle_env_def demo_pipeline_def)
  from unconfigured_signal_raises [OF a b] show ?thesis by blast
qed

end
