(* ===== verification/Strategy_Service.thy ===== *)
theory Strategy_Service
  imports Risk_Gate Trading_Pipeline
begin

section \<open>Strategy service (\<open>backend/services/strategy_service.py\<close>, \<open>strategy_worker.py\<close>)\<close>

text \<open>
  The automated strategy: the control row of each account, the evaluation of one account through its
  gates up to the dispatch of a command to the agent, and the worker that evaluates every enabled
  account.  The bar managers and their seeding are in \<open>Market_Data_Service\<close>; the signal pipeline keeps
  no state, so its cache is left out.  The stored tick always reads as numbers, so the branch for a
  tick that cannot be parsed does not occur.  A decimal is sent as a text that depends on its
  exponent: the field \<open>sv_dec_text\<close>.  An evaluation that raises leaves the tables at their last
  commit; caches and sockets keep what happened.
\<close>

subsection \<open>State\<close>

record strategy_row =
  sy_account_id :: string
  sy_enabled :: bool
  sy_dry_run :: bool
  sy_strategy_id :: string
  sy_strategy_version :: string
  sy_symbol :: string
  sy_timeframe :: string
  sy_last_signal_direction :: "string option"
  sy_last_signal_at :: "instant option"
  sy_last_signal_candle_ts :: "instant option"
  sy_last_signal_id :: "string option"
  sy_last_signal_reason :: "market_summary option"
  sy_last_risk_decision :: "gate_decision option"
  sy_last_risk_reason_code :: "gate_reason option"
  sy_last_execution_status :: "string option"

datatype strategy_event =
    STRATEGY_ENABLED bool
  | STRATEGY_DISABLED
  | STRATEGY_SIGNAL_EVALUATED string string instant gate_decision gate_reason bool

record strategy_world =
  sw_app :: app_state
  sw_states :: "strategy_row list"
  sw_audit :: "(string \<times> strategy_event) list"

record strategy_env =
  sv_link :: link_env
  sv_gate :: gate_clock
  sv_freshness_now :: instant
  sv_received_now :: instant
  sv_brain_now :: instant
  sv_fresh_correlation :: string
  sv_signal_id :: string
  sv_signal_now :: instant
  sv_generated_now :: instant
  sv_expires_now :: instant
  sv_dec_text :: "dec \<Rightarrow> string"

datatype exec_outcome =
    SKIPPED | OUT_BLOCKED | NO_SIGNAL | OUT_DRY_RUN | OUT_FAILED | EXECUTION_PENDING | OUT_ERROR

datatype exec_reason =
    OFF_DISABLED | ACCOUNT_INACTIVE | ACCOUNT_TRADING_DISABLED | NO_MARKET_DATA
  | STALE_MARKET_DATA_FEED string | POSITION_ALREADY_OPEN | TICK_REJECTED_BY_BAR_MANAGER
  | BARS_WARMING_UP | CANDLE_COOLDOWN | GATE_REFUSED gate_reason | DRY_RUN_MODE_ACTIVE
  | NO_AGENT_CONNECTION | AGENT_WS_DELIVERY_FAILED | RAISED command_error

datatype signal_note = Summary market_summary | NOTE_POSITION_ALREADY_OPEN | SAME_CANDLE_ALREADY_PROCESSED

record strategy_result =
  so_signal_direction :: string
  so_signal_reason :: "signal_note option"
  so_risk_decision :: "gate_decision option"
  so_risk_reason_code :: "gate_reason option"
  so_execution_status :: exec_outcome
  so_execution_reason :: "exec_reason option"
  so_dry_run :: bool
  so_candle_ts :: "instant option"
  so_signal_id :: "string option"
  so_command_id :: "string option"

definition skipped :: "bool \<Rightarrow> strategy_result" where
  "skipped dry =
     \<lparr>so_signal_direction = ''NONE'', so_signal_reason = None, so_risk_decision = None,
      so_risk_reason_code = None, so_execution_status = SKIPPED, so_execution_reason = None,
      so_dry_run = dry, so_candle_ts = None, so_signal_id = None, so_command_id = None\<rparr>"

definition skipped_for :: "bool \<Rightarrow> exec_reason \<Rightarrow> strategy_result" where
  "skipped_for dry r = (skipped dry)\<lparr>so_execution_reason := Some r\<rparr>"

subsection \<open>Control\<close>

definition default_strategy_row :: "string \<Rightarrow> strategy_row" where
  "default_strategy_row acc =
     \<lparr>sy_account_id = acc, sy_enabled = False, sy_dry_run = True, sy_strategy_id = ''AUREXIS_CORE'',
      sy_strategy_version = ''AUREXIS-STRAT-1.0.0'', sy_symbol = ''XAUUSD'', sy_timeframe = ''M15'',
      sy_last_signal_direction = None, sy_last_signal_at = None, sy_last_signal_candle_ts = None,
      sy_last_signal_id = None, sy_last_signal_reason = None, sy_last_risk_decision = None,
      sy_last_risk_reason_code = None, sy_last_execution_status = None\<rparr>"

definition strategy_state :: "string \<Rightarrow> strategy_world \<Rightarrow> strategy_row option" where
  "strategy_state acc w = find (\<lambda>r. sy_account_id r = acc) (sw_states w)"

definition get_or_create_strategy_state :: "string \<Rightarrow> strategy_world \<Rightarrow> strategy_row \<times> strategy_world" where
  "get_or_create_strategy_state acc w =
     (case strategy_state acc w of
        Some r \<Rightarrow> (r, w)
      | None \<Rightarrow> (default_strategy_row acc, w\<lparr>sw_states := sw_states w @ [default_strategy_row acc]\<rparr>))"

definition put_state :: "strategy_row \<Rightarrow> strategy_world \<Rightarrow> strategy_world" where
  "put_state r w =
     w\<lparr>sw_states := map (\<lambda>x. if sy_account_id x = sy_account_id r then r else x) (sw_states w)\<rparr>"

definition strategy_audit :: "string \<Rightarrow> strategy_event \<Rightarrow> strategy_world \<Rightarrow> strategy_world" where
  "strategy_audit acc ev w = w\<lparr>sw_audit := sw_audit w @ [(acc, ev)]\<rparr>"

definition enable_strategy :: "string \<Rightarrow> bool \<Rightarrow> strategy_world \<Rightarrow> strategy_world" where
  "enable_strategy acc dry w =
     (case get_or_create_strategy_state acc w of (r, w1) \<Rightarrow>
        strategy_audit acc (STRATEGY_ENABLED dry) (put_state (r\<lparr>sy_enabled := True, sy_dry_run := dry\<rparr>) w1))"

definition disable_strategy :: "string \<Rightarrow> strategy_world \<Rightarrow> strategy_world" where
  "disable_strategy acc w =
     (case get_or_create_strategy_state acc w of (r, w1) \<Rightarrow>
        strategy_audit acc STRATEGY_DISABLED (put_state (r\<lparr>sy_enabled := False\<rparr>) w1))"

subsection \<open>Gates 1 to 6\<close>

definition is_confirmed_demo :: "account_row \<Rightarrow> bool" where
  "is_confirmed_demo a =
     (let server = map ascii_lower (case ta_mt5_server a of Some s \<Rightarrow> s | None \<Rightarrow> []);
          brk = map ascii_lower (ta_broker a); label = map ascii_lower (ta_label a)
      in if sublist ''real'' server \<or> sublist ''live'' server then False
         else sublist ''demo'' server \<or> sublist ''demo'' brk \<or> sublist ''demo'' label)"

definition parse_tick_time :: "time_parser \<Rightarrow> string \<Rightarrow> instant \<Rightarrow> instant" where
  "parse_tick_time tp raw received =
     (if raw = [] then received
      else let cleaned = dots_to_dashes (py_strip raw)
           in case tp_fromisoformat tp cleaned of
                Some t \<Rightarrow> t
              | None \<Rightarrow> (case tp_strptime tp cleaned of Some t \<Rightarrow> t | None \<Rightarrow> received))"

definition strategy_tick :: "strategy_env \<Rightarrow> tick_entry \<Rightarrow> tick" where
  "strategy_tick env e =
     tick_post_init
       \<lparr>tk_symbol = ''XAUUSD'', tk_broker_symbol = [], tk_bid = te_bid e, tk_ask = te_ask e,
        tk_tick_time = parse_tick_time (le_times (sv_link env)) (te_tick_time e) (te_received_at e),
        tk_received_at = sv_received_now env, tk_source = UNKNOWN_SOURCE, tk_sequence_id = None,
        tk_volume = Some (if te_tick_volume e = 0 then 1 else te_tick_volume e)\<rparr>"

definition has_open_position :: "string \<Rightarrow> app_state \<Rightarrow> bool" where
  "has_open_position acc app \<longleftrightarrow> open_positions_of acc (td_exec (ap_trade app)) \<noteq> []"

definition latest_tick :: "strategy_env \<Rightarrow> string \<Rightarrow> app_state \<Rightarrow> tick_entry option \<times> app_state" where
  "latest_tick env acc app =
     (case get_latest_market_data (le_redis (sv_link env)) (sv_freshness_now env) acc ''XAUUSD'' (ap_market app) of
        (e, mk) \<Rightarrow> (e, app\<lparr>ap_market := mk\<rparr>))"

text \<open>What stops an evaluation before the bars, or the tick to go on with.\<close>

definition admission ::
  "strategy_env \<Rightarrow> string \<Rightarrow> strategy_row \<Rightarrow> strategy_world \<Rightarrow> (strategy_result + tick) \<times> strategy_world" where
  "admission env acc st w =
     (let dry = sy_dry_run st
      in if \<not> sy_enabled st then (Inl (skipped_for dry OFF_DISABLED), w)
         else case active_account acc (ap_accounts (sw_app w)) of
           None \<Rightarrow> (Inl (skipped_for dry ACCOUNT_INACTIVE), w)
         | Some a \<Rightarrow>
           if \<not> dry \<and> \<not> is_confirmed_demo a \<and> \<not> ta_trading_enabled a
           then (Inl ((skipped_for dry ACCOUNT_TRADING_DISABLED)\<lparr>so_execution_status := OUT_BLOCKED\<rparr>),
                 put_state (st\<lparr>sy_enabled := False, sy_dry_run := True\<rparr>) w)
           else case latest_tick env acc (sw_app w) of
             (None, app) \<Rightarrow>
               (Inl (skipped_for dry NO_MARKET_DATA),
                put_state (st\<lparr>sy_last_risk_decision := Some BLOCK, sy_last_risk_reason_code := Some NO_TICK\<rparr>)
                  (w\<lparr>sw_app := app\<rparr>))
           | (Some e, app) \<Rightarrow>
               (case evaluate_freshness (sv_freshness_now env) (Some e) 5000 of (fresh, code, _) \<Rightarrow>
                 if \<not> fresh
                 then (Inl (skipped_for dry (STALE_MARKET_DATA_FEED code)),
                       put_state (st\<lparr>sy_last_risk_decision := Some BLOCK,
                                     sy_last_risk_reason_code := Some TICK_STALE\<rparr>) (w\<lparr>sw_app := app\<rparr>))
                 else if has_open_position acc app
                 then (Inl ((skipped_for dry POSITION_ALREADY_OPEN)\<lparr>so_signal_reason := Some NOTE_POSITION_ALREADY_OPEN\<rparr>),
                       w\<lparr>sw_app := app\<rparr>)
                 else (Inr (strategy_tick env e), w\<lparr>sw_app := app\<rparr>)))"

subsection \<open>Gate 7: bars and cooldown\<close>

definition ready_bars ::
  "strategy_env \<Rightarrow> string \<Rightarrow> tick \<Rightarrow> market_store \<Rightarrow> (exec_reason + bar list) res \<times> market_store" where
  "ready_bars env acc t mk =
     (case get_bar_manager acc (ms_managers mk) of
        Inl e \<Rightarrow> (Inl e, mk)
      | Inr (m, ms) \<Rightarrow>
          (case ingest_tick t m of
             (Inl _, _) \<Rightarrow> (Inr (Inl TICK_REJECTED_BY_BAR_MANAGER), mk\<lparr>ms_managers := ms\<rparr>)
           | (Inr _, m1) \<Rightarrow>
               let mk1 = mk\<lparr>ms_managers := AList.update acc m1 ms\<rparr>
               in case mtf_get_closed_bars ''M15'' m1 of
                    Inl e \<Rightarrow> (Inl e, mk1)
                  | Inr bars \<Rightarrow>
                      if 50 \<le> length bars then (Inr (Inr bars), mk1)
                      else case get_stored_closed_bars (le_redis (sv_link env)) (sv_freshness_now env) acc
                                  ''XAUUSD'' ''M15'' mk1 of (stored, mk2) \<Rightarrow>
                        let mk3 = mk2\<lparr>ms_managers := seed_account_bars acc ''XAUUSD'' ''M15'' stored (ms_managers mk2)\<rparr>
                        in (bind_res (get_bar_manager acc (ms_managers mk3)) (\<lambda>(m3, _).
                            bind_res (mtf_get_closed_bars ''M15'' m3) (\<lambda>bars'.
                              Inr (if length bars' < 50 then Inl BARS_WARMING_UP else Inr bars'))), mk3)))"

definition in_cooldown :: "strategy_row \<Rightarrow> instant \<Rightarrow> bool" where
  "in_cooldown st candle \<longleftrightarrow> (case sy_last_signal_candle_ts st of Some c \<Rightarrow> candle \<le> c | None \<Rightarrow> False)"

subsection \<open>Gates 8 to 11\<close>

definition strategy_entry :: "candidate_signal \<Rightarrow> tick \<Rightarrow> dec" where
  "strategy_entry sig t =
     or_default (cs_entry_reference sig) (if cs_direction sig = BUY then tk_ask t else tk_bid t)"

definition strategy_signal :: "strategy_env \<Rightarrow> string \<Rightarrow> tick \<Rightarrow> candidate_signal \<Rightarrow> signal_row" where
  "strategy_signal env acc t sig =
     \<lparr>sg_id = sv_signal_id env, sg_account_id = acc, sg_correlation_id = sv_signal_id env,
      sg_symbol = ''XAUUSD'', sg_direction = direction_name (cs_direction sig),
      sg_strategy_id = ''AUREXIS_CORE'', sg_strategy_version = ''AUREXIS-STRAT-1.0.0'',
      sg_setup_type = cs_setup_type sig, sg_confidence_score = cs_confidence_score sig,
      sg_entry_reference = Some (strategy_entry sig t),
      sg_suggested_stop_loss = cs_suggested_stop_loss sig,
      sg_suggested_take_profit = cs_suggested_take_profit sig,
      sg_spread_at_signal = Some (tick_spread t), sg_news_state_at_signal = ''CLEAR'',
      sg_status = ''PROPOSED'', sg_generated_at = sv_generated_now env,
      sg_expires_at = sv_expires_now env + minutes_us 15\<rparr>"

definition update_trade :: "(trade_db \<Rightarrow> trade_db) \<Rightarrow> strategy_world \<Rightarrow> strategy_world" where
  "update_trade f w = w\<lparr>sw_app := (sw_app w)\<lparr>ap_trade := f (ap_trade (sw_app w))\<rparr>\<rparr>"

definition order_payload :: "strategy_env \<Rightarrow> tick \<Rightarrow> candidate_signal \<Rightarrow> json json_dict" where
  "order_payload env t sig =
     (let txt = (\<lambda>d. J_str (sv_dec_text env d));
          sid = sv_signal_id env;
          base = [''action'' \<mapsto> J_str ''OPEN_POSITION'', ''symbol'' \<mapsto> J_str ''XAUUSD'',
                  ''side'' \<mapsto> J_str (direction_name (cs_direction sig)), ''volume'' \<mapsto> J_str ''0.01'',
                  ''price'' \<mapsto> txt (strategy_entry sig t), ''client_order_id'' \<mapsto> J_str sid,
                  ''deviation'' \<mapsto> J_int 20, ''comment'' \<mapsto> J_str (''AUREXIS_4B_'' @ sid)];
          with_sl = (case cs_suggested_stop_loss sig of None \<Rightarrow> base
                     | Some x \<Rightarrow> base(''stop_loss'' \<mapsto> txt x))
      in case cs_suggested_take_profit sig of None \<Rightarrow> with_sl
         | Some x \<Rightarrow> with_sl(''take_profit'' \<mapsto> txt x))"

definition settle :: "strategy_row \<Rightarrow> string \<Rightarrow> string \<Rightarrow> strategy_world \<Rightarrow> strategy_world" where
  "settle st signal_status exec_status w =
     put_state (st\<lparr>sy_last_execution_status := Some exec_status\<rparr>)
       (update_trade (set_status signal_status) w)"

text \<open>The live dispatch.  \<open>None\<close> is a failed flush, after which the session cannot be used.\<close>

definition dispatch_order ::
  "strategy_env \<Rightarrow> string \<Rightarrow> agent_row \<Rightarrow> strategy_row \<Rightarrow> tick \<Rightarrow> candidate_signal \<Rightarrow> strategy_result
     \<Rightarrow> strategy_world \<Rightarrow> strategy_result option \<times> strategy_world" where
  "dispatch_order env acc ag st t sig res w =
     (let link = sv_link env; who = (None, Some acc); payload = order_payload env t sig; app = sw_app w;
          failed = (\<lambda>e w'. (Some (res\<lparr>so_execution_status := OUT_ERROR, so_execution_reason := Some (RAISED e)\<rparr>),
                            settle st ''EXECUTION_FAILED'' ''ERROR'' w'))
      in case create_command (le_codec link) (le_fresh link) (le_now link) who (ag_id ag) ''OPEN_POSITION''
                (Some payload) (ap_link app) of
           (Inl DuplicateId, _) \<Rightarrow> (None, w)
         | (Inl e, _) \<Rightarrow> failed e w
         | (Inr c, db1) \<Rightarrow>
             (case mark_sent (le_now link) who (ag_id ag) (ac_id c) db1 of
                (Inl e, db2) \<Rightarrow> failed e (w\<lparr>sw_app := app\<lparr>ap_link := db2\<rparr>\<rparr>)
              | (Inr c2, db2) \<Rightarrow>
                  (case am_send_json link (ag_id ag) (COMMAND (ac_id c2) ''OPEN_POSITION'' (Some payload))
                          (ap_manager app) of
                     (True, m) \<Rightarrow>
                       (Some (res\<lparr>so_execution_status := EXECUTION_PENDING, so_command_id := Some (ac_id c2)\<rparr>),
                        settle st ''EXECUTION_PENDING'' ''PENDING''
                          (w\<lparr>sw_app := app\<lparr>ap_link := db2, ap_manager := m\<rparr>\<rparr>))
                   | (False, m) \<Rightarrow>
                       (case fail_command (le_now link) who (ag_id ag) (ac_id c2) (Some ''WebSocket delivery failed'') db2 of
                          (Inl e, db3) \<Rightarrow> failed e (w\<lparr>sw_app := app\<lparr>ap_link := db3, ap_manager := m\<rparr>\<rparr>)
                        | (Inr _, db3) \<Rightarrow>
                            (Some (res\<lparr>so_execution_status := OUT_FAILED,
                                       so_execution_reason := Some AGENT_WS_DELIVERY_FAILED\<rparr>),
                             settle st ''BLOCKED_AGENT_OFFLINE'' ''FAILED''
                               (w\<lparr>sw_app := app\<lparr>ap_link := db3, ap_manager := m\<rparr>\<rparr>))))))"

text \<open>Gates 10 and 11 for a stored signal.\<close>

definition gate_stage ::
  "strategy_env \<Rightarrow> string \<Rightarrow> strategy_row \<Rightarrow> tick \<Rightarrow> instant \<Rightarrow> candidate_signal \<Rightarrow> strategy_result
     \<Rightarrow> strategy_world \<Rightarrow> strategy_result option \<times> strategy_world" where
  "gate_stage env acc st t candle sig res w =
     (case evaluate_risk_gate (sv_gate env) acc ''XAUUSD'' None None (sw_app w) of (g, app) \<Rightarrow>
        let dir = direction_name (cs_direction sig); dry = sy_dry_run st;
            res1 = res\<lparr>so_risk_decision := Some (go_decision g), so_risk_reason_code := Some (go_reason_code g)\<rparr>;
            st1 = st\<lparr>sy_last_signal_direction := Some dir, sy_last_signal_at := Some (sv_signal_now env),
                     sy_last_signal_candle_ts := Some candle, sy_last_signal_id := Some (sv_signal_id env),
                     sy_last_signal_reason := Some (cs_market_state_summary sig),
                     sy_last_risk_decision := Some (go_decision g),
                     sy_last_risk_reason_code := Some (go_reason_code g)\<rparr>;
            w1 = strategy_audit acc
                   (STRATEGY_SIGNAL_EVALUATED (sv_signal_id env) dir candle (go_decision g) (go_reason_code g) dry)
                   (put_state st1 (w\<lparr>sw_app := app\<rparr>))
        in if go_decision g \<noteq> ALLOW
           then (Some (res1\<lparr>so_execution_status := OUT_BLOCKED,
                            so_execution_reason := Some (GATE_REFUSED (go_reason_code g))\<rparr>),
                 settle st1 (''BLOCKED_'' @ gate_reason_text (go_reason_code g)) ''BLOCKED'' w1)
           else if dry
           then (Some (res1\<lparr>so_execution_status := OUT_DRY_RUN, so_execution_reason := Some DRY_RUN_MODE_ACTIVE\<rparr>),
                 settle st1 ''DRY_RUN'' ''DRY_RUN'' w1)
           else case first_agent acc (ap_link app) of
                  Some ag \<Rightarrow>
                    if agent_connected acc app then dispatch_order env acc ag st1 t sig res1 w1
                    else (Some (res1\<lparr>so_execution_status := OUT_BLOCKED,
                                     so_execution_reason := Some NO_AGENT_CONNECTION\<rparr>),
                          settle st1 ''BLOCKED_AGENT_OFFLINE'' ''BLOCKED'' w1)
                | None \<Rightarrow> (Some (res1\<lparr>so_execution_status := OUT_BLOCKED,
                                     so_execution_reason := Some NO_AGENT_CONNECTION\<rparr>),
                          settle st1 ''BLOCKED_AGENT_OFFLINE'' ''BLOCKED'' w1))"

text \<open>Gates 8 and 9 for a new candle.\<close>

definition brain_stage ::
  "strategy_env \<Rightarrow> string \<Rightarrow> strategy_row \<Rightarrow> tick \<Rightarrow> bar list \<Rightarrow> strategy_world
     \<Rightarrow> (cycle_error + strategy_result) \<times> strategy_world" where
  "brain_stage env acc st t bars w =
     (let candle = br_open_time (last bars); res = (skipped (sy_dry_run st))\<lparr>so_candle_ts := Some candle\<rparr>
      in if in_cooldown st candle
         then (Inr (res\<lparr>so_execution_reason := Some CANDLE_COOLDOWN,
                        so_signal_reason := Some SAME_CANDLE_ALREADY_PROCESSED\<rparr>), w)
         else case process_signal default_strat_config (sv_brain_now env) (sv_fresh_correlation env) t bars
                     ''CLEAR'' None of
           Inl e \<Rightarrow> (Inl (PyError e), w)
         | Inr sig \<Rightarrow>
             let res1 = res\<lparr>so_signal_direction := direction_name (cs_direction sig),
                            so_signal_reason := Some (Summary (cs_market_state_summary sig))\<rparr>
             in if cs_direction sig = NO_DIRECTION \<or> \<not> cs_is_configured sig
                then (Inr (res1\<lparr>so_execution_status := NO_SIGNAL\<rparr>),
                      put_state (st\<lparr>sy_last_signal_direction := Some ''NONE'',
                                    sy_last_signal_at := Some (sv_signal_now env),
                                    sy_last_signal_candle_ts := Some candle,
                                    sy_last_signal_reason := Some (cs_market_state_summary sig)\<rparr>) w)
                else case gate_stage env acc st t candle sig (res1\<lparr>so_signal_id := Some (sv_signal_id env)\<rparr>)
                            (update_trade (store_signal (strategy_signal env acc t sig)) w) of
                       (Some r, w') \<Rightarrow> (Inr r, w')
                     | (None, w') \<Rightarrow> (Inl (DbError IntegrityError), w'))"

definition evaluate_strategy_for_account ::
  "strategy_env \<Rightarrow> string \<Rightarrow> strategy_world \<Rightarrow> (cycle_error + strategy_result) \<times> strategy_world" where
  "evaluate_strategy_for_account env acc w =
     (case get_or_create_strategy_state acc w of (st, w0) \<Rightarrow>
        case admission env acc st w0 of
          (Inl r, w1) \<Rightarrow> (Inr r, w1)
        | (Inr t, w1) \<Rightarrow>
            (case ready_bars env acc t (ap_market (sw_app w1)) of (bars, mk) \<Rightarrow>
               let w2 = w1\<lparr>sw_app := (sw_app w1)\<lparr>ap_market := mk\<rparr>\<rparr>
               in case bars of
                    Inl e \<Rightarrow> (Inl (PyError e), w2)
                  | Inr (Inl reason) \<Rightarrow> (Inr (skipped_for (sy_dry_run st) reason), w2)
                  | Inr (Inr bs) \<Rightarrow> brain_stage env acc st t bs w2))"

text \<open>
  The session around an evaluation: commit, or roll the tables back to the start.
\<close>

definition rolled_back :: "strategy_world \<Rightarrow> strategy_world \<Rightarrow> strategy_world" where
  "rolled_back w w' =
     w\<lparr>sw_app := (sw_app w)\<lparr>ap_market := ap_market (sw_app w'), ap_manager := ap_manager (sw_app w')\<rparr>\<rparr>"

definition strategy_transaction ::
  "strategy_env \<Rightarrow> string \<Rightarrow> strategy_world \<Rightarrow> (cycle_error + strategy_result) \<times> strategy_world" where
  "strategy_transaction env acc w =
     (case evaluate_strategy_for_account env acc w of
        (Inl e, w') \<Rightarrow> (Inl e, rolled_back w w')
      | (Inr r, w') \<Rightarrow> (Inr r, w'))"

text \<open>One tick of the worker: the accounts enabled at its start, each in a session of its own.\<close>

definition worker_tick :: "(string \<Rightarrow> strategy_env) \<Rightarrow> strategy_world \<Rightarrow> strategy_world" where
  "worker_tick envs w =
     foldl (\<lambda>w acc. snd (strategy_transaction (envs acc) acc w)) w
       (map sy_account_id (filter sy_enabled (sw_states w)))"

record worker_settings =
  ws_is_test :: bool
  ws_pytest :: bool
  ws_enabled :: bool

text \<open>The worker's task: \<open>None\<close>, or whether it is done.  \<open>True\<close> in the result is a created task.\<close>

definition start_worker :: "worker_settings \<Rightarrow> bool option \<Rightarrow> bool \<times> bool option" where
  "start_worker s task =
     (if ws_is_test s \<or> ws_pytest s then (False, task)
      else if \<not> ws_enabled s then (False, task)
      else if task = Some False then (False, task)
      else (True, Some False))"

text \<open>Whether a running task is cancelled, and the task afterwards.\<close>

definition stop_worker :: "bool option \<Rightarrow> bool \<times> bool option" where
  "stop_worker task = (task = Some False, None)"

definition clear_bar_managers :: "strategy_world \<Rightarrow> strategy_world" where
  "clear_bar_managers w =
     w\<lparr>sw_app := (sw_app w)\<lparr>ap_market := (ap_market (sw_app w))\<lparr>ms_managers := []\<rparr>\<rparr>\<rparr>"

subsection \<open>Control rows\<close>

lemma put_state_simps [simp]:
  "sw_app (put_state r w) = sw_app w" "sw_audit (put_state r w) = sw_audit w"
  by (simp_all add: put_state_def)

lemma strategy_audit_simps [simp]:
  "sw_app (strategy_audit acc ev w) = sw_app w" "sw_states (strategy_audit acc ev w) = sw_states w"
  "sw_audit (strategy_audit acc ev w) = sw_audit w @ [(acc, ev)]"
  by (simp_all add: strategy_audit_def)

lemma update_trade_simps [simp]:
  "sw_states (update_trade f w) = sw_states w" "sw_audit (update_trade f w) = sw_audit w"
  "ap_link (sw_app (update_trade f w)) = ap_link (sw_app w)"
  "ap_manager (sw_app (update_trade f w)) = ap_manager (sw_app w)"
  by (simp_all add: update_trade_def)

lemma strategy_state_cong: "sw_states w' = sw_states w \<Longrightarrow> strategy_state acc w' = strategy_state acc w"
  by (simp add: strategy_state_def)

lemma strategy_state_account: "strategy_state acc w = Some r \<Longrightarrow> sy_account_id r = acc"
  by (auto simp: strategy_state_def find_Some_iff)

lemma strategy_state_put:
  "strategy_state acc (put_state r w) =
     (if acc = sy_account_id r \<and> strategy_state acc w \<noteq> None then Some r else strategy_state acc w)"
proof -
  have "find (\<lambda>r. sy_account_id r = acc) (map (\<lambda>x. if sy_account_id x = sy_account_id r then r else x) xs) =
      (if acc = sy_account_id r \<and> find (\<lambda>r. sy_account_id r = acc) xs \<noteq> None then Some r
       else find (\<lambda>r. sy_account_id r = acc) xs)" for xs
    by (induction xs) auto
  then show ?thesis by (cases "acc = sy_account_id r") (simp_all add: strategy_state_def put_state_def)
qed

lemma default_account [simp]: "sy_account_id (default_strategy_row acc) = acc"
  by (simp add: default_strategy_row_def)

lemma find_snoc: "find P (xs @ [x]) = (case find P xs of Some y \<Rightarrow> Some y | None \<Rightarrow> if P x then Some x else None)"
  by (induction xs) auto

lemma get_or_create:
  assumes "get_or_create_strategy_state acc w = (st, w')"
  shows "strategy_state acc w' = Some st \<and> (\<forall>b. b \<noteq> acc \<longrightarrow> strategy_state b w' = strategy_state b w)
    \<and> (strategy_state acc w = Some st \<or> strategy_state acc w = None \<and> st = default_strategy_row acc)
    \<and> sw_app w' = sw_app w \<and> sw_audit w' = sw_audit w \<and> sy_account_id st = acc"
proof (cases "strategy_state acc w")
  case None
  then show ?thesis
    using assms by (auto simp: get_or_create_strategy_state_def strategy_state_def find_snoc split: option.splits)
next
  case (Some r)
  then show ?thesis
    using assms strategy_state_account [OF Some] by (auto simp: get_or_create_strategy_state_def)
qed

subsection \<open>One signal per candle\<close>

definition last_candle :: "string \<Rightarrow> strategy_world \<Rightarrow> instant option" where
  "last_candle acc w = Option.bind (strategy_state acc w) sy_last_signal_candle_ts"

fun evaluated_candle :: "string \<Rightarrow> string \<times> strategy_event \<Rightarrow> instant option" where
  "evaluated_candle acc (a, STRATEGY_SIGNAL_EVALUATED _ _ c _ _ _) = (if a = acc then Some c else None)"
| "evaluated_candle acc _ = None"

text \<open>The candles of the signals that were evaluated for an account, in order.\<close>

definition candles :: "string \<Rightarrow> strategy_world \<Rightarrow> instant list" where
  "candles acc w = List.map_filter (evaluated_candle acc) (sw_audit w)"

definition later :: "instant option \<Rightarrow> instant \<Rightarrow> bool" where
  "later k c \<longleftrightarrow> (case k of Some x \<Rightarrow> x < c | None \<Rightarrow> True)"

definition candle_step :: "string \<Rightarrow> strategy_world \<Rightarrow> strategy_world \<Rightarrow> bool" where
  "candle_step acc w w' \<longleftrightarrow>
     (\<forall>b. b \<noteq> acc \<longrightarrow> last_candle b w' = last_candle b w \<and> candles b w' = candles b w)
     \<and> (candles acc w' = candles acc w \<and>
          (last_candle acc w' = last_candle acc w \<or>
           (\<exists>c. last_candle acc w' = Some c \<and> later (last_candle acc w) c))
        \<or> (\<exists>c. candles acc w' = candles acc w @ [c] \<and> last_candle acc w' = Some c
               \<and> later (last_candle acc w) c))"

definition candles_inv :: "strategy_world \<Rightarrow> bool" where
  "candles_inv w \<longleftrightarrow>
     (\<forall>acc. sorted_wrt (<) (candles acc w) \<and>
            (\<forall>c \<in> set (candles acc w). \<exists>k. last_candle acc w = Some k \<and> c \<le> k))"

lemma candles_cong: "sw_audit w' = sw_audit w \<Longrightarrow> candles acc w' = candles acc w"
  by (simp add: candles_def)

lemma candles_audit [simp]:
  "candles acc (strategy_audit a ev w) =
     candles acc w @ (case evaluated_candle acc (a, ev) of None \<Rightarrow> [] | Some c \<Rightarrow> [c])"
  by (simp add: candles_def map_filter_app) (simp add: map_filter_simps split: option.splits)

lemma last_candle_cong: "sw_states w' = sw_states w \<Longrightarrow> last_candle acc w' = last_candle acc w"
  by (simp add: last_candle_def strategy_state_def)

lemma last_candle_put:
  assumes "strategy_state (sy_account_id r) w \<noteq> None"
  shows "last_candle b (put_state r w) =
    (if b = sy_account_id r then sy_last_signal_candle_ts r else last_candle b w)"
  using assms by (auto simp: last_candle_def strategy_state_put)

lemma candle_step_same:
  assumes "\<And>b. last_candle b w' = last_candle b w" "\<And>b. candles b w' = candles b w"
  shows "candle_step acc w w'"
  using assms by (simp add: candle_step_def)

lemma candle_step_refl: "candle_step acc w w"
  by (rule candle_step_same) simp_all

lemma candle_step_left:
  assumes "candle_step acc w w'" "\<And>b. last_candle b w = last_candle b v" "\<And>b. candles b w = candles b v"
  shows "candle_step acc v w'"
  using assms by (simp add: candle_step_def)

lemma candles_inv_step:
  assumes "candles_inv w" "candle_step acc w w'"
  shows "candles_inv w'"
  unfolding candles_inv_def
proof (intro allI conjI)
  fix b
  have b: "sorted_wrt (<) (candles b w)" "\<forall>c \<in> set (candles b w). \<exists>k. last_candle b w = Some k \<and> c \<le> k"
    using assms(1) by (simp_all add: candles_inv_def)
  have "x < c" if "x \<in> set (candles b w)" "later (last_candle b w) c" for x c
    using b(2) that by (fastforce simp: later_def)
  then show "sorted_wrt (<) (candles b w')"
    using assms(2) b(1) by (cases "b = acc") (auto simp: candle_step_def sorted_wrt_append)
  show "\<forall>c \<in> set (candles b w'). \<exists>k. last_candle b w' = Some k \<and> c \<le> k"
    using assms(2) b by (cases "b = acc") (fastforce simp: candle_step_def later_def)+
qed

lemma settle_simps [simp]:
  "sw_audit (settle st a b w) = sw_audit w"
  "ap_link (sw_app (settle st a b w)) = ap_link (sw_app w)"
  "ap_manager (sw_app (settle st a b w)) = ap_manager (sw_app w)"
  by (simp_all add: settle_def)

text \<open>The row a stage holds is the stored one; writing it back moves no candle.\<close>

definition holds_row :: "string \<Rightarrow> strategy_row \<Rightarrow> strategy_world \<Rightarrow> bool" where
  "holds_row acc st w \<longleftrightarrow> sy_account_id st = acc \<and> strategy_state acc w \<noteq> None
     \<and> last_candle acc w = sy_last_signal_candle_ts st"

lemma holds_row_cong: "sw_states w' = sw_states w \<Longrightarrow> holds_row acc st w' = holds_row acc st w"
  by (simp add: holds_row_def last_candle_def strategy_state_def)

lemma holds_row_stored: "strategy_state acc w = Some st \<Longrightarrow> holds_row acc st w"
  using strategy_state_account by (auto simp: holds_row_def last_candle_def)

lemma put_keeps_candle:
  assumes "holds_row acc st w" "sy_account_id st' = acc" "sy_last_signal_candle_ts st' = sy_last_signal_candle_ts st"
  shows "last_candle b (put_state st' w) = last_candle b w"
  using assms by (auto simp: holds_row_def last_candle_put)

lemma settle_keeps_candle:
  assumes "holds_row acc st w" shows "last_candle b (settle st x y w) = last_candle b w"
proof -
  let ?w = "update_trade (set_status x) w"
  have "sy_account_id (st\<lparr>sy_last_execution_status := Some y\<rparr>) = acc"
    using assms by (simp add: holds_row_def)
  moreover have "holds_row acc st ?w" using assms holds_row_cong [of ?w w] by simp
  ultimately have "last_candle b (settle st x y w) = last_candle b ?w"
    unfolding settle_def by (intro put_keeps_candle) simp_all
  also have "\<dots> = last_candle b w" by (rule last_candle_cong) simp
  finally show ?thesis .
qed

lemma dispatch_keeps_candle:
  assumes "holds_row acc st w" "dispatch_order env acc ag st t sig res w = (x, w')"
  shows "last_candle b w' = last_candle b w" "sw_audit w' = sw_audit w"
proof -
  have *: "last_candle b (settle st p q (w\<lparr>sw_app := a\<rparr>)) = last_candle b w" for p q a
  proof -
    have "holds_row acc st (w\<lparr>sw_app := a\<rparr>)" using assms(1) holds_row_cong [of "w\<lparr>sw_app := a\<rparr>" w] by simp
    then show ?thesis by (simp add: settle_keeps_candle last_candle_cong [of "w\<lparr>sw_app := a\<rparr>" w])
  qed
  have "last_candle b w' = last_candle b w \<and> sw_audit w' = sw_audit w"
    using assms(2) settle_keeps_candle [OF assms(1)]
    by (auto simp: dispatch_order_def Let_def * split: sum.splits prod.splits command_error.splits bool.splits)
  then show "last_candle b w' = last_candle b w" "sw_audit w' = sw_audit w" by simp_all
qed

lemma gate_stage_step:
  assumes "holds_row acc st w" "later (last_candle acc w) candle"
    and "gate_stage env acc st t candle sig res w = (x, w')"
  shows "candle_step acc w w'"
proof -
  obtain g app where g: "evaluate_risk_gate (sv_gate env) acc ''XAUUSD'' None None (sw_app w) = (g, app)"
    by (cases "evaluate_risk_gate (sv_gate env) acc ''XAUUSD'' None None (sw_app w)")
  define st1 where "st1 = st\<lparr>sy_last_signal_direction := Some (direction_name (cs_direction sig)),
    sy_last_signal_at := Some (sv_signal_now env), sy_last_signal_candle_ts := Some candle,
    sy_last_signal_id := Some (sv_signal_id env), sy_last_signal_reason := Some (cs_market_state_summary sig),
    sy_last_risk_decision := Some (go_decision g), sy_last_risk_reason_code := Some (go_reason_code g)\<rparr>"
  define w1 where "w1 = strategy_audit acc (STRATEGY_SIGNAL_EVALUATED (sv_signal_id env)
    (direction_name (cs_direction sig)) candle (go_decision g) (go_reason_code g) (sy_dry_run st))
    (put_state st1 (w\<lparr>sw_app := app\<rparr>))"
  have st1: "sy_account_id st1 = acc" "sy_last_signal_candle_ts st1 = Some candle"
    using assms(1) by (simp_all add: st1_def holds_row_def)
  have "strategy_state acc (w\<lparr>sw_app := app\<rparr>) \<noteq> None"
    using assms(1) by (simp add: holds_row_def strategy_state_def)
  then have last: "last_candle b w1 = (if b = acc then Some candle else last_candle b w)" for b
    using last_candle_put [of st1 "w\<lparr>sw_app := app\<rparr>" b] last_candle_cong [of "w\<lparr>sw_app := app\<rparr>" w b]
    by (simp add: w1_def st1 last_candle_cong [of "strategy_audit _ _ _" "put_state st1 (w\<lparr>sw_app := app\<rparr>)"])
  have cs: "candles b w1 = candles b w @ (if b = acc then [candle] else [])" for b
    by (simp add: w1_def candles_def put_state_def strategy_audit_def map_filter_app map_filter_simps)
  have w1: "candle_step acc w w1" using assms(2) by (simp add: candle_step_def last cs)
  have row: "holds_row acc st1 w1"
    using st1 last [of acc] by (cases "strategy_state acc w1") (auto simp: holds_row_def last_candle_def)
  have "(\<forall>b. last_candle b w' = last_candle b w1) \<and> sw_audit w' = sw_audit w1"
    using assms(3) dispatch_keeps_candle [OF row] settle_keeps_candle [OF row]
    unfolding gate_stage_def g Let_def st1_def [symmetric] w1_def [symmetric] prod.case
    by (auto split: if_splits option.splits)
  then show ?thesis using w1 by (auto simp: candle_step_def candles_def)
qed

lemma not_in_cooldown: "holds_row acc st w \<Longrightarrow> \<not> in_cooldown st c \<Longrightarrow> later (last_candle acc w) c"
  by (auto simp: holds_row_def in_cooldown_def later_def split: option.splits)

lemma brain_stage_step:
  assumes "holds_row acc st w" "brain_stage env acc st t bars w = (x, w')"
  shows "candle_step acc w w'"
proof (cases "in_cooldown st (br_open_time (last bars))")
  case True
  then show ?thesis using assms(2) by (auto simp: brain_stage_def Let_def candle_step_refl)
next
  case False
  let ?c = "br_open_time (last bars)"
  have later: "later (last_candle acc w) ?c" by (rule not_in_cooldown [OF assms(1) False])
  obtain sig where sig: "process_signal default_strat_config (sv_brain_now env) (sv_fresh_correlation env) t bars
      ''CLEAR'' None = Inr sig"
    using process_signal_total by blast
  show ?thesis
  proof (cases "cs_direction sig = NO_DIRECTION \<or> \<not> cs_is_configured sig")
    case True
    then have w': "w' = put_state (st\<lparr>sy_last_signal_direction := Some ''NONE'',
        sy_last_signal_at := Some (sv_signal_now env), sy_last_signal_candle_ts := Some ?c,
        sy_last_signal_reason := Some (cs_market_state_summary sig)\<rparr>) w"
      using assms(2) False sig by (simp add: brain_stage_def Let_def)
    have "last_candle b w' = (if b = acc then Some ?c else last_candle b w)" "candles b w' = candles b w" for b
      unfolding w' using assms(1) by (simp_all add: holds_row_def last_candle_put candles_def)
    then show ?thesis using later by (simp add: candle_step_def)
  next
    case directional: False
    let ?w = "update_trade (store_signal (strategy_signal env acc t sig)) w"
    obtain y res where y: "gate_stage env acc st t ?c sig res ?w = (y, w')"
      using assms(2) False sig directional
      by (auto simp: brain_stage_def Let_def split: option.splits prod.splits)
    have last: "last_candle b ?w = last_candle b w" for b by (rule last_candle_cong) simp
    have "candles b ?w = candles b w" for b by (rule candles_cong) simp
    moreover have "holds_row acc st ?w" using assms(1) holds_row_cong [of ?w w] by simp
    then have "candle_step acc ?w w'" by (rule gate_stage_step [OF _ _ y]) (simp add: last later)
    ultimately show ?thesis using last by (intro candle_step_left [of acc ?w w' w])
  qed
qed

lemma admission_candle:
  assumes "strategy_state acc w = Some st" "admission env acc st w = (x, w')"
  shows "last_candle b w' = last_candle b w" "sw_audit w' = sw_audit w" "x = Inr t \<Longrightarrow> sw_states w' = sw_states w"
proof -
  have row: "holds_row acc st (w\<lparr>sw_app := a\<rparr>)" for a
    using holds_row_stored [OF assms(1)] holds_row_cong [of "w\<lparr>sw_app := a\<rparr>" w] by simp
  have app: "last_candle b (w\<lparr>sw_app := a\<rparr>) = last_candle b w" for a by (rule last_candle_cong) simp
  have "last_candle b w' = last_candle b w \<and> sw_audit w' = sw_audit w \<and> (x = Inr t \<longrightarrow> sw_states w' = sw_states w)"
    using assms(2) put_keeps_candle [OF row] put_keeps_candle [OF holds_row_stored [OF assms(1)]]
      strategy_state_account [OF assms(1)]
    unfolding admission_def Let_def
    by (auto simp: app split: if_splits option.splits prod.splits)
  then show "last_candle b w' = last_candle b w" "sw_audit w' = sw_audit w" "x = Inr t \<Longrightarrow> sw_states w' = sw_states w"
    by simp_all
qed

lemma created_candles:
  assumes "get_or_create_strategy_state acc w = (st, w0)"
  shows "last_candle b w0 = last_candle b w" "candles b w0 = candles b w"
proof -
  note row = get_or_create [OF assms]
  have fresh: "sy_last_signal_candle_ts (default_strategy_row acc) = None" by (simp add: default_strategy_row_def)
  show "last_candle b w0 = last_candle b w"
  proof (cases "b = acc")
    case True
    from row have "strategy_state acc w0 = Some st"
      "strategy_state acc w = Some st \<or> strategy_state acc w = None \<and> st = default_strategy_row acc" by blast+
    then show ?thesis unfolding True last_candle_def by (elim disjE conjE) (simp_all add: fresh)
  next
    case False
    with row have "strategy_state b w0 = strategy_state b w" by blast
    then show ?thesis by (simp add: last_candle_def)
  qed
  from row have "sw_audit w0 = sw_audit w" by blast
  then show "candles b w0 = candles b w" by (rule candles_cong)
qed

lemma evaluate_step:
  assumes "evaluate_strategy_for_account env acc w = (x, w')"
  shows "candle_step acc w w'"
proof -
  obtain st w0 where g: "get_or_create_strategy_state acc w = (st, w0)"
    by (cases "get_or_create_strategy_state acc w")
  note row = get_or_create [OF g]
  note w0 = created_candles [OF g]
  obtain y w1 where a: "admission env acc st w0 = (y, w1)" by (cases "admission env acc st w0")
  have stored: "strategy_state acc w0 = Some st" using row by simp
  have w1: "last_candle b w1 = last_candle b w" "candles b w1 = candles b w" for b
    using admission_candle [OF stored a] w0 by (simp_all add: candles_def)
  have "candle_step acc w1 w'"
  proof (cases y)
    case (Inl r)
    then have "w' = w1" using assms by (simp add: evaluate_strategy_for_account_def g a)
    then show ?thesis by (simp add: candle_step_refl)
  next
    case (Inr t)
    obtain bars mk where b: "ready_bars env acc t (ap_market (sw_app w1)) = (bars, mk)"
      by (cases "ready_bars env acc t (ap_market (sw_app w1))")
    define w2 where "w2 = w1\<lparr>sw_app := (sw_app w1)\<lparr>ap_market := mk\<rparr>\<rparr>"
    have st: "sw_states w2 = sw_states w0"
      using admission_candle(3) [OF stored a Inr] by (simp add: w2_def)
    then have held: "holds_row acc st w2"
      using holds_row_stored [OF stored] holds_row_cong [of w2 w0] by simp
    have "candle_step acc w2 w'"
    proof (cases "\<exists>bs. bars = Inr (Inr bs)")
      case True
      then obtain bs where "brain_stage env acc st t bs w2 = (x, w')"
        using assms by (auto simp: evaluate_strategy_for_account_def g a Inr b w2_def)
      then show ?thesis by (rule brain_stage_step [OF held])
    next
      case False
      then have "w' = w2"
        using assms by (auto simp: evaluate_strategy_for_account_def g a Inr b w2_def Let_def split: sum.splits)
      then show ?thesis by (simp add: candle_step_refl)
    qed
    then show ?thesis
      by (rule candle_step_left) (simp_all add: w2_def last_candle_def strategy_state_def candles_def)
  qed
  then show ?thesis by (rule candle_step_left) (simp_all add: w1)
qed

lemma transaction_step:
  assumes "strategy_transaction env acc w = (x, w')" shows "candle_step acc w w'"
proof (cases "evaluate_strategy_for_account env acc w")
  case (Pair y v)
  show ?thesis
  proof (cases y)
    case (Inl e)
    then have "w' = rolled_back w v" using assms Pair by (simp add: strategy_transaction_def)
    then show ?thesis
      by (simp add: candle_step_same rolled_back_def last_candle_def strategy_state_def candles_def)
  next
    case (Inr r)
    then show ?thesis using assms evaluate_step [OF Pair] Pair by (simp add: strategy_transaction_def)
  qed
qed

lemma control_step:
  "candle_step acc w (enable_strategy acc dry w)" "candle_step acc w (disable_strategy acc w)"
proof -
  obtain st w0 where g: "get_or_create_strategy_state acc w = (st, w0)"
    by (cases "get_or_create_strategy_state acc w")
  note row = get_or_create [OF g]
  note w0 = created_candles [OF g]
  have held: "holds_row acc st w0" using row by (intro holds_row_stored) simp
  have *: "candle_step acc w (strategy_audit acc ev (put_state st' w0))"
    if "sy_account_id st' = acc" "sy_last_signal_candle_ts st' = sy_last_signal_candle_ts st"
      "\<And>b. evaluated_candle b (acc, ev) = None" for st' ev
  proof (rule candle_step_same)
    fix b
    show "last_candle b (strategy_audit acc ev (put_state st' w0)) = last_candle b w"
      using put_keeps_candle [OF held that(1,2), of b] w0(1) [of b] by (simp add: last_candle_cong [of "strategy_audit _ _ _" "put_state st' w0"])
    show "candles b (strategy_audit acc ev (put_state st' w0)) = candles b w"
      using w0(2) [of b] that(3) by (simp add: candles_cong [of "put_state st' w0" w0])
  qed
  show "candle_step acc w (enable_strategy acc dry w)" "candle_step acc w (disable_strategy acc w)"
    using row by (simp_all add: enable_strategy_def disable_strategy_def g *)
qed

text \<open>A run of the operations; anything else in the program may change the rest of the state in between.\<close>

datatype strategy_op =
    Op_enable string bool
  | Op_disable string
  | Op_evaluate string strategy_env
  | Op_worker "string \<Rightarrow> strategy_env"
  | Op_others app_state

fun strategy_step :: "strategy_op \<Rightarrow> strategy_world \<Rightarrow> strategy_world" where
  "strategy_step (Op_enable acc dry) w = enable_strategy acc dry w"
| "strategy_step (Op_disable acc) w = disable_strategy acc w"
| "strategy_step (Op_evaluate acc env) w = snd (strategy_transaction env acc w)"
| "strategy_step (Op_worker envs) w = worker_tick envs w"
| "strategy_step (Op_others app) w = w\<lparr>sw_app := app\<rparr>"

definition run_strategy :: "strategy_op list \<Rightarrow> strategy_world \<Rightarrow> strategy_world" where
  "run_strategy ops w = foldl (\<lambda>w op. strategy_step op w) w ops"

definition new_world :: "app_state \<Rightarrow> strategy_world" where
  "new_world app = \<lparr>sw_app = app, sw_states = [], sw_audit = []\<rparr>"

lemma transactions_inv:
  "candles_inv w \<Longrightarrow> candles_inv (foldl (\<lambda>w acc. snd (strategy_transaction (envs acc) acc w)) w accs)"
proof (induction accs arbitrary: w)
  case (Cons acc accs)
  have "candles_inv (snd (strategy_transaction (envs acc) acc w))"
    by (rule candles_inv_step [OF Cons.prems]) (rule transaction_step, rule prod.collapse [symmetric])
  then show ?case using Cons.IH by simp
qed simp

lemma strategy_step_inv: "candles_inv w \<Longrightarrow> candles_inv (strategy_step op w)"
proof (cases op)
  case (Op_evaluate acc env)
  assume "candles_inv w"
  then have "candles_inv (snd (strategy_transaction env acc w))"
    by (rule candles_inv_step) (rule transaction_step, rule prod.collapse [symmetric])
  then show ?thesis by (simp add: Op_evaluate)
next
  case (Op_others app)
  assume "candles_inv w"
  then show ?thesis by (simp add: Op_others candles_inv_def last_candle_def strategy_state_def candles_def)
qed (auto intro: candles_inv_step control_step transactions_inv simp: worker_tick_def)

lemma run_strategy_inv: "candles_inv w \<Longrightarrow> candles_inv (run_strategy ops w)"
  unfolding run_strategy_def by (induction ops arbitrary: w) (simp_all add: strategy_step_inv)

text \<open>
  C24: Through any run of enabling, disabling, manual evaluations and worker ticks, with anything
  happening to the rest of the program in between, the candles for which a signal of an account was
  evaluated are strictly increasing: no candle produces two signals.
\<close>

theorem one_signal_per_candle:
  "sorted_wrt (<) (candles acc (run_strategy ops (new_world app)))"
proof -
  have "candles_inv (new_world app)" by (simp add: candles_inv_def new_world_def candles_def map_filter_simps)
  then have "candles_inv (run_strategy ops (new_world app))" by (rule run_strategy_inv)
  then show ?thesis by (simp add: candles_inv_def)
qed

subsection \<open>Orders\<close>

text \<open>
  Everything that holds when an evaluation hands an order to an agent, for the state before it.
\<close>

definition cleared :: "strategy_env \<Rightarrow> string \<Rightarrow> strategy_world \<Rightarrow> candidate_signal \<Rightarrow> agent_row \<Rightarrow> tick \<Rightarrow> bool" where
  "cleared env acc w sig ag t \<longleftrightarrow>
     (\<exists>st a e app bars mk.
        strategy_state acc w = Some st \<and> sy_enabled st \<and> \<not> sy_dry_run st
        \<and> active_account acc (ap_accounts (sw_app w)) = Some a \<and> (is_confirmed_demo a \<or> ta_trading_enabled a)
        \<and> latest_tick env acc (sw_app w) = (Some e, app) \<and> t = strategy_tick env e
        \<and> max 0 (age_ms (sv_freshness_now env - te_received_at e)) \<le> 5000
        \<and> \<not> has_open_position acc (sw_app w)
        \<and> ready_bars env acc t (ap_market app) = (Inr (Inr bars), mk) \<and> 50 \<le> length bars
        \<and> later (sy_last_signal_candle_ts st) (br_open_time (last bars))
        \<and> process_signal default_strat_config (sv_brain_now env) (sv_fresh_correlation env) t bars ''CLEAR'' None
            = Inr sig
        \<and> cs_direction sig \<noteq> NO_DIRECTION \<and> cs_is_configured sig
        \<and> go_decision (fst (evaluate_risk_gate (sv_gate env) acc ''XAUUSD'' None None
            ((sw_app w)\<lparr>ap_market := mk, ap_trade := store_signal (strategy_signal env acc t sig) (ap_trade (sw_app w))\<rparr>)))
            = ALLOW
        \<and> first_agent acc (ap_link (sw_app w)) = Some ag
        \<and> am_is_connected (ag_id ag) (ap_manager (sw_app w)))"

text \<open>What an evaluation does to the commands and the sockets.\<close>

definition no_order :: "strategy_world \<Rightarrow> strategy_world \<Rightarrow> bool" where
  "no_order w w' \<longleftrightarrow> ap_link (sw_app w') = ap_link (sw_app w) \<and> ap_manager (sw_app w') = ap_manager (sw_app w)"

definition one_order ::
  "strategy_env \<Rightarrow> strategy_world \<Rightarrow> candidate_signal \<Rightarrow> agent_row \<Rightarrow> tick \<Rightarrow> strategy_world \<Rightarrow> bool" where
  "one_order env w sig ag t w' \<longleftrightarrow>
     (\<exists>c. ld_commands (ap_link (sw_app w')) = ld_commands (ap_link (sw_app w)) @ [c]
        \<and> ac_agent_id c = ag_id ag \<and> ac_command_type c = ''OPEN_POSITION''
        \<and> (ac_status c = AC_SENT
             \<and> (\<exists>ws. map_of (am_active (ap_manager (sw_app w))) (ag_id ag) = Some ws
                   \<and> am_log (ap_manager (sw_app w')) = am_log (ap_manager (sw_app w))
                       @ [(ws, COMMAND (ac_id c) ''OPEN_POSITION'' (Some (order_payload env t sig)))])
           \<or> ac_status c = AC_FAILED \<and> am_log (ap_manager (sw_app w')) = am_log (ap_manager (sw_app w))))"

lemma no_order_refl [simp]: "no_order w w"
  by (simp add: no_order_def)

lemma no_order_put [simp]:
  "no_order w (put_state r w') = no_order w w'" "no_order w (settle st a b w') = no_order w w'"
  "no_order w (strategy_audit acc ev w') = no_order w w'" "no_order w (update_trade f w') = no_order w w'"
  by (simp_all add: no_order_def)

lemma no_order_market: "no_order w w' \<Longrightarrow> sw_app v = (sw_app w')\<lparr>ap_market := mk\<rparr> \<Longrightarrow> no_order w v"
  by (simp add: no_order_def)

text \<open>A created command can be marked as sent, and then as failed.\<close>

lemma created_command:
  assumes "create_command j cid now who ag ty payload db = (Inr c, db1)"
  shows "ac_id c = cid" "ac_agent_id c = ag" "ac_command_type c = map ascii_upper ty"
    "ld_commands db1 = ld_commands db @ [c]" "\<forall>x \<in> set (ld_commands db). ac_id x \<noteq> cid"
  using assms by (auto simp: create_command_def Let_def new_command_def add_link_audit_def split: if_splits sum.splits)

lemma last_command:
  assumes "ld_commands db = cs @ [c]" "\<forall>x \<in> set cs. ac_id x \<noteq> ac_id c"
  shows "get_command (ac_agent_id c) (ac_id c) db = Some c"
    "ac_id c' = ac_id c \<Longrightarrow> put_row c' (cs @ [c]) = cs @ [c']"
proof -
  have "find (\<lambda>x. ac_id x = ac_id c \<and> ac_agent_id x = ac_agent_id c) cs = None"
    using assms(2) by (auto simp: find_None_iff)
  then show "get_command (ac_agent_id c) (ac_id c) db = Some c"
    by (simp add: get_command_def assms(1) find_snoc)
  show "ac_id c' = ac_id c \<Longrightarrow> put_row c' (cs @ [c]) = cs @ [c']"
    using assms by (auto simp: put_row_def intro: map_idI)
qed

lemma sent_command_last:
  assumes "ld_commands db = cs @ [c]" "\<forall>x \<in> set cs. ac_id x \<noteq> ac_id c"
  obtains db' where "mark_sent now who (ac_agent_id c) (ac_id c) db = (Inr (mark_claimed now c), db')"
    "ld_commands db' = cs @ [mark_claimed now c]"
  using assms last_command(2) [OF assms, of "mark_claimed now c"] by (simp add: mark_sent_def last_command [OF assms])

lemma failed_command_last:
  assumes "ld_commands db = cs @ [c]" "\<forall>x \<in> set cs. ac_id x \<noteq> ac_id c" "ac_status c = AC_SENT"
  obtains c' db' where "fail_command now who (ac_agent_id c) (ac_id c) msg db = (Inr c', db')"
    "ld_commands db' = cs @ [c']" "ac_status c' = AC_FAILED" "ac_agent_id c' = ac_agent_id c"
    "ac_command_type c' = ac_command_type c"
  using assms by (auto simp: fail_command_def last_command [OF assms(1,2)] Let_def simp del: put_row_list)

lemma dispatch_outcome_cases:
  assumes "dispatch_order env acc ag st t sig res w = (x, w')"
  shows "no_order w w' \<or> one_order env w sig ag t w'"
proof (cases "create_command (le_codec (sv_link env)) (le_fresh (sv_link env)) (le_now (sv_link env)) (None, Some acc)
    (ag_id ag) ''OPEN_POSITION'' (Some (order_payload env t sig)) (ap_link (sw_app w))")
  case (Pair r db1)
  show ?thesis
  proof (cases r)
    case (Inl e)
    then show ?thesis using assms Pair by (cases e) (auto simp: dispatch_order_def Let_def)
  next
    case (Inr c)
    note created = created_command [OF Pair [unfolded Inr]]
    have ty: "ac_command_type c = ''OPEN_POSITION''" using created(3) by (simp add: ascii_upper_def)
    have fresh: "\<forall>x \<in> set (ld_commands (ap_link (sw_app w))). ac_id x \<noteq> ac_id c" using created by simp
    let ?now = "le_now (sv_link env)"
    obtain db2 where sent: "mark_sent ?now (None, Some acc) (ag_id ag) (ac_id c) db1 = (Inr (mark_claimed ?now c), db2)"
      and db2: "ld_commands db2 = ld_commands (ap_link (sw_app w)) @ [mark_claimed ?now c]"
      using sent_command_last [OF created(4) fresh] created(2) by metis
    obtain ok m where send: "am_send_json (sv_link env) (ag_id ag)
        (COMMAND (ac_id c) ''OPEN_POSITION'' (Some (order_payload env t sig))) (ap_manager (sw_app w)) = (ok, m)"
      by (cases "am_send_json (sv_link env) (ag_id ag)
        (COMMAND (ac_id c) ''OPEN_POSITION'' (Some (order_payload env t sig))) (ap_manager (sw_app w))")
    show ?thesis
    proof (cases ok)
      case True
      then have "ld_commands (ap_link (sw_app w')) = ld_commands (ap_link (sw_app w)) @ [mark_claimed ?now c]"
        "ap_manager (sw_app w') = m"
        using assms Pair Inr sent db2 send by (auto simp: dispatch_order_def Let_def)
      moreover from send True obtain ws where "map_of (am_active (ap_manager (sw_app w))) (ag_id ag) = Some ws"
        "am_log m = am_log (ap_manager (sw_app w)) @
           [(ws, COMMAND (ac_id c) ''OPEN_POSITION'' (Some (order_payload env t sig)))]"
        by (auto elim: send_json_cases)
      ultimately have "one_order env w sig ag t w'" using created(2) ty by (auto simp: one_order_def)
      then show ?thesis ..
    next
      case False
      obtain c' db3 where failed: "fail_command ?now (None, Some acc) (ag_id ag) (ac_id c)
            (Some ''WebSocket delivery failed'') db2 = (Inr c', db3)"
        "ld_commands db3 = ld_commands (ap_link (sw_app w)) @ [c']" "ac_status c' = AC_FAILED"
        "ac_agent_id c' = ag_id ag" "ac_command_type c' = ''OPEN_POSITION''"
        using failed_command_last [OF db2] fresh created(2) ty by (metis mark_claimed_simps)
      have "ld_commands (ap_link (sw_app w')) = ld_commands (ap_link (sw_app w)) @ [c']"
        "ap_manager (sw_app w') = m"
        using assms Pair Inr sent send False failed(1,2) by (auto simp: dispatch_order_def Let_def)
      moreover have "am_log m = am_log (ap_manager (sw_app w))"
        using send False by (auto elim: send_json_cases)
      ultimately show ?thesis using failed by (auto simp: one_order_def)
    qed
  qed
qed

lemma one_order_cong:
  "one_order env v sig ag t w' \<Longrightarrow> no_order w v \<Longrightarrow> one_order env w sig ag t w'"
  by (simp add: one_order_def no_order_def)

lemma no_order_trans: "no_order w v \<Longrightarrow> no_order v w' \<Longrightarrow> no_order w w'"
  by (simp add: no_order_def)

lemma gate_stage_orders:
  assumes "gate_stage env acc st t candle sig res w = (x, w')"
  shows "no_order w w' \<or>
    (go_decision (fst (evaluate_risk_gate (sv_gate env) acc ''XAUUSD'' None None (sw_app w))) = ALLOW
     \<and> \<not> sy_dry_run st
     \<and> (\<exists>ag. first_agent acc (ap_link (sw_app w)) = Some ag \<and> am_is_connected (ag_id ag) (ap_manager (sw_app w))
            \<and> one_order env w sig ag t w'))"
proof -
  obtain g app where g: "evaluate_risk_gate (sv_gate env) acc ''XAUUSD'' None None (sw_app w) = (g, app)"
    by (cases "evaluate_risk_gate (sv_gate env) acc ''XAUUSD'' None None (sw_app w)")
  obtain mk where app: "app = (sw_app w)\<lparr>ap_market := mk\<rparr>"
    using gate_only_caches [of "sv_gate env" acc "''XAUUSD''" None None "sw_app w"] unfolding g by auto
  have quiet: "no_order w (w\<lparr>sw_app := app\<rparr>)" by (simp add: no_order_def app)
  show ?thesis
  proof (cases "\<exists>ag. go_decision g = ALLOW \<and> \<not> sy_dry_run st \<and> first_agent acc (ap_link app) = Some ag
      \<and> agent_connected acc app")
    case True
    then obtain ag where ag: "go_decision g = ALLOW" "\<not> sy_dry_run st" "first_agent acc (ap_link app) = Some ag"
      "agent_connected acc app" by blast
    then obtain st1 res1 w1 where d: "dispatch_order env acc ag st1 t sig res1 w1 = (x, w')" "no_order w w1"
      using assms quiet unfolding gate_stage_def g Let_def by auto
    have "no_order w w' \<or> one_order env w sig ag t w'"
      using dispatch_outcome_cases [OF d(1)] d(2) by (auto intro: one_order_cong no_order_trans)
    moreover have "am_is_connected (ag_id ag) (ap_manager (sw_app w))"
      using ag(3,4) by (simp add: agent_connected_def app)
    ultimately show ?thesis using ag unfolding g by (auto simp: app)
  next
    case False
    then have "no_order w w'"
      using assms quiet unfolding gate_stage_def g Let_def
      by (auto split: if_splits option.splits)
    then show ?thesis ..
  qed
qed

lemma ready_bars_enough: "ready_bars env acc t mk = (Inr (Inr bars), mk') \<Longrightarrow> 50 \<le> length bars"
  by (auto simp: ready_bars_def Let_def elim!: bind_res_InrE split: sum.splits prod.splits if_splits)

lemma latest_tick_app: "latest_tick env acc app = (e, app') \<Longrightarrow> \<exists>mk. app' = app\<lparr>ap_market := mk\<rparr>"
  by (auto simp: latest_tick_def split: prod.splits)

lemma admission_quiet: "admission env acc st w = (x, w') \<Longrightarrow> no_order w w'"
  by (auto simp: admission_def Let_def no_order_def split: if_splits option.splits prod.splits
      dest!: latest_tick_app)

lemma admissionD:
  assumes "admission env acc st w = (Inr t, w')"
  obtains a e app where "sy_enabled st" "active_account acc (ap_accounts (sw_app w)) = Some a"
    "sy_dry_run st \<or> is_confirmed_demo a \<or> ta_trading_enabled a"
    "latest_tick env acc (sw_app w) = (Some e, app)" "t = strategy_tick env e"
    "max 0 (age_ms (sv_freshness_now env - te_received_at e)) \<le> 5000" "\<not> has_open_position acc app"
    "w' = w\<lparr>sw_app := app\<rparr>"
  using assms
  by (auto simp: admission_def Let_def evaluate_freshness_def split: if_splits option.splits prod.splits)

lemma brain_stage_orders:
  assumes "brain_stage env acc st t bars w = (x, w')"
  shows "no_order w w' \<or>
    (\<exists>sig ag. \<not> in_cooldown st (br_open_time (last bars)) \<and> \<not> sy_dry_run st
       \<and> process_signal default_strat_config (sv_brain_now env) (sv_fresh_correlation env) t bars ''CLEAR'' None
           = Inr sig
       \<and> cs_direction sig \<noteq> NO_DIRECTION \<and> cs_is_configured sig
       \<and> go_decision (fst (evaluate_risk_gate (sv_gate env) acc ''XAUUSD'' None None
           ((sw_app w)\<lparr>ap_trade := store_signal (strategy_signal env acc t sig) (ap_trade (sw_app w))\<rparr>))) = ALLOW
       \<and> first_agent acc (ap_link (sw_app w)) = Some ag \<and> am_is_connected (ag_id ag) (ap_manager (sw_app w))
       \<and> one_order env w sig ag t w')"
proof -
  obtain sig where sig: "process_signal default_strat_config (sv_brain_now env) (sv_fresh_correlation env) t bars
      ''CLEAR'' None = Inr sig"
    using process_signal_total by blast
  show ?thesis
  proof (cases "in_cooldown st (br_open_time (last bars)) \<or> cs_direction sig = NO_DIRECTION \<or> \<not> cs_is_configured sig")
    case True
    then have "no_order w w'" using assms sig by (auto simp: brain_stage_def Let_def split: if_splits)
    then show ?thesis ..
  next
    case False
    let ?w = "update_trade (store_signal (strategy_signal env acc t sig)) w"
    obtain y res where y: "gate_stage env acc st t (br_open_time (last bars)) sig res ?w = (y, w')"
      using assms False sig by (auto simp: brain_stage_def Let_def split: option.splits prod.splits)
    have q: "no_order ?w w' \<Longrightarrow> no_order w w'" "one_order env ?w sig ag t w' \<Longrightarrow> one_order env w sig ag t w'" for ag
      by (simp_all add: no_order_def one_order_def)
    have app: "sw_app ?w = (sw_app w)\<lparr>ap_trade := store_signal (strategy_signal env acc t sig) (ap_trade (sw_app w))\<rparr>"
      by (simp add: update_trade_def)
    from gate_stage_orders [OF y] show ?thesis
      unfolding app using False sig q by auto
  qed
qed

text \<open>What follows the admission: the signal, the gate and the dispatch, on the bars found ready.\<close>

lemma admitted_orders:
  assumes g: "get_or_create_strategy_state acc w = (st, w0)" and a: "admission env acc st w0 = (Inr t, w1)"
    and b: "ready_bars env acc t (ap_market (sw_app w1)) = (Inr (Inr bs), mk)"
    and br: "brain_stage env acc st t bs (w1\<lparr>sw_app := (sw_app w1)\<lparr>ap_market := mk\<rparr>\<rparr>) = (x, w')"
  shows "no_order w w' \<or> (\<exists>sig ag t. cleared env acc w sig ag t \<and> one_order env w sig ag t w')"
proof -
  note row = get_or_create [OF g]
  have app0: "sw_app w0 = sw_app w" using row by simp
  from admissionD [OF a] obtain ac e app where adm: "sy_enabled st"
    "active_account acc (ap_accounts (sw_app w)) = Some ac"
    "sy_dry_run st \<or> is_confirmed_demo ac \<or> ta_trading_enabled ac"
    "latest_tick env acc (sw_app w) = (Some e, app)" "t = strategy_tick env e"
    "max 0 (age_ms (sv_freshness_now env - te_received_at e)) \<le> 5000" "\<not> has_open_position acc app"
    "w1 = w0\<lparr>sw_app := app\<rparr>"
    unfolding app0 by blast
  obtain mk0 where app: "app = (sw_app w)\<lparr>ap_market := mk0\<rparr>" using latest_tick_app [OF adm(4)] by blast
  let ?w2 = "w1\<lparr>sw_app := (sw_app w1)\<lparr>ap_market := mk\<rparr>\<rparr>"
  have bars: "ready_bars env acc t (ap_market app) = (Inr (Inr bs), mk)" using b by (simp add: adm(8))
  have app2: "sw_app ?w2 = (sw_app w)\<lparr>ap_market := mk\<rparr>" by (simp add: adm(8) app)
  then have q2: "no_order w ?w2" by (simp add: no_order_def)
  have "\<not> sy_enabled (default_strategy_row acc)" by (simp add: default_strategy_row_def)
  then have stored: "strategy_state acc w = Some st" using row adm(1) by metis
  have *: "cleared env acc w sig ag t \<and> one_order env w sig ag t w'"
    if "\<not> in_cooldown st (br_open_time (last bs))" "\<not> sy_dry_run st"
      "process_signal default_strat_config (sv_brain_now env) (sv_fresh_correlation env) t bs ''CLEAR'' None = Inr sig"
      "cs_direction sig \<noteq> NO_DIRECTION" "cs_is_configured sig"
      "go_decision (fst (evaluate_risk_gate (sv_gate env) acc ''XAUUSD'' None None
         ((sw_app ?w2)\<lparr>ap_trade := store_signal (strategy_signal env acc t sig) (ap_trade (sw_app ?w2))\<rparr>))) = ALLOW"
      "first_agent acc (ap_link (sw_app ?w2)) = Some ag" "am_is_connected (ag_id ag) (ap_manager (sw_app ?w2))"
      "one_order env ?w2 sig ag t w'" for sig ag
  proof
    have later: "later (sy_last_signal_candle_ts st) (br_open_time (last bs))"
      using that(1) by (auto simp: in_cooldown_def later_def split: option.splits)
    have "\<not> has_open_position acc (sw_app w)" using adm(7) by (simp add: has_open_position_def app)
    with that stored adm(1-6) later ready_bars_enough [OF bars] bars app2
    show "cleared env acc w sig ag t"
      unfolding cleared_def by (intro exI conjI) (assumption | simp)+
    show "one_order env w sig ag t w'" by (rule one_order_cong [OF that(9) q2])
  qed
  from brain_stage_orders [OF br] show ?thesis
    using no_order_trans [OF q2] by (elim disjE exE conjE) (blast dest: *)+
qed

text \<open>
  C23: An evaluation either leaves the commands and the sockets alone, or it was cleared by every gate
  (enabled and live, active account confirmed as demo or with trading enabled, tick at most five
  seconds old, no open position, at least 50 closed bars, a candle later than the last one, a
  configured directional signal, the risk gate, a connected agent), and it adds exactly one
  OPEN_POSITION command for that agent, which is SENT with its message handed to the agent's socket or
  FAILED with nothing handed over.
\<close>

theorem orders_are_cleared:
  "case evaluate_strategy_for_account env acc w of (x, w') \<Rightarrow>
     no_order w w' \<or> (\<exists>sig ag t. cleared env acc w sig ag t \<and> one_order env w sig ag t w')"
proof -
  obtain x w' where ev: "evaluate_strategy_for_account env acc w = (x, w')"
    by (cases "evaluate_strategy_for_account env acc w")
  obtain st w0 where g: "get_or_create_strategy_state acc w = (st, w0)"
    by (cases "get_or_create_strategy_state acc w")
  obtain y w1 where a: "admission env acc st w0 = (y, w1)" by (cases "admission env acc st w0")
  have q1: "no_order w w1" using admission_quiet [OF a] get_or_create [OF g] by (simp add: no_order_def)
  show ?thesis
  proof (cases y)
    case (Inl r)
    then show ?thesis using ev q1 by (auto simp: evaluate_strategy_for_account_def g a)
  next
    case (Inr t)
    obtain bars mk where b: "ready_bars env acc t (ap_market (sw_app w1)) = (bars, mk)"
      by (cases "ready_bars env acc t (ap_market (sw_app w1))")
    let ?w2 = "w1\<lparr>sw_app := (sw_app w1)\<lparr>ap_market := mk\<rparr>\<rparr>"
    have q2: "no_order w ?w2" using q1 by (simp add: no_order_def)
    show ?thesis
    proof (cases "\<exists>bs. bars = Inr (Inr bs)")
      case False
      then have "w' = ?w2"
        using ev by (auto simp: evaluate_strategy_for_account_def g a Inr b Let_def split: sum.splits)
      then show ?thesis using q2 by (simp add: ev)
    next
      case True
      then obtain bs where bs: "bars = Inr (Inr bs)" by blast
      have "brain_stage env acc st t bs ?w2 = (x, w')"
        using ev by (simp add: evaluate_strategy_for_account_def g a Inr b bs Let_def)
      from admitted_orders [OF g a [unfolded Inr] b [unfolded bs] this] show ?thesis by (simp add: ev)
    qed
  qed
qed

end
