(* ===== verification/Strategy_Api.thy ===== *)
theory Strategy_Api
  imports Strategy_Service
begin

section \<open>Strategy and execution endpoints (\<open>backend/api/v1/strategy_routes.py\<close>, \<open>execution_routes.py\<close>)\<close>

text \<open>
  The controls a user has over an account: the strategy engine, the kill switch, and the gated test
  order.  A request carries the user of its token.  Ids are parsed by the environment's
  \<open>uuid.UUID\<close>; a raised HTTP error leaves the tables as they were.  The wait for the broker's result
  is not a step of its own: the response is built from the row at the time it is read.
\<close>

subsection \<open>Ownership\<close>

definition owned_account :: "conversions \<Rightarrow> string \<Rightarrow> string \<Rightarrow> account_row list \<Rightarrow> account_row option" where
  "owned_account cv account_id user accs =
     (case (cv_uuid cv account_id, cv_uuid cv user) of
        (Some a, Some u) \<Rightarrow> find (\<lambda>r. ta_id r = a \<and> ta_user_id r = u) accs
      | _ \<Rightarrow> None)"

definition verify_account_ownership ::
  "conversions \<Rightarrow> string \<Rightarrow> string \<Rightarrow> strategy_world \<Rightarrow> http_error + account_row" where
  "verify_account_ownership cv account_id user w =
     (case owned_account cv account_id user (ap_accounts (sw_app w)) of
        None \<Rightarrow> Inl (Http 404 ''NOT_FOUND'') | Some a \<Rightarrow> Inr a)"

subsection \<open>The strategy engine\<close>

record state_response =
  sp_state :: strategy_row
  sp_bars_count :: nat
  sp_ready :: bool

definition state_to_response :: "strategy_row \<Rightarrow> nat \<Rightarrow> state_response" where
  "state_to_response r n = \<lparr>sp_state = r, sp_bars_count = n, sp_ready = (50 \<le> n)\<rparr>"

definition stored_bars :: "strategy_env \<Rightarrow> string \<Rightarrow> string \<Rightarrow> strategy_world \<Rightarrow> bar_entry list \<times> strategy_world" where
  "stored_bars env acc tf w =
     (case get_stored_closed_bars (le_redis (sv_link env)) (sv_freshness_now env) acc ''XAUUSD'' tf
             (ap_market (sw_app w)) of
        (es, mk) \<Rightarrow> (es, w\<lparr>sw_app := (sw_app w)\<lparr>ap_market := mk\<rparr>\<rparr>))"

definition respond ::
  "strategy_env \<Rightarrow> string \<Rightarrow> strategy_row \<Rightarrow> strategy_world \<Rightarrow> (http_error + state_response) \<times> strategy_world" where
  "respond env acc r w =
     (case stored_bars env acc ''M15'' w of (es, w') \<Rightarrow> (Inr (state_to_response r (length es)), w'))"

definition api_conv :: "strategy_env \<Rightarrow> conversions" where
  "api_conv env = le_conv (sv_link env)"

definition api_get_strategy ::
  "strategy_env \<Rightarrow> string \<Rightarrow> string \<Rightarrow> strategy_world \<Rightarrow> (http_error + state_response) \<times> strategy_world" where
  "api_get_strategy env user account_id w =
     (case verify_account_ownership (api_conv env) account_id user w of
        Inl e \<Rightarrow> (Inl e, w)
      | Inr a \<Rightarrow> (case get_or_create_strategy_state (ta_id a) w of (r, w1) \<Rightarrow> respond env (ta_id a) r w1))"

definition api_enable_strategy ::
  "strategy_env \<Rightarrow> string \<Rightarrow> string \<Rightarrow> bool option \<Rightarrow> strategy_world
     \<Rightarrow> (http_error + state_response) \<times> strategy_world" where
  "api_enable_strategy env user account_id dry_run w =
     (case verify_account_ownership (api_conv env) account_id user w of
        Inl e \<Rightarrow> (Inl e, w)
      | Inr a \<Rightarrow>
          let w1 = enable_strategy (ta_id a) (case dry_run of Some b \<Rightarrow> b | None \<Rightarrow> True) w
          in respond env (ta_id a) (fst (get_or_create_strategy_state (ta_id a) w1)) w1)"

definition api_disable_strategy ::
  "strategy_env \<Rightarrow> string \<Rightarrow> string \<Rightarrow> strategy_world \<Rightarrow> (http_error + state_response) \<times> strategy_world" where
  "api_disable_strategy env user account_id w =
     (case verify_account_ownership (api_conv env) account_id user w of
        Inl e \<Rightarrow> (Inl e, w)
      | Inr a \<Rightarrow>
          let w1 = disable_strategy (ta_id a) w
          in respond env (ta_id a) (fst (get_or_create_strategy_state (ta_id a) w1)) w1)"

definition api_evaluate_strategy ::
  "strategy_env \<Rightarrow> string \<Rightarrow> string \<Rightarrow> strategy_world \<Rightarrow> (http_error + strategy_result) \<times> strategy_world" where
  "api_evaluate_strategy env user account_id w =
     (case verify_account_ownership (api_conv env) account_id user w of
        Inl e \<Rightarrow> (Inl e, w)
      | Inr a \<Rightarrow>
          (case strategy_transaction env (ta_id a) w of
             (Inl _, w') \<Rightarrow> (Inl (Http 500 ''INTERNAL''), w')
           | (Inr r, w') \<Rightarrow> (Inr r, w')))"

definition api_latest_signal ::
  "conversions \<Rightarrow> string \<Rightarrow> string \<Rightarrow> strategy_world \<Rightarrow> http_error + signal_row option" where
  "api_latest_signal cv user account_id w =
     bind_res (verify_account_ownership cv account_id user w) (\<lambda>a.
       Inr (latest_by sg_generated_at
              (filter (\<lambda>s. sg_account_id s = ta_id a) (td_signals (ap_trade (sw_app w))))))"

definition api_strategy_bars ::
  "strategy_env \<Rightarrow> string \<Rightarrow> string \<Rightarrow> string \<Rightarrow> strategy_world
     \<Rightarrow> (http_error + (nat \<times> instant option \<times> instant option \<times> bar_entry list)) \<times> strategy_world" where
  "api_strategy_bars env user account_id tf w =
     (case verify_account_ownership (api_conv env) account_id user w of
        Inl e \<Rightarrow> (Inl e, w)
      | Inr a \<Rightarrow>
          (case stored_bars env (ta_id a) tf w of (es, w') \<Rightarrow>
             (Inr (length es, if es = [] then None else Some (be_open_time (hd es)),
                   if es = [] then None else Some (be_open_time (last es)), es), w')))"

subsection \<open>The kill switch\<close>

definition newest_config :: "string \<Rightarrow> trade_db \<Rightarrow> risk_config_row option" where
  "newest_config acc db = latest_by rw_version (filter (\<lambda>r. rw_account_id r = acc) (td_configs db))"

text \<open>A row with the column defaults.\<close>

definition default_config_row :: "string \<Rightarrow> bool \<Rightarrow> risk_config_row" where
  "default_config_row acc kill =
     \<lparr>rw_account_id = acc, rw_version = 1, rw_daily_reset_timezone = ''UTC'',
      rw_profit_lock_threshold_usd = 10, rw_profit_lock_floor_pct = 30 / 100,
      rw_max_tick_staleness_ms = 2000, rw_news_pre_event_window_minutes = 30,
      rw_news_post_event_window_minutes = 30, rw_daily_loss_limit_usd = None,
      rw_max_drawdown_usd = None, rw_max_open_positions = None, rw_max_open_lots = None,
      rw_max_spread_usd = None, rw_risk_per_trade_pct = None, rw_kill_switch_active = kill\<rparr>"

definition set_kill_flag :: "string \<Rightarrow> bool \<Rightarrow> trade_db \<Rightarrow> trade_db" where
  "set_kill_flag acc kill db =
     (case newest_config acc db of
        None \<Rightarrow> db\<lparr>td_configs := td_configs db @ [default_config_row acc kill]\<rparr>
      | Some r \<Rightarrow>
          db\<lparr>td_configs := map (\<lambda>x. if rw_account_id x = acc \<and> rw_version x = rw_version r
                                    then x\<lparr>rw_kill_switch_active := kill\<rparr> else x) (td_configs db)\<rparr>)"

definition api_get_kill_switch :: "conversions \<Rightarrow> string \<Rightarrow> string \<Rightarrow> strategy_world \<Rightarrow> http_error + bool" where
  "api_get_kill_switch cv user account_id w =
     bind_res (verify_account_ownership cv account_id user w) (\<lambda>a.
       Inr (case newest_config (ta_id a) (ap_trade (sw_app w)) of
              Some r \<Rightarrow> rw_kill_switch_active r | None \<Rightarrow> False))"

definition api_set_kill_switch ::
  "conversions \<Rightarrow> string \<Rightarrow> string \<Rightarrow> bool \<Rightarrow> strategy_world \<Rightarrow> (http_error + bool) \<times> strategy_world" where
  "api_set_kill_switch cv user account_id kill w =
     (case verify_account_ownership cv account_id user w of
        Inl e \<Rightarrow> (Inl e, w)
      | Inr a \<Rightarrow>
          let w1 = update_trade (set_kill_flag (ta_id a) kill) w
          in (Inr kill, if kill then disable_strategy (ta_id a) w1 else w1))"

subsection \<open>The gated test order\<close>

datatype test_action = TEST_OPEN | TEST_CLOSE

fun test_action_name :: "test_action \<Rightarrow> string" where
  "test_action_name TEST_OPEN = ''OPEN_POSITION''"
| "test_action_name TEST_CLOSE = ''CLOSE_POSITION''"

record test_request =
  tq_action :: test_action
  tq_symbol :: string
  tq_side :: "side option"
  tq_volume :: dec
  tq_position_ticket :: "int option"
  tq_client_order_id :: string
  tq_stop_loss :: "dec option"
  tq_take_profit :: "dec option"
  tq_deviation :: int
  tq_comment :: string

definition max_test_volume :: dec where "max_test_volume = 1 / 10"

text \<open>The bounds of the request model.\<close>

definition test_request_ok :: "test_request \<Rightarrow> bool" where
  "test_request_ok q \<longleftrightarrow>
     0 < tq_volume q \<and> tq_volume q \<le> max_test_volume
     \<and> tq_client_order_id q \<noteq> [] \<and> length (tq_client_order_id q) \<le> 64
     \<and> 1 \<le> tq_deviation q \<and> tq_deviation q \<le> 100 \<and> length (tq_comment q) \<le> 50"

fun side_text :: "side \<Rightarrow> string" where
  "side_text SIDE_BUY = ''BUY''"
| "side_text SIDE_SELL = ''SELL''"

definition float_or_zero :: "dec option \<Rightarrow> json" where
  "float_or_zero v = J_float (Fin (case v of Some x \<Rightarrow> f64 x | None \<Rightarrow> 0))"

definition test_payload :: "test_request \<Rightarrow> string \<Rightarrow> json json_dict" where
  "test_payload q smb =
     [''command_type'' \<mapsto> J_str (test_action_name (tq_action q)), ''symbol'' \<mapsto> J_str smb,
      ''side'' \<mapsto> (case tq_side q of Some s \<Rightarrow> J_str (side_text s) | None \<Rightarrow> J_null),
      ''volume'' \<mapsto> J_float (Fin (f64 (tq_volume q))), ''client_order_id'' \<mapsto> J_str (tq_client_order_id q),
      ''stop_loss'' \<mapsto> float_or_zero (tq_stop_loss q), ''take_profit'' \<mapsto> float_or_zero (tq_take_profit q),
      ''position_ticket'' \<mapsto> (case tq_position_ticket q of Some k \<Rightarrow> J_int k | None \<Rightarrow> J_null),
      ''deviation'' \<mapsto> J_int (tq_deviation q), ''comment'' \<mapsto> J_str (tq_comment q)]"

text \<open>Parameter validation; a close without a ticket takes the only open position.\<close>

definition check_parameters :: "test_request \<Rightarrow> db_position list \<Rightarrow> http_error + test_request" where
  "check_parameters q open_pos =
     (case tq_action q of
        TEST_OPEN \<Rightarrow>
          if tq_side q = None then Inl (Http 422 ''INVALID_SIDE'')
          else if tq_volume q \<le> 0 \<or> max_test_volume < tq_volume q then Inl (Http 422 ''INVALID_VOLUME'')
          else Inr q
      | TEST_CLOSE \<Rightarrow>
          (case tq_position_ticket q of
             Some _ \<Rightarrow> Inr q
           | None \<Rightarrow>
               (case open_pos of
                  [p] \<Rightarrow> Inr (q\<lparr>tq_position_ticket := Some (dp_broker_ticket p)\<rparr>)
                | _ \<Rightarrow> Inl (Http 422 ''POSITION_TICKET_REQUIRED''))))"

definition order_id_text :: "string \<Rightarrow> string" where
  "order_id_text cid = CHR 0x22 # ''client_order_id'' @ [CHR 0x22] @ '': '' @ [CHR 0x22] @ cid @ [CHR 0x22]"

definition order_hit :: "string \<Rightarrow> agent_command \<Rightarrow> bool" where
  "order_hit cid c \<longleftrightarrow>
     (case ac_payload_json c of Some s \<Rightarrow> s \<noteq> [] \<and> sublist (order_id_text cid) s | None \<Rightarrow> False)"

text \<open>The newest command of the agent whose payload names the order.\<close>

definition existing_order :: "string \<Rightarrow> string \<Rightarrow> link_db \<Rightarrow> agent_command option" where
  "existing_order ag cid db =
     find (order_hit cid)
       (sort_key (\<lambda>c. - ac_created_at c) (filter (\<lambda>c. ac_agent_id c = ag) (ld_commands db)))"

record test_reply =
  tr_command :: agent_command
  tr_risk_decision :: gate_decision
  tr_risk_reason_code :: gate_reason

datatype authorization = EXECUTION_AUTHORIZED string string test_request

text \<open>Steps 7 to 9.  The audit entry of the authorisation is returned.\<close>

definition dispatch_test ::
  "strategy_env \<Rightarrow> account_row \<Rightarrow> agent_row \<Rightarrow> test_request \<Rightarrow> gate_output \<Rightarrow> app_state
     \<Rightarrow> (http_error + test_reply \<times> authorization list) \<times> app_state" where
  "dispatch_test env a ag q g app =
     (let link = sv_link env; who = (Some (ta_user_id a), Some (ta_id a));
          payload = test_payload q ''XAUUSD''; ty = test_action_name (tq_action q)
      in case create_command (le_codec link) (le_fresh link) (le_now link) who (ag_id ag) ty (Some payload) (ap_link app) of
           (Inl _, _) \<Rightarrow> (Inl (Http 500 ''INTERNAL''), app)
         | (Inr c, db1) \<Rightarrow>
             (case am_send_json link (ag_id ag) (COMMAND (ac_id c) (ac_command_type c) (Some payload)) (ap_manager app) of
                (ok, m) \<Rightarrow>
                  let c2 = (if ok then mark_claimed (le_now link) c else c);
                      db2 = (if ok then add_link_audit (ag_id ag) who (AGENT_COMMAND_SENT (ac_id c) (ac_command_type c))
                                          (put_command c2 db1) else db1)
                  in (Inr (\<lparr>tr_command = c2, tr_risk_decision = go_decision g,
                            tr_risk_reason_code = go_reason_code g\<rparr>,
                           [EXECUTION_AUTHORIZED (ta_id a) (ag_id ag) q]),
                      app\<lparr>ap_link := db2, ap_manager := m\<rparr>)))"

definition execute_demo_trade ::
  "strategy_env \<Rightarrow> string \<Rightarrow> string \<Rightarrow> test_request \<Rightarrow> app_state
     \<Rightarrow> (http_error + test_reply \<times> authorization list) \<times> app_state" where
  "execute_demo_trade env user account_id q app =
     (if \<not> test_request_ok q then (Inl (Http 422 ''VALIDATION''), app)
      else case owned_account (api_conv env) account_id user (ap_accounts app) of
        None \<Rightarrow> (Inl (Http 404 ''NOT_FOUND''), app)
      | Some a \<Rightarrow>
        (case filter (\<lambda>g. ag_account_id g = ta_id a) (ld_agents (ap_link app)) of
           [] \<Rightarrow> (Inl (Http 404 ''AGENT_NOT_FOUND''), app)
         | _ # _ # _ \<Rightarrow> (Inl (Http 500 ''INTERNAL''), app)
         | [ag] \<Rightarrow>
           if \<not> am_is_connected (ag_id ag) (ap_manager app) then (Inl (Http 400 ''AGENT_OFFLINE''), app)
           else if \<not> is_confirmed_demo a \<and> \<not> ta_trading_enabled a then (Inl (Http 403 ''TRADING_DISABLED''), app)
           else if map ascii_upper (tq_symbol q) \<noteq> ''XAUUSD'' then (Inl (Http 422 ''INVALID_SYMBOL''), app)
           else case check_parameters q (open_positions_of (ta_id a) (td_exec (ap_trade app))) of
             Inl e \<Rightarrow> (Inl e, app)
           | Inr q' \<Rightarrow>
             (case existing_order (ag_id ag) (tq_client_order_id q') (ap_link app) of
                Some c \<Rightarrow> (Inr (\<lparr>tr_command = c, tr_risk_decision = ALLOW, tr_risk_reason_code = RISK_OK\<rparr>, []), app)
              | None \<Rightarrow>
                (case evaluate_risk_gate (sv_gate env) (ta_id a) ''XAUUSD'' None None app of (g, app1) \<Rightarrow>
                   if go_decision g \<noteq> ALLOW then (Inl (Http 403 ''RISK_GATE_BLOCKED''), app1)
                   else dispatch_test env a ag q' g app1))))"

definition get_test_execution_status ::
  "conversions \<Rightarrow> string \<Rightarrow> string \<Rightarrow> string \<Rightarrow> app_state \<Rightarrow> http_error + test_reply" where
  "get_test_execution_status cv user account_id command_id app =
     (case (owned_account cv account_id user (ap_accounts app), cv_uuid cv command_id) of
        (Some a, Some cid) \<Rightarrow>
          (case find (\<lambda>c. ac_id c = cid \<and> list_ex (\<lambda>g. ag_id g = ac_agent_id c \<and> ag_account_id g = ta_id a)
                            (ld_agents (ap_link app))) (ld_commands (ap_link app)) of
             None \<Rightarrow> Inl (Http 404 ''NOT_FOUND'')
           | Some c \<Rightarrow> Inr \<lparr>tr_command = c, tr_risk_decision = ALLOW, tr_risk_reason_code = RISK_OK\<rparr>)
      | _ \<Rightarrow> Inl (Http 404 ''NOT_FOUND''))"

definition get_account_positions ::
  "conversions \<Rightarrow> string \<Rightarrow> string \<Rightarrow> app_state \<Rightarrow> http_error + (nat \<times> nat \<times> db_position list)" where
  "get_account_positions cv user account_id app =
     (case owned_account cv account_id user (ap_accounts app) of
        None \<Rightarrow> Inl (Http 404 ''NOT_FOUND'')
      | Some a \<Rightarrow>
          let ps = sort_key (\<lambda>p. - dp_opened_at p)
                     (filter (\<lambda>p. dp_account_id p = ta_id a) (xd_positions (td_exec (ap_trade app))))
          in Inr (length ps, length (filter (\<lambda>p. dp_status p = ''OPEN'') ps), ps))"

subsection \<open>The kill switch stops the account\<close>

lemma latest_by_map:
  assumes "\<And>x. k (f x) = k x"
  shows "latest_by k (map f xs) = map_option f (latest_by k xs)"
  by (induction xs) (auto simp: assms split: option.splits)

lemma newest_after_set:
  "\<exists>r. newest_config acc (set_kill_flag acc kill db) = Some r \<and> rw_kill_switch_active r = kill"
proof (cases "newest_config acc db")
  case None
  then have "latest_by rw_version (filter (\<lambda>r. rw_account_id r = acc) (td_configs db)) = None"
    by (simp add: newest_config_def)
  then have "filter (\<lambda>r. rw_account_id r = acc) (td_configs db) = []"
    by (cases "filter (\<lambda>r. rw_account_id r = acc) (td_configs db)") (auto split: option.splits if_splits)
  then show ?thesis using None
    by (simp add: set_kill_flag_def newest_config_def default_config_row_def)
next
  case (Some r)
  define f where "f = (\<lambda>x :: risk_config_row. if rw_account_id x = acc \<and> rw_version x = rw_version r
    then x\<lparr>rw_kill_switch_active := kill\<rparr> else x)"
  have own: "rw_account_id r = acc"
    using Some latest_by_mem by (fastforce simp: newest_config_def)
  have ver: "rw_version (f x) = rw_version x" for x by (simp add: f_def)
  have "filter (\<lambda>r. rw_account_id r = acc) (map f xs) = map f (filter (\<lambda>r. rw_account_id r = acc) xs)" for xs
    by (induction xs) (auto simp: f_def)
  moreover have "set_kill_flag acc kill db = db\<lparr>td_configs := map f (td_configs db)\<rparr>"
    using Some by (simp add: set_kill_flag_def f_def)
  ultimately have "newest_config acc (set_kill_flag acc kill db) = map_option f (newest_config acc db)"
    using latest_by_map [of rw_version f, OF ver] by (simp add: newest_config_def)
  then show ?thesis using Some own by (simp add: f_def)
qed

lemma kill_flag_loaded:
  "rk_emergency_stop_active (get_latest_risk_config acc db) \<longleftrightarrow>
     (case newest_config acc db of Some r \<Rightarrow> rw_kill_switch_active r | None \<Rightarrow> False)"
  by (simp add: get_latest_risk_config_def newest_config_def risk_config_default_def split: option.splits)

lemma killed_gate_blocks:
  assumes "rk_emergency_stop_active (get_latest_risk_config acc (ap_trade app))"
  shows "go_decision (fst (evaluate_risk_gate clk acc s ot oc app)) = BLOCK"
  using assms by (simp add: evaluate_risk_gate_def)

lemma disable_strategy_facts:
  "\<exists>st. strategy_state acc (disable_strategy acc w) = Some st \<and> \<not> sy_enabled st"
  "sw_app (disable_strategy acc w) = sw_app w"
proof -
  obtain st w0 where g: "get_or_create_strategy_state acc w = (st, w0)"
    by (cases "get_or_create_strategy_state acc w")
  note row = get_or_create [OF g]
  have "strategy_state acc (strategy_audit acc ev v) = strategy_state acc v" for ev v
    by (rule strategy_state_cong) simp
  then show "\<exists>st. strategy_state acc (disable_strategy acc w) = Some st \<and> \<not> sy_enabled st"
    using row by (simp add: disable_strategy_def g strategy_state_put)
  show "sw_app (disable_strategy acc w) = sw_app w" using row by (simp add: disable_strategy_def g)
qed

text \<open>A test order reaches the agent through the gate only.\<close>

lemma test_order_blocked:
  assumes "cv_uuid (api_conv env) account_id = Some acc"
    and "rk_emergency_stop_active (get_latest_risk_config acc (ap_trade app))"
  shows "ap_link (snd (execute_demo_trade env user account_id q app)) = ap_link app"
proof -
  have "ap_link (snd (evaluate_risk_gate (sv_gate env) b s None None app)) = ap_link app" for b s
    using gate_only_caches [of "sv_gate env" b s None None app] by auto
  moreover have "ta_id a = acc" if "owned_account (api_conv env) account_id user (ap_accounts app) = Some a" for a
    using that assms(1) by (auto simp: owned_account_def find_Some_iff split: option.splits)
  ultimately show ?thesis
    using killed_gate_blocks [OF assms(2), of "sv_gate env" "''XAUUSD''" None None]
    by (auto simp: execute_demo_trade_def split: option.splits list.splits sum.splits prod.splits)
       (metis fst_conv gate_decision.distinct(1) snd_conv)+
qed

text \<open>
  C27: Setting the kill switch of an account one owns is read back, disables its strategy, and from
  then on, as long as the configurations are not changed, the gate blocks and neither an evaluation
  nor a test order of the account (unless it repeats an order that exists) changes the commands or the
  sockets.
\<close>

theorem kill_switch_stops_account:
  assumes "api_set_kill_switch cv user account_id True w = (Inr r, w')" "cv_uuid cv account_id = Some acc"
    and "ap_trade app = ap_trade (sw_app w')" "api_conv env' = cv"
  shows "go_decision (fst (evaluate_risk_gate clk acc s ot oc app)) = BLOCK
    \<and> (case strategy_state acc w' of Some st \<Rightarrow> \<not> sy_enabled st | None \<Rightarrow> False)
    \<and> api_get_kill_switch cv user account_id w' = Inr True
    \<and> no_order (w'\<lparr>sw_app := app\<rparr>) (snd (evaluate_strategy_for_account env acc (w'\<lparr>sw_app := app\<rparr>)))
    \<and> ap_link (snd (execute_demo_trade env' user' account_id q app)) = ap_link app"
proof -
  obtain a where a: "owned_account cv account_id user (ap_accounts (sw_app w)) = Some a"
    and w': "w' = disable_strategy (ta_id a) (update_trade (set_kill_flag (ta_id a) True) w)"
    using assms(1) by (auto simp: api_set_kill_switch_def verify_account_ownership_def split: option.splits)
  have acc: "ta_id a = acc"
    using a assms(2) by (auto simp: owned_account_def find_Some_iff split: option.splits)
  define w1 where "w1 = update_trade (set_kill_flag acc True) w"
  have "ap_trade app = set_kill_flag acc True (ap_trade (sw_app w))"
    using assms(3) disable_strategy_facts(2) [of acc w1] by (simp add: w' acc w1_def update_trade_def)
  then have killed: "rk_emergency_stop_active (get_latest_risk_config acc (ap_trade app))"
    using newest_after_set [of acc True "ap_trade (sw_app w)"] by (auto simp: kill_flag_loaded)
  obtain st where st: "strategy_state acc w' = Some st" "\<not> sy_enabled st"
    using disable_strategy_facts(1) [of acc w1] by (auto simp: w' acc w1_def)
  then have "strategy_state acc (w'\<lparr>sw_app := app\<rparr>) = Some st" by (simp add: strategy_state_def)
  then have "evaluate_strategy_for_account env acc (w'\<lparr>sw_app := app\<rparr>)
      = (Inr (skipped_for (sy_dry_run st) OFF_DISABLED), w'\<lparr>sw_app := app\<rparr>)"
    using st(2)
    by (simp add: evaluate_strategy_for_account_def get_or_create_strategy_state_def admission_def)
  moreover have "api_get_kill_switch cv user account_id w' = Inr True"
  proof -
    have "ap_accounts (sw_app w') = ap_accounts (sw_app w)" "ap_trade (sw_app w') = ap_trade app"
      using disable_strategy_facts(2) [of acc w1] assms(3) by (simp_all add: w' acc w1_def update_trade_def)
    then show ?thesis
      using a acc killed
      by (auto simp: api_get_kill_switch_def verify_account_ownership_def kill_flag_loaded split: option.splits)
  qed
  ultimately show ?thesis
    using st killed_gate_blocks [OF killed] test_order_blocked [OF assms(2) [folded assms(4)] killed] by simp
qed

definition demo_strategy_env :: strategy_env where
  "demo_strategy_env =
     \<lparr>sv_link = demo_link_env 7 True, sv_gate = demo_gate_clock 0, sv_freshness_now = 0, sv_received_now = 0,
      sv_brain_now = 0, sv_fresh_correlation = ''id'', sv_signal_id = ''sig'', sv_signal_now = 0,
      sv_generated_now = 0, sv_expires_now = 0, sv_dec_text = (\<lambda>_. [])\<rparr>"

definition demo_kill :: "(http_error + bool) \<times> strategy_world" where
  "demo_kill = api_set_kill_switch demo_conversions ''user'' ''acc'' True (new_world demo_app)"

theorem kill_switch_stops_account_witness:
  "fst demo_kill = Inr True
   \<and> go_decision (fst (evaluate_risk_gate (demo_gate_clock 0) ''acc'' ''XAUUSD'' None None (sw_app (snd demo_kill)))) = BLOCK"
proof -
  have uuid: "cv_uuid demo_conversions s = Some s" for s by (simp add: demo_conversions_def)
  have "fst demo_kill = Inr True"
    by (simp add: demo_kill_def api_set_kill_switch_def verify_account_ownership_def owned_account_def uuid
        new_world_def demo_app_def)
  then have set: "api_set_kill_switch demo_conversions ''user'' ''acc'' True (new_world demo_app) = (Inr True, snd demo_kill)"
    unfolding demo_kill_def by (metis prod.collapse)
  have "api_conv demo_strategy_env = demo_conversions"
    by (simp add: api_conv_def demo_strategy_env_def demo_link_env_def)
  from kill_switch_stops_account [OF set uuid refl this] set show ?thesis
    using \<open>fst demo_kill = Inr True\<close> by blast
qed

end
