(* ===== verification/Account_Api.thy ===== *)
theory Account_Api
  imports Auth Strategy_Api
begin

section \<open>Account and agent endpoints (\<open>api/v1/accounts.py\<close>, \<open>api/v1/agents.py\<close>, \<open>services/mt5_session.py\<close>)\<close>

text \<open>
  A user's trading accounts and the agents registered for them.  The ownership table of the link is the
  account table read by id.  A raised HTTP error leaves the tables as they were, apart from the licence
  that the account check has committed before it.  The wait of \<open>verify_agent\<close> splits it in two steps,
  sending and reading the row.  Response texts are left out.
\<close>

datatype account_event =
    AE_CREATED string string
  | AE_UPDATED "string option" "string option" "string option" "string option" "bool option" "bool option"
  | AE_DELETED string
  | AE_AGENT_REGISTERED string string
  | AE_AGENT_CONNECTED string
  | AE_AGENT_DISCONNECTED string

record api_world =
  aw_app :: app_state
  aw_auth :: auth_db
  aw_audit :: "(string \<times> account_event) list"

record api_env =
  ae_link :: link_env
  ae_auth :: auth_lib
  ae_source :: auth_source
  ae_secret :: string
  ae_decimal :: "string \<Rightarrow> dec option"

definition api_uuid :: "api_env \<Rightarrow> string \<Rightarrow> string option" where
  "api_uuid env = cv_uuid (le_conv (ae_link env))"

definition api_now :: "api_env \<Rightarrow> instant" where "api_now env = le_now (ae_link env)"

definition internal_error :: http_error where "internal_error = Http 500 ''INTERNAL''"

definition not_found :: http_error where "not_found = Http 404 ''NOT_FOUND''"

definition log_account :: "string \<Rightarrow> account_event \<Rightarrow> api_world \<Rightarrow> api_world" where
  "log_account acc ev w = w\<lparr>aw_audit := aw_audit w @ [(acc, ev)]\<rparr>"

text \<open>The account table and the ownership read from it.\<close>

definition put_accounts :: "account_row list \<Rightarrow> api_world \<Rightarrow> api_world" where
  "put_accounts accs w =
     w\<lparr>aw_app := (aw_app w)\<lparr>ap_accounts := accs,
         ap_link := (ap_link (aw_app w))\<lparr>ld_accounts := map (\<lambda>a. (ta_id a, ta_user_id a)) accs\<rparr>\<rparr>\<rparr>"

definition put_link :: "link_db \<Rightarrow> api_world \<Rightarrow> api_world" where
  "put_link db w = w\<lparr>aw_app := (aw_app w)\<lparr>ap_link := db\<rparr>\<rparr>"

definition replace_account :: "account_row \<Rightarrow> account_row list \<Rightarrow> account_row list" where
  "replace_account a accs = map (\<lambda>x. if ta_id x = ta_id a then a else x) accs"

text \<open>The widths of the text columns, checked by the flush.\<close>

definition account_fits :: "account_row \<Rightarrow> bool" where
  "account_fits a \<longleftrightarrow>
     length (ta_label a) \<le> 100 \<and> length (ta_broker a) \<le> 100 \<and> length (ta_mt5_account_number a) \<le> 50
     \<and> (case ta_mt5_server a of None \<Rightarrow> True | Some t \<Rightarrow> length t \<le> 200) \<and> length (ta_broker_currency a) \<le> 20"

subsection \<open>Accounts\<close>

record create_account_request =
  ca_label :: string
  ca_broker :: string
  ca_mt5_account_number :: string
  ca_mt5_server :: "string option"
  ca_broker_currency :: string
  ca_is_cent_account :: bool
  ca_factor :: string

definition create_account_ok :: "create_account_request \<Rightarrow> bool" where
  "create_account_ok q \<longleftrightarrow>
     1 \<le> length (ca_label q) \<and> length (ca_label q) \<le> 100 \<and> 1 \<le> length (ca_broker q) \<and> length (ca_broker q) \<le> 100
     \<and> 1 \<le> length (ca_mt5_account_number q) \<and> length (ca_mt5_account_number q) \<le> 50
     \<and> (case ca_mt5_server q of None \<Rightarrow> True | Some t \<Rightarrow> length t \<le> 200) \<and> length (ca_broker_currency q) \<le> 20"

record patch_account_request =
  pa_label :: "string option"
  pa_mt5_server :: "string option"
  pa_broker_currency :: "string option"
  pa_mt5_account_number :: "string option"
  pa_is_active :: "bool option"
  pa_trading_enabled :: "bool option"

definition patch_account_ok :: "patch_account_request \<Rightarrow> bool" where
  "patch_account_ok q \<longleftrightarrow>
     (case pa_label q of None \<Rightarrow> True | Some t \<Rightarrow> 1 \<le> length t \<and> length t \<le> 100)"

record account_response =
  ar_row :: account_row
  ar_idr_conversion :: string

definition account_to_response :: "string option \<Rightarrow> account_row \<Rightarrow> account_response" where
  "account_to_response fx a =
     \<lparr>ar_row = a,
      ar_idr_conversion = (case fx of None \<Rightarrow> ''NOT_CONFIGURED''
                           | Some t \<Rightarrow> if t = [] then ''NOT_CONFIGURED'' else ''UNAVAILABLE'')\<rparr>"

text \<open>A malformed id makes \<open>_owned\<close> raise \<open>ValueError\<close>, which is not caught.\<close>

definition account_owned :: "api_env \<Rightarrow> string \<Rightarrow> string \<Rightarrow> api_world \<Rightarrow> http_error + account_row" where
  "account_owned env account_id user w =
     (case (api_uuid env account_id, api_uuid env user) of
        (Some a, Some u) \<Rightarrow>
          (case find (\<lambda>r. ta_id r = a \<and> ta_user_id r = u) (ap_accounts (aw_app w)) of
             None \<Rightarrow> Inl not_found | Some r \<Rightarrow> Inr r)
      | _ \<Rightarrow> Inl internal_error)"

definition accounts_of :: "string \<Rightarrow> api_world \<Rightarrow> account_row list" where
  "accounts_of u w = filter (\<lambda>a. ta_user_id a = u) (ap_accounts (aw_app w))"

definition list_accounts :: "api_env \<Rightarrow> string \<Rightarrow> api_world \<Rightarrow> http_error + account_row list" where
  "list_accounts env user w =
     (case api_uuid env user of
        None \<Rightarrow> Inl internal_error
      | Some u \<Rightarrow> Inr (sort_key ta_created_at (accounts_of u w)))"

definition http_of_license :: "license_error \<Rightarrow> http_error" where
  "http_of_license e = (if e = LicenseFault then internal_error else Http 400 ''LICENSE'')"

definition new_account :: "api_env \<Rightarrow> string \<Rightarrow> create_account_request \<Rightarrow> broker_adapter \<Rightarrow> dec \<Rightarrow> account_row" where
  "new_account env u q b f =
     \<lparr>ta_id = as_id (ae_source env), ta_user_id = u, ta_label = ca_label q, ta_broker = adapter_name b,
      ta_mt5_account_number = ca_mt5_account_number q, ta_mt5_server = ca_mt5_server q,
      ta_broker_currency = ca_broker_currency q, ta_is_cent_account = ca_is_cent_account q,
      ta_cent_normalization_factor = f, ta_is_active = True, ta_trading_enabled = False,
      ta_created_at = api_now env\<rparr>"

definition positive_factor :: "api_env \<Rightarrow> string \<Rightarrow> dec option" where
  "positive_factor env t =
     (case ae_decimal env t of None \<Rightarrow> None | Some f \<Rightarrow> if f \<le> 0 then None else Some f)"

definition create_account ::
  "api_env \<Rightarrow> string \<Rightarrow> create_account_request \<Rightarrow> api_world \<Rightarrow> (http_error + account_row) \<times> api_world" where
  "create_account env user q w =
     (if \<not> create_account_ok q then (Inl (Http 422 ''VALIDATION''), w)
      else case api_uuid env user of
        None \<Rightarrow> (Inl internal_error, w)
      | Some u \<Rightarrow>
          (case check_user_can_create_account (api_now env) (as_code (ae_source env)) u (ap_accounts (aw_app w))
                  (au_licenses (aw_auth w)) of
             (Inl e, _) \<Rightarrow> (Inl (http_of_license e), w)
           | (Inr (can, _), ls) \<Rightarrow>
               let w1 = w\<lparr>aw_auth := (aw_auth w)\<lparr>au_licenses := ls\<rparr>\<rparr>
               in if \<not> can then (Inl (Http 403 ''LICENSE_ACCOUNT_LIMIT_REACHED''), w1)
                  else (case normalize_broker_name (ca_broker q) of
                    None \<Rightarrow> (Inl (Http 400 ''UNSUPPORTED_BROKER''), w1)
                  | Some b \<Rightarrow>
                      (case positive_factor env (ca_factor q) of
                         None \<Rightarrow> (Inl (Http 422 ''INVALID_FACTOR''), w1)
                       | Some f \<Rightarrow>
                           let a = new_account env u q b f
                           in if ta_id a \<in> ta_id ` set (ap_accounts (aw_app w1)) then (Inl internal_error, w1)
                              else (Inr a, log_account (ta_id a) (AE_CREATED (ta_label a) (ta_broker a))
                                             (put_accounts (ap_accounts (aw_app w1) @ [a]) w1))))))"

definition get_account :: "api_env \<Rightarrow> string \<Rightarrow> string \<Rightarrow> api_world \<Rightarrow> http_error + account_row" where
  "get_account env user account_id w = account_owned env account_id user w"

definition patched :: "patch_account_request \<Rightarrow> account_row \<Rightarrow> account_row" where
  "patched q a =
     a\<lparr>ta_label := (case pa_label q of Some v \<Rightarrow> v | None \<Rightarrow> ta_label a),
       ta_mt5_server := (case pa_mt5_server q of Some v \<Rightarrow> Some v | None \<Rightarrow> ta_mt5_server a),
       ta_broker_currency := (case pa_broker_currency q of Some v \<Rightarrow> v | None \<Rightarrow> ta_broker_currency a),
       ta_mt5_account_number := (case pa_mt5_account_number q of Some v \<Rightarrow> v | None \<Rightarrow> ta_mt5_account_number a),
       ta_is_active := (case pa_is_active q of Some v \<Rightarrow> v | None \<Rightarrow> ta_is_active a),
       ta_trading_enabled := (case pa_trading_enabled q of Some v \<Rightarrow> v | None \<Rightarrow> ta_trading_enabled a)\<rparr>"

definition patch_changes :: "patch_account_request \<Rightarrow> bool" where
  "patch_changes q \<longleftrightarrow>
     pa_label q \<noteq> None \<or> pa_mt5_server q \<noteq> None \<or> pa_broker_currency q \<noteq> None
     \<or> pa_mt5_account_number q \<noteq> None \<or> pa_is_active q \<noteq> None \<or> pa_trading_enabled q \<noteq> None"

definition save_account :: "account_row \<Rightarrow> api_world \<Rightarrow> api_world" where
  "save_account a w = put_accounts (replace_account a (ap_accounts (aw_app w))) w"

definition patch_account ::
  "api_env \<Rightarrow> string \<Rightarrow> string \<Rightarrow> patch_account_request \<Rightarrow> api_world \<Rightarrow> (http_error + account_row) \<times> api_world" where
  "patch_account env user account_id q w =
     (if \<not> patch_account_ok q then (Inl (Http 422 ''VALIDATION''), w)
      else case account_owned env account_id user w of
        Inl e \<Rightarrow> (Inl e, w)
      | Inr a \<Rightarrow>
          let a' = patched q a
          in if \<not> account_fits a' then (Inl internal_error, w)
             else (Inr a',
                   (if patch_changes q
                    then log_account (ta_id a) (AE_UPDATED (pa_label q) (pa_mt5_server q) (pa_broker_currency q)
                           (pa_mt5_account_number q) (pa_is_active q) (pa_trading_enabled q)) (save_account a' w)
                    else w)))"

definition delete_account ::
  "api_env \<Rightarrow> string \<Rightarrow> string \<Rightarrow> api_world \<Rightarrow> (http_error + unit) \<times> api_world" where
  "delete_account env user account_id w =
     (case account_owned env account_id user w of
        Inl e \<Rightarrow> (Inl e, w)
      | Inr a \<Rightarrow>
          if ta_trading_enabled a then (Inl (Http 409 ''TRADING_ENABLED''), w)
          else (Inr (), log_account (ta_id a) (AE_DELETED (ta_label a))
                          (save_account (a\<lparr>ta_is_active := False\<rparr>) w)))"

subsection \<open>Verifying the agent of an account\<close>

fun nat_text :: "nat \<Rightarrow> string" where
  "nat_text n = (if n < 10 then [char_of (48 + n)] else nat_text (n div 10) @ [char_of (48 + n mod 10)])"

declare nat_text.simps [simp del]

definition int_text :: "int \<Rightarrow> string" where
  "int_text n = (if n < 0 then ''-'' @ nat_text (nat (- n)) else nat_text (nat n))"

datatype verify_reply =
    NO_AGENT
  | AGENT_IS_OFFLINE string
  | VERIFIED string string string bool bool
  | ACCOUNT_MISMATCH string string string
  | LINK_CONNECTED string

definition reply_verified :: "verify_reply \<Rightarrow> bool" where
  "reply_verified r = (case r of VERIFIED _ _ _ _ _ \<Rightarrow> True | LINK_CONNECTED _ \<Rightarrow> True | _ \<Rightarrow> False)"

text \<open>
  The first part either answers, or leaves a command to wait for.  After a delivery the code calls
  \<open>mark_command_sent\<close>, which the command service does not define: the raised \<open>AttributeError\<close> is caught.
\<close>

datatype verify_progress = Answer verify_reply | Wait_for agent_row account_row string

definition verify_agent_send ::
  "api_env \<Rightarrow> string \<Rightarrow> string \<Rightarrow> api_world \<Rightarrow> (http_error + verify_progress) \<times> api_world" where
  "verify_agent_send env user account_id w =
     (case account_owned env account_id user w of
        Inl e \<Rightarrow> (Inl e, w)
      | Inr a \<Rightarrow>
          (case filter (\<lambda>g. ag_account_id g = ta_id a) (ld_agents (ap_link (aw_app w))) of
             [] \<Rightarrow> (Inr (Answer NO_AGENT), w)
           | [g] \<Rightarrow>
               if \<not> am_is_connected (ag_id g) (ap_manager (aw_app w)) then (Inr (Answer (AGENT_IS_OFFLINE (ag_id g))), w)
               else (case create_command (le_codec (ae_link env)) (le_fresh (ae_link env)) (api_now env)
                            (Some (ta_user_id a), Some (ta_id a)) (ag_id g) ''GET_STATUS'' None (ap_link (aw_app w)) of
                       (Inl _, _) \<Rightarrow> (Inl internal_error, w)
                     | (Inr c, db) \<Rightarrow>
                         let w1 = put_link db w
                         in (case am_send_json (ae_link env) (ag_id g)
                                    (COMMAND (ac_id c) ''GET_STATUS'' (Some (\<lambda>_. None))) (ap_manager (aw_app w1)) of
                               (delivered, m) \<Rightarrow>
                                 (Inr (if delivered then Answer (LINK_CONNECTED (ag_id g)) else Wait_for g a (ac_id c)),
                                  w1\<lparr>aw_app := (aw_app w1)\<lparr>ap_manager := m\<rparr>\<rparr>)))
           | _ \<Rightarrow> (Inl internal_error, w)))"

text \<open>The login, server, currency and flags of a result; \<open>None\<close> when reading them raises.\<close>

definition terminal_status ::
  "json json_reading \<Rightarrow> json json_dict \<Rightarrow> (string \<times> string \<times> string \<times> bool \<times> bool) option" where
  "terminal_status j res =
     (case (case res ''login'' of None \<Rightarrow> Some 0 | Some v \<Rightarrow> jr_as_int j v) of
        None \<Rightarrow> None
      | Some login \<Rightarrow>
          Some (int_text login,
                (case res ''server'' of None \<Rightarrow> [] | Some v \<Rightarrow> jr_as_str j v),
                (case res ''currency'' of None \<Rightarrow> [] | Some v \<Rightarrow> jr_as_str j v),
                (case res ''trade_allowed'' of None \<Rightarrow> False | Some v \<Rightarrow> jr_truthy j v),
                (case res ''is_demo'' of None \<Rightarrow> False | Some v \<Rightarrow> jr_truthy j v)))"

definition synced_account :: "string \<Rightarrow> string \<Rightarrow> account_row \<Rightarrow> account_row" where
  "synced_account server currency a =
     a\<lparr>ta_mt5_server := (if server \<noteq> [] \<and> ta_mt5_server a \<noteq> Some server then Some server else ta_mt5_server a),
       ta_broker_currency :=
         (if currency \<noteq> [] \<and> ta_broker_currency a \<noteq> currency then currency else ta_broker_currency a)\<rparr>"

text \<open>The second part reads the row of the command when the wait ends; \<open>w\<close> is the state at that time.\<close>

definition verify_agent_finish ::
  "api_env \<Rightarrow> agent_row \<Rightarrow> account_row \<Rightarrow> string \<Rightarrow> api_world \<Rightarrow> verify_reply \<times> api_world" where
  "verify_agent_finish env g a cid w =
     (case find (\<lambda>c. ac_id c = cid) (ld_commands (ap_link (aw_app w))) of
        None \<Rightarrow> (LINK_CONNECTED (ag_id g), w)
      | Some c \<Rightarrow>
          (case (ac_status c, ac_result_json c) of
             (AC_COMPLETED, Some t) \<Rightarrow>
               if t = [] then (LINK_CONNECTED (ag_id g), w)
               else (case Option.bind (jc_loads (le_codec (ae_link env)) t) (terminal_status (le_reading (ae_link env))) of
                       None \<Rightarrow> (LINK_CONNECTED (ag_id g), w)
                     | Some (login, server, currency, allowed, demo) \<Rightarrow>
                         if login = ta_mt5_account_number a
                         then (let a' = synced_account server currency a
                               in if account_fits a' then (VERIFIED login server currency allowed demo, save_account a' w)
                                  else (LINK_CONNECTED (ag_id g), w))
                         else (ACCOUNT_MISMATCH login (ta_mt5_account_number a) server, w))
           | _ \<Rightarrow> (LINK_CONNECTED (ag_id g), w)))"

subsection \<open>Agents\<close>

record agent_response =
  gr_id :: string
  gr_account_id :: string
  gr_label :: string
  gr_last_known_status :: string
  gr_last_seen_at :: "instant option"
  gr_mt5_version :: "string option"
  gr_ea_version :: "string option"
  gr_notes :: "string option"

definition agent_to_response :: "agent_manager \<Rightarrow> agent_row \<Rightarrow> agent_response" where
  "agent_to_response m g =
     \<lparr>gr_id = ag_id g, gr_account_id = ag_account_id g, gr_label = ag_label g,
      gr_last_known_status = (if am_is_connected (ag_id g) m then ''CONNECTED'' else ag_last_known_status g),
      gr_last_seen_at = ag_last_seen_at g, gr_mt5_version = ag_mt5_version g,
      gr_ea_version = ag_ea_version g, gr_notes = ag_notes g\<rparr>"

text \<open>This module's ownership check answers 404 to a malformed id.\<close>

definition agent_account :: "api_env \<Rightarrow> string \<Rightarrow> string \<Rightarrow> api_world \<Rightarrow> http_error + account_row" where
  "agent_account env account_id user w =
     (case owned_account (le_conv (ae_link env)) account_id user (ap_accounts (aw_app w)) of
        None \<Rightarrow> Inl not_found | Some a \<Rightarrow> Inr a)"

record register_agent_request =
  ra_account_id :: string
  ra_label :: string
  ra_notes :: "string option"

definition register_agent_ok :: "register_agent_request \<Rightarrow> bool" where
  "register_agent_ok q \<longleftrightarrow>
     1 \<le> length (ra_label q) \<and> length (ra_label q) \<le> 100
     \<and> (case ra_notes q of None \<Rightarrow> True | Some t \<Rightarrow> length t \<le> 2000)"

definition register_agent ::
  "api_env \<Rightarrow> string \<Rightarrow> register_agent_request \<Rightarrow> api_world \<Rightarrow> (http_error + agent_response \<times> string) \<times> api_world" where
  "register_agent env user q w =
     (if \<not> register_agent_ok q then (Inl (Http 422 ''VALIDATION''), w)
      else case agent_account env (ra_account_id q) user w of
        Inl e \<Rightarrow> (Inl e, w)
      | Inr a \<Rightarrow>
          (case hash_password (ae_auth env) (as_salt (ae_source env)) (ae_secret env) of
             Inl _ \<Rightarrow> (Inl internal_error, w)
           | Inr h \<Rightarrow>
               let g = \<lparr>ag_id = as_id (ae_source env), ag_account_id = ta_id a, ag_label = ra_label q,
                        ag_hashed_secret = h, ag_last_seen_at = None, ag_last_known_status = ''UNKNOWN'',
                        ag_mt5_version = None, ag_ea_version = None, ag_notes = ra_notes q\<rparr>;
                   db = ap_link (aw_app w)
               in if ag_id g \<in> ag_id ` set (ld_agents db) then (Inl internal_error, w)
                  else (Inr (agent_to_response (ap_manager (aw_app w)) g, ae_secret env),
                        log_account (ta_id a) (AE_AGENT_REGISTERED (ag_id g) (ag_label g))
                          (put_link (db\<lparr>ld_agents := ld_agents db @ [g]\<rparr>) w))))"

definition list_agents :: "api_env \<Rightarrow> string \<Rightarrow> api_world \<Rightarrow> http_error + agent_response list" where
  "list_agents env user w =
     (case api_uuid env user of
        None \<Rightarrow> Inl internal_error
      | Some u \<Rightarrow>
          Inr (map (agent_to_response (ap_manager (aw_app w)))
                 (filter (\<lambda>g. ag_account_id g \<in> ta_id ` set (accounts_of u w)) (ld_agents (ap_link (aw_app w))))))"

definition get_agent :: "api_env \<Rightarrow> string \<Rightarrow> string \<Rightarrow> api_world \<Rightarrow> http_error + agent_response" where
  "get_agent env user agent_id w =
     bind_res (user_owns_agent (ae_link env) agent_id user (ap_link (aw_app w)))
       (\<lambda>g. Inr (agent_to_response (ap_manager (aw_app w)) g))"

definition heartbeat_ok :: "string option \<Rightarrow> string option \<Rightarrow> bool" where
  "heartbeat_ok mt5 ea \<longleftrightarrow>
     (case mt5 of None \<Rightarrow> True | Some t \<Rightarrow> length t \<le> 50) \<and> (case ea of None \<Rightarrow> True | Some t \<Rightarrow> length t \<le> 50)"

definition reported_statuses :: "string list" where
  "reported_statuses = [''CONNECTED'', ''ERROR'', ''DISCONNECTED'']"

definition heartbeat_status :: "string option \<Rightarrow> string" where
  "heartbeat_status st =
     map ascii_upper (case st of Some t \<Rightarrow> if t = [] then ''CONNECTED'' else t | None \<Rightarrow> ''CONNECTED'')"

definition status_event :: "string \<Rightarrow> string \<Rightarrow> string \<Rightarrow> account_event option" where
  "status_event label old new =
     (if new = ''CONNECTED'' \<and> old \<noteq> ''CONNECTED'' then Some (AE_AGENT_CONNECTED label)
      else if new = ''DISCONNECTED'' \<and> old \<noteq> ''DISCONNECTED'' then Some (AE_AGENT_DISCONNECTED label)
      else None)"

definition log_status :: "string \<Rightarrow> account_event option \<Rightarrow> api_world \<Rightarrow> api_world" where
  "log_status acc ev w = (case ev of None \<Rightarrow> w | Some e \<Rightarrow> log_account acc e w)"

definition heartbeat_row ::
  "instant \<Rightarrow> string \<Rightarrow> string option \<Rightarrow> string option \<Rightarrow> agent_row \<Rightarrow> agent_row" where
  "heartbeat_row now status mt5 ea g =
     g\<lparr>ag_last_seen_at := Some now, ag_last_known_status := status,
       ag_mt5_version := (case mt5 of Some v \<Rightarrow> Some v | None \<Rightarrow> ag_mt5_version g),
       ag_ea_version := (case ea of Some v \<Rightarrow> Some v | None \<Rightarrow> ag_ea_version g)\<rparr>"

text \<open>The agent's REST heartbeat: no credentials and no body are \<open>None\<close>.\<close>

definition agent_heartbeat ::
  "api_env \<Rightarrow> string \<Rightarrow> string option \<Rightarrow> string option \<Rightarrow> string option \<Rightarrow> string option \<Rightarrow> api_world
     \<Rightarrow> (http_error + string \<times> instant) \<times> api_world" where
  "agent_heartbeat env agent_id secret status mt5 ea w =
     (case secret of
        None \<Rightarrow> (Inl (Http 401 ''UNAUTHORIZED''), w)
      | Some sec \<Rightarrow>
          if sec = [] then (Inl (Http 401 ''UNAUTHORIZED''), w)
          else if \<not> heartbeat_ok mt5 ea then (Inl (Http 422 ''VALIDATION''), w)
          else (case api_uuid env agent_id of
            None \<Rightarrow> (Inl not_found, w)
          | Some u \<Rightarrow>
              (case find (\<lambda>g. ag_id g = u) (ld_agents (ap_link (aw_app w))) of
                 None \<Rightarrow> (Inl (Http 401 ''UNAUTHORIZED''), w)
               | Some g \<Rightarrow>
                   (case pl_verify (ae_auth env) sec (ag_hashed_secret g) of
                      None \<Rightarrow> (Inl internal_error, w)
                    | Some ok \<Rightarrow>
                        let st = heartbeat_status status
                        in if \<not> ok then (Inl (Http 401 ''UNAUTHORIZED''), w)
                           else if st \<notin> set reported_statuses then (Inl (Http 422 ''INVALID_STATUS''), w)
                           else (Inr (st, api_now env),
                                 log_status (ag_account_id g) (status_event (ag_label g) (ag_last_known_status g) st)
                                   (put_link (put_agent u (heartbeat_row (api_now env) st mt5 ea) (ap_link (aw_app w))) w))))))"

subsection \<open>Agent sessions (\<open>services/mt5_session.py\<close>)\<close>

definition agent_timeout_seconds :: int where "agent_timeout_seconds = (5000 * 3) div 1000"

definition process_agent_heartbeat ::
  "api_env \<Rightarrow> string \<Rightarrow> string \<Rightarrow> string option \<Rightarrow> string option \<Rightarrow> bool \<Rightarrow> api_world \<Rightarrow> agent_row option \<times> api_world" where
  "process_agent_heartbeat env agent_id account_id ea mt5 terminal_connected w =
     (case (api_uuid env agent_id, api_uuid env account_id) of
        (Some u, Some acc) \<Rightarrow>
          (case agent_with_owner u (ap_link (aw_app w)) of
             None \<Rightarrow> (None, w)
           | Some (g, _) \<Rightarrow>
               if ag_account_id g \<noteq> acc then (None, w)
               else (let st = (if terminal_connected then ''CONNECTED'' else ''DISCONNECTED'');
                         g' = heartbeat_row (api_now env) st mt5 ea g
                     in (Some g',
                         log_status acc
                           (if ag_last_known_status g \<noteq> st
                            then Some (if terminal_connected then AE_AGENT_CONNECTED (ag_label g)
                                       else AE_AGENT_DISCONNECTED (ag_label g))
                            else None)
                           (put_link (put_agent u (heartbeat_row (api_now env) st mt5 ea) (ap_link (aw_app w))) w))))
      | _ \<Rightarrow> (None, w))"

definition mark_agent_offline :: "api_env \<Rightarrow> string \<Rightarrow> api_world \<Rightarrow> api_world" where
  "mark_agent_offline env agent_id w =
     (case api_uuid env agent_id of
        None \<Rightarrow> w
      | Some u \<Rightarrow>
          (case find (\<lambda>g. ag_id g = u) (ld_agents (ap_link (aw_app w))) of
             None \<Rightarrow> w
           | Some g \<Rightarrow>
               if ag_last_known_status g = ''DISCONNECTED'' then w
               else log_account (ag_account_id g) (AE_AGENT_DISCONNECTED (ag_label g))
                      (put_link (put_agent u (\<lambda>a. a\<lparr>ag_last_known_status := ''DISCONNECTED''\<rparr>)
                                   (ap_link (aw_app w))) w)))"

record connection_state =
  ks_agent_id :: "string option"
  ks_status :: string
  ks_connected :: bool

text \<open>Agents are stored in the order of their creation: the newest is the last one.\<close>

definition newest_agent :: "string \<Rightarrow> link_db \<Rightarrow> agent_row option" where
  "newest_agent acc db =
     (case filter (\<lambda>g. ag_account_id g = acc) (ld_agents db) of [] \<Rightarrow> None | gs \<Rightarrow> Some (last gs))"

definition agent_is_stale :: "instant \<Rightarrow> agent_row \<Rightarrow> bool" where
  "agent_is_stale now g \<longleftrightarrow>
     (case ag_last_seen_at g of None \<Rightarrow> True | Some t \<Rightarrow> t < now - agent_timeout_seconds * 10 ^ 6)"

definition get_agent_connection_state :: "api_env \<Rightarrow> string \<Rightarrow> api_world \<Rightarrow> connection_state" where
  "get_agent_connection_state env account_id w =
     (case api_uuid env account_id of
        None \<Rightarrow> \<lparr>ks_agent_id = None, ks_status = ''INVALID_ACCOUNT_ID'', ks_connected = False\<rparr>
      | Some acc \<Rightarrow>
          (case newest_agent acc (ap_link (aw_app w)) of
             None \<Rightarrow> \<lparr>ks_agent_id = None, ks_status = ''NO_AGENT_REGISTERED'', ks_connected = False\<rparr>
           | Some g \<Rightarrow>
               let st = (if agent_is_stale (api_now env) g \<and> ag_last_known_status g = ''CONNECTED''
                         then ''STALE'' else ag_last_known_status g)
               in \<lparr>ks_agent_id = Some (ag_id g), ks_status = st, ks_connected = (st = ''CONNECTED'')\<rparr>))"

text \<open>The in-memory watchdog \<open>MT5SessionService\<close>.\<close>

record session_entry =
  se_account_id :: string
  se_status :: string
  se_account_number :: "string option"
  se_ea_version :: "string option"
  se_last_seen_at :: instant

record session_service =
  ss_timeout :: int
  ss_agents :: "(string \<times> session_entry) list"

definition new_session_service :: session_service where
  "new_session_service = \<lparr>ss_timeout = agent_timeout_seconds, ss_agents = []\<rparr>"

definition record_heartbeat ::
  "instant \<Rightarrow> string \<Rightarrow> string \<Rightarrow> string \<Rightarrow> string option \<Rightarrow> string option \<Rightarrow> session_service \<Rightarrow> bool \<times> session_service" where
  "record_heartbeat now ag acc status number ea sv =
     (True, sv\<lparr>ss_agents := AList.update ag
        \<lparr>se_account_id = acc, se_status = status, se_account_number = number, se_ea_version = ea,
         se_last_seen_at = now\<rparr> (ss_agents sv)\<rparr>)"

definition session_is_connected :: "instant \<Rightarrow> string \<Rightarrow> session_service \<Rightarrow> bool" where
  "session_is_connected now ag sv \<longleftrightarrow>
     (case map_of (ss_agents sv) ag of
        None \<Rightarrow> False
      | Some e \<Rightarrow> se_status e = ''CONNECTED'' \<and> now - se_last_seen_at e \<le> ss_timeout sv * 10 ^ 6)"

subsection \<open>Lemmas\<close>

text \<open>What a user sees: the accounts, and the agents with their commands.\<close>

definition owned_ids :: "string \<Rightarrow> api_world \<Rightarrow> string set" where
  "owned_ids u w = ta_id ` set (accounts_of u w)"

definition user_view :: "string \<Rightarrow> api_world \<Rightarrow> account_row list \<times> agent_row list" where
  "user_view u w =
     (accounts_of u w, filter (\<lambda>g. ag_account_id g \<in> owned_ids u w) (ld_agents (ap_link (aw_app w))))"

definition api_inv :: "api_world \<Rightarrow> bool" where
  "api_inv w \<longleftrightarrow> distinct (map ta_id (ap_accounts (aw_app w)))
     \<and> ld_accounts (ap_link (aw_app w)) = map (\<lambda>a. (ta_id a, ta_user_id a)) (ap_accounts (aw_app w))
     \<and> (\<forall>g \<in> set (ld_agents (ap_link (aw_app w))). ag_account_id g \<in> ta_id ` set (ap_accounts (aw_app w)))"

datatype api_op =
    O_list
  | O_create create_account_request
  | O_get string
  | O_patch string patch_account_request
  | O_delete string
  | O_verify string
  | O_register register_agent_request
  | O_agents
  | O_agent string

text \<open>
  A request of a user: the token names the user by its canonical id, which \<open>uuid.UUID\<close> reads as itself.
\<close>

fun api_request :: "api_env \<Rightarrow> string \<Rightarrow> api_op \<Rightarrow> api_world \<Rightarrow> api_world" where
  "api_request env user O_list w = w"
| "api_request env user (O_create q) w = snd (create_account env user q w)"
| "api_request env user (O_get a) w = w"
| "api_request env user (O_patch a q) w = snd (patch_account env user a q w)"
| "api_request env user (O_delete a) w = snd (delete_account env user a w)"
| "api_request env user (O_verify a) w = snd (verify_agent_send env user a w)"
| "api_request env user (O_register q) w = snd (register_agent env user q w)"
| "api_request env user O_agents w = w"
| "api_request env user (O_agent a) w = w"

definition api_step :: "string \<Rightarrow> api_env \<times> api_op \<Rightarrow> api_world \<Rightarrow> api_world" where
  "api_step user = (\<lambda>(env, op) w. if api_uuid env user = Some user then api_request env user op w else w)"

lemma put_accounts_simps [simp]:
  "ap_accounts (aw_app (put_accounts accs w)) = accs"
  "ld_agents (ap_link (aw_app (put_accounts accs w))) = ld_agents (ap_link (aw_app w))"
  "ld_accounts (ap_link (aw_app (put_accounts accs w))) = map (\<lambda>a. (ta_id a, ta_user_id a)) accs"
  by (simp_all add: put_accounts_def)

lemma put_link_simps [simp]:
  "ap_accounts (aw_app (put_link db w)) = ap_accounts (aw_app w)" "ap_link (aw_app (put_link db w)) = db"
  by (simp_all add: put_link_def)

lemma log_account_simps [simp]: "aw_app (log_account acc ev w) = aw_app w"
  by (simp add: log_account_def)

text \<open>Everything the isolation depends on: the accounts, the ownership table and the agents.\<close>

definition same_tables :: "api_world \<Rightarrow> api_world \<Rightarrow> bool" where
  "same_tables w w' \<longleftrightarrow> ap_accounts (aw_app w') = ap_accounts (aw_app w)
     \<and> ld_agents (ap_link (aw_app w')) = ld_agents (ap_link (aw_app w))
     \<and> ld_accounts (ap_link (aw_app w')) = ld_accounts (ap_link (aw_app w))"

lemma same_tables_keep: "same_tables w w' \<Longrightarrow> api_inv w \<Longrightarrow> api_inv w'" "same_tables w w' \<Longrightarrow> user_view u w' = user_view u w"
  by (simp_all add: same_tables_def api_inv_def user_view_def owned_ids_def accounts_of_def)

definition apart :: "string \<Rightarrow> api_world \<Rightarrow> api_world \<Rightarrow> bool" where
  "apart user w w' \<longleftrightarrow> api_inv w' \<and> (\<forall>u. u \<noteq> user \<longrightarrow> user_view u w' = user_view u w)"

lemma apart_refl: "api_inv w \<Longrightarrow> apart user w w"
  by (simp add: apart_def)

lemma apart_same: "api_inv w \<Longrightarrow> same_tables w w' \<Longrightarrow> apart user w w'"
  using same_tables_keep by (auto simp: apart_def)

lemma account_owned_mem:
  assumes "account_owned env account_id user w = Inr a" "api_uuid env user = Some user"
  shows "a \<in> set (ap_accounts (aw_app w))" "ta_user_id a = user"
proof -
  obtain i where "find (\<lambda>r. ta_id r = i \<and> ta_user_id r = user) (ap_accounts (aw_app w)) = Some a"
    using assms by (auto simp: account_owned_def simp del: find_Some_iff split: option.splits)
  from find_in [OF this] show "a \<in> set (ap_accounts (aw_app w))" "ta_user_id a = user" by auto
qed

lemma ids_distinct: "api_inv w \<Longrightarrow> a \<in> set (ap_accounts (aw_app w)) \<Longrightarrow> b \<in> set (ap_accounts (aw_app w))
    \<Longrightarrow> ta_id a = ta_id b \<Longrightarrow> a = b"
  by (auto simp: api_inv_def distinct_map inj_on_def)

lemma save_apart:
  assumes "api_inv w" "a \<in> set (ap_accounts (aw_app w))" "ta_user_id a = user"
    and "ta_id a' = ta_id a" "ta_user_id a' = user"
  shows "apart user w (save_account a' w)"
proof -
  let ?accs = "ap_accounts (aw_app w)"
  have ids: "map ta_id (replace_account a' ?accs) = map ta_id ?accs" by (simp add: replace_account_def)
  have "filter (\<lambda>a. ta_user_id a = u) (replace_account a' xs) = filter (\<lambda>a. ta_user_id a = u) xs"
    if "u \<noteq> user" "set xs \<subseteq> set ?accs" for u xs
    using that(2)
  proof (induction xs)
    case (Cons x xs)
    have "ta_user_id x = user" if "ta_id x = ta_id a'"
      using ids_distinct [OF assms(1) assms(2), of x] Cons.prems assms(3,4) that by auto
    with Cons \<open>u \<noteq> user\<close> assms(5) show ?case by (auto simp: replace_account_def)
  qed (simp add: replace_account_def)
  then have "accounts_of u (save_account a' w) = accounts_of u w" if "u \<noteq> user" for u
    using that by (simp add: accounts_of_def save_account_def)
  then have "user_view u (save_account a' w) = user_view u w" if "u \<noteq> user" for u
    using that by (simp add: user_view_def owned_ids_def) (simp add: save_account_def)
  moreover have "api_inv (save_account a' w)"
    using assms(1) ids by (simp add: api_inv_def save_account_def) (metis list.set_map)
  ultimately show ?thesis by (simp add: apart_def)
qed

lemma view_app: "aw_app w' = aw_app w \<Longrightarrow> user_view u w' = user_view u w"
  "aw_app w' = aw_app w \<Longrightarrow> api_inv w' = api_inv w"
  by (simp_all add: user_view_def owned_ids_def accounts_of_def api_inv_def)

lemma apart_app: "aw_app w' = aw_app w \<Longrightarrow> apart user w w1 \<Longrightarrow> apart user w' w1"
  using view_app(1) [of w' w] by (simp add: apart_def)

lemma add_account_apart:
  assumes "api_inv w" "ta_user_id a = user" "ta_id a \<notin> ta_id ` set (ap_accounts (aw_app w))"
  shows "apart user w (put_accounts (ap_accounts (aw_app w) @ [a]) w)"
  using assms by (auto simp: apart_def api_inv_def user_view_def owned_ids_def accounts_of_def)

lemma add_agent_apart:
  assumes "api_inv w" "a \<in> set (ap_accounts (aw_app w))" "ta_user_id a = user" "ag_account_id g = ta_id a"
  shows "apart user w (put_link ((ap_link (aw_app w))\<lparr>ld_agents := ld_agents (ap_link (aw_app w)) @ [g]\<rparr>) w)"
proof -
  have "ta_id a \<notin> owned_ids u w" if "u \<noteq> user" for u
    using ids_distinct [OF assms(1,2)] assms(3) that by (auto simp: owned_ids_def accounts_of_def)
  then show ?thesis
    using assms by (auto simp: apart_def api_inv_def user_view_def owned_ids_def accounts_of_def)
qed

lemma log_apart: "apart user w w1 \<Longrightarrow> apart user w (log_account acc ev w1)"
  using view_app [of "log_account acc ev w1" w1] by (simp add: apart_def)

lemma create_apart:
  assumes "api_inv w" "api_uuid env user = Some user"
  shows "apart user w (snd (create_account env user q w))"
proof -
  let ?w1 = "\<lambda>ls. w\<lparr>aw_auth := (aw_auth w)\<lparr>au_licenses := ls\<rparr>\<rparr>"
  have w1: "apart user w (?w1 ls)" for ls
    by (rule apart_same [OF assms(1)]) (simp add: same_tables_def)
  have inv1: "api_inv (?w1 ls)" for ls using w1 by (simp add: apart_def)
  have add: "apart user w (put_accounts (ap_accounts (aw_app w) @ [a]) (?w1 ls))"
    if "ta_user_id a = user" "ta_id a \<notin> ta_id ` set (ap_accounts (aw_app w))" for a ls
    using apart_app [OF _ add_account_apart [OF inv1 that(1), of ls]] that(2) by simp
  have row: "ta_user_id (new_account env user q b f) = user" for b f by (simp add: new_account_def)
  show ?thesis
    using assms(2) apart_refl [OF assms(1)] w1 add [OF row]
    by (auto simp: create_account_def Let_def intro!: log_apart split: option.splits sum.splits prod.splits)
qed

lemma verify_apart:
  assumes "api_inv w" shows "apart user w (snd (verify_agent_send env user' a w))"
proof -
  have cmd: "ld_agents db = ld_agents db0 \<and> ld_accounts db = ld_accounts db0"
    if "create_command j cid now who ag ty payload db0 = (r, db)" for j cid now who ag ty payload and db0 db :: link_db and r
    using that by (auto simp: create_command_def add_link_audit_def Let_def split: if_splits sum.splits)
  show ?thesis
    by (rule apart_same [OF assms])
      (auto simp: verify_agent_send_def same_tables_def put_link_def Let_def dest!: cmd
        split: sum.splits list.splits prod.splits)
qed

lemma register_apart:
  assumes "api_inv w" "api_uuid env user = Some user"
  shows "apart user w (snd (register_agent env user q w))"
proof -
  have mem: "a \<in> set (ap_accounts (aw_app w)) \<and> ta_user_id a = user"
    if "agent_account env acc user w = Inr a" for a acc
    using that assms(2) find_in
    by (fastforce simp: agent_account_def owned_account_def api_uuid_def simp del: find_Some_iff split: option.splits)
  show ?thesis
    using apart_refl [OF assms(1)] mem
    by (auto simp: register_agent_def Let_def intro!: log_apart add_agent_apart [OF assms(1)]
        split: sum.splits)
qed

lemma patch_apart:
  assumes "api_inv w" "api_uuid env user = Some user"
  shows "apart user w (snd (patch_account env user acc q w))"
  using apart_refl [OF assms(1)] account_owned_mem [OF _ assms(2)]
  by (auto simp: patch_account_def Let_def patched_def intro!: log_apart save_apart [OF assms(1)] split: sum.splits)

lemma delete_apart:
  assumes "api_inv w" "api_uuid env user = Some user"
  shows "apart user w (snd (delete_account env user acc w))"
  using apart_refl [OF assms(1)] account_owned_mem [OF _ assms(2)]
  by (auto simp: delete_account_def intro!: log_apart save_apart [OF assms(1)] split: sum.splits)

lemma step_apart: "api_inv w \<Longrightarrow> apart user w (api_step user op w)"
proof (cases "op")
  case (Pair env o1)
  assume inv: "api_inv w"
  show ?thesis
  proof (cases "api_uuid env user = Some user")
    case True
    then show ?thesis
      using inv Pair
      by (cases o1)
        (simp_all add: api_step_def apart_refl create_apart patch_apart delete_apart verify_apart register_apart)
  qed (simp add: api_step_def Pair inv apart_refl)
qed

interpretation users: tenant_isolation api_step user_view api_inv
  by unfold_locales (use step_apart in \<open>auto simp: apart_def\<close>)

text \<open>
  C32: users are isolated: whatever the other users request, in any number and order, a user's accounts
  and the agents registered for them stay as they were, and an account or an agent is only ever shown to
  the user who owns its account.
\<close>

theorem users_are_isolated:
  assumes "api_inv w" "list_all (\<lambda>(u, _). u \<noteq> user) ops"
  shows "user_view user (run_ops api_step ops w) = user_view user w
    \<and> (\<forall>env acc a. api_uuid env user = Some user \<and> get_account env user acc (run_ops api_step ops w) = Inr a
          \<longrightarrow> a \<in> set (accounts_of user w))
    \<and> (\<forall>env gid g. api_uuid env user = Some user \<and> get_agent env user gid (run_ops api_step ops w) = Inr g
          \<longrightarrow> gr_account_id g \<in> owned_ids user w)"
proof -
  let ?w = "run_ops api_step ops w"
  have view: "user_view user ?w = user_view user w" by (rule users.others_invisible [OF assms])
  have inv: "api_inv ?w" by (rule users.inv_run [OF assms(1)])
  have acc: "accounts_of user ?w = accounts_of user w" using view by (simp add: user_view_def)
  have "a \<in> set (accounts_of user w)"
    if "api_uuid env user = Some user" "get_account env user acc0 ?w = Inr a" for env acc0 a
    using account_owned_mem [OF that(2) [unfolded get_account_def] that(1)] unfolding acc [symmetric]
    by (simp add: accounts_of_def)
  moreover have "gr_account_id g \<in> owned_ids user w"
    if u: "api_uuid env user = Some user" "get_agent env user gid ?w = Inr g" for env gid g
  proof -
    obtain r where r: "user_owns_agent (ae_link env) gid user (ap_link (aw_app ?w)) = Inr r"
      "gr_account_id g = ag_account_id r"
      using u(2) by (auto simp: get_agent_def agent_to_response_def elim!: bind_res_InrE)
    then have "map_of (ld_accounts (ap_link (aw_app ?w))) (ag_account_id r) = Some user"
      using u(1) by (auto simp: user_owns_agent_def api_uuid_def agent_with_owner_def bind_eq_Some_conv
          split: option.splits if_splits)
    then have "(ag_account_id r, user) \<in> set (ld_accounts (ap_link (aw_app ?w)))" by (rule map_of_SomeD)
    then have "ag_account_id r \<in> owned_ids user ?w"
      using inv by (auto simp: api_inv_def owned_ids_def accounts_of_def)
    then show ?thesis by (simp add: r(2) owned_ids_def acc)
  qed
  ultimately show ?thesis using view by blast
qed

definition demo_api_app :: app_state where
  "demo_api_app = demo_app\<lparr>ap_link := (lk_db demo_link)
     \<lparr>ld_accounts := [(''acc'', ''user'')],
      ld_agents := [\<lparr>ag_id = ''agent'', ag_account_id = ''acc'', ag_label = ''ea'', ag_hashed_secret = ''s'',
         ag_last_seen_at = None, ag_last_known_status = ''UNKNOWN'', ag_mt5_version = None,
         ag_ea_version = None, ag_notes = None\<rparr>]\<rparr>\<rparr>"

definition demo_api_world :: api_world where
  "demo_api_world = \<lparr>aw_app = demo_api_app, aw_auth = demo_users, aw_audit = []\<rparr>"

definition demo_api_env :: api_env where
  "demo_api_env = \<lparr>ae_link = demo_link_env 7 True, ae_auth = demo_lib, ae_source = demo_auth_source ''new'',
     ae_secret = ''top'', ae_decimal = (\<lambda>_. Some 1)\<rparr>"

lemma demo_api_inv: "api_inv demo_api_world"
  by (simp add: api_inv_def demo_api_world_def demo_api_app_def demo_app_def)

theorem users_are_isolated_witness:
  "user_view ''user'' (run_ops api_step [(''eve'', demo_api_env, O_delete ''acc'')] demo_api_world)
     = user_view ''user'' demo_api_world"
  by (rule conjunct1 [OF users_are_isolated [OF demo_api_inv]]) simp

text \<open>
  the verification of an agent trusts any open socket: when the agent of the account is connected
  and its socket takes the message, the answer is that the account is verified, before the terminal has
  said which account it runs, and the status command it sent is left pending, to be delivered again.
\<close>

theorem verify_agent_trusts_socket:
  assumes "account_owned env account_id user w = Inr a"
    and "filter (\<lambda>g. ag_account_id g = ta_id a) (ld_agents (ap_link (aw_app w))) = [g]"
    and "map_of (am_active (ap_manager (aw_app w))) (ag_id g) = Some ws"
    and "le_up (ae_link env) ws (length (am_log (ap_manager (aw_app w))))"
    and "le_fresh (ae_link env) \<notin> ac_id ` set (ld_commands (ap_link (aw_app w)))"
  shows "\<exists>r w'. verify_agent_send env user account_id w = (Inr (Answer r), w') \<and> reply_verified r
    \<and> am_log (ap_manager (aw_app w')) = am_log (ap_manager (aw_app w))
        @ [(ws, COMMAND (le_fresh (ae_link env)) ''GET_STATUS'' (Some (\<lambda>_. None)))]
    \<and> (\<exists>c \<in> set (ld_commands (ap_link (aw_app w'))).
         ac_id c = le_fresh (ae_link env) \<and> ac_agent_id c = ag_id g \<and> ac_status c = AC_PENDING)"
proof -
  have ty: "map ascii_upper ''GET_STATUS'' = ''GET_STATUS''" by code_simp
  have cmd: "create_command (le_codec (ae_link env)) (le_fresh (ae_link env)) (api_now env)
      (Some (ta_user_id a), Some (ta_id a)) (ag_id g) ''GET_STATUS'' None (ap_link (aw_app w))
    = (Inr (new_command (le_fresh (ae_link env)) (api_now env) (ag_id g) ''GET_STATUS'' None),
       add_link_audit (ag_id g) (Some (ta_user_id a), Some (ta_id a))
         (AGENT_COMMAND_CREATED (le_fresh (ae_link env)) ''GET_STATUS'')
         ((ap_link (aw_app w))\<lparr>ld_commands := ld_commands (ap_link (aw_app w))
            @ [new_command (le_fresh (ae_link env)) (api_now env) (ag_id g) ''GET_STATUS'' None]\<rparr>))"
    using assms(5) unfolding create_command_def ty
    by (simp add: supported_command_types_def dump_optional_def Let_def)
  have id: "ac_id (new_command i t ag ty p) = i" "ac_agent_id (new_command i t ag ty p) = ag"
    "ac_status (new_command i t ag ty p) = AC_PENDING" for i t ag ty p by (simp_all add: new_command_def)
  show ?thesis
    using assms(1-4)
    by (simp add: verify_agent_send_def cmd id am_is_connected_def am_send_json_def ws_send_def put_link_def
        reply_verified_def)
qed

theorem verify_agent_trusts_socket_witness:
  "\<exists>r w'. verify_agent_send demo_api_env ''user'' ''acc'' demo_api_world = (Inr (Answer r), w') \<and> reply_verified r"
proof -
  let ?a = "hd (ap_accounts demo_app)"
  let ?g = "hd (ld_agents (ap_link demo_api_app))"
  have own: "account_owned demo_api_env ''acc'' ''user'' demo_api_world = Inr ?a"
    by (simp add: account_owned_def api_uuid_def demo_api_env_def demo_link_env_def demo_conversions_def
        demo_api_world_def demo_api_app_def demo_app_def)
  show ?thesis
    using verify_agent_trusts_socket [OF own, of ?g 7]
    by (auto simp: demo_api_world_def demo_api_app_def demo_app_def demo_api_env_def demo_link_env_def
        demo_link_def demo_queued_def new_command_def)
qed

text \<open>The connection state fails closed: connected means a fresh sign of life of the newest agent.\<close>

theorem connection_state_connected:
  "ks_connected (get_agent_connection_state env account_id w) \<longleftrightarrow>
     (\<exists>acc g t. api_uuid env account_id = Some acc \<and> newest_agent acc (ap_link (aw_app w)) = Some g
        \<and> ag_last_known_status g = ''CONNECTED'' \<and> ag_last_seen_at g = Some t
        \<and> api_now env - 15 * 10 ^ 6 \<le> t)"
  by (auto simp: get_agent_connection_state_def agent_is_stale_def agent_timeout_seconds_def Let_def
      split: option.splits)

theorem session_connected:
  "session_is_connected now ag (snd (record_heartbeat t ag acc status number ea new_session_service))
     \<longleftrightarrow> status = ''CONNECTED'' \<and> now - t \<le> 15 * 10 ^ 6"
  by (simp add: session_is_connected_def record_heartbeat_def new_session_service_def agent_timeout_seconds_def)

end
