(* ===== verification/Live_Events.thy ===== *)
theory Live_Events
  imports Agent_Protocol
begin

section \<open>Realtime event schemas (\<open>ws/events.py\<close>)\<close>

text \<open>
  The envelope of every event sent to a browser, and its constructors.  \<open>vs_timestamp\<close> and \<open>vs_fresh\<close>
  are the defaults of one call: the text of the clock and a fresh uuid.  A payload is a JSON object.
\<close>

record live_event =
  ev_kind :: string
  ev_version :: nat
  ev_timestamp :: string
  ev_correlation_id :: string
  ev_account :: "string option"
  ev_payload :: "(string \<times> json) list"

record event_source =
  vs_timestamp :: string
  vs_fresh :: string

definition live_event_kinds :: "string list" where
  "live_event_kinds =
     [''ACCOUNT_UPDATED'', ''POSITION_UPDATED'', ''TRADE_UPDATED'', ''PNL_UPDATED'', ''SIGNAL_CREATED'',
      ''COMMAND_CREATED'', ''COMMAND_UPDATED'', ''RISK_STATE_CHANGED'', ''MT5_CONNECTED'', ''MT5_DISCONNECTED'',
      ''SYSTEM_ALERT'']"

definition new_event ::
  "event_source \<Rightarrow> string \<Rightarrow> string option \<Rightarrow> string option \<Rightarrow> (string \<times> json) list \<Rightarrow> live_event" where
  "new_event src kind account correlation_id payload =
     \<lparr>ev_kind = kind, ev_version = 1, ev_timestamp = vs_timestamp src,
      ev_correlation_id = choose_correlation_id correlation_id (vs_fresh src), ev_account = account,
      ev_payload = payload\<rparr>"

definition opt_text :: "string option \<Rightarrow> json" where
  "opt_text v = (case v of Some s \<Rightarrow> J_str s | None \<Rightarrow> J_null)"

definition text_or :: "string option \<Rightarrow> string \<Rightarrow> json" where
  "text_or v d = J_str (case v of Some s \<Rightarrow> if s = [] then d else s | None \<Rightarrow> d)"

definition make_risk_state_changed_event ::
  "event_source \<Rightarrow> string \<Rightarrow> string \<Rightarrow> bool \<Rightarrow> string option \<Rightarrow> string option \<Rightarrow> live_event" where
  "make_risk_state_changed_event src acc state allowed block_reason cid =
     new_event src ''RISK_STATE_CHANGED'' (Some acc) cid
       [(''state'', J_str state), (''trading_allowed'', J_bool allowed), (''block_reason'', opt_text block_reason)]"

definition make_mt5_connected_event :: "event_source \<Rightarrow> string \<Rightarrow> string \<Rightarrow> string option \<Rightarrow> live_event" where
  "make_mt5_connected_event src acc agent version =
     new_event src ''MT5_CONNECTED'' (Some acc) None
       [(''agent_id'', J_str agent), (''mt5_version'', opt_text version)]"

definition make_mt5_disconnected_event :: "event_source \<Rightarrow> string \<Rightarrow> string \<Rightarrow> string option \<Rightarrow> live_event" where
  "make_mt5_disconnected_event src acc agent reason =
     new_event src ''MT5_DISCONNECTED'' (Some acc) None
       [(''agent_id'', J_str agent), (''reason'', opt_text reason)]"

definition make_system_alert_event :: "event_source \<Rightarrow> string \<Rightarrow> string \<Rightarrow> string option \<Rightarrow> live_event" where
  "make_system_alert_event src message severity account =
     new_event src ''SYSTEM_ALERT'' account None [(''message'', J_str message), (''severity'', J_str severity)]"

record signal_notice =
  sn_signal_id :: string
  sn_symbol :: string
  sn_direction :: string
  sn_regime :: "string option"
  sn_setup_type :: "string option"
  sn_confidence_score :: "string option"
  sn_expires_at :: "string option"

definition make_signal_created_event ::
  "event_source \<Rightarrow> string option \<Rightarrow> signal_notice \<Rightarrow> string option \<Rightarrow> live_event" where
  "make_signal_created_event src account n cid =
     new_event src ''SIGNAL_CREATED'' account cid
       [(''signal_id'', J_str (sn_signal_id n)), (''symbol'', J_str (sn_symbol n)),
        (''direction'', J_str (sn_direction n)), (''regime'', opt_text (sn_regime n)),
        (''setup_type'', opt_text (sn_setup_type n)), (''confidence_score'', opt_text (sn_confidence_score n)),
        (''expires_at'', opt_text (sn_expires_at n))]"

record command_notice =
  cn_command_id :: string
  cn_action :: string
  cn_symbol :: string
  cn_order_type :: string
  cn_volume_lots :: string
  cn_price :: "string option"

definition make_command_created_event ::
  "event_source \<Rightarrow> string \<Rightarrow> command_notice \<Rightarrow> string option \<Rightarrow> live_event" where
  "make_command_created_event src acc n cid =
     new_event src ''COMMAND_CREATED'' (Some acc) cid
       [(''command_id'', J_str (cn_command_id n)), (''action'', J_str (cn_action n)),
        (''symbol'', J_str (cn_symbol n)), (''order_type'', J_str (cn_order_type n)),
        (''volume_lots'', J_str (cn_volume_lots n)), (''price'', opt_text (cn_price n))]"

record update_notice =
  un_command_id :: string
  un_status :: string
  un_broker_ticket :: "int option"
  un_fill_price :: "string option"
  un_fill_volume_lots :: "string option"

definition make_command_updated_event ::
  "event_source \<Rightarrow> string \<Rightarrow> update_notice \<Rightarrow> string option \<Rightarrow> live_event" where
  "make_command_updated_event src acc n cid =
     new_event src ''COMMAND_UPDATED'' (Some acc) cid
       [(''command_id'', J_str (un_command_id n)), (''status'', J_str (un_status n)),
        (''broker_ticket'', (case un_broker_ticket n of Some k \<Rightarrow> J_int k | None \<Rightarrow> J_null)),
        (''fill_price'', opt_text (un_fill_price n)), (''fill_volume_lots'', opt_text (un_fill_volume_lots n))]"

record position_notice =
  pn_broker_ticket :: int
  pn_symbol :: string
  pn_side :: string
  pn_lots :: string
  pn_open_price :: string
  pn_current_price :: "string option"
  pn_stop_loss :: "string option"
  pn_take_profit :: "string option"
  pn_unrealized_pnl_usd :: "string option"
  pn_status :: string

definition make_position_updated_event ::
  "event_source \<Rightarrow> string \<Rightarrow> position_notice \<Rightarrow> string option \<Rightarrow> live_event" where
  "make_position_updated_event src acc n cid =
     new_event src ''POSITION_UPDATED'' (Some acc) cid
       [(''broker_ticket'', J_int (pn_broker_ticket n)), (''symbol'', J_str (pn_symbol n)),
        (''side'', J_str (pn_side n)), (''lots'', J_str (pn_lots n)), (''open_price'', J_str (pn_open_price n)),
        (''current_price'', text_or (pn_current_price n) (pn_open_price n)),
        (''stop_loss'', opt_text (pn_stop_loss n)), (''take_profit'', opt_text (pn_take_profit n)),
        (''unrealized_pnl_usd'', text_or (pn_unrealized_pnl_usd n) ''0.00''), (''status'', J_str (pn_status n))]"

lemmas event_constructors =
  make_risk_state_changed_event_def make_mt5_connected_event_def make_mt5_disconnected_event_def
  make_system_alert_event_def make_signal_created_event_def make_command_created_event_def
  make_command_updated_event_def make_position_updated_event_def

text \<open>Every constructor but two names the account it is given; all keep a correlation id they are given.\<close>

lemma constructed_account [simp]:
  "ev_account (make_risk_state_changed_event src acc st al br cid) = Some acc"
  "ev_account (make_mt5_connected_event src acc ag v) = Some acc"
  "ev_account (make_mt5_disconnected_event src acc ag v) = Some acc"
  "ev_account (make_command_created_event src acc cn cid) = Some acc"
  "ev_account (make_command_updated_event src acc un cid) = Some acc"
  "ev_account (make_position_updated_event src acc pn cid) = Some acc"
  "ev_account (make_signal_created_event src oacc sn cid) = oacc"
  "ev_account (make_system_alert_event src msg sev oacc) = oacc"
  by (simp_all add: event_constructors new_event_def)

lemma constructed_kind:
  "ev_kind (make_risk_state_changed_event src acc st al br cid) \<in> set live_event_kinds"
  "ev_kind (make_mt5_connected_event src acc ag v) \<in> set live_event_kinds"
  "ev_kind (make_mt5_disconnected_event src acc ag v) \<in> set live_event_kinds"
  "ev_kind (make_command_created_event src acc cn cid) \<in> set live_event_kinds"
  "ev_kind (make_command_updated_event src acc un cid) \<in> set live_event_kinds"
  "ev_kind (make_position_updated_event src acc pn cid) \<in> set live_event_kinds"
  "ev_kind (make_signal_created_event src oacc sn cid) \<in> set live_event_kinds"
  "ev_kind (make_system_alert_event src msg sev oacc) \<in> set live_event_kinds"
  by (simp_all add: event_constructors new_event_def live_event_kinds_def)

end
