(* ===== verification/Realtime.thy ===== *)
theory Realtime
  imports Auth Strategy_Api Live_Events
begin

section \<open>Realtime events (\<open>ws/manager.py\<close>, \<open>api/v1/websocket.py\<close>)\<close>

text \<open>
  The registry of event sockets and the endpoint that fills it.  Sets of sockets are lists without
  repetition, iterated in insertion order; \<open>up\<close> says whether a socket takes the next message.  The endpoint's local variables are its session.
\<close>

record connection_manager =
  cm_accounts :: "(string \<times> nat list) list"
  cm_global :: "nat list"
  cm_log :: "(nat \<times> live_event) list"

definition new_manager :: connection_manager where
  "new_manager = \<lparr>cm_accounts = [], cm_global = [], cm_log = []\<rparr>"

definition sockets_of :: "string \<Rightarrow> connection_manager \<Rightarrow> nat list" where
  "sockets_of acc m = (case map_of (cm_accounts m) acc of Some ws \<Rightarrow> ws | None \<Rightarrow> [])"

definition set_sockets :: "string \<Rightarrow> nat list \<Rightarrow> connection_manager \<Rightarrow> connection_manager" where
  "set_sockets acc ws m = m\<lparr>cm_accounts := AList.update acc ws (cm_accounts m)\<rparr>"

definition cm_connect :: "nat \<Rightarrow> string option \<Rightarrow> connection_manager \<Rightarrow> connection_manager" where
  "cm_connect ws account m =
     (case account of
        Some acc \<Rightarrow>
          if acc = [] then m\<lparr>cm_global := List.insert ws (cm_global m)\<rparr>
          else set_sockets acc (List.insert ws (sockets_of acc m)) m
      | None \<Rightarrow> m\<lparr>cm_global := List.insert ws (cm_global m)\<rparr>)"

definition cm_disconnect :: "nat \<Rightarrow> string option \<Rightarrow> connection_manager \<Rightarrow> connection_manager" where
  "cm_disconnect ws account m =
     (let m' = (case account of
                  Some acc \<Rightarrow> if acc = [] then m else set_sockets acc (remove1 ws (sockets_of acc m)) m
                | None \<Rightarrow> m)
      in m'\<lparr>cm_global := remove1 ws (cm_global m')\<rparr>)"

text \<open>Sending to a list of sockets: what is logged, and the dead ones.\<close>

fun send_each ::
  "(nat \<Rightarrow> nat \<Rightarrow> bool) \<Rightarrow> live_event \<Rightarrow> nat list \<Rightarrow> (nat \<times> live_event) list \<Rightarrow> (nat \<times> live_event) list \<times> nat list" where
  "send_each up ev [] lg = (lg, [])"
| "send_each up ev (ws # rest) lg =
     (if up ws (length lg) then send_each up ev rest (lg @ [(ws, ev)])
      else (case send_each up ev rest lg of (lg', dead) \<Rightarrow> (lg', ws # dead)))"

definition send_to_account ::
  "(nat \<Rightarrow> nat \<Rightarrow> bool) \<Rightarrow> string \<Rightarrow> live_event \<Rightarrow> connection_manager \<Rightarrow> connection_manager" where
  "send_to_account up acc ev m =
     (case send_each up ev (sockets_of acc m) (cm_log m) of
        (lg, dead) \<Rightarrow>
          (let m' = m\<lparr>cm_log := lg\<rparr>
           in if dead = [] then m'
              else set_sockets acc (filter (\<lambda>ws. ws \<notin> set dead) (sockets_of acc m)) m'))"

definition send_to_all_global ::
  "(nat \<Rightarrow> nat \<Rightarrow> bool) \<Rightarrow> live_event \<Rightarrow> connection_manager \<Rightarrow> connection_manager" where
  "send_to_all_global up ev m =
     (case send_each up ev (cm_global m) (cm_log m) of
        (lg, dead) \<Rightarrow> m\<lparr>cm_log := lg, cm_global := filter (\<lambda>ws. ws \<notin> set dead) (cm_global m)\<rparr>)"

definition broadcast_event ::
  "(nat \<Rightarrow> nat \<Rightarrow> bool) \<Rightarrow> live_event \<Rightarrow> connection_manager \<Rightarrow> connection_manager" where
  "broadcast_event up ev m =
     (let m1 = (case ev_account ev of
                  Some acc \<Rightarrow> if acc = [] then m else send_to_account up acc ev m
                | None \<Rightarrow> m)
      in if ev_kind ev = ''SYSTEM_ALERT'' \<or> ev_account ev = None then send_to_all_global up ev m1 else m1)"

definition event_connection_count :: "connection_manager \<Rightarrow> nat" where
  "event_connection_count m = length (cm_global m) + sum_list (map (\<lambda>(_, ws). length ws) (cm_accounts m))"

subsection \<open>The endpoint\<close>

datatype ws_refusal = NO_TOKEN | NO_ACCOUNT_ID | REFUSED | WS_CRASHED

text \<open>
  The account table is \<open>None\<close> when no session is given.  \<open>None\<close> is a failed authorization; a missing
  secret raises.
\<close>

definition resolve_and_authorize ::
  "auth_lib \<Rightarrow> conversions \<Rightarrow> instant \<Rightarrow> string option \<Rightarrow> string option \<Rightarrow> account_row list option
     \<Rightarrow> token_error + (string \<times> string) option" where
  "resolve_and_authorize lib cv now token account accs =
     (case (claim_text token, claim_text account) of
        (Some t, Some acc) \<Rightarrow>
          (case decode_access_token lib now t of
             Inl SecretMissing \<Rightarrow> Inl SecretMissing
           | Inl TokenError \<Rightarrow> Inr None
           | Inr c \<Rightarrow>
               (case claim_text (cl_sub c) of
                  None \<Rightarrow> Inr None
                | Some user \<Rightarrow>
                    (case accs of
                       None \<Rightarrow> Inr (Some (user, acc))
                     | Some rows \<Rightarrow>
                         (case owned_account cv acc user rows of
                            None \<Rightarrow> Inr None | Some _ \<Rightarrow> Inr (Some (user, acc))))))
      | _ \<Rightarrow> Inr None)"

record event_session =
  es_socket :: nat
  es_user :: string
  es_account :: string

definition websocket_accept ::
  "auth_lib \<Rightarrow> conversions \<Rightarrow> instant \<Rightarrow> nat \<Rightarrow> string option \<Rightarrow> string option \<Rightarrow> account_row list
     \<Rightarrow> connection_manager \<Rightarrow> (ws_refusal + event_session) \<times> connection_manager" where
  "websocket_accept lib cv now ws token account rows m =
     (if claim_text token = None then (Inl NO_TOKEN, m)
      else if claim_text account = None then (Inl NO_ACCOUNT_ID, m)
      else case resolve_and_authorize lib cv now token account (Some rows) of
        Inl _ \<Rightarrow> (Inl WS_CRASHED, m)
      | Inr None \<Rightarrow> (Inl REFUSED, m)
      | Inr (Some (user, acc)) \<Rightarrow>
          (Inr \<lparr>es_socket = ws, es_user = user, es_account = acc\<rparr>, cm_connect ws (Some acc) m))"

text \<open>Client messages are discarded; the end of the connection runs \<open>disconnect\<close>.\<close>

definition websocket_end :: "event_session \<Rightarrow> connection_manager \<Rightarrow> connection_manager" where
  "websocket_end s m = cm_disconnect (es_socket s) (Some (es_account s)) m"

subsection \<open>Runs\<close>

text \<open>The sessions of a run are kept, ended or not.\<close>

record live_state =
  lv_manager :: connection_manager
  lv_sessions :: "event_session list"

datatype live_op =
    V_open instant nat "string option" "string option" "account_row list"
  | V_end event_session
  | V_broadcast "nat \<Rightarrow> nat \<Rightarrow> bool" live_event

fun live_step :: "auth_lib \<Rightarrow> conversions \<Rightarrow> live_op \<Rightarrow> live_state \<Rightarrow> live_state" where
  "live_step lib cv (V_open now ws token account rows) s =
     (case websocket_accept lib cv now ws token account rows (lv_manager s) of
        (Inl _, m) \<Rightarrow> s\<lparr>lv_manager := m\<rparr>
      | (Inr e, m) \<Rightarrow> s\<lparr>lv_manager := m, lv_sessions := lv_sessions s @ [e]\<rparr>)"
| "live_step lib cv (V_end e) s = s\<lparr>lv_manager := websocket_end e (lv_manager s)\<rparr>"
| "live_step lib cv (V_broadcast up ev) s = s\<lparr>lv_manager := broadcast_event up ev (lv_manager s)\<rparr>"

definition run_live :: "auth_lib \<Rightarrow> conversions \<Rightarrow> live_op list \<Rightarrow> live_state" where
  "run_live lib cv ops =
     foldl (\<lambda>s op. live_step lib cv op s) \<lparr>lv_manager = new_manager, lv_sessions = []\<rparr> ops"

subsection \<open>Lemmas\<close>

lemma sockets_of_set [simp]:
  "sockets_of a (set_sockets b ws m) = (if a = b then ws else sockets_of a m)"
  "cm_log (set_sockets b ws m) = cm_log m" "cm_global (set_sockets b ws m) = cm_global m"
  by (simp_all add: sockets_of_def set_sockets_def update_conv')

lemma sockets_of_other [simp]:
  "sockets_of a (m\<lparr>cm_log := lg\<rparr>) = sockets_of a m" "sockets_of a (m\<lparr>cm_global := g\<rparr>) = sockets_of a m"
  by (simp_all add: sockets_of_def)

lemma send_each_log: "send_each up ev ws lg = (lg', dead) \<Longrightarrow> set lg' \<subseteq> set lg \<union> set ws \<times> {ev}"
proof (induction up ev ws lg arbitrary: lg' dead rule: send_each.induct)
  case (2 up ev w rest lg)
  then show ?case by (fastforce split: if_splits prod.splits)
qed simp

text \<open>The request that opened a socket for an account, with a token of its owner.\<close>

definition opened :: "auth_lib \<Rightarrow> conversions \<Rightarrow> live_op list \<Rightarrow> nat \<Rightarrow> string \<Rightarrow> bool" where
  "opened lib cv ops ws acc \<longleftrightarrow>
     (\<exists>now tok rows c user a. V_open now ws (Some tok) (Some acc) rows \<in> set ops
        \<and> decode_access_token lib now tok = Inr c \<and> cl_sub c = Some user
        \<and> owned_account cv acc user rows = Some a)"

definition live_inv :: "auth_lib \<Rightarrow> conversions \<Rightarrow> live_op list \<Rightarrow> connection_manager \<Rightarrow> bool" where
  "live_inv lib cv ops m \<longleftrightarrow> cm_global m = []
     \<and> (\<forall>acc. \<forall>ws \<in> set (sockets_of acc m). opened lib cv ops ws acc)
     \<and> (\<forall>(ws, ev) \<in> set (cm_log m). \<exists>acc. ev_account ev = Some acc \<and> opened lib cv ops ws acc)"

lemma live_inv_more: "live_inv lib cv ops m \<Longrightarrow> live_inv lib cv (ops @ [op]) m"
  unfolding live_inv_def opened_def set_append by blast

lemma accept_cases:
  assumes "websocket_accept lib cv now ws token account rows m = (r, m')"
  shows "m' = m \<or> (\<exists>tok acc c user a. token = Some tok \<and> account = Some acc \<and> acc \<noteq> []
    \<and> decode_access_token lib now tok = Inr c \<and> cl_sub c = Some user \<and> owned_account cv acc user rows = Some a
    \<and> m' = cm_connect ws (Some acc) m)"
  using assms
  by (auto simp: websocket_accept_def resolve_and_authorize_def claim_text_Some
      split: option.splits if_splits sum.splits token_error.splits)

lemma live_inv_connect:
  "live_inv lib cv ops m \<Longrightarrow> opened lib cv ops ws acc \<Longrightarrow> acc \<noteq> [] \<Longrightarrow> live_inv lib cv ops (cm_connect ws (Some acc) m)"
  by (auto simp: live_inv_def cm_connect_def)

lemma live_inv_disconnect: "live_inv lib cv ops m \<Longrightarrow> live_inv lib cv ops (cm_disconnect ws acc m)"
  by (auto simp: live_inv_def cm_disconnect_def Let_def split: option.splits dest: notin_set_remove1 set_remove1_subset [THEN subsetD])

lemma live_inv_send:
  assumes "live_inv lib cv ops m" "ev_account ev = Some acc"
  shows "live_inv lib cv ops (send_to_account up acc ev m)"
proof -
  obtain lg dead where s: "send_each up ev (sockets_of acc m) (cm_log m) = (lg, dead)"
    by (cases "send_each up ev (sockets_of acc m) (cm_log m)")
  have "\<exists>a. ev_account e = Some a \<and> opened lib cv ops ws a" if "(ws, e) \<in> set lg" for ws e
    using that send_each_log [OF s] assms unfolding live_inv_def by fastforce
  then show ?thesis
    using assms(1) by (auto simp: send_to_account_def s live_inv_def Let_def)
qed

lemma live_inv_global: "live_inv lib cv ops m \<Longrightarrow> live_inv lib cv ops (send_to_all_global up ev m)"
  by (auto simp: live_inv_def send_to_all_global_def)

lemma live_inv_run: "live_inv lib cv ops (lv_manager (run_live lib cv ops))"
proof (induction ops rule: rev_induct)
  case Nil
  then show ?case by (simp add: run_live_def live_inv_def new_manager_def sockets_of_def)
next
  case (snoc op ops)
  let ?s = "run_live lib cv ops"
  have inv: "live_inv lib cv (ops @ [op]) (lv_manager ?s)" using snoc by (rule live_inv_more)
  have "live_inv lib cv (ops @ [op]) (lv_manager (live_step lib cv op ?s))"
  proof (cases op)
    case (V_open now ws token account rows)
    obtain r m where acc: "websocket_accept lib cv now ws token account rows (lv_manager ?s) = (r, m)"
      by (cases "websocket_accept lib cv now ws token account rows (lv_manager ?s)")
    have "live_inv lib cv (ops @ [op]) m"
      using accept_cases [OF acc]
    proof
      assume "\<exists>tok ac c user a. token = Some tok \<and> account = Some ac \<and> ac \<noteq> []
        \<and> decode_access_token lib now tok = Inr c \<and> cl_sub c = Some user \<and> owned_account cv ac user rows = Some a
        \<and> m = cm_connect ws (Some ac) (lv_manager ?s)"
      then obtain tok ac c user a where g: "token = Some tok" "account = Some ac" "ac \<noteq> []"
        "decode_access_token lib now tok = Inr c" "cl_sub c = Some user" "owned_account cv ac user rows = Some a"
        "m = cm_connect ws (Some ac) (lv_manager ?s)" by blast
      then have "opened lib cv (ops @ [op]) ws ac" unfolding opened_def V_open by fastforce
      then show ?thesis unfolding g(7) by (rule live_inv_connect [OF inv _ g(3)])
    qed (use inv in simp)
    then show ?thesis by (cases r) (simp_all add: V_open acc)
  next
    case (V_end e)
    then show ?thesis using live_inv_disconnect [OF inv] by (simp add: websocket_end_def)
  next
    case (V_broadcast up ev)
    then show ?thesis
      using inv by (auto simp: broadcast_event_def Let_def intro!: live_inv_global live_inv_send split: option.splits)
  qed
  then show ?case by (simp add: run_live_def)
qed

text \<open>
  C33: events reach the owner of their account only: in any run of the endpoint and the broadcasts,
  whenever a socket is handed an event, the event names an account, and that socket was opened for
  exactly this account with a valid access token of a user who owned it then.  In particular an event
  that names no account, such as a system-wide alert, is handed to no one.
\<close>

theorem events_reach_owners:
  assumes "(ws, ev) \<in> set (cm_log (lv_manager (run_live lib cv ops)))"
  shows "\<exists>acc now tok rows c user a. ev_account ev = Some acc \<and> V_open now ws (Some tok) (Some acc) rows \<in> set ops
    \<and> decode_access_token lib now tok = Inr c \<and> cl_sub c = Some user \<and> owned_account cv acc user rows = Some a"
  using live_inv_run [of lib cv ops] assms unfolding live_inv_def opened_def by blast

definition demo_alert :: live_event where
  "demo_alert = make_system_alert_event \<lparr>vs_timestamp = ''t'', vs_fresh = ''c''\<rparr> ''restart'' ''WARNING'' None"

definition demo_update :: live_event where
  "demo_update = make_mt5_connected_event \<lparr>vs_timestamp = ''t'', vs_fresh = ''c''\<rparr> ''acc'' ''agent'' None"

definition demo_live_ops :: "live_op list" where
  "demo_live_ops =
     [V_open 0 7 (Some ''aj'') (Some ''acc'') [\<lparr>ta_id = ''acc'', ta_user_id = ''u1'', ta_label = ''demo'',
        ta_broker = ''HFM'', ta_mt5_account_number = ''1'', ta_mt5_server = None, ta_broker_currency = ''USD'',
        ta_is_cent_account = False, ta_cent_normalization_factor = 1, ta_is_active = True,
        ta_trading_enabled = False, ta_created_at = 0\<rparr>],
      V_broadcast (\<lambda>_ _. True) demo_alert,
      V_broadcast (\<lambda>_ _. True) demo_update]"

theorem events_reach_owners_witness:
  "\<exists>now tok rows c user a. V_open now 7 (Some tok) (Some ''acc'') rows \<in> set demo_live_ops
    \<and> decode_access_token demo_lib now tok = Inr c \<and> cl_sub c = Some user
    \<and> owned_account demo_conversions ''acc'' user rows = Some a"
proof -
  have events: "ev_account demo_alert = None" "ev_account demo_update = Some ''acc''"
    "ev_kind demo_update = ''MT5_CONNECTED''"
    by (simp_all add: demo_alert_def demo_update_def make_mt5_connected_event_def new_event_def)
  have "cm_log (lv_manager (run_live demo_lib demo_conversions demo_live_ops))
      = [(7, demo_update)]"
    by (simp add: demo_live_ops_def run_live_def websocket_accept_def resolve_and_authorize_def claim_text_def
        auth_demo_simps owned_account_def demo_conversions_def cm_connect_def broadcast_event_def
        send_to_account_def send_to_all_global_def new_manager_def set_sockets_def sockets_of_def events)
  then have "(7, demo_update)
      \<in> set (cm_log (lv_manager (run_live demo_lib demo_conversions demo_live_ops)))" by simp
  from events_reach_owners [OF this] show ?thesis by (simp add: events)
qed

end
