(* ===== verification/Read_Api.thy ===== *)
theory Read_Api
  imports Strategy_Api
begin

section \<open>Read endpoints (\<open>api/v1/stubs.py\<close>, \<open>api/v1/market_data_routes.py\<close>)\<close>

text \<open>
  What the operator's pages read: market state, charts, the decision of the risk gate, and the
  summaries of risk, brain, signals, positions, commands and performance.  The handlers of \<open>stubs.py\<close>
  answer a constant when anything raises; a reply is \<open>None\<close> in that case.  Numbers are given before
  they are formatted; fixed texts and notes are left out.
\<close>

definition canonical_symbol :: string where "canonical_symbol = ''XAUUSD''"

subsection \<open>Market data\<close>

record market_state =
  mk_status :: string
  mk_is_fresh :: bool
  mk_age_ms :: "int option"
  mk_tick :: "tick_entry option"

definition put_market :: "market_store \<Rightarrow> strategy_world \<Rightarrow> strategy_world" where
  "put_market m w = w\<lparr>sw_app := (sw_app w)\<lparr>ap_market := m\<rparr>\<rparr>"

definition api_market_state ::
  "strategy_env \<Rightarrow> string \<Rightarrow> string \<Rightarrow> strategy_world \<Rightarrow> (http_error + market_state) \<times> strategy_world" where
  "api_market_state env user account_id w =
     (case verify_account_ownership (api_conv env) account_id user w of
        Inl e \<Rightarrow> (Inl e, w)
      | Inr a \<Rightarrow>
          (case get_latest_market_data (le_redis (sv_link env)) (sv_freshness_now env) (ta_id a) canonical_symbol
                  (ap_market (sw_app w)) of
             (tick, m) \<Rightarrow>
               (case evaluate_freshness (sv_freshness_now env) tick 2000 of
                  (fresh, code, age) \<Rightarrow>
                    (Inr \<lparr>mk_status = code, mk_is_fresh = fresh, mk_age_ms = age, mk_tick = tick\<rparr>,
                     put_market m w))))"

definition api_risk_decision ::
  "strategy_env \<Rightarrow> string \<Rightarrow> string \<Rightarrow> strategy_world \<Rightarrow> (http_error + gate_output) \<times> strategy_world" where
  "api_risk_decision env user account_id w =
     (case verify_account_ownership (api_conv env) account_id user w of
        Inl e \<Rightarrow> (Inl e, w)
      | Inr a \<Rightarrow>
          (case evaluate_risk_gate (sv_gate env) (ta_id a) canonical_symbol None None (sw_app w) of
             (out, app) \<Rightarrow> (Inr out, w\<lparr>sw_app := app\<rparr>)))"

definition chart_timeframes :: "string list" where
  "chart_timeframes = [''M1'', ''M5'', ''M15'', ''M30'', ''H1'', ''H4'', ''D1'']"

definition chart_timeframe :: "string \<Rightarrow> string" where
  "chart_timeframe tf = (let t = norm_timeframe tf in if t \<in> set chart_timeframes then t else ''M15'')"

definition limit_bars :: "int \<Rightarrow> bar_entry list \<Rightarrow> bar_entry list" where
  "limit_bars limit bars =
     (if 0 < limit \<and> limit < int (length bars) then last_n (nat limit) bars else bars)"

record chart =
  ch_timeframe :: string
  ch_bars :: "bar_entry list"

text \<open>
  Both charts read the stored bars and fall back to M15 when the timeframe has none; \<open>read\<close> is the
  lookup of the store.
\<close>

definition chart_of ::
  "(string \<Rightarrow> market_store \<Rightarrow> bar_entry list \<times> market_store) \<Rightarrow> string \<Rightarrow> int \<Rightarrow> market_store
     \<Rightarrow> chart \<times> market_store" where
  "chart_of read timeframe limit m =
     (let tf = chart_timeframe timeframe
      in case read tf m of
           (bars, m1) \<Rightarrow>
             (if bars = [] \<and> tf \<noteq> ''M15''
              then (case read ''M15'' m1 of
                      (m15, m2) \<Rightarrow>
                        (\<lparr>ch_timeframe = (if m15 = [] then tf else ''M15''), ch_bars = limit_bars limit m15\<rparr>, m2))
              else (\<lparr>ch_timeframe = tf, ch_bars = limit_bars limit bars\<rparr>, m1)))"

definition api_global_chart ::
  "strategy_env \<Rightarrow> string \<Rightarrow> int \<Rightarrow> strategy_world \<Rightarrow> chart \<times> strategy_world" where
  "api_global_chart env timeframe limit w =
     (case chart_of (get_symbol_closed_bars (le_redis (sv_link env)) (sv_freshness_now env) canonical_symbol)
             timeframe limit (ap_market (sw_app w)) of
        (c, m) \<Rightarrow> (c, put_market m w))"

definition api_account_chart ::
  "strategy_env \<Rightarrow> string \<Rightarrow> string \<Rightarrow> string \<Rightarrow> int \<Rightarrow> strategy_world
     \<Rightarrow> (http_error + chart) \<times> strategy_world" where
  "api_account_chart env user account_id timeframe limit w =
     (case verify_account_ownership (api_conv env) account_id user w of
        Inl e \<Rightarrow> (Inl e, w)
      | Inr a \<Rightarrow>
          (case chart_of (get_stored_closed_bars (le_redis (sv_link env)) (sv_freshness_now env) (ta_id a) canonical_symbol)
                  timeframe limit (ap_market (sw_app w)) of
             (c, m) \<Rightarrow> (Inr c, put_market m w)))"

subsection \<open>Risk and brain\<close>

text \<open>The parameters shown are constants, whatever is configured.\<close>

record shown_parameters =
  sh_daily_loss_limit :: "dec option"
  sh_max_drawdown :: "dec option"
  sh_max_open_positions :: "int option"
  sh_default_lot_size :: "dec option"

record risk_page =
  rp_trading_allowed :: bool
  rp_block_reason :: "gate_reason option"
  rp_parameters :: shown_parameters

definition shown_when_owned :: shown_parameters where
  "shown_when_owned = \<lparr>sh_daily_loss_limit = Some 50, sh_max_drawdown = Some 100,
     sh_max_open_positions = Some 1, sh_default_lot_size = Some (1 / 100)\<rparr>"

definition api_risk_state ::
  "strategy_env \<Rightarrow> string \<Rightarrow> string \<Rightarrow> strategy_world \<Rightarrow> risk_page option \<times> strategy_world" where
  "api_risk_state env user account_id w =
     (case owned_account (api_conv env) account_id user (ap_accounts (sw_app w)) of
        None \<Rightarrow> (None, w)
      | Some a \<Rightarrow>
          (case evaluate_risk_gate (sv_gate env) (ta_id a) canonical_symbol None None (sw_app w) of
             (out, app) \<Rightarrow>
               (Some \<lparr>rp_trading_allowed = (go_decision out = ALLOW),
                      rp_block_reason = (if go_decision out = ALLOW then None else Some (go_reason_code out)),
                      rp_parameters = shown_when_owned\<rparr>,
                w\<lparr>sw_app := app\<rparr>)))"

text \<open>Whether a word in capitals occurs in the text of a summary.\<close>

fun regime_name :: "regime \<Rightarrow> string" where
  "regime_name TREND_UP = ''TREND_UP''"
| "regime_name TREND_DOWN = ''TREND_DOWN''"
| "regime_name RANGE = ''RANGE''"
| "regime_name TRANSITION = ''TRANSITION''"
| "regime_name HIGH_VOLATILITY = ''HIGH_VOLATILITY''"
| "regime_name UNKNOWN_REGIME = ''UNKNOWN''"

definition summary_mentions :: "string \<Rightarrow> market_summary option \<Rightarrow> bool" where
  "summary_mentions word s \<longleftrightarrow>
     (case s of
        Some (BlockedByNews t) \<Rightarrow> sublist word t
      | Some (BlockedByRegime r) \<Rightarrow> sublist word (regime_name r)
      | _ \<Rightarrow> False)"

record brain_page =
  bp_brain_state :: string
  bp_strategy_id :: string
  bp_strategy_version :: string
  bp_regime :: string
  bp_trend :: string
  bp_live_trading_enabled :: bool
  bp_reason :: "market_summary option"
  bp_bars_count :: nat

definition brain_page_of :: "strategy_row \<Rightarrow> nat \<Rightarrow> brain_page" where
  "brain_page_of r n =
     \<lparr>bp_brain_state = (if 50 \<le> n \<or> sy_enabled r then ''READY'' else ''WARMING_UP''),
      bp_strategy_id = sy_strategy_id r, bp_strategy_version = sy_strategy_version r,
      bp_regime = (if summary_mentions ''TRANSITION'' (sy_last_signal_reason r) then ''TRANSITION''
                   else if summary_mentions ''RANGE'' (sy_last_signal_reason r) then ''RANGE''
                   else ''TREND_UP''),
      bp_trend = (if sy_last_signal_direction r = Some ''BUY'' then ''BULLISH''
                  else if sy_last_signal_direction r = Some ''SELL'' then ''BEARISH'' else ''NEUTRAL''),
      bp_live_trading_enabled = (sy_enabled r \<and> \<not> sy_dry_run r),
      bp_reason = sy_last_signal_reason r, bp_bars_count = n\<rparr>"

text \<open>
  The token is only required to be valid: its user is not used.  Creating the row of an account that
  does not exist violates a foreign key and falls back to the constant reply.
\<close>

definition api_brain_state ::
  "strategy_env \<Rightarrow> string \<Rightarrow> string \<Rightarrow> strategy_world \<Rightarrow> brain_page option \<times> strategy_world" where
  "api_brain_state env user account_id w =
     (case cv_uuid (api_conv env) account_id of
        None \<Rightarrow> (None, w)
      | Some acc \<Rightarrow>
          if strategy_state acc w = None \<and> acc \<notin> ta_id ` set (ap_accounts (sw_app w)) then (None, w)
          else (case get_or_create_strategy_state acc w of
                  (r, w1) \<Rightarrow>
                    (case stored_bars env acc ''M15'' w1 of
                       (bars, w2) \<Rightarrow> (Some (brain_page_of r (length bars)), w2))))"

subsection \<open>Lists\<close>

definition user_account_ids :: "strategy_env \<Rightarrow> string \<Rightarrow> strategy_world \<Rightarrow> string set" where
  "user_account_ids env user w =
     (case cv_uuid (api_conv env) user of
        None \<Rightarrow> {}
      | Some u \<Rightarrow> ta_id ` set (filter (\<lambda>a. ta_user_id a = u) (ap_accounts (sw_app w))))"

text \<open>\<open>ORDER BY key DESC LIMIT n\<close>.\<close>

definition newest :: "('a \<Rightarrow> int) \<Rightarrow> nat \<Rightarrow> 'a list \<Rightarrow> 'a list" where
  "newest key n xs = take n (sort_key (\<lambda>x. - key x) xs)"

definition some_rows :: "'a list \<Rightarrow> 'a list option" where
  "some_rows xs = (if xs = [] then None else Some xs)"

definition api_signals :: "strategy_env \<Rightarrow> string \<Rightarrow> strategy_world \<Rightarrow> signal_row list option" where
  "api_signals env user w =
     some_rows (newest sg_generated_at 50
       (filter (\<lambda>s. sg_account_id s \<in> user_account_ids env user w) (td_signals (ap_trade (sw_app w)))))"

record position_page =
  pp_symbol :: string
  pp_direction :: string
  pp_volume_lots :: dec
  pp_open_price :: dec
  pp_shown_price :: dec
  pp_floating_pnl :: dec
  pp_status :: string
  pp_ticket :: int

text \<open>\<open>p.close_price or p.open_price\<close>; the floating result is the text \<open>"0.00"\<close>.\<close>

definition position_page_of :: "db_position \<Rightarrow> position_page" where
  "position_page_of p =
     \<lparr>pp_symbol = dp_symbol p, pp_direction = dp_side p, pp_volume_lots = dp_lots p,
      pp_open_price = dp_open_price p,
      pp_shown_price = or_default (dp_close_price p) (dp_open_price p), pp_floating_pnl = 0,
      pp_status = dp_status p, pp_ticket = dp_broker_ticket p\<rparr>"

definition user_positions :: "strategy_env \<Rightarrow> string \<Rightarrow> strategy_world \<Rightarrow> db_position list" where
  "user_positions env user w =
     filter (\<lambda>p. dp_account_id p \<in> user_account_ids env user w) (xd_positions (td_exec (ap_trade (sw_app w))))"

text \<open>The status, the rows and the number of open ones.\<close>

definition api_positions :: "strategy_env \<Rightarrow> string \<Rightarrow> strategy_world \<Rightarrow> (string \<times> position_page list \<times> nat) option" where
  "api_positions env user w =
     map_option (\<lambda>ps.
       let k = length (filter (\<lambda>p. dp_status p = ''OPEN'') ps)
       in (if 0 < k then ''OPEN'' else ''CLOSED'', map position_page_of ps, k))
       (some_rows (newest dp_opened_at 100 (user_positions env user w)))"

record command_page =
  cp_id :: string
  cp_action :: string
  cp_symbol :: json
  cp_side :: "json option"
  cp_volume :: json
  cp_status :: string

definition command_page_of :: "json json_codec \<Rightarrow> agent_command \<Rightarrow> command_page" where
  "command_page_of j c =
     (let payload = (case ac_payload_json c of
                       None \<Rightarrow> (\<lambda>_. None)
                     | Some s \<Rightarrow> if s = [] then (\<lambda>_. None)
                                 else (case jc_loads j s of Some d \<Rightarrow> d | None \<Rightarrow> (\<lambda>_. None)))
      in \<lparr>cp_id = ac_id c, cp_action = ac_command_type c,
          cp_symbol = (case payload ''symbol'' of Some v \<Rightarrow> v | None \<Rightarrow> J_str ''XAUUSD''),
          cp_side = payload ''side'',
          cp_volume = (case payload ''volume'' of Some v \<Rightarrow> v | None \<Rightarrow> J_str ''0.01''),
          cp_status = status_text (ac_status c)\<rparr>)"

definition api_commands :: "strategy_env \<Rightarrow> string \<Rightarrow> strategy_world \<Rightarrow> command_page list option" where
  "api_commands env user w =
     (let db = ap_link (sw_app w);
          agents = ag_id ` set (filter (\<lambda>g. ag_account_id g \<in> user_account_ids env user w) (ld_agents db))
      in map_option (map (command_page_of (le_codec (sv_link env))))
           (some_rows (newest ac_created_at 50 (filter (\<lambda>c. ac_agent_id c \<in> agents) (ld_commands db)))))"

subsection \<open>Performance\<close>

definition day_of :: "instant option \<Rightarrow> int" where
  "day_of t = (case t of Some x \<Rightarrow> x div (86400 * 10 ^ 6) | None \<Rightarrow> 20707)"

definition close_price_of :: "db_position \<Rightarrow> dec" where
  "close_price_of p = or_default (dp_close_price p) 0"

definition position_won :: "db_position \<Rightarrow> bool" where
  "position_won p \<longleftrightarrow> close_price_of p \<noteq> 0 \<and> dp_open_price p \<noteq> 0
     \<and> (dp_side p = ''BUY'' \<and> dp_open_price p < close_price_of p
        \<or> dp_side p = ''SELL'' \<and> close_price_of p < dp_open_price p)"

definition position_pnl :: "db_position \<Rightarrow> dec" where
  "position_pnl p =
     (if close_price_of p \<noteq> 0 \<and> dp_open_price p \<noteq> 0
      then let diff = (if dp_side p = ''BUY'' then dsub (close_price_of p) (dp_open_price p)
                       else dsub (dp_open_price p) (close_price_of p))
           in dmul (dmul diff (or_default (Some (dp_lots p)) (1 / 100))) 100
      else 0)"

definition add_day :: "(int \<times> dec) list \<Rightarrow> db_position \<Rightarrow> (int \<times> dec) list" where
  "add_day days p =
     (let d = day_of (dp_closed_at p)
      in AList.update d (dadd (case map_of days d of Some x \<Rightarrow> x | None \<Rightarrow> 0) (position_pnl p)) days)"

record performance =
  pf_total_trades :: nat
  pf_wins :: nat
  pf_total_pnl :: dec
  pf_daily :: "(int \<times> dec) list"

text \<open>
  The amounts on the page are the texts \<open>f"{x:.2f}"\<close>, kept as the numbers they show: the nearest
  hundredth, ties to even.  The win rate is kept as its two counts; a day is its number since 1970.
\<close>

definition two_places :: "dec \<Rightarrow> dec" where
  "two_places x = of_int (rhe (x * 100)) / 100"

definition performance_of :: "db_position list \<Rightarrow> performance" where
  "performance_of ps =
     \<lparr>pf_total_trades = length ps, pf_wins = length (filter position_won ps),
      pf_total_pnl = two_places (foldl (\<lambda>t p. dadd t (position_pnl p)) 0 ps),
      pf_daily = map (\<lambda>(d, v). (d, two_places v)) (sort_key fst (foldl add_day [] ps))\<rparr>"

definition api_performance :: "strategy_env \<Rightarrow> string \<Rightarrow> strategy_world \<Rightarrow> performance option" where
  "api_performance env user w =
     map_option performance_of
       (some_rows (filter (\<lambda>p. dp_status p = ''CLOSED'') (user_positions env user w)))"

subsection \<open>Lemmas\<close>

text \<open>Amounts on a grid of \<open>10 ^ (- 10)\<close> whose size is bounded: sums of them are exact.\<close>

definition on_grid :: "int \<Rightarrow> dec \<Rightarrow> bool" where
  "on_grid b x \<longleftrightarrow> (\<exists>n. x * 10 ^ 10 = of_int n \<and> \<bar>n\<bar> \<le> b)"

lemma on_grid_0: "0 \<le> b \<Longrightarrow> on_grid b 0"
  by (auto simp: on_grid_def)

lemma on_grid_add: "on_grid a x \<Longrightarrow> on_grid b y \<Longrightarrow> on_grid (a + b) (x + y)"
  unfolding on_grid_def
proof (elim exE conjE)
  fix n m assume "x * 10 ^ 10 = of_int n" "\<bar>n\<bar> \<le> a" "y * 10 ^ 10 = of_int m" "\<bar>m\<bar> \<le> b"
  then show "\<exists>k. (x + y) * 10 ^ 10 = of_int k \<and> \<bar>k\<bar> \<le> a + b"
    by (intro exI [of _ "n + m"]) (auto simp: distrib_right)
qed

lemma on_grid_exact:
  assumes "on_grid b x" "b \<le> 10 ^ 28" shows "dctx x = x"
proof -
  obtain n where n: "x * 10 ^ 10 = of_int n" "\<bar>n\<bar> \<le> b" using assms(1) unfolding on_grid_def by blast
  then have "\<bar>n\<bar> \<le> 10 ^ 28" using assms(2) by linarith
  from dctx_fits [OF dec_fits_scaled [OF n(1) this]] show ?thesis .
qed

lemma dadd_grid:
  assumes "on_grid a x" "on_grid b y" "a + b \<le> 10 ^ 28" shows "dadd x y = x + y"
  using on_grid_exact [OF on_grid_add [OF assms(1,2)] assms(3)] by (simp add: dadd_def)

lemma on_grid_sum:
  "(\<And>p. p \<in> set ps \<Longrightarrow> on_grid b (f p)) \<Longrightarrow> 0 \<le> b \<Longrightarrow> on_grid (int (length ps) * b) (\<Sum>p\<leftarrow>ps. f p)"
proof (induction ps)
  case (Cons p ps)
  then have "on_grid (b + int (length ps) * b) (f p + (\<Sum>p\<leftarrow>ps. f p))" by (intro on_grid_add) auto
  then show ?case by (simp add: algebra_simps)
qed (simp add: on_grid_0)

lemma on_grid_mono: "on_grid a x \<Longrightarrow> a \<le> b \<Longrightarrow> on_grid b x"
  by (force simp: on_grid_def)

lemma sum_update:
  fixes al :: "(int \<times> dec) list"
  shows "distinct (map fst al) \<Longrightarrow> sum_list (map snd (AList.update d v al))
    = sum_list (map snd al) - (case map_of al d of Some x \<Rightarrow> x | None \<Rightarrow> 0) + v"
  by (induction al) (auto simp: map_of_eq_None_iff split: option.splits)

definition pnl_on_day :: "int \<Rightarrow> db_position list \<Rightarrow> dec" where
  "pnl_on_day d ps = (\<Sum>p\<leftarrow>filter (\<lambda>p. day_of (dp_closed_at p) = d) ps. position_pnl p)"

lemma sum_list_insort: "sum_list (map f (insort_key k x xs)) = f x + sum_list (map (f :: 'a \<Rightarrow> dec) xs)"
  by (induction xs) auto

lemma sum_list_sort_key: "sum_list (map (f :: 'a \<Rightarrow> dec) (sort_key k xs)) = sum_list (map f xs)"
  by (induction xs) (simp_all add: sort_key_def sum_list_insort)

lemma pnl_on_day_snoc: "pnl_on_day d (ps @ [p])
    = pnl_on_day d ps + (if day_of (dp_closed_at p) = d then position_pnl p else 0)"
  by (simp add: pnl_on_day_def)

lemma pnl_on_day_grid:
  assumes "\<And>p. p \<in> set ps \<Longrightarrow> on_grid b (position_pnl p)" "0 \<le> b"
  shows "on_grid (int (length ps) * b) (pnl_on_day d ps)"
proof -
  let ?qs = "filter (\<lambda>p. day_of (dp_closed_at p) = d) ps"
  have "on_grid (int (length ?qs) * b) (pnl_on_day d ps)"
    unfolding pnl_on_day_def using assms by (intro on_grid_sum) auto
  moreover have "int (length ?qs) * b \<le> int (length ps) * b"
    using assms(2) length_filter_le [of _ ps] by (intro mult_right_mono) simp_all
  ultimately show ?thesis by (rule on_grid_mono)
qed

text \<open>What the fold over the closed positions has built after each of them.\<close>

definition books_days :: "(int \<times> dec) list \<Rightarrow> db_position list \<Rightarrow> bool" where
  "books_days days ps \<longleftrightarrow> distinct (map fst days)
     \<and> (\<forall>d. map_of days d = (if \<exists>p \<in> set ps. day_of (dp_closed_at p) = d then Some (pnl_on_day d ps) else None))
     \<and> sum_list (map snd days) = (\<Sum>p\<leftarrow>ps. position_pnl p)"

lemma pnl_on_day_none: "\<not> (\<exists>p \<in> set ps. day_of (dp_closed_at p) = d) \<Longrightarrow> pnl_on_day d ps = 0"
  by (simp add: pnl_on_day_def filter_empty_conv)

lemma books_days_shown:
  "books_days days ps \<Longrightarrow> (case map_of days d of Some x \<Rightarrow> x | None \<Rightarrow> 0) = pnl_on_day d ps"
  by (simp add: books_days_def pnl_on_day_none)

lemma books_days_step:
  assumes books: "books_days days ps" and grid: "\<And>q. q \<in> set (ps @ [p]) \<Longrightarrow> on_grid b (position_pnl q)"
    and b: "0 \<le> b" "int (length (ps @ [p])) * b \<le> 10 ^ 28"
  shows "books_days (add_day days p) (ps @ [p])"
proof -
  define d where "d = day_of (dp_closed_at p)"
  have "on_grid (int (length ps) * b) (pnl_on_day d ps)" using grid b by (intro pnl_on_day_grid) auto
  moreover have "on_grid b (position_pnl p)" using grid by simp
  ultimately have exact: "dadd (pnl_on_day d ps) (position_pnl p) = pnl_on_day d ps + position_pnl p"
    by (rule dadd_grid) (use b in \<open>simp add: algebra_simps\<close>)
  have days: "add_day days p = AList.update d (pnl_on_day d ps + position_pnl p) days"
    unfolding add_day_def by (simp only: d_def [symmetric] books_days_shown [OF books] exact Let_def)
  have "sum_list (map snd (add_day days p)) = (\<Sum>q\<leftarrow>ps @ [p]. position_pnl q)"
    unfolding days using books books_days_shown [OF books, of d] by (simp add: sum_update books_days_def)
  moreover have "distinct (map fst (add_day days p))"
    unfolding days using books by (simp add: distinct_update books_days_def)
  moreover have "map_of (add_day days p) e
      = (if \<exists>q \<in> set (ps @ [p]). day_of (dp_closed_at q) = e then Some (pnl_on_day e (ps @ [p])) else None)" for e
    unfolding days using books by (auto simp: update_conv' pnl_on_day_snoc books_days_def d_def)
  ultimately show ?thesis unfolding books_days_def by blast
qed

lemma books_days_fold:
  assumes "\<And>p. p \<in> set ps \<Longrightarrow> on_grid b (position_pnl p)" "0 \<le> b" "int (length ps) * b \<le> 10 ^ 28"
  shows "books_days (foldl add_day [] ps) ps"
  using assms
proof (induction ps rule: rev_induct)
  case (snoc p ps)
  have "int (length ps) * b \<le> int (length (ps @ [p])) * b"
    using snoc.prems(2) by (intro mult_right_mono) auto
  then have "books_days (foldl add_day [] ps) ps" using snoc by (intro snoc.IH) auto
  from books_days_step [OF this snoc.prems] show ?case by simp
qed (simp add: books_days_def)

lemma total_pnl_exact:
  assumes "\<And>p. p \<in> set ps \<Longrightarrow> on_grid b (position_pnl p)" "0 \<le> b" "int (length ps) * b \<le> 10 ^ 28"
  shows "foldl (\<lambda>t p. dadd t (position_pnl p)) 0 ps = (\<Sum>p\<leftarrow>ps. position_pnl p)"
  using assms
proof (induction ps rule: rev_induct)
  case (snoc p ps)
  have bound: "int (length ps) * b + b \<le> 10 ^ 28" using snoc.prems by (simp add: algebra_simps)
  then have "foldl (\<lambda>t p. dadd t (position_pnl p)) 0 ps = (\<Sum>p\<leftarrow>ps. position_pnl p)"
    using snoc.prems by (intro snoc.IH) auto
  moreover have "on_grid (int (length ps) * b) (\<Sum>p\<leftarrow>ps. position_pnl p)" "on_grid b (position_pnl p)"
    using snoc.prems by (auto intro!: on_grid_sum)
  ultimately show ?case using dadd_grid bound by simp
qed simp

lemma two_places_close: "\<bar>two_places x - x\<bar> \<le> 1 / 200"
  using rhe_close [of "x * 100"] by (simp add: two_places_def abs_le_iff field_simps)

lemma abs_sum_200:
  fixes x y :: dec
  shows "\<bar>x\<bar> \<le> of_nat m / 200 \<Longrightarrow> \<bar>y\<bar> \<le> of_nat n / 200 \<Longrightarrow> \<bar>x + y\<bar> \<le> of_nat (m + n) / 200"
    "\<bar>x\<bar> \<le> of_nat m / 200 \<Longrightarrow> \<bar>y\<bar> \<le> of_nat n / 200 \<Longrightarrow> \<bar>x - y\<bar> \<le> of_nat (m + n) / 200"
  unfolding of_nat_add add_divide_distrib by linarith+

lemma two_places_sum: "\<bar>sum_list (map two_places xs) - sum_list xs\<bar> \<le> of_nat (length xs) / 200"
proof (induction xs)
  case (Cons x xs)
  from abs_sum_200(1) [OF _ Cons, of "two_places x - x" 1] two_places_close [of x] show ?case
    by (simp add: algebra_simps)
qed simp

text \<open>The days of the page before they are formatted.\<close>

lemma shown_days:
  assumes "books_days days ps"
  shows "sorted (map fst (sort_key fst days))" "distinct (map fst (sort_key fst days))"
    "map_of (sort_key fst days) = map_of days"
    "sum_list (map snd (sort_key fst days)) = (\<Sum>p\<leftarrow>ps. position_pnl p)"
proof -
  show "sorted (map fst (sort_key fst days))" by simp
  show keys: "distinct (map fst (sort_key fst days))" using assms by (simp add: distinct_map books_days_def)
  show "map_of (sort_key fst days) = map_of days"
    using assms keys by (intro map_of_inject_set [THEN iffD2]) (auto simp: books_days_def)
  show "sum_list (map snd (sort_key fst days)) = (\<Sum>p\<leftarrow>ps. position_pnl p)"
    using assms by (simp add: sum_list_sort_key books_days_def)
qed

text \<open>
  C34: The performance page adds up to the cent.  When the closed positions' results are amounts of
  at most ten decimals whose total size stays below \<open>10 ^ 18\<close>, the total shown is the exact sum of
  the positions' results to the nearest cent, every day with a closed position is shown once, in
  order, with the exact sum of its own positions to the nearest cent, and the amounts of the days
  shown miss the total shown by at most half a cent for each of them and for the total.
\<close>

theorem performance_adds_up:
  assumes "\<And>p. p \<in> set ps \<Longrightarrow> on_grid b (position_pnl p)" "0 \<le> b" "int (length ps) * b \<le> 10 ^ 28"
  shows "pf_total_pnl (performance_of ps) = two_places (\<Sum>p\<leftarrow>ps. position_pnl p)
    \<and> \<bar>pf_total_pnl (performance_of ps) - (\<Sum>p\<leftarrow>ps. position_pnl p)\<bar> \<le> 1 / 200
    \<and> sorted (map fst (pf_daily (performance_of ps))) \<and> distinct (map fst (pf_daily (performance_of ps)))
    \<and> (\<forall>d. map_of (pf_daily (performance_of ps)) d
         = (if \<exists>p \<in> set ps. day_of (dp_closed_at p) = d then Some (two_places (pnl_on_day d ps)) else None))
    \<and> \<bar>sum_list (map snd (pf_daily (performance_of ps))) - pf_total_pnl (performance_of ps)\<bar>
        \<le> of_nat (length (pf_daily (performance_of ps)) + 1) / 200"
proof -
  let ?days = "foldl add_day [] ps" and ?sum = "\<Sum>p\<leftarrow>ps. position_pnl p"
  let ?shown = "sort_key fst ?days"
  have days: "books_days ?days ps" using assms by (rule books_days_fold)
  note shown = shown_days [OF days]
  have total: "pf_total_pnl (performance_of ps) = two_places ?sum"
    using total_pnl_exact [OF assms] by (simp add: performance_of_def)
  have daily: "pf_daily (performance_of ps) = map (\<lambda>(d, v). (d, two_places v)) ?shown"
    by (simp add: performance_of_def)
  have fst: "map fst (pf_daily (performance_of ps)) = map fst ?shown"
    and snd: "map snd (pf_daily (performance_of ps)) = map two_places (map snd ?shown)"
    unfolding daily by (simp_all add: case_prod_beta comp_def)
  have "map_of (pf_daily (performance_of ps)) d = map_option two_places (map_of ?days d)" for d
    unfolding daily map_of_map shown(3) by simp
  then have rows: "map_of (pf_daily (performance_of ps)) d
      = (if \<exists>p \<in> set ps. day_of (dp_closed_at p) = d then Some (two_places (pnl_on_day d ps)) else None)" for d
    using days by (simp add: books_days_def)
  have "\<bar>sum_list (map snd (pf_daily (performance_of ps))) - ?sum\<bar> \<le> of_nat (length ?shown) / 200"
    using two_places_sum [of "map snd ?shown"] shown(4) by (simp add: snd)
  with two_places_close [of ?sum] have
    "\<bar>sum_list (map snd (pf_daily (performance_of ps))) - two_places ?sum\<bar> \<le> of_nat (length ?shown + 1) / 200"
    using abs_sum_200(2) [of "sum_list (map snd (pf_daily (performance_of ps))) - ?sum" "length ?shown"
        "two_places ?sum - ?sum" 1] by simp
  moreover have "length (pf_daily (performance_of ps)) = length ?shown" by (simp add: daily)
  ultimately show ?thesis using two_places_close [of ?sum] shown(1,2) fst rows by (simp add: total)
qed

definition demo_closed :: "string \<Rightarrow> dec \<Rightarrow> instant \<Rightarrow> db_position" where
  "demo_closed side close t =
     \<lparr>dp_account_id = ''acc'', dp_command_id = None, dp_broker_ticket = 1, dp_symbol = ''XAUUSD'', dp_side = side,
      dp_lots = 1 / 10, dp_open_price = 2000, dp_stop_loss = None, dp_take_profit = None, dp_current_price = None,
      dp_unrealized_pnl_usd = 0, dp_commission_usd = 0, dp_swap_usd = 0, dp_status = ''CLOSED'', dp_opened_at = 0,
      dp_closed_at = Some t, dp_close_price = Some close\<rparr>"

lemma demo_closed_pnl:
  "position_pnl (demo_closed ''BUY'' 2003 t) = 30" "position_pnl (demo_closed ''SELL'' 2001 t) = - 10"
  by (simp_all add: position_pnl_def close_price_of_def or_default_def demo_closed_def dsub_def dmul_def dctx_short)

theorem performance_adds_up_witness:
  "pf_total_pnl (performance_of [demo_closed ''BUY'' 2003 0, demo_closed ''SELL'' 2001 0]) = 20"
proof -
  have "on_grid (10 ^ 12) (position_pnl p)" if "p \<in> set [demo_closed ''BUY'' 2003 0, demo_closed ''SELL'' 2001 0]" for p
    using that demo_closed_pnl by (auto simp: on_grid_def intro: exI [of _ "3 * 10 ^ 11"] exI [of _ "- (10 ^ 11)"])
  note s = performance_adds_up [of "[demo_closed ''BUY'' 2003 0, demo_closed ''SELL'' 2001 0]", OF this, THEN conjunct1]
  have "two_places 20 = 20" using rhe_of_int [of 2000] by (simp add: two_places_def)
  with s show ?thesis by (simp add: demo_closed_pnl)
qed

lemma stored_bars_states: "sw_states (snd (stored_bars env acc tf w)) = sw_states w"
  by (simp add: stored_bars_def split: prod.splits)

text \<open>
  The brain page checks no ownership.  A caller to whom the account does not belong, and
  who is therefore refused by the market page with a 404, is shown the stored strategy state of the
  account all the same; if there is none yet, reading the page creates and stores one.
\<close>

theorem brain_state_open_to_all:
  assumes stranger: "owned_account (api_conv env) account_id user (ap_accounts (sw_app w)) = None"
    and acc: "cv_uuid (api_conv env) account_id = Some acc" "acc \<in> ta_id ` set (ap_accounts (sw_app w))"
  shows "fst (api_market_state env user account_id w) = Inl (Http 404 ''NOT_FOUND'')
    \<and> (\<exists>n w'. api_brain_state env user account_id w
           = (Some (brain_page_of (case strategy_state acc w of Some r \<Rightarrow> r | None \<Rightarrow> default_strategy_row acc) n), w')
         \<and> (strategy_state acc w = None \<longrightarrow> sw_states w' = sw_states w @ [default_strategy_row acc]))"
proof
  show "fst (api_market_state env user account_id w) = Inl (Http 404 ''NOT_FOUND'')"
    using stranger by (simp add: api_market_state_def verify_account_ownership_def)
  let ?r = "fst (get_or_create_strategy_state acc w)" and ?w1 = "snd (get_or_create_strategy_state acc w)"
  have "api_brain_state env user account_id w
      = (Some (brain_page_of ?r (length (fst (stored_bars env acc ''M15'' ?w1)))), snd (stored_bars env acc ''M15'' ?w1))"
    using acc by (simp add: api_brain_state_def split: prod.splits)
  moreover have "?r = (case strategy_state acc w of Some r \<Rightarrow> r | None \<Rightarrow> default_strategy_row acc)"
    by (simp add: get_or_create_strategy_state_def split: option.split)
  moreover have "strategy_state acc w = None \<longrightarrow>
      sw_states (snd (stored_bars env acc ''M15'' ?w1)) = sw_states w @ [default_strategy_row acc]"
    by (simp add: stored_bars_states get_or_create_strategy_state_def)
  ultimately show "\<exists>n w'. api_brain_state env user account_id w
      = (Some (brain_page_of (case strategy_state acc w of Some r \<Rightarrow> r | None \<Rightarrow> default_strategy_row acc) n), w')
      \<and> (strategy_state acc w = None \<longrightarrow> sw_states w' = sw_states w @ [default_strategy_row acc])"
    by auto
qed

theorem brain_state_open_to_all_witness:
  "\<exists>n w'. api_brain_state demo_strategy_env ''stranger'' ''acc'' (new_world demo_app)
     = (Some (brain_page_of (default_strategy_row ''acc'') n), w')"
proof -
  let ?w = "new_world demo_app"
  have conv: "api_conv demo_strategy_env = demo_conversions"
    by (simp add: api_conv_def demo_strategy_env_def demo_link_env_def)
  have uuid: "cv_uuid demo_conversions s = Some s" for s by (simp add: demo_conversions_def)
  have "owned_account (api_conv demo_strategy_env) ''acc'' ''stranger'' (ap_accounts (sw_app ?w)) = None"
    by (simp add: conv uuid owned_account_def new_world_def demo_app_def)
  moreover have "cv_uuid (api_conv demo_strategy_env) ''acc'' = Some ''acc''" by (simp add: conv uuid)
  moreover have "''acc'' \<in> ta_id ` set (ap_accounts (sw_app ?w))" by (simp add: new_world_def demo_app_def)
  ultimately have "\<exists>n w'. api_brain_state demo_strategy_env ''stranger'' ''acc'' ?w
     = (Some (brain_page_of (case strategy_state ''acc'' ?w of Some r \<Rightarrow> r | None \<Rightarrow> default_strategy_row ''acc'') n), w')"
    using brain_state_open_to_all [of demo_strategy_env "''acc''" "''stranger''" ?w "''acc''"] by blast
  moreover have "strategy_state ''acc'' ?w = None" by (simp add: strategy_state_def new_world_def)
  ultimately show ?thesis by simp
qed

end
