(* ===== verification/Backtest_Api.thy ===== *)
theory Backtest_Api
  imports Backtest Agent_Link
begin

section \<open>Backtest endpoints (\<open>api/v1/backtest_routes.py\<close>)\<close>

text \<open>
  The generated price series, the two handlers and the page they answer.  One page is kept for the
  whole process: every user reads and replaces the same one.  The sine and the cosine of the C
  library are parameters; every other operation on floats is rounded as IEEE 754 doubles are.
\<close>

subsection \<open>The price series\<close>

record libm =
  lm_sin :: "rat \<Rightarrow> rat"
  lm_cos :: "rat \<Rightarrow> rat"

definition active_session :: "instant \<Rightarrow> bool" where
  "active_session t = (let hour = (t div (3600 * 10 ^ 6)) mod 24 in 8 \<le> hour \<and> hour \<le> 18)"

definition price_step :: "libm \<Rightarrow> nat \<Rightarrow> bool \<Rightarrow> rat" where
  "price_step m i active =
     (let volatility = f64 (if active then 35 / 100 else 12 / 100);
          drift = f64 (f64 (lm_sin m (f64 (of_nat i / 180)) * f64 (45 / 100))
                       + f64 (lm_cos m (f64 (of_nat i / 50)) * (25 / 100)))
      in f64 (drift + f64 (lm_sin m (f64 (of_nat i * f64 (17 / 10))) * volatility)))"

definition synthetic_tick :: "instant \<Rightarrow> rat \<Rightarrow> instant \<Rightarrow> tick" where
  "synthetic_tick received price t =
     (let bid = of_int (rhe (price * 100)) / 100;
          spread = (if active_session t then 25 / 100 else 45 / 100)
      in \<lparr>tk_symbol = ''XAUUSD'', tk_broker_symbol = ''XAUUSD'', tk_bid = bid, tk_ask = dadd bid spread,
          tk_tick_time = t, tk_received_at = received, tk_source = UNKNOWN_SOURCE, tk_sequence_id = None,
          tk_volume = None\<rparr>)"

text \<open>\<open>received\<close> reads the clock for the tick at each position.\<close>

fun synthetic_from ::
  "libm \<Rightarrow> (nat \<Rightarrow> instant) \<Rightarrow> nat \<Rightarrow> nat \<Rightarrow> rat \<Rightarrow> instant \<Rightarrow> tick list" where
  "synthetic_from m received 0 i price t = []"
| "synthetic_from m received (Suc n) i price t =
     (let t' = t + 30 * 10 ^ 6;
          price' = max 100 (f64 (price + price_step m i (active_session t')))
      in synthetic_tick (received i) price' t' # synthetic_from m received n (Suc i) price' t')"

definition synthetic_ticks :: "libm \<Rightarrow> (nat \<Rightarrow> instant) \<Rightarrow> instant \<Rightarrow> nat \<Rightarrow> tick list" where
  "synthetic_ticks m received now days =
     synthetic_from m received (days * 24 * 120) 0 2650 (now - int days * 86400 * 10 ^ 6)"

subsection \<open>Requests and replies\<close>

record run_request =
  rr_symbol :: string
  rr_timeframe :: string
  rr_initial_balance_usd :: dec
  rr_slippage_points :: int
  rr_commission_per_lot_usd :: dec
  rr_dataset_days :: int

definition default_run_request :: run_request where
  "default_run_request =
     \<lparr>rr_symbol = ''XAUUSD'', rr_timeframe = ''M15'', rr_initial_balance_usd = 10000, rr_slippage_points = 1,
      rr_commission_per_lot_usd = 0, rr_dataset_days = 7\<rparr>"

definition run_request_ok :: "run_request \<Rightarrow> bool" where
  "run_request_ok r \<longleftrightarrow> 100 \<le> rr_initial_balance_usd r \<and> 0 \<le> rr_slippage_points r \<and> rr_slippage_points r \<le> 100
     \<and> 0 \<le> rr_commission_per_lot_usd r \<and> 1 \<le> rr_dataset_days r \<and> rr_dataset_days r \<le> 60"

definition api_risk_limits :: risk_config where
  "api_risk_limits = risk_config_default
     \<lparr>rk_daily_loss_limit_usd := Some 50, rk_max_drawdown_usd := Some 100,
      rk_risk_per_trade_pct := Some (1 / 100), rk_max_open_positions := Some 1\<rparr>"

text \<open>The configuration of both handlers; the first calls it with the values of its literals.\<close>

definition api_backtest_config :: "dec \<Rightarrow> string \<Rightarrow> int \<Rightarrow> dec \<Rightarrow> backtest_config" where
  "api_backtest_config balance tf slippage commission =
     \<lparr>bc_initial_balance_usd = balance, bc_symbol = ''XAUUSD'', bc_point_value = 1 / 100,
      bc_contract_size = 100, bc_slippage_points = slippage, bc_commission_per_lot_usd = commission,
      bc_brain_config = default_strat_config, bc_risk_config = api_risk_limits, bc_timeframe = tf\<rparr>"

text \<open>A point of the equity curve: the label \<open>START\<close> or the exit time of a trade, and a float.\<close>

datatype curve_time = START | AT_EXIT instant | STILL_OPEN

record backtest_page =
  bg_days :: nat
  bg_symbol :: string
  bg_timeframe :: string
  bg_result :: backtest_result
  bg_profit_factor :: dec
  bg_equity_curve :: "(curve_time \<times> rat) list"

definition round_cents :: "rat \<Rightarrow> rat" where
  "round_cents x = f64 (of_int (rhe (x * 100)) / 100)"

fun equity_points :: "rat \<Rightarrow> backtest_trade list \<Rightarrow> (curve_time \<times> rat) list" where
  "equity_points balance [] = []"
| "equity_points balance (t # ts) =
     (let b = f64 (balance + f64 (bt_realized_pnl_usd t))
      in ((case bt_exit_time t of Some x \<Rightarrow> AT_EXIT x | None \<Rightarrow> STILL_OPEN), round_cents b)
         # equity_points b ts)"

definition format_result :: "backtest_result \<Rightarrow> backtest_config \<Rightarrow> nat \<Rightarrow> backtest_page" where
  "format_result r c days =
     \<lparr>bg_days = days, bg_symbol = bc_symbol c, bg_timeframe = bc_timeframe c, bg_result = r,
      bg_profit_factor = or_default (bk_profit_factor r) 0,
      bg_equity_curve =
        (START, f64 (bc_initial_balance_usd c))
        # equity_points (f64 (bc_initial_balance_usd c)) (bk_trades r)\<rparr>"

subsection \<open>Handlers\<close>

record backtest_clock =
  bx_now :: instant
  bx_received :: "nat \<Rightarrow> instant"
  bx_env :: backtest_env

text \<open>A fresh engine, one run, and the page stored for everyone; a raised error leaves the old page.\<close>

definition simulate ::
  "libm \<Rightarrow> backtest_clock \<Rightarrow> backtest_config \<Rightarrow> nat \<Rightarrow> backtest_page option
     \<Rightarrow> (http_error + backtest_page) \<times> backtest_page option" where
  "simulate m clk c days latest =
     (case bind_res (bar_builder_init (bc_symbol c) (bc_timeframe c)) (\<lambda>b.
             run_backtest c (bx_env clk) b (synthetic_ticks m (bx_received clk) (bx_now clk) days)) of
        Inl e \<Rightarrow> (Inl (Http 500 ''INTERNAL''), latest)
      | Inr (r, _) \<Rightarrow> (Inr (format_result r c days), Some (format_result r c days)))"

definition api_backtest_status ::
  "libm \<Rightarrow> backtest_clock \<Rightarrow> backtest_page option \<Rightarrow> (http_error + backtest_page) \<times> backtest_page option" where
  "api_backtest_status m clk latest =
     (case latest of
        Some p \<Rightarrow> (Inr p, latest)
      | None \<Rightarrow> simulate m clk (api_backtest_config 10000 ''M15'' 1 0) 5 latest)"

definition api_run_backtest ::
  "libm \<Rightarrow> backtest_clock \<Rightarrow> run_request \<Rightarrow> backtest_page option
     \<Rightarrow> (http_error + backtest_page) \<times> backtest_page option" where
  "api_run_backtest m clk r latest =
     (if \<not> run_request_ok r then (Inl (Http 422 ''VALIDATION''), latest)
      else if map ascii_upper (rr_symbol r) \<noteq> ''XAUUSD'' then (Inl (Http 400 ''UNSUPPORTED_SYMBOL''), latest)
      else simulate m clk
             (api_backtest_config (rr_initial_balance_usd r) (map ascii_upper (rr_timeframe r))
                (rr_slippage_points r) (rr_commission_per_lot_usd r))
             (nat (rr_dataset_days r)) latest)"

subsection \<open>Lemmas\<close>

lemma synthetic_from_length [simp]: "length (synthetic_from m rc n i p t) = n"
  by (induction n arbitrary: i p t) (simp_all add: Let_def)

lemma synthetic_from_time:
  "j < n \<Longrightarrow> tk_tick_time (synthetic_from m rc n i p t ! j) = t + (int j + 1) * 30 * 10 ^ 6"
proof (induction n arbitrary: i p t j)
  case (Suc n)
  then show ?case by (cases j) (simp_all add: Let_def synthetic_tick_def algebra_simps)
qed simp

lemma synthetic_ticks_length [simp]: "length (synthetic_ticks m rc now days) = days * 2880"
  by (simp add: synthetic_ticks_def)

lemma synthetic_ticks_time:
  "j < days * 2880 \<Longrightarrow> tk_tick_time (synthetic_ticks m rc now days ! j)
     = now - int (days * 2880 - 1 - j) * 30 * 10 ^ 6"
  by (simp add: synthetic_ticks_def synthetic_from_time of_nat_diff algebra_simps)

lemma synthetic_ticks_stale:
  assumes "\<And>i. now \<le> be_risk_clock env i" "now + 3 * 10 ^ 6 \<le> be_risk_clock env (days * 2880 - 1)"
  shows "all_stale env 3 0 (synthetic_ticks m rc now days)"
  unfolding all_stale_def
proof (intro allI impI)
  fix j assume j: "j < length (synthetic_ticks m rc now days)"
  then have time: "tk_tick_time (synthetic_ticks m rc now days ! j) = now - int (days * 2880 - 1 - j) * 30 * 10 ^ 6"
    by (intro synthetic_ticks_time) simp
  show "3 * 10 ^ 6 \<le> be_risk_clock env (0 + j) - tk_tick_time (synthetic_ticks m rc now days ! j)"
  proof (cases "j = days * 2880 - 1")
    case True
    with time assms(2) show ?thesis by simp
  next
    case False
    with j have "1 \<le> int (days * 2880 - 1 - j)" by simp
    with time assms(1) [of j] show ?thesis by simp
  qed
qed

text \<open>Whatever the pace of the run, every tick but the last is at least thirty seconds old.\<close>

lemma synthetic_ticks_old:
  assumes "\<And>i. now \<le> be_risk_clock env i"
  shows "all_stale env 3 0 (butlast (synthetic_ticks m rc now days))"
  unfolding all_stale_def
proof (intro allI impI)
  fix j assume j: "j < length (butlast (synthetic_ticks m rc now days))"
  then have "tk_tick_time (synthetic_ticks m rc now days ! j) = now - int (days * 2880 - 1 - j) * 30 * 10 ^ 6"
    by (intro synthetic_ticks_time) simp
  moreover have "1 \<le> int (days * 2880 - 1 - j)" using j by simp
  ultimately show "3 * 10 ^ 6 \<le> be_risk_clock env (0 + j) - tk_tick_time (butlast (synthetic_ticks m rc now days) ! j)"
    using assms [of j] j by (simp add: nth_butlast)
qed

lemma synthetic_ticks_last:
  assumes "0 < days"
  shows "synthetic_ticks m rc now days \<noteq> []" "tk_tick_time (last (synthetic_ticks m rc now days)) = now"
proof -
  show ne: "synthetic_ticks m rc now days \<noteq> []"
    using assms synthetic_ticks_length [of m rc now days] by (metis length_0_conv mult_is_0 neq0_conv zero_neq_numeral)
  show "tk_tick_time (last (synthetic_ticks m rc now days)) = now"
    using assms synthetic_ticks_time [of "days * 2880 - 1" days m rc now] by (simp add: last_conv_nth [OF ne])
qed

lemma simulate_trades:
  assumes "simulate m clk c days latest = (Inr p, latest')" "0 < days"
    and "rk_max_tick_staleness_ms (bc_risk_config c) = 2000" "dec_fits (bc_initial_balance_usd c)"
    and "\<And>i. bx_now clk \<le> be_risk_clock (bx_env clk) i"
  shows "latest' = Some p \<and> length (bk_trades (bg_result p)) \<le> 1
    \<and> (\<forall>t \<in> set (bk_trades (bg_result p)). bt_entry_time t = bx_now clk)"
proof -
  let ?ts = "synthetic_ticks m (bx_received clk) (bx_now clk) days"
  have "bind_res (bar_builder_init (bc_symbol c) (bc_timeframe c)) (\<lambda>b. run_backtest c (bx_env clk) b ?ts)
      \<noteq> Inl e" for e
    using assms(1) by (auto simp: simulate_def)
  then obtain y where y: "bind_res (bar_builder_init (bc_symbol c) (bc_timeframe c))
      (\<lambda>b. run_backtest c (bx_env clk) b ?ts) = Inr y" by (metis sumE)
  obtain r b' where rb: "y = (r, b')" by (cases y)
  from y obtain b where run: "run_backtest c (bx_env clk) b ?ts = Inr (r, b')"
    unfolding rb by (rule bind_res_InrE)
  have "rk_max_tick_staleness_ms (bc_risk_config c) < 3 * 1000" by (simp add: assms(3))
  from stale_until_last [OF run synthetic_ticks_last(1) synthetic_ticks_old _ this assms(4)] assms(2,5)
  have "length (bk_trades r) \<le> 1 \<and> (\<forall>t \<in> set (bk_trades r). bt_entry_time t = bx_now clk)"
    by (simp add: synthetic_ticks_last(2))
  moreover have "p = format_result r c days" "latest' = Some p"
    using assms(1) y by (auto simp: simulate_def rb)
  ultimately show ?thesis by (simp add: format_result_def)
qed

lemma simulate_never_trades:
  assumes tf: "timeframe_seconds (bc_timeframe c) \<noteq> None"
    and c: "rk_max_tick_staleness_ms (bc_risk_config c) = 2000" "dec_fits (bc_initial_balance_usd c)"
    and clock: "\<And>i. bx_now clk \<le> be_risk_clock (bx_env clk) i"
      "bx_now clk + 3 * 10 ^ 6 \<le> be_risk_clock (bx_env clk) (days * 2880 - 1)"
  shows "\<exists>p. simulate m clk c days latest = (Inr p, Some p) \<and> bk_trades (bg_result p) = []
    \<and> bk_final_balance_usd (bg_result p) = bc_initial_balance_usd c
    \<and> bg_equity_curve p = [(START, f64 (bc_initial_balance_usd c))]"
proof -
  obtain b where b: "bar_builder_init (bc_symbol c) (bc_timeframe c) = Inr b"
    using tf by (auto simp: bar_builder_init_def)
  have "rk_max_tick_staleness_ms (bc_risk_config c) < 3 * 1000" by (simp add: c(1))
  from past_data_never_trades [OF synthetic_ticks_stale [OF clock] _ this c(2)]
  obtain r b' where "run_backtest c (bx_env clk) b (synthetic_ticks m (bx_received clk) (bx_now clk) days) = Inr (r, b')"
    "bk_trades r = []" "bk_final_balance_usd r = bc_initial_balance_usd c" by force
  with b show ?thesis by (simp add: simulate_def format_result_def)
qed

subsection \<open>Properties\<close>

text \<open>
  C35: The backtest endpoint trades nothing but the present.  The series it generates ends now
  and steps by thirty seconds, while the risk engine ages every tick against the clock of the
  machine with the default limit of two seconds.  For an admissible request and a clock that does not
  run backwards: an unknown timeframe is answered with a 500 and the stored page stays; a page that is
  answered reports at most one trade, entered at the very last tick, whatever the prices and the
  strategy are, and every user then reads that page; and when the last tick is reached at least three
  seconds after the series was dated, the request with a known timeframe completes, no trade is made,
  the balance does not move and the equity curve is its starting point.
\<close>

theorem api_backtest_ignores_history:
  assumes req: "run_request_ok r" "map ascii_upper (rr_symbol r) = ''XAUUSD''" "dec_fits (rr_initial_balance_usd r)"
    and clock: "\<And>i. bx_now clk \<le> be_risk_clock (bx_env clk) i"
  shows "(timeframe_seconds (map ascii_upper (rr_timeframe r)) = None \<longrightarrow>
       api_run_backtest m clk r latest = (Inl (Http 500 ''INTERNAL''), latest))
    \<and> (\<forall>p latest'. api_run_backtest m clk r latest = (Inr p, latest') \<longrightarrow>
         latest' = Some p \<and> length (bk_trades (bg_result p)) \<le> 1
         \<and> (\<forall>t \<in> set (bk_trades (bg_result p)). bt_entry_time t = bx_now clk)
         \<and> (\<forall>m' clk'. api_backtest_status m' clk' latest' = (Inr p, Some p)))
    \<and> (timeframe_seconds (map ascii_upper (rr_timeframe r)) \<noteq> None
         \<and> bx_now clk + 3 * 10 ^ 6 \<le> be_risk_clock (bx_env clk) (nat (rr_dataset_days r) * 2880 - 1) \<longrightarrow>
       (\<exists>p. api_run_backtest m clk r latest = (Inr p, Some p) \<and> bk_trades (bg_result p) = []
         \<and> bk_final_balance_usd (bg_result p) = rr_initial_balance_usd r
         \<and> bg_equity_curve p = [(START, f64 (rr_initial_balance_usd r))]))"
proof (intro conjI impI)
  let ?c = "api_backtest_config (rr_initial_balance_usd r) (map ascii_upper (rr_timeframe r))
              (rr_slippage_points r) (rr_commission_per_lot_usd r)"
  have run: "api_run_backtest m clk r latest = simulate m clk ?c (nat (rr_dataset_days r)) latest"
    using req(1,2) by (simp add: api_run_backtest_def)
  have c: "rk_max_tick_staleness_ms (bc_risk_config ?c) = 2000" "dec_fits (bc_initial_balance_usd ?c)"
    "bc_timeframe ?c = map ascii_upper (rr_timeframe r)" "bc_initial_balance_usd ?c = rr_initial_balance_usd r"
    using req(3) by (simp_all add: api_backtest_config_def api_risk_limits_def risk_config_default_def)
  have days: "0 < nat (rr_dataset_days r)" using req(1) by (simp add: run_request_ok_def)
  show "api_run_backtest m clk r latest = (Inl (Http 500 ''INTERNAL''), latest)"
    if "timeframe_seconds (map ascii_upper (rr_timeframe r)) = None"
    using that by (simp add: run simulate_def bar_builder_init_def c(3))
  show "\<forall>p latest'. api_run_backtest m clk r latest = (Inr p, latest') \<longrightarrow>
         latest' = Some p \<and> length (bk_trades (bg_result p)) \<le> 1
         \<and> (\<forall>t \<in> set (bk_trades (bg_result p)). bt_entry_time t = bx_now clk)
         \<and> (\<forall>m' clk'. api_backtest_status m' clk' latest' = (Inr p, Some p))"
  proof (intro allI impI)
    fix p latest' assume "api_run_backtest m clk r latest = (Inr p, latest')"
    from simulate_trades [OF this [unfolded run] days c(1,2) clock]
    show "latest' = Some p \<and> length (bk_trades (bg_result p)) \<le> 1
         \<and> (\<forall>t \<in> set (bk_trades (bg_result p)). bt_entry_time t = bx_now clk)
         \<and> (\<forall>m' clk'. api_backtest_status m' clk' latest' = (Inr p, Some p))"
      by (simp add: api_backtest_status_def)
  qed
  assume *: "timeframe_seconds (map ascii_upper (rr_timeframe r)) \<noteq> None
         \<and> bx_now clk + 3 * 10 ^ 6 \<le> be_risk_clock (bx_env clk) (nat (rr_dataset_days r) * 2880 - 1)"
  then have "timeframe_seconds (bc_timeframe ?c) \<noteq> None" by (simp add: c(3))
  from simulate_never_trades [OF this c(1,2) clock conjunct2 [OF *], of m latest]
  show "\<exists>p. api_run_backtest m clk r latest = (Inr p, Some p) \<and> bk_trades (bg_result p) = []
         \<and> bk_final_balance_usd (bg_result p) = rr_initial_balance_usd r
         \<and> bg_equity_curve p = [(START, f64 (rr_initial_balance_usd r))]"
    by (simp add: run c(4))
qed

definition demo_backtest_clock :: backtest_clock where
  "demo_backtest_clock = \<lparr>bx_now = 0, bx_received = (\<lambda>_. 0), bx_env = demo_env\<lparr>be_risk_clock := \<lambda>_. 3000000\<rparr>\<rparr>"

theorem api_backtest_ignores_history_witness:
  "\<exists>p. api_run_backtest \<lparr>lm_sin = (\<lambda>x. 1), lm_cos = (\<lambda>x. 0)\<rparr> demo_backtest_clock default_run_request None
     = (Inr p, Some p) \<and> bk_trades (bg_result p) = []"
proof -
  have req: "run_request_ok default_run_request"
    "map ascii_upper (rr_symbol default_run_request) = ''XAUUSD''"
    "dec_fits (rr_initial_balance_usd default_run_request)"
    and tf: "timeframe_seconds (map ascii_upper (rr_timeframe default_run_request)) \<noteq> None"
    by (simp_all add: run_request_ok_def default_run_request_def ascii_upper_def dec_fits_numeral timeframe_seconds_def)
  have clock: "bx_now demo_backtest_clock \<le> be_risk_clock (bx_env demo_backtest_clock) i"
    "bx_now demo_backtest_clock + 3 * 10 ^ 6 \<le> be_risk_clock (bx_env demo_backtest_clock) k" for i k
    by (simp_all add: demo_backtest_clock_def)
  from api_backtest_ignores_history [OF req clock(1)] tf clock(2) show ?thesis by blast
qed

end
