(* ===== verification/Serial_Codes.thy ===== *)
theory Serial_Codes
  imports Licensing
begin

section \<open>Issuing serial codes (\<open>scripts/generate_serial_codes.py\<close>)\<close>

text \<open>
  The command that prints a batch of codes and stores it.  The random parts and the licence keys are
  arguments; the batch is committed as a whole or, when a unique constraint is violated, not at all.
  The printed table and the text file are left out.
\<close>

record issued_code =
  ic_serial_code :: string
  ic_tier :: int
  ic_plan :: string
  ic_account_limit :: int
  ic_duration_days :: int

text \<open>The arguments are checked by the parser: a tier of 1, 2 or 3.  A part is drawn for each code.\<close>

definition issue_batch :: "int \<Rightarrow> string \<Rightarrow> (string \<times> string \<times> string) list \<Rightarrow> issued_code list option" where
  "issue_batch tier pfx parts =
     (case tier_config tier of
        None \<Rightarrow> None
      | Some (plan, limit, days) \<Rightarrow>
          Some (map (\<lambda>p. \<lparr>ic_serial_code = the (generate_serial_code tier pfx p), ic_tier = tier, ic_plan = plan,
                          ic_account_limit = limit, ic_duration_days = days\<rparr>) parts))"

definition issued_row :: "instant \<Rightarrow> string \<Rightarrow> issued_code \<Rightarrow> license_row" where
  "issued_row now key c =
     unused_license now (ic_tier c) (''lic_'' @ key) (ic_serial_code c) (ic_plan c) (ic_account_limit c)"

text \<open>\<open>None\<close> is the violated constraint.\<close>

definition insert_into_db :: "instant \<Rightarrow> string list \<Rightarrow> issued_code list \<Rightarrow> license_row list \<Rightarrow> license_row list option" where
  "insert_into_db now keys codes ls =
     (let rows = map2 (issued_row now) keys codes; all = ls @ rows;
          serials = filter (\<lambda>s. s \<noteq> None) (map li_serial_code all)
      in if distinct (map li_license_key all) \<and> distinct serials then Some all else None)"

subsection \<open>Lemmas\<close>

definition code_digits :: string where "code_digits = ''0123456789abcdef''"

definition hex_part :: "string \<Rightarrow> bool" where
  "hex_part p \<longleftrightarrow> length p = 4 \<and> set p \<subseteq> set code_digits"

lemma ascii_upper_idem [simp]: "ascii_upper (ascii_upper c) = ascii_upper c"
  by (auto simp: ascii_upper_def Let_def of_char_of)

lemma dropWhile_padded: "list_all P xs \<Longrightarrow> s \<noteq> [] \<Longrightarrow> \<not> P (hd s) \<Longrightarrow> dropWhile P (xs @ s) = s"
  by (induction xs) (auto simp: neq_Nil_conv)

lemma py_strip_padded:
  assumes "list_all py_space before" "list_all py_space after" "s \<noteq> []" "\<not> py_space (hd s)" "\<not> py_space (last s)"
  shows "py_strip (before @ s @ after) = s"
proof -
  have "dropWhile py_space (before @ s @ after) = s @ after"
    using assms by (intro dropWhile_padded) simp_all
  moreover have "dropWhile py_space (rev after @ rev s) = rev s"
    using assms by (intro dropWhile_padded) (simp_all add: hd_rev list_all_iff)
  ultimately show ?thesis by (simp add: py_strip_def)
qed

lemma hex_not_space: "c \<in> set code_digits \<Longrightarrow> \<not> py_space (ascii_upper c)"
  by (auto simp: code_digits_def ascii_upper_def py_space_def Let_def)

lemma ascii_upper_fixed:
  "ascii_upper CHR ''-'' = CHR ''-''" "ascii_upper CHR ''T'' = CHR ''T''" "map ascii_upper (tier_digit t) = tier_digit t"
  by (simp_all add: ascii_upper_def tier_digit_def)

text \<open>A prefix in capitals that does not begin with a space.\<close>

definition plain_prefix :: "string \<Rightarrow> bool" where
  "plain_prefix pfx \<longleftrightarrow> map ascii_upper pfx = pfx \<and> (pfx = [] \<or> \<not> py_space (hd pfx))"

lemma generated_code_canonical:
  assumes "generate_serial_code tier pfx (p1, p2, p3) = Some c" "plain_prefix pfx" "hex_part p3"
    and "list_all py_space before" "list_all py_space after"
  shows "map ascii_upper (py_strip (before @ c @ after)) = c"
proof -
  have c: "c = pfx @ ''-T'' @ tier_digit tier @ ''-'' @ map ascii_upper p1 @ ''-'' @ map ascii_upper p2
      @ ''-'' @ map ascii_upper p3"
    using assms(1) by (simp add: generate_serial_code_def split: if_splits)
  have "p3 \<noteq> []" using assms(3) by (auto simp: hex_part_def)
  then have p3: "p3 \<noteq> []" "last p3 \<in> set code_digits"
    using assms(3) last_in_set [of p3] unfolding hex_part_def by blast+
  then have "\<not> py_space (last c)" using hex_not_space [OF p3(2)] by (simp add: c last_map)
  moreover have "\<not> py_space (hd c)" using assms(2) by (cases pfx) (auto simp: c plain_prefix_def py_space_def)
  ultimately have "py_strip (before @ c @ after) = c"
    using assms(4,5) by (intro py_strip_padded) (simp_all add: c)
  then show ?thesis using assms(2) by (simp add: c plain_prefix_def ascii_upper_fixed comp_def)
qed

text \<open>What is typed reaches the database in capitals and without a leading space; a code with another
  prefix is out of reach.\<close>

lemma space_not_lower: "py_space (ascii_upper c) \<longleftrightarrow> py_space c"
  by (auto simp: py_space_def ascii_upper_def Let_def of_char_of)

lemma py_strip_hd: "py_strip s = [] \<or> \<not> py_space (hd (py_strip s))"
proof (cases "py_strip s = []")
  case False
  let ?t = "dropWhile py_space s"
  have "rev (takeWhile py_space (rev ?t) @ dropWhile py_space (rev ?t)) = ?t"
    by (simp only: takeWhile_dropWhile_id rev_rev_ident)
  then have t: "?t = py_strip s @ rev (takeWhile py_space (rev ?t))" by (simp only: py_strip_def rev_append)
  with False have "hd (py_strip s) = hd ?t" by (metis hd_append2)
  moreover have "?t \<noteq> []" using False t by (metis append_is_Nil_conv)
  ultimately show ?thesis using hd_dropWhile [of py_space s] by metis
qed simp

lemma typed_canonical:
  fixes typed :: string
  defines "n \<equiv> map ascii_upper (py_strip typed)"
  shows "map ascii_upper n = n" "n = [] \<or> \<not> py_space (hd n)"
proof -
  show "map ascii_upper n = n" by (simp add: n_def)
  have "py_strip typed = [] \<or> \<not> py_space (hd (py_strip typed))" by (rule py_strip_hd)
  then show "n = [] \<or> \<not> py_space (hd n)" by (auto simp: n_def hd_map space_not_lower)
qed

lemma generated_code_out_of_reach:
  assumes "generate_serial_code tier pfx p = Some c" "\<not> plain_prefix pfx"
  shows "map ascii_upper (py_strip typed) \<noteq> c"
proof
  assume n: "map ascii_upper (py_strip typed) = c"
  obtain rest where c: "c = pfx @ rest"
    using assms(1) by (auto simp: generate_serial_code_def split: if_splits prod.splits)
  from typed_canonical(1) [of typed] have "map ascii_upper pfx = pfx" by (simp add: n c)
  moreover from typed_canonical(2) [of typed] have "pfx = [] \<or> \<not> py_space (hd pfx)" by (auto simp: n c)
  ultimately show False using assms(2) by (simp add: plain_prefix_def)
qed

lemma activated_code:
  "activate_license_for_user now typed user ls = (Inr l, ls')
     \<Longrightarrow> li_serial_code l = Some (map ascii_upper (py_strip typed))"
  by (erule activateD) (simp add: activated_fields)

lemma insertD:
  assumes "insert_into_db now keys codes ls = Some ls'"
  shows "ls' = ls @ map2 (issued_row now) keys codes" "distinct (map li_license_key ls')"
    "distinct (filter (\<lambda>s. s \<noteq> None) (map li_serial_code ls'))"
  using assms by (simp_all only: insert_into_db_def Let_def option.inject option.distinct split: if_splits)

lemma inserted_inv:
  assumes "licenses_inv ls" "insert_into_db now keys codes ls = Some ls'"
  shows "licenses_inv ls'"
proof -
  have some: "None \<notin> li_serial_code ` set ls'"
    using assms(1) unfolding insertD(1) [OF assms(2)]
    by (auto simp: licenses_inv_def issued_row_def unused_license_def)
  then have "filter (\<lambda>s. s \<noteq> None) (map li_serial_code ls') = map li_serial_code ls'"
    by (intro filter_True ballI) (metis list.set_map)
  with insertD(2,3) [OF assms(2)] some show ?thesis by (simp only: licenses_inv_def simp_thms)
qed

subsection \<open>Properties\<close>

text \<open>
  C37: A code the command issues is a code a user can activate, if the prefix is in capitals.  For
  every code of a batch issued with such a prefix (not beginning with a space) and stored with a key
  each, typing it in activates it: the licence becomes the user's, with the tier the batch was issued
  for, for thirty days from that moment; and the code typed with spaces around it does the same.
  Otherwise no text that anyone types ever activates a code of the batch.
\<close>

theorem issued_codes_activate:
  assumes "licenses_inv ls" "issue_batch tier pfx parts = Some codes"
    and "list_all (\<lambda>(p1, p2, p3). hex_part p3) parts"
    and "length keys = length codes" "insert_into_db now keys codes ls = Some ls'"
    and "c \<in> set codes" "list_all py_space before" "list_all py_space after"
  shows "(plain_prefix pfx \<longrightarrow>
       (\<exists>l. activate_license_for_user later (before @ ic_serial_code c @ after) user ls' = (Inr l, put_license l ls')
         \<and> li_serial_code l = Some (ic_serial_code c) \<and> li_user_id l = Some user \<and> li_tier l = tier
         \<and> li_status l = LS_ACTIVE \<and> li_valid_until l = Some (later + days_us 30)))
    \<and> (\<not> plain_prefix pfx \<longrightarrow>
       (\<forall>typed user' now' rows l rows'. activate_license_for_user now' typed user' rows = (Inr l, rows')
          \<longrightarrow> li_serial_code l \<noteq> Some (ic_serial_code c)))"
proof (intro conjI impI allI)
  obtain cfg where cfg: "tier_config tier = Some cfg"
    using assms(2) by (cases "tier_config tier") (auto simp: issue_batch_def)
  obtain p1 p2 p3 where p: "(p1, p2, p3) \<in> set parts"
    "generate_serial_code tier pfx (p1, p2, p3) = Some (ic_serial_code c)" "ic_tier c = tier"
    using assms(2,6) cfg by (auto simp: issue_batch_def generate_serial_code_def split: prod.splits)
  have "hex_part p3" using assms(3) p(1) by (auto simp: list_all_iff)
  {
    assume "plain_prefix pfx"
    note typed = generated_code_canonical [OF p(2) this \<open>hex_part p3\<close> assms(7,8)]
    obtain k where k: "(k, c) \<in> set (zip keys codes)"
      using assms(4,6) by (metis in_set_impl_in_set_zip2)
    let ?l = "issued_row now k c"
    have "?l \<in> set ls'" unfolding insertD(1) [OF assms(5)] using k by force
    moreover have fields: "li_serial_code ?l = Some (ic_serial_code c)" "li_tier ?l = tier"
      "activation_error later ?l = None"
      by (simp_all add: issued_row_def unused_license_def p(3) activation_error_def is_expired_def)
    ultimately have "find (\<lambda>l. li_serial_code l = Some (ic_serial_code c)) ls' = Some ?l"
      using find_code [OF inserted_inv [OF assms(1,5)]] by blast
    then have "activate_license_for_user later (before @ ic_serial_code c @ after) user ls'
        = (Inr (activated later user ?l), put_license (activated later user ?l) ls')"
      by (simp add: activate_license_for_user_def typed fields(3))
    then show "\<exists>l. activate_license_for_user later (before @ ic_serial_code c @ after) user ls' = (Inr l, put_license l ls')
         \<and> li_serial_code l = Some (ic_serial_code c) \<and> li_user_id l = Some user \<and> li_tier l = tier
         \<and> li_status l = LS_ACTIVE \<and> li_valid_until l = Some (later + days_us 30)"
      using fields by (simp add: activated_fields) (simp add: activated_def)
  }
  fix typed user' now' rows l rows'
  assume "\<not> plain_prefix pfx" "activate_license_for_user now' typed user' rows = (Inr l, rows')"
  then show "li_serial_code l \<noteq> Some (ic_serial_code c)"
    using generated_code_out_of_reach [OF p(2)] activated_code by fastforce
qed

definition demo_issued :: issued_code where
  "demo_issued = \<lparr>ic_serial_code = ''AURX-T2-0012-1234-9065'', ic_tier = 2, ic_plan = ''AUREXIS TIER 2'',
     ic_account_limit = 5, ic_duration_days = 30\<rparr>"

lemma demo_batch: "issue_batch 2 ''AURX'' [(''0012'', ''1234'', ''9065'')] = Some [demo_issued]"
  by (simp add: issue_batch_def demo_issued_def tier_config_def generate_serial_code_def tier_digit_def ascii_upper_def)

theorem issued_codes_activate_witness:
  "\<exists>l ls'. activate_license_for_user 5 '' AURX-T2-0012-1234-9065'' ''u'' [issued_row 0 ''k'' demo_issued] = (Inr l, ls')
     \<and> li_tier l = 2"
proof -
  have inv: "licenses_inv []" by (simp add: licenses_inv_def)
  have pfx: "plain_prefix ''AURX''" by (simp add: plain_prefix_def ascii_upper_def py_space_def)
  have hex: "list_all (\<lambda>(p1, p2, p3). hex_part p3) [(''0012'', ''1234'', ''9065'')]"
    by (simp add: hex_part_def code_digits_def)
  have ins: "insert_into_db 0 [''k''] [demo_issued] [] = Some [issued_row 0 ''k'' demo_issued]"
    by (simp add: insert_into_db_def Let_def issued_row_def unused_license_def)
  have pad: "list_all py_space '' ''" "list_all py_space []" by (simp_all add: py_space_def)
  from issued_codes_activate [OF inv demo_batch hex _ ins _ pad, where c = demo_issued and later = 5 and user = "''u''"]
  show ?thesis using pfx by (auto simp: demo_issued_def)
qed

end
