(* ===== verification/Market_Provider.thy ===== *)
theory Market_Provider
  imports Market_Types
begin

section \<open>Market data providers (\<open>brain/market_data/provider.py\<close>)\<close>

text \<open>
  The interface of a source of ticks as a locale, with the labelling its documentation asks of every
  implementation, and the development provider, which keeps the laws.  A stream is the list of ticks it
  yields before it stops; the clock is read twice for its tick.
\<close>

locale market_provider =
  fixes connect :: "'p \<Rightarrow> 'p" and disconnect :: "'p \<Rightarrow> 'p"
    and tick_stream :: "'p \<Rightarrow> instant \<times> instant \<Rightarrow> string \<Rightarrow> tick list"
    and get_status :: "'p \<Rightarrow> string \<Rightarrow> market_data_status" and is_mock :: "'p \<Rightarrow> bool"
  assumes mock_ticks: "is_mock p \<Longrightarrow> t \<in> set (tick_stream p now smb) \<Longrightarrow> tk_source t = MOCK"
    and mock_status: "is_mock p \<Longrightarrow> md_source (get_status p smb) = MOCK \<and> \<not> md_is_live (get_status p smb)"
    and canonical: "t \<in> set (tick_stream p now smb) \<Longrightarrow> tk_symbol t = smb"
    and mock_stays: "is_mock (connect p) = is_mock p" "is_mock (disconnect p) = is_mock p"
begin

lemma mock_never_fresh: "is_mock p \<Longrightarrow> \<not> md_is_fresh (get_status p smb)"
  using mock_status by (auto dest: md_is_fresh_fail_safe)

lemma mock_labelled: "is_mock p \<Longrightarrow> list_all tick_is_mock (tick_stream (connect p) now smb)"
  unfolding list_all_iff tick_is_mock_def
  using mock_ticks [of "connect p"] mock_stays(1) [of p] by (cases now) blast

end

record mock_provider =
  mp_connected :: bool

definition new_mock_provider :: mock_provider where
  "new_mock_provider = \<lparr>mp_connected = False\<rparr>"

definition mock_connect :: "mock_provider \<Rightarrow> mock_provider" where
  "mock_connect p = p\<lparr>mp_connected := True\<rparr>"

definition mock_disconnect :: "mock_provider \<Rightarrow> mock_provider" where
  "mock_disconnect p = p\<lparr>mp_connected := False\<rparr>"

text \<open>One fixed quote, whether or not the provider is connected.\<close>

definition mock_tick_stream :: "mock_provider \<Rightarrow> instant \<times> instant \<Rightarrow> string \<Rightarrow> tick list" where
  "mock_tick_stream p = (\<lambda>(now, later) smb.
     [\<lparr>tk_symbol = smb, tk_broker_symbol = smb @ ''.MOCK'', tk_bid = 2000, tk_ask = 4001 / 2,
       tk_tick_time = now, tk_received_at = later, tk_source = MOCK, tk_sequence_id = None, tk_volume = None\<rparr>])"

definition mock_get_status :: "mock_provider \<Rightarrow> string \<Rightarrow> market_data_status" where
  "mock_get_status p smb =
     \<lparr>md_symbol = smb, md_is_live = False, md_source = MOCK, md_last_tick_at = None, md_staleness_seconds = None,
      md_staleness_threshold_seconds = None, md_notes = Some ''For development only.''\<rparr>"

definition mock_is_mock :: "mock_provider \<Rightarrow> bool" where
  "mock_is_mock p \<longleftrightarrow> True"

interpretation mock: market_provider mock_connect mock_disconnect mock_tick_stream mock_get_status mock_is_mock
  by unfold_locales (auto simp: mock_tick_stream_def mock_get_status_def mock_is_mock_def)

lemma mock_quote_labelled: "list_all tick_is_mock (mock_tick_stream (mock_connect p) now smb)"
  by (rule mock.mock_labelled) (simp add: mock_is_mock_def)

lemma mock_quote_never_fresh: "\<not> md_is_fresh (mock_get_status p smb)"
  by (rule mock.mock_never_fresh) (simp add: mock_is_mock_def)

end
