(* ===== verification/Data_Reset.thy ===== *)
theory Data_Reset
  imports Aurexis_Prelude "HOL-Library.AList"
begin

section \<open>Wiping the application data (\<open>scripts/reset_application_users.py\<close>)\<close>

text \<open>
  The command that empties the tables, over a database with the foreign keys of \<open>backend/db/models\<close>.
  A row is its id and its references; a deletion applies the actions of the keys.  Which tables the
  mapper knows depends on the modules imported, so the registry is computed from the imports.
\<close>

subsection \<open>Tables and foreign keys\<close>

datatype on_delete = CASCADE | SET_NULL

type_synonym foreign_keys = "((string \<times> string) \<times> on_delete) list"

definition license_keys :: foreign_keys where
  "license_keys = [((''licenses'', ''users''), CASCADE)]"

definition account_keys :: foreign_keys where
  "account_keys = [((''trading_accounts'', ''users''), CASCADE)]"

definition audit_log_keys :: foreign_keys where
  "audit_log_keys = [((''audit_logs'', ''users''), SET_NULL),
     ((''audit_logs'', ''trading_accounts''), SET_NULL),
     ((''audit_logs'', ''mt5_agents''), SET_NULL)]"

definition command_keys :: foreign_keys where
  "command_keys = [((''execution_commands'', ''trading_accounts''), SET_NULL),
     ((''execution_commands'', ''candidate_signals''), SET_NULL),
     ((''execution_commands'', ''risk_decisions''), SET_NULL)]"

definition report_keys :: foreign_keys where
  "report_keys = [((''execution_reports'', ''execution_commands''), SET_NULL),
     ((''execution_reports'', ''trading_accounts''), SET_NULL)]"

definition position_keys :: foreign_keys where
  "position_keys = [((''positions'', ''trading_accounts''), SET_NULL),
     ((''positions'', ''execution_commands''), SET_NULL)]"

definition snapshot_keys :: foreign_keys where
  "snapshot_keys = [((''equity_snapshots'', ''trading_accounts''), CASCADE)]"

definition session_keys :: foreign_keys where
  "session_keys = [((''daily_session_states'', ''trading_accounts''), CASCADE)]"

definition agent_keys :: foreign_keys where
  "agent_keys = [((''mt5_agents'', ''trading_accounts''), CASCADE)]"

definition agent_command_keys :: foreign_keys where
  "agent_command_keys = [((''mt5_agent_commands'', ''mt5_agents''), CASCADE)]"

definition password_reset_keys :: foreign_keys where
  "password_reset_keys = [((''password_resets'', ''users''), CASCADE)]"

definition strategy_keys :: foreign_keys where
  "strategy_keys = [((''strategy_engine_state'', ''trading_accounts''), CASCADE)]"

definition signal_keys :: foreign_keys where
  "signal_keys = [((''candidate_signals'', ''trading_accounts''), SET_NULL)]"

definition refresh_token_keys :: foreign_keys where
  "refresh_token_keys = [((''refresh_tokens'', ''users''), CASCADE)]"

definition risk_configuration_keys :: foreign_keys where
  "risk_configuration_keys = [((''risk_configurations'', ''trading_accounts''), CASCADE),
     ((''risk_configurations'', ''users''), SET_NULL)]"

definition risk_decision_keys :: foreign_keys where
  "risk_decision_keys = [((''risk_decisions'', ''trading_accounts''), SET_NULL)]"

definition all_foreign_keys :: foreign_keys where
  "all_foreign_keys = license_keys @ account_keys @ audit_log_keys @ command_keys
     @ report_keys @ position_keys @ snapshot_keys @ session_keys
     @ agent_keys @ agent_command_keys @ password_reset_keys @ strategy_keys
     @ signal_keys @ refresh_token_keys @ risk_configuration_keys @ risk_decision_keys"

lemmas foreign_key_defs = all_foreign_keys_def license_keys_def account_keys_def audit_log_keys_def command_keys_def
  report_keys_def position_keys_def snapshot_keys_def session_keys_def
  agent_keys_def agent_command_keys_def password_reset_keys_def strategy_keys_def
  signal_keys_def refresh_token_keys_def risk_configuration_keys_def risk_decision_keys_def

definition cascades :: "string \<Rightarrow> string \<Rightarrow> bool" where
  "cascades child parent \<longleftrightarrow> map_of all_foreign_keys (child, parent) = Some CASCADE"

record table_row =
  tr_id :: nat
  tr_refs :: "(string \<times> nat option) list"

type_synonym tables = "(string \<times> table_row list) list"

definition rows_of :: "string \<Rightarrow> tables \<Rightarrow> table_row list" where
  "rows_of t db = (case map_of db t of Some rs \<Rightarrow> rs | None \<Rightarrow> [])"

definition present :: "tables \<Rightarrow> string \<Rightarrow> nat \<Rightarrow> bool" where
  "present db t i \<longleftrightarrow> i \<in> tr_id ` set (rows_of t db)"

definition supported :: "tables \<Rightarrow> string \<Rightarrow> table_row \<Rightarrow> bool" where
  "supported db child r \<longleftrightarrow>
     list_all (\<lambda>(p, ref). case ref of Some i \<Rightarrow> cascades child p \<longrightarrow> present db p i | None \<Rightarrow> True) (tr_refs r)"

definition cascade_step :: "tables \<Rightarrow> tables" where
  "cascade_step db = map (\<lambda>(c, rs). (c, filter (supported db c) rs)) db"

definition clear_ref :: "tables \<Rightarrow> string \<Rightarrow> string \<times> nat option \<Rightarrow> string \<times> nat option" where
  "clear_ref db child = (\<lambda>(p, ref).
     (p, case ref of
           Some i \<Rightarrow> if \<not> cascades child p \<and> \<not> present db p i then None else Some i
         | None \<Rightarrow> None))"

definition clear_refs :: "tables \<Rightarrow> tables" where
  "clear_refs db =
     map (\<lambda>(c, rs). (c, map (\<lambda>r. r\<lparr>tr_refs := map (clear_ref db c) (tr_refs r)\<rparr>) rs)) db"

text \<open>\<open>DELETE FROM t\<close>: a chain of cascades visits each table at most once.\<close>

definition delete_table :: "string \<Rightarrow> tables \<Rightarrow> tables" where
  "delete_table t db =
     clear_refs ((cascade_step ^^ length db) (map (\<lambda>(c, rs). (c, if c = t then [] else rs)) db))"

subsection \<open>The command\<close>

definition table_cleanup_order :: "string list" where
  "table_cleanup_order =
     [''audit_logs'', ''execution_reports'', ''positions'', ''execution_commands'', ''candidate_signals'',
      ''risk_decisions'', ''equity_snapshots'', ''daily_session_states'', ''risk_configurations'',
      ''mt5_agent_commands'', ''mt5_agents'', ''trading_accounts'', ''refresh_tokens'', ''password_resets'',
      ''licenses'', ''users'']"

text \<open>The tables a module registers when it is imported, and the modules the command imports.\<close>

definition registered_by :: "string \<Rightarrow> string list" where
  "registered_by m =
     (if m = ''backend.db.models''
      then table_cleanup_order @ [''news_events'', ''strategy_engine_state''] else [])"

definition reset_imports :: "string list" where
  "reset_imports = [''backend.core.config'', ''backend.db.base'']"

definition registry :: "string list \<Rightarrow> string list" where
  "registry modules = concat (map registered_by modules)"

definition get_table_counts :: "string list \<Rightarrow> tables \<Rightarrow> (string \<times> nat) list" where
  "get_table_counts reg db =
     map (\<lambda>t. (t, if t \<in> set reg then length (rows_of t db) else 0)) table_cleanup_order"

datatype reset_outcome =
    RESET_REFUSED
  | RESET_DRY_RUN "(string \<times> nat) list"
  | RESET_DONE "(string \<times> nat) list" "(string \<times> nat) list"

definition delete_registered :: "string list \<Rightarrow> tables \<Rightarrow> tables" where
  "delete_registered reg db =
     foldl (\<lambda>db t. if t \<in> set reg then delete_table t db else db) db table_cleanup_order"

definition run_reset ::
  "string list \<Rightarrow> string \<Rightarrow> bool \<Rightarrow> bool \<Rightarrow> tables \<Rightarrow> reset_outcome \<times> tables" where
  "run_reset reg database_url dry_run confirm db =
     (if \<not> confirm \<and> \<not> dry_run then (RESET_REFUSED, db)
      else if database_url = [] then (RESET_REFUSED, db)
      else if dry_run then (RESET_DRY_RUN (get_table_counts reg db), db)
      else let db' = delete_registered reg db
           in (RESET_DONE (get_table_counts reg db) (get_table_counts reg db'), db'))"

text \<open>\<open>main\<close>: without either flag the run is a dry one.\<close>

definition reset_main :: "string list \<Rightarrow> string \<Rightarrow> bool \<Rightarrow> bool \<Rightarrow> tables \<Rightarrow> reset_outcome \<times> tables" where
  "reset_main reg database_url dry_flag confirm_flag db =
     run_reset reg database_url (dry_flag \<or> \<not> confirm_flag) confirm_flag db"

subsection \<open>Lemmas\<close>

lemma rows_of_map: "rows_of t (map (\<lambda>(c, rs). (c, f c rs)) db) = (if t \<in> fst ` set db then f t (rows_of t db) else [])"
  by (induction db) (auto simp: rows_of_def split: option.splits)

lemma rows_of_outside: "t \<notin> fst ` set db \<Longrightarrow> rows_of t db = []"
  using map_of_eq_None_iff [of db t] by (simp add: rows_of_def)

lemma rows_of_cascade: "rows_of t (cascade_step db) = filter (supported db t) (rows_of t db)"
  unfolding cascade_step_def rows_of_map by (simp add: rows_of_outside)

lemma empty_cascades: "rows_of t db = [] \<Longrightarrow> rows_of t ((cascade_step ^^ n) db) = []"
  by (induction n) (simp_all add: rows_of_cascade)

lemma rows_of_clear_refs: "rows_of t db = [] \<Longrightarrow> rows_of t (clear_refs db) = []"
  unfolding clear_refs_def rows_of_map by simp

lemma rows_of_emptied:
  "rows_of c (map (\<lambda>(c, rs). (c, if c = t then [] else rs)) db) = (if c = t then [] else rows_of c db)"
  unfolding rows_of_map by (simp add: rows_of_outside)

lemma delete_table_empties: "rows_of t (delete_table t db) = []"
  unfolding delete_table_def by (intro rows_of_clear_refs empty_cascades) (simp add: rows_of_emptied)

lemma delete_table_keeps_empty: "rows_of c db = [] \<Longrightarrow> rows_of c (delete_table t db) = []"
  unfolding delete_table_def by (intro rows_of_clear_refs empty_cascades) (simp add: rows_of_emptied)

lemma get_table_counts_empty: "get_table_counts [] db = map (\<lambda>t. (t, 0)) table_cleanup_order"
  by (simp add: get_table_counts_def)

text \<open>Rows that reference a table they cascade with go with it; such a reference is never cleared.\<close>

definition bound_to :: "string \<Rightarrow> string \<Rightarrow> tables \<Rightarrow> bool" where
  "bound_to child parent db \<longleftrightarrow> (\<forall>r \<in> set (rows_of child db). \<exists>i. (parent, Some i) \<in> set (tr_refs r))"

lemma bound_to_cascade: "bound_to c p db \<Longrightarrow> bound_to c p ((cascade_step ^^ n) db)"
  by (induction n) (auto simp: bound_to_def rows_of_cascade)

lemma bound_to_clear_refs:
  assumes "cascades c p" "bound_to c p db" shows "bound_to c p (clear_refs db)"
  unfolding bound_to_def
proof
  fix r assume "r \<in> set (rows_of c (clear_refs db))"
  then obtain r0 where r0: "r0 \<in> set (rows_of c db)" "tr_refs r = map (clear_ref db c) (tr_refs r0)"
    unfolding clear_refs_def rows_of_map by (auto split: if_splits)
  then obtain i where "(p, Some i) \<in> set (tr_refs r0)" using assms(2) by (auto simp: bound_to_def)
  moreover have "clear_ref db c (p, Some i) = (p, Some i)" using assms(1) by (simp add: clear_ref_def)
  ultimately show "\<exists>i. (p, Some i) \<in> set (tr_refs r)" unfolding r0(2) set_map by (metis imageI)
qed

lemma bound_to_delete:
  assumes "cascades c p" "bound_to c p db" shows "bound_to c p (delete_table t db)"
proof -
  have "bound_to c p (map (\<lambda>(c, rs). (c, if c = t then [] else rs)) db)"
    using assms(2) by (simp add: bound_to_def rows_of_emptied)
  then show ?thesis unfolding delete_table_def by (intro bound_to_clear_refs [OF assms(1)] bound_to_cascade)
qed

lemma delete_parent_empties:
  assumes "cascades c p" "bound_to c p db" shows "rows_of c (delete_table p db) = []"
proof (cases "c = p")
  case False
  let ?db = "map (\<lambda>(c, rs). (c, if c = p then [] else rs)) db"
  have "\<not> present ?db p i" for i by (simp add: present_def rows_of_emptied)
  then have "\<not> supported ?db c r" if "r \<in> set (rows_of c db)" for r
    using assms that unfolding bound_to_def supported_def list_all_iff by fastforce
  then have step: "rows_of c (cascade_step ?db) = []" by (simp add: rows_of_cascade rows_of_emptied False)
  have "rows_of c ((cascade_step ^^ length db) ?db) = []"
  proof (cases db)
    case (Cons x xs)
    then have "(cascade_step ^^ length db) ?db = (cascade_step ^^ length xs) (cascade_step ?db)"
      by (simp add: funpow_swap1)
    then show ?thesis using empty_cascades [OF step] by simp
  qed (simp add: rows_of_def)
  then show ?thesis unfolding delete_table_def by (rule rows_of_clear_refs)
qed (simp add: delete_table_empties)

lemma deletions_keep_empty: "rows_of c db = [] \<Longrightarrow> rows_of c (foldl (\<lambda>db t. delete_table t db) db ts) = []"
  by (induction ts arbitrary: db) (simp_all add: delete_table_keeps_empty)

lemma deletions_empty: "c \<in> set ts \<Longrightarrow> rows_of c (foldl (\<lambda>db t. delete_table t db) db ts) = []"
  by (induction ts arbitrary: db) (auto simp: delete_table_empties deletions_keep_empty)

lemma deletions_cascade:
  "cascades c p \<Longrightarrow> bound_to c p db \<Longrightarrow> p \<in> set ts \<Longrightarrow> rows_of c (foldl (\<lambda>db t. delete_table t db) db ts) = []"
proof (induction ts arbitrary: db)
  case (Cons t ts)
  then show ?case
    by (cases "t = p") (simp_all add: delete_parent_empties deletions_keep_empty bound_to_delete)
qed simp

lemma delete_registered_all:
  "set table_cleanup_order \<subseteq> set reg \<Longrightarrow>
     delete_registered reg db = foldl (\<lambda>db t. delete_table t db) db table_cleanup_order"
  unfolding delete_registered_def by (rule foldl_cong) auto

lemma foldl_id: "foldl (\<lambda>x _. x) x ts = x"
  by (induction ts) simp_all

lemma delete_registered_none: "delete_registered [] db = db"
  by (simp add: delete_registered_def foldl_id)

subsection \<open>Properties\<close>

text \<open>
  C40: The command that wipes the data wipes nothing and reports success.  It runs only when
  confirmed and not asked for a dry run; but it imports neither the models nor anything that does, so
  the registry it walks is empty: every count it prints is zero and the database stays as it is.  With
  the models imported, the same run would empty every table but the calendar, the state of the
  strategies, which the list of tables omits, through its cascading key.
\<close>

theorem reset_erases_nothing:
  assumes "database_url \<noteq> []" "bound_to ''strategy_engine_state'' ''trading_accounts'' db"
  shows "reset_main (registry reset_imports) database_url False True db
      = (RESET_DONE (map (\<lambda>t. (t, 0)) table_cleanup_order) (map (\<lambda>t. (t, 0)) table_cleanup_order), db)
    \<and> (\<forall>t \<in> set (registry [''backend.db.models'']) - {''news_events''}.
         rows_of t (snd (reset_main (registry [''backend.db.models'']) database_url False True db)) = [])
    \<and> (\<forall>reg dry. snd (reset_main reg database_url dry False db) = db)"
proof (intro conjI ballI allI)
  have "registry reset_imports = []" by (simp add: registry_def reset_imports_def registered_by_def)
  then show "reset_main (registry reset_imports) database_url False True db
      = (RESET_DONE (map (\<lambda>t. (t, 0)) table_cleanup_order) (map (\<lambda>t. (t, 0)) table_cleanup_order), db)"
    using assms(1) by (simp add: reset_main_def run_reset_def delete_registered_none get_table_counts_empty Let_def)
next
  fix t assume t: "t \<in> set (registry [''backend.db.models'']) - {''news_events''}"
  have reg: "set (registry [''backend.db.models'']) = set table_cleanup_order \<union> {''news_events'', ''strategy_engine_state''}"
    by (auto simp: registry_def registered_by_def)
  let ?db = "foldl (\<lambda>db t. delete_table t db) db table_cleanup_order"
  have db: "snd (reset_main (registry [''backend.db.models'']) database_url False True db) = ?db"
    using assms(1) delete_registered_all [of "registry [''backend.db.models'']" db] unfolding reg
    by (auto simp: reset_main_def run_reset_def Let_def)
  have "cascades ''strategy_engine_state'' ''trading_accounts''" by (simp add: cascades_def foreign_key_defs)
  moreover have "''trading_accounts'' \<in> set table_cleanup_order" by (simp add: table_cleanup_order_def)
  ultimately have "rows_of ''strategy_engine_state'' ?db = []" by (rule deletions_cascade [OF _ assms(2)])
  then show "rows_of t (snd (reset_main (registry [''backend.db.models'']) database_url False True db)) = []"
    using t deletions_empty unfolding db reg by blast
next
  fix reg dry show "snd (reset_main reg database_url dry False db) = db"
    by (simp add: reset_main_def run_reset_def)
qed

definition demo_tables :: tables where
  "demo_tables =
     [(''users'', [\<lparr>tr_id = 1, tr_refs = []\<rparr>]),
      (''trading_accounts'', [\<lparr>tr_id = 2, tr_refs = [(''users'', Some 1)]\<rparr>]),
      (''strategy_engine_state'', [\<lparr>tr_id = 3, tr_refs = [(''trading_accounts'', Some 2)]\<rparr>])]"

theorem reset_erases_nothing_witness:
  "snd (reset_main (registry reset_imports) ''postgresql://h/d'' False True demo_tables) = demo_tables
   \<and> rows_of ''strategy_engine_state''
       (snd (reset_main (registry [''backend.db.models'']) ''postgresql://h/d'' False True demo_tables)) = []"
proof -
  have bound: "bound_to ''strategy_engine_state'' ''trading_accounts'' demo_tables"
    by (simp add: bound_to_def demo_tables_def rows_of_def)
  have "''strategy_engine_state'' \<in> set (registry [''backend.db.models'']) - {''news_events''}"
    by (simp add: registry_def registered_by_def)
  with reset_erases_nothing [OF _ bound, of "''postgresql://h/d''"] show ?thesis by simp
qed

end
