(* ===== verification/Activity_Api.thy ===== *)
theory Activity_Api
  imports Read_Api News
begin

section \<open>Audit trail and news pages (\<open>services/audit.py\<close>, \<open>api/v1/activity.py\<close>, \<open>api/v1/news_routes.py\<close>)\<close>

text \<open>
  The table of audit events with every column the page reads, appended to by the one function that
  writes it; the page of a user; the two news endpoints, which any valid token may call; and the reply
  in which the agent endpoints show a command.  The components keep the account and the kind of the events they record; here the row is complete.
\<close>

subsection \<open>The audit table\<close>

record audit_row =
  al_id :: string
  al_user_id :: "string option"
  al_account_id :: "string option"
  al_mt5_agent_id :: "string option"
  al_event_type :: string
  al_severity :: string
  al_payload_json :: "string option"
  al_correlation_id :: "string option"
  al_ip_address :: "string option"
  al_occurred_at :: instant

record audit_details =
  ad_severity :: string
  ad_user_id :: "string option"
  ad_account_id :: "string option"
  ad_mt5_agent_id :: "string option"
  ad_payload :: "json_object option"
  ad_correlation_id :: "string option"
  ad_ip_address :: "string option"

definition default_details :: audit_details where
  "default_details =
     \<lparr>ad_severity = ''INFO'', ad_user_id = None, ad_account_id = None, ad_mt5_agent_id = None,
      ad_payload = None, ad_correlation_id = None, ad_ip_address = None\<rparr>"

text \<open>A payload that cannot be serialised is replaced by its error.\<close>

definition payload_text :: "(json_object \<Rightarrow> string + string) \<Rightarrow> json_object option \<Rightarrow> string option" where
  "payload_text dumps payload =
     (case payload of
        None \<Rightarrow> None
      | Some d \<Rightarrow>
          (case dumps d of
             Inr s \<Rightarrow> Some s
           | Inl e \<Rightarrow>
               (case dumps [(''_serialization_error'', J_str e)] of Inr s \<Rightarrow> Some s | Inl _ \<Rightarrow> None)))"

definition record_audit_event ::
  "(json_object \<Rightarrow> string + string) \<Rightarrow> instant \<Rightarrow> string \<Rightarrow> string \<Rightarrow> audit_details \<Rightarrow> audit_row list
     \<Rightarrow> audit_row list" where
  "record_audit_event dumps now fresh kind d rows =
     rows @ [\<lparr>al_id = fresh, al_user_id = ad_user_id d, al_account_id = ad_account_id d,
              al_mt5_agent_id = ad_mt5_agent_id d, al_event_type = kind, al_severity = ad_severity d,
              al_payload_json = payload_text dumps (ad_payload d), al_correlation_id = ad_correlation_id d,
              al_ip_address = ad_ip_address d, al_occurred_at = now\<rparr>]"

subsection \<open>The activity of a user\<close>

record activity_entry =
  ay_id :: string
  ay_event_type :: string
  ay_severity :: string
  ay_account_id :: "string option"
  ay_correlation_id :: "string option"
  ay_occurred_at :: instant

definition activity_entry_of :: "audit_row \<Rightarrow> activity_entry" where
  "activity_entry_of r =
     \<lparr>ay_id = al_id r, ay_event_type = al_event_type r, ay_severity = al_severity r,
      ay_account_id = al_account_id r, ay_correlation_id = al_correlation_id r,
      ay_occurred_at = al_occurred_at r\<rparr>"

definition list_activity ::
  "conversions \<Rightarrow> string \<Rightarrow> int \<Rightarrow> audit_row list \<Rightarrow> http_error + activity_entry list" where
  "list_activity cv user limit rows =
     (if limit < 1 \<or> 200 < limit then Inl (Http 422 ''VALIDATION'')
      else case cv_uuid cv user of
             None \<Rightarrow> Inl (Http 500 ''INTERNAL'')
           | Some u \<Rightarrow>
               Inr (map activity_entry_of
                      (newest al_occurred_at (nat limit) (filter (\<lambda>r. al_user_id r = Some u) rows))))"

subsection \<open>News\<close>

definition api_news_state :: "instant \<Rightarrow> news_event list \<Rightarrow> news_protection" where
  "api_news_state now rows = get_news_protection_state now 30 30 rows"

definition api_news_sync ::
  "news_reading \<Rightarrow> instant \<Rightarrow> feed_response \<Rightarrow> news_event list
     \<Rightarrow> (http_error + nat \<times> protection_status) \<times> news_event list" where
  "api_news_sync rd now resp rows =
     (case fetch_and_sync_news rd 30 30 resp rows of
        (Inl e, rows') \<Rightarrow> (Inl (Http 500 ''INTERNAL''), rows)
      | (Inr n, rows') \<Rightarrow> (Inr (n, np_status (api_news_state now rows')), rows'))"

subsection \<open>Commands as the agent page shows them\<close>

record command_response =
  cr_id :: string
  cr_agent_id :: string
  cr_command_type :: string
  cr_status :: agent_status
  cr_payload :: "json json_dict option"
  cr_result :: "json json_dict option"
  cr_error_message :: "string option"
  cr_created_at :: instant
  cr_sent_at :: "instant option"
  cr_acknowledged_at :: "instant option"
  cr_completed_at :: "instant option"

definition load_optional :: "json json_codec \<Rightarrow> string option \<Rightarrow> json json_dict option" where
  "load_optional j text =
     (case text of None \<Rightarrow> None | Some s \<Rightarrow> if s = [] then None else jc_loads j s)"

definition command_to_response :: "json json_codec \<Rightarrow> agent_command \<Rightarrow> command_response" where
  "command_to_response j c =
     \<lparr>cr_id = ac_id c, cr_agent_id = ac_agent_id c, cr_command_type = ac_command_type c,
      cr_status = ac_status c, cr_payload = load_optional j (ac_payload_json c),
      cr_result = load_optional j (ac_result_json c), cr_error_message = ac_error_message c,
      cr_created_at = ac_created_at c, cr_sent_at = ac_sent_at c,
      cr_acknowledged_at = ac_acknowledged_at c, cr_completed_at = ac_completed_at c\<rparr>"

subsection \<open>Lemmas\<close>

lemma set_newest: "set (newest key n xs) \<subseteq> set xs"
  by (auto simp: newest_def dest: in_set_takeD)

lemma sorted_newest: "sorted_wrt (\<lambda>x y. key y \<le> key x) (newest key n xs)"
proof -
  have "sorted (map (\<lambda>x. - key x) (sort_key (\<lambda>x. - key x) xs))" by simp
  then have "sorted_wrt (\<lambda>x y. key y \<le> key x) (sort_key (\<lambda>x. - key x) xs)"
    unfolding sorted_map by (rule sorted_wrt_mono_rel [rotated]) simp
  then show ?thesis unfolding newest_def by (rule sorted_wrt_take)
qed

lemma length_newest: "length (newest key n xs) = min n (length xs)"
  by (simp add: newest_def min.commute)

text \<open>Whatever is left out of the newest is older than what is shown.\<close>

lemma newest_complete:
  assumes "x \<in> set xs" "x \<notin> set (newest key n xs)" "y \<in> set (newest key n xs)"
  shows "key x \<le> key y"
proof -
  let ?s = "sort_key (\<lambda>x. - key x) xs"
  have "x \<in> set (drop n ?s)"
    using assms(1,2) by (metis UnE append_take_drop_id newest_def set_append set_sort)
  moreover have "sorted (map (\<lambda>x. - key x) (take n ?s @ drop n ?s))" by simp
  ultimately show ?thesis
    using assms(3) unfolding map_append sorted_append newest_def by auto
qed

lemma activity_is_private:
  assumes "list_activity cv user limit rows = Inr es" "cv_uuid cv user = Some u"
  shows "\<forall>e \<in> set es. \<exists>r \<in> set rows. al_user_id r = Some u \<and> e = activity_entry_of r"
    and "length es \<le> 200" and "sorted_wrt (\<lambda>a b. ay_occurred_at b \<le> ay_occurred_at a) es"
proof -
  let ?rows = "newest al_occurred_at (nat limit) (filter (\<lambda>r. al_user_id r = Some u) rows)"
  have es: "es = map activity_entry_of ?rows" and limit: "limit \<le> 200"
    using assms by (auto simp: list_activity_def split: if_splits)
  show "\<forall>e \<in> set es. \<exists>r \<in> set rows. al_user_id r = Some u \<and> e = activity_entry_of r"
    using set_newest [of al_occurred_at "nat limit" "filter (\<lambda>r. al_user_id r = Some u) rows"]
    unfolding es by auto
  show "length es \<le> 200" unfolding es using limit by (simp add: length_newest)
  show "sorted_wrt (\<lambda>a b. ay_occurred_at b \<le> ay_occurred_at a) es"
    unfolding es sorted_wrt_map using sorted_newest [of al_occurred_at] by (simp add: activity_entry_of_def)
qed

text \<open>Recording for someone else does not change the page of a user.\<close>

lemma record_keeps_pages:
  assumes "cv_uuid cv user = Some u" "ad_user_id d \<noteq> Some u"
  shows "list_activity cv user limit (record_audit_event dumps now fresh kind d rows) = list_activity cv user limit rows"
  using assms by (simp add: list_activity_def record_audit_event_def)

text \<open>The page shows the payload a command was created with, when the codec reads what it writes.\<close>

lemma response_shows_payload:
  assumes "dump_optional j payload = Inr text"
      "\<forall>d s. jc_dumps j d = Some s \<longrightarrow> s \<noteq> [] \<and> jc_loads j s = Some d"
  shows "load_optional j text = payload"
  using assms
  by (cases payload; cases "jc_dumps j (the payload)") (auto simp: dump_optional_def load_optional_def)

text \<open>The payload sent to the agent is the one the page shows.\<close>

lemma message_agrees_with_page:
  "command_message j c =
     COMMAND (cr_id (command_to_response j c)) (cr_command_type (command_to_response j c))
       (cr_payload (command_to_response j c))"
  by (simp add: command_message_def command_to_response_def load_optional_def split: option.split)

end
