(* ===== verification/Broker_Catalog.thy ===== *)
theory Broker_Catalog
  imports Accounts
begin

section \<open>The catalogue of brokers (\<open>services/broker_adapter.py\<close>)\<close>

text \<open>
  What the page for a new account offers: the brokers with their servers, symbols and currencies.
\<close>

fun display_name :: "broker_adapter \<Rightarrow> string" where
  "display_name HFM = ''HFM (HF Markets)''"
| "display_name Exness = ''Exness''"

fun supported_symbols :: "broker_adapter \<Rightarrow> string list" where
  "supported_symbols HFM = [''XAUUSD'', ''XAUUSD.m'', ''GOLD'']"
| "supported_symbols Exness = [''XAUUSD'', ''XAUUSDm'', ''XAUUSDc'', ''XAUUSDk'']"

definition hfm_servers :: "string list" where
  "hfm_servers =
     [''HFMarketGlobal-Demo4'', ''HFMarketsGlobal-Demo'', ''HFMarketsGlobal-Demo2'',
      ''HFMarketsGlobal-Demo3'', ''HFMarketsGlobal-Live'', ''HFMarketsGlobal-Live2'',
      ''HFMarketsGlobal-Live3'', ''HFMarketsSV-Live'', ''HFMarketsSV-Live2'', ''HFMarketsSV-Live3'',
      ''HFMarketsSV-Live4'', ''HFMarketsSV-Live5'', ''HFMarketsSV-Live6'', ''HFMarketsSV-Live7'',
      ''HFMarketsSV-Demo'', ''HFMarketsSA-Live'', ''HFMarketsSA-Demo'', ''HFMarketsEurope-Live'',
      ''HFMarketsEurope-Demo'', ''HFM-Live'', ''HFM-Demo'']"

definition exness_servers :: "string list" where
  "exness_servers =
     [''Exness-Real'', ''Exness-Real2'', ''Exness-Real3'', ''Exness-Real4'', ''Exness-Real5'',
      ''Exness-Real6'', ''Exness-Real7'', ''Exness-Real8'', ''Exness-Real9'', ''Exness-Real10'',
      ''Exness-Real11'', ''Exness-Real12'', ''Exness-Real13'', ''Exness-Real14'', ''Exness-Real15'',
      ''Exness-Real16'', ''Exness-Real17'', ''Exness-Real18'', ''Exness-Real19'', ''Exness-Real20'',
      ''Exness-Real21'', ''Exness-Real22'', ''Exness-Real23'', ''Exness-Real24'', ''Exness-Real25'',
      ''Exness-Real26'', ''Exness-Real27'', ''Exness-Real28'', ''Exness-Real29'', ''Exness-Real30'',
      ''Exness-Real31'', ''Exness-Real32'', ''Exness-Real33'', ''Exness-Real34'', ''Exness-Real35'',
      ''Exness-Real36'', ''Exness-Trial'', ''Exness-Trial2'', ''Exness-Trial3'', ''Exness-Trial4'',
      ''Exness-Trial5'', ''Exness-Trial6'', ''Exness-Trial7'', ''Exness-Trial8'', ''Exness-Trial9'',
      ''Exness-Trial10'']"

fun known_servers :: "broker_adapter \<Rightarrow> string list" where
  "known_servers HFM = hfm_servers"
| "known_servers Exness = exness_servers"

text \<open>Both brokers support cent accounts.\<close>

record broker_offer =
  bf_id :: string
  bf_name :: string
  bf_servers :: "string list"
  bf_supports_cent :: bool
  bf_default_symbol :: string
  bf_currencies :: "string list"

definition broker_offer_of :: "broker_adapter \<Rightarrow> broker_offer" where
  "broker_offer_of b =
     \<lparr>bf_id = adapter_name b, bf_name = display_name b, bf_servers = known_servers b, bf_supports_cent = True,
      bf_default_symbol = default_gold_symbol b,
      bf_currencies = [''USD'', ''EUR'', ''GBP'', ''IDR'', ''USDCent'']\<rparr>"

definition get_supported_brokers :: "broker_offer list" where
  "get_supported_brokers = map broker_offer_of [HFM, Exness]"

subsection \<open>Lemmas\<close>

text \<open>The form accepts what the page offers, with the account settings the offer announces.\<close>

lemma offered_accepted:
  assumes "offer \<in> set get_supported_brokers"
  shows "\<exists>b. normalize_broker_name (bf_id offer) = Some b \<and> offer = broker_offer_of b"
proof -
  have "offer = broker_offer_of HFM \<or> offer = broker_offer_of Exness"
    using assms by (auto simp: get_supported_brokers_def)
  moreover have "normalize_broker_name (bf_id (broker_offer_of b)) = Some b" for b
    unfolding broker_offer_of_def broker_offer.select_convs by (rule adapter_name_fixed)
  ultimately show ?thesis by blast
qed

text \<open>Gold is translated to a symbol the broker supports, on cent accounts too.\<close>

lemma gold_symbol_supported:
  assumes "map ascii_upper (py_strip s) \<in> {''XAUUSD'', ''GOLD''}"
  shows "broker_symbol b s c \<in> set (supported_symbols b)"
  using assms by (cases b) (auto simp: broker_symbol_def)

lemma servers_distinct: "distinct (known_servers b)"
  by (cases b) (simp_all add: hfm_servers_def exness_servers_def)

end
