(* ===== verification/Schema.thy ===== *)
theory Schema
  imports Data_Reset
begin

section \<open>Schemas and their changes\<close>

text \<open>
  The statements the migrations are written in, over a schema of tables and indexes.  A statement that
  the database refuses is \<open>None\<close>; where the model is stricter than PostgreSQL, a statement it accepts
  does there what it does here.  Every foreign key of the program refers to the \<open>id\<close> of a table, so a
  reference is the table and the action of a deletion.  Constraints without a name get one from the
  database that no statement mentions.
\<close>

subsection \<open>Schemas\<close>

datatype column_type =
    Uuid | Varchar nat | Text_type | Boolean_type | Integer_type | Bigint | Numeric nat nat
  | Timestamptz | Date_type

record column =
  cl_name :: string
  cl_type :: column_type
  cl_nullable :: bool
  cl_default :: "string option"
  cl_primary :: bool
  cl_unique :: bool
  cl_references :: "(string \<times> on_delete) option"

record db_table =
  tb_name :: string
  tb_columns :: "column list"
  tb_uniques :: "(string \<times> string list) list"

record db_index =
  ix_name :: string
  ix_table :: string
  ix_columns :: "string list"
  ix_unique :: bool

record schema =
  sc_extensions :: "string list"
  sc_tables :: "db_table list"
  sc_indexes :: "db_index list"

definition empty_schema :: schema where
  "empty_schema = \<lparr>sc_extensions = [], sc_tables = [], sc_indexes = []\<rparr>"

subsection \<open>Columns and indexes as the migrations write them\<close>

definition required :: "string \<Rightarrow> column_type \<Rightarrow> column" where
  "required n ty =
     \<lparr>cl_name = n, cl_type = ty, cl_nullable = False, cl_default = None, cl_primary = False,
      cl_unique = False, cl_references = None\<rparr>"

definition optional :: "string \<Rightarrow> column_type \<Rightarrow> column" where
  "optional n ty = (required n ty)\<lparr>cl_nullable := True\<rparr>"

definition defaulted :: "string \<Rightarrow> column_type \<Rightarrow> string \<Rightarrow> column" where
  "defaulted n ty d = (required n ty)\<lparr>cl_default := Some d\<rparr>"

definition required_ref :: "string \<Rightarrow> string \<Rightarrow> on_delete \<Rightarrow> column" where
  "required_ref n tb act = (required n Uuid)\<lparr>cl_references := Some (tb, act)\<rparr>"

definition optional_ref :: "string \<Rightarrow> string \<Rightarrow> on_delete \<Rightarrow> column" where
  "optional_ref n tb act = (optional n Uuid)\<lparr>cl_references := Some (tb, act)\<rparr>"

definition unique_column :: "column \<Rightarrow> column" where
  "unique_column c = c\<lparr>cl_unique := True\<rparr>"

definition primary_key_unset :: column where
  "primary_key_unset = (required ''id'' Uuid)\<lparr>cl_primary := True\<rparr>"

definition primary_key :: "string \<Rightarrow> column" where
  "primary_key d = (defaulted ''id'' Uuid d)\<lparr>cl_primary := True\<rparr>"

definition plain_index :: "string \<Rightarrow> string \<Rightarrow> string list \<Rightarrow> db_index" where
  "plain_index n tb cs = \<lparr>ix_name = n, ix_table = tb, ix_columns = cs, ix_unique = False\<rparr>"

definition unique_index :: "string \<Rightarrow> string \<Rightarrow> string list \<Rightarrow> db_index" where
  "unique_index n tb cs = \<lparr>ix_name = n, ix_table = tb, ix_columns = cs, ix_unique = True\<rparr>"

subsection \<open>Statements\<close>

datatype ddl =
    Create_extension string
  | Create_table db_table
  | Drop_table string
  | Create_index db_index
  | Drop_index string string
  | Add_column string column
  | Drop_column string string

definition table_names :: "schema \<Rightarrow> string list" where
  "table_names s = map tb_name (sc_tables s)"

text \<open>Tables, indexes and named unique constraints share one name space.\<close>

definition relation_names :: "schema \<Rightarrow> string list" where
  "relation_names s =
     table_names s @ map ix_name (sc_indexes s) @ concat (map (\<lambda>t. map fst (tb_uniques t)) (sc_tables s))"

definition column_names :: "db_table \<Rightarrow> string list" where
  "column_names t = map cl_name (tb_columns t)"

definition columns_of :: "string \<Rightarrow> schema \<Rightarrow> string list" where
  "columns_of n s = concat (map column_names (filter (\<lambda>t. tb_name t = n) (sc_tables s)))"

definition references_known :: "string list \<Rightarrow> column \<Rightarrow> bool" where
  "references_known known c = (case cl_references c of None \<Rightarrow> True | Some (p, act) \<Rightarrow> p \<in> set known)"

definition refers_to :: "string \<Rightarrow> db_table \<Rightarrow> bool" where
  "refers_to n t = list_ex (\<lambda>c. case cl_references c of None \<Rightarrow> False | Some (p, act) \<Rightarrow> p = n) (tb_columns t)"

definition on_table :: "string \<Rightarrow> (db_table \<Rightarrow> db_table) \<Rightarrow> schema \<Rightarrow> schema" where
  "on_table n f s = s\<lparr>sc_tables := map (\<lambda>t. if tb_name t = n then f t else t) (sc_tables s)\<rparr>"

fun apply_ddl :: "ddl \<Rightarrow> schema \<Rightarrow> schema option" where
  "apply_ddl (Create_extension e) s =
     Some (if e \<in> set (sc_extensions s) then s else s\<lparr>sc_extensions := sc_extensions s @ [e]\<rparr>)"
| "apply_ddl (Create_table t) s =
     (if list_all (\<lambda>n. n \<notin> set (relation_names s)) (tb_name t # map fst (tb_uniques t))
         \<and> distinct (column_names t)
         \<and> list_all (references_known (tb_name t # table_names s)) (tb_columns t)
         \<and> list_all (\<lambda>u. set (snd u) \<subseteq> set (column_names t)) (tb_uniques t)
      then Some (s\<lparr>sc_tables := sc_tables s @ [t]\<rparr>) else None)"
| "apply_ddl (Drop_table n) s =
     (if n \<in> set (table_names s) \<and> list_all (\<lambda>t. tb_name t = n \<or> \<not> refers_to n t) (sc_tables s)
      then Some (s\<lparr>sc_tables := filter (\<lambda>t. tb_name t \<noteq> n) (sc_tables s),
                   sc_indexes := filter (\<lambda>i. ix_table i \<noteq> n) (sc_indexes s)\<rparr>)
      else None)"
| "apply_ddl (Create_index i) s =
     (if ix_table i \<in> set (table_names s) \<and> set (ix_columns i) \<subseteq> set (columns_of (ix_table i) s)
         \<and> ix_name i \<notin> set (relation_names s)
      then Some (s\<lparr>sc_indexes := sc_indexes s @ [i]\<rparr>) else None)"
| "apply_ddl (Drop_index n tb) s =
     (if list_ex (\<lambda>i. ix_name i = n \<and> ix_table i = tb) (sc_indexes s)
      then Some (s\<lparr>sc_indexes := filter (\<lambda>i. \<not> (ix_name i = n \<and> ix_table i = tb)) (sc_indexes s)\<rparr>)
      else None)"
| "apply_ddl (Add_column n c) s =
     (if n \<in> set (table_names s) \<and> cl_name c \<notin> set (columns_of n s)
         \<and> references_known (table_names s) c \<and> \<not> cl_primary c
         \<and> (cl_nullable c \<or> cl_default c \<noteq> None)
      then Some (on_table n (\<lambda>t. t\<lparr>tb_columns := tb_columns t @ [c]\<rparr>) s) else None)"
| "apply_ddl (Drop_column n x) s =
     (if x \<in> set (columns_of n s)
         \<and> list_all (\<lambda>t. tb_name t = n \<longrightarrow> list_all (\<lambda>c. cl_name c = x \<longrightarrow> \<not> cl_primary c) (tb_columns t)) (sc_tables s)
      then Some ((on_table n
                    (\<lambda>t. t\<lparr>tb_columns := filter (\<lambda>c. cl_name c \<noteq> x) (tb_columns t),
                           tb_uniques := filter (\<lambda>u. x \<notin> set (snd u)) (tb_uniques t)\<rparr>) s)
                 \<lparr>sc_indexes := filter (\<lambda>i. \<not> (ix_table i = n \<and> x \<in> set (ix_columns i))) (sc_indexes s)\<rparr>)
      else None)"

fun run_ddl :: "ddl list \<Rightarrow> schema \<Rightarrow> schema option" where
  "run_ddl [] s = Some s"
| "run_ddl (op # ops) s = Option.bind (apply_ddl op s) (run_ddl ops)"

subsection \<open>Well-formed schemas\<close>

definition table_ok :: "string list \<Rightarrow> db_table \<Rightarrow> bool" where
  "table_ok known t \<longleftrightarrow>
     list_all (references_known known) (tb_columns t)
     \<and> list_all (\<lambda>u. set (snd u) \<subseteq> set (column_names t)) (tb_uniques t)"

definition index_ok :: "schema \<Rightarrow> db_index \<Rightarrow> bool" where
  "index_ok s i \<longleftrightarrow>
     ix_table i \<in> set (table_names s) \<and> set (ix_columns i) \<subseteq> set (columns_of (ix_table i) s)"

definition schema_ok :: "schema \<Rightarrow> bool" where
  "schema_ok s \<longleftrightarrow> list_all (table_ok (table_names s)) (sc_tables s) \<and> list_all (index_ok s) (sc_indexes s)"

subsection \<open>Undoing what was created\<close>

fun creates :: "ddl \<Rightarrow> bool" where
  "creates (Drop_table _) = False"
| "creates (Drop_index _ _) = False"
| "creates (Drop_column _ _) = False"
| "creates _ = True"

fun undo :: "ddl \<Rightarrow> ddl list" where
  "undo (Create_table t) = [Drop_table (tb_name t)]"
| "undo (Create_index i) = [Drop_index (ix_name i) (ix_table i)]"
| "undo (Add_column n c) = [Drop_column n (cl_name c)]"
| "undo _ = []"

definition undo_all :: "ddl list \<Rightarrow> ddl list" where
  "undo_all ops = concat (map undo (rev ops))"

text \<open>The indexes of a table need not be dropped before the table.\<close>

fun drop_before :: "string \<Rightarrow> ddl list \<Rightarrow> bool" where
  "drop_before tb (Drop_table n # ops) = (n = tb)"
| "drop_before tb _ = False"

fun absorb :: "ddl list \<Rightarrow> ddl list" where
  "absorb [] = []"
| "absorb (Drop_index n tb # ops) =
     (let rest = absorb ops in if drop_before tb rest then rest else Drop_index n tb # rest)"
| "absorb (op # ops) = op # absorb ops"

subsection \<open>What every statement keeps\<close>

lemma run_ddl_append: "run_ddl (xs @ ys) s = Option.bind (run_ddl xs s) (run_ddl ys)"
  by (induction xs arbitrary: s) (auto split: bind_splits)

lemma run_ddl_then: "run_ddl xs s = Some s' \<Longrightarrow> run_ddl (xs @ ys) s = run_ddl ys s'"
  by (simp add: run_ddl_append)

lemma in_columns_of:
  "x \<in> set (columns_of n s) \<longleftrightarrow> (\<exists>t \<in> set (sc_tables s). tb_name t = n \<and> x \<in> set (column_names t))"
  by (auto simp: columns_of_def)

lemma in_table_names: "n \<in> set (table_names s) \<longleftrightarrow> (\<exists>t \<in> set (sc_tables s). tb_name t = n)"
  by (auto simp: table_names_def)

lemma table_okD:
  assumes "schema_ok s" "t \<in> set (sc_tables s)"
  shows "c \<in> set (tb_columns t) \<Longrightarrow> references_known (table_names s) c"
    and "u \<in> set (tb_uniques t) \<Longrightarrow> x \<in> set (snd u) \<Longrightarrow> x \<in> set (column_names t)"
  using assms by (auto simp: schema_ok_def table_ok_def list_all_iff subset_iff)

lemma index_okD:
  assumes "schema_ok s" "i \<in> set (sc_indexes s)"
  shows "ix_table i \<in> set (table_names s)"
    and "x \<in> set (ix_columns i) \<Longrightarrow> x \<in> set (columns_of (ix_table i) s)"
  using assms by (auto simp: schema_ok_def index_ok_def list_all_iff subset_iff)

lemma table_okI:
  assumes "\<And>c. c \<in> set (tb_columns t) \<Longrightarrow> references_known ns c"
    "\<And>u x. u \<in> set (tb_uniques t) \<Longrightarrow> x \<in> set (snd u) \<Longrightarrow> x \<in> set (column_names t)"
  shows "table_ok ns t"
  using assms by (auto simp: table_ok_def list_all_iff)

lemma index_okI:
  assumes "ix_table i \<in> set (table_names s)"
    "\<And>x. x \<in> set (ix_columns i) \<Longrightarrow> x \<in> set (columns_of (ix_table i) s)"
  shows "index_ok s i"
  using assms by (auto simp: index_ok_def)

lemma schema_ok_cong:
  assumes "sc_tables s' = sc_tables s" "set (sc_indexes s') \<subseteq> set (sc_indexes s)" "schema_ok s"
  shows "schema_ok s'"
  using assms by (auto simp: schema_ok_def index_ok_def table_names_def columns_of_def list_all_iff)

lemma references_known_mono: "references_known ns c \<Longrightarrow> set ns \<subseteq> set ms \<Longrightarrow> references_known ms c"
  by (auto simp: references_known_def split: option.splits)

lemma schema_okI:
  assumes "\<And>t. t \<in> set (sc_tables s) \<Longrightarrow> table_ok (table_names s) t"
    "\<And>i. i \<in> set (sc_indexes s) \<Longrightarrow> index_ok s i"
  shows "schema_ok s"
  using assms by (auto simp: schema_ok_def list_all_iff)

lemma names_on_table:
  assumes "\<And>t. tb_name (f t) = tb_name t"
  shows "table_names (on_table n f s) = table_names s"
  using assms by (auto simp: table_names_def on_table_def)

lemma in_columns_on_table:
  assumes "\<And>t. tb_name (f t) = tb_name t"
  shows "x \<in> set (columns_of m (on_table n f s)) \<longleftrightarrow>
    (\<exists>t \<in> set (sc_tables s). tb_name t = m \<and> x \<in> set (column_names (if m = n then f t else t)))"
  using assms by (auto simp: in_columns_of on_table_def)

lemma create_table_ok:
  assumes "schema_ok s" "apply_ddl (Create_table t) s = Some s'"
  shows "schema_ok s'"
proof -
  have s': "s' = s\<lparr>sc_tables := sc_tables s @ [t]\<rparr>"
    and t: "list_all (references_known (tb_name t # table_names s)) (tb_columns t)"
      "list_all (\<lambda>u. set (snd u) \<subseteq> set (column_names t)) (tb_uniques t)"
    using assms(2) by (auto split: if_splits)
  have names: "table_names s' = table_names s @ [tb_name t]" by (simp add: s' table_names_def)
  show ?thesis
  proof (rule schema_okI)
    fix x assume "x \<in> set (sc_tables s')"
    then consider "x = t" | "x \<in> set (sc_tables s)" by (auto simp: s')
    then show "table_ok (table_names s') x"
    proof cases
      case 1
      then show ?thesis using t unfolding names
        by (auto simp: table_ok_def list_all_iff intro: references_known_mono)
    next
      case 2
      show ?thesis unfolding names
        by (rule table_okI) (use table_okD [OF assms(1) 2] in \<open>force intro: references_known_mono\<close>)+
    qed
  next
    fix i assume "i \<in> set (sc_indexes s')"
    then have i: "i \<in> set (sc_indexes s)" by (simp add: s')
    show "index_ok s' i"
    proof (rule index_okI)
      show "ix_table i \<in> set (table_names s')" using index_okD(1) [OF assms(1) i] by (simp add: names)
      show "x \<in> set (columns_of (ix_table i) s')" if "x \<in> set (ix_columns i)" for x
        using index_okD(2) [OF assms(1) i that] by (simp add: s' columns_of_def)
    qed
  qed
qed

lemma drop_table_ok:
  assumes "schema_ok s" "apply_ddl (Drop_table n) s = Some s'"
  shows "schema_ok s'"
proof -
  have s': "s' = s\<lparr>sc_tables := filter (\<lambda>t. tb_name t \<noteq> n) (sc_tables s),
                   sc_indexes := filter (\<lambda>i. ix_table i \<noteq> n) (sc_indexes s)\<rparr>"
    and free: "\<And>t. t \<in> set (sc_tables s) \<Longrightarrow> tb_name t \<noteq> n \<Longrightarrow> \<not> refers_to n t"
    using assms(2) by (auto simp: list_all_iff split: if_splits)
  show ?thesis
  proof (rule schema_okI)
    fix t assume "t \<in> set (sc_tables s')"
    then have t: "t \<in> set (sc_tables s)" "tb_name t \<noteq> n" by (auto simp: s')
    have "references_known (table_names s') c" if "c \<in> set (tb_columns t)" for c
      using table_okD(1) [OF assms(1) t(1) that] free [OF t] that
      by (auto simp: references_known_def refers_to_def list_ex_iff s' table_names_def split: option.splits)
    then show "table_ok (table_names s') t"
      using table_okD(2) [OF assms(1) t(1)] by (rule table_okI)
  next
    fix i assume "i \<in> set (sc_indexes s')"
    then have i: "i \<in> set (sc_indexes s)" "ix_table i \<noteq> n" by (auto simp: s')
    show "index_ok s' i"
    proof (rule index_okI)
      show "ix_table i \<in> set (table_names s')"
        using index_okD(1) [OF assms(1) i(1)] i(2) by (auto simp: s' in_table_names)
      show "x \<in> set (columns_of (ix_table i) s')" if "x \<in> set (ix_columns i)" for x
        using index_okD(2) [OF assms(1) i(1) that] i(2) by (auto simp: s' in_columns_of)
    qed
  qed
qed

lemma add_column_ok:
  assumes "schema_ok s" "apply_ddl (Add_column n c) s = Some s'"
  shows "schema_ok s'"
proof -
  let ?f = "\<lambda>t :: db_table. t\<lparr>tb_columns := tb_columns t @ [c]\<rparr>"
  have s': "s' = on_table n ?f s" and c: "references_known (table_names s) c"
    using assms(2) by (auto split: if_splits)
  have names: "table_names s' = table_names s" unfolding s' by (rule names_on_table) simp
  show ?thesis
  proof (rule schema_okI)
    fix t assume "t \<in> set (sc_tables s')"
    then obtain x where x: "x \<in> set (sc_tables s)" "t = x \<or> t = ?f x" by (auto simp: s' on_table_def)
    show "table_ok (table_names s') t" unfolding names
      by (rule table_okI) (use x c table_okD [OF assms(1) x(1)] in \<open>auto simp: column_names_def\<close>)
  next
    fix i assume "i \<in> set (sc_indexes s')"
    then have i: "i \<in> set (sc_indexes s)" by (simp add: s' on_table_def)
    show "index_ok s' i"
    proof (rule index_okI)
      show "ix_table i \<in> set (table_names s')" using index_okD(1) [OF assms(1) i] by (simp add: names)
      fix x assume x: "x \<in> set (ix_columns i)"
      obtain t where t: "t \<in> set (sc_tables s)" "tb_name t = ix_table i" "x \<in> set (column_names t)"
        using index_okD(2) [OF assms(1) i x] by (auto simp: in_columns_of)
      show "x \<in> set (columns_of (ix_table i) s')"
        unfolding in_columns_of using t
        by (intro bexI [of _ "if tb_name t = n then ?f t else t"])
          (auto simp: s' on_table_def column_names_def)
    qed
  qed
qed

lemma drop_column_ok:
  assumes "schema_ok s" "apply_ddl (Drop_column n x) s = Some s'"
  shows "schema_ok s'"
proof -
  let ?f = "\<lambda>t :: db_table. t\<lparr>tb_columns := filter (\<lambda>c. cl_name c \<noteq> x) (tb_columns t),
                           tb_uniques := filter (\<lambda>u. x \<notin> set (snd u)) (tb_uniques t)\<rparr>"
  have s': "s' = (on_table n ?f s)
                 \<lparr>sc_indexes := filter (\<lambda>i. \<not> (ix_table i = n \<and> x \<in> set (ix_columns i))) (sc_indexes s)\<rparr>"
    using assms(2) by (auto split: if_splits)
  have tables: "sc_tables s' = sc_tables (on_table n ?f s)" by (simp add: s')
  have names: "table_names s' = table_names s"
    using names_on_table [of ?f n s] by (simp add: table_names_def tables)
  show ?thesis
  proof (rule schema_okI)
    fix t assume "t \<in> set (sc_tables s')"
    then obtain x where x: "x \<in> set (sc_tables s)" "t = x \<or> t = ?f x" by (auto simp: tables on_table_def)
    show "table_ok (table_names s') t" unfolding names
      by (rule table_okI) (use x table_okD [OF assms(1) x(1)] in \<open>force simp: column_names_def\<close>)+
  next
    fix i assume "i \<in> set (sc_indexes s')"
    then have i: "i \<in> set (sc_indexes s)" "ix_table i = n \<longrightarrow> x \<notin> set (ix_columns i)" by (auto simp: s')
    show "index_ok s' i"
    proof (rule index_okI)
      show "ix_table i \<in> set (table_names s')" using index_okD(1) [OF assms(1) i(1)] by (simp add: names)
      fix y assume y: "y \<in> set (ix_columns i)"
      obtain t where t: "t \<in> set (sc_tables s)" "tb_name t = ix_table i" "y \<in> set (column_names t)"
        using index_okD(2) [OF assms(1) i(1) y] by (auto simp: in_columns_of)
      have "y \<in> set (column_names (if tb_name t = n then ?f t else t))"
        using t(2,3) i(2) y by (auto simp: column_names_def)
      moreover have "(if tb_name t = n then ?f t else t) \<in> set (sc_tables s')"
        using t(1) by (auto simp: tables on_table_def)
      ultimately show "y \<in> set (columns_of (ix_table i) s')"
        unfolding in_columns_of using t(2) by (intro bexI) auto
    qed
  qed
qed

text \<open>No statement leaves a reference to a missing table or an index on a missing column.\<close>

lemma apply_ddl_ok:
  assumes "schema_ok s" "apply_ddl op s = Some s'"
  shows "schema_ok s'"
proof (cases op)
  case (Create_extension e)
  then show ?thesis using assms schema_ok_cong [of s' s] by (auto split: if_splits)
next
  case (Create_index i)
  then have s': "s' = s\<lparr>sc_indexes := sc_indexes s @ [i]\<rparr>" "index_ok s i"
    using assms(2) by (auto simp: index_ok_def split: if_splits)
  moreover have "index_ok s' = index_ok s"
    by (auto simp: s' index_ok_def table_names_def columns_of_def)
  ultimately show ?thesis using assms(1) by (simp add: schema_ok_def table_names_def)
next
  case (Drop_index n tb)
  then show ?thesis using assms schema_ok_cong [of s' s] by (auto split: if_splits)
qed (use assms create_table_ok drop_table_ok add_column_ok drop_column_ok in blast)+

lemma run_ddl_ok: "schema_ok s \<Longrightarrow> run_ddl ops s = Some s' \<Longrightarrow> schema_ok s'"
  by (induction ops arbitrary: s) (auto split: bind_splits dest: apply_ddl_ok)

subsection \<open>Undoing\<close>

text \<open>An extension is not dropped again, so schemas are compared apart from their extensions.\<close>

lemma on_table_inverse:
  assumes "\<And>t. t \<in> set (sc_tables s) \<Longrightarrow> tb_name t = n \<Longrightarrow> g (f t) = t" "\<And>t. tb_name (f t) = tb_name t"
  shows "on_table n g ((on_table n f s)\<lparr>sc_extensions := e\<rparr>) = s\<lparr>sc_extensions := e\<rparr>"
  using assms by (cases s) (auto simp: on_table_def intro!: map_idI)

lemma undo_add_column:
  assumes "schema_ok s" "apply_ddl (Add_column n c) s = Some s'"
  shows "apply_ddl (Drop_column n (cl_name c)) (s'\<lparr>sc_extensions := e\<rparr>) = Some (s\<lparr>sc_extensions := e\<rparr>)"
proof -
  let ?f = "\<lambda>t :: db_table. t\<lparr>tb_columns := tb_columns t @ [c]\<rparr>"
  let ?g = "\<lambda>t :: db_table. t\<lparr>tb_columns := filter (\<lambda>d. cl_name d \<noteq> cl_name c) (tb_columns t),
                          tb_uniques := filter (\<lambda>u. cl_name c \<notin> set (snd u)) (tb_uniques t)\<rparr>"
  let ?s = "s'\<lparr>sc_extensions := e\<rparr>"
  have n: "n \<in> set (table_names s)" and fresh: "cl_name c \<notin> set (columns_of n s)" and p: "\<not> cl_primary c"
    and s': "s' = on_table n ?f s"
    using assms(2) by (auto split: if_splits)
  have absent: "cl_name c \<notin> set (column_names t)" if "t \<in> set (sc_tables s)" "tb_name t = n" for t
    using that fresh by (auto simp: in_columns_of)
  have names: "\<forall>d \<in> set (tb_columns t). cl_name d \<noteq> cl_name c"
    if "t \<in> set (sc_tables s)" "tb_name t = n" for t
    using absent [OF that] unfolding column_names_def set_map by (metis image_eqI)
  have uniques: "filter (\<lambda>u. cl_name c \<notin> set (snd u)) (tb_uniques t) = tb_uniques t"
    if "t \<in> set (sc_tables s)" "tb_name t = n" for t
  proof (rule filter_True, rule ballI, rule notI)
    fix u assume u: "u \<in> set (tb_uniques t)" "cl_name c \<in> set (snd u)"
    show False using table_okD(2) [OF assms(1) that(1) u] absent [OF that] by contradiction
  qed
  have same: "sc_indexes ?s = sc_indexes s" by (simp add: s' on_table_def)
  have ixs: "filter (\<lambda>i. \<not> (ix_table i = n \<and> cl_name c \<in> set (ix_columns i))) (sc_indexes ?s) = sc_indexes s"
    unfolding same
  proof (rule filter_True, rule ballI, rule notI)
    fix i assume i: "i \<in> set (sc_indexes s)" "ix_table i = n \<and> cl_name c \<in> set (ix_columns i)"
    show False using index_okD(2) [OF assms(1) i(1), of "cl_name c"] i(2) fresh by simp
  qed
  obtain t where t: "t \<in> set (sc_tables s)" "tb_name t = n" using n by (auto simp: in_table_names)
  have "cl_name c \<in> set (columns_of n ?s)"
    unfolding in_columns_of
    by (rule bexI [of _ "?f t"]) (use t in \<open>auto simp: s' on_table_def column_names_def\<close>)
  moreover have "list_all (\<lambda>t. tb_name t = n \<longrightarrow> list_all (\<lambda>d. cl_name d = cl_name c \<longrightarrow> \<not> cl_primary d) (tb_columns t))
      (sc_tables ?s)"
    unfolding list_all_iff
  proof (intro ballI impI)
    fix x d
    assume x: "x \<in> set (sc_tables ?s)" "tb_name x = n" "d \<in> set (tb_columns x)" "cl_name d = cl_name c"
    have "sc_tables ?s = map (\<lambda>t. if tb_name t = n then ?f t else t) (sc_tables s)"
      by (simp add: s' on_table_def)
    with x(1) have "x \<in> (\<lambda>t. if tb_name t = n then ?f t else t) ` set (sc_tables s)"
      by (simp only: set_map)
    then obtain t where t: "x = (if tb_name t = n then ?f t else t)" "t \<in> set (sc_tables s)"
      by (rule imageE)
    have "tb_name t = n" using t(1) x(2) by (cases "tb_name t = n") simp_all
    then show "\<not> cl_primary d" using x(3,4) names [OF t(2)] t(1) p by auto
  qed
  moreover have "on_table n ?g ?s = s\<lparr>sc_extensions := e\<rparr>"
    unfolding s' by (rule on_table_inverse) (use names uniques in \<open>auto simp: filter_id_conv\<close>)
  ultimately show ?thesis by (simp only: apply_ddl.simps if_True simp_thms ixs) simp
qed

lemma undo_applies:
  assumes "schema_ok s" "creates op" "apply_ddl op s = Some s'"
  shows "run_ddl (undo op) (s'\<lparr>sc_extensions := e\<rparr>) = Some (s\<lparr>sc_extensions := e\<rparr>)"
proof (cases op)
  case (Create_extension x)
  then show ?thesis using assms by (auto split: if_splits)
next
  case (Create_table t)
  have fresh: "tb_name t \<notin> set (table_names s)"
    and s': "s' = s\<lparr>sc_tables := sc_tables s @ [t]\<rparr>"
    using assms(3) by (auto simp: Create_table relation_names_def split: if_splits)
  have unused: "\<not> refers_to (tb_name t) x" if "x \<in> set (sc_tables s)" for x
    using table_okD(1) [OF assms(1) that] fresh
    by (fastforce simp: refers_to_def list_ex_iff references_known_def split: option.splits)
  have "filter (\<lambda>x. tb_name x \<noteq> tb_name t) (sc_tables s) = sc_tables s"
    using fresh by (auto simp: filter_id_conv in_table_names)
  moreover have "filter (\<lambda>i. ix_table i \<noteq> tb_name t) (sc_indexes s) = sc_indexes s"
  proof (rule filter_True, rule ballI)
    fix i assume "i \<in> set (sc_indexes s)"
    then show "ix_table i \<noteq> tb_name t" using index_okD(1) [OF assms(1)] fresh by metis
  qed
  ultimately show ?thesis
    using unused by (auto simp: Create_table s' table_names_def list_all_iff)
next
  case (Create_index i)
  have "ix_name i \<notin> ix_name ` set (sc_indexes s)" and s': "s' = s\<lparr>sc_indexes := sc_indexes s @ [i]\<rparr>"
    using assms(3) by (auto simp: Create_index relation_names_def split: if_splits)
  then have fresh: "\<forall>x \<in> set (sc_indexes s). ix_name x \<noteq> ix_name i" by (metis image_eqI)
  have "filter (\<lambda>x. ix_name x = ix_name i \<longrightarrow> ix_table x \<noteq> ix_table i) (sc_indexes s) = sc_indexes s"
    using fresh by (auto simp: filter_id_conv)
  then show ?thesis by (simp add: Create_index s')
next
  case (Add_column n c)
  then show ?thesis using undo_add_column [OF assms(1)] assms(3) by (simp del: apply_ddl.simps)
qed (use assms(2) in simp_all)

lemma run_undo_all:
  assumes "schema_ok s" "list_all creates ops" "run_ddl ops s = Some s'"
  shows "\<exists>e. run_ddl (undo_all ops) s' = Some (s\<lparr>sc_extensions := e\<rparr>)"
  using assms
proof (induction ops arbitrary: s)
  case Nil
  then show ?case by (auto simp: undo_all_def intro: exI [of _ "sc_extensions s"])
next
  case (Cons op ops)
  obtain s1 where s1: "apply_ddl op s = Some s1" "run_ddl ops s1 = Some s'"
    using Cons.prems(3) by (auto split: bind_splits)
  then obtain e where "run_ddl (undo_all ops) s' = Some (s1\<lparr>sc_extensions := e\<rparr>)"
    using Cons.IH [OF apply_ddl_ok [OF Cons.prems(1) s1(1)]] Cons.prems(2) by auto
  moreover have "undo_all (op # ops) = undo_all ops @ undo op" by (simp add: undo_all_def)
  ultimately show ?case
    using undo_applies [OF Cons.prems(1) _ s1(1), of e] Cons.prems(2) by (auto simp: run_ddl_append)
qed

lemma drop_index_absorbed:
  assumes "run_ddl (Drop_index n tb # Drop_table tb # ops) s = Some s'"
  shows "run_ddl (Drop_table tb # ops) s = Some s'"
proof -
  have [simp]: "(ix_name i = n \<longrightarrow> ix_table i \<noteq> m) \<and> ix_table i \<noteq> m \<longleftrightarrow> ix_table i \<noteq> m" for i m
    by blast
  show ?thesis using assms by (auto simp: table_names_def split: if_splits)
qed

lemma run_absorb: "run_ddl ops s = Some s' \<Longrightarrow> run_ddl (absorb ops) s = Some s'"
proof (induction ops arbitrary: s rule: absorb.induct)
  case (2 n tb ops)
  obtain s1 where s1: "apply_ddl (Drop_index n tb) s = Some s1" "run_ddl (absorb ops) s1 = Some s'"
    using 2 by (auto simp del: apply_ddl.simps split: bind_splits)
  show ?case
  proof (cases "drop_before tb (absorb ops)")
    case True
    then obtain rest where "absorb ops = Drop_table tb # rest"
      by (auto elim: drop_before.elims)
    then show ?thesis using s1 drop_index_absorbed [of n tb rest s s'] by auto
  next
    case False
    then show ?thesis using s1 by (simp add: Let_def)
  qed
qed (auto simp del: apply_ddl.simps split: bind_splits)

lemma run_absorbed_undo:
  assumes "schema_ok s" "list_all creates ops" "run_ddl ops s = Some s'"
  shows "\<exists>e. run_ddl (absorb (undo_all ops)) s' = Some (s\<lparr>sc_extensions := e\<rparr>)"
  using run_undo_all [OF assms] run_absorb by blast

subsection \<open>Tables with their indexes\<close>

text \<open>
  Most statements come in blocks: a table, then its indexes.  A schema of blocks is built in one go when
  no name is used twice and every reference leads to an earlier block.
\<close>

definition create_block :: "db_table \<Rightarrow> db_index list \<Rightarrow> ddl list" where
  "create_block t ixs = Create_table t # map Create_index ixs"

definition block_names :: "db_table \<times> db_index list \<Rightarrow> string list" where
  "block_names b = tb_name (fst b) # map fst (tb_uniques (fst b)) @ map ix_name (snd b)"

definition block_ok :: "string list \<Rightarrow> db_table \<times> db_index list \<Rightarrow> bool" where
  "block_ok known b \<longleftrightarrow>
     distinct (column_names (fst b)) \<and> table_ok (tb_name (fst b) # known) (fst b)
     \<and> list_all (\<lambda>i. ix_table i = tb_name (fst b) \<and> set (ix_columns i) \<subseteq> set (column_names (fst b))) (snd b)"

fun blocks_ok :: "string list \<Rightarrow> (db_table \<times> db_index list) list \<Rightarrow> bool" where
  "blocks_ok known [] = True"
| "blocks_ok known (b # bs) = (block_ok known b \<and> blocks_ok (known @ [tb_name (fst b)]) bs)"

definition built :: "string list \<Rightarrow> (db_table \<times> db_index list) list \<Rightarrow> schema" where
  "built exts bs = \<lparr>sc_extensions = exts, sc_tables = map fst bs, sc_indexes = concat (map snd bs)\<rparr>"

lemma set_relation_names_built:
  "set (relation_names (built exts bs)) = set (concat (map block_names bs))"
  by (auto simp: relation_names_def table_names_def built_def block_names_def)

lemma table_names_built: "table_names (built exts bs) = map (\<lambda>b. tb_name (fst b)) bs"
  by (simp add: table_names_def built_def)

lemma indexes_run:
  assumes "\<And>i. i \<in> set ixs \<Longrightarrow> ix_table i \<in> set (table_names s) \<and> set (ix_columns i) \<subseteq> set (columns_of (ix_table i) s)"
    "distinct (map ix_name ixs)" "set (map ix_name ixs) \<inter> set (relation_names s) = {}"
  shows "run_ddl (map Create_index ixs) s = Some (s\<lparr>sc_indexes := sc_indexes s @ ixs\<rparr>)"
  using assms
proof (induction ixs arbitrary: s)
  case (Cons i ixs)
  let ?s = "s\<lparr>sc_indexes := sc_indexes s @ [i]\<rparr>"
  have "apply_ddl (Create_index i) s = Some ?s" using Cons.prems by auto
  moreover have "run_ddl (map Create_index ixs) ?s = Some (?s\<lparr>sc_indexes := sc_indexes ?s @ ixs\<rparr>)"
    by (rule Cons.IH) (use Cons.prems in \<open>auto simp: table_names_def columns_of_def relation_names_def\<close>)
  ultimately show ?case by (simp del: apply_ddl.simps)
qed simp

lemma block_runs:
  assumes "block_ok (table_names (built exts bs)) b"
    "distinct (block_names b)" "set (block_names b) \<inter> set (concat (map block_names bs)) = {}"
  shows "run_ddl (create_block (fst b) (snd b)) (built exts bs) = Some (built exts (bs @ [b]))"
proof -
  let ?s = "built exts bs" and ?t = "fst b" and ?ixs = "snd b"
  let ?s1 = "?s\<lparr>sc_tables := sc_tables ?s @ [?t]\<rparr>"
  have fresh: "set (block_names b) \<inter> set (relation_names ?s) = {}"
    unfolding set_relation_names_built by (rule assms(3))
  have "apply_ddl (Create_table ?t) ?s = Some ?s1"
    using assms(1) fresh by (auto simp: block_ok_def table_ok_def block_names_def list_all_iff disjoint_iff)
  moreover have "run_ddl (map Create_index ?ixs) ?s1 = Some (?s1\<lparr>sc_indexes := sc_indexes ?s1 @ ?ixs\<rparr>)"
  proof (rule indexes_run)
    show "ix_table i \<in> set (table_names ?s1) \<and> set (ix_columns i) \<subseteq> set (columns_of (ix_table i) ?s1)"
      if "i \<in> set ?ixs" for i
      using that assms(1) by (auto simp: block_ok_def list_all_iff table_names_def columns_of_def)
    show "distinct (map ix_name ?ixs)" using assms(2) by (simp add: block_names_def)
    show "set (map ix_name ?ixs) \<inter> set (relation_names ?s1) = {}"
    proof -
      have "set (relation_names ?s1) = set (relation_names ?s) \<union> set (tb_name ?t # map fst (tb_uniques ?t))"
        by (auto simp: relation_names_def table_names_def)
      then show ?thesis using assms(2) fresh by (auto simp: block_names_def disjoint_iff)
    qed
  qed
  ultimately show ?thesis
    by (simp add: create_block_def built_def del: apply_ddl.simps)
qed

lemma blocks_run:
  assumes "blocks_ok (map (\<lambda>b. tb_name (fst b)) bs) cs" "distinct (concat (map block_names (bs @ cs)))"
  shows "run_ddl (concat (map (\<lambda>b. create_block (fst b) (snd b)) cs)) (built exts bs) = Some (built exts (bs @ cs))"
  using assms
proof (induction cs arbitrary: bs)
  case (Cons c cs)
  have "run_ddl (create_block (fst c) (snd c)) (built exts bs) = Some (built exts (bs @ [c]))"
    by (rule block_runs) (use Cons.prems in \<open>auto simp: table_names_built\<close>)
  moreover have "run_ddl (concat (map (\<lambda>b. create_block (fst b) (snd b)) cs)) (built exts (bs @ [c]))
      = Some (built exts ((bs @ [c]) @ cs))"
    by (rule Cons.IH) (use Cons.prems in auto)
  ultimately show ?case by (simp add: run_ddl_append)
qed simp

definition alter_block :: "string \<Rightarrow> column list \<Rightarrow> (db_table \<times> db_index list) list \<Rightarrow> (db_table \<times> db_index list) list" where
  "alter_block n cs bs =
     map (\<lambda>b. if tb_name (fst b) = n then ((fst b)\<lparr>tb_columns := tb_columns (fst b) @ cs\<rparr>, snd b) else b) bs"

lemma alter_block_names: "map (\<lambda>b. tb_name (fst b)) (alter_block n cs bs) = map (\<lambda>b. tb_name (fst b)) bs"
  "map block_names (alter_block n cs bs) = map block_names bs"
  by (auto simp: alter_block_def block_names_def)

lemma alter_block_Nil: "alter_block n [] bs = bs"
  by (auto simp: alter_block_def intro!: map_idI)

lemma alter_block_twice: "alter_block n ds (alter_block n cs bs) = alter_block n (cs @ ds) bs"
  by (auto simp: alter_block_def)

lemma columns_of_built:
  "set (columns_of n (built exts bs)) = (\<Union>b \<in> {b \<in> set bs. tb_name (fst b) = n}. set (column_names (fst b)))"
  by (auto simp: columns_of_def built_def)

definition addable :: "string list \<Rightarrow> column \<Rightarrow> bool" where
  "addable known c \<longleftrightarrow>
     references_known known c \<and> \<not> cl_primary c \<and> (cl_nullable c \<or> cl_default c \<noteq> None)"

lemma add_columns_run:
  assumes "n \<in> set (map (\<lambda>b. tb_name (fst b)) bs)" "distinct (map cl_name cs)"
    "\<forall>b \<in> set bs. tb_name (fst b) = n \<longrightarrow> set (map cl_name cs) \<inter> set (column_names (fst b)) = {}"
    "list_all (addable (map (\<lambda>b. tb_name (fst b)) bs)) cs"
  shows "run_ddl (map (Add_column n) cs) (built exts bs) = Some (built exts (alter_block n cs bs))"
  using assms
proof (induction cs arbitrary: bs)
  case Nil
  then show ?case by (simp add: alter_block_Nil)
next
  case (Cons c cs)
  have "cl_name c \<notin> set (columns_of n (built exts bs))"
    using Cons.prems(3) by (auto simp: columns_of_built)
  then have "apply_ddl (Add_column n c) (built exts bs) = Some (on_table n (\<lambda>t. t\<lparr>tb_columns := tb_columns t @ [c]\<rparr>) (built exts bs))"
    using Cons.prems(1,4) by (simp add: table_names_built addable_def)
  moreover have "on_table n (\<lambda>t. t\<lparr>tb_columns := tb_columns t @ [c]\<rparr>) (built exts bs) = built exts (alter_block n [c] bs)"
    by (auto simp: on_table_def built_def alter_block_def intro!: arg_cong [where f = concat])
  moreover have "run_ddl (map (Add_column n) cs) (built exts (alter_block n [c] bs))
      = Some (built exts (alter_block n cs (alter_block n [c] bs)))"
  proof (rule Cons.IH)
    show "n \<in> set (map (\<lambda>b. tb_name (fst b)) (alter_block n [c] bs))"
      unfolding alter_block_names by (rule Cons.prems(1))
    show "list_all (addable (map (\<lambda>b. tb_name (fst b)) (alter_block n [c] bs))) cs"
      unfolding alter_block_names using Cons.prems(4) by simp
    show "distinct (map cl_name cs)" using Cons.prems(2) by simp
    show "\<forall>b \<in> set (alter_block n [c] bs). tb_name (fst b) = n \<longrightarrow> set (map cl_name cs) \<inter> set (column_names (fst b)) = {}"
    proof (intro ballI impI)
      fix b assume "b \<in> set (alter_block n [c] bs)" "tb_name (fst b) = n"
      then obtain a where a: "a \<in> set bs" "tb_name (fst a) = n"
          "b = ((fst a)\<lparr>tb_columns := tb_columns (fst a) @ [c]\<rparr>, snd a)"
        by (auto simp: alter_block_def split: if_splits)
      have "column_names (fst b) = column_names (fst a) @ [cl_name c]" by (simp add: a(3) column_names_def)
      then show "set (map cl_name cs) \<inter> set (column_names (fst b)) = {}"
        using Cons.prems(2,3) a(1,2) by auto
    qed
  qed
  ultimately show ?case by (simp add: alter_block_twice del: apply_ddl.simps)
qed

lemma last_block_extended:
  assumes "tb_name (fst b) = n" "distinct (map cl_name cs)"
    "set (map cl_name cs) \<inter> set (column_names (fst b)) = {}"
    "list_all (addable (map (\<lambda>b. tb_name (fst b)) bs @ [n])) cs"
    "list_all (\<lambda>i. ix_table i = n \<and> set (ix_columns i) \<subseteq> set (column_names (fst b) @ map cl_name cs)) ixs"
    "distinct (concat (map block_names (bs @ [(fst b, snd b @ ixs)])))"
  shows "run_ddl (map (Add_column n) cs @ map Create_index ixs) (built exts (bs @ [b])) =
    Some (built exts (bs @ [((fst b)\<lparr>tb_columns := tb_columns (fst b) @ cs\<rparr>, snd b @ ixs)]))"
proof -
  let ?t = "(fst b)\<lparr>tb_columns := tb_columns (fst b) @ cs\<rparr>"
  let ?s = "built exts (bs @ [(?t, snd b)])"
  have other: "\<forall>c \<in> set bs. tb_name (fst c) \<noteq> n"
    using assms(1,6) by (force simp: block_names_def)
  have "alter_block n cs (bs @ [b]) = bs @ [(?t, snd b)]"
    using other assms(1) by (auto simp: alter_block_def intro!: map_idI)
  moreover have "run_ddl (map (Add_column n) cs) (built exts (bs @ [b])) = Some (built exts (alter_block n cs (bs @ [b])))"
    by (rule add_columns_run) (use assms(1-4) other in auto)
  ultimately have "run_ddl (map (Add_column n) cs) (built exts (bs @ [b])) = Some ?s" by simp
  moreover have "run_ddl (map Create_index ixs) ?s = Some (?s\<lparr>sc_indexes := sc_indexes ?s @ ixs\<rparr>)"
  proof (rule indexes_run)
    fix i assume "i \<in> set ixs"
    then have i: "ix_table i = n" "set (ix_columns i) \<subseteq> set (column_names ?t)"
      using assms(5) by (auto simp: list_all_iff column_names_def)
    moreover have "set (column_names ?t) \<subseteq> set (columns_of n ?s)"
      unfolding columns_of_built using assms(1) by (intro subsetI UN_I [of "(?t, snd b)"]) auto
    ultimately show "ix_table i \<in> set (table_names ?s) \<and> set (ix_columns i) \<subseteq> set (columns_of (ix_table i) ?s)"
      using assms(1) by (auto simp: table_names_built)
  next
    show "distinct (map ix_name ixs)" using assms(6) by (auto simp: block_names_def)
    show "set (map ix_name ixs) \<inter> set (relation_names ?s) = {}"
    proof -
      have "block_names (fst b, snd b @ ixs) = block_names b @ map ix_name ixs"
        "block_names (?t, snd b) = block_names b"
        by (simp_all add: block_names_def)
      then show ?thesis
        unfolding set_relation_names_built using assms(6) by (simp del: set_concat) blast
    qed
  qed
  ultimately show ?thesis by (simp add: run_ddl_append built_def)
qed

end
