(* ===== verification/Migrations.thy ===== *)
theory Migrations
  imports Schema
begin

section \<open>Migrations (\<open>migrations/versions/\<close>)\<close>

text \<open>
  Every migration, statement by statement, grouped by the table it creates or alters.  A migration
  keeps its revision, the revision it follows, what it does and what its downgrade does.
\<close>

record migration =
  mg_revision :: string
  mg_down_revision :: "string option"
  mg_upgrade :: "ddl list"
  mg_downgrade :: "ddl list"

subsection \<open>\<open>001_initial.py\<close>\<close>

definition users_table :: db_table where
  "users_table =
     \<lparr>tb_name = ''users'',
      tb_columns =
        [primary_key ''uuid_generate_v4()'', required ''email'' (Varchar 255),
          required ''hashed_password'' (Varchar 255), required ''display_name'' (Varchar 100),
          defaulted ''is_active'' Boolean_type ''true'', defaulted ''is_superuser'' Boolean_type ''false'',
          optional ''notes'' Text_type, defaulted ''created_at'' Timestamptz ''now()'',
          defaulted ''updated_at'' Timestamptz ''now()''],
      tb_uniques = [(''uq_users_email'', [''email''])]\<rparr>"

definition users_indexes :: "db_index list" where
  "users_indexes =
     [unique_index ''ix_users_email'' ''users'' [''email'']]"

definition trading_accounts_table :: db_table where
  "trading_accounts_table =
     \<lparr>tb_name = ''trading_accounts'',
      tb_columns =
        [primary_key ''uuid_generate_v4()'', required_ref ''user_id'' ''users'' CASCADE,
          required ''label'' (Varchar 100), required ''broker'' (Varchar 100),
          required ''mt5_account_number'' (Varchar 50), optional ''mt5_server'' (Varchar 200),
          defaulted ''broker_currency'' (Varchar 20) ''USD'',
          defaulted ''is_cent_account'' Boolean_type ''false'',
          defaulted ''cent_normalization_factor'' (Numeric 18 8) ''1.0'',
          optional ''symbol_mapping_json'' (Varchar 1000), defaulted ''is_active'' Boolean_type ''true'',
          defaulted ''trading_enabled'' Boolean_type ''false'',
          defaulted ''created_at'' Timestamptz ''now()'', defaulted ''updated_at'' Timestamptz ''now()''],
      tb_uniques = []\<rparr>"

definition trading_accounts_indexes :: "db_index list" where
  "trading_accounts_indexes =
     [plain_index ''ix_trading_accounts_user_id'' ''trading_accounts'' [''user_id''],
      plain_index ''ix_trading_accounts_mt5_account_number'' ''trading_accounts'' [''mt5_account_number'']]"

definition mt5_agents_table :: db_table where
  "mt5_agents_table =
     \<lparr>tb_name = ''mt5_agents'',
      tb_columns =
        [primary_key ''uuid_generate_v4()'', required_ref ''account_id'' ''trading_accounts'' CASCADE,
          required ''label'' (Varchar 100), required ''hashed_secret'' (Varchar 255),
          optional ''last_seen_at'' Timestamptz, defaulted ''last_known_status'' (Varchar 50) ''UNKNOWN'',
          optional ''mt5_version'' (Varchar 50), optional ''ea_version'' (Varchar 50),
          optional ''notes'' Text_type, defaulted ''created_at'' Timestamptz ''now()'',
          defaulted ''updated_at'' Timestamptz ''now()''],
      tb_uniques = []\<rparr>"

definition mt5_agents_indexes :: "db_index list" where
  "mt5_agents_indexes =
     [plain_index ''ix_mt5_agents_account_id'' ''mt5_agents'' [''account_id'']]"

definition audit_logs_table :: db_table where
  "audit_logs_table =
     \<lparr>tb_name = ''audit_logs'',
      tb_columns =
        [primary_key ''uuid_generate_v4()'', optional_ref ''user_id'' ''users'' SET_NULL,
          optional_ref ''account_id'' ''trading_accounts'' SET_NULL,
          optional_ref ''mt5_agent_id'' ''mt5_agents'' SET_NULL, required ''event_type'' (Varchar 100),
          defaulted ''severity'' (Varchar 20) ''INFO'', optional ''payload_json'' Text_type,
          optional ''correlation_id'' (Varchar 100), optional ''ip_address'' (Varchar 45),
          defaulted ''occurred_at'' Timestamptz ''now()'', defaulted ''created_at'' Timestamptz ''now()''],
      tb_uniques = []\<rparr>"

definition audit_logs_indexes :: "db_index list" where
  "audit_logs_indexes =
     [plain_index ''ix_audit_logs_user_id'' ''audit_logs'' [''user_id''],
      plain_index ''ix_audit_logs_account_id'' ''audit_logs'' [''account_id''],
      plain_index ''ix_audit_logs_event_type'' ''audit_logs'' [''event_type''],
      plain_index ''ix_audit_logs_occurred_at'' ''audit_logs'' [''occurred_at''],
      plain_index ''ix_audit_logs_correlation_id'' ''audit_logs'' [''correlation_id'']]"

definition migration_001 :: migration where
  "migration_001 =
     \<lparr>mg_revision = ''001_initial'', mg_down_revision = None,
      mg_upgrade =
        [Create_extension ''uuid-ossp'']
        @ create_block users_table users_indexes
        @ create_block trading_accounts_table trading_accounts_indexes
        @ create_block mt5_agents_table mt5_agents_indexes
        @ create_block audit_logs_table audit_logs_indexes,
      mg_downgrade =
        [Drop_table ''audit_logs'', Drop_table ''mt5_agents'', Drop_table ''trading_accounts'',
         Drop_table ''users'']\<rparr>"

subsection \<open>\<open>002_refresh_tokens.py\<close>\<close>

definition refresh_tokens_table :: db_table where
  "refresh_tokens_table =
     \<lparr>tb_name = ''refresh_tokens'',
      tb_columns =
        [primary_key ''uuid_generate_v4()'', required ''jti'' (Varchar 64),
          required_ref ''user_id'' ''users'' CASCADE, required ''expires_at'' Timestamptz,
          optional ''revoked_at'' Timestamptz, defaulted ''created_at'' Timestamptz ''now()''],
      tb_uniques = []\<rparr>"

definition refresh_tokens_indexes :: "db_index list" where
  "refresh_tokens_indexes =
     [unique_index ''ix_refresh_tokens_jti'' ''refresh_tokens'' [''jti''],
      plain_index ''ix_refresh_tokens_user_id'' ''refresh_tokens'' [''user_id'']]"

definition migration_002 :: migration where
  "migration_002 =
     \<lparr>mg_revision = ''002_refresh_tokens'', mg_down_revision = Some ''001_initial'',
      mg_upgrade =
        create_block refresh_tokens_table refresh_tokens_indexes,
      mg_downgrade =
        [Drop_table ''refresh_tokens'']\<rparr>"

subsection \<open>\<open>003_trading_domain.py\<close>\<close>

definition risk_configurations_table :: db_table where
  "risk_configurations_table =
     \<lparr>tb_name = ''risk_configurations'',
      tb_columns =
        [primary_key ''uuid_generate_v4()'', required_ref ''account_id'' ''trading_accounts'' CASCADE,
          required ''version'' Integer_type, required ''effective_from'' Timestamptz,
          optional_ref ''created_by_user_id'' ''users'' SET_NULL,
          defaulted ''daily_reset_timezone'' (Varchar 50) ''UTC'',
          defaulted ''drawdown_reference'' (Varchar 50) ''LIFETIME_HWM'',
          defaulted ''profit_lock_formula'' (Varchar 50) ''PCT_RETRACE'',
          defaulted ''profit_lock_basis'' (Varchar 50) ''FLOATING_EQUITY'',
          defaulted ''profit_lock_threshold_usd'' (Numeric 18 8) ''10'',
          defaulted ''profit_lock_floor_pct'' (Numeric 18 8) ''0.30'',
          defaulted ''max_tick_staleness_ms'' Integer_type ''2000'',
          defaulted ''news_pre_event_window_minutes'' Integer_type ''30'',
          defaulted ''news_post_event_window_minutes'' Integer_type ''30'',
          optional ''daily_loss_limit_usd'' (Numeric 18 8), optional ''max_drawdown_usd'' (Numeric 18 8),
          optional ''max_open_positions'' Integer_type, optional ''max_open_lots'' (Numeric 18 8),
          optional ''max_spread_usd'' (Numeric 18 8), optional ''risk_per_trade_pct'' (Numeric 18 8),
          defaulted ''created_at'' Timestamptz ''now()''],
      tb_uniques = [(''uq_risk_config_account_version'', [''account_id'', ''version''])]\<rparr>"

definition risk_configurations_indexes :: "db_index list" where
  "risk_configurations_indexes =
     [plain_index ''ix_risk_configurations_account_id'' ''risk_configurations'' [''account_id'']]"

definition risk_decisions_table :: db_table where
  "risk_decisions_table =
     \<lparr>tb_name = ''risk_decisions'',
      tb_columns =
        [primary_key ''uuid_generate_v4()'', optional_ref ''account_id'' ''trading_accounts'' SET_NULL,
          optional ''risk_config_version'' Integer_type, optional ''signal_id'' Uuid,
          optional ''correlation_id'' (Varchar 100), optional ''idempotency_key'' (Varchar 100),
          required ''decision'' (Varchar 30), required ''reason_code'' (Varchar 200),
          required ''risk_state'' (Varchar 50), optional ''equity_at_decision'' (Numeric 18 8),
          optional ''drawdown_at_decision'' (Numeric 18 8),
          optional ''daily_pnl_at_decision'' (Numeric 18 8), optional ''profit_lock_active'' Boolean_type,
          optional ''profit_lock_floor_usd'' (Numeric 18 8), required ''decided_at'' Timestamptz,
          defaulted ''created_at'' Timestamptz ''now()''],
      tb_uniques = []\<rparr>"

definition risk_decisions_indexes :: "db_index list" where
  "risk_decisions_indexes =
     [plain_index ''ix_risk_decisions_account_id'' ''risk_decisions'' [''account_id''],
      plain_index ''ix_risk_decisions_decided_at'' ''risk_decisions'' [''decided_at''],
      plain_index ''ix_risk_decisions_signal_id'' ''risk_decisions'' [''signal_id''],
      plain_index ''ix_risk_decisions_correlation_id'' ''risk_decisions'' [''correlation_id'']]"

definition candidate_signals_table :: db_table where
  "candidate_signals_table =
     \<lparr>tb_name = ''candidate_signals'',
      tb_columns =
        [primary_key ''uuid_generate_v4()'', optional_ref ''account_id'' ''trading_accounts'' SET_NULL,
          optional ''correlation_id'' (Varchar 100), optional ''idempotency_key'' (Varchar 100),
          defaulted ''symbol'' (Varchar 20) ''XAUUSD'', required ''direction'' (Varchar 10),
          required ''strategy_id'' (Varchar 100), required ''strategy_version'' (Varchar 50),
          optional ''regime'' (Varchar 50), optional ''setup_type'' (Varchar 50),
          optional ''confidence_score'' (Numeric 18 8), optional ''entry_reference'' (Numeric 18 8),
          optional ''suggested_stop_loss'' (Numeric 18 8), optional ''suggested_take_profit'' (Numeric 18 8),
          optional ''spread_at_signal'' (Numeric 18 8), optional ''news_state_at_signal'' (Varchar 50),
          optional ''evidence_json'' Text_type, defaulted ''status'' (Varchar 50) ''CANDIDATE_FORMING'',
          required ''generated_at'' Timestamptz, optional ''expires_at'' Timestamptz,
          defaulted ''created_at'' Timestamptz ''now()''],
      tb_uniques = []\<rparr>"

definition candidate_signals_indexes :: "db_index list" where
  "candidate_signals_indexes =
     [plain_index ''ix_candidate_signals_account_id'' ''candidate_signals'' [''account_id''],
      plain_index ''ix_candidate_signals_generated_at'' ''candidate_signals'' [''generated_at''],
      plain_index ''ix_candidate_signals_status'' ''candidate_signals'' [''status'']]"

definition execution_commands_table :: db_table where
  "execution_commands_table =
     \<lparr>tb_name = ''execution_commands'',
      tb_columns =
        [primary_key ''uuid_generate_v4()'', optional_ref ''account_id'' ''trading_accounts'' SET_NULL,
          optional_ref ''signal_id'' ''candidate_signals'' SET_NULL,
          optional_ref ''risk_decision_id'' ''risk_decisions'' SET_NULL,
          optional ''correlation_id'' (Varchar 100), required ''idempotency_key'' (Varchar 100),
          required ''action'' (Varchar 30), required ''symbol'' (Varchar 20),
          optional ''order_type'' (Varchar 10), optional ''volume_lots'' (Numeric 18 8),
          optional ''price'' (Numeric 18 8), optional ''stop_loss'' (Numeric 18 8),
          optional ''take_profit'' (Numeric 18 8), optional ''slippage_points'' Integer_type,
          optional ''magic_number'' Integer_type, optional ''position_ticket'' Bigint,
          defaulted ''status'' (Varchar 30) ''CREATED'', optional ''reason'' (Varchar 200),
          required ''expires_at'' Timestamptz, optional ''sent_at'' Timestamptz,
          optional ''acknowledged_at'' Timestamptz, defaulted ''created_at'' Timestamptz ''now()''],
      tb_uniques = []\<rparr>"

definition execution_commands_indexes :: "db_index list" where
  "execution_commands_indexes =
     [plain_index ''ix_execution_commands_account_id'' ''execution_commands'' [''account_id''],
      plain_index ''ix_execution_commands_status'' ''execution_commands'' [''status''],
      plain_index ''ix_execution_commands_signal_id'' ''execution_commands'' [''signal_id''],
      unique_index ''ix_execution_commands_idempotency_key'' ''execution_commands'' [''idempotency_key'']]"

definition execution_reports_table :: db_table where
  "execution_reports_table =
     \<lparr>tb_name = ''execution_reports'',
      tb_columns =
        [primary_key ''uuid_generate_v4()'', optional_ref ''command_id'' ''execution_commands'' SET_NULL,
          optional_ref ''account_id'' ''trading_accounts'' SET_NULL,
          optional ''correlation_id'' (Varchar 100), optional ''idempotency_key'' (Varchar 100),
          required ''status'' (Varchar 30), optional ''broker_ticket'' Bigint,
          optional ''broker_deal_id'' Bigint, optional ''fill_price'' (Numeric 18 8),
          optional ''fill_volume_lots'' (Numeric 18 8), optional ''slippage_points'' Integer_type,
          optional ''commission_usd'' (Numeric 18 8), optional ''swap_usd'' (Numeric 18 8),
          optional ''broker_error_code'' Integer_type, optional ''broker_error_message'' (Varchar 500),
          optional ''raw_broker_response_json'' Text_type, required ''executed_at'' Timestamptz,
          defaulted ''created_at'' Timestamptz ''now()''],
      tb_uniques = []\<rparr>"

definition execution_reports_indexes :: "db_index list" where
  "execution_reports_indexes =
     [plain_index ''ix_execution_reports_command_id'' ''execution_reports'' [''command_id''],
      plain_index ''ix_execution_reports_account_id'' ''execution_reports'' [''account_id''],
      plain_index ''ix_execution_reports_broker_ticket'' ''execution_reports'' [''broker_ticket''],
      plain_index ''ix_execution_reports_idempotency_key'' ''execution_reports'' [''idempotency_key'']]"

definition positions_table :: db_table where
  "positions_table =
     \<lparr>tb_name = ''positions'',
      tb_columns =
        [primary_key ''uuid_generate_v4()'', optional_ref ''account_id'' ''trading_accounts'' SET_NULL,
          optional_ref ''command_id'' ''execution_commands'' SET_NULL, required ''broker_ticket'' Bigint,
          required ''symbol'' (Varchar 20), required ''side'' (Varchar 10), required ''lots'' (Numeric 18 8),
          required ''open_price'' (Numeric 18 8), optional ''stop_loss'' (Numeric 18 8),
          optional ''take_profit'' (Numeric 18 8), optional ''current_price'' (Numeric 18 8),
          optional ''unrealized_pnl_usd'' (Numeric 18 8), optional ''commission_usd'' (Numeric 18 8),
          optional ''swap_usd'' (Numeric 18 8), optional ''magic_number'' Integer_type,
          defaulted ''status'' (Varchar 30) ''OPEN'', required ''opened_at'' Timestamptz,
          optional ''closed_at'' Timestamptz, optional ''close_price'' (Numeric 18 8),
          optional ''realized_pnl_usd'' (Numeric 18 8), optional ''last_synced_at'' Timestamptz,
          defaulted ''created_at'' Timestamptz ''now()'', defaulted ''updated_at'' Timestamptz ''now()''],
      tb_uniques = [(''uq_positions_account_ticket'', [''account_id'', ''broker_ticket''])]\<rparr>"

definition positions_indexes :: "db_index list" where
  "positions_indexes =
     [plain_index ''ix_positions_account_id'' ''positions'' [''account_id''],
      plain_index ''ix_positions_status'' ''positions'' [''status''],
      plain_index ''ix_positions_broker_ticket'' ''positions'' [''broker_ticket''],
      plain_index ''ix_positions_opened_at'' ''positions'' [''opened_at'']]"

definition equity_snapshots_table :: db_table where
  "equity_snapshots_table =
     \<lparr>tb_name = ''equity_snapshots'',
      tb_columns =
        [primary_key ''uuid_generate_v4()'', required_ref ''account_id'' ''trading_accounts'' CASCADE,
          required ''balance_usd'' (Numeric 18 8), required ''equity_usd'' (Numeric 18 8),
          optional ''margin_usd'' (Numeric 18 8), optional ''free_margin_usd'' (Numeric 18 8),
          optional ''floating_pnl_usd'' (Numeric 18 8), optional ''open_position_count'' Integer_type,
          required ''snapped_at'' Timestamptz, defaulted ''created_at'' Timestamptz ''now()''],
      tb_uniques = []\<rparr>"

definition equity_snapshots_indexes :: "db_index list" where
  "equity_snapshots_indexes =
     [plain_index ''ix_equity_snapshots_account_id'' ''equity_snapshots'' [''account_id''],
      plain_index ''ix_equity_snapshots_snapped_at'' ''equity_snapshots'' [''snapped_at'']]"

definition daily_session_states_table :: db_table where
  "daily_session_states_table =
     \<lparr>tb_name = ''daily_session_states'',
      tb_columns =
        [primary_key ''uuid_generate_v4()'', required_ref ''account_id'' ''trading_accounts'' CASCADE,
          required ''session_date'' Date_type, required ''session_open_equity_usd'' (Numeric 18 8),
          defaulted ''session_peak_profit_usd'' (Numeric 18 8) ''0'',
          defaulted ''realized_pnl_usd'' (Numeric 18 8) ''0'', optional ''floating_pnl_usd'' (Numeric 18 8),
          defaulted ''daily_loss_stop_triggered'' Boolean_type ''false'',
          defaulted ''profit_lock_active'' Boolean_type ''false'',
          optional ''profit_lock_floor_usd'' (Numeric 18 8),
          optional ''profit_lock_activated_at'' Timestamptz, required ''last_updated_at'' Timestamptz,
          defaulted ''created_at'' Timestamptz ''now()''],
      tb_uniques = [(''uq_daily_session_account_date'', [''account_id'', ''session_date''])]\<rparr>"

definition daily_session_states_indexes :: "db_index list" where
  "daily_session_states_indexes =
     [plain_index ''ix_daily_session_states_account_id'' ''daily_session_states'' [''account_id''],
      plain_index ''ix_daily_session_states_session_date'' ''daily_session_states'' [''session_date'']]"

definition news_events_table :: db_table where
  "news_events_table =
     \<lparr>tb_name = ''news_events'',
      tb_columns =
        [primary_key ''uuid_generate_v4()'', required ''source'' (Varchar 100),
          optional ''source_event_id'' (Varchar 200), required ''event_name'' (Varchar 500),
          required ''currency'' (Varchar 10), required ''impact'' (Varchar 20),
          required ''event_time'' Timestamptz, required ''pre_event_window_start'' Timestamptz,
          required ''post_event_window_end'' Timestamptz, optional ''actual_value'' (Varchar 100),
          optional ''forecast_value'' (Varchar 100), optional ''previous_value'' (Varchar 100),
          defaulted ''created_at'' Timestamptz ''now()''],
      tb_uniques = [(''uq_news_events_source_id'', [''source'', ''source_event_id''])]\<rparr>"

definition news_events_indexes :: "db_index list" where
  "news_events_indexes =
     [plain_index ''ix_news_events_event_time'' ''news_events'' [''event_time''],
      plain_index ''ix_news_events_currency'' ''news_events'' [''currency''],
      plain_index ''ix_news_events_impact'' ''news_events'' [''impact'']]"

definition migration_003 :: migration where
  "migration_003 =
     \<lparr>mg_revision = ''003_trading_domain'', mg_down_revision = Some ''002_refresh_tokens'',
      mg_upgrade =
        create_block risk_configurations_table risk_configurations_indexes
        @ create_block risk_decisions_table risk_decisions_indexes
        @ create_block candidate_signals_table candidate_signals_indexes
        @ create_block execution_commands_table execution_commands_indexes
        @ create_block execution_reports_table execution_reports_indexes
        @ create_block positions_table positions_indexes
        @ create_block equity_snapshots_table equity_snapshots_indexes
        @ create_block daily_session_states_table daily_session_states_indexes
        @ create_block news_events_table news_events_indexes,
      mg_downgrade =
        [Drop_table ''news_events'', Drop_table ''daily_session_states'', Drop_table ''equity_snapshots'',
         Drop_table ''positions'', Drop_table ''execution_reports'', Drop_table ''execution_commands'',
         Drop_table ''candidate_signals'', Drop_table ''risk_decisions'', Drop_table ''risk_configurations'']\<rparr>"

subsection \<open>\<open>004_mt5_agent_commands.py\<close>\<close>

definition mt5_agent_commands_table :: db_table where
  "mt5_agent_commands_table =
     \<lparr>tb_name = ''mt5_agent_commands'',
      tb_columns =
        [primary_key ''uuid_generate_v4()'', required_ref ''agent_id'' ''mt5_agents'' CASCADE,
          required ''command_type'' (Varchar 50), defaulted ''status'' (Varchar 30) ''PENDING'',
          optional ''payload_json'' Text_type, optional ''result_json'' Text_type,
          optional ''error_message'' (Varchar 500), optional ''sent_at'' Timestamptz,
          optional ''acknowledged_at'' Timestamptz, optional ''completed_at'' Timestamptz,
          defaulted ''created_at'' Timestamptz ''now()'', defaulted ''updated_at'' Timestamptz ''now()''],
      tb_uniques = []\<rparr>"

definition mt5_agent_commands_indexes :: "db_index list" where
  "mt5_agent_commands_indexes =
     [plain_index ''ix_mt5_agent_commands_agent_id'' ''mt5_agent_commands'' [''agent_id''],
      plain_index ''ix_mt5_agent_commands_status'' ''mt5_agent_commands'' [''status''],
      plain_index ''ix_mt5_agent_commands_agent_id_status'' ''mt5_agent_commands'' [''agent_id'', ''status'']]"

definition migration_004 :: migration where
  "migration_004 =
     \<lparr>mg_revision = ''004_mt5_agent_commands'', mg_down_revision = Some ''003_trading_domain'',
      mg_upgrade =
        create_block mt5_agent_commands_table mt5_agent_commands_indexes,
      mg_downgrade =
        [Drop_index ''ix_mt5_agent_commands_agent_id_status'' ''mt5_agent_commands'',
         Drop_index ''ix_mt5_agent_commands_status'' ''mt5_agent_commands'',
         Drop_index ''ix_mt5_agent_commands_agent_id'' ''mt5_agent_commands'',
         Drop_table ''mt5_agent_commands'']\<rparr>"

subsection \<open>\<open>005_strategy_engine_state.py\<close>\<close>

definition strategy_engine_state_table :: db_table where
  "strategy_engine_state_table =
     \<lparr>tb_name = ''strategy_engine_state'',
      tb_columns =
        [primary_key ''uuid_generate_v4()'',
          unique_column (required_ref ''account_id'' ''trading_accounts'' CASCADE),
          defaulted ''enabled'' Boolean_type ''false'', defaulted ''dry_run'' Boolean_type ''true'',
          defaulted ''strategy_id'' (Varchar 100) ''AUREXIS_CORE'',
          defaulted ''strategy_version'' (Varchar 50) ''AUREXIS-STRAT-1.0.0'',
          defaulted ''symbol'' (Varchar 20) ''XAUUSD'', defaulted ''timeframe'' (Varchar 10) ''M15'',
          optional ''last_signal_direction'' (Varchar 10), optional ''last_signal_at'' Timestamptz,
          optional ''last_signal_candle_ts'' Timestamptz, optional ''last_signal_id'' Uuid,
          optional ''last_signal_reason'' (Varchar 200), optional ''last_risk_decision'' (Varchar 20),
          optional ''last_risk_reason_code'' (Varchar 100), optional ''last_execution_status'' (Varchar 30),
          defaulted ''created_at'' Timestamptz ''now()'', defaulted ''updated_at'' Timestamptz ''now()''],
      tb_uniques = []\<rparr>"

definition strategy_engine_state_indexes :: "db_index list" where
  "strategy_engine_state_indexes =
     [unique_index ''ix_strategy_engine_state_account_id'' ''strategy_engine_state'' [''account_id'']]"

definition migration_005 :: migration where
  "migration_005 =
     \<lparr>mg_revision = ''005_strategy_engine_state'', mg_down_revision = Some ''004_mt5_agent_commands'',
      mg_upgrade =
        create_block strategy_engine_state_table strategy_engine_state_indexes,
      mg_downgrade =
        [Drop_index ''ix_strategy_engine_state_account_id'' ''strategy_engine_state'',
         Drop_table ''strategy_engine_state'']\<rparr>"

subsection \<open>\<open>006_kill_switch.py\<close>\<close>

definition risk_configurations_added_columns :: "column list" where
  "risk_configurations_added_columns =
     [defaulted ''kill_switch_active'' Boolean_type ''false'']"

definition migration_006 :: migration where
  "migration_006 =
     \<lparr>mg_revision = ''006'', mg_down_revision = Some ''005_strategy_engine_state'',
      mg_upgrade =
        map (Add_column ''risk_configurations'') risk_configurations_added_columns,
      mg_downgrade =
        [Drop_column ''risk_configurations'' ''kill_switch_active'']\<rparr>"

subsection \<open>\<open>007_licensing.py\<close>\<close>

definition licenses_table :: db_table where
  "licenses_table =
     \<lparr>tb_name = ''licenses'',
      tb_columns =
        [primary_key ''gen_random_uuid()'', required ''license_key'' (Varchar 256),
          defaulted ''plan'' (Varchar 64) ''demo'',
          defaulted ''feature_strategy_engine'' Boolean_type ''true'',
          defaulted ''feature_brain'' Boolean_type ''true'',
          defaulted ''feature_backtest'' Boolean_type ''true'',
          defaulted ''feature_multi_account'' Boolean_type ''false'', optional ''valid_from'' Timestamptz,
          optional ''valid_until'' Timestamptz, defaulted ''revoked'' Boolean_type ''false'',
          defaulted ''created_at'' Timestamptz ''now()'', defaulted ''updated_at'' Timestamptz ''now()''],
      tb_uniques = []\<rparr>"

definition licenses_indexes :: "db_index list" where
  "licenses_indexes =
     [unique_index ''ix_licenses_license_key'' ''licenses'' [''license_key'']]"

definition migration_007 :: migration where
  "migration_007 =
     \<lparr>mg_revision = ''007'', mg_down_revision = Some ''006'',
      mg_upgrade =
        create_block licenses_table licenses_indexes,
      mg_downgrade =
        [Drop_index ''ix_licenses_license_key'' ''licenses'', Drop_table ''licenses'']\<rparr>"

subsection \<open>\<open>008_licensing_and_password_resets.py\<close>\<close>

definition licenses_added_columns :: "column list" where
  "licenses_added_columns =
     [optional ''serial_code'' (Varchar 128), defaulted ''tier'' Integer_type ''1'',
      defaulted ''status'' (Varchar 32) ''UNUSED'', defaulted ''account_limit'' Integer_type ''1'',
      optional ''issued_at'' Timestamptz, optional ''activated_at'' Timestamptz,
      optional_ref ''user_id'' ''users'' CASCADE]"

definition licenses_added_indexes :: "db_index list" where
  "licenses_added_indexes =
     [unique_index ''ix_licenses_serial_code'' ''licenses'' [''serial_code''],
      plain_index ''ix_licenses_status'' ''licenses'' [''status''],
      plain_index ''ix_licenses_user_id'' ''licenses'' [''user_id'']]"

definition password_resets_table :: db_table where
  "password_resets_table =
     \<lparr>tb_name = ''password_resets'',
      tb_columns =
        [primary_key ''gen_random_uuid()'', required_ref ''user_id'' ''users'' CASCADE,
          required ''token_hash'' (Varchar 128), required ''expires_at'' Timestamptz,
          optional ''used_at'' Timestamptz, defaulted ''created_at'' Timestamptz ''now()''],
      tb_uniques = []\<rparr>"

definition password_resets_indexes :: "db_index list" where
  "password_resets_indexes =
     [plain_index ''ix_password_resets_user_id'' ''password_resets'' [''user_id''],
      plain_index ''ix_password_resets_token_hash'' ''password_resets'' [''token_hash'']]"

definition migration_008 :: migration where
  "migration_008 =
     \<lparr>mg_revision = ''008'', mg_down_revision = Some ''007'',
      mg_upgrade =
        map (Add_column ''licenses'') licenses_added_columns
        @ map Create_index licenses_added_indexes
        @ create_block password_resets_table password_resets_indexes,
      mg_downgrade =
        [Drop_index ''ix_password_resets_token_hash'' ''password_resets'',
         Drop_index ''ix_password_resets_user_id'' ''password_resets'', Drop_table ''password_resets'',
         Drop_index ''ix_licenses_user_id'' ''licenses'', Drop_index ''ix_licenses_status'' ''licenses'',
         Drop_index ''ix_licenses_serial_code'' ''licenses'', Drop_column ''licenses'' ''user_id'',
         Drop_column ''licenses'' ''activated_at'', Drop_column ''licenses'' ''issued_at'',
         Drop_column ''licenses'' ''account_limit'', Drop_column ''licenses'' ''status'',
         Drop_column ''licenses'' ''tier'', Drop_column ''licenses'' ''serial_code'']\<rparr>"

definition migrations :: "migration list" where
  "migrations =
     [migration_001, migration_002, migration_003, migration_004,
      migration_005, migration_006, migration_007, migration_008]"

definition upgrade_head :: "schema option" where
  "upgrade_head = run_ddl (concat (map mg_upgrade migrations)) empty_schema"

definition trading_blocks :: "(db_table \<times> db_index list) list" where
  "trading_blocks =
     [(users_table, users_indexes),
      (trading_accounts_table, trading_accounts_indexes),
      (mt5_agents_table, mt5_agents_indexes),
      (audit_logs_table, audit_logs_indexes),
      (refresh_tokens_table, refresh_tokens_indexes),
      (risk_configurations_table, risk_configurations_indexes),
      (risk_decisions_table, risk_decisions_indexes),
      (candidate_signals_table, candidate_signals_indexes),
      (execution_commands_table, execution_commands_indexes),
      (execution_reports_table, execution_reports_indexes),
      (positions_table, positions_indexes),
      (equity_snapshots_table, equity_snapshots_indexes),
      (daily_session_states_table, daily_session_states_indexes),
      (news_events_table, news_events_indexes),
      (mt5_agent_commands_table, mt5_agent_commands_indexes),
      (strategy_engine_state_table, strategy_engine_state_indexes)]"

definition license_blocks :: "(db_table \<times> db_index list) list" where
  "license_blocks =
     [(licenses_table\<lparr>tb_columns := tb_columns licenses_table @ licenses_added_columns\<rparr>,
       licenses_indexes @ licenses_added_indexes),
      (password_resets_table, password_resets_indexes)]"

definition head_blocks :: "(db_table \<times> db_index list) list" where
  "head_blocks =
     alter_block ''risk_configurations'' risk_configurations_added_columns trading_blocks @ license_blocks"

subsection \<open>Lemmas\<close>

text \<open>Every downgrade is the undoing of its upgrade, some without dropping indexes first.\<close>

definition downgrade_is_undo :: "migration \<Rightarrow> bool" where
  "downgrade_is_undo m \<longleftrightarrow>
     list_all creates (mg_upgrade m)
     \<and> (mg_downgrade m = undo_all (mg_upgrade m) \<or> mg_downgrade m = absorb (undo_all (mg_upgrade m)))"

lemma downgrades_undo: "list_all downgrade_is_undo migrations"
  by code_simp

lemma revisions_chain:
  "map mg_down_revision migrations = None # map (Some \<circ> mg_revision) (butlast migrations)"
  by code_simp

lemma downgrade_undoes:
  assumes "downgrade_is_undo m" "schema_ok s" "run_ddl (mg_upgrade m) s = Some s'"
  shows "\<exists>e. run_ddl (mg_downgrade m) s' = Some (s\<lparr>sc_extensions := e\<rparr>)"
  using assms(1) run_undo_all [OF assms(2) _ assms(3)] run_absorbed_undo [OF assms(2) _ assms(3)]
  by (auto simp: downgrade_is_undo_def)

subsection \<open>The head of the chain\<close>

lemmas table_defs =
  users_table_def trading_accounts_table_def mt5_agents_table_def audit_logs_table_def
  refresh_tokens_table_def risk_configurations_table_def risk_decisions_table_def
  candidate_signals_table_def execution_commands_table_def execution_reports_table_def
  positions_table_def equity_snapshots_table_def daily_session_states_table_def news_events_table_def
  mt5_agent_commands_table_def strategy_engine_state_table_def licenses_table_def
  password_resets_table_def

lemmas index_defs =
  users_indexes_def trading_accounts_indexes_def mt5_agents_indexes_def audit_logs_indexes_def
  refresh_tokens_indexes_def risk_configurations_indexes_def risk_decisions_indexes_def
  candidate_signals_indexes_def execution_commands_indexes_def execution_reports_indexes_def
  positions_indexes_def equity_snapshots_indexes_def daily_session_states_indexes_def
  news_events_indexes_def mt5_agent_commands_indexes_def strategy_engine_state_indexes_def
  licenses_indexes_def password_resets_indexes_def

lemma trading_blocks_ok: "blocks_ok [] trading_blocks"
  by code_simp

lemma license_blocks_ok:
  "blocks_ok (map (\<lambda>b. tb_name (fst b)) trading_blocks) [(licenses_table, licenses_indexes)]"
  "blocks_ok (map (\<lambda>b. tb_name (fst b)) trading_blocks @ [''licenses''])
     [(password_resets_table, password_resets_indexes)]"
  by code_simp+

text \<open>No two relations of the program share a name.\<close>

lemma names_distinct: "distinct (concat (map block_names (trading_blocks @ license_blocks)))"
  by (simp add: trading_blocks_def license_blocks_def block_names_def table_defs index_defs
        licenses_added_indexes_def plain_index_def unique_index_def)

lemma all_upgrades:
  "concat (map mg_upgrade migrations) =
     Create_extension ''uuid-ossp'' # concat (map (\<lambda>b. create_block (fst b) (snd b)) trading_blocks)
     @ map (Add_column ''risk_configurations'') risk_configurations_added_columns
     @ create_block licenses_table licenses_indexes
     @ map (Add_column ''licenses'') licenses_added_columns @ map Create_index licenses_added_indexes
     @ create_block password_resets_table password_resets_indexes"
  by (simp add: migrations_def migration_001_def migration_002_def migration_003_def migration_004_def
        migration_005_def migration_006_def migration_007_def migration_008_def trading_blocks_def)

lemma risk_column_addable:
  "''risk_configurations'' \<in> set (map (\<lambda>b. tb_name (fst b)) trading_blocks)"
  "distinct (map cl_name risk_configurations_added_columns)"
  "\<forall>b \<in> set trading_blocks. tb_name (fst b) = ''risk_configurations'' \<longrightarrow>
     set (map cl_name risk_configurations_added_columns) \<inter> set (column_names (fst b)) = {}"
  "list_all (addable (map (\<lambda>b. tb_name (fst b)) trading_blocks)) risk_configurations_added_columns"
proof -
  show "\<forall>b \<in> set trading_blocks. tb_name (fst b) = ''risk_configurations'' \<longrightarrow>
     set (map cl_name risk_configurations_added_columns) \<inter> set (column_names (fst b)) = {}"
    by (simp add: trading_blocks_def table_defs risk_configurations_added_columns_def column_names_def
          required_def optional_def defaulted_def required_ref_def optional_ref_def primary_key_def)
qed (code_simp+)

lemma license_columns_addable:
  "distinct (map cl_name licenses_added_columns)"
  "set (map cl_name licenses_added_columns) \<inter> set (column_names licenses_table) = {}"
  "list_all (addable (map (\<lambda>b. tb_name (fst b)) trading_blocks @ [''licenses''])) licenses_added_columns"
  "list_all (\<lambda>i. ix_table i = ''licenses''
      \<and> set (ix_columns i) \<subseteq> set (column_names licenses_table @ map cl_name licenses_added_columns)) licenses_added_indexes"
proof -
  show "set (map cl_name licenses_added_columns) \<inter> set (column_names licenses_table) = {}"
    by (simp add: licenses_table_def licenses_added_columns_def column_names_def
          required_def optional_def defaulted_def required_ref_def optional_ref_def primary_key_def)
qed (code_simp+)

lemma trading_upgrades:
  "run_ddl (Create_extension ''uuid-ossp'' # concat (map (\<lambda>b. create_block (fst b) (snd b)) trading_blocks)
      @ map (Add_column ''risk_configurations'') risk_configurations_added_columns) empty_schema
    = Some (built [''uuid-ossp''] (alter_block ''risk_configurations'' risk_configurations_added_columns trading_blocks))"
proof -
  let ?e = "[''uuid-ossp'']"
  have names: "distinct (concat (map block_names trading_blocks))" using names_distinct by simp
  have "apply_ddl (Create_extension ''uuid-ossp'') empty_schema = Some (built ?e [])"
    by (simp add: empty_schema_def built_def)
  moreover have "run_ddl (concat (map (\<lambda>b. create_block (fst b) (snd b)) trading_blocks)) (built ?e [])
      = Some (built ?e ([] @ trading_blocks))"
    by (rule blocks_run) (use trading_blocks_ok names in simp_all)
  moreover have "run_ddl (map (Add_column ''risk_configurations'') risk_configurations_added_columns) (built ?e trading_blocks)
      = Some (built ?e (alter_block ''risk_configurations'' risk_configurations_added_columns trading_blocks))"
    by (rule add_columns_run [OF risk_column_addable])
  ultimately show ?thesis by (simp add: run_ddl_append del: apply_ddl.simps)
qed

lemma license_names:
  fixes A l p defines "A \<equiv> concat (map block_names trading_blocks)"
    and "l \<equiv> (licenses_table, licenses_indexes)" and "p \<equiv> (password_resets_table, password_resets_indexes)"
  shows "distinct (block_names l)" "set (block_names l) \<inter> set A = {}"
    "distinct (A @ block_names (licenses_table, licenses_indexes @ licenses_added_indexes))"
    "distinct (block_names p)"
    "set (block_names p) \<inter> set (A @ block_names (licenses_table, licenses_indexes @ licenses_added_indexes)) = {}"
proof -
  have split: "block_names (t, ixs @ ys) = block_names (t, ixs) @ map ix_name ys" for t ixs ys
    by (simp add: block_names_def)
  have "distinct (A @ block_names (licenses_table, licenses_indexes @ licenses_added_indexes) @ block_names p)"
    using names_distinct by (simp add: license_blocks_def A_def p_def block_names_def)
  then show "distinct (block_names l)" "set (block_names l) \<inter> set A = {}"
    "distinct (A @ block_names (licenses_table, licenses_indexes @ licenses_added_indexes))"
    "distinct (block_names p)"
    "set (block_names p) \<inter> set (A @ block_names (licenses_table, licenses_indexes @ licenses_added_indexes)) = {}"
    unfolding split l_def distinct_append set_append by blast+
qed

lemma license_upgrades:
  assumes names: "map (\<lambda>b. tb_name (fst b)) bs = map (\<lambda>b. tb_name (fst b)) trading_blocks"
    "map block_names bs = map block_names trading_blocks"
  shows "run_ddl (create_block licenses_table licenses_indexes
      @ map (Add_column ''licenses'') licenses_added_columns @ map Create_index licenses_added_indexes
      @ create_block password_resets_table password_resets_indexes) (built e bs)
    = Some (built e (bs @ license_blocks))"
proof -
  let ?l = "(licenses_table, licenses_indexes)" and ?p = "(password_resets_table, password_resets_indexes)"
  let ?t = "licenses_table\<lparr>tb_columns := tb_columns licenses_table @ licenses_added_columns\<rparr>"
  let ?l' = "(?t, licenses_indexes @ licenses_added_indexes)"
  have name: "tb_name licenses_table = ''licenses''" by (simp add: licenses_table_def)
  have tabs: "table_names (built e bs) = map (\<lambda>b. tb_name (fst b)) trading_blocks"
    "table_names (built e (bs @ [?l'])) = map (\<lambda>b. tb_name (fst b)) trading_blocks @ [''licenses'']"
    by (simp_all add: table_names_built names(1) name del: map_map)
  have "block_names ?l' = block_names (licenses_table, licenses_indexes @ licenses_added_indexes)"
    by (simp add: block_names_def)
  note d = license_names [folded names(2)] this
  have 1: "run_ddl (create_block (fst ?l) (snd ?l)) (built e bs) = Some (built e (bs @ [?l]))"
    by (rule block_runs) (use license_blocks_ok(1) d tabs in simp_all)
  have 2: "run_ddl (map (Add_column ''licenses'') licenses_added_columns @ map Create_index licenses_added_indexes)
      (built e (bs @ [?l])) = Some (built e (bs @ [((fst ?l)\<lparr>tb_columns := tb_columns (fst ?l) @ licenses_added_columns\<rparr>, snd ?l @ licenses_added_indexes)]))"
    by (rule last_block_extended) (use license_columns_addable d in \<open>simp_all add: name names(1)\<close>)
  have 3: "run_ddl (create_block (fst ?p) (snd ?p)) (built e (bs @ [?l'])) = Some (built e ((bs @ [?l']) @ [?p]))"
    by (rule block_runs) (use license_blocks_ok(2) d tabs in simp_all)
  show ?thesis
    using run_ddl_then [OF 1] run_ddl_then [OF 2] 3
    by (simp only: license_blocks_def append_assoc fst_conv snd_conv append_Cons append_Nil)
qed

lemma upgrade_reaches_head: "upgrade_head = Some (built [''uuid-ossp''] head_blocks)"
  using run_ddl_then [OF trading_upgrades] license_upgrades [OF alter_block_names]
  unfolding upgrade_head_def all_upgrades head_blocks_def append_Cons append_assoc by (rule trans)

subsection \<open>Properties\<close>

text \<open>
  C39: Every migration can be taken back: on any well-formed schema on which its upgrade succeeds, its
  downgrade succeeds afterwards and restores the tables and the indexes as they were.  Only the
  extension of the first migration stays.
\<close>

theorem migrations_reversible:
  assumes "m \<in> set migrations" "schema_ok s" "run_ddl (mg_upgrade m) s = Some s'"
  shows "\<exists>e. run_ddl (mg_downgrade m) s' = Some (s\<lparr>sc_extensions := e\<rparr>)"
  by (rule downgrade_undoes [OF _ assms(2,3)]) (use assms(1) downgrades_undo in \<open>auto simp: list_all_iff\<close>)

theorem migrations_reversible_witness:
  "\<exists>e. run_ddl (mg_downgrade migration_007) (built [] [(licenses_table, licenses_indexes)]) =
     Some (empty_schema\<lparr>sc_extensions := e\<rparr>)"
proof (rule migrations_reversible)
  show "migration_007 \<in> set migrations" by (simp add: migrations_def)
  show "schema_ok empty_schema" by code_simp
  show "run_ddl (mg_upgrade migration_007) empty_schema = Some (built [] [(licenses_table, licenses_indexes)])"
    by code_simp
qed


end
