(* ===== verification/Table_Models.thy ===== *)
theory Table_Models
  imports Migrations
begin

section \<open>The mapped tables (\<open>db/models/\<close>)\<close>

text \<open>
  The tables as the mapper declares them.  A default the program supplies is not a default of the
  database and is left out; an index is its columns and whether it is unique.
\<close>

record table_model =
  tm_table :: db_table
  tm_indexes :: "(string list \<times> bool) list"

definition mutable_timestamps :: "column list" where
  "mutable_timestamps =
     [defaulted ''created_at'' Timestamptz ''now()'', defaulted ''updated_at'' Timestamptz ''now()'']"

definition immutable_timestamps :: "column list" where
  "immutable_timestamps = [defaulted ''created_at'' Timestamptz ''now()'']"

definition users_model :: table_model where
  "users_model =
     \<lparr>tm_table =
        \<lparr>tb_name = ''users'',
         tb_columns =
          [primary_key ''uuid_generate_v4()'', required ''email'' (Varchar 255),
           required ''hashed_password'' (Varchar 255), required ''display_name'' (Varchar 100),
           required ''is_active'' Boolean_type, required ''is_superuser'' Boolean_type,
           optional ''notes'' Text_type]
          @ mutable_timestamps,
         tb_uniques = []\<rparr>,
      tm_indexes =
        [([''email''], True)]\<rparr>"

definition refresh_tokens_model :: table_model where
  "refresh_tokens_model =
     \<lparr>tm_table =
        \<lparr>tb_name = ''refresh_tokens'',
         tb_columns =
          [primary_key ''uuid_generate_v4()'', required ''jti'' (Varchar 64),
           required_ref ''user_id'' ''users'' CASCADE, required ''expires_at'' Timestamptz,
           optional ''revoked_at'' Timestamptz]
          @ immutable_timestamps,
         tb_uniques = []\<rparr>,
      tm_indexes =
        [([''jti''], True), ([''user_id''], False)]\<rparr>"

definition password_resets_model :: table_model where
  "password_resets_model =
     \<lparr>tm_table =
        \<lparr>tb_name = ''password_resets'',
         tb_columns =
          [primary_key_unset, required_ref ''user_id'' ''users'' CASCADE,
           required ''token_hash'' (Varchar 128), required ''expires_at'' Timestamptz,
           optional ''used_at'' Timestamptz, defaulted ''created_at'' Timestamptz ''now()''],
         tb_uniques = []\<rparr>,
      tm_indexes =
        [([''user_id''], False), ([''token_hash''], False)]\<rparr>"

definition licenses_model :: table_model where
  "licenses_model =
     \<lparr>tm_table =
        \<lparr>tb_name = ''licenses'',
         tb_columns =
          [primary_key_unset, required ''license_key'' (Varchar 256), optional ''serial_code'' (Varchar 128),
           required ''tier'' Integer_type, required ''plan'' (Varchar 64), required ''status'' (Varchar 32),
           required ''account_limit'' Integer_type, required ''feature_strategy_engine'' Boolean_type,
           required ''feature_brain'' Boolean_type, required ''feature_backtest'' Boolean_type,
           required ''feature_multi_account'' Boolean_type, optional_ref ''user_id'' ''users'' CASCADE,
           optional ''issued_at'' Timestamptz, optional ''activated_at'' Timestamptz,
           optional ''valid_from'' Timestamptz, optional ''valid_until'' Timestamptz,
           required ''revoked'' Boolean_type, defaulted ''created_at'' Timestamptz ''now()'',
           defaulted ''updated_at'' Timestamptz ''now()''],
         tb_uniques = []\<rparr>,
      tm_indexes =
        [([''license_key''], True), ([''serial_code''], True), ([''status''], False), ([''user_id''], False)]\<rparr>"

definition trading_accounts_model :: table_model where
  "trading_accounts_model =
     \<lparr>tm_table =
        \<lparr>tb_name = ''trading_accounts'',
         tb_columns =
          [primary_key ''uuid_generate_v4()'', required_ref ''user_id'' ''users'' CASCADE,
           required ''label'' (Varchar 100), required ''broker'' (Varchar 100),
           required ''mt5_account_number'' (Varchar 50), optional ''mt5_server'' (Varchar 200),
           required ''broker_currency'' (Varchar 20), required ''is_cent_account'' Boolean_type,
           required ''cent_normalization_factor'' (Numeric 18 8),
           optional ''symbol_mapping_json'' (Varchar 1000), required ''is_active'' Boolean_type,
           required ''trading_enabled'' Boolean_type]
          @ mutable_timestamps,
         tb_uniques = []\<rparr>,
      tm_indexes =
        [([''user_id''], False), ([''mt5_account_number''], False)]\<rparr>"

definition mt5_agents_model :: table_model where
  "mt5_agents_model =
     \<lparr>tm_table =
        \<lparr>tb_name = ''mt5_agents'',
         tb_columns =
          [primary_key ''uuid_generate_v4()'', required_ref ''account_id'' ''trading_accounts'' CASCADE,
           required ''label'' (Varchar 100), required ''hashed_secret'' (Varchar 255),
           optional ''last_seen_at'' Timestamptz, required ''last_known_status'' (Varchar 50),
           optional ''mt5_version'' (Varchar 50), optional ''ea_version'' (Varchar 50),
           optional ''notes'' Text_type]
          @ mutable_timestamps,
         tb_uniques = []\<rparr>,
      tm_indexes =
        [([''account_id''], False)]\<rparr>"

definition mt5_agent_commands_model :: table_model where
  "mt5_agent_commands_model =
     \<lparr>tm_table =
        \<lparr>tb_name = ''mt5_agent_commands'',
         tb_columns =
          [primary_key ''uuid_generate_v4()'', required_ref ''agent_id'' ''mt5_agents'' CASCADE,
           required ''command_type'' (Varchar 50), required ''status'' (Varchar 20),
           optional ''payload_json'' Text_type, optional ''result_json'' Text_type,
           optional ''error_message'' (Varchar 500), optional ''sent_at'' Timestamptz,
           optional ''acknowledged_at'' Timestamptz, optional ''completed_at'' Timestamptz]
          @ mutable_timestamps,
         tb_uniques = []\<rparr>,
      tm_indexes =
        [([''agent_id''], False), ([''status''], False), ([''agent_id'', ''status''], False)]\<rparr>"

definition audit_logs_model :: table_model where
  "audit_logs_model =
     \<lparr>tm_table =
        \<lparr>tb_name = ''audit_logs'',
         tb_columns =
          [primary_key ''uuid_generate_v4()'', optional_ref ''user_id'' ''users'' SET_NULL,
           optional_ref ''account_id'' ''trading_accounts'' SET_NULL,
           optional_ref ''mt5_agent_id'' ''mt5_agents'' SET_NULL, required ''event_type'' (Varchar 100),
           required ''severity'' (Varchar 20), optional ''payload_json'' Text_type,
           optional ''correlation_id'' (Varchar 100), optional ''ip_address'' (Varchar 45),
           defaulted ''occurred_at'' Timestamptz ''now()'']
          @ immutable_timestamps,
         tb_uniques = []\<rparr>,
      tm_indexes =
        [([''user_id''], False), ([''account_id''], False), ([''event_type''], False),
         ([''correlation_id''], False), ([''occurred_at''], False)]\<rparr>"

definition strategy_engine_state_model :: table_model where
  "strategy_engine_state_model =
     \<lparr>tm_table =
        \<lparr>tb_name = ''strategy_engine_state'',
         tb_columns =
          [primary_key ''uuid_generate_v4()'', required_ref ''account_id'' ''trading_accounts'' CASCADE,
           required ''enabled'' Boolean_type, required ''dry_run'' Boolean_type,
           required ''strategy_id'' (Varchar 100), required ''strategy_version'' (Varchar 50),
           required ''symbol'' (Varchar 20), required ''timeframe'' (Varchar 10),
           optional ''last_signal_direction'' (Varchar 10), optional ''last_signal_at'' Timestamptz,
           optional ''last_signal_candle_ts'' Timestamptz, optional ''last_signal_id'' Uuid,
           optional ''last_signal_reason'' (Varchar 200), optional ''last_risk_decision'' (Varchar 20),
           optional ''last_risk_reason_code'' (Varchar 100), optional ''last_execution_status'' (Varchar 30)]
          @ mutable_timestamps,
         tb_uniques = []\<rparr>,
      tm_indexes =
        [([''account_id''], True)]\<rparr>"

definition risk_configurations_model :: table_model where
  "risk_configurations_model =
     \<lparr>tm_table =
        \<lparr>tb_name = ''risk_configurations'',
         tb_columns =
          [primary_key ''uuid_generate_v4()'', required_ref ''account_id'' ''trading_accounts'' CASCADE,
           required ''version'' Integer_type, required ''effective_from'' Timestamptz,
           optional_ref ''created_by_user_id'' ''users'' SET_NULL,
           required ''daily_reset_timezone'' (Varchar 50), required ''drawdown_reference'' (Varchar 50),
           required ''profit_lock_formula'' (Varchar 50), required ''profit_lock_basis'' (Varchar 50),
           required ''profit_lock_threshold_usd'' (Numeric 18 8),
           required ''profit_lock_floor_pct'' (Numeric 18 8),
           required ''max_tick_staleness_ms'' Integer_type,
           required ''news_pre_event_window_minutes'' Integer_type,
           required ''news_post_event_window_minutes'' Integer_type,
           optional ''daily_loss_limit_usd'' (Numeric 18 8), optional ''max_drawdown_usd'' (Numeric 18 8),
           optional ''max_open_positions'' Integer_type, optional ''max_open_lots'' (Numeric 18 8),
           optional ''max_spread_usd'' (Numeric 18 8), optional ''risk_per_trade_pct'' (Numeric 18 8),
           required ''kill_switch_active'' Boolean_type]
          @ immutable_timestamps,
         tb_uniques = [(''uq_risk_config_account_version'', [''account_id'', ''version''])]\<rparr>,
      tm_indexes =
        [([''account_id''], False)]\<rparr>"

definition risk_decisions_model :: table_model where
  "risk_decisions_model =
     \<lparr>tm_table =
        \<lparr>tb_name = ''risk_decisions'',
         tb_columns =
          [primary_key ''uuid_generate_v4()'', optional_ref ''account_id'' ''trading_accounts'' SET_NULL,
           optional ''risk_config_version'' Integer_type, optional ''signal_id'' Uuid,
           optional ''correlation_id'' (Varchar 100), required ''decision'' (Varchar 30),
           required ''reason_code'' (Varchar 200), required ''risk_state'' (Varchar 50),
           optional ''equity_at_decision'' (Numeric 18 8), optional ''drawdown_at_decision'' (Numeric 18 8),
           optional ''daily_pnl_at_decision'' (Numeric 18 8), optional ''profit_lock_active'' Boolean_type,
           optional ''profit_lock_floor_usd'' (Numeric 18 8), required ''decided_at'' Timestamptz]
          @ immutable_timestamps,
         tb_uniques = []\<rparr>,
      tm_indexes =
        [([''account_id''], False), ([''signal_id''], False), ([''correlation_id''], False),
         ([''decided_at''], False)]\<rparr>"

definition candidate_signals_model :: table_model where
  "candidate_signals_model =
     \<lparr>tm_table =
        \<lparr>tb_name = ''candidate_signals'',
         tb_columns =
          [primary_key ''uuid_generate_v4()'', optional_ref ''account_id'' ''trading_accounts'' SET_NULL,
           optional ''correlation_id'' (Varchar 100), required ''symbol'' (Varchar 20),
           required ''direction'' (Varchar 10), required ''strategy_id'' (Varchar 100),
           required ''strategy_version'' (Varchar 50), optional ''regime'' (Varchar 50),
           optional ''setup_type'' (Varchar 50), optional ''confidence_score'' (Numeric 18 8),
           optional ''entry_reference'' (Numeric 18 8), optional ''suggested_stop_loss'' (Numeric 18 8),
           optional ''suggested_take_profit'' (Numeric 18 8), optional ''spread_at_signal'' (Numeric 18 8),
           optional ''news_state_at_signal'' (Varchar 50), optional ''evidence_json'' Text_type,
           required ''status'' (Varchar 50), required ''generated_at'' Timestamptz,
           optional ''expires_at'' Timestamptz]
          @ immutable_timestamps,
         tb_uniques = []\<rparr>,
      tm_indexes =
        [([''account_id''], False), ([''status''], False), ([''generated_at''], False)]\<rparr>"

definition execution_commands_model :: table_model where
  "execution_commands_model =
     \<lparr>tm_table =
        \<lparr>tb_name = ''execution_commands'',
         tb_columns =
          [primary_key ''uuid_generate_v4()'', optional_ref ''account_id'' ''trading_accounts'' SET_NULL,
           optional_ref ''signal_id'' ''candidate_signals'' SET_NULL,
           optional_ref ''risk_decision_id'' ''risk_decisions'' SET_NULL,
           optional ''correlation_id'' (Varchar 100), required ''idempotency_key'' (Varchar 100),
           required ''action'' (Varchar 30), required ''symbol'' (Varchar 20),
           optional ''order_type'' (Varchar 10), optional ''volume_lots'' (Numeric 18 8),
           optional ''price'' (Numeric 18 8), optional ''stop_loss'' (Numeric 18 8),
           optional ''take_profit'' (Numeric 18 8), optional ''slippage_points'' Integer_type,
           optional ''magic_number'' Integer_type, optional ''position_ticket'' Bigint,
           required ''status'' (Varchar 30), optional ''reason'' (Varchar 200),
           required ''expires_at'' Timestamptz, optional ''sent_at'' Timestamptz,
           optional ''acknowledged_at'' Timestamptz]
          @ immutable_timestamps,
         tb_uniques = []\<rparr>,
      tm_indexes =
        [([''account_id''], False), ([''signal_id''], False), ([''idempotency_key''], True),
         ([''status''], False)]\<rparr>"

definition execution_reports_model :: table_model where
  "execution_reports_model =
     \<lparr>tm_table =
        \<lparr>tb_name = ''execution_reports'',
         tb_columns =
          [primary_key ''uuid_generate_v4()'', optional_ref ''command_id'' ''execution_commands'' SET_NULL,
           optional_ref ''account_id'' ''trading_accounts'' SET_NULL,
           optional ''correlation_id'' (Varchar 100), optional ''idempotency_key'' (Varchar 100),
           required ''status'' (Varchar 30), optional ''broker_ticket'' Bigint,
           optional ''broker_deal_id'' Bigint, optional ''fill_price'' (Numeric 18 8),
           optional ''fill_volume_lots'' (Numeric 18 8), optional ''slippage_points'' Integer_type,
           optional ''commission_usd'' (Numeric 18 8), optional ''swap_usd'' (Numeric 18 8),
           optional ''broker_error_code'' Integer_type, optional ''broker_error_message'' (Varchar 500),
           optional ''raw_broker_response_json'' Text_type, required ''executed_at'' Timestamptz]
          @ immutable_timestamps,
         tb_uniques = []\<rparr>,
      tm_indexes =
        [([''command_id''], False), ([''account_id''], False), ([''idempotency_key''], False),
         ([''broker_ticket''], False), ([''executed_at''], False)]\<rparr>"

definition positions_model :: table_model where
  "positions_model =
     \<lparr>tm_table =
        \<lparr>tb_name = ''positions'',
         tb_columns =
          [primary_key ''uuid_generate_v4()'', optional_ref ''account_id'' ''trading_accounts'' SET_NULL,
           optional_ref ''command_id'' ''execution_commands'' SET_NULL, required ''broker_ticket'' Bigint,
           required ''symbol'' (Varchar 20), required ''side'' (Varchar 10),
           required ''lots'' (Numeric 18 8), required ''open_price'' (Numeric 18 8),
           optional ''stop_loss'' (Numeric 18 8), optional ''take_profit'' (Numeric 18 8),
           optional ''current_price'' (Numeric 18 8), optional ''unrealized_pnl_usd'' (Numeric 18 8),
           optional ''commission_usd'' (Numeric 18 8), optional ''swap_usd'' (Numeric 18 8),
           optional ''magic_number'' Integer_type, required ''status'' (Varchar 30),
           required ''opened_at'' Timestamptz, optional ''closed_at'' Timestamptz,
           optional ''close_price'' (Numeric 18 8), optional ''realized_pnl_usd'' (Numeric 18 8),
           optional ''last_synced_at'' Timestamptz]
          @ mutable_timestamps,
         tb_uniques = [(''uq_positions_account_ticket'', [''account_id'', ''broker_ticket''])]\<rparr>,
      tm_indexes =
        [([''account_id''], False), ([''broker_ticket''], False), ([''status''], False),
         ([''opened_at''], False)]\<rparr>"

definition equity_snapshots_model :: table_model where
  "equity_snapshots_model =
     \<lparr>tm_table =
        \<lparr>tb_name = ''equity_snapshots'',
         tb_columns =
          [primary_key ''uuid_generate_v4()'', required_ref ''account_id'' ''trading_accounts'' CASCADE,
           required ''balance_usd'' (Numeric 18 8), required ''equity_usd'' (Numeric 18 8),
           optional ''margin_usd'' (Numeric 18 8), optional ''free_margin_usd'' (Numeric 18 8),
           optional ''floating_pnl_usd'' (Numeric 18 8), optional ''open_position_count'' Integer_type,
           required ''snapped_at'' Timestamptz]
          @ immutable_timestamps,
         tb_uniques = []\<rparr>,
      tm_indexes =
        [([''account_id''], False), ([''snapped_at''], False)]\<rparr>"

definition daily_session_states_model :: table_model where
  "daily_session_states_model =
     \<lparr>tm_table =
        \<lparr>tb_name = ''daily_session_states'',
         tb_columns =
          [primary_key ''uuid_generate_v4()'', required_ref ''account_id'' ''trading_accounts'' CASCADE,
           required ''session_date'' Date_type, required ''session_open_equity_usd'' (Numeric 18 8),
           required ''session_peak_profit_usd'' (Numeric 18 8), required ''realized_pnl_usd'' (Numeric 18 8),
           optional ''floating_pnl_usd'' (Numeric 18 8), required ''daily_loss_stop_triggered'' Boolean_type,
           required ''profit_lock_active'' Boolean_type, optional ''profit_lock_floor_usd'' (Numeric 18 8),
           optional ''profit_lock_activated_at'' Timestamptz, required ''last_updated_at'' Timestamptz]
          @ immutable_timestamps,
         tb_uniques = [(''uq_daily_session_account_date'', [''account_id'', ''session_date''])]\<rparr>,
      tm_indexes =
        [([''account_id''], False), ([''session_date''], False)]\<rparr>"

definition news_events_model :: table_model where
  "news_events_model =
     \<lparr>tm_table =
        \<lparr>tb_name = ''news_events'',
         tb_columns =
          [primary_key ''uuid_generate_v4()'', required ''source'' (Varchar 100),
           optional ''source_event_id'' (Varchar 200), required ''event_name'' (Varchar 500),
           required ''currency'' (Varchar 10), required ''impact'' (Varchar 20),
           required ''event_time'' Timestamptz, required ''pre_event_window_start'' Timestamptz,
           required ''post_event_window_end'' Timestamptz, optional ''actual_value'' (Varchar 100),
           optional ''forecast_value'' (Varchar 100), optional ''previous_value'' (Varchar 100)]
          @ immutable_timestamps,
         tb_uniques = [(''uq_news_events_source_id'', [''source'', ''source_event_id''])]\<rparr>,
      tm_indexes =
        [([''currency''], False), ([''impact''], False), ([''event_time''], False)]\<rparr>"

definition table_models :: "table_model list" where
  "table_models =
     [users_model, trading_accounts_model, mt5_agents_model, audit_logs_model, refresh_tokens_model,
      risk_configurations_model, risk_decisions_model, candidate_signals_model, execution_commands_model,
      execution_reports_model, positions_model, equity_snapshots_model, daily_session_states_model,
      news_events_model, mt5_agent_commands_model, strategy_engine_state_model, licenses_model,
      password_resets_model]"

subsection \<open>Agreement of a mapped table with the database\<close>

text \<open>
  A row of an insert gives a value, perhaps null, for some of the columns; \<open>width\<close> measures a value as a
  text.  A table accepts a row of its columns when the values fit the widths, and a column that is not
  nullable is given a value or, where the row leaves it out, fills itself.  Uniqueness and references
  depend on the other rows and are apart.  The rows the mapper inserts are those its own description
  of the table accepts: it leaves out the columns with a server default, such as the time stamps.
\<close>

type_synonym 'v db_row = "(string \<times> 'v option) list"

definition value_fits :: "('v \<Rightarrow> nat) \<Rightarrow> column_type \<Rightarrow> 'v \<Rightarrow> bool" where
  "value_fits width ty v \<longleftrightarrow> (case ty of Varchar n \<Rightarrow> width v \<le> n | _ \<Rightarrow> True)"

definition column_accepts :: "('v \<Rightarrow> nat) \<Rightarrow> column \<Rightarrow> 'v option option \<Rightarrow> bool" where
  "column_accepts width c v \<longleftrightarrow>
     (case v of
        None \<Rightarrow> cl_nullable c \<or> cl_default c \<noteq> None
      | Some None \<Rightarrow> cl_nullable c
      | Some (Some x) \<Rightarrow> value_fits width (cl_type c) x)"

definition accepts_row :: "('v \<Rightarrow> nat) \<Rightarrow> db_table \<Rightarrow> 'v db_row \<Rightarrow> bool" where
  "accepts_row width t row \<longleftrightarrow>
     list_all (\<lambda>n. n \<in> set (column_names t)) (map fst row)
     \<and> list_all (\<lambda>c. column_accepts width c (map_of row (cl_name c))) (tb_columns t)"

fun type_fits :: "column_type \<Rightarrow> column_type \<Rightarrow> bool" where
  "type_fits (Varchar n) (Varchar m) = (n \<le> m)"
| "type_fits a b = (a = b)"

definition column_serves :: "column \<Rightarrow> column \<Rightarrow> bool" where
  "column_serves c d \<longleftrightarrow>
     cl_name d = cl_name c \<and> type_fits (cl_type c) (cl_type d) \<and> cl_nullable d = cl_nullable c
     \<and> (cl_default c \<noteq> None \<longrightarrow> cl_default d \<noteq> None) \<and> cl_references d = cl_references c"

definition table_serves :: "db_table \<Rightarrow> db_table \<Rightarrow> bool" where
  "table_serves m t \<longleftrightarrow>
     tb_name t = tb_name m \<and> distinct (column_names t)
     \<and> list_all (\<lambda>c. list_ex (column_serves c) (tb_columns t)) (tb_columns m)
     \<and> list_all (\<lambda>d. cl_name d \<in> set (column_names m) \<or> cl_nullable d \<or> cl_default d \<noteq> None) (tb_columns t)"

definition unique_keys :: "table_model \<Rightarrow> string list list" where
  "unique_keys m =
     map (\<lambda>c. [cl_name c]) (filter cl_unique (tb_columns (tm_table m)))
     @ map snd (tb_uniques (tm_table m)) @ map fst (filter snd (tm_indexes m))"

definition enforced_keys :: "schema \<Rightarrow> db_table \<Rightarrow> string list list" where
  "enforced_keys s t =
     map (\<lambda>c. [cl_name c]) (filter cl_unique (tb_columns t)) @ map snd (tb_uniques t)
     @ map ix_columns (filter (\<lambda>i. ix_unique i \<and> ix_table i = tb_name t) (sc_indexes s))"

definition schema_serves :: "schema \<Rightarrow> table_model \<Rightarrow> bool" where
  "schema_serves s m \<longleftrightarrow>
     list_ex (\<lambda>t. table_serves (tm_table m) t \<and> set (unique_keys m) \<subseteq> set (enforced_keys s t)) (sc_tables s)"

lemma served_column_accepts:
  assumes "column_serves c d" "column_accepts width c v"
  shows "column_accepts width d v"
proof -
  have "value_fits width (cl_type d) x" if "value_fits width (cl_type c) x" for x
    using that assms(1) by (cases "(cl_type c, cl_type d)" rule: type_fits.cases) (auto simp: column_serves_def value_fits_def)
  with assms show ?thesis by (auto simp: column_serves_def column_accepts_def split: option.splits)
qed

lemma served_row_accepted:
  assumes "table_serves m t" "accepts_row width m row"
  shows "accepts_row width t row"
proof -
  have cols: "set (column_names m) \<subseteq> set (column_names t)"
  proof
    fix n assume "n \<in> set (column_names m)"
    then obtain c where c: "c \<in> set (tb_columns m)" "n = cl_name c" by (auto simp: column_names_def)
    then obtain d where "d \<in> set (tb_columns t)" "cl_name d = cl_name c"
      using assms(1) by (auto simp: table_serves_def column_serves_def list_all_iff list_ex_iff)
    then show "n \<in> set (column_names t)" using c(2) by (metis column_names_def image_eqI set_map)
  qed
  have "column_accepts width d (map_of row (cl_name d))" if d: "d \<in> set (tb_columns t)" for d
  proof (cases "cl_name d \<in> set (column_names m)")
    case True
    then obtain c where c: "c \<in> set (tb_columns m)" "cl_name c = cl_name d" by (auto simp: column_names_def)
    obtain d' where d': "d' \<in> set (tb_columns t)" "column_serves c d'"
      using assms(1) c(1) by (auto simp: table_serves_def list_all_iff list_ex_iff)
    then have "d' = d"
      using assms(1) d c(2) unfolding table_serves_def column_names_def column_serves_def distinct_map
      by (metis inj_onD)
    moreover have "column_accepts width c (map_of row (cl_name d))"
      using assms(2) c by (auto simp: accepts_row_def list_all_iff)
    ultimately show ?thesis using served_column_accepts d'(2) by blast
  next
    case False
    then have "map_of row (cl_name d) = None" using assms(2) by (force simp: accepts_row_def list_all_iff map_of_eq_None_iff)
    then show ?thesis using assms(1) d False by (auto simp: table_serves_def list_all_iff column_accepts_def)
  qed
  then show ?thesis using assms(2) cols by (auto simp: accepts_row_def list_all_iff)
qed

text \<open>A block serves a mapped table when its own columns and unique keys do.\<close>

definition block_serves :: "table_model \<Rightarrow> db_table \<times> db_index list \<Rightarrow> bool" where
  "block_serves m b \<longleftrightarrow>
     table_serves (tm_table m) (fst b)
     \<and> list_all (\<lambda>i. ix_table i = tb_name (fst b)) (snd b)
     \<and> set (unique_keys m) \<subseteq> set (map (\<lambda>c. [cl_name c]) (filter cl_unique (tb_columns (fst b)))
          @ map snd (tb_uniques (fst b)) @ map ix_columns (filter ix_unique (snd b)))"

lemma block_serves_schema:
  assumes "block_serves m b" "b \<in> set bs"
  shows "table_serves (tm_table m) (fst b)" "fst b \<in> set (sc_tables (built e bs))"
    "set (unique_keys m) \<subseteq> set (enforced_keys (built e bs) (fst b))"
proof -
  show "table_serves (tm_table m) (fst b)" "fst b \<in> set (sc_tables (built e bs))"
    using assms by (auto simp: block_serves_def built_def)
  have "i \<in> set (sc_indexes (built e bs)) \<and> ix_table i = tb_name (fst b)" if "i \<in> set (snd b)" for i
    using assms that by (auto simp: block_serves_def built_def list_all_iff)
  then have "set (map ix_columns (filter ix_unique (snd b))) \<subseteq>
      set (map ix_columns (filter (\<lambda>i. ix_unique i \<and> ix_table i = tb_name (fst b)) (sc_indexes (built e bs))))"
    by auto
  then show "set (unique_keys m) \<subseteq> set (enforced_keys (built e bs) (fst b))"
    using assms(1) unfolding block_serves_def enforced_keys_def set_append by blast
qed

lemma blocks_serve: "list_all2 block_serves table_models head_blocks"
  by code_simp

lemma model_served:
  assumes "m \<in> set table_models"
  shows "\<exists>b \<in> set head_blocks. block_serves m b"
proof -
  obtain i where i: "i < length table_models" "m = table_models ! i"
    using assms by (auto simp: in_set_conv_nth)
  then show ?thesis
    using list_all2_nthD [OF blocks_serve i(1)] list_all2_lengthD [OF blocks_serve] by (metis nth_mem)
qed

subsection \<open>Where the two descriptions differ\<close>

definition unmapped_columns :: "table_model \<Rightarrow> db_table \<Rightarrow> (string \<times> string) list" where
  "unmapped_columns m t =
     map (Pair (tb_name t)) (filter (\<lambda>n. n \<notin> set (column_names (tm_table m))) (column_names t))"

definition missing_indexes :: "table_model \<Rightarrow> db_index list \<Rightarrow> (string \<times> string list) list" where
  "missing_indexes m ixs =
     map (Pair (tb_name (tm_table m))) (filter (\<lambda>cs. cs \<notin> set (map ix_columns ixs)) (map fst (tm_indexes m)))"

text \<open>Two columns of the database are never written, and one index of the mapper is never created.\<close>

lemma columns_never_written:
  "concat (map2 (\<lambda>m b. unmapped_columns m (fst b)) table_models head_blocks) =
     [(''risk_decisions'', ''idempotency_key''), (''candidate_signals'', ''idempotency_key'')]"
  by code_simp

lemma indexes_never_created:
  "concat (map2 (\<lambda>m b. missing_indexes m (snd b)) table_models head_blocks) =
     [(''execution_reports'', [''executed_at''])]"
  by code_simp

text \<open>The foreign keys a deletion follows are those of the migrated database.\<close>

definition keys_of :: "db_table \<Rightarrow> foreign_keys" where
  "keys_of t = List.map_filter (\<lambda>c. map_option (\<lambda>(p, act). ((tb_name t, p), act)) (cl_references c)) (tb_columns t)"

lemma head_foreign_keys: "set (concat (map (\<lambda>b. keys_of (fst b)) head_blocks)) = set all_foreign_keys"
  by code_simp

subsection \<open>Properties\<close>

text \<open>
  C38: The migrations take an empty database to a schema in which every mapped table exists and, as
  far as its columns, nulls, defaults and text widths go, accepts every row that the mapper's own
  description of the table accepts: the columns are there with their types and references, those the
  mapper leaves to the server or does not know fill themselves; and every uniqueness the mapper
  declares is enforced.
\<close>

theorem models_fit_migrations:
  assumes "m \<in> set table_models"
  shows "\<exists>h t. upgrade_head = Some h \<and> t \<in> set (sc_tables h) \<and> table_serves (tm_table m) t
    \<and> (\<forall>(width :: 'v \<Rightarrow> nat) row. accepts_row width (tm_table m) row \<longrightarrow> accepts_row width t row)
    \<and> set (unique_keys m) \<subseteq> set (enforced_keys h t)"
proof -
  obtain b where b: "b \<in> set head_blocks" "block_serves m b" using model_served [OF assms(1)] by blast
  note serves = block_serves_schema [OF b(2) b(1)]
  show ?thesis
    using upgrade_reaches_head serves served_row_accepted [OF serves(1)] by blast
qed

text \<open>A new password reset, with its time stamp left to the database.\<close>

definition demo_reset_row :: "string db_row" where
  "demo_reset_row = 
     [(''id'', Some ''1''), (''user_id'', Some ''u''), (''token_hash'', Some ''h''), (''expires_at'', Some ''t'')]"

theorem models_fit_migrations_witness:
  "\<exists>h t. upgrade_head = Some h \<and> t \<in> set (sc_tables h) \<and> accepts_row length t demo_reset_row"
proof -
  have "accepts_row length (tm_table password_resets_model) demo_reset_row" by code_simp
  moreover have "password_resets_model \<in> set table_models" by (simp add: table_models_def)
  ultimately show ?thesis using models_fit_migrations by blast
qed

end
