(* ===== verification/Spec2Isabelle.thy ===== *)
theory Spec2Isabelle
  imports Backtest_Analysis Account_Api Realtime Read_Api Backtest_Api Application Serial_Codes
    Market_Provider Data_Reset Activity_Api Broker_Catalog
    Table_Models
begin

text \<open>
  AUREXIS: verification of the trading backend

  AUREXIS trades XAUUSD on MetaTrader accounts.  A \<^emph>\<open>brain\<close> turns ticks and closed bars into
  candidate signals; a \<^emph>\<open>risk engine\<close> approves or blocks them; an \<^emph>\<open>execution service\<close> writes
  commands, executions and positions to the database and reconciles them with the broker; a
  \<^emph>\<open>backtest engine\<close> runs the same brain and the same risk engine over recorded ticks.  Terminals
  (MT5 agents) are reached over a WebSocket \<^emph>\<open>link\<close> that brings market data in and carries commands
  out.  Paths below are relative to \<open>src/\<close>.

  Foundations

  \<^item> \<open>Aurexis_Prelude\<close>: errors as values (\<open>pyexc\<close>, \<open>bind_res\<close>, \<open>all_res\<close>), Python slices and
    strings, the named collections of simplification rules.
  \<^item> \<open>Rounding\<close>, \<open>Decimals\<close>: Python's 28-digit decimal context and binary64 as one rounding function
    \<open>rnd\<close> of a radix and a precision (locale \<open>radix\<close>, interpreted for both), with monotonicity, error
    bounds and signs.  Every formula of the program rounds where the program rounds.
  \<^item> \<open>Tenancy\<close>: the contract of operations that belong to a tenant (locales \<open>tenant_isolation\<close> and
    \<open>tenant_store\<close>) and the noninterference it gives over any interleaving, interpreted on the caches of
    the market data service and on the endpoints of accounts; and of operations that anyone may send
    and that act only with the credentials of whom they act for (locale \<open>guarded_isolation\<close>, which gives
    what a run of bystanders leaves alone), interpreted on the agent link.

  Brain (\<open>brain/\<close>)

  \<^item> \<open>Market_Types\<close> (\<open>market_data/types.py\<close>), \<open>Bar_Builder\<close> (\<open>bar_builder.py\<close>), \<open>Multi_Timeframe\<close>
    (\<open>market_data/multi_timeframe.py\<close>): ticks to bars; closed bars are well formed and never repaint;
    the manager is the product of independent builders.
  \<^item> \<open>Indicators\<close>, \<open>Market_Structure\<close>, \<open>Regime\<close>, \<open>Setups\<close>, \<open>Scoring\<close>: the analyses of
    \<open>indicators.py\<close>, \<open>structure.py\<close>, \<open>regime.py\<close>, \<open>strategy/setups.py\<close>, \<open>scoring.py\<close>, with their
    bounds and fail-closed behaviour.
  \<^item> \<open>Brain_Pipeline\<close> (\<open>config.py\<close>, \<open>pipeline.py\<close>): the gates in their order; a direction is proposed
    only after all of them.

  Risk and execution (\<open>backend/\<close>)

  \<^item> \<open>Sizing\<close>, \<open>Risk_Engine\<close> (\<open>risk/\<close>): lot sizes and the ten checks of \<open>RiskEngine.evaluate\<close>.
  \<^item> \<open>Risk_Service\<close> (\<open>services/risk_service.py\<close>): the engine over the stored configuration and
    positions, and the recorded decision.
  \<^item> \<open>Exec_Commands\<close>, \<open>Broker_Simulators\<close>, \<open>Reconciliation\<close> (\<open>execution/\<close>, \<open>simulation/\<close>): the
    command state machine, the simulated brokers behind the locale \<open>broker\<close>, and the comparison of
    positions as an equivalence with its specification.
  \<^item> \<open>Execution_Service\<close> (\<open>services/execution_service.py\<close>): dispatch, agent results, reconciliation
    over tables; the position table refines the broker.
  \<^item> \<open>Trading_Pipeline\<close> (\<open>services/trading_pipeline.py\<close>): one cycle from tick to reconciliation, and
    invariants over any run of cycles.
  \<^item> \<open>Backtest\<close>, \<open>Backtest_Analysis\<close> (\<open>brain/backtest/\<close>): the run as a fold over ticks, its ledger,
    the absence of lookahead, and the analyses built on it.

  Agents (\<open>backend/\<close>)

  \<^item> \<open>Agent_Commands\<close> (\<open>services/agent_commands.py\<close>): the queue of commands of an agent.
  \<^item> \<open>Agent_Protocol\<close> (\<open>ws/agent_protocol.py\<close>): validation of the messages of an agent.
  \<^item> \<open>Market_Data_Service\<close> (\<open>services/market_data_service.py\<close>): ingestion, the caches in front of
    Redis, and the timeframes synthesised from closed bars.
  \<^item> \<open>Agent_Link\<close> (\<open>api/v1/agent_ws.py\<close>, \<open>ws/agent_manager.py\<close>, \<open>api/v1/agent_commands.py\<close>): the
    socket endpoint, the connection registry, delivery, and the REST endpoints, as events of a
    system whose runs keep the history of every command and leave an agent alone that none of them has
    the credentials of.

  Gates, strategy and tenants (\<open>backend/\<close>)

  \<^item> \<open>News\<close> (\<open>brain/news/provider.py\<close>, \<open>services/news_service.py\<close>): the calendar, its synchronisation
    and the protection windows.
  \<^item> \<open>Accounts\<close> (\<open>db/models/account.py\<close>, \<open>services/normalization.py\<close>, \<open>services/broker_adapter.py\<close>):
    account rows, money of cent accounts, broker names and symbols; \<open>Broker_Catalog\<close>: the brokers and
    servers a new account may name.
  \<^item> \<open>Risk_Gate\<close> (\<open>services/risk_gate.py\<close>): the gate in front of every live order, and exactly when it
    answers ALLOW.
  \<^item> \<open>Strategy_Service\<close> (\<open>services/strategy_service.py\<close>, \<open>strategy_worker.py\<close>), \<open>Strategy_Api\<close>
    (\<open>api/v1/strategy_routes.py\<close>, \<open>execution_routes.py\<close>): an evaluation from the stored bars to the
    command of an agent, one signal for a candle, the kill switch.
  \<^item> \<open>Licensing\<close> (\<open>services/license.py\<close>), \<open>Serial_Codes\<close> (\<open>scripts/generate_serial_codes.py\<close>): codes from
    their generation to their single activation.  The locale \<open>row_evolution\<close> carries what no operation
    undoes about a row from one step to a run; it is interpreted on licences and on refresh tokens.
  \<^item> \<open>Auth\<close> (\<open>services/auth.py\<close>, \<open>services/password_reset.py\<close>, \<open>api/v1/auth.py\<close>, \<open>api/deps.py\<close>): tokens,
    sessions and password resets as programs over the tables, with the transaction of a request; the
    locale \<open>session_relation\<close> proves what every such program keeps.
  \<^item> \<open>Account_Api\<close> (\<open>api/v1/accounts.py\<close>, \<open>api/v1/agents.py\<close>, \<open>services/mt5_session.py\<close>): the accounts and
    agents of a user; \<open>tenant_isolation\<close> is interpreted on its requests, with users as tenants.

  Pages and operation

  \<^item> \<open>Live_Events\<close>, \<open>Realtime\<close> (\<open>ws/events.py\<close>, \<open>ws/manager.py\<close>, \<open>api/v1/websocket.py\<close>): the events of the
    browser, and who is handed one in any run of connections and broadcasts.
  \<^item> \<open>Read_Api\<close> (\<open>api/v1/stubs.py\<close>, \<open>api/v1/market_data_routes.py\<close>): charts, lists and summaries; the
    performance page adds up to the cent, the brain page checks no ownership.
  \<^item> \<open>Activity_Api\<close> (\<open>services/audit.py\<close>, \<open>api/v1/activity.py\<close>, \<open>api/v1/news_routes.py\<close>): the audit table, its
    only writer, the page of a user; the news endpoints; a command as its page shows it.
  \<^item> \<open>Backtest_Api\<close> (\<open>api/v1/backtest_routes.py\<close>): the generated series and the handlers around
    \<open>Backtest\<close>; by the wall clock of the risk engine a run of it can trade on nothing but its last
    tick, and on nothing when it takes three seconds.
  \<^item> \<open>Application\<close> (\<open>core/config.py\<close>, \<open>core/redis.py\<close>, \<open>api/v1/health.py\<close>, \<open>main.py\<close>, \<open>migrations/env.py\<close>):
    settings, health, lifecycle; the configurations for which the server and the migrations compute one
    database address, and those where they part.
  \<^item> \<open>Market_Provider\<close> (\<open>brain/market_data/provider.py\<close>): the interface of tick sources as the locale
    \<open>market_provider\<close>, interpreted on the development provider.
  \<^item> \<open>Data_Reset\<close> (\<open>scripts/reset_application_users.py\<close>, the foreign keys of \<open>db/models\<close>): the wiping of the
    tables, with cascading deletions, and why the command as it stands wipes nothing.

  The schema

  \<^item> \<open>Schema\<close>, \<open>Migrations\<close> (\<open>migrations/versions/\<close>), \<open>Table_Models\<close> (\<open>db/models/\<close>, \<open>db/base.py\<close>): the statements
    that change a schema, the eight migrations with their downgrades, the mapped tables.  Every
    migration can be taken back; at the head of the chain every table accepts the rows that its
    mapper accepts, server defaults included; the foreign keys are those of \<open>Data_Reset\<close>.

  Conventions

  Instants are integers of microseconds.  A reading of the clock, a generated identifier, a random
  shuffle and the outcome of a socket send are arguments.  A database is its tables as lists in
  insertion order; a transaction that raises leaves them as they were; transactions are serialised.
  Loops are recursions over lists; no fuel is used anywhere, but for the cascade of a deletion, which
  is repeated once for each table and visits none twice.

  Libraries are parameters: the JWT, bcrypt and digest functions (\<open>Auth\<close>), JSON parsing and the
  conversions of the validation library (\<open>Agent_Protocol\<close>, \<open>Application\<close>), the time parser
  (\<open>Market_Data_Service\<close>), sine and cosine (\<open>Backtest_Api\<close>).

  Not modelled: logging and metrics; texts of responses and log lines; the HTTP and SQL layers
  themselves, beyond the statements of \<open>Schema\<close>; the operational scripts that drive a deployed
  server and print what they see; the web frontend and the terminal's own program, which are not Python.
\<close>

end
